(* ===== verification/Prelude.thy ===== *)
theory Prelude
  imports Main "HOL-Library.Word"
begin

text \<open>
  What every component shares: bytes and big-endian words, Go's \<open>error\<close> values, effectful
  calls as functions over an explicit world, time, and the list operations the Go code writes
  as loops (first match, update by index, removal by index).
\<close>

named_theorems wire_simps "reading back what was written to a packet"
named_theorems step_defs "definitions of the handlers a transition proof unfolds"

section \<open>Errors\<close>

text \<open>
  Go compares errors by identity (\<open>errors.Is\<close>) against package-level sentinels and wraps them
  (\<open>%w\<close>, \<open>errors.Join\<close>). \<open>ErrOutside\<close> is an error value made by code outside the
  repository (an SDK call, the network), which the repository never inspects.
\<close>

datatype err =
    ErrConflict
  | ErrCapacity
  | ErrUnavailable
  | ErrReportOwner
  | ErrNotFound
  | ErrInstanceConflict
  | ErrShuttingDown
  | ErrBusy
  | ErrCanceled
  | ErrOutside nat
  | ErrMsg string
  | ErrWrap string err
  | ErrJoin "err list"

fun err_is :: "err \<Rightarrow> err \<Rightarrow> bool" where
  "err_is (ErrWrap m e) t = (ErrWrap m e = t \<or> err_is e t)"
| "err_is (ErrJoin es) t = (ErrJoin es = t \<or> (\<exists>e\<in>set es. err_is e t))"
| "err_is e t = (e = t)"

lemma err_is_refl [simp]: "err_is e e"
  by (cases e) auto

text \<open>\<open>errors.Join\<close> of no error is \<open>nil\<close>.\<close>

definition join_errors :: "err list \<Rightarrow> err + unit" where
  "join_errors es = (if es = [] then Inr () else Inl (ErrJoin es))"

lemma join_errors_Inr [simp]: "join_errors es = Inr u \<longleftrightarrow> es = []"
  by (simp add: join_errors_def)

section \<open>Effectful calls\<close>

text \<open>
  A call of an interface whose implementation may touch the outside world takes the world and
  returns the next one with its result: \<open>Inl\<close> an error, \<open>Inr\<close> a value. Each call
  is one step at which other clients of the world may have acted.
\<close>

type_synonym ('w, 'a) io = "'w \<Rightarrow> (err + 'a) \<times> 'w"

section \<open>Time\<close>

text \<open>
  A \<open>time.Time\<close> is its distance from the Unix epoch in nanoseconds. The zero value is
  the first instant of year 1; \<open>Unix\<close> floors to seconds; \<open>Sub\<close> and \<open>Since\<close>
  saturate at the range of a 64-bit duration.
\<close>

type_synonym time = int

definition second :: int where "second = 1000000000"
definition minute :: int where "minute = 60 * second"
definition zero_time :: time where "zero_time = - 62135596800 * second"
definition is_zero :: "time \<Rightarrow> bool" where "is_zero t \<longleftrightarrow> t = zero_time"
definition unix :: "time \<Rightarrow> int" where "unix t = t div second"
definition time_sub :: "time \<Rightarrow> time \<Rightarrow> int" where
  "time_sub a b = max (- (2 ^ 63)) (min (2 ^ 63 - 1) (a - b))"

lemmas time_defs = second_def minute_def zero_time_def is_zero_def unix_def time_sub_def

lemma unix_mono: "a \<le> b \<Longrightarrow> unix a \<le> unix b"
  by (simp add: unix_def second_def zdiv_mono1)

section \<open>Lists\<close>

definition remove_at :: "nat \<Rightarrow> 'a list \<Rightarrow> 'a list" where
  "remove_at i xs = take i xs @ drop (Suc i) xs"

lemma set_remove_at: "set (remove_at i xs) \<subseteq> set xs"
  by (auto simp: remove_at_def dest: in_set_takeD in_set_dropD)

lemma map_remove_at: "map f (remove_at i xs) = remove_at i (map f xs)"
  by (simp add: remove_at_def take_map drop_map)

lemma length_remove_at: "i < length xs \<Longrightarrow> length (remove_at i xs) = length xs - 1"
  by (simp add: remove_at_def)

lemma remove_at_split: "i < length xs \<Longrightarrow> xs = take i xs @ xs ! i # drop (Suc i) xs"
  by (rule id_take_nth_drop)

lemma set_split_at: "i < length xs \<Longrightarrow> set xs = insert (xs ! i) (set (remove_at i xs))"
  unfolding remove_at_def by (subst id_take_nth_drop [of i xs]) auto

lemma distinct_remove_at: "distinct xs \<Longrightarrow> distinct (remove_at i xs)"
  by (auto simp: remove_at_def dest: set_take_disj_set_drop_if_distinct [of xs i "Suc i"])

lemma distinct_remove_at_notin:
  assumes "distinct xs" "i < length xs"
  shows "xs ! i \<notin> set (remove_at i xs)"
proof -
  have "distinct (take i xs @ xs ! i # drop (Suc i) xs)"
    using assms remove_at_split by metis
  then show ?thesis by (auto simp: remove_at_def)
qed

lemma sum_list_remove_at:
  fixes xs :: "int list"
  assumes "i < length xs"
  shows "sum_list xs = sum_list (remove_at i xs) + xs ! i"
proof -
  have "sum_list xs = sum_list (take i xs @ xs ! i # drop (Suc i) xs)"
    using assms remove_at_split by metis
  then show ?thesis by (simp add: remove_at_def)
qed

text \<open>The index of the first element that satisfies a test, as a \<open>for\<close> loop with
  \<open>break\<close> finds it.\<close>

fun index_of :: "('a \<Rightarrow> bool) \<Rightarrow> 'a list \<Rightarrow> nat option" where
  "index_of p [] = None"
| "index_of p (x # xs) = (if p x then Some 0 else map_option Suc (index_of p xs))"

lemma index_of_None [simp]: "index_of p xs = None \<longleftrightarrow> (\<forall>x\<in>set xs. \<not> p x)"
  by (induction xs) auto

lemma index_of_Some:
  "index_of p xs = Some i \<Longrightarrow> i < length xs \<and> p (xs ! i) \<and> (\<forall>j<i. \<not> p (xs ! j))"
proof (induction xs arbitrary: i)
  case Nil
  then show ?case by simp
next
  case (Cons x xs)
  show ?case
  proof (cases "p x")
    case True
    then show ?thesis using Cons.prems by auto
  next
    case False
    then obtain k where k: "index_of p xs = Some k" "i = Suc k"
      using Cons.prems by auto
    then show ?thesis using Cons.IH [of k] False by (auto simp: nth_Cons split: nat.splits)
  qed
qed

lemma find_SomeD: "List.find p xs = Some x \<Longrightarrow> x \<in> set xs \<and> p x"
  by (auto simp: find_Some_iff)

lemma find_distinct:
  "distinct (map f xs) \<Longrightarrow> x \<in> set xs \<Longrightarrow> List.find (\<lambda>y. f y = f x) xs = Some x"
  by (induction xs) force+

end
