(* ===== verification/FleetState.thy ===== *)
theory FleetState
  imports GoStrings
begin

text \<open>
  The fleet registry's data (internal/fleet/state.go): resources, the deployed configuration and
  its \<open>Validate\<close>, hosts, servers, worker reports and the registry state. CPU, memory, disk
  and counts are Go \<open>int\<close>s; every sum the code forms has at most 128 validated terms, so
  they are kept as unbounded integers. \<open>Desired\<close> and \<open>Phase\<close> are the source's strings.
\<close>

record resources =
  r_cpu :: int
  r_memory :: int
  r_disk :: int

record fleet_game =
  g_id :: string
  g_name :: string
  g_resources :: resources

record fleet_config =
  fc_release :: string
  fc_workload :: string
  fc_games :: "fleet_game list"
  fc_capacity :: resources
  fc_max_hosts :: int
  fc_max_servers :: int
  fc_launch_template :: string
  fc_launch_version :: string
  fc_idle_minutes :: int
  fc_max_minutes :: int
  fc_deadline :: int

record host =
  h_release :: string
  h_workload :: string
  h_capacity :: resources
  h_id :: string
  h_instance_id :: string
  h_launch_template :: string
  h_launch_version :: string
  h_launch_token :: string
  h_created_at :: int
  h_retiring :: bool
  h_error :: string

record server =
  v_ready_at :: int
  v_error :: string
  v_resources :: resources
  v_id :: string
  v_game :: string
  v_name :: string
  v_host :: string
  v_desired :: string
  v_request_id :: string
  v_requested_at :: int

record report =
  rp_id :: string
  rp_host :: string
  rp_request_id :: string
  rp_phase :: string
  rp_desired :: string
  rp_address :: string
  rp_players :: "int option"
  rp_error :: string
  rp_observed_at :: time

record fleet_state =
  st_revision :: int
  st_hosts :: "host list"
  st_servers :: "server list"
  st_deleting :: bool

text \<open>Go's zero values, which a missing map entry or an empty table reads as.\<close>

definition zero_resources :: resources where
  "zero_resources = \<lparr>r_cpu = 0, r_memory = 0, r_disk = 0\<rparr>"

definition zero_report :: report where
  "zero_report = \<lparr>rp_id = [], rp_host = [], rp_request_id = [], rp_phase = [], rp_desired = [],
     rp_address = [], rp_players = None, rp_error = [], rp_observed_at = zero_time\<rparr>"

definition zero_state :: fleet_state where
  "zero_state = \<lparr>st_revision = 0, st_hosts = [], st_servers = [], st_deleting = False\<rparr>"

section \<open>Identifiers\<close>

definition is_lower_alnum :: "char \<Rightarrow> bool" where
  "is_lower_alnum c \<longleftrightarrow> is_digit c \<or> 97 \<le> (of_char c :: nat) \<and> (of_char c :: nat) \<le> 122"

text \<open>The regular expression \<open>^[a-z0-9][a-z0-9-]{0,63}$\<close>.\<close>

fun valid_id :: "string \<Rightarrow> bool" where
  "valid_id [] = False"
| "valid_id (c # cs) =
     (is_lower_alnum c \<and> length cs \<le> 63 \<and> list_all (\<lambda>x. is_lower_alnum x \<or> x = CHR ''-'') cs)"

text \<open>The regular expression \<open>^[1-9][0-9]*$\<close>.\<close>

fun launch_version :: "string \<Rightarrow> bool" where
  "launch_version [] = False"
| "launch_version (c # cs) = (is_digit c \<and> c \<noteq> CHR ''0'' \<and> list_all is_digit cs)"

section \<open>Configuration\<close>

definition en_dash :: string where
  "en_dash = [CHR 0xE2, CHR 0x80, CHR 0x93]"

fun validate_games :: "resources \<Rightarrow> string set \<Rightarrow> fleet_game list \<Rightarrow> err + unit" where
  "validate_games cap seen [] = Inr ()"
| "validate_games cap seen (g # gs) =
     (if \<not> valid_id (g_id g) \<or> g_id g \<in> seen \<or> trim_space (g_name g) = [] \<or> 80 < length (g_name g)
      then Inl (ErrMsg ''fleet catalog requires unique IDs and game names'')
      else (let r = g_resources g in
        if r_cpu r \<le> 0 \<or> r_memory r \<le> 0 \<or> r_disk r \<le> 0 \<or>
           r_cpu cap < r_cpu r \<or> r_memory cap < r_memory r \<or> r_disk cap < r_disk r
        then Inl (ErrMsg (''game '' @ g_id g @
                    '' must have positive resource requirements that fit one host''))
        else validate_games cap (insert (g_id g) seen) gs))"

definition validate :: "fleet_config \<Rightarrow> err + unit" where
  "validate c =
     (if fc_max_hosts c < 1 \<or> 16 < fc_max_hosts c \<or> fc_max_servers c < 1 \<or> 128 < fc_max_servers c
      then Inl (ErrMsg (''fleet limits require 1'' @ en_dash @ ''16 hosts and 1'' @ en_dash @
                        ''128 saved servers''))
      else if r_cpu (fc_capacity c) \<le> 0 \<or> r_memory (fc_capacity c) \<le> 0 \<or> r_disk (fc_capacity c) \<le> 0
      then Inl (ErrMsg ''host CPU, memory, and disk capacity must be positive'')
      else if fc_launch_template c = [] \<or> \<not> launch_version (fc_launch_version c)
      then Inl (ErrMsg ''fleet requires a launch template and a pinned numeric version'')
      else if fc_idle_minutes c < 0 \<or> 10080 < fc_idle_minutes c \<or> fc_max_minutes c < 0 \<or>
              10080 < fc_max_minutes c \<or> fc_deadline c < 0
      then Inl (ErrMsg ''invalid fleet runtime limits'')
      else if fc_games c = []
      then Inl (ErrMsg ''fleet catalog is empty'')
      else validate_games (fc_capacity c) {} (fc_games c))"

section \<open>The storage interface\<close>

text \<open>
  Go's interface \<open>Store\<close>: the six calls through which the scheduler, the page and the worker
  reach the registry.
\<close>

record 'w store =
  sto_load :: "('w, fleet_state) io"
  sto_save :: "fleet_state \<Rightarrow> int \<Rightarrow> ('w, unit) io"
  sto_reports :: "('w, report list) io"
  sto_publish :: "report \<Rightarrow> ('w, unit) io"
  sto_tombstoned :: "string \<Rightarrow> ('w, bool) io"
  sto_forget :: "fleet_state \<Rightarrow> int \<Rightarrow> string \<Rightarrow> ('w, unit) io"

section \<open>Resource accounting\<close>

definition fits :: "resources \<Rightarrow> resources \<Rightarrow> resources \<Rightarrow> bool" where
  "fits capacity u required \<longleftrightarrow>
     r_cpu u + r_cpu required \<le> r_cpu capacity \<and>
     r_memory u + r_memory required \<le> r_memory capacity \<and>
     r_disk u + r_disk required \<le> r_disk capacity"

fun used_servers :: "server list \<Rightarrow> string \<Rightarrow> resources" where
  "used_servers [] hid = zero_resources"
| "used_servers (v # vs) hid =
     (let r = used_servers vs hid in
      if v_host v = hid
      then \<lparr>r_cpu = r_cpu r + r_cpu (v_resources v),
            r_memory = r_memory r + r_memory (v_resources v),
            r_disk = r_disk r + r_disk (v_resources v)\<rparr>
      else r)"

definition used :: "fleet_state \<Rightarrow> string \<Rightarrow> resources" where
  "used s hid = used_servers (st_servers s) hid"

abbreviation res_le :: "resources \<Rightarrow> resources \<Rightarrow> bool" where
  "res_le a b \<equiv> r_cpu a \<le> r_cpu b \<and> r_memory a \<le> r_memory b \<and> r_disk a \<le> r_disk b"

definition res_add :: "resources \<Rightarrow> resources \<Rightarrow> resources" where
  "res_add a b = \<lparr>r_cpu = r_cpu a + r_cpu b, r_memory = r_memory a + r_memory b,
                  r_disk = r_disk a + r_disk b\<rparr>"

abbreviation res_nonneg :: "resources \<Rightarrow> bool" where
  "res_nonneg r \<equiv> 0 \<le> r_cpu r \<and> 0 \<le> r_memory r \<and> 0 \<le> r_disk r"

lemma res_add_sel [simp]:
  "r_cpu (res_add a b) = r_cpu a + r_cpu b"
  "r_memory (res_add a b) = r_memory a + r_memory b"
  "r_disk (res_add a b) = r_disk a + r_disk b"
  by (simp_all add: res_add_def)

lemma zero_resources_sel [simp]:
  "r_cpu zero_resources = 0" "r_memory zero_resources = 0" "r_disk zero_resources = 0"
  by (simp_all add: zero_resources_def)

lemma res_add_zero [simp]: "res_add zero_resources r = r" "res_add r zero_resources = r"
  by (simp_all add: res_add_def)

lemma res_add_commute: "res_add a b = res_add b a"
  and res_add_assoc: "res_add (res_add a b) c = res_add a (res_add b c)"
  by (simp_all add: res_add_def)

lemma used_servers_append:
  "used_servers (vs @ ws) hid = res_add (used_servers vs hid) (used_servers ws hid)"
  by (induction vs) (auto simp: Let_def res_add_def)

lemma used_servers_map:
  assumes "\<And>v. v_host (f v) = v_host v" "\<And>v. v_resources (f v) = v_resources v"
  shows "used_servers (map f vs) hid = used_servers vs hid"
  by (induction vs) (simp_all add: assms Let_def)

lemma used_servers_nonneg:
  "\<forall>v\<in>set vs. res_nonneg (v_resources v) \<Longrightarrow> res_nonneg (used_servers vs hid)"
  by (induction vs) (auto simp: Let_def)

lemma used_servers_none: "\<forall>v\<in>set vs. v_host v \<noteq> hid \<Longrightarrow> used_servers vs hid = zero_resources"
  by (induction vs) auto

lemma used_servers_remove_at:
  assumes "\<forall>v\<in>set vs. res_nonneg (v_resources v)"
  shows "res_le (used_servers (remove_at i vs) hid) (used_servers vs hid)"
proof (cases "i < length vs")
  case True
  define a where "a = take i vs"
  define b where "b = drop (Suc i) vs"
  have vs: "vs = a @ vs ! i # b" using True by (simp add: a_def b_def id_take_nth_drop)
  have "res_nonneg (v_resources (vs ! i))" using assms True by simp
  moreover have "used_servers vs hid =
      res_add (used_servers a hid) (used_servers (vs ! i # b) hid)"
    by (subst vs) (rule used_servers_append)
  ultimately show ?thesis
    by (simp add: remove_at_def used_servers_append a_def b_def Let_def)
next
  case False
  then show ?thesis by (simp add: remove_at_def)
qed

lemma validate_games_sound:
  "validate_games cap seen gs = Inr () \<Longrightarrow>
     (\<forall>g\<in>set gs. valid_id (g_id g) \<and> g_id g \<notin> seen \<and> res_le (g_resources g) cap \<and>
        0 < r_cpu (g_resources g) \<and> 0 < r_memory (g_resources g) \<and> 0 < r_disk (g_resources g)) \<and>
     distinct (map g_id gs)"
proof (induction gs arbitrary: seen)
  case Nil
  then show ?case by simp
next
  case (Cons g gs)
  then have rest: "validate_games cap (insert (g_id g) seen) gs = Inr ()"
    and g: "valid_id (g_id g)" "g_id g \<notin> seen" "res_le (g_resources g) cap"
      "0 < r_cpu (g_resources g)" "0 < r_memory (g_resources g)" "0 < r_disk (g_resources g)"
    by (auto simp: Let_def split: if_splits)
  from Cons.IH [OF rest] g show ?case by auto
qed

lemma validate_games_part: "validate c = Inr () \<Longrightarrow> validate_games (fc_capacity c) {} (fc_games c) = Inr ()"
  by (simp add: validate_def split: if_splits)

text \<open>All that keeping the registry sound asks of a configuration; a validated one has it, and the zero value
  that only cleans up.\<close>

definition sound_config :: "fleet_config \<Rightarrow> bool" where
  "sound_config c \<longleftrightarrow> fc_max_hosts c \<le> 16 \<and>
     (\<forall>g\<in>set (fc_games c). res_nonneg (g_resources g) \<and> res_le (g_resources g) (fc_capacity c))"

lemma validate_sound_config:
  assumes "validate c = Inr ()"
  shows "sound_config c"
proof -
  have "fc_max_hosts c \<le> 16" using assms by (simp add: validate_def split: if_splits)
  then show ?thesis
    using validate_games_sound [OF validate_games_part [OF assms]] by (fastforce simp: sound_config_def)
qed

end
