(* ===== verification/FleetTable.thy ===== *)
theory FleetTable
  imports FleetState "HOL-Library.Char_ord" "HOL-Library.List_Lexorder"
begin

text \<open>
  The DynamoDB implementation of the fleet's storage (internal/fleet/table.go). The service's
  client is a parameter: a record \<open>dynamo\<close> of the four calls the code makes. So is the JSON
  encoding of the two documents, whose texts are the values of a type \<open>'t\<close>. The rest is the
  source: keys, attributes, condition expressions, size limits, the retry loop of the batch read,
  and the reading of a failed transaction.
\<close>

section \<open>The DynamoDB client and the document encoding\<close>

text \<open>
  A string attribute is a plain string or the text of a JSON document. An item is the list of its
  attributes, empty when there is no item.
\<close>

datatype 't attr = AttrS string | AttrN string | AttrDoc 't

type_synonym 't item = "(string \<times> 't attr) list"

datatype 't cond =
    CondTrue
  | NotExists string
  | AttrIs string "'t attr"
  | CondOr "'t cond" "'t cond"

fun holds :: "'t cond \<Rightarrow> 't item \<Rightarrow> bool" where
  "holds CondTrue it = True"
| "holds (NotExists a) it = (map_of it a = None)"
| "holds (AttrIs a v) it = (map_of it a = Some v)"
| "holds (CondOr c d) it = (holds c it \<or> holds d it)"

record 't put =
  pt_key :: string
  pt_item :: "'t item"
  pt_cond :: "'t cond"

datatype 't txop = TxPut "'t put" | TxDelete string | TxCheck string "'t cond"

datatype dyn_err = ConditionFailed | TxCanceled "string list" | DynOther err

record ('w, 't) dynamo =
  dy_get :: "string \<Rightarrow> ('w, 't item) io"
  dy_put :: "'t put \<Rightarrow> 'w \<Rightarrow> (dyn_err + unit) \<times> 'w"
  dy_transact :: "'t txop list \<Rightarrow> 'w \<Rightarrow> (dyn_err + unit) \<times> 'w"
  dy_batch :: "string list \<Rightarrow> ('w, 't item list \<times> string list) io"
  dy_pause :: "nat \<Rightarrow> ('w, unit) io"

record 't codec =
  cd_state :: "fleet_state \<Rightarrow> 't"
  cd_unstate :: "'t \<Rightarrow> err + fleet_state"
  cd_report :: "report \<Rightarrow> err + 't"
  cd_unreport :: "'t \<Rightarrow> err + report"
  cd_size :: "'t \<Rightarrow> nat"

record ('w, 't) table =
  tb_client :: "('w, 't) dynamo"
  tb_codec :: "'t codec"

text \<open>The error as the caller of the client sees it, when the code passes it on.\<close>

fun dyn_error :: "dyn_err \<Rightarrow> err" where
  "dyn_error ConditionFailed = ErrMsg ''ConditionalCheckFailedException''"
| "dyn_error (TxCanceled codes) = ErrMsg ''TransactionCanceledException''"
| "dyn_error (DynOther e) = e"

section \<open>Keys and limits\<close>

definition registry_key :: string where
  "registry_key = ''fleet/state''"

definition max_state_bytes :: nat where
  "max_state_bytes = 300 * 1024"

definition tombstone_key :: "string \<Rightarrow> string" where
  "tombstone_key i = ''tombstone/'' @ i"

definition report_key :: "string \<Rightarrow> string" where
  "report_key i = ''report/'' @ i"

fun parse_doc :: "('t \<Rightarrow> err + 'a) \<Rightarrow> 't attr option \<Rightarrow> err + 'a" where
  "parse_doc f (Some (AttrDoc t)) = f t"
| "parse_doc f (Some (AttrS s)) = Inl (ErrMsg ''invalid JSON'')"
| "parse_doc f (Some (AttrN s)) = Inl (ErrMsg ''unexpected end of JSON input'')"
| "parse_doc f None = Inl (ErrMsg ''unexpected end of JSON input'')"

section \<open>Load\<close>

definition decode_state :: "'t codec \<Rightarrow> 't item \<Rightarrow> err + fleet_state" where
  "decode_state c it =
     (if it = [] then Inr zero_state
      else (case parse_doc (cd_unstate c) (map_of it ''state'') of
              Inl e \<Rightarrow> Inl (ErrWrap ''decode fleet state: '' e)
            | Inr s \<Rightarrow>
                (case map_of it ''revision'' of
                   Some (AttrN n) \<Rightarrow>
                     if n \<noteq> show_int (st_revision s) \<or> st_revision s < 1
                     then Inl (ErrMsg ''fleet state revision is inconsistent'')
                     else Inr s
                 | _ \<Rightarrow> Inl (ErrMsg ''fleet state revision is inconsistent''))))"

definition load :: "('w, 't) table \<Rightarrow> ('w, fleet_state) io" where
  "load t w =
     (case dy_get (tb_client t) registry_key w of
        (Inl e, w) \<Rightarrow> (Inl e, w)
      | (Inr it, w) \<Rightarrow> (decode_state (tb_codec t) it, w))"

section \<open>Save and Forget\<close>

definition state_put :: "('w, 't) table \<Rightarrow> fleet_state \<Rightarrow> int \<Rightarrow> err + 't put" where
  "state_put t s previous =
     (if previous < 0 \<or> previous = 2 ^ 63 - 1 \<or> 16 < length (st_hosts s) \<or> 128 < length (st_servers s)
      then Inl (ErrMsg ''fleet state exceeds revision or allocation limits'')
      else (let s = s\<lparr>st_revision := previous + 1\<rparr>;
                data = cd_state (tb_codec t) s
        in if max_state_bytes < cd_size (tb_codec t) data
           then Inl (ErrMsg ''fleet state exceeds 307200 bytes'')
           else Inr \<lparr>pt_key = registry_key,
                     pt_item = [(''id'', AttrS registry_key),
                                (''revision'', AttrN (show_int (st_revision s))),
                                (''state'', AttrDoc data)],
                     pt_cond = (if previous = 0 then NotExists ''id''
                                else AttrIs ''revision'' (AttrN (show_int previous)))\<rparr>))"

definition save :: "('w, 't) table \<Rightarrow> fleet_state \<Rightarrow> int \<Rightarrow> ('w, unit) io" where
  "save t s previous w =
     (case state_put t s previous of
        Inl e \<Rightarrow> (Inl e, w)
      | Inr input \<Rightarrow>
          (case dy_put (tb_client t) input w of
             (Inr u, w) \<Rightarrow> (Inr (), w)
           | (Inl e, w) \<Rightarrow> (if e = ConditionFailed then (Inl ErrConflict, w) else (Inl (dyn_error e), w))))"

definition tombstoned :: "('w, 't) table \<Rightarrow> string \<Rightarrow> ('w, bool) io" where
  "tombstoned t i w =
     (case dy_get (tb_client t) (tombstone_key i) w of
        (Inl e, w) \<Rightarrow> (Inl e, w)
      | (Inr it, w) \<Rightarrow> (Inr (it \<noteq> []), w))"

fun transaction_condition :: "dyn_err \<Rightarrow> nat \<Rightarrow> bool" where
  "transaction_condition (TxCanceled codes) i =
     (i < length codes \<and> codes ! i = ''ConditionalCheckFailed'')"
| "transaction_condition _ i = False"

definition forget_ops :: "'t put \<Rightarrow> string \<Rightarrow> 't txop list" where
  "forget_ops input i =
     [TxPut input,
      TxPut \<lparr>pt_key = tombstone_key i, pt_item = [(''id'', AttrS (tombstone_key i))], pt_cond = CondTrue\<rparr>,
      TxDelete (report_key i)]"

definition forget :: "('w, 't) table \<Rightarrow> fleet_state \<Rightarrow> int \<Rightarrow> string \<Rightarrow> ('w, unit) io" where
  "forget t s previous i w =
     (if \<not> valid_id i then (Inl (ErrMsg ''invalid forgotten server ID''), w)
      else if (\<exists>v\<in>set (st_servers s). v_id v = i)
      then (Inl (ErrMsg ''forgotten server remains in fleet state''), w)
      else (case state_put t s previous of
              Inl e \<Rightarrow> (Inl e, w)
            | Inr input \<Rightarrow>
                (case dy_transact (tb_client t) (forget_ops input i) w of
                   (Inr u, w) \<Rightarrow> (Inr (), w)
                 | (Inl e, w) \<Rightarrow>
                     (if transaction_condition e 0 then (Inl ErrConflict, w)
                      else (Inl (dyn_error e), w)))))"

section \<open>Reports and Publish\<close>

fun decode_reports :: "'t codec \<Rightarrow> 't item list \<Rightarrow> err + report list" where
  "decode_reports c [] = Inr []"
| "decode_reports c (it # its) =
     (case parse_doc (cd_unreport c) (map_of it ''report'') of
        Inl e \<Rightarrow> Inl (ErrWrap ''decode fleet report: '' e)
      | Inr r \<Rightarrow> (case decode_reports c its of Inl e \<Rightarrow> Inl e | Inr rs \<Rightarrow> Inr (r # rs)))"

text \<open>One batch: \<open>left\<close> attempts remain of three, with a pause before the second and third.\<close>

fun fetch_batch :: "('w, 't) table \<Rightarrow> nat \<Rightarrow> string list \<Rightarrow> report list \<Rightarrow> ('w, report list) io" where
  "fetch_batch t 0 pending acc w =
     (if pending = [] then (Inr acc, w)
      else (Inl (ErrMsg ''fleet report read remained incomplete after three attempts''), w))"
| "fetch_batch t (Suc left) pending acc w =
     (if pending = [] then (Inr acc, w)
      else (case (if left = 2 then (Inr (), w) else dy_pause (tb_client t) (2 - left) w) of
              (Inl e, w) \<Rightarrow> (Inl e, w)
            | (Inr u, w) \<Rightarrow>
                (case dy_batch (tb_client t) pending w of
                   (Inl e, w) \<Rightarrow> (Inl e, w)
                 | (Inr (items, rest), w) \<Rightarrow>
                     (case decode_reports (tb_codec t) items of
                        Inl e \<Rightarrow> (Inl e, w)
                      | Inr rs \<Rightarrow> fetch_batch t left rest (acc @ rs) w))))"

function fetch_all :: "('w, 't) table \<Rightarrow> string list \<Rightarrow> report list \<Rightarrow> ('w, report list) io" where
  "fetch_all t keys acc w =
     (if keys = [] then (Inr acc, w)
      else (case fetch_batch t 3 (take 100 keys) acc w of
              (Inl e, w) \<Rightarrow> (Inl e, w)
            | (Inr acc, w) \<Rightarrow> fetch_all t (drop 100 keys) acc w))"
  by pat_completeness auto
termination
  by (relation "measure (\<lambda>(t, keys, acc, w). length keys)") auto

declare fetch_all.simps [simp del]

definition reports :: "('w, 't) table \<Rightarrow> ('w, report list) io" where
  "reports t w =
     (case load t w of
        (Inl e, w) \<Rightarrow> (Inl e, w)
      | (Inr s, w) \<Rightarrow>
          (case fetch_all t (map (\<lambda>v. report_key (v_id v)) (st_servers s)) [] w of
             (Inl e, w) \<Rightarrow> (Inl e, w)
           | (Inr rs, w) \<Rightarrow> (Inr (sort_key rp_id rs), w)))"

definition publish_ops :: "report \<Rightarrow> 't \<Rightarrow> 't txop list" where
  "publish_ops r data =
     [TxCheck (tombstone_key (rp_id r)) (NotExists ''id''),
      TxPut \<lparr>pt_key = report_key (rp_id r),
             pt_item = [(''id'', AttrS (report_key (rp_id r))), (''host'', AttrS (rp_host r)),
                        (''report'', AttrDoc data)],
             pt_cond = CondOr (NotExists ''host'') (AttrIs ''host'' (AttrS (rp_host r)))\<rparr>]"

definition publish :: "('w, 't) table \<Rightarrow> report \<Rightarrow> ('w, unit) io" where
  "publish t r w =
     (if \<not> valid_id (rp_id r) \<or> \<not> valid_id (rp_host r) \<or> rp_request_id r = [] \<or> is_zero (rp_observed_at r)
      then (Inl (ErrMsg ''report requires server, host, request, and observation time''), w)
      else (case cd_report (tb_codec t) r of
              Inl e \<Rightarrow> (Inl e, w)
            | Inr data \<Rightarrow>
                if 16 * 1024 < cd_size (tb_codec t) data
                then (Inl (ErrMsg ''fleet report exceeds 16 KiB''), w)
                else (case dy_transact (tb_client t) (publish_ops r data) w of
                        (Inr u, w) \<Rightarrow> (Inr (), w)
                      | (Inl e, w) \<Rightarrow>
                          (if transaction_condition e 0 then (Inr (), w)
                           else if transaction_condition e 1 then (Inl ErrReportOwner, w)
                           else (Inl (dyn_error e), w)))))"

text \<open>The table as a \<open>Store\<close>.\<close>

definition table_store :: "('w, 't) table \<Rightarrow> 'w store" where
  "table_store t =
     \<lparr>sto_load = load t, sto_save = save t, sto_reports = reports t, sto_publish = publish t,
      sto_tombstoned = tombstoned t, sto_forget = forget t\<rparr>"

end
