(* ===== verification/FleetRegistry.thy ===== *)
theory FleetRegistry
  imports FleetTable
begin

text \<open>
  What the scheduler and the worker rely on: a registry that is one versioned document with a set
  of permanent tombstones and the workers' reports, changed only by compare-and-swap. The locale
  \<open>fleet_store\<close> is that contract for any implementation of Go's \<open>Store\<close> interface
  over a world in which other clients act between any two calls (the relation \<open>env\<close>).
  The locale \<open>dynamo_service\<close> is DynamoDB's documented behaviour: consistent reads, atomic
  conditional writes, all-or-nothing transactions, and no promise about a write whose call failed:
  it may have taken effect all the same (a client that retries a write whose answer was lost sees
  its own write as a conflict). The \<open>sublocale\<close> proves that the model of
  internal/fleet/table.go turns the second into the first.
\<close>

section \<open>The registry and its versions\<close>

record registry =
  rg_state :: fleet_state
  rg_tombs :: "string set"
  rg_reports :: "string \<Rightarrow> report option"

abbreviation rg_revision :: "registry \<Rightarrow> int" where
  "rg_revision m \<equiv> st_revision (rg_state m)"

definition commit :: "fleet_state \<Rightarrow> int \<Rightarrow> registry \<Rightarrow> registry" where
  "commit s p m = m\<lparr>rg_state := s\<lparr>st_revision := p + 1\<rparr>\<rparr>"

definition commit_forget :: "fleet_state \<Rightarrow> int \<Rightarrow> string \<Rightarrow> registry \<Rightarrow> registry" where
  "commit_forget s p i m =
     m\<lparr>rg_state := s\<lparr>st_revision := p + 1\<rparr>, rg_tombs := insert i (rg_tombs m),
       rg_reports := (rg_reports m)(i := None)\<rparr>"

definition commit_report :: "report \<Rightarrow> registry \<Rightarrow> registry" where
  "commit_report r m = m\<lparr>rg_reports := (rg_reports m)(rp_id r \<mapsto> r)\<rparr>"

lemmas commit_defs = commit_def commit_forget_def commit_report_def

definition within_limits :: "fleet_state \<Rightarrow> bool" where
  "within_limits s \<longleftrightarrow> length (st_hosts s) \<le> 16 \<and> length (st_servers s) \<le> 128"

text \<open>A write that took effect at one instant \<open>m\<close> between the call and its return.\<close>

definition takes_effect ::
  "('r \<Rightarrow> 'r \<Rightarrow> bool) \<Rightarrow> ('r \<Rightarrow> bool) \<Rightarrow> ('r \<Rightarrow> 'r) \<Rightarrow> 'r \<Rightarrow> 'r \<Rightarrow> bool" where
  "takes_effect env ok f a b \<longleftrightarrow> (\<exists>m. env a m \<and> ok m \<and> env (f m) b)"

lemma takes_effectI: "env a m \<Longrightarrow> ok m \<Longrightarrow> env (f m) b \<Longrightarrow> takes_effect env ok f a b"
  by (auto simp: takes_effect_def)

lemma takes_effectE [elim]:
  assumes "takes_effect env ok f a b"
  obtains m where "env a m" "ok m" "env (f m) b"
  using assms by (auto simp: takes_effect_def)

section \<open>The contract of a store\<close>

locale fleet_store =
  fixes st :: "'w store"
    and invar :: "'w \<Rightarrow> bool"
    and reg :: "'w \<Rightarrow> registry"
    and env :: "registry \<Rightarrow> registry \<Rightarrow> bool"
  assumes env_refl: "env m m"
    and env_trans: "env a b \<Longrightarrow> env b c \<Longrightarrow> env a c"
    and load_frame: "invar w \<Longrightarrow> sto_load st w = (rl, w') \<Longrightarrow> invar w' \<and> env (reg w) (reg w')"
    and load_state: "invar w \<Longrightarrow> sto_load st w = (Inr s, w') \<Longrightarrow> s = rg_state (reg w')"
    and save_invar: "invar w \<Longrightarrow> sto_save st s p w = (r, w') \<Longrightarrow> invar w'"
    and save_ok: "invar w \<Longrightarrow> sto_save st s p w = (Inr u, w') \<Longrightarrow>
      takes_effect env (\<lambda>m. rg_revision m = p \<and> within_limits s) (commit s p) (reg w) (reg w')"
    and save_error: "invar w \<Longrightarrow> sto_save st s p w = (Inl e, w') \<Longrightarrow>
      env (reg w) (reg w') \<or>
      takes_effect env (\<lambda>m. rg_revision m = p \<and> within_limits s) (commit s p) (reg w) (reg w')"
    and forget_invar: "invar w \<Longrightarrow> sto_forget st s p i w = (r, w') \<Longrightarrow> invar w'"
    and forget_ok: "invar w \<Longrightarrow> sto_forget st s p i w = (Inr u, w') \<Longrightarrow>
      takes_effect env
        (\<lambda>m. rg_revision m = p \<and> within_limits s \<and> valid_id i \<and> i \<notin> v_id ` set (st_servers s))
        (commit_forget s p i) (reg w) (reg w')"
    and forget_error: "invar w \<Longrightarrow> sto_forget st s p i w = (Inl e, w') \<Longrightarrow>
      env (reg w) (reg w') \<or>
      takes_effect env
        (\<lambda>m. rg_revision m = p \<and> within_limits s \<and> valid_id i \<and> i \<notin> v_id ` set (st_servers s))
        (commit_forget s p i) (reg w) (reg w')"
    and tombstoned_frame: "invar w \<Longrightarrow> sto_tombstoned st i w = (rb, w') \<Longrightarrow> invar w' \<and> env (reg w) (reg w')"
    and tombstoned_value: "invar w \<Longrightarrow> sto_tombstoned st i w = (Inr gone, w') \<Longrightarrow>
      gone = (i \<in> rg_tombs (reg w'))"
    and reports_frame: "invar w \<Longrightarrow> sto_reports st w = (rr, w') \<Longrightarrow> invar w' \<and> env (reg w) (reg w')"
    and publish_invar: "invar w \<Longrightarrow> sto_publish st x w = (r, w') \<Longrightarrow> invar w'"
    and publish_effect: "invar w \<Longrightarrow> sto_publish st x w = (r, w') \<Longrightarrow>
      env (reg w) (reg w') \<or>
      takes_effect env
        (\<lambda>m. rp_id x \<notin> rg_tombs m \<and>
             (\<forall>y. rg_reports m (rp_id x) = Some y \<longrightarrow> rp_host y = rp_host x))
        (commit_report x) (reg w) (reg w')"


section \<open>DynamoDB\<close>

type_synonym 't tbl = "string \<Rightarrow> 't item"

fun apply_op :: "'t txop \<Rightarrow> 't tbl \<Rightarrow> 't tbl" where
  "apply_op (TxPut p) m = m(pt_key p := pt_item p)"
| "apply_op (TxDelete k) m = m(k := [])"
| "apply_op (TxCheck k c) m = m"

fun op_holds :: "'t tbl \<Rightarrow> 't txop \<Rightarrow> bool" where
  "op_holds m (TxPut p) = holds (pt_cond p) (m (pt_key p))"
| "op_holds m (TxDelete k) = True"
| "op_holds m (TxCheck k c) = holds c (m k)"

locale dynamo_service =
  fixes client :: "('w, 't) dynamo"
    and tbl :: "'w \<Rightarrow> 't tbl"
    and tenv :: "'t tbl \<Rightarrow> 't tbl \<Rightarrow> bool"
  assumes tenv_refl: "tenv a a"
    and tenv_trans: "tenv a b \<Longrightarrow> tenv b c \<Longrightarrow> tenv a c"
    and get_frame: "dy_get client k w = (r, w') \<Longrightarrow> tenv (tbl w) (tbl w')"
    and get_item: "dy_get client k w = (Inr it, w') \<Longrightarrow> it = tbl w' k"
    and put_done: "dy_put client p w = (Inr u, w') \<Longrightarrow>
      takes_effect tenv (\<lambda>m. holds (pt_cond p) (m (pt_key p))) (apply_op (TxPut p)) (tbl w) (tbl w')"
    and put_failed: "dy_put client p w = (Inl e, w') \<Longrightarrow>
      tenv (tbl w) (tbl w') \<or>
      takes_effect tenv (\<lambda>m. holds (pt_cond p) (m (pt_key p))) (apply_op (TxPut p)) (tbl w) (tbl w')"
    and transact_done: "dy_transact client ops w = (Inr u, w') \<Longrightarrow>
      takes_effect tenv (\<lambda>m. \<forall>x\<in>set ops. op_holds m x) (fold apply_op ops) (tbl w) (tbl w')"
    and transact_failed: "dy_transact client ops w = (Inl e, w') \<Longrightarrow>
      tenv (tbl w) (tbl w') \<or>
      takes_effect tenv (\<lambda>m. \<forall>x\<in>set ops. op_holds m x) (fold apply_op ops) (tbl w) (tbl w')"
    and batch_frame: "dy_batch client ks w = (q, w') \<Longrightarrow> tenv (tbl w) (tbl w')"
    and pause_frame: "dy_pause client n w = (z, w') \<Longrightarrow> tenv (tbl w) (tbl w')"

section \<open>The table as a registry\<close>

text \<open>
  A table is well formed when every item carries its key, the registry item is absent or carries a
  document whose revision agrees with the item's, and a report stands under its own server with its
  own host: what every write of the code leaves.
\<close>

definition table_wf :: "'t codec \<Rightarrow> 't tbl \<Rightarrow> bool" where
  "table_wf c m \<longleftrightarrow>
     (\<forall>k. m k = [] \<or> map_of (m k) ''id'' \<noteq> None) \<and>
     (\<exists>s. decode_state c (m registry_key) = Inr s) \<and>
     (\<forall>i r. parse_doc (cd_unreport c) (map_of (m (report_key i)) ''report'') = Inr r \<longrightarrow>
        rp_id r = i \<and> map_of (m (report_key i)) ''host'' = Some (AttrS (rp_host r)))"

definition table_abs :: "'t codec \<Rightarrow> 't tbl \<Rightarrow> registry" where
  "table_abs c m =
     \<lparr>rg_state = (case decode_state c (m registry_key) of Inr s \<Rightarrow> s | Inl _ \<Rightarrow> zero_state),
      rg_tombs = {i. m (tombstone_key i) \<noteq> []},
      rg_reports = (\<lambda>i. case parse_doc (cd_unreport c) (map_of (m (report_key i)) ''report'') of
                           Inr r \<Rightarrow> Some r | Inl _ \<Rightarrow> None)\<rparr>"

lemma key_distinct [simp]:
  "registry_key \<noteq> tombstone_key i" "tombstone_key i \<noteq> registry_key"
  "registry_key \<noteq> report_key i" "report_key i \<noteq> registry_key"
  "tombstone_key i \<noteq> report_key j" "report_key j \<noteq> tombstone_key i"
  "tombstone_key i = tombstone_key j \<longleftrightarrow> i = j" "report_key i = report_key j \<longleftrightarrow> i = j"
  by (simp_all add: registry_key_def tombstone_key_def report_key_def)

definition codec_ok :: "'t codec \<Rightarrow> bool" where
  "codec_ok c \<longleftrightarrow> (\<forall>s. cd_unstate c (cd_state c s) = Inr s) \<and>
                (\<forall>r d. cd_report c r = Inr d \<longrightarrow> cd_unreport c d = Inr r)"

lemma state_put_Inr:
  assumes "state_put t s p = Inr input"
  shows "pt_key input = registry_key"
    and "0 \<le> p" "within_limits s"
    and "pt_item input = [(''id'', AttrS registry_key), (''revision'', AttrN (show_int (p + 1))),
           (''state'', AttrDoc (cd_state (tb_codec t) (s\<lparr>st_revision := p + 1\<rparr>)))]"
    and "pt_cond input = (if p = 0 then NotExists ''id'' else AttrIs ''revision'' (AttrN (show_int p)))"
  using assms by (auto simp: state_put_def within_limits_def Let_def split: if_splits)

text \<open>The condition of a write holds exactly at the version the caller loaded.\<close>

lemma state_put_condition:
  assumes wf: "table_wf (tb_codec t) m" and input: "state_put t s p = Inr input"
    and holds: "holds (pt_cond input) (m registry_key)"
  shows "rg_revision (table_abs (tb_codec t) m) = p"
proof (cases "p = 0")
  case True
  then have "m registry_key = []"
    using wf holds state_put_Inr(5) [OF input] by (fastforce simp: table_wf_def)
  then show ?thesis using True by (simp add: table_abs_def decode_state_def zero_state_def)
next
  case False
  then have rev: "map_of (m registry_key) ''revision'' = Some (AttrN (show_int p))"
    using holds state_put_Inr(5) [OF input] by simp
  obtain x where x: "decode_state (tb_codec t) (m registry_key) = Inr x"
    using wf by (auto simp: table_wf_def)
  have "m registry_key \<noteq> []" using rev by auto
  then have "st_revision x = p"
    using x rev by (auto simp: decode_state_def split: sum.splits if_splits)
  then show ?thesis using x by (simp add: table_abs_def)
qed

lemma decode_state_put:
  assumes "codec_ok (tb_codec t)" "state_put t s p = Inr input"
  shows "decode_state (tb_codec t) (pt_item input) = Inr (s\<lparr>st_revision := p + 1\<rparr>)"
  using assms(1) state_put_Inr [OF assms(2)] by (simp add: decode_state_def codec_ok_def)

lemma table_put_wf:
  assumes "codec_ok (tb_codec t)" "state_put t s p = Inr input" "table_wf (tb_codec t) m"
  shows "table_wf (tb_codec t) (m(registry_key := pt_item input))"
  using assms decode_state_put [OF assms(1,2)] state_put_Inr(4) [OF assms(2)]
  by (simp add: table_wf_def)

lemma table_put_abs:
  assumes "codec_ok (tb_codec t)" "state_put t s p = Inr input"
  shows "table_abs (tb_codec t) (m(registry_key := pt_item input)) =
         commit s p (table_abs (tb_codec t) m)"
  using decode_state_put [OF assms] by (simp add: table_abs_def commit_def)

lemma forget_wf:
  assumes "codec_ok (tb_codec t)" "state_put t s p = Inr input" "table_wf (tb_codec t) m"
  shows "table_wf (tb_codec t) (fold apply_op (forget_ops input i) m)"
  using assms decode_state_put [OF assms(1,2)] state_put_Inr(1,4) [OF assms(2)]
  by (simp add: table_wf_def forget_ops_def)

lemma forget_abs:
  assumes "codec_ok (tb_codec t)" "state_put t s p = Inr input"
  shows "table_abs (tb_codec t) (fold apply_op (forget_ops input i) m) =
         commit_forget s p i (table_abs (tb_codec t) m)"
  using decode_state_put [OF assms] state_put_Inr(1) [OF assms(2)]
  by (auto simp: table_abs_def commit_forget_def forget_ops_def fun_eq_iff)

lemma publish_wf:
  assumes "codec_ok c" "cd_report c r = Inr d" "table_wf c m"
  shows "table_wf c (fold apply_op (publish_ops r d) m)"
  using assms by (auto simp: table_wf_def publish_ops_def codec_ok_def)

lemma publish_abs:
  assumes "codec_ok c" "cd_report c r = Inr d"
  shows "table_abs c (fold apply_op (publish_ops r d) m) = commit_report r (table_abs c m)"
  using assms by (auto simp: table_abs_def commit_report_def publish_ops_def codec_ok_def fun_eq_iff)

text \<open>The condition of a publication: no tombstone, and a report of the same host if any.\<close>

lemma publish_condition:
  assumes "table_wf c m" "\<forall>x\<in>set (publish_ops r d). op_holds m x"
  shows "rp_id r \<notin> rg_tombs (table_abs c m)"
    and "\<forall>y. rg_reports (table_abs c m) (rp_id r) = Some y \<longrightarrow> rp_host y = rp_host r"
  using assms by (auto simp: table_wf_def table_abs_def publish_ops_def split: sum.splits)

section \<open>The table implements the contract\<close>

text \<open>
  \<open>env\<close> is what the other clients' writes look like through the abstraction. They run
  the same code, so they keep tables well formed.
\<close>

locale table_world = dynamo_service "tb_client t" tbl tenv
  for t :: "('w, 't) table" and tbl :: "'w \<Rightarrow> 't tbl" and tenv :: "'t tbl \<Rightarrow> 't tbl \<Rightarrow> bool" +
  fixes env :: "registry \<Rightarrow> registry \<Rightarrow> bool"
  assumes codec: "codec_ok (tb_codec t)"
    and tenv_wf: "tenv x y \<Longrightarrow> table_wf (tb_codec t) x \<Longrightarrow> table_wf (tb_codec t) y"
    and tenv_env: "tenv x y \<Longrightarrow> table_wf (tb_codec t) x \<Longrightarrow>
      env (table_abs (tb_codec t) x) (table_abs (tb_codec t) y)"
    and env_reflexive: "env m m"
    and env_transitive: "env a b \<Longrightarrow> env b c \<Longrightarrow> env a c"
begin

abbreviation wf :: "'w \<Rightarrow> bool" where
  "wf w \<equiv> table_wf (tb_codec t) (tbl w)"

abbreviation view :: "'w \<Rightarrow> registry" where
  "view w \<equiv> table_abs (tb_codec t) (tbl w)"

lemma frame: "tenv (tbl w) (tbl w') \<Longrightarrow> wf w \<Longrightarrow> wf w' \<and> env (view w) (view w')"
  using tenv_wf tenv_env by blast

lemma lift_effect:
  assumes "takes_effect tenv ok f (tbl w) (tbl w')" "wf w"
    and "\<And>m. table_wf (tb_codec t) m \<Longrightarrow> ok m \<Longrightarrow> table_wf (tb_codec t) (f m)"
    and "\<And>m. table_wf (tb_codec t) m \<Longrightarrow> ok m \<Longrightarrow> ok' (table_abs (tb_codec t) m)"
    and "\<And>m. table_abs (tb_codec t) (f m) = g (table_abs (tb_codec t) m)"
  shows "wf w' \<and> takes_effect env ok' g (view w) (view w')"
proof -
  obtain m where m: "tenv (tbl w) m" "ok m" "tenv (f m) (tbl w')"
    using assms(1) by auto
  have wm: "table_wf (tb_codec t) m" using m(1) assms(2) by (rule tenv_wf)
  have wf': "table_wf (tb_codec t) (f m)" using wm m(2) by (rule assms(3))
  have "env (view w) (table_abs (tb_codec t) m)" using m(1) assms(2) by (rule tenv_env)
  moreover have "ok' (table_abs (tb_codec t) m)" using wm m(2) by (rule assms(4))
  moreover have "env (g (table_abs (tb_codec t) m)) (view w')"
    using tenv_env [OF m(3) wf'] assms(5) by simp
  ultimately show ?thesis using tenv_wf [OF m(3) wf'] by (blast intro: takes_effectI)
qed

lemma load_laws:
  assumes "wf w" "load t w = (r, w')"
  shows "wf w' \<and> env (view w) (view w') \<and> (\<forall>s. r = Inr s \<longrightarrow> s = rg_state (view w'))"
proof -
  obtain g where g: "dy_get (tb_client t) registry_key w = (g, w')"
    using assms(2) by (auto simp: load_def split: prod.splits sum.splits)
  have "wf w' \<and> env (view w) (view w')"
    using frame [OF get_frame [OF g] assms(1)] .
  moreover have "s = rg_state (view w')" if "r = Inr s" for s
  proof -
    obtain it where "g = Inr it" "decode_state (tb_codec t) it = Inr s"
      using assms(2) g \<open>r = Inr s\<close> by (cases g) (auto simp: load_def)
    then show ?thesis using get_item g by (auto simp: table_abs_def)
  qed
  ultimately show ?thesis by blast
qed

lemma tombstoned_laws:
  assumes "wf w" "tombstoned t i w = (r, w')"
  shows "wf w' \<and> env (view w) (view w') \<and> (\<forall>b. r = Inr b \<longrightarrow> b = (i \<in> rg_tombs (view w')))"
proof -
  obtain g where g: "dy_get (tb_client t) (tombstone_key i) w = (g, w')"
    using assms(2) by (auto simp: tombstoned_def split: prod.splits sum.splits)
  have "wf w' \<and> env (view w) (view w')"
    using frame [OF get_frame [OF g] assms(1)] .
  moreover have "b = (i \<in> rg_tombs (view w'))" if "r = Inr b" for b
    using assms(2) g that get_item by (auto simp: tombstoned_def table_abs_def split: sum.splits)
  ultimately show ?thesis by blast
qed

lemma put_laws:
  assumes "wf w" "state_put t s p = Inr input"
    "takes_effect tenv (\<lambda>m. holds (pt_cond input) (m (pt_key input))) (apply_op (TxPut input)) (tbl w) (tbl w')"
  shows "wf w' \<and> takes_effect env (\<lambda>m. rg_revision m = p \<and> within_limits s) (commit s p) (view w) (view w')"
  by (rule lift_effect [OF assms(3,1)])
    (use table_put_wf [OF codec assms(2)] table_put_abs [OF codec assms(2)]
      state_put_condition [OF _ assms(2)] state_put_Inr [OF assms(2)] in auto)

lemma save_laws:
  assumes "wf w" "save t s p w = (r, w')"
  shows "wf w' \<and>
    (takes_effect env (\<lambda>m. rg_revision m = p \<and> within_limits s) (commit s p) (view w) (view w') \<or>
     env (view w) (view w') \<and> r \<noteq> Inr ())"
proof (cases "state_put t s p")
  case (Inl e)
  then show ?thesis using assms env_reflexive by (auto simp: save_def)
next
  case (Inr input)
  obtain q where q: "dy_put (tb_client t) input w = (q, w')"
    using assms(2) Inr by (auto simp: save_def split: prod.splits sum.splits if_splits)
  show ?thesis
  proof (cases q)
    case (Inl e)
    then have "r \<noteq> Inr ()" using assms(2) Inr q by (auto simp: save_def split: if_splits)
    then show ?thesis
      using put_failed [of input w e w'] q Inl put_laws [OF assms(1) Inr] frame assms(1) by blast
  next
    case Inr2: (Inr u)
    then show ?thesis using put_done [of input w u w'] q put_laws [OF assms(1) Inr] by blast
  qed
qed

lemma transact_laws:
  assumes "wf w" "dy_transact (tb_client t) ops w = (q, w')"
    and effect: "\<And>x. takes_effect tenv (\<lambda>m. \<forall>x\<in>set ops. op_holds m x) (fold apply_op ops) (tbl w) x \<Longrightarrow>
      x = tbl w' \<Longrightarrow> wf w' \<and> takes_effect env ok' g (view w) (view w')"
  shows "wf w' \<and>
    (takes_effect env ok' g (view w) (view w') \<or> env (view w) (view w') \<and> q \<noteq> Inr ())"
proof (cases q)
  case (Inl e)
  then show ?thesis
    using transact_failed [of ops w e w'] assms(2) effect frame assms(1) by blast
next
  case (Inr u)
  then show ?thesis using transact_done [of ops w u w'] assms(2) effect by blast
qed

lemma forget_laws:
  assumes "wf w" "forget t s p i w = (r, w')"
  shows "wf w' \<and>
    (takes_effect env
       (\<lambda>m. rg_revision m = p \<and> within_limits s \<and> valid_id i \<and> i \<notin> v_id ` set (st_servers s))
       (commit_forget s p i) (view w) (view w') \<or>
     env (view w) (view w') \<and> r \<noteq> Inr ())"
proof (cases "valid_id i \<and> i \<notin> v_id ` set (st_servers s) \<and> (\<exists>input. state_put t s p = Inr input)")
  case False
  then have "w' = w" "r \<noteq> Inr ()"
    using assms(2) by (auto simp: forget_def split: if_splits sum.splits)
  then show ?thesis using assms(1) env_reflexive by simp
next
  case True
  then obtain input where input: "state_put t s p = Inr input"
    and i: "valid_id i" "i \<notin> v_id ` set (st_servers s)" by blast
  obtain q where q: "dy_transact (tb_client t) (forget_ops input i) w = (q, w')"
    "r = Inr () \<longrightarrow> q = Inr ()"
    using assms(2) input i
    by (fastforce simp: forget_def split: prod.splits sum.splits if_splits)
  have "wf w' \<and> takes_effect env
       (\<lambda>m. rg_revision m = p \<and> within_limits s \<and> valid_id i \<and> i \<notin> v_id ` set (st_servers s))
       (commit_forget s p i) (view w) (view w')"
    if "takes_effect tenv (\<lambda>m. \<forall>x\<in>set (forget_ops input i). op_holds m x)
          (fold apply_op (forget_ops input i)) (tbl w) (tbl w')"
    by (rule lift_effect [OF that assms(1)])
      (use forget_wf [OF codec input] forget_abs [OF codec input] state_put_condition [OF _ input]
        state_put_Inr [OF input] i in \<open>auto simp: forget_ops_def\<close>)
  then show ?thesis
    using transact_laws [OF assms(1) q(1)] q(2) by blast
qed

lemma publish_laws:
  assumes "wf w" "publish t x w = (r, w')"
  shows "wf w' \<and>
    (env (view w) (view w') \<or>
     takes_effect env
       (\<lambda>m. rp_id x \<notin> rg_tombs m \<and>
            (\<forall>y. rg_reports m (rp_id x) = Some y \<longrightarrow> rp_host y = rp_host x))
       (commit_report x) (view w) (view w'))"
proof (cases "w' = w")
  case True
  then show ?thesis using assms(1) env_reflexive by simp
next
  case False
  then obtain d q where d: "cd_report (tb_codec t) x = Inr d"
    and q: "dy_transact (tb_client t) (publish_ops x d) w = (q, w')"
    using assms(2)
    by (auto simp: publish_def split: if_splits sum.splits prod.splits)
  have "wf w' \<and> takes_effect env
       (\<lambda>m. rp_id x \<notin> rg_tombs m \<and>
            (\<forall>y. rg_reports m (rp_id x) = Some y \<longrightarrow> rp_host y = rp_host x))
       (commit_report x) (view w) (view w')"
    if "takes_effect tenv (\<lambda>m. \<forall>y\<in>set (publish_ops x d). op_holds m y)
          (fold apply_op (publish_ops x d)) (tbl w) (tbl w')"
  proof (rule lift_effect [OF that assms(1)])
    fix m
    assume m: "table_wf (tb_codec t) m" "\<forall>y\<in>set (publish_ops x d). op_holds m y"
    show "table_wf (tb_codec t) (fold apply_op (publish_ops x d) m)"
      using m(1) by (rule publish_wf [OF codec d])
    show "rp_id x \<notin> rg_tombs (table_abs (tb_codec t) m) \<and>
        (\<forall>y. rg_reports (table_abs (tb_codec t) m) (rp_id x) = Some y \<longrightarrow> rp_host y = rp_host x)"
      using publish_condition [OF m] by blast
  qed (rule publish_abs [OF codec d])
  then show ?thesis using transact_laws [OF assms(1) q] by blast
qed

lemma batch_tenv: "fetch_batch t n pending acc w = (r, w') \<Longrightarrow> tenv (tbl w) (tbl w')"
proof (induction n arbitrary: pending acc w)
  case 0
  then show ?case using tenv_refl by (auto split: if_splits)
next
  case (Suc n)
  show ?case
  proof (cases "pending = []")
    case True
    then show ?thesis using Suc.prems tenv_refl by simp
  next
    case False
    obtain z w1 where p: "(if n = 2 then (Inr (), w) else dy_pause (tb_client t) (2 - n) w) = (z, w1)"
      by fastforce
    have f1: "tenv (tbl w) (tbl w1)" using p tenv_refl pause_frame by (auto split: if_splits)
    obtain q w2 where b: "dy_batch (tb_client t) pending w1 = (q, w2)" by fastforce
    have f2: "tenv (tbl w1) (tbl w2)" using b by (rule batch_frame)
    consider "w' = w1" | "w' = w2"
      | acc' rest where "fetch_batch t n rest acc' w2 = (r, w')"
      using Suc.prems False p b
      by (fastforce simp: Let_def split: sum.splits prod.splits)
    then show ?thesis
      by cases (use f1 f2 tenv_trans Suc.IH in blast)+
  qed
qed

lemma fetch_all_tenv: "fetch_all t keys acc w = (r, w') \<Longrightarrow> tenv (tbl w) (tbl w')"
proof (induction "length keys" arbitrary: keys acc w rule: less_induct)
  case less
  show ?case
  proof (cases "keys = []")
    case True
    then show ?thesis using less.prems tenv_refl by (simp add: fetch_all.simps)
  next
    case False
    obtain q w1 where q: "fetch_batch t 3 (take 100 keys) acc w = (q, w1)" by fastforce
    have f1: "tenv (tbl w) (tbl w1)" using q by (rule batch_tenv)
    consider "w' = w1" | acc' where "fetch_all t (drop 100 keys) acc' w1 = (r, w')"
      using less.prems False q
      by (subst (asm) fetch_all.simps) (auto split: sum.splits)
    then show ?thesis
    proof cases
      case 1
      then show ?thesis using f1 by simp
    next
      case 2
      have "length (drop 100 keys) < length keys" using False by simp
      then show ?thesis using less.hyps 2 f1 tenv_trans by blast
    qed
  qed
qed

lemma reports_laws:
  assumes "wf w" "reports t w = (r, w')"
  shows "wf w' \<and> env (view w) (view w')"
proof -
  obtain l w1 where l: "load t w = (l, w1)" by fastforce
  have 1: "wf w1 \<and> env (view w) (view w1)" using load_laws [OF assms(1) l] by blast
  consider "w' = w1"
    | ks q where "fetch_all t ks [] w1 = (q, w')"
    using assms(2) l by (auto simp: reports_def split: sum.splits prod.splits)
  then show ?thesis
    using 1 frame [OF fetch_all_tenv] env_transitive by cases blast+
qed

end

sublocale table_world \<subseteq> store: fleet_store "table_store t" wf view env
proof (unfold_locales, goal_cases)
  case 1 show ?case by (rule env_reflexive)
next
  case 2 then show ?case using env_transitive by blast
next
  case (3 w r w') then show ?case using load_laws [of w r w'] by (simp add: table_store_def)
next
  case (4 w s w') then show ?case using load_laws [of w "Inr s" w'] by (simp add: table_store_def)
next
  case (5 w s p r w') then show ?case using save_laws [of w s p r w'] by (simp add: table_store_def)
next
  case (6 w s p u w') then show ?case using save_laws [of w s p "Inr u" w'] by (simp add: table_store_def)
next
  case (7 w s p e w') then show ?case using save_laws [of w s p "Inl e" w'] by (auto simp: table_store_def)
next
  case (8 w s p i r w') then show ?case using forget_laws [of w s p i r w'] by (simp add: table_store_def)
next
  case (9 w s p i u w') then show ?case using forget_laws [of w s p i "Inr u" w'] by (simp add: table_store_def)
next
  case (10 w s p i e w') then show ?case using forget_laws [of w s p i "Inl e" w'] by (auto simp: table_store_def)
next
  case (11 w i r w') then show ?case using tombstoned_laws [of w i r w'] by (simp add: table_store_def)
next
  case (12 w i b w') then show ?case using tombstoned_laws [of w i "Inr b" w'] by (simp add: table_store_def)
next
  case (13 w r w') then show ?case using reports_laws [of w r w'] by (simp add: table_store_def)
next
  case (14 w x r w') then show ?case using publish_laws [of w x r w'] by (simp add: table_store_def)
next
  case (15 w x r w') then show ?case using publish_laws [of w x r w'] by (simp add: table_store_def)
qed

context table_world
begin

lemma store_here: "fleet_store (table_store t) wf view env"
  by (rule store.fleet_store_axioms)

end

end
