(* ===== verification/FleetScheduler.thy ===== *)
theory FleetScheduler
  imports FleetState "HOL-Library.Char_ord" "HOL-Library.List_Lexorder" "HOL-Library.Product_Lexorder"
begin

text \<open>
  The fleet scheduler (internal/fleet/scheduler.go): \<open>Create\<close>, \<open>Action\<close>,
  \<open>Reconcile\<close> and their helpers, over the interfaces \<open>Store\<close> and \<open>Machines\<close>
  as records of calls on a world, with the clock and the random tokens of the Go runtime as two
  more calls. Every call of the source is a call of the model, in the source's order; a
  compare-and-swap loop has the source's eight attempts.
\<close>

section \<open>Interfaces\<close>

record machine =
  m_id :: string
  m_state :: string

record 'w machines =
  mc_inspect :: "host \<Rightarrow> ('w, machine) io"
  mc_wake :: "host \<Rightarrow> ('w, string) io"
  mc_stop :: "host \<Rightarrow> ('w, unit) io"
  mc_delete :: "host \<Rightarrow> ('w, unit) io"

record 'w runtime =
  rt_now :: "'w \<Rightarrow> time \<times> 'w"
  rt_token :: "'w \<Rightarrow> string \<times> 'w"

record 'w scheduler =
  sc_store :: "'w store"
  sc_machines :: "'w machines"
  sc_config :: fleet_config
  sc_runtime :: "'w runtime"

abbreviation now :: "'w scheduler \<Rightarrow> 'w \<Rightarrow> time \<times> 'w" where
  "now sc \<equiv> rt_now (sc_runtime sc)"

abbreviation new_token :: "'w scheduler \<Rightarrow> 'w \<Rightarrow> string \<times> 'w" where
  "new_token sc \<equiv> rt_token (sc_runtime sc)"

definition startup_timeout :: int where
  "startup_timeout = 20 * 60"

definition startup_timeout_message :: string where
  "startup_timeout_message =
     ''Server startup timed out. Start again to retry, or remove the saved server.''"

definition request_timeout_message :: string where
  "request_timeout_message =
     ''The host did not finish this request. Retry the action; saved data is retained.''"

section \<open>Deadlines\<close>

definition expired :: "fleet_config \<Rightarrow> time \<Rightarrow> bool" where
  "expired c t \<longleftrightarrow> 0 < fc_deadline c \<and> fc_deadline c \<le> unix t"

definition request_expired :: "server \<Rightarrow> time \<Rightarrow> bool" where
  "request_expired v t \<longleftrightarrow> v_ready_at v = 0 \<and> startup_timeout \<le> unix t - v_requested_at v"

definition startup_expired :: "server \<Rightarrow> time \<Rightarrow> bool" where
  "startup_expired v t \<longleftrightarrow> v_desired v = ''running'' \<and> request_expired v t"

definition request_complete :: "server \<Rightarrow> report \<Rightarrow> bool" where
  "request_complete v r \<longleftrightarrow>
     rp_host r = v_host v \<and> rp_request_id r = v_request_id v \<and> rp_error r = [] \<and>
     rp_desired r = v_desired v \<and> rp_phase r = v_desired v"

text \<open>\<open>state.Deleting || s.expired(time.Now())\<close>: the clock is read only when needed.\<close>

definition ended :: "'w scheduler \<Rightarrow> fleet_state \<Rightarrow> 'w \<Rightarrow> bool \<times> 'w" where
  "ended sc s w =
     (if st_deleting s then (True, w) else (let (t, w) = now sc w in (expired (sc_config sc) t, w)))"

section \<open>Choosing a host\<close>

definition zero_host :: host where
  "zero_host = \<lparr>h_release = [], h_workload = [], h_capacity = zero_resources, h_id = [],
     h_instance_id = [], h_launch_template = [], h_launch_version = [], h_launch_token = [],
     h_created_at = 0, h_retiring = False, h_error = []\<rparr>"

definition machine_rank :: "string \<Rightarrow> int option" where
  "machine_rank s =
     (if s = ''running'' then Some 0
      else if s = ''pending'' \<or> s = ''new'' then Some 1
      else if s = ''stopped'' \<or> s = ''stopping'' then Some 2
      else None)"

definition eligible :: "fleet_config \<Rightarrow> fleet_state \<Rightarrow> resources \<Rightarrow> host \<Rightarrow> bool" where
  "eligible c s required h \<longleftrightarrow>
     \<not> (h_retiring h \<or>
        (h_release h \<noteq> fc_release c \<and> (h_workload h = [] \<or> h_workload h \<noteq> fc_workload c)) \<or>
        \<not> fits (h_capacity h) (used s (h_id h)) required)"

type_synonym candidate = "host \<times> int \<times> int"

fun candidates ::
  "'w scheduler \<Rightarrow> fleet_state \<Rightarrow> resources \<Rightarrow> host list \<Rightarrow> 'w \<Rightarrow> candidate list \<times> 'w" where
  "candidates sc s required [] w = ([], w)"
| "candidates sc s required (h # hs) w =
     (if \<not> eligible (sc_config sc) s required h then candidates sc s required hs w
      else (case mc_inspect (sc_machines sc) h w of
              (Inl e, w) \<Rightarrow> candidates sc s required hs w
            | (Inr m, w) \<Rightarrow>
                (case machine_rank (m_state m) of
                   None \<Rightarrow> candidates sc s required hs w
                 | Some rank \<Rightarrow>
                     (let (cs, w) = candidates sc s required hs w in
                      ((h, rank, r_memory (h_capacity h) - r_memory (used s (h_id h)) - r_memory required)
                         # cs, w)))))"

definition candidate_order :: "candidate \<Rightarrow> int \<times> int \<times> string" where
  "candidate_order = (\<lambda>(h, rank, remaining). (rank, remaining, h_id h))"

definition choose_host :: "'w scheduler \<Rightarrow> fleet_state \<Rightarrow> resources \<Rightarrow> 'w \<Rightarrow> host \<times> 'w" where
  "choose_host sc s required w =
     (let (cs, w) = candidates sc s required (st_hosts s) w in
      case sort_key candidate_order cs of
        [] \<Rightarrow> (zero_host, w)
      | c # _ \<Rightarrow> (fst c, w))"

section \<open>Create\<close>

definition new_host :: "'w scheduler \<Rightarrow> 'w \<Rightarrow> host \<times> 'w" where
  "new_host sc w =
     (let (t1, w) = new_token sc w; (t2, w) = new_token sc w; (t, w) = now sc w; c = sc_config sc in
      (\<lparr>h_release = fc_release c, h_workload = fc_workload c, h_capacity = fc_capacity c,
        h_id = ''host-'' @ take 16 t1, h_instance_id = [], h_launch_template = fc_launch_template c,
        h_launch_version = fc_launch_version c, h_launch_token = t2, h_created_at = unix t,
        h_retiring = False, h_error = []\<rparr>, w))"

definition new_server ::
  "'w scheduler \<Rightarrow> string \<Rightarrow> string \<Rightarrow> string \<Rightarrow> host \<Rightarrow> resources \<Rightarrow> 'w \<Rightarrow> server \<times> 'w" where
  "new_server sc i game name h res w =
     (let (tok, w) = new_token sc w; (t, w) = now sc w in
      (\<lparr>v_ready_at = 0, v_error = [], v_resources = res, v_id = i, v_game = game, v_name = name,
        v_host = h_id h, v_desired = ''running'', v_request_id = tok, v_requested_at = unix t\<rparr>, w))"

text \<open>The end of an attempt, once a host is found or made: append the server and save.\<close>

definition create_commit ::
  "'w scheduler \<Rightarrow> string \<Rightarrow> string \<Rightarrow> string \<Rightarrow> resources \<Rightarrow> fleet_state \<Rightarrow> host \<Rightarrow> 'w \<Rightarrow>
     (err + server) option \<times> 'w" where
  "create_commit sc i game name res s h w =
     (let (v, w) = new_server sc i game name h res w;
          s = s\<lparr>st_servers := st_servers s @ [v]\<rparr>
      in case sto_save (sc_store sc) s (st_revision s) w of
           (Inr u, w) \<Rightarrow> (Some (Inr v), w)
         | (Inl e, w) \<Rightarrow> ((if err_is e ErrConflict then None else Some (Inl e)), w))"

definition create_place ::
  "'w scheduler \<Rightarrow> string \<Rightarrow> string \<Rightarrow> string \<Rightarrow> resources \<Rightarrow> fleet_state \<Rightarrow> 'w \<Rightarrow>
     (err + server) option \<times> 'w" where
  "create_place sc i game name res s w =
     (let (h, w) = choose_host sc s res w in
      if h_id h = []
      then (if fc_max_hosts (sc_config sc) \<le> int (length (st_hosts s)) then (Some (Inl ErrCapacity), w)
            else (let (h, w) = new_host sc w in
                  create_commit sc i game name res (s\<lparr>st_hosts := st_hosts s @ [h]\<rparr>) h w))
      else create_commit sc i game name res s h w)"

text \<open>One pass of the loop; \<open>None\<close> is \<open>continue\<close>.\<close>

definition create_attempt ::
  "'w scheduler \<Rightarrow> string \<Rightarrow> string \<Rightarrow> string \<Rightarrow> resources \<Rightarrow> 'w \<Rightarrow> (err + server) option \<times> 'w" where
  "create_attempt sc i game name res w =
     (case sto_load (sc_store sc) w of
        (Inl e, w) \<Rightarrow> (Some (Inl e), w)
      | (Inr s, w) \<Rightarrow>
          (let (over, w) = ended sc s w in
           if over then (Some (Inl (ErrMsg ''This deployment has ended'')), w)
           else (case List.find (\<lambda>v. v_id v = i) (st_servers s) of
                   Some v \<Rightarrow>
                     (if v_game v \<noteq> game \<or> v_name v \<noteq> name \<or> v_desired v = ''deleted''
                      then (Some (Inl (ErrMsg ''Server ID is already in use'')), w)
                      else (Some (Inr v), w))
                 | None \<Rightarrow>
                     (case sto_tombstoned (sc_store sc) i w of
                        (Inl e, w) \<Rightarrow> (Some (Inl e), w)
                      | (Inr removed, w) \<Rightarrow>
                          (if removed then (Some (Inl (ErrMsg ''This server was removed'')), w)
                           else if fc_max_servers (sc_config sc) \<le> int (length (st_servers s))
                           then (Some (Inl ErrCapacity), w)
                           else create_place sc i game name res s w)))))"

fun create_loop ::
  "nat \<Rightarrow> 'w scheduler \<Rightarrow> string \<Rightarrow> string \<Rightarrow> string \<Rightarrow> resources \<Rightarrow> ('w, server) io" where
  "create_loop 0 sc i game name res w = (Inl ErrConflict, w)"
| "create_loop (Suc n) sc i game name res w =
     (case create_attempt sc i game name res w of
        (Some r, w) \<Rightarrow> (r, w)
      | (None, w) \<Rightarrow> create_loop n sc i game name res w)"

definition create :: "'w scheduler \<Rightarrow> string \<Rightarrow> string \<Rightarrow> string \<Rightarrow> ('w, server) io" where
  "create sc i game name w =
     (case List.find (\<lambda>g. g_id g = game) (fc_games (sc_config sc)) of
        None \<Rightarrow> (Inl (ErrMsg ''Unknown game''), w)
      | Some choice \<Rightarrow>
          if g_id choice = [] then (Inl (ErrMsg ''Unknown game''), w)
          else create_loop 8 sc i game name (g_resources choice) w)"

section \<open>Action\<close>

definition action_desired :: "string \<Rightarrow> string" where
  "action_desired a =
     (if a = ''start'' then ''running'' else if a = ''stop'' then ''stopped''
      else if a = ''remove'' then ''deleted'' else [])"

text \<open>
  The request repeats the current intent: whether it is a new request all the same (a timed-out
  one is retried, an idle stop or a failure the worker reported is restarted).
\<close>

definition restart_wanted :: "server \<Rightarrow> string \<Rightarrow> time \<Rightarrow> report list \<Rightarrow> bool" where
  "restart_wanted v desired t rs \<longleftrightarrow>
     (request_expired v t \<and> (v_desired v = ''running'' \<or> v_error v \<noteq> [])) \<or>
     (\<exists>r\<in>set rs. rp_id r = v_id v \<and> rp_host r = v_host v \<and> rp_request_id r = v_request_id v \<and>
        desired = ''running'' \<and> (rp_desired r = ''stopped'' \<or> rp_phase r = ''failed''))"

definition action_repeat :: "'w scheduler \<Rightarrow> server \<Rightarrow> string \<Rightarrow> ('w, bool) io" where
  "action_repeat sc v desired w =
     (case sto_reports (sc_store sc) w of
        (Inl e, w) \<Rightarrow> (Inl e, w)
      | (Inr rs, w) \<Rightarrow> (let (t, w) = now sc w in (Inr (restart_wanted v desired t rs), w)))"

definition renew :: "'w scheduler \<Rightarrow> string \<Rightarrow> server \<Rightarrow> 'w \<Rightarrow> server \<times> 'w" where
  "renew sc desired v w =
     (let (tok, w) = new_token sc w; (t, w) = now sc w in
      (v\<lparr>v_desired := desired, v_request_id := tok, v_requested_at := unix t,
         v_ready_at := 0, v_error := []\<rparr>, w))"

text \<open>
  The scan over the servers: \<open>Inl r\<close> returns \<open>r\<close> from \<open>Action\<close>;
  \<open>Inr (vs, found)\<close> goes on to save.
\<close>

fun action_scan ::
  "'w scheduler \<Rightarrow> string \<Rightarrow> string \<Rightarrow> server list \<Rightarrow> 'w \<Rightarrow>
     ((err + unit) + (server list \<times> bool)) \<times> 'w" where
  "action_scan sc i desired [] w = (Inr ([], False), w)"
| "action_scan sc i desired (v # vs) w =
     (if v_id v \<noteq> i
      then (case action_scan sc i desired vs w of
              (Inl r, w) \<Rightarrow> (Inl r, w)
            | (Inr (vs', found), w) \<Rightarrow> (Inr (v # vs', found), w))
      else if v_desired v = ''deleted'' \<and> desired \<noteq> ''deleted''
      then (Inl (Inl (ErrMsg ''This server is being removed'')), w)
      else (case (if v_desired v = desired then action_repeat sc v desired w else (Inr True, w)) of
              (Inl e, w) \<Rightarrow> (Inl (Inl e), w)
            | (Inr again, w) \<Rightarrow>
                if \<not> again then (Inl (Inr ()), w)
                else (let (v', w) = renew sc desired v w in
                      case action_scan sc i desired vs w of
                        (Inl r, w) \<Rightarrow> (Inl r, w)
                      | (Inr (vs', found), w) \<Rightarrow> (Inr (v' # vs', True), w))))"

definition action_attempt ::
  "'w scheduler \<Rightarrow> string \<Rightarrow> string \<Rightarrow> 'w \<Rightarrow> (err + unit) option \<times> 'w" where
  "action_attempt sc i desired w =
     (case sto_load (sc_store sc) w of
        (Inl e, w) \<Rightarrow> (Some (Inl e), w)
      | (Inr s, w) \<Rightarrow>
          (let (over, w) = ended sc s w in
           if over then (Some (Inl (ErrMsg ''This deployment has ended'')), w)
           else (case action_scan sc i desired (st_servers s) w of
                   (Inl r, w) \<Rightarrow> (Some r, w)
                 | (Inr (vs, found), w) \<Rightarrow>
                     if \<not> found then (Some (Inl (ErrMsg ''Server not found'')), w)
                     else (case sto_save (sc_store sc) (s\<lparr>st_servers := vs\<rparr>) (st_revision s) w of
                             (Inr u, w) \<Rightarrow> (Some (Inr ()), w)
                           | (Inl e, w) \<Rightarrow>
                               ((if err_is e ErrConflict then None else Some (Inl e)), w)))))"

fun action_loop :: "nat \<Rightarrow> 'w scheduler \<Rightarrow> string \<Rightarrow> string \<Rightarrow> ('w, unit) io" where
  "action_loop 0 sc i desired w = (Inl ErrConflict, w)"
| "action_loop (Suc n) sc i desired w =
     (case action_attempt sc i desired w of
        (Some r, w) \<Rightarrow> (r, w)
      | (None, w) \<Rightarrow> action_loop n sc i desired w)"

definition action :: "'w scheduler \<Rightarrow> string \<Rightarrow> string \<Rightarrow> ('w, unit) io" where
  "action sc i a w =
     (if action_desired a = [] then (Inl (ErrMsg ''Unknown action''), w)
      else action_loop 8 sc i (action_desired a) w)"

section \<open>Reconcile\<close>

text \<open>The map \<open>byID\<close>: the last report of an ID; a missing key reads as the zero report.\<close>

definition by_id :: "report list \<Rightarrow> string \<Rightarrow> report" where
  "by_id rs i = (case List.find (\<lambda>r. rp_id r = i) (rev rs) of None \<Rightarrow> zero_report | Some r \<Rightarrow> r)"

definition ready_report :: "server \<Rightarrow> report \<Rightarrow> bool" where
  "ready_report v r \<longleftrightarrow>
     v_ready_at v = 0 \<and> v_desired v = ''running'' \<and> rp_host r = v_host v \<and>
     rp_request_id r = v_request_id v \<and> rp_error r = [] \<and> rp_desired r = ''running'' \<and>
     rp_phase r = ''running'' \<and> rp_players r \<noteq> None"

definition mark_ready :: "'w scheduler \<Rightarrow> report \<Rightarrow> server \<Rightarrow> 'w \<Rightarrow> (server \<times> bool) \<times> 'w" where
  "mark_ready sc r v w =
     (if ready_report v r
      then (let (t, w) = now sc w in
            if time_sub t (rp_observed_at r) \<le> 45 * second
            then ((v\<lparr>v_ready_at := unix (rp_observed_at r)\<rparr>, True), w)
            else ((v, False), w))
      else ((v, False), w))"

definition request_failure :: "'w scheduler \<Rightarrow> report \<Rightarrow> server \<Rightarrow> 'w \<Rightarrow> string \<times> 'w" where
  "request_failure sc r v w =
     (let (t, w) = now sc w in
      if startup_expired v t then (startup_timeout_message, w)
      else (let (t, w) = now sc w in
            if request_expired v t \<and> \<not> request_complete v r then (request_timeout_message, w)
            else ([], w)))"

definition report_current :: "server \<Rightarrow> report \<Rightarrow> bool" where
  "report_current v r \<longleftrightarrow> rp_host r = v_host v \<and> rp_request_id r = v_request_id v \<and> rp_error r = []"

definition set_error :: "bool \<Rightarrow> string \<Rightarrow> server \<Rightarrow> server" where
  "set_error deleting failure v =
     (if \<not> deleting \<and> v_error v \<noteq> failure then v\<lparr>v_error := failure\<rparr> else v)"

text \<open>
  The pass over the servers. \<open>Inl (vs, i)\<close> leaves the pass to forget server \<open>i\<close>,
  whose removal the worker confirmed; \<open>Inr (vs, changed)\<close> is the whole pass.
\<close>

fun reconcile_servers ::
  "'w scheduler \<Rightarrow> bool \<Rightarrow> report list \<Rightarrow> server list \<Rightarrow> server list \<Rightarrow> bool \<Rightarrow> 'w \<Rightarrow>
     ((server list \<times> string) + (server list \<times> bool)) \<times> 'w" where
  "reconcile_servers sc deleting rs acc [] changed w = (Inr (acc, changed), w)"
| "reconcile_servers sc deleting rs acc (v # vs) changed w =
     (let r = by_id rs (v_id v);
          ((v1, ready), w) = mark_ready sc r v w;
          (failure, w) = request_failure sc r v1 w;
          v2 = set_error deleting failure v1;
          changed = (changed \<or> ready \<or> \<not> deleting \<and> v_error v \<noteq> failure)
      in if \<not> report_current v r
         then reconcile_servers sc deleting rs (acc @ [v2]) vs changed w
         else if \<not> deleting \<and> v_desired v = ''running'' \<and> rp_desired r = ''stopped'' \<and> rp_phase r = ''stopped''
         then reconcile_servers sc deleting rs (acc @ [v2\<lparr>v_desired := ''stopped''\<rparr>]) vs True w
         else if \<not> deleting \<and> v_desired v = ''deleted'' \<and> rp_desired r = ''deleted'' \<and> rp_phase r = ''deleted''
         then (Inl (acc @ vs, v_id v), w)
         else reconcile_servers sc deleting rs (acc @ [v2]) vs changed w)"

definition retained :: "server list \<Rightarrow> string \<Rightarrow> bool" where
  "retained vs hid \<longleftrightarrow> (\<exists>v\<in>set vs. v_host v = hid \<and> v_desired v \<noteq> ''deleted'')"

definition retire :: "bool \<Rightarrow> server list \<Rightarrow> host \<Rightarrow> host" where
  "retire deleting vs h =
     (if \<not> h_retiring h \<and> (deleting \<or> \<not> retained vs (h_id h)) then h\<lparr>h_retiring := True\<rparr> else h)"

definition retires :: "bool \<Rightarrow> server list \<Rightarrow> host \<Rightarrow> bool" where
  "retires deleting vs h \<longleftrightarrow> \<not> h_retiring h \<and> (deleting \<or> \<not> retained vs (h_id h))"

text \<open>\<open>updateHost\<close>: eight attempts to change one host of the current registry.\<close>

fun update_host :: "nat \<Rightarrow> 'w scheduler \<Rightarrow> string \<Rightarrow> (host \<Rightarrow> host) \<Rightarrow> ('w, unit) io" where
  "update_host 0 sc hid f w = (Inl ErrConflict, w)"
| "update_host (Suc n) sc hid f w =
     (case sto_load (sc_store sc) w of
        (Inl e, w) \<Rightarrow> (Inl e, w)
      | (Inr s, w) \<Rightarrow>
          (case index_of (\<lambda>h. h_id h = hid) (st_hosts s) of
             None \<Rightarrow> (Inr (), w)
           | Some k \<Rightarrow>
               (case sto_save (sc_store sc)
                       (s\<lparr>st_hosts := (st_hosts s)[k := f (st_hosts s ! k)]\<rparr>) (st_revision s) w of
                  (Inr u, w) \<Rightarrow> (Inr (), w)
                | (Inl e, w) \<Rightarrow>
                    if err_is e ErrConflict then update_host n sc hid f w else (Inl e, w))))"

text \<open>
  \<open>forgetHost\<close> loops until the host is gone; nothing in the source bounds the loop, so not
  returning is the value \<open>None\<close>. The scan over the hosts fails at the first one with this ID
  that is not retiring and keeps the last index.
\<close>

fun retiring_index :: "string \<Rightarrow> nat \<Rightarrow> nat option \<Rightarrow> host list \<Rightarrow> err + nat option" where
  "retiring_index hid k found [] = Inr found"
| "retiring_index hid k found (h # hs) =
     (if h_id h \<noteq> hid then retiring_index hid (Suc k) found hs
      else if \<not> h_retiring h then Inl (ErrMsg (''host '' @ hid @ '' is not retiring''))
      else retiring_index hid (Suc k) (Some k) hs)"

partial_function (option) forget_host :: "'w scheduler \<Rightarrow> string \<Rightarrow> 'w \<Rightarrow> ((err + unit) \<times> 'w) option" where
  "forget_host sc hid w =
     (case sto_load (sc_store sc) w of (ls, w) \<Rightarrow>
      (case ls of
         Inl e \<Rightarrow> Some (Inl e, w)
       | Inr s \<Rightarrow>
           (case retiring_index hid 0 None (st_hosts s) of
              Inl e \<Rightarrow> Some (Inl e, w)
            | Inr hi \<Rightarrow>
                (case hi of
                   None \<Rightarrow> Some (Inr (), w)
                 | Some hk \<Rightarrow>
                     (case index_of (\<lambda>v. v_host v = hid) (st_servers s) of
                        None \<Rightarrow>
                          Some (sto_save (sc_store sc) (s\<lparr>st_hosts := remove_at hk (st_hosts s)\<rparr>)
                                  (st_revision s) w)
                      | Some k \<Rightarrow>
                          if \<not> st_deleting s \<and> v_desired (st_servers s ! k) \<noteq> ''deleted''
                          then Some (Inl (ErrMsg (''host '' @ hid @ '' still has saved servers'')), w)
                          else (case sto_forget (sc_store sc)
                                       (s\<lparr>st_servers := remove_at k (st_servers s)\<rparr>)
                                       (st_revision s) (v_id (st_servers s ! k)) w of (fr, w) \<Rightarrow>
                                (case fr of
                                   Inl e \<Rightarrow> Some (Inl e, w)
                                 | Inr u \<Rightarrow> forget_host sc hid w)))))))"

text \<open>Whether the servers of a host need it running, and whether one of their requests is overdue.\<close>

fun host_demand ::
  "'w scheduler \<Rightarrow> report list \<Rightarrow> server list \<Rightarrow> string \<Rightarrow> bool \<Rightarrow> bool \<Rightarrow> 'w \<Rightarrow> (bool \<times> bool) \<times> 'w" where
  "host_demand sc rs [] hid needed late w = ((needed, late), w)"
| "host_demand sc rs (v # vs) hid needed late w =
     (if v_host v \<noteq> hid then host_demand sc rs vs hid needed late w
      else (let complete = request_complete v (by_id rs (v_id v));
                (t1, w) = now sc w in
            if startup_expired v t1 then host_demand sc rs vs hid needed True w
            else (let (t2, w) = now sc w in
                  if request_expired v t2 \<and> \<not> complete then host_demand sc rs vs hid needed True w
                  else host_demand sc rs vs hid
                         (needed \<or> v_desired v = ''running'' \<or> \<not> complete) late w)))"

definition retrying :: string where
  "retrying = ''Host startup failed; retrying''"

text \<open>
  One host of the second pass: \<open>Inl r\<close> returns \<open>r\<close> from \<open>reconcile\<close>,
  \<open>Inr fs\<close> goes on to the next host with the failures so far.
\<close>

definition reconcile_host ::
  "'w scheduler \<Rightarrow> fleet_state \<Rightarrow> report list \<Rightarrow> host \<Rightarrow> err list \<Rightarrow> 'w \<Rightarrow>
     (((err + unit) + err list) \<times> 'w) option" where
  "reconcile_host sc s rs h failures w =
     (let ((needed, late), w) = host_demand sc rs (st_servers s) (h_id h) False False w in
      if h_retiring h
      then (if \<not> st_deleting s \<and> retained (st_servers s) (h_id h)
            then Some (Inl (Inl (ErrMsg (''refusing to retire host '' @ h_id h @ '' with saved servers''))), w)
            else (case mc_delete (sc_machines sc) h w of
                    (Inl e, w) \<Rightarrow> Some (Inr (failures @ [e]), w)
                  | (Inr u, w) \<Rightarrow>
                      (case forget_host sc (h_id h) w of
                         None \<Rightarrow> None
                       | Some (Inl e, w) \<Rightarrow> Some (Inl (Inl e), w)
                       | Some (Inr u, w) \<Rightarrow> Some (Inr failures, w))))
      else if needed
      then (case mc_wake (sc_machines sc) h w of
              (Inl e, w) \<Rightarrow>
                (let failures = failures @ [ErrWrap (h_id h @ '': '') e] in
                 if h_error h \<noteq> retrying
                 then (case update_host 8 sc (h_id h) (\<lambda>h. h\<lparr>h_error := retrying\<rparr>) w of
                         (Inl e', w) \<Rightarrow> Some (Inr (failures @ [e']), w)
                       | (Inr u, w) \<Rightarrow> Some (Inr failures, w))
                 else Some (Inr failures, w))
            | (Inr mid, w) \<Rightarrow>
                (if mid \<noteq> h_instance_id h \<or> h_error h \<noteq> []
                 then (case update_host 8 sc (h_id h) (\<lambda>h. h\<lparr>h_instance_id := mid, h_error := []\<rparr>) w of
                         (Inl e, w) \<Rightarrow> Some (Inl (Inl e), w)
                       | (Inr u, w) \<Rightarrow> Some (Inr failures, w))
                 else Some (Inr failures, w)))
      else if late
      then (case sto_load (sc_store sc) w of
              (Inl e, w) \<Rightarrow> Some (Inl (Inl e), w)
            | (Inr latest, w) \<Rightarrow>
                if st_revision latest \<noteq> st_revision s then Some (Inl (Inl ErrConflict), w)
                else (case mc_stop (sc_machines sc) h w of
                        (Inl e, w) \<Rightarrow>
                          Some (Inr (failures @ [ErrWrap (''stop expired startup host '' @ h_id h @ '': '') e]), w)
                      | (Inr u, w) \<Rightarrow> Some (Inr failures, w)))
      else Some (Inr failures, w))"

fun reconcile_hosts ::
  "'w scheduler \<Rightarrow> fleet_state \<Rightarrow> report list \<Rightarrow> host list \<Rightarrow> err list \<Rightarrow> 'w \<Rightarrow> ((err + unit) \<times> 'w) option" where
  "reconcile_hosts sc s rs [] failures w = Some (join_errors failures, w)"
| "reconcile_hosts sc s rs (h # hs) failures w =
     (case reconcile_host sc s rs h failures w of
        None \<Rightarrow> None
      | Some (Inl r, w) \<Rightarrow> Some (r, w)
      | Some (Inr fs, w) \<Rightarrow> reconcile_hosts sc s rs hs fs w)"

definition reconcile_once :: "'w scheduler \<Rightarrow> 'w \<Rightarrow> ((err + unit) \<times> 'w) option" where
  "reconcile_once sc w =
     (case sto_load (sc_store sc) w of
        (Inl e, w) \<Rightarrow> Some (Inl e, w)
      | (Inr s, w) \<Rightarrow>
          (case sto_reports (sc_store sc) w of
             (Inl e, w) \<Rightarrow> Some (Inl e, w)
           | (Inr rs, w) \<Rightarrow>
               (let (t, w) = now sc w;
                    close = (expired (sc_config sc) t \<and> \<not> st_deleting s);
                    deleting = (st_deleting s \<or> close)
                in case reconcile_servers sc deleting rs [] (st_servers s) close w of
                     (Inl (vs, i), w) \<Rightarrow>
                       Some (sto_forget (sc_store sc) (s\<lparr>st_servers := vs, st_deleting := deleting\<rparr>)
                               (st_revision s) i w)
                   | (Inr (vs, changed), w) \<Rightarrow>
                       (let hs = map (retire deleting vs) (st_hosts s);
                            changed = (changed \<or> (\<exists>h\<in>set (st_hosts s). retires deleting vs h));
                            s' = s\<lparr>st_servers := vs, st_hosts := hs, st_deleting := deleting\<rparr>
                        in if changed
                           then (case sto_save (sc_store sc) s' (st_revision s) w of
                                   (Inl e, w) \<Rightarrow> Some (Inl e, w)
                                 | (Inr u, w) \<Rightarrow>
                                     reconcile_hosts sc (s'\<lparr>st_revision := st_revision s + 1\<rparr>) rs hs [] w)
                           else reconcile_hosts sc s' rs hs [] w))))"

fun reconcile_loop :: "nat \<Rightarrow> 'w scheduler \<Rightarrow> 'w \<Rightarrow> ((err + unit) \<times> 'w) option" where
  "reconcile_loop 0 sc w = Some (Inl ErrConflict, w)"
| "reconcile_loop (Suc n) sc w =
     (case reconcile_once sc w of
        None \<Rightarrow> None
      | Some (Inl e, w) \<Rightarrow> if err_is e ErrConflict then reconcile_loop n sc w else Some (Inl e, w)
      | Some (Inr u, w) \<Rightarrow> Some (Inr (), w))"

definition reconcile :: "'w scheduler \<Rightarrow> 'w \<Rightarrow> ((err + unit) \<times> 'w) option" where
  "reconcile sc w = reconcile_loop 8 sc w"

end
