(* ===== verification/FleetSafety.thy ===== *)
theory FleetSafety
  imports FleetRegistry FleetScheduler
begin

text \<open>
  Safety of the fleet registry under any interleaving of clients. \<open>fleet_step\<close> is what one
  client may see others do, and what it promises them: the registry invariant is kept, the version
  only grows and names one state, tombstones are permanent, a server leaves only into a tombstone,
  the decision to delete the fleet is never withdrawn and no host is added after it. The locale \<open>scheduler_world\<close> assumes it of the
  environment and proves it of every operation of the scheduler, so a system whose clients all run
  this code keeps it.
\<close>

section \<open>The registry invariant\<close>

definition desired_ok :: "string \<Rightarrow> bool" where
  "desired_ok d \<longleftrightarrow> d = ''running'' \<or> d = ''stopped'' \<or> d = ''deleted''"

definition within_capacity :: "fleet_state \<Rightarrow> bool" where
  "within_capacity s \<longleftrightarrow> (\<forall>h\<in>set (st_hosts s). res_le (used s (h_id h)) (h_capacity h))"

text \<open>A retiring host holds no server that someone still wants, unless everything is being deleted.\<close>

definition retirement_closed :: "fleet_state \<Rightarrow> bool" where
  "retirement_closed s \<longleftrightarrow>
     (\<forall>h\<in>set (st_hosts s). h_retiring h \<longrightarrow> st_deleting s \<or> \<not> retained (st_servers s) (h_id h))"

definition state_ok :: "string set \<Rightarrow> fleet_state \<Rightarrow> bool" where
  "state_ok tombs s \<longleftrightarrow>
     distinct (map h_id (st_hosts s)) \<and> [] \<notin> h_id ` set (st_hosts s) \<and>
     distinct (map v_id (st_servers s)) \<and> v_id ` set (st_servers s) \<inter> tombs = {} \<and>
     (\<forall>v\<in>set (st_servers s). v_host v \<in> h_id ` set (st_hosts s) \<and> res_nonneg (v_resources v) \<and>
        desired_ok (v_desired v)) \<and>
     within_capacity s \<and> retirement_closed s"

abbreviation fleet_inv :: "registry \<Rightarrow> bool" where
  "fleet_inv m \<equiv> state_ok (rg_tombs m) (rg_state m)"

text \<open>What a server keeps for life, and that removal is final.\<close>

definition same_server :: "server \<Rightarrow> server \<Rightarrow> bool" where
  "same_server v v' \<longleftrightarrow>
     v_id v' = v_id v \<and> v_host v' = v_host v \<and> v_resources v' = v_resources v \<and>
     v_game v' = v_game v \<and> v_name v' = v_name v \<and>
     (v_desired v = ''deleted'' \<longrightarrow> v_desired v' = ''deleted'') \<and>
     (desired_ok (v_desired v) \<longrightarrow> desired_ok (v_desired v'))"

definition same_host :: "host \<Rightarrow> host \<Rightarrow> bool" where
  "same_host h h' \<longleftrightarrow>
     h_id h' = h_id h \<and> h_capacity h' = h_capacity h \<and> (h_retiring h \<longrightarrow> h_retiring h')"

definition evolves :: "string set \<Rightarrow> fleet_state \<Rightarrow> fleet_state \<Rightarrow> bool" where
  "evolves tombs s s' \<longleftrightarrow>
     (st_deleting s \<longrightarrow> st_deleting s' \<and> h_id ` set (st_hosts s') \<subseteq> h_id ` set (st_hosts s)) \<and>
     (\<forall>v\<in>set (st_servers s). v_id v \<in> tombs \<or> (\<exists>v'\<in>set (st_servers s'). same_server v v'))"

abbreviation history :: "registry \<Rightarrow> registry \<Rightarrow> bool" where
  "history a b \<equiv> evolves (rg_tombs b) (rg_state a) (rg_state b)"

definition fleet_step :: "registry \<Rightarrow> registry \<Rightarrow> bool" where
  "fleet_step a b \<longleftrightarrow>
     rg_revision a \<le> rg_revision b \<and>
     (rg_revision a = rg_revision b \<longrightarrow> rg_state b = rg_state a \<and> rg_tombs b = rg_tombs a) \<and>
     rg_tombs a \<subseteq> rg_tombs b \<and>
     (fleet_inv a \<longrightarrow> fleet_inv b \<and> history a b)"

lemma same_server_refl [simp]: "same_server v v"
  by (simp add: same_server_def)

lemma same_server_trans: "same_server a b \<Longrightarrow> same_server b c \<Longrightarrow> same_server a c"
  by (simp add: same_server_def)

lemma same_host_refl [simp]: "same_host h h"
  by (simp add: same_host_def)

lemma fleet_step_refl [simp]: "fleet_step a a"
  unfolding fleet_step_def evolves_def by (blast intro: same_server_refl)

lemma history_trans:
  assumes "history a b" "history b c" "rg_tombs b \<subseteq> rg_tombs c"
  shows "history a c"
proof -
  have "v_id v \<in> rg_tombs c \<or> (\<exists>v'\<in>set (st_servers (rg_state c)). same_server v v')"
    if v: "v \<in> set (st_servers (rg_state a))" for v
  proof (cases "v_id v \<in> rg_tombs b")
    case True
    then show ?thesis using assms(3) by blast
  next
    case False
    then obtain v1 where v1: "v1 \<in> set (st_servers (rg_state b))" "same_server v v1"
      using assms(1) v by (auto simp: evolves_def)
    then have "v_id v1 \<in> rg_tombs c \<or> (\<exists>v'\<in>set (st_servers (rg_state c)). same_server v1 v')"
      using assms(2) by (auto simp: evolves_def)
    moreover have "v_id v1 = v_id v" using v1(2) by (simp add: same_server_def)
    ultimately show ?thesis using v1(2) same_server_trans by metis
  qed
  moreover have "st_deleting (rg_state a) \<longrightarrow> st_deleting (rg_state c) \<and>
      h_id ` set (st_hosts (rg_state c)) \<subseteq> h_id ` set (st_hosts (rg_state a))"
    using assms(1,2) unfolding evolves_def by (meson order_trans)
  ultimately show ?thesis unfolding evolves_def by blast
qed

lemma fleet_step_trans:
  assumes "fleet_step a b" "fleet_step b c"
  shows "fleet_step a c"
proof -
  have "rg_state c = rg_state a \<and> rg_tombs c = rg_tombs a" if "rg_revision a = rg_revision c"
    using assms that unfolding fleet_step_def by (metis order_antisym)
  moreover have "fleet_inv c \<and> history a c" if "fleet_inv a"
    using assms that history_trans unfolding fleet_step_def by blast
  ultimately show ?thesis
    using assms unfolding fleet_step_def by (meson order_trans)
qed

text \<open>Between two registries of one version nothing has changed that the version covers.\<close>

lemma fleet_step_between:
  assumes "fleet_step a b" "fleet_step b c" "rg_revision c = rg_revision a"
  shows "rg_state b = rg_state a" "rg_tombs b = rg_tombs a" "rg_state c = rg_state a" "rg_tombs c = rg_tombs a"
  using assms unfolding fleet_step_def by (metis order_antisym)+

section \<open>Commits that keep the invariant\<close>

lemma used_same_servers:
  "list_all2 same_server vs vs' \<Longrightarrow> used_servers vs' hid = used_servers vs hid"
  by (induction rule: list_all2_induct) (auto simp: same_server_def Let_def)

lemma map_eq_all2:
  "list_all2 R xs ys \<Longrightarrow> (\<And>x y. R x y \<Longrightarrow> f y = f x) \<Longrightarrow> map f ys = map f xs"
  by (induction rule: list_all2_induct) auto

lemma all2_source: "list_all2 R xs ys \<Longrightarrow> y \<in> set ys \<Longrightarrow> \<exists>x\<in>set xs. R x y"
  by (induction rule: list_all2_induct) auto

lemma all2_target: "list_all2 R xs ys \<Longrightarrow> x \<in> set xs \<Longrightarrow> \<exists>y\<in>set ys. R x y"
  by (induction rule: list_all2_induct) auto

lemma map_ids:
  "list_all2 same_server vs vs' \<Longrightarrow> map v_id vs' = map v_id vs"
  "list_all2 same_host hs hs' \<Longrightarrow> map h_id hs' = map h_id hs"
  by (auto simp: same_server_def same_host_def intro: map_eq_all2)

lemma image_ids:
  assumes "map f ys = map f xs"
  shows "f ` set ys = f ` set xs"
  using assms by (metis list.set_map)

text \<open>A new version that changes servers and hosts in place.\<close>

lemma update_ok:
  assumes "state_ok T s" "list_all2 same_server (st_servers s) (st_servers s')"
    "list_all2 same_host (st_hosts s) (st_hosts s')" "retirement_closed s'"
  shows "state_ok T s'"
proof -
  have ids: "map v_id (st_servers s') = map v_id (st_servers s)"
    "map h_id (st_hosts s') = map h_id (st_hosts s)"
    using assms(2,3) map_ids by blast+
  have used: "used s' hid = used s hid" for hid
    using used_same_servers [OF assms(2)] by (simp add: used_def)
  have "within_capacity s'"
    unfolding within_capacity_def
  proof
    fix h' assume "h' \<in> set (st_hosts s')"
    then obtain h where "h \<in> set (st_hosts s)" "same_host h h'"
      using all2_source [OF assms(3)] by blast
    then show "res_le (used s' (h_id h')) (h_capacity h')"
      using assms(1) used by (simp add: state_ok_def within_capacity_def same_host_def)
  qed
  moreover have "v_host v' \<in> h_id ` set (st_hosts s') \<and> res_nonneg (v_resources v') \<and> desired_ok (v_desired v')"
    if v': "v' \<in> set (st_servers s')" for v'
  proof -
    obtain v where "v \<in> set (st_servers s)" "same_server v v'"
      using all2_source [OF assms(2) v'] by blast
    then show ?thesis
      using assms(1) image_ids [OF ids(2)] by (auto simp: state_ok_def same_server_def)
  qed
  ultimately show ?thesis
    using assms(1,4) ids image_ids [OF ids(1)] image_ids [OF ids(2)] by (simp add: state_ok_def)
qed

lemma retained_same_servers:
  "list_all2 same_server vs vs' \<Longrightarrow> retained vs' hid \<Longrightarrow> retained vs hid"
  by (induction rule: list_all2_induct) (auto simp: retained_def same_server_def)

text \<open>Updating servers in place keeps retirement closed.\<close>

lemma servers_closed:
  assumes "retirement_closed s" "list_all2 same_server (st_servers s) (st_servers s')"
    "st_hosts s' = st_hosts s" "st_deleting s \<longrightarrow> st_deleting s'"
  shows "retirement_closed s'"
  using assms retained_same_servers [OF assms(2)] by (auto simp: retirement_closed_def)

lemma update_evolves:
  assumes "list_all2 same_server (st_servers s) (st_servers s')" "st_deleting s \<longrightarrow> st_deleting s'"
    and "h_id ` set (st_hosts s') \<subseteq> h_id ` set (st_hosts s)"
  shows "evolves T s s'"
  using assms(2,3) all2_target [OF assms(1)] by (auto simp: evolves_def)

lemma revision_irrelevant [simp]:
  "state_ok T (s\<lparr>st_revision := n\<rparr>) = state_ok T s"
  "evolves T s (s'\<lparr>st_revision := n\<rparr>) = evolves T s s'"
  "evolves T (s\<lparr>st_revision := n\<rparr>) s' = evolves T s s'"
  "within_limits (s\<lparr>st_revision := n\<rparr>) = within_limits s"
  by (simp_all add: state_ok_def within_capacity_def retirement_closed_def used_def evolves_def within_limits_def)

text \<open>A new version with one more server.\<close>

lemma place_ok:
  assumes ok: "state_ok T s" and h: "h \<in> set (st_hosts s)" "v_host v = h_id h" "\<not> h_retiring h"
    and new: "v_id v \<notin> T" "v_id v \<notin> v_id ` set (st_servers s)"
    and v: "res_nonneg (v_resources v)" "desired_ok (v_desired v)"
    and fits: "fits (h_capacity h) (used s (h_id h)) (v_resources v)"
  shows "state_ok T (s\<lparr>st_servers := st_servers s @ [v]\<rparr>)"
proof -
  have "within_capacity (s\<lparr>st_servers := st_servers s @ [v]\<rparr>)"
    unfolding within_capacity_def
  proof
    fix g assume g: "g \<in> set (st_hosts (s\<lparr>st_servers := st_servers s @ [v]\<rparr>))"
    have le: "res_le (used s (h_id g)) (h_capacity g)"
      using ok g by (simp add: state_ok_def within_capacity_def)
    show "res_le (used (s\<lparr>st_servers := st_servers s @ [v]\<rparr>) (h_id g)) (h_capacity g)"
    proof (cases "h_id g = h_id h")
      case True
      have "inj_on h_id (set (st_hosts s))" using ok by (simp add: state_ok_def distinct_map)
      then have "g = h" using True g h(1) by (simp add: inj_on_def)
      then show ?thesis
        using fits h(2) by (simp add: used_def used_servers_append fits_def res_add_def Let_def)
    next
      case False
      then show ?thesis
        using le h(2) by (simp add: used_def used_servers_append Let_def)
    qed
  qed
  moreover have "retirement_closed (s\<lparr>st_servers := st_servers s @ [v]\<rparr>)"
    unfolding retirement_closed_def
  proof (intro ballI impI)
    fix g assume g: "g \<in> set (st_hosts (s\<lparr>st_servers := st_servers s @ [v]\<rparr>))" "h_retiring g"
    have "inj_on h_id (set (st_hosts s))" using ok by (simp add: state_ok_def distinct_map)
    then have "h_id g \<noteq> v_host v" using g h by (auto simp: inj_on_def)
    then show "st_deleting (s\<lparr>st_servers := st_servers s @ [v]\<rparr>) \<or>
        \<not> retained (st_servers (s\<lparr>st_servers := st_servers s @ [v]\<rparr>)) (h_id g)"
      using ok g by (auto simp: state_ok_def retirement_closed_def retained_def)
  qed
  ultimately show ?thesis using ok h new v by (auto simp: state_ok_def)
qed

lemma place_evolves: "evolves T s (s\<lparr>st_servers := st_servers s @ vs\<rparr>)"
  by (auto simp: evolves_def intro: same_server_refl)

text \<open>A new version with one more host.\<close>

lemma add_host_ok:
  assumes ok: "state_ok T s" and h: "h_id h \<notin> h_id ` set (st_hosts s)" "h_id h \<noteq> []"
    and cap: "res_nonneg (h_capacity h)" "\<not> h_retiring h"
  shows "state_ok T (s\<lparr>st_hosts := st_hosts s @ [h]\<rparr>)"
proof -
  have "\<forall>v\<in>set (st_servers s). v_host v \<noteq> h_id h" using ok h(1) unfolding state_ok_def by metis
  then have "used s (h_id h) = zero_resources" by (simp add: used_def used_servers_none)
  then have "within_capacity (s\<lparr>st_hosts := st_hosts s @ [h]\<rparr>)"
    using ok cap by (auto simp: state_ok_def within_capacity_def used_def)
  moreover have "retirement_closed (s\<lparr>st_hosts := st_hosts s @ [h]\<rparr>)"
    using ok cap(2) by (auto simp: state_ok_def retirement_closed_def)
  ultimately show ?thesis using ok h by (auto simp: state_ok_def)
qed

text \<open>A new version without one server, whose ID becomes a tombstone.\<close>

lemma forget_server_ok:
  assumes ok: "state_ok T s" and k: "k < length (st_servers s)"
  shows "state_ok (insert (v_id (st_servers s ! k)) T) (s\<lparr>st_servers := remove_at k (st_servers s)\<rparr>)"
proof -
  have le: "res_le (used_servers (remove_at k (st_servers s)) hid) (used s hid)" for hid
    unfolding used_def using ok by (intro used_servers_remove_at) (simp add: state_ok_def)
  have "within_capacity (s\<lparr>st_servers := remove_at k (st_servers s)\<rparr>)"
    unfolding within_capacity_def
  proof
    fix h assume "h \<in> set (st_hosts (s\<lparr>st_servers := remove_at k (st_servers s)\<rparr>))"
    then have "res_le (used s (h_id h)) (h_capacity h)"
      using ok by (simp add: state_ok_def within_capacity_def)
    then show "res_le (used (s\<lparr>st_servers := remove_at k (st_servers s)\<rparr>) (h_id h)) (h_capacity h)"
      using le [of "h_id h"] by (auto simp: used_def)
  qed
  moreover have "distinct (map v_id (remove_at k (st_servers s)))"
    using ok by (simp add: map_remove_at distinct_remove_at state_ok_def)
  moreover have "v_id (st_servers s ! k) \<notin> v_id ` set (remove_at k (st_servers s))"
    using distinct_remove_at_notin [of "map v_id (st_servers s)" k] ok k
    by (simp add: state_ok_def flip: map_remove_at)
  moreover have "retirement_closed (s\<lparr>st_servers := remove_at k (st_servers s)\<rparr>)"
    using ok set_remove_at [of k "st_servers s"]
    by (auto simp: state_ok_def retirement_closed_def retained_def)
  ultimately show ?thesis
    using ok unfolding state_ok_def set_split_at [OF k] by auto
qed

lemma forget_server_evolves:
  assumes "state_ok T s" "k < length (st_servers s)"
  shows "evolves (insert (v_id (st_servers s ! k)) T) s (s\<lparr>st_servers := remove_at k (st_servers s)\<rparr>)"
proof -
  have "v = st_servers s ! k \<or> v \<in> set (remove_at k (st_servers s))" if "v \<in> set (st_servers s)" for v
    using that set_split_at [OF assms(2)] by blast
  then show ?thesis unfolding evolves_def by (auto intro: same_server_refl)
qed

text \<open>A new version without one host that holds no server.\<close>

lemma drop_host_ok:
  assumes ok: "state_ok T s" and k: "k < length (st_hosts s)"
    and empty: "\<forall>v\<in>set (st_servers s). v_host v \<noteq> h_id (st_hosts s ! k)"
  shows "state_ok T (s\<lparr>st_hosts := remove_at k (st_hosts s)\<rparr>)"
proof -
  have split: "set (st_hosts s) = insert (st_hosts s ! k) (set (remove_at k (st_hosts s)))"
    using k by (rule set_split_at)
  have "distinct (map h_id (remove_at k (st_hosts s)))"
    using ok by (simp add: map_remove_at distinct_remove_at state_ok_def)
  then show ?thesis
    using ok empty split by (auto simp: state_ok_def within_capacity_def retirement_closed_def used_def)
qed

section \<open>What choosing a host yields\<close>

lemma candidates_sound:
  "candidates sc s req hs w = (cs, w') \<Longrightarrow> (h, q) \<in> set cs \<Longrightarrow> h \<in> set hs \<and> eligible (sc_config sc) s req h"
proof (induction hs arbitrary: cs w)
  case Nil
  then show ?case by simp
next
  case (Cons g hs)
  then show ?case
    by (fastforce simp: Let_def split: if_splits sum.splits prod.splits option.splits)
qed

lemma choose_sound:
  assumes "choose_host sc s req w = (h, w')"
  shows "h = zero_host \<or> h \<in> set (st_hosts s) \<and> eligible (sc_config sc) s req h"
proof -
  obtain cs w1 where cs: "candidates sc s req (st_hosts s) w = (cs, w1)" by fastforce
  show ?thesis
  proof (cases "sort_key candidate_order cs")
    case Nil
    then show ?thesis using assms cs by (simp add: choose_host_def)
  next
    case (Cons c rest)
    then have "c \<in> set cs" by (metis list.set_intros(1) set_sort)
    then show ?thesis
      using assms cs Cons candidates_sound [OF cs, of h "snd c"] by (cases c) (auto simp: choose_host_def)
  qed
qed

lemma new_server_fields:
  assumes "new_server sc i game name h res w = (v, w')"
  shows "v_id v = i \<and> v_game v = game \<and> v_name v = name \<and> v_host v = h_id h \<and> v_resources v = res \<and>
    v_desired v = ''running''"
  using assms by (auto simp: new_server_def Let_def split: prod.splits)

section \<open>The scheduler among other clients\<close>

text \<open>
  The world of a scheduler: a store that keeps its contract with \<open>fleet_step\<close> as the other
  clients' behaviour, calls of EC2 and of the runtime that leave the registry to the other clients,
  random tokens that do not collide with one of the at most 16 saved hosts, and a sound configuration.
\<close>

locale scheduler_world = fleet_store "sc_store sc" invar reg fleet_step
  for sc :: "'w scheduler" and invar :: "'w \<Rightarrow> bool" and reg :: "'w \<Rightarrow> registry" +
  assumes inspect_frame: "invar w \<Longrightarrow> mc_inspect (sc_machines sc) h w = (im, w') \<Longrightarrow>
      invar w' \<and> fleet_step (reg w) (reg w')"
    and wake_frame: "invar w \<Longrightarrow> mc_wake (sc_machines sc) h w = (ws, w') \<Longrightarrow>
      invar w' \<and> fleet_step (reg w) (reg w')"
    and stop_frame: "invar w \<Longrightarrow> mc_stop (sc_machines sc) h w = (su, w') \<Longrightarrow>
      invar w' \<and> fleet_step (reg w) (reg w')"
    and delete_frame: "invar w \<Longrightarrow> mc_delete (sc_machines sc) h w = (su, w') \<Longrightarrow>
      invar w' \<and> fleet_step (reg w) (reg w')"
    and now_frame: "invar w \<Longrightarrow> now sc w = (t, w') \<Longrightarrow> invar w' \<and> fleet_step (reg w) (reg w')"
    and token_frame: "invar w \<Longrightarrow> new_token sc w = (tok, w') \<Longrightarrow> invar w' \<and> fleet_step (reg w) (reg w')"
    and token_fresh: "invar w \<Longrightarrow> new_token sc w = (tok, w') \<Longrightarrow>
      length (st_hosts (rg_state (reg w'))) \<le> 16 \<Longrightarrow>
      ''host-'' @ take 16 tok \<notin> h_id ` set (st_hosts (rg_state (reg w')))"
    and valid: "sound_config (sc_config sc)"
begin

abbreviation adv :: "'w \<Rightarrow> 'w \<Rightarrow> bool" where
  "adv w w' \<equiv> invar w' \<and> fleet_step (reg w) (reg w')"

lemma adv_refl: "invar w \<Longrightarrow> adv w w"
  by simp

lemma adv_trans [trans]: "adv a b \<Longrightarrow> adv b c \<Longrightarrow> adv a c"
  using fleet_step_trans by blast

text \<open>
  Save and forget against the version of a registry \<open>a\<close> seen before: where the write took
  effect, nothing the version covers had changed since \<open>a\<close>.
\<close>

lemma commit_adv:
  assumes "fleet_step a (reg w)" "invar w'"
    and effect: "takes_effect fleet_step ok f (reg w) (reg w')"
    and ok: "\<And>m. ok m \<Longrightarrow> rg_revision m = rg_revision a"
    and f: "\<And>m. rg_revision (f m) = rg_revision a + 1" "\<And>m. rg_tombs m \<subseteq> rg_tombs (f m)"
    and good: "\<And>m. fleet_step (reg w) m \<Longrightarrow> ok m \<Longrightarrow> rg_state m = rg_state a \<Longrightarrow>
      rg_tombs m = rg_tombs a \<Longrightarrow> rg_state (reg w) = rg_state a \<Longrightarrow> rg_tombs (reg w) = rg_tombs a \<Longrightarrow>
      fleet_inv m \<Longrightarrow> fleet_inv (f m) \<and> history m (f m)"
  shows "adv w w'"
proof -
  obtain m where m: "fleet_step (reg w) m" "ok m" "fleet_step (f m) (reg w')"
    using effect by auto
  have same: "rg_state m = rg_state a" "rg_tombs m = rg_tombs a"
    "rg_state (reg w) = rg_state a" "rg_tombs (reg w) = rg_tombs a"
    using fleet_step_between [OF assms(1) m(1) ok [OF m(2)]] by simp_all
  have "fleet_step m (f m)"
    using ok [OF m(2)] f [of m] good [OF m(1,2) same] unfolding fleet_step_def by auto
  then show ?thesis
    using m(1,3) assms(2) fleet_step_trans by blast
qed

lemma save_adv:
  assumes "invar w" "fleet_step a (reg w)" "st_revision s = rg_revision a"
    and call: "sto_save (sc_store sc) s (st_revision s) w = (r, w')"
    and good: "\<And>m. fleet_step (reg w) m \<Longrightarrow> rg_state m = rg_state a \<Longrightarrow> rg_tombs m = rg_tombs a \<Longrightarrow>
      rg_state (reg w) = rg_state a \<Longrightarrow> rg_tombs (reg w) = rg_tombs a \<Longrightarrow> state_ok (rg_tombs a) (rg_state a) \<Longrightarrow>
      state_ok (rg_tombs a) s \<and> evolves (rg_tombs a) (rg_state a) s"
  shows "adv w w'"
proof -
  have inv: "invar w'" using save_invar [OF assms(1) call] .
  have effect: "adv w w'"
    if "takes_effect fleet_step (\<lambda>m. rg_revision m = st_revision s \<and> within_limits s)
          (commit s (st_revision s)) (reg w) (reg w')"
    by (rule commit_adv [OF assms(2) inv that]) (use good assms(3) in \<open>simp_all add: commit_def\<close>)
  show ?thesis
  proof (cases r)
    case (Inl e)
    then show ?thesis using save_error [OF assms(1), of s _ e w'] call effect inv by blast
  next
    case (Inr u)
    then show ?thesis using save_ok [OF assms(1), of s _ u w'] call effect by blast
  qed
qed

lemma forget_adv:
  assumes "invar w" "fleet_step a (reg w)" "p = rg_revision a"
    and call: "sto_forget (sc_store sc) s p i w = (r, w')"
    and good: "\<And>m. fleet_step (reg w) m \<Longrightarrow> rg_state m = rg_state a \<Longrightarrow> rg_tombs m = rg_tombs a \<Longrightarrow>
      state_ok (rg_tombs a) (rg_state a) \<Longrightarrow>
      state_ok (insert i (rg_tombs a)) s \<and> evolves (insert i (rg_tombs a)) (rg_state a) s"
  shows "adv w w'"
proof -
  have inv: "invar w'" using forget_invar [OF assms(1) call] .
  have effect: "adv w w'"
    if "takes_effect fleet_step
          (\<lambda>m. rg_revision m = p \<and> within_limits s \<and> valid_id i \<and> i \<notin> v_id ` set (st_servers s))
          (commit_forget s p i) (reg w) (reg w')"
    by (rule commit_adv [OF assms(2) inv that])
      (use good assms(3) in \<open>auto simp: commit_forget_def\<close>)
  show ?thesis
  proof (cases r)
    case (Inl e)
    then show ?thesis using forget_error [OF assms(1), of s p i e w'] call effect inv by blast
  next
    case (Inr u)
    then show ?thesis using forget_ok [OF assms(1), of s p i u w'] call effect by blast
  qed
qed

lemma ended_adv: "invar w \<Longrightarrow> ended sc s w = (b, w') \<Longrightarrow> adv w w'"
  using now_frame by (auto simp: ended_def split: if_splits prod.splits)

subsection \<open>Create\<close>

lemma candidates_adv: "invar w \<Longrightarrow> candidates sc s req hs w = (cs, w') \<Longrightarrow> adv w w'"
proof (induction hs arbitrary: cs w)
  case Nil
  then show ?case by simp
next
  case (Cons h hs)
  obtain im w1 where im: "mc_inspect (sc_machines sc) h w = (im, w1)" by fastforce
  have w1: "adv w w1" using inspect_frame [OF Cons.prems(1) im] .
  consider cs' where "candidates sc s req hs w = (cs', w')" | cs' where "candidates sc s req hs w1 = (cs', w')"
    using Cons.prems(2) im
    by (auto simp: Let_def split: if_splits sum.splits prod.splits option.splits)
  then show ?case
    by cases (use Cons.IH Cons.prems(1) w1 adv_trans in blast)+
qed

lemma choose_adv: "invar w \<Longrightarrow> choose_host sc s req w = (h, w') \<Longrightarrow> adv w w'"
  using candidates_adv by (fastforce simp: choose_host_def Let_def split: prod.splits list.splits)

lemma token_now_adv: "invar w \<Longrightarrow> new_token sc w = (t, w1) \<Longrightarrow> now sc w1 = (t', w2) \<Longrightarrow> adv w w2"
  using token_frame now_frame fleet_step_trans by blast

lemma new_server_adv:
  assumes "invar w" "new_server sc i game name h res w = (v, w')"
  shows "adv w w'"
proof -
  obtain t w1 where 1: "new_token sc w = (t, w1)" by fastforce
  obtain t' w2 where 2: "now sc w1 = (t', w2)" by fastforce
  have "w' = w2" using assms(2) 1 2 by (simp add: new_server_def)
  then show ?thesis using token_now_adv [OF assms(1) 1 2] by simp
qed

lemma new_host_fields:
  assumes "invar w" "new_host sc w = (h, w')"
  obtains wt where "adv w wt" "adv wt w'"
    "length (st_hosts (rg_state (reg wt))) \<le> 16 \<Longrightarrow> h_id h \<notin> h_id ` set (st_hosts (rg_state (reg wt)))"
    "h_id h \<noteq> []" "h_capacity h = fc_capacity (sc_config sc)" "\<not> h_retiring h"
proof -
  obtain t1 w1 where 1: "new_token sc w = (t1, w1)" by fastforce
  obtain t2 w2 where 2: "new_token sc w1 = (t2, w2)" by fastforce
  obtain t w3 where 3: "now sc w2 = (t, w3)" by fastforce
  have w1: "adv w w1" using token_frame [OF assms(1) 1] .
  have w': "w' = w3" using assms(2) 1 2 3 by (simp add: new_host_def Let_def)
  have "adv w1 w'" using token_now_adv [OF _ 2 3] w1 w' by blast
  then show thesis
    using that [OF w1] token_fresh [OF assms(1) 1] assms(2) 1 2 3 by (auto simp: new_host_def Let_def)
qed

lemma create_commit_adv:
  assumes "invar w" "fleet_step a (reg w)" "st_revision s = rg_revision a"
    and base: "st_servers s = st_servers (rg_state a)" "st_deleting s = st_deleting (rg_state a)"
      "st_deleting s \<longrightarrow> st_hosts s = st_hosts (rg_state a)"
    and h: "h \<in> set (st_hosts s)" "\<not> h_retiring h" "res_nonneg res"
    and i: "i \<notin> v_id ` set (st_servers s)"
    and good: "rg_state (reg w) = rg_state a \<Longrightarrow> rg_tombs (reg w) = rg_tombs a \<Longrightarrow>
      state_ok (rg_tombs a) (rg_state a) \<Longrightarrow>
      state_ok (rg_tombs a) s \<and> i \<notin> rg_tombs a \<and> fits (h_capacity h) (used s (h_id h)) res"
    and call: "create_commit sc i game name res s h w = (r, w')"
  shows "adv w w'"
proof -
  obtain v w1 where v: "new_server sc i game name h res w = (v, w1)" by fastforce
  define s' where "s' = s\<lparr>st_servers := st_servers s @ [v]\<rparr>"
  obtain q where q: "sto_save (sc_store sc) s' (st_revision s') w1 = (q, w')"
    using call v by (fastforce simp: create_commit_def s'_def Let_def split: prod.splits sum.splits)
  have w1: "adv w w1" using new_server_adv [OF assms(1) v] .
  note f = new_server_fields [OF v]
  have "adv w1 w'"
  proof (rule save_adv [of w1 a s' q w'])
    show "fleet_step a (reg w1)" using assms(2) w1 fleet_step_trans by blast
    show "state_ok (rg_tombs a) s' \<and> evolves (rg_tombs a) (rg_state a) s'"
      if m: "rg_state (reg w1) = rg_state a" "rg_tombs (reg w1) = rg_tombs a" "state_ok (rg_tombs a) (rg_state a)"
    proof -
      have "rg_state (reg w) = rg_state a" "rg_tombs (reg w) = rg_tombs a"
        using fleet_step_between [OF assms(2), of "reg w1"] w1 m(1) by simp_all
      then have "state_ok (rg_tombs a) s" "i \<notin> rg_tombs a" "fits (h_capacity h) (used s (h_id h)) res"
        using good m(3) by simp_all
      then have "state_ok (rg_tombs a) s'"
        unfolding s'_def using h i f by (intro place_ok [where h = h]) (auto simp: desired_ok_def)
      moreover have "evolves (rg_tombs a) (rg_state a) s'"
        using base by (auto simp: evolves_def s'_def intro: same_server_refl)
      ultimately show ?thesis by blast
    qed
  qed (use w1 q assms(3) in \<open>simp_all add: s'_def\<close>)
  then show ?thesis using w1 adv_trans by blast
qed

lemma create_place_adv:
  assumes "invar w" "fleet_step a (reg w)" "s = rg_state a" and opened: "\<not> st_deleting s"
    and res: "res_nonneg res" "res_le res (fc_capacity (sc_config sc))"
    and i: "i \<notin> v_id ` set (st_servers s)"
    and tomb: "rg_state (reg w) = rg_state a \<Longrightarrow> rg_tombs (reg w) = rg_tombs a \<Longrightarrow> i \<notin> rg_tombs a"
    and call: "create_place sc i game name res s w = (r, w')"
  shows "adv w w'"
proof -
  obtain h w1 where c: "choose_host sc s res w = (h, w1)" by fastforce
  have w1: "adv w w1" using choose_adv [OF assms(1) c] .
  have a1: "fleet_step a (reg w1)" using assms(2) w1 fleet_step_trans by blast
  have tomb1: "i \<notin> rg_tombs a" if "rg_state (reg w1) = rg_state a"
    using tomb fleet_step_between [OF assms(2), of "reg w1"] w1 that by simp
  consider (none) "h_id h = []" "fc_max_hosts (sc_config sc) \<le> int (length (st_hosts s))"
    | (fresh) "h_id h = []" "\<not> fc_max_hosts (sc_config sc) \<le> int (length (st_hosts s))"
    | (found) "h_id h \<noteq> []" by blast
  then show ?thesis
  proof cases
    case none
    then show ?thesis using call c w1 by (simp add: create_place_def)
  next
    case found
    then have "h \<in> set (st_hosts s)" "eligible (sc_config sc) s res h"
      using choose_sound [OF c] by (auto simp: zero_host_def)
    moreover have "create_commit sc i game name res s h w1 = (r, w')"
      using call c found by (simp add: create_place_def)
    ultimately have "adv w1 w'"
      using create_commit_adv [of w1 a s h res i game name r w'] w1 a1 assms(3) res(1) i tomb1
      by (simp add: eligible_def)
    then show ?thesis using w1 adv_trans by blast
  next
    case fresh
    obtain g w2 where g: "new_host sc w1 = (g, w2)" by fastforce
    have "invar w1" using w1 by blast
    then obtain wt where wt: "adv w1 wt" "adv wt w2"
      "length (st_hosts (rg_state (reg wt))) \<le> 16 \<Longrightarrow> h_id g \<notin> h_id ` set (st_hosts (rg_state (reg wt)))"
      "h_id g \<noteq> []" "h_capacity g = fc_capacity (sc_config sc)" "\<not> h_retiring g"
      using new_host_fields [OF _ g] by blast
    have w2: "adv w1 w2" using adv_trans [OF wt(1,2)] .
    define s1 where "s1 = s\<lparr>st_hosts := st_hosts s @ [g]\<rparr>"
    have cap: "res_nonneg (fc_capacity (sc_config sc))" using res by auto
    have few: "length (st_hosts s) \<le> 16"
      using fresh(2) valid by (simp add: sound_config_def)
    have "adv w2 w'"
    proof (rule create_commit_adv [of w2 a s1 g res i game name r w'])
      show "fleet_step a (reg w2)" using a1 w2 fleet_step_trans by blast
      show "state_ok (rg_tombs a) s1 \<and> i \<notin> rg_tombs a \<and> fits (h_capacity g) (used s1 (h_id g)) res"
        if m: "rg_state (reg w2) = rg_state a" "state_ok (rg_tombs a) (rg_state a)"
      proof -
        have "rg_state (reg w1) = rg_state a"
          using fleet_step_between [OF a1, of "reg w2"] w2 m(1) by simp
        moreover have "rg_state (reg wt) = rg_state a"
          using fleet_step_between [of a "reg wt" "reg w2"] a1 wt(1,2) m(1) fleet_step_trans by simp
        ultimately have new: "h_id g \<notin> h_id ` set (st_hosts s)" "i \<notin> rg_tombs a"
          using tomb1 wt(3) assms(3) few by simp_all
        then have "\<forall>v\<in>set (st_servers s). v_host v \<noteq> h_id g"
          using m(2) assms(3) unfolding state_ok_def by metis
        then have "used s1 (h_id g) = zero_resources"
          by (simp add: s1_def used_def used_servers_none)
        then show ?thesis
          using new add_host_ok [OF m(2), of g] wt(4,5,6) cap res assms(3) by (simp add: s1_def fits_def)
      qed
    qed (use w2 wt(6) assms(3) opened res i call c g fresh in \<open>auto simp: s1_def create_place_def\<close>)
    then show ?thesis using w1 w2 adv_trans by blast
  qed
qed

lemma find_game_resources:
  assumes "List.find (\<lambda>g. g_id g = game) (fc_games (sc_config sc)) = Some g"
  shows "res_nonneg (g_resources g)" "res_le (g_resources g) (fc_capacity (sc_config sc))"
proof -
  have "g \<in> set (fc_games (sc_config sc))" using find_SomeD [OF assms] by blast
  then show "res_nonneg (g_resources g)" "res_le (g_resources g) (fc_capacity (sc_config sc))"
    using valid by (auto simp: sound_config_def)
qed

lemma create_attempt_adv:
  assumes "invar w" and res: "res_nonneg res" "res_le res (fc_capacity (sc_config sc))"
    and call: "create_attempt sc i game name res w = (r, w')"
  shows "adv w w'"
proof -
  obtain l w1 where l: "sto_load (sc_store sc) w = (l, w1)" by fastforce
  have w1: "adv w w1" using load_frame [OF assms(1) l] .
  show ?thesis
  proof (cases l)
    case (Inl e)
    then show ?thesis using call l w1 by (simp add: create_attempt_def)
  next
    case (Inr s)
    have s: "s = rg_state (reg w1)" using load_state [OF assms(1)] l Inr by simp
    obtain over w2 where o: "ended sc s w1 = (over, w2)" by fastforce
    have w2: "adv w1 w2" using ended_adv [OF _ o] w1 by blast
    obtain t w3 where t: "sto_tombstoned (sc_store sc) i w2 = (t, w3)" by fastforce
    have w3: "adv w2 w3" using tombstoned_frame [OF _ t] w2 by blast
    consider "w' = w2" | "w' = w3"
      | (place) "t = Inr False" "create_place sc i game name res s w3 = (r, w')" "i \<notin> v_id ` set (st_servers s)" "\<not> over"
      using call l Inr o t
      by (auto simp: create_attempt_def find_None_iff split: if_splits option.splits sum.splits)
    then show ?thesis
    proof cases
      case place
      have "i \<notin> rg_tombs (reg w3)" using tombstoned_value [of w2 i False w3] t place(1) w2 by simp
      moreover have "\<not> st_deleting s" using o place(4) by (auto simp: ended_def split: if_splits)
      ultimately have "adv w3 w'"
        using create_place_adv [of w3 "reg w1" s res i game name r w'] w2 w3 s res place(2,3)
          fleet_step_trans by metis
      then show ?thesis using w1 w2 w3 adv_trans by blast
    qed (use w1 w2 w3 adv_trans in blast)+
  qed
qed

lemma create_loop_adv:
  assumes "invar w" and res: "res_nonneg res" "res_le res (fc_capacity (sc_config sc))"
    and "create_loop n sc i game name res w = (r, w')"
  shows "adv w w'"
  using assms(1,4)
proof (induction n arbitrary: w)
  case 0
  then show ?case by simp
next
  case (Suc n)
  obtain q w1 where q: "create_attempt sc i game name res w = (q, w1)" by fastforce
  have w1: "adv w w1" using create_attempt_adv [OF Suc.prems(1) res q] .
  then show ?case
    using Suc.IH [of w1] Suc.prems(2) q adv_trans by (cases q) auto
qed

lemma create_adv:
  assumes "invar w" "create sc i game name w = (r, w')"
  shows "adv w w'"
proof (cases "List.find (\<lambda>g. g_id g = game) (fc_games (sc_config sc))")
  case None
  then show ?thesis using assms by (simp add: create_def)
next
  case (Some g)
  show ?thesis
    using assms create_loop_adv [OF assms(1) find_game_resources [OF Some], of 8 i game name r w'] Some
    by (auto simp: create_def split: if_splits)
qed

end

end
