(* ===== verification/FleetReconcile.thy ===== *)
theory FleetReconcile
  imports FleetSafety
begin

text \<open>
  The rest of the scheduler's safety: \<open>Action\<close>, \<open>updateHost\<close>, \<open>forgetHost\<close>
  and \<open>Reconcile\<close> keep the promise \<open>fleet_step\<close> to the other clients, and a pass of
  \<open>Reconcile\<close> leaves every loop.
\<close>

section \<open>Facts about the loops\<close>

lemma list_all2_same_refl [simp]:
  "list_all2 same_server vs vs" "list_all2 same_host hs hs"
  by (simp_all add: list.rel_refl)

lemma retiring_index_sound:
  assumes "retiring_index hid k found hs = Inr (Some i)" "found \<noteq> Some i"
  shows "k \<le> i \<and> i - k < length hs \<and> h_id (hs ! (i - k)) = hid \<and> h_retiring (hs ! (i - k))"
  using assms
proof (induction hs arbitrary: k found)
  case Nil
  then show ?case by simp
next
  case (Cons h hs)
  show ?case
  proof (cases "h_id h = hid \<and> i = k")
    case True
    then show ?thesis using Cons.prems by (auto split: if_splits)
  next
    case False
    then have "\<exists>f. retiring_index hid (Suc k) f hs = Inr (Some i) \<and> f \<noteq> Some i"
      using Cons.prems by (auto split: if_splits)
    then have "Suc k \<le> i \<and> i - Suc k < length hs \<and> h_id (hs ! (i - Suc k)) = hid \<and> h_retiring (hs ! (i - Suc k))"
      using Cons.IH by blast
    moreover from this have "i - k = Suc (i - Suc k)" by arith
    ultimately show ?thesis by simp
  qed
qed

lemma update_all2:
  assumes "k < length xs" "R (xs ! k) y" "\<And>x. R x x"
  shows "list_all2 R xs (xs[k := y])"
  using assms by (auto simp: list_all2_conv_all_nth nth_list_update)

lemma same_host_retire: "same_host h (retire b vs h)"
  by (simp add: retire_def same_host_def)

lemma retire_closed:
  assumes "\<forall>h\<in>set hs. h_retiring h \<longrightarrow> b \<or> \<not> retained vs (h_id h)" "h' \<in> set (map (retire b vs) hs)"
    "h_retiring h'"
  shows "b \<or> \<not> retained vs (h_id h')"
  using assms by (auto simp: retire_def)

lemma mark_ready_same:
  "mark_ready sc r v w = ((v', b), w') \<Longrightarrow> same_server v v'"
  by (auto simp: mark_ready_def same_server_def Let_def split: if_splits prod.splits)

lemma set_error_same: "same_server v (set_error b f v)"
  by (simp add: set_error_def same_server_def)

lemma stop_same: "v_desired v = ''running'' \<Longrightarrow> same_server u v \<Longrightarrow> v_desired u = ''running'' \<Longrightarrow>
    same_server u (v\<lparr>v_desired := ''stopped''\<rparr>)"
  by (simp add: same_server_def desired_ok_def)

section \<open>The pass over the servers\<close>

text \<open>
  What the pass does to the server list: every server keeps its identity, and if the pass ends
  early it is to forget one that was to be deleted and whose removal its worker confirmed.
\<close>

lemma reconcile_servers_shape:
  assumes "reconcile_servers sc deleting rs acc vs changed w = (r, w')"
  shows "case r of
      Inr (vs', c) \<Rightarrow> \<exists>ws. vs' = acc @ ws \<and> list_all2 same_server vs ws
    | Inl (vs', i) \<Rightarrow> \<exists>k ws. k < length vs \<and> vs' = acc @ ws @ drop (Suc k) vs \<and>
        list_all2 same_server (take k vs) ws \<and> v_id (vs ! k) = i \<and>
        v_desired (vs ! k) = ''deleted'' \<and> \<not> deleting \<and>
        rp_phase (by_id rs i) = ''deleted'' \<and> report_current (vs ! k) (by_id rs i)"
  using assms
proof (induction vs arbitrary: acc changed w)
  case Nil
  then show ?case by auto
next
  case (Cons v vs)
  let ?r = "by_id rs (v_id v)"
  obtain v1 rd w1 where m: "mark_ready sc ?r v w = ((v1, rd), w1)" by (metis prod.collapse)
  obtain f w2 where f: "request_failure sc ?r v1 w1 = (f, w2)" by fastforce
  let ?v2 = "set_error deleting f v1"
  have same: "same_server v ?v2"
    using mark_ready_same [OF m] set_error_same same_server_trans by blast
  have des: "v_desired ?v2 = v_desired v"
    using m by (auto simp: mark_ready_def set_error_def Let_def split: if_splits prod.splits)
  have step: "case r of
      Inr (vs', c) \<Rightarrow> \<exists>ws. vs' = acc @ ws \<and> list_all2 same_server (v # vs) ws
    | Inl (vs', i) \<Rightarrow> \<exists>k ws. k < length (v # vs) \<and> vs' = acc @ ws @ drop (Suc k) (v # vs) \<and>
        list_all2 same_server (take k (v # vs)) ws \<and> v_id ((v # vs) ! k) = i \<and>
        v_desired ((v # vs) ! k) = ''deleted'' \<and> \<not> deleting \<and>
        rp_phase (by_id rs i) = ''deleted'' \<and> report_current ((v # vs) ! k) (by_id rs i)"
    if u: "same_server v u" and rec: "reconcile_servers sc deleting rs (acc @ [u]) vs c w2 = (r, w')" for u c
  proof (cases r)
    case (Inr p)
    obtain vs' c' where p: "p = (vs', c')" by fastforce
    obtain ws where "vs' = (acc @ [u]) @ ws" "list_all2 same_server vs ws"
      using Cons.IH [OF rec] Inr p by auto
    then have "vs' = acc @ (u # ws) \<and> list_all2 same_server (v # vs) (u # ws)" using u by simp
    then show ?thesis using Inr p by (auto simp del: list_all2_Cons1)
  next
    case (Inl p)
    obtain vs' i where p: "p = (vs', i)" by fastforce
    obtain k ws where k: "k < length vs" "vs' = (acc @ [u]) @ ws @ drop (Suc k) vs"
      "list_all2 same_server (take k vs) ws" "v_id (vs ! k) = i" "v_desired (vs ! k) = ''deleted''" "\<not> deleting"
      "rp_phase (by_id rs i) = ''deleted''" "report_current (vs ! k) (by_id rs i)"
      using Cons.IH [OF rec] Inl p by auto
    have "Suc k < length (v # vs) \<and> vs' = acc @ (u # ws) @ drop (Suc (Suc k)) (v # vs) \<and>
        list_all2 same_server (take (Suc k) (v # vs)) (u # ws)"
      using k u by simp
    moreover have "(v # vs) ! Suc k = vs ! k" by simp
    ultimately have "Suc k < length (v # vs) \<and> vs' = acc @ (u # ws) @ drop (Suc (Suc k)) (v # vs) \<and>
        list_all2 same_server (take (Suc k) (v # vs)) (u # ws) \<and> v_id ((v # vs) ! Suc k) = i \<and>
        v_desired ((v # vs) ! Suc k) = ''deleted'' \<and> \<not> deleting \<and>
        rp_phase (by_id rs i) = ''deleted'' \<and> report_current ((v # vs) ! Suc k) (by_id rs i)"
      using k(4-8) by metis
    then show ?thesis unfolding Inl p by (simp only: sum.case prod.case) blast
  qed
  show ?case
  proof (cases "report_current v ?r \<and> \<not> deleting \<and> v_desired v = ''deleted'' \<and>
      rp_desired ?r = ''deleted'' \<and> rp_phase ?r = ''deleted''")
    case True
    then have "r = Inl (acc @ vs, v_id v)"
      using Cons.prems m f by (simp add: Let_def)
    then show ?thesis using True by (auto intro!: exI [of _ "0::nat"])
  next
    case False
    consider "reconcile_servers sc deleting rs (acc @ [?v2]) vs (changed \<or> rd \<or> \<not> deleting \<and> v_error v \<noteq> f) w2 = (r, w')"
      | "v_desired v = ''running''" "reconcile_servers sc deleting rs (acc @ [?v2\<lparr>v_desired := ''stopped''\<rparr>]) vs True w2 = (r, w')"
      using Cons.prems m f False by (auto simp: Let_def split: if_splits)
    then show ?thesis
    proof cases
      case 1
      then show ?thesis using step same by blast
    next
      case 2
      have "same_server v (?v2\<lparr>v_desired := ''stopped''\<rparr>)"
        by (rule stop_same) (use 2(1) des same in simp_all)
      then show ?thesis using step 2(2) by blast
    qed
  qed
qed


section \<open>The operations among other clients\<close>

context scheduler_world
begin

subsection \<open>Action\<close>

lemma action_repeat_adv: "invar w \<Longrightarrow> action_repeat sc v d w = (r, w') \<Longrightarrow> adv w w'"
proof -
  assume inv: "invar w" and call: "action_repeat sc v d w = (r, w')"
  obtain q w1 where q: "sto_reports (sc_store sc) w = (q, w1)" by fastforce
  have w1: "adv w w1" using reports_frame [OF inv q] .
  obtain t w2 where t: "now sc w1 = (t, w2)" by fastforce
  have w2: "adv w1 w2" using now_frame [OF _ t] w1 by blast
  have "w' = w1 \<or> w' = w2" using call q t by (auto simp: action_repeat_def split: sum.splits)
  then show "adv w w'" using w1 w2 adv_trans by blast
qed

lemma renew_laws:
  assumes "invar w" "renew sc d v w = (v', w')" "desired_ok d" "v_desired v = ''deleted'' \<longrightarrow> d = ''deleted''"
  shows "adv w w' \<and> same_server v v'"
proof -
  obtain t w1 where 1: "new_token sc w = (t, w1)" by fastforce
  obtain t' w2 where 2: "now sc w1 = (t', w2)" by fastforce
  have "w' = w2" "v' = v\<lparr>v_desired := d, v_request_id := t, v_requested_at := unix t', v_ready_at := 0, v_error := []\<rparr>"
    using assms(2) 1 2 by (simp_all add: renew_def)
  then show ?thesis
    using token_now_adv [OF assms(1) 1 2] assms(3,4) by (simp add: same_server_def)
qed

lemma action_scan_laws:
  assumes "invar w" "action_scan sc i d vs w = (r, w')" "desired_ok d"
  shows "adv w w' \<and> (\<forall>vs' b. r = Inr (vs', b) \<longrightarrow> list_all2 same_server vs vs')"
  using assms(1,2)
proof (induction vs arbitrary: r w w')
  case Nil
  then show ?case by auto
next
  case (Cons v vs)
  obtain q w1 where q: "(if v_desired v = d then action_repeat sc v d w else (Inr True, w)) = (q, w1)"
    by fastforce
  have w1: "adv w w1"
    using q Cons.prems(1) action_repeat_adv [OF Cons.prems(1), of v d q w1] adv_refl [OF Cons.prems(1)]
    by (auto split: if_splits)
  obtain v' w2 where n: "renew sc d v w1 = (v', w2)" by fastforce
  obtain r2 w2' where s2: "action_scan sc i d vs w2 = (r2, w2')" by fastforce
  obtain r0 w0 where s0: "action_scan sc i d vs w = (r0, w0)" by fastforce
  show ?case
  proof (cases "v_id v = i")
    case False
    then show ?thesis using Cons.IH [OF Cons.prems(1) s0] Cons.prems(2) s0
      by (auto split: sum.splits)
  next
    case True
    show ?thesis
    proof (cases "v_desired v = ''deleted'' \<and> d \<noteq> ''deleted'' \<or> (\<exists>e. q = Inl e) \<or> q = Inr False")
      case True
      then show ?thesis using Cons.prems q w1 \<open>v_id v = i\<close> by (auto split: if_splits)
    next
      case False
      then have "q = Inr True" by (cases q) auto
      have n': "adv w1 w2 \<and> same_server v v'" using renew_laws [OF _ n assms(3)] w1 False by blast
      moreover have "adv w2 w2' \<and> (\<forall>vs' b. r2 = Inr (vs', b) \<longrightarrow> list_all2 same_server vs vs')"
        using Cons.IH [OF _ s2] n' by blast
      moreover have "w' = w2' \<and> (\<forall>vs' b. r = Inr (vs', b) \<longrightarrow> (\<exists>us c. r2 = Inr (us, c) \<and> vs' = v' # us))"
        using Cons.prems(2) q n s2 \<open>q = Inr True\<close> False \<open>v_id v = i\<close>
        by (auto simp: Let_def split: sum.splits)
      ultimately show ?thesis using w1 adv_trans by (metis list.rel_inject(2))
    qed
  qed
qed

lemma action_attempt_adv:
  assumes "invar w" "action_attempt sc i d w = (r, w')" "desired_ok d"
  shows "adv w w'"
proof -
  obtain l w1 where l: "sto_load (sc_store sc) w = (l, w1)" by fastforce
  have w1: "adv w w1" using load_frame [OF assms(1) l] .
  show ?thesis
  proof (cases l)
    case (Inl e)
    then show ?thesis using assms(2) l w1 by (simp add: action_attempt_def)
  next
    case (Inr s)
    have s: "s = rg_state (reg w1)" using load_state [OF assms(1)] l Inr by simp
    obtain over w2 where o: "ended sc s w1 = (over, w2)" by fastforce
    have w2: "adv w1 w2" using ended_adv [OF _ o] w1 by blast
    obtain q w3 where q: "action_scan sc i d (st_servers s) w2 = (q, w3)" by fastforce
    have w3: "adv w2 w3" "\<forall>vs' b. q = Inr (vs', b) \<longrightarrow> list_all2 same_server (st_servers s) vs'"
      using action_scan_laws [OF _ q assms(3)] w2 by blast+
    consider "w' = w2" | "w' = w3"
      | (save) vs x where "q = Inr (vs, True)"
          "sto_save (sc_store sc) (s\<lparr>st_servers := vs\<rparr>) (st_revision s) w3 = (x, w')"
      using assms(2) l Inr o q
      by (fastforce simp: action_attempt_def split: if_splits sum.splits prod.splits)
    then show ?thesis
    proof cases
      case save
      define s' where "s' = s\<lparr>st_servers := vs\<rparr>"
      have all2: "list_all2 same_server (st_servers s) (st_servers s')"
        using w3(2) [rule_format, OF save(1)] by (simp add: s'_def)
      have "adv w3 w'"
      proof (rule save_adv [of w3 "reg w1" s' x w'])
        show "fleet_step (reg w1) (reg w3)" using w2 w3 fleet_step_trans by blast
        show "state_ok (rg_tombs (reg w1)) s' \<and> evolves (rg_tombs (reg w1)) (rg_state (reg w1)) s'"
          if ok: "state_ok (rg_tombs (reg w1)) (rg_state (reg w1))"
          using update_ok [OF ok, of s'] update_evolves [of "rg_state (reg w1)" s'] all2 s
            servers_closed [of "rg_state (reg w1)" s'] ok
          by (simp add: s'_def state_ok_def)
      qed (use w3 save(2) s in \<open>simp_all add: s'_def\<close>)
      then show ?thesis using w1 w2 w3 adv_trans by blast
    qed (use w1 w2 w3 adv_trans in blast)+
  qed
qed

lemma action_loop_adv:
  "invar w \<Longrightarrow> action_loop n sc i d w = (r, w') \<Longrightarrow> desired_ok d \<Longrightarrow> adv w w'"
proof (induction n arbitrary: w)
  case 0
  then show ?case by simp
next
  case (Suc n)
  obtain q w1 where q: "action_attempt sc i d w = (q, w1)" by fastforce
  have w1: "adv w w1" using action_attempt_adv [OF Suc.prems(1) q Suc.prems(3)] .
  then show ?case
    using Suc.IH [of w1] Suc.prems(2,3) q adv_trans by (cases q) auto
qed

lemma action_desired_ok: "action_desired a \<noteq> [] \<Longrightarrow> desired_ok (action_desired a)"
  by (simp add: action_desired_def desired_ok_def split: if_splits)

lemma action_adv:
  assumes "invar w" "action sc i a w = (r, w')"
  shows "adv w w'"
proof (cases "action_desired a = []")
  case True
  then show ?thesis using assms by (simp add: action_def)
next
  case False
  then have "action_loop 8 sc i (action_desired a) w = (r, w')" using assms(2) by (simp add: action_def)
  then show ?thesis using action_loop_adv assms(1) action_desired_ok [OF False] by blast
qed

subsection \<open>Changing one host\<close>

lemma update_host_adv:
  assumes f: "\<And>h. same_host h (f h)" "\<And>h. h_retiring (f h) = h_retiring h"
  shows "invar w \<Longrightarrow> update_host n sc hid f w = (r, w') \<Longrightarrow> adv w w'"
proof (induction n arbitrary: w)
  case 0
  then show ?case by simp
next
  case (Suc n)
  obtain l w1 where l: "sto_load (sc_store sc) w = (l, w1)" by fastforce
  have w1: "adv w w1" using load_frame [OF Suc.prems(1) l] .
  show ?case
  proof (cases "\<exists>s k. l = Inr s \<and> index_of (\<lambda>h. h_id h = hid) (st_hosts s) = Some k")
    case False
    then have "w' = w1"
      using Suc.prems(2) l
      by (cases l; cases "index_of (\<lambda>h. h_id h = hid) (st_hosts (projr l))") (auto simp del: index_of_None)
    then show ?thesis using w1 by blast
  next
    case True
    then obtain s k where s: "l = Inr s" and k: "index_of (\<lambda>h. h_id h = hid) (st_hosts s) = Some k" by blast
    have s': "s = rg_state (reg w1)" using load_state [OF Suc.prems(1)] l s by simp
    define t where "t = s\<lparr>st_hosts := (st_hosts s)[k := f (st_hosts s ! k)]\<rparr>"
    obtain x w2 where x: "sto_save (sc_store sc) t (st_revision t) w1 = (x, w2)" by fastforce
    have len: "k < length (st_hosts s)" using index_of_Some [OF k] by blast
    have w2: "adv w1 w2"
    proof (rule save_adv [of w1 "reg w1" t x w2])
      show "state_ok (rg_tombs (reg w1)) t \<and> evolves (rg_tombs (reg w1)) (rg_state (reg w1)) t"
        if ok: "state_ok (rg_tombs (reg w1)) (rg_state (reg w1))"
      proof
        have all2: "list_all2 same_host (st_hosts s) (st_hosts t)"
          using update_all2 [of k "st_hosts s" same_host] len f(1) by (simp add: t_def)
        have "h_retiring h \<longrightarrow> st_deleting t \<or> \<not> retained (st_servers t) (h_id h)" if "h \<in> set (st_hosts t)" for h
        proof -
          have "h \<in> set (st_hosts s) \<or> h = f (st_hosts s ! k)"
            using that len set_update_subset_insert [of "st_hosts s" k] by (auto simp: t_def)
          moreover have "st_hosts s ! k \<in> set (st_hosts s)" using len by simp
          moreover have "h_id (f (st_hosts s ! k)) = h_id (st_hosts s ! k)" using f(1) by (simp add: same_host_def)
          ultimately show ?thesis
            using ok s' f(2) by (auto simp: t_def state_ok_def retirement_closed_def)
        qed
        then have "retirement_closed t" by (simp add: retirement_closed_def)
        then show "state_ok (rg_tombs (reg w1)) t"
          using update_ok [OF ok, of t] all2 s' by (simp add: t_def)
        have "map h_id (st_hosts t) = map h_id (st_hosts s)" using map_ids(2) [OF all2] .
        then have "h_id ` set (st_hosts t) = h_id ` set (st_hosts s)" by (metis set_map)
        then show "evolves (rg_tombs (reg w1)) (rg_state (reg w1)) t"
          using update_evolves [of "rg_state (reg w1)" t] s' by (simp add: t_def)
      qed
    qed (use w1 s' x in \<open>simp_all add: t_def\<close>)
    consider "w' = w2" | "update_host n sc hid f w2 = (r, w')"
      using Suc.prems(2) l s k x
      by (auto simp: t_def split: sum.splits if_splits)
    then show ?thesis
      using Suc.IH w1 w2 adv_trans by cases blast+
  qed
qed


subsection \<open>Forgetting a host\<close>

text \<open>One pass of the loop of \<open>forgetHost\<close>: what the result or the next pass starts from.\<close>

lemma forget_pass:
  assumes "invar w" and load: "sto_load (sc_store sc) w = (Inr s, w1)"
    and hk: "retiring_index hid 0 None (st_hosts s) = Inr (Some hk)"
  shows "index_of (\<lambda>v. v_host v = hid) (st_servers s) = None \<Longrightarrow>
      sto_save (sc_store sc) (s\<lparr>st_hosts := remove_at hk (st_hosts s)\<rparr>) (st_revision s) w1 = (r, w2) \<Longrightarrow>
      adv w w2"
    and "index_of (\<lambda>v. v_host v = hid) (st_servers s) = Some k \<Longrightarrow>
      sto_forget (sc_store sc) (s\<lparr>st_servers := remove_at k (st_servers s)\<rparr>) (st_revision s)
        (v_id (st_servers s ! k)) w1 = (r, w2) \<Longrightarrow> adv w w2"
proof -
  have w1: "adv w w1" using load_frame [OF assms(1) load] .
  have s: "s = rg_state (reg w1)" using load_state [OF assms(1) load] .
  have h: "hk < length (st_hosts s)" "h_id (st_hosts s ! hk) = hid"
    using retiring_index_sound [OF hk] by simp_all
  show "adv w w2" if "index_of (\<lambda>v. v_host v = hid) (st_servers s) = None"
    and call: "sto_save (sc_store sc) (s\<lparr>st_hosts := remove_at hk (st_hosts s)\<rparr>) (st_revision s) w1 = (r, w2)"
  proof -
    define t where "t = s\<lparr>st_hosts := remove_at hk (st_hosts s)\<rparr>"
    have empty: "\<forall>v\<in>set (st_servers s). v_host v \<noteq> h_id (st_hosts s ! hk)"
      using that(1) h(2) by simp
    have "adv w1 w2"
    proof (rule save_adv [of w1 "reg w1" t r w2])
      show "state_ok (rg_tombs (reg w1)) t \<and> evolves (rg_tombs (reg w1)) (rg_state (reg w1)) t"
        if "state_ok (rg_tombs (reg w1)) (rg_state (reg w1))"
        using drop_host_ok [OF that, of hk] h(1) empty update_evolves [of "rg_state (reg w1)" t] s
          set_remove_at [of hk "st_hosts s"]
        by (simp add: t_def image_mono)
    qed (use w1 s call in \<open>simp_all add: t_def\<close>)
    then show ?thesis using w1 adv_trans by blast
  qed
  show "adv w w2" if k: "index_of (\<lambda>v. v_host v = hid) (st_servers s) = Some k"
    and call: "sto_forget (sc_store sc) (s\<lparr>st_servers := remove_at k (st_servers s)\<rparr>) (st_revision s)
        (v_id (st_servers s ! k)) w1 = (r, w2)"
  proof -
    have len: "k < length (st_servers s)" using index_of_Some [OF k] by blast
    have "adv w1 w2"
      by (rule forget_adv [OF _ _ _ call, of "reg w1"])
        (use w1 s len forget_server_ok [of _ s k] forget_server_evolves [of _ s k] in auto)
    then show ?thesis using w1 adv_trans by blast
  qed
qed

lemma forget_host_adv:
  assumes "forget_host sc' hid w = Some (r, w')" "sc' = sc" "invar w"
  shows "adv w w'"
proof -
  have "\<forall>r w'. y = (r, w') \<longrightarrow> sc' = sc \<longrightarrow> invar w \<longrightarrow> adv w w'"
    if "forget_host sc' hid w = Some y" for y :: "(err + unit) \<times> 'w"
  proof (rule forget_host.raw_induct [where P = "\<lambda>sc' hid w y.
        \<forall>r w'. y = (r, w') \<longrightarrow> sc' = sc \<longrightarrow> invar w \<longrightarrow> adv w w'", OF _ that], intro allI impI)
    fix loop :: "'w scheduler \<Rightarrow> string \<Rightarrow> 'w \<Rightarrow> ((err + unit) \<times> 'w) option"
      and sc' hid w and y :: "(err + unit) \<times> 'w" and r w'
    assume IH: "\<And>sc' hid w (y :: (err + unit) \<times> 'w). loop sc' hid w = Some y \<Longrightarrow>
        \<forall>r w'. y = (r, w') \<longrightarrow> sc' = sc \<longrightarrow> invar w \<longrightarrow> adv w w'"
      and y: "y = (r, w')" and sc: "sc' = sc" and inv: "invar w"
    assume call: "(case sto_load (sc_store sc') w of (ls, w) \<Rightarrow>
      (case ls of
         Inl e \<Rightarrow> Some (Inl e, w)
       | Inr s \<Rightarrow>
           (case retiring_index hid 0 None (st_hosts s) of
              Inl e \<Rightarrow> Some (Inl e, w)
            | Inr hi \<Rightarrow>
                (case hi of
                   None \<Rightarrow> Some (Inr (), w)
                 | Some hk \<Rightarrow>
                     (case index_of (\<lambda>v. v_host v = hid) (st_servers s) of
                        None \<Rightarrow>
                          Some (sto_save (sc_store sc') (s\<lparr>st_hosts := remove_at hk (st_hosts s)\<rparr>)
                                  (st_revision s) w)
                      | Some k \<Rightarrow>
                          if \<not> st_deleting s \<and> v_desired (st_servers s ! k) \<noteq> ''deleted''
                          then Some (Inl (ErrMsg (''host '' @ hid @ '' still has saved servers'')), w)
                          else (case sto_forget (sc_store sc')
                                       (s\<lparr>st_servers := remove_at k (st_servers s)\<rparr>)
                                       (st_revision s) (v_id (st_servers s ! k)) w of (fr, w) \<Rightarrow>
                                (case fr of
                                   Inl e \<Rightarrow> Some (Inl e, w)
                                 | Inr u \<Rightarrow> loop sc' hid w))))))) = Some y"
    obtain l w1 where l: "sto_load (sc_store sc) w = (l, w1)" by fastforce
    have w1: "adv w w1" using load_frame [OF inv l] .
    show "adv w w'"
    proof (cases "\<exists>s hk. l = Inr s \<and> retiring_index hid 0 None (st_hosts s) = Inr (Some hk)")
      case False
      then have "w' = w1" using call y sc l by (auto split: sum.splits option.splits)
      then show ?thesis using w1 by blast
    next
      case True
      then obtain s hk where s: "l = Inr s" "retiring_index hid 0 None (st_hosts s) = Inr (Some hk)" by blast
      note pass = forget_pass [OF inv l [unfolded s(1)] s(2)]
      show ?thesis
      proof (cases "index_of (\<lambda>v. v_host v = hid) (st_servers s)")
        case None
        then show ?thesis using pass(1) call y sc l s by (simp del: index_of_None)
      next
        case (Some k)
        obtain q w2 where q: "sto_forget (sc_store sc) (s\<lparr>st_servers := remove_at k (st_servers s)\<rparr>)
            (st_revision s) (v_id (st_servers s ! k)) w1 = (q, w2)" by fastforce
        have w2: "adv w w2" using pass(2) [OF Some q] .
        consider "w' = w1" | "w' = w2" | "loop sc hid w2 = Some y"
          using call y sc l s Some q
          by (auto simp del: index_of_None split: if_splits sum.splits)
        then show ?thesis
        proof cases
          case 3
          then show ?thesis using IH y sc w2 adv_trans by blast
        qed (use w1 w2 in blast)+
      qed
    qed
  qed
  then show ?thesis using assms by blast
qed


subsection \<open>Reconcile\<close>

lemma mark_ready_adv: "invar w \<Longrightarrow> mark_ready sc r v w = (q, w') \<Longrightarrow> adv w w'"
  using now_frame by (auto simp: mark_ready_def Let_def split: if_splits prod.splits)

lemma request_failure_adv:
  assumes "invar w" "request_failure sc r v w = (f, w')"
  shows "adv w w'"
proof -
  obtain t w1 where 1: "now sc w = (t, w1)" by fastforce
  obtain t' w2 where 2: "now sc w1 = (t', w2)" by fastforce
  have "w' = w1 \<or> w' = w2" using assms(2) 1 2 by (auto simp: request_failure_def Let_def split: if_splits)
  then show ?thesis using now_frame [OF assms(1) 1] now_frame [OF _ 2] adv_trans by blast
qed

lemma reconcile_servers_adv:
  "invar w \<Longrightarrow> reconcile_servers sc del rs acc vs ch w = (r, w') \<Longrightarrow> adv w w'"
proof (induction vs arbitrary: acc ch w)
  case Nil
  then show ?case by simp
next
  case (Cons v vs)
  let ?r = "by_id rs (v_id v)"
  obtain v1 rd w1 where m: "mark_ready sc ?r v w = ((v1, rd), w1)" by (metis prod.collapse)
  obtain f w2 where f: "request_failure sc ?r v1 w1 = (f, w2)" by fastforce
  have w1: "adv w w1" using mark_ready_adv [OF Cons.prems(1) m] .
  have w2: "adv w1 w2" using request_failure_adv [OF _ f] w1 by blast
  consider "w' = w2" | acc' ch' where "reconcile_servers sc del rs acc' vs ch' w2 = (r, w')"
    using Cons.prems(2) m f by (auto simp: Let_def split: if_splits)
  then show ?case
    by cases (use Cons.IH w1 w2 adv_trans in blast)+
qed

lemma host_demand_adv: "invar w \<Longrightarrow> host_demand sc rs vs hid n l w = (r, w') \<Longrightarrow> adv w w'"
proof (induction vs arbitrary: n l w)
  case Nil
  then show ?case by simp
next
  case (Cons v vs)
  obtain t1 w1 where 1: "now sc w = (t1, w1)" by fastforce
  obtain t2 w2 where 2: "now sc w1 = (t2, w2)" by fastforce
  have w1: "adv w w1" using now_frame [OF Cons.prems(1) 1] .
  have w2: "adv w1 w2" using now_frame [OF _ 2] w1 by blast
  consider n' l' where "host_demand sc rs vs hid n' l' w = (r, w')"
    | n' l' where "host_demand sc rs vs hid n' l' w1 = (r, w')"
    | n' l' where "host_demand sc rs vs hid n' l' w2 = (r, w')"
    using Cons.prems(2) 1 2 by (auto simp: Let_def split: if_splits)
  then show ?case
    by cases (use Cons.IH Cons.prems(1) w1 w2 adv_trans in blast)+
qed

text \<open>The instance ID and the error of a host are not covered by the invariant.\<close>

lemma note_host_adv:
  assumes "invar w" "update_host n sc hid f w = (r, w')"
    "f = (\<lambda>h. h\<lparr>h_error := e\<rparr>) \<or> f = (\<lambda>h. h\<lparr>h_instance_id := m, h_error := e\<rparr>)"
  shows "adv w w'"
proof (rule update_host_adv [of f])
  show "same_host h (f h)" for h using assms(3) by (auto simp: same_host_def)
  show "h_retiring (f h) = h_retiring h" for h using assms(3) by auto
qed (fact assms)+

lemma retire_host_adv:
  assumes "invar w" "mc_delete (sc_machines sc) h w = (d, w1)" "forget_host sc (h_id h) w1 = Some (q, w2)"
  shows "adv w w2"
  using delete_frame [OF assms(1,2)] forget_host_adv [OF assms(3) refl] adv_trans by blast

lemma wake_host_adv:
  assumes "invar w" "mc_wake (sc_machines sc) h w = (d, w1)" "update_host n sc hid f w1 = (r, w')"
    "f = (\<lambda>h. h\<lparr>h_error := e\<rparr>) \<or> f = (\<lambda>h. h\<lparr>h_instance_id := m, h_error := e\<rparr>)"
  shows "adv w w'"
  using wake_frame [OF assms(1,2)] note_host_adv [OF _ assms(3,4)] adv_trans by blast

lemma reconcile_host_adv:
  assumes "invar w" "reconcile_host sc s rs h fs w = Some (r, w')"
  shows "adv w w'"
proof -
  obtain n l w1 where d: "host_demand sc rs (st_servers s) (h_id h) False False w = ((n, l), w1)"
    by (metis prod.collapse)
  have w1: "adv w w1" using host_demand_adv [OF assms(1) d] .
  then have inv1: "invar w1" by blast
  have "adv w1 w'"
  proof (cases "h_retiring h")
    case True
    obtain dl w2 where dl: "mc_delete (sc_machines sc) h w1 = (dl, w2)" by fastforce
    consider "w' = w1" | "w' = w2" | q where "forget_host sc (h_id h) w2 = Some (q, w')"
      using assms(2) d dl True
      by (auto simp: reconcile_host_def split: if_splits sum.splits option.splits)
    then show ?thesis
      by cases (use inv1 delete_frame [OF inv1 dl] retire_host_adv [OF inv1 dl] in auto)
  next
    case False
    show ?thesis
    proof (cases n)
      case True
      obtain wk w2 where wk: "mc_wake (sc_machines sc) h w1 = (wk, w2)" by fastforce
      consider "w' = w2" | q where "update_host 8 sc (h_id h) (\<lambda>h. h\<lparr>h_error := retrying\<rparr>) w2 = (q, w')"
        | q m where "update_host 8 sc (h_id h) (\<lambda>h. h\<lparr>h_instance_id := m, h_error := []\<rparr>) w2 = (q, w')"
        using assms(2) d wk False True
        by (auto simp: reconcile_host_def Let_def split: if_splits sum.splits prod.splits)
      then show ?thesis
        by cases (use wake_frame [OF inv1 wk] wake_host_adv [OF inv1 wk] in blast)+
    next
      case notn: False
      obtain ld w2 where ld: "sto_load (sc_store sc) w1 = (ld, w2)" by fastforce
      have w2: "adv w1 w2" using load_frame [OF inv1 ld] .
      obtain sp w3 where sp: "mc_stop (sc_machines sc) h w2 = (sp, w3)" by fastforce
      have w3: "adv w2 w3" using stop_frame [OF _ sp] w2 by blast
      have "w' = w1 \<or> w' = w2 \<or> w' = w3"
        using assms(2) d ld sp False notn
        by (auto simp: reconcile_host_def split: if_splits sum.splits)
      then show ?thesis using inv1 w2 w3 adv_trans by auto
    qed
  qed
  then show ?thesis using w1 adv_trans by blast
qed

lemma reconcile_hosts_adv:
  "invar w \<Longrightarrow> reconcile_hosts sc s rs hs fs w = Some (r, w') \<Longrightarrow> adv w w'"
proof (induction hs arbitrary: fs w)
  case Nil
  then show ?case by simp
next
  case (Cons h hs)
  obtain q w1 where q: "reconcile_host sc s rs h fs w = Some (q, w1)"
    using Cons.prems(2) by (auto split: option.splits)
  have w1: "adv w w1" using reconcile_host_adv [OF Cons.prems(1) q] .
  show ?case
  proof (cases q)
    case (Inl e)
    then show ?thesis using Cons.prems(2) q w1 by simp
  next
    case (Inr fs')
    then have "reconcile_hosts sc s rs hs fs' w1 = Some (r, w')" using Cons.prems(2) q by simp
    then show ?thesis using Cons.IH w1 adv_trans by blast
  qed
qed


end

text \<open>Forgetting one server after the ones before it were updated in place.\<close>

lemma forget_after_update:
  assumes ok: "state_ok T s" and k: "k < length (st_servers s)"
    and ws: "list_all2 same_server (take k (st_servers s)) ws"
  defines "t \<equiv> s\<lparr>st_servers := ws @ drop (Suc k) (st_servers s)\<rparr>"
  shows "state_ok (insert (v_id (st_servers s ! k)) T) t"
    and "evolves (insert (v_id (st_servers s ! k)) T) s t"
proof -
  define u where "u = s\<lparr>st_servers := ws @ st_servers s ! k # drop (Suc k) (st_servers s)\<rparr>"
  have "list_all2 same_server (take k (st_servers s) @ st_servers s ! k # drop (Suc k) (st_servers s)) (st_servers u)"
    using ws by (auto simp: u_def intro!: list_all2_appendI)
  then have all2: "list_all2 same_server (st_servers s) (st_servers u)"
    using id_take_nth_drop [OF k] by simp
  have len: "length ws = k" using list_all2_lengthD [OF ws] k by simp
  have u: "state_ok T u"
    by (rule update_ok [OF ok all2])
      (use servers_closed [OF _ all2] ok in \<open>simp_all add: u_def state_ok_def\<close>)
  have t: "t = u\<lparr>st_servers := remove_at k (st_servers u)\<rparr>"
    using len by (simp add: t_def u_def remove_at_def)
  have same: "st_servers u ! k = st_servers s ! k" "k < length (st_servers u)"
    using len by (simp_all add: u_def nth_append)
  show "state_ok (insert (v_id (st_servers s ! k)) T) t"
    using forget_server_ok [OF u same(2)] same(1) t by simp
  have "\<exists>v'\<in>set (st_servers t). same_server v v'"
    if v: "v \<in> set (st_servers s)" "v_id v \<noteq> v_id (st_servers s ! k)" for v
  proof -
    obtain v' where v': "v' \<in> set (st_servers u)" "same_server v v'" using all2_target [OF all2 v(1)] by blast
    then have "v' \<noteq> st_servers s ! k" using v(2) by (auto simp: same_server_def)
    then show ?thesis using v' by (auto simp: u_def t_def)
  qed
  then show "evolves (insert (v_id (st_servers s ! k)) T) s t"
    by (auto simp: evolves_def t_def)
qed

lemma retire_pass_ok:
  assumes ok: "state_ok T s" and all2: "list_all2 same_server (st_servers s) vs"
    and del: "st_deleting s \<longrightarrow> del"
  defines "t \<equiv> s\<lparr>st_servers := vs, st_hosts := map (retire del vs) (st_hosts s), st_deleting := del\<rparr>"
  shows "state_ok T t \<and> evolves T s t"
proof
  have hosts: "list_all2 same_host (st_hosts s) (st_hosts t)"
    by (simp add: t_def list_all2_conv_all_nth same_host_retire)
  have "\<forall>h\<in>set (st_hosts s). h_retiring h \<longrightarrow> del \<or> \<not> retained vs (h_id h)"
    using ok del retained_same_servers [OF all2] by (auto simp: state_ok_def retirement_closed_def)
  then have "h_retiring h \<longrightarrow> del \<or> \<not> retained vs (h_id h)"
    if "h \<in> set (map (retire del vs) (st_hosts s))" for h
    using retire_closed [OF _ that] by blast
  then have "retirement_closed t"
    unfolding retirement_closed_def t_def by simp
  then show "state_ok T t" using update_ok [OF ok, of t] all2 hosts by (simp add: t_def)
  have "map h_id (st_hosts t) = map h_id (st_hosts s)" using map_ids(2) [OF hosts] .
  then have "h_id ` set (st_hosts t) = h_id ` set (st_hosts s)" by (metis set_map)
  then show "evolves T s t" using update_evolves [of s t T] all2 del by (simp add: t_def)
qed

context scheduler_world
begin

lemma reconcile_once_adv:
  assumes "invar w" "reconcile_once sc w = Some (r, w')"
  shows "adv w w'"
proof -
  obtain l w1 where l: "sto_load (sc_store sc) w = (l, w1)" by fastforce
  have w1: "adv w w1" using load_frame [OF assms(1) l] .
  obtain p w2 where p: "sto_reports (sc_store sc) w1 = (p, w2)" by fastforce
  have w2: "adv w1 w2" using reports_frame [OF _ p] w1 by blast
  show ?thesis
  proof (cases "\<exists>s rs. l = Inr s \<and> p = Inr rs")
    case False
    then have "w' = w1 \<or> w' = w2" using assms(2) l p by (auto simp: reconcile_once_def split: sum.splits)
    then show ?thesis using w1 w2 adv_trans by blast
  next
    case True
    then obtain s rs where s: "l = Inr s" "p = Inr rs" by blast
    have s': "s = rg_state (reg w1)" using load_state [OF assms(1)] l s by simp
    obtain t w3 where t: "now sc w2 = (t, w3)" by fastforce
    have w3: "adv w1 w3" using now_frame [OF _ t] w2 adv_trans by blast
    define cl where "cl = (expired (sc_config sc) t \<and> \<not> st_deleting s)"
    define del where "del = (st_deleting s \<or> cl)"
    obtain q w4 where q: "reconcile_servers sc del rs [] (st_servers s) cl w3 = (q, w4)" by fastforce
    have w4: "adv w1 w4" using reconcile_servers_adv [OF _ q] w3 adv_trans by blast
    note shape = reconcile_servers_shape [OF q]
    have "adv w4 w'"
    proof (cases q)
      case (Inl y)
      obtain vs i where y: "y = (vs, i)" by fastforce
      obtain k ws where k: "k < length (st_servers s)" "vs = ws @ drop (Suc k) (st_servers s)"
        "list_all2 same_server (take k (st_servers s)) ws" "v_id (st_servers s ! k) = i" "\<not> del"
        using shape Inl y by auto
      define s2 where "s2 = s\<lparr>st_servers := ws @ drop (Suc k) (st_servers s)\<rparr>"
      have eq: "s\<lparr>st_servers := vs, st_deleting := del\<rparr> = s2"
        using k(2,5) by (cases s) (simp add: s2_def del_def)
      have "sto_forget (sc_store sc) (s\<lparr>st_servers := vs, st_deleting := del\<rparr>) (st_revision s) i w4 = (r, w')"
        using assms(2) l p s t q Inl y
        by (simp add: reconcile_once_def cl_def [symmetric] del_def [symmetric] Let_def)
      then have "sto_forget (sc_store sc) s2 (st_revision s) i w4 = (r, w')" using eq by simp
      moreover have "state_ok (insert i (rg_tombs (reg w1))) s2 \<and>
          evolves (insert i (rg_tombs (reg w1))) (rg_state (reg w1)) s2"
        if "state_ok (rg_tombs (reg w1)) (rg_state (reg w1))"
        using forget_after_update [OF _ k(1,3)] that k(4) s' by (auto simp: s2_def)
      ultimately show ?thesis
        using forget_adv [of w4 "reg w1" "st_revision s" s2 i r w'] w4 s' by auto
    next
      case (Inr y)
      obtain vs ch where y: "y = (vs, ch)" by fastforce
      define s2 where "s2 = s\<lparr>st_servers := vs, st_hosts := map (retire del vs) (st_hosts s), st_deleting := del\<rparr>"
      have good: "state_ok (rg_tombs (reg w1)) s2 \<and> evolves (rg_tombs (reg w1)) (rg_state (reg w1)) s2"
        if "state_ok (rg_tombs (reg w1)) (rg_state (reg w1))"
        using retire_pass_ok [of "rg_tombs (reg w1)" s vs del] that shape Inr y s' by (auto simp: s2_def del_def)
      obtain x w5 where x: "sto_save (sc_store sc) s2 (st_revision s2) w4 = (x, w5)" by fastforce
      have w5: "adv w4 w5"
        using save_adv [OF _ _ _ x, of "reg w1"] w4 s' good by (simp add: s2_def)
      consider "w' = w5" | hs fs s3 where "reconcile_hosts sc s3 rs hs fs w5 = Some (r, w')"
        | hs fs s3 where "reconcile_hosts sc s3 rs hs fs w4 = Some (r, w')"
        using assms(2) l p s t q Inr y x
        by (auto simp: reconcile_once_def s2_def cl_def del_def Let_def split: if_splits sum.splits)
      then show ?thesis
      proof cases
        case 1 then show ?thesis using w5 by blast
      next
        case 2 then show ?thesis using reconcile_hosts_adv w5 adv_trans by blast
      next
        case 3 then show ?thesis using reconcile_hosts_adv w4 by blast
      qed
    qed
    then show ?thesis using w1 w4 adv_trans by blast
  qed
qed

lemma reconcile_loop_adv:
  "invar w \<Longrightarrow> reconcile_loop n sc w = Some (r, w') \<Longrightarrow> adv w w'"
proof (induction n arbitrary: w)
  case 0
  then show ?case by simp
next
  case (Suc n)
  obtain q w1 where q: "reconcile_once sc w = Some (q, w1)"
    using Suc.prems(2) by (auto split: option.splits)
  have w1: "adv w w1" using reconcile_once_adv [OF Suc.prems(1) q] .
  then show ?case
    using Suc.IH [of w1] Suc.prems(2) q adv_trans by (cases q) (auto split: if_splits)
qed

lemma reconcile_adv: "invar w \<Longrightarrow> reconcile sc w = Some (r, w') \<Longrightarrow> adv w w'"
  unfolding reconcile_def by (rule reconcile_loop_adv)

end


section \<open>Reconcile leaves every loop\<close>

text \<open>
  The loop of \<open>forgetHost\<close> ends because each pass removes one server of the host, provided
  nobody else places a server on a retiring host (\<open>create\<close> does not: \<open>eligible\<close>).
\<close>

definition servers_on :: "fleet_state \<Rightarrow> string \<Rightarrow> nat" where
  "servers_on s hid = length (filter (\<lambda>v. v_host v = hid) (st_servers s))"

definition retiring_quiet :: "registry \<Rightarrow> registry \<Rightarrow> bool" where
  "retiring_quiet a b \<longleftrightarrow>
     (\<forall>h\<in>set (st_hosts (rg_state a)). h_retiring h \<longrightarrow>
        servers_on (rg_state b) (h_id h) \<le> servers_on (rg_state a) (h_id h))"

lemma length_filter_remove_at:
  assumes "k < length xs" "P (xs ! k)"
  shows "length (filter P (remove_at k xs)) < length (filter P xs)"
proof -
  have "length (filter P xs) = length (filter P (take k xs @ xs ! k # drop (Suc k) xs))"
    using assms(1) id_take_nth_drop by metis
  then show ?thesis using assms(2) by (simp add: remove_at_def)
qed

text \<open>The same world seen with a stricter promise of the other clients.\<close>

locale quiet_world = scheduler_world sc invar reg + quiet: fleet_store "sc_store sc" invar reg env
  for sc :: "'w scheduler" and invar :: "'w \<Rightarrow> bool" and reg :: "'w \<Rightarrow> registry"
    and env :: "registry \<Rightarrow> registry \<Rightarrow> bool" +
  assumes env_quiet: "env a b \<Longrightarrow> retiring_quiet a b"
begin

lemma forget_host_returns:
  assumes "invar w"
  shows "forget_host sc hid w \<noteq> None"
proof -
  have "forget_host sc hid w \<noteq> None"
    if "invar w" "sto_load (sc_store sc) w = (Inr s, w1)" "servers_on s hid < n" for n w s w1
    using that
  proof (induction n arbitrary: w s w1)
    case 0
    then show ?case by simp
  next
    case (Suc n)
    have w1: "adv w w1" using load_frame [OF Suc.prems(1,2)] .
    have s: "s = rg_state (reg w1)" using load_state [OF Suc.prems(1,2)] .
    show ?case
    proof (cases "\<exists>hk k. retiring_index hid 0 None (st_hosts s) = Inr (Some hk) \<and>
        index_of (\<lambda>v. v_host v = hid) (st_servers s) = Some k")
      case False
      then show ?thesis using Suc.prems(2)
        by (subst forget_host.simps) (auto simp del: index_of_None split: sum.splits option.splits)
    next
      case True
      then obtain hk k where hk: "retiring_index hid 0 None (st_hosts s) = Inr (Some hk)"
        and k: "index_of (\<lambda>v. v_host v = hid) (st_servers s) = Some k" by blast
      define t where "t = s\<lparr>st_servers := remove_at k (st_servers s)\<rparr>"
      obtain q w2 where q: "sto_forget (sc_store sc) t (st_revision s) (v_id (st_servers s ! k)) w1 = (q, w2)"
        by fastforce
      have kl: "k < length (st_servers s)" "v_host (st_servers s ! k) = hid" using index_of_Some [OF k] by blast+
      have h: "hk < length (st_hosts s)" "h_id (st_hosts s ! hk) = hid" "h_retiring (st_hosts s ! hk)"
        using retiring_index_sound [OF hk] by simp_all
      show ?thesis
      proof (cases "\<exists>u. q = Inr u \<and> forget_host sc hid w2 = None")
        case False
        then show ?thesis using Suc.prems(2) hk k q
          by (subst forget_host.simps) (auto simp: t_def simp del: index_of_None split: sum.splits)
      next
        case stuck: True
        then obtain u where u: "q = Inr u" by blast
        have w2: "invar w2" using forget_invar [OF _ q] w1 by blast
        obtain m where m: "env (commit_forget t (st_revision s) (v_id (st_servers s ! k)) m) (reg w2)"
          using quiet.forget_ok [of w1 t "st_revision s" "v_id (st_servers s ! k)" u w2] q u w1 by blast
        let ?c = "commit_forget t (st_revision s) (v_id (st_servers s ! k)) m"
        obtain l w3 where l: "sto_load (sc_store sc) w2 = (l, w3)" by fastforce
        have "env ?c (reg w3)" using m quiet.load_frame [OF w2 l] quiet.env_trans by blast
        then have "retiring_quiet ?c (reg w3)" by (rule env_quiet)
        moreover have "st_hosts s ! hk \<in> set (st_hosts (rg_state ?c))"
          using h(1) by (simp add: commit_forget_def t_def)
        ultimately have "servers_on (rg_state (reg w3)) hid \<le> servers_on (rg_state ?c) hid"
          using h(2,3) by (auto simp: retiring_quiet_def)
        also have "\<dots> < servers_on s hid"
          using length_filter_remove_at [of k "st_servers s" "\<lambda>v. v_host v = hid"] kl
          by (simp add: servers_on_def commit_forget_def t_def)
        finally have less: "servers_on (rg_state (reg w3)) hid < n" using Suc.prems(3) by simp
        have False
        proof (cases l)
          case (Inl er)
          then show ?thesis using stuck l by (subst (asm) forget_host.simps) simp
        next
          case (Inr s3)
          then have "s3 = rg_state (reg w3)" using load_state [OF w2] l by simp
          then show ?thesis using Suc.IH [OF w2, of s3 w3] l Inr less stuck by auto
        qed
        then show ?thesis ..
      qed
    qed
  qed
  moreover have "forget_host sc hid w \<noteq> None" if "sto_load (sc_store sc) w = (Inl er, w1)" for er w1
    using that by (subst forget_host.simps) simp
  ultimately show ?thesis
    using assms by (metis lessI surj_pair sum.exhaust)
qed

lemma reconcile_host_returns:
  assumes "invar w"
  shows "reconcile_host sc s rs h fs w \<noteq> None"
proof -
  obtain n l w1 where d: "host_demand sc rs (st_servers s) (h_id h) False False w = ((n, l), w1)"
    by (metis prod.collapse)
  obtain dl w2 where dl: "mc_delete (sc_machines sc) h w1 = (dl, w2)" by fastforce
  have "invar w2" using host_demand_adv [OF assms d] delete_frame [OF _ dl] by blast
  then obtain y where "forget_host sc (h_id h) w2 = Some y" using forget_host_returns by blast
  then show ?thesis using d dl
    by (cases y) (auto simp: reconcile_host_def Let_def split: sum.splits prod.splits option.splits)
qed

lemma reconcile_hosts_returns:
  assumes "invar w"
  shows "reconcile_hosts sc s rs hs fs w \<noteq> None"
  using assms
proof (induction hs arbitrary: fs w)
  case Nil
  then show ?case by simp
next
  case (Cons h hs)
  obtain q w1 where q: "reconcile_host sc s rs h fs w = Some (q, w1)"
    using reconcile_host_returns [OF Cons.prems] by fastforce
  have "invar w1" using reconcile_host_adv [OF Cons.prems q] by blast
  then show ?case using q Cons.IH by (cases q) auto
qed

lemma reconcile_once_returns:
  assumes "invar w"
  shows "reconcile_once sc w \<noteq> None"
proof -
  obtain l w1 where l: "sto_load (sc_store sc) w = (l, w1)" by fastforce
  have w1: "invar w1" using load_frame [OF assms l] by blast
  obtain p w2 where p: "sto_reports (sc_store sc) w1 = (p, w2)" by fastforce
  have w2: "invar w2" using reports_frame [OF w1 p] by blast
  show ?thesis
  proof (cases "\<exists>s rs. l = Inr s \<and> p = Inr rs")
    case False
    then show ?thesis using l p by (auto simp: reconcile_once_def split: sum.splits)
  next
    case True
    then obtain s rs where s: "l = Inr s" "p = Inr rs" by blast
    obtain t w3 where t: "now sc w2 = (t, w3)" by fastforce
    have w3: "invar w3" using now_frame [OF w2 t] by blast
    define cl where "cl = (expired (sc_config sc) t \<and> \<not> st_deleting s)"
    define del where "del = (st_deleting s \<or> cl)"
    obtain q w4 where q: "reconcile_servers sc del rs [] (st_servers s) cl w3 = (q, w4)" by fastforce
    have w4: "invar w4" using reconcile_servers_adv [OF w3 q] by blast
    show ?thesis
    proof (cases q)
      case (Inl y)
      then show ?thesis using l p s t q
        by (cases y) (simp add: reconcile_once_def cl_def [symmetric] del_def [symmetric] Let_def)
    next
      case (Inr y)
      obtain vs ch where y: "y = (vs, ch)" by fastforce
      define s2 where "s2 = s\<lparr>st_servers := vs, st_hosts := map (retire del vs) (st_hosts s), st_deleting := del\<rparr>"
      obtain x w5 where x: "sto_save (sc_store sc) s2 (st_revision s) w4 = (x, w5)" by fastforce
      have w5: "invar w5" using save_invar [OF w4 x] .
      have "reconcile_hosts sc z rs hs fs w5 \<noteq> None" "reconcile_hosts sc z rs hs fs w4 \<noteq> None" for z hs fs
        using reconcile_hosts_returns w4 w5 by blast+
      then show ?thesis using l p s t q Inr y x
        by (simp add: reconcile_once_def cl_def [symmetric] del_def [symmetric] s2_def [symmetric] Let_def
            split: sum.splits)
    qed
  qed
qed

lemma reconcile_returns:
  assumes "invar w"
  shows "reconcile sc w \<noteq> None"
proof -
  have "reconcile_loop n sc w \<noteq> None" for n
    using assms
  proof (induction n arbitrary: w)
    case (Suc n)
    obtain q w1 where q: "reconcile_once sc w = Some (q, w1)"
      using reconcile_once_returns [OF Suc.prems] by fastforce
    have "invar w1" using reconcile_once_adv [OF Suc.prems q] by blast
    then show ?case using q Suc.IH by (cases q) auto
  qed simp
  then show ?thesis by (simp add: reconcile_def)
qed

end

end
