(* ===== verification/FleetEC2.thy ===== *)
theory FleetEC2
  imports FleetScheduler
begin

text \<open>
  The EC2 implementation of the scheduler's \<open>Machines\<close> (internal/fleet/ec2.go). The AWS
  client is a parameter: a record of the seven calls the code makes. A missing string of an answer
  reads as the empty string (\<open>aws.ToString\<close>); a missing state stays missing. The lemmas show
  which machine a call may touch: one that the description just returned with this stack's tag,
  the host's tag and the host's launch token, and nothing when there is no such machine.
\<close>

section \<open>The client\<close>

record ec2_instance =
  i_id :: string
  i_token :: string
  i_state :: "string option"
  i_tags :: "(string \<times> string) list"

datatype ec2_query =
    ById string
  | ByLaunch string string string \<comment> \<open>stack, host, client token\<close>

record launch_spec =
  ls_token :: string
  ls_template :: string
  ls_version :: string
  ls_stack :: string
  ls_host :: string

text \<open>A failed description carries the API's error code, empty when it is not an API error.\<close>

record 'w ec2_client =
  ec_describe :: "ec2_query \<Rightarrow> 'w \<Rightarrow> ((string \<times> err) + ec2_instance list list) \<times> 'w"
  ec_run :: "launch_spec \<Rightarrow> ('w, string list) io"
  ec_start :: "string \<Rightarrow> ('w, unit) io"
  ec_stop :: "string \<Rightarrow> ('w, unit) io"
  ec_terminate :: "string \<Rightarrow> ('w, unit) io"
  ec_volumes :: "string \<Rightarrow> string \<Rightarrow> ('w, nat) io"

record 'w ec2 =
  e_client :: "'w ec2_client"
  e_stack :: string

section \<open>The operations\<close>

definition tag :: "(string \<times> string) list \<Rightarrow> string \<Rightarrow> string" where
  "tag tags k = (case map_of (rev tags) k of None \<Rightarrow> [] | Some v \<Rightarrow> v)"

definition managed :: "string \<Rightarrow> host \<Rightarrow> ec2_instance \<Rightarrow> bool" where
  "managed stack h v \<longleftrightarrow>
     tag (i_tags v) ''insta-game:fleet'' = stack \<and> tag (i_tags v) ''insta-game:host'' = h_id h \<and>
     i_token v = h_launch_token h"

fun single :: "string \<Rightarrow> host \<Rightarrow> ec2_instance option \<Rightarrow> ec2_instance list \<Rightarrow> err + ec2_instance option" where
  "single stack h found [] = Inr found"
| "single stack h found (v # vs) =
     (if \<not> managed stack h v then Inl (ErrMsg (''refusing unmanaged host '' @ h_id h))
      else if found \<noteq> None then Inl (ErrMsg (''multiple machines for host '' @ h_id h))
      else single stack h (Some v) vs)"

definition find_query :: "string \<Rightarrow> host \<Rightarrow> ec2_query" where
  "find_query stack h =
     (if h_instance_id h \<noteq> [] then ById (h_instance_id h)
      else ByLaunch stack (h_id h) (h_launch_token h))"

definition find_machine :: "'w ec2 \<Rightarrow> host \<Rightarrow> ('w, ec2_instance option) io" where
  "find_machine e h w =
     (case ec_describe (e_client e) (find_query (e_stack e) h) w of
        (Inl (code, er), w) \<Rightarrow>
          (if h_instance_id h \<noteq> [] \<and> code = ''InvalidInstanceID.NotFound'' then (Inr None, w)
           else (Inl er, w))
      | (Inr rs, w) \<Rightarrow> (single (e_stack e) h None (concat rs), w))"

definition inspect_machine :: "'w ec2 \<Rightarrow> host \<Rightarrow> ('w, machine) io" where
  "inspect_machine e h w =
     (case find_machine e h w of
        (Inl er, w) \<Rightarrow> (Inl er, w)
      | (Inr None, w) \<Rightarrow>
          (if h_instance_id h \<noteq> []
           then (Inr \<lparr>m_id = h_instance_id h, m_state = ''terminated''\<rparr>, w)
           else (Inr \<lparr>m_id = [], m_state = ''new''\<rparr>, w))
      | (Inr (Some v), w) \<Rightarrow>
          (case i_state v of
             None \<Rightarrow> (Inl (ErrMsg ''host has no state''), w)
           | Some st \<Rightarrow> (Inr \<lparr>m_id = i_id v, m_state = st\<rparr>, w)))"

definition launchable :: "host \<Rightarrow> bool" where
  "launchable h \<longleftrightarrow>
     valid_id (h_id h) \<and> h_launch_token h \<noteq> [] \<and> length (h_launch_token h) \<le> 64 \<and>
     has_prefix (h_launch_template h) ''lt-'' \<and> launch_version (h_launch_version h)"

definition launch_of :: "string \<Rightarrow> host \<Rightarrow> launch_spec" where
  "launch_of stack h =
     \<lparr>ls_token = h_launch_token h, ls_template = h_launch_template h,
      ls_version = h_launch_version h, ls_stack = stack, ls_host = h_id h\<rparr>"

definition wake_machine :: "'w ec2 \<Rightarrow> host \<Rightarrow> ('w, string) io" where
  "wake_machine e h w =
     (if \<not> launchable h then (Inl (ErrMsg ''invalid saved host launch identity''), w)
      else (case find_machine e h w of
              (Inl er, w) \<Rightarrow> (Inl er, w)
            | (Inr None, w) \<Rightarrow>
                (if h_instance_id h \<noteq> [] then (Inl ErrUnavailable, w)
                 else (case ec_run (e_client e) (launch_of (e_stack e) h) w of
                         (Inl er, w) \<Rightarrow> (Inl er, w)
                       | (Inr ids, w) \<Rightarrow>
                           (case ids of
                              [mid] \<Rightarrow> (Inr mid, w)
                            | _ \<Rightarrow> (Inl (ErrMsg ''expected one launched host''), w))))
            | (Inr (Some v), w) \<Rightarrow>
                (case i_state v of
                   None \<Rightarrow> (Inl (ErrMsg ''host has no state''), w)
                 | Some st \<Rightarrow>
                     if st = ''stopped''
                     then (case ec_start (e_client e) (i_id v) w of
                             (Inl er, w) \<Rightarrow> (Inl er, w)
                           | (Inr u, w) \<Rightarrow> (Inr (i_id v), w))
                     else if st = ''running'' \<or> st = ''pending'' \<or> st = ''stopping'' then (Inr (i_id v), w)
                     else (Inl (ErrMsg (''host '' @ h_id h @ '' is '' @ st @
                                 ''; its data has not been reassigned'')), w))))"

definition disks_deleted :: "'w ec2 \<Rightarrow> host \<Rightarrow> ('w, unit) io" where
  "disks_deleted e h w =
     (case ec_volumes (e_client e) (e_stack e) (h_id h) w of
        (Inl er, w) \<Rightarrow> (Inl er, w)
      | (Inr n, w) \<Rightarrow>
          (if 0 < n then (Inl (ErrMsg ''waiting for host root disk deletion''), w) else (Inr (), w)))"

text \<open>The end of \<open>Delete\<close>, once a machine was found.\<close>

definition delete_found :: "'w ec2 \<Rightarrow> host \<Rightarrow> ec2_instance \<Rightarrow> ('w, unit) io" where
  "delete_found e h v w =
     (case i_state v of
        None \<Rightarrow> (Inl (ErrMsg ''host has no state''), w)
      | Some st \<Rightarrow>
          if st = ''terminated'' then disks_deleted e h w
          else (let waiting = ErrMsg (''waiting for '' @ h_id h @ '' to terminate'') in
                if st \<noteq> ''shutting-down''
                then (case ec_terminate (e_client e) (i_id v) w of
                        (Inl er, w) \<Rightarrow> (Inl er, w)
                      | (Inr u, w) \<Rightarrow> (Inl waiting, w))
                else (Inl waiting, w)))"

definition delete_machine :: "'w ec2 \<Rightarrow> host \<Rightarrow> ('w, unit) io" where
  "delete_machine e h w =
     (case find_machine e h w of
        (Inl er, w) \<Rightarrow> (Inl er, w)
      | (Inr (Some v), w) \<Rightarrow> delete_found e h v w
      | (Inr None, w) \<Rightarrow>
          (if h_instance_id h \<noteq> [] then disks_deleted e h w
           else (case wake_machine e h w of
                   (Inl er, w) \<Rightarrow> (Inl er, w)
                 | (Inr mid, w) \<Rightarrow>
                     (case find_machine e h w of
                        (Inl er, w) \<Rightarrow> (Inl er, w)
                      | (Inr None, w) \<Rightarrow> (Inl (ErrMsg ''waiting for host visibility''), w)
                      | (Inr (Some v), w) \<Rightarrow> delete_found e h v w))))"

definition stop_machine :: "'w ec2 \<Rightarrow> host \<Rightarrow> ('w, unit) io" where
  "stop_machine e h w =
     (case find_machine e h w of
        (Inl er, w) \<Rightarrow> (Inl er, w)
      | (Inr None, w) \<Rightarrow> (Inr (), w)
      | (Inr (Some v), w) \<Rightarrow>
          (case i_state v of
             None \<Rightarrow> (Inl (ErrMsg ''host has no state''), w)
           | Some st \<Rightarrow>
               if st = ''stopped'' \<or> st = ''stopping'' \<or> st = ''terminated'' \<or> st = ''shutting-down''
               then (Inr (), w)
               else if st = ''running'' \<or> st = ''pending'' then ec_stop (e_client e) (i_id v) w
               else (Inl (ErrMsg ''cannot stop host''), w)))"

definition ec2_machines :: "'w ec2 \<Rightarrow> 'w machines" where
  "ec2_machines e =
     \<lparr>mc_inspect = inspect_machine e, mc_wake = wake_machine e, mc_stop = stop_machine e,
      mc_delete = delete_machine e\<rparr>"

section \<open>The machine a description yields\<close>

lemma single_sound:
  "single stack h found vs = Inr r \<Longrightarrow>
     (\<forall>v\<in>set vs. managed stack h v) \<and>
     (case found of Some f \<Rightarrow> vs = [] \<and> r = Some f | None \<Rightarrow>
        (vs = [] \<and> r = None) \<or> (\<exists>v. vs = [v] \<and> r = Some v))"
proof (induction vs arbitrary: found)
  case Nil
  then show ?case by (auto split: option.splits)
next
  case (Cons v vs)
  then show ?case by (cases found) (fastforce split: if_splits)+
qed

lemma find_managed:
  "find_machine e h w = (Inr (Some v), w') \<Longrightarrow> managed (e_stack e) h v"
  by (auto simp: find_machine_def dest!: single_sound split: sum.splits prod.splits if_splits)

section \<open>Calls of the client, observed\<close>

text \<open>
  A world that also keeps the calls made: the client of \<open>observed c\<close> answers as \<open>c\<close>
  does and writes down every call that changes a machine and every description.
\<close>

datatype ec2_call =
    Described "ec2_instance list"
  | Ran launch_spec
  | Started string
  | Stopped string
  | Terminated string

definition noting :: "ec2_call \<Rightarrow> ('w \<Rightarrow> 'r \<times> 'w) \<Rightarrow> 'w \<times> ec2_call list \<Rightarrow> 'r \<times> ('w \<times> ec2_call list)" where
  "noting c f = (\<lambda>(w, calls). let (r, w) = f w in (r, (w, calls @ [c])))"

definition observed :: "'w ec2_client \<Rightarrow> ('w \<times> ec2_call list) ec2_client" where
  "observed c =
     \<lparr>ec_describe = (\<lambda>q (w, calls). let (r, w) = ec_describe c q w in
                       (r, (w, calls @ [Described (case r of Inl _ \<Rightarrow> [] | Inr rs \<Rightarrow> concat rs)]))),
      ec_run = (\<lambda>l. noting (Ran l) (ec_run c l)),
      ec_start = (\<lambda>i. noting (Started i) (ec_start c i)),
      ec_stop = (\<lambda>i. noting (Stopped i) (ec_stop c i)),
      ec_terminate = (\<lambda>i. noting (Terminated i) (ec_terminate c i)),
      ec_volumes = (\<lambda>s h (w, calls). let (r, w) = ec_volumes c s h w in (r, (w, calls)))\<rparr>"

definition observed_ec2 :: "'w ec2 \<Rightarrow> ('w \<times> ec2_call list) ec2" where
  "observed_ec2 e = \<lparr>e_client = observed (e_client e), e_stack = e_stack e\<rparr>"

text \<open>
  The last description justifies a call that starts, stops or terminates a machine: it showed
  exactly that machine, tagged and launched for this host. A launch follows a description that
  showed none and carries the host's own token.
\<close>

fun justified :: "string \<Rightarrow> host \<Rightarrow> ec2_instance list \<Rightarrow> ec2_call list \<Rightarrow> bool" where
  "justified stack h seen [] = True"
| "justified stack h seen (Described vs # cs) = justified stack h vs cs"
| "justified stack h seen (Ran l # cs) =
     (seen = [] \<and> h_instance_id h = [] \<and> launchable h \<and> l = launch_of stack h \<and> justified stack h seen cs)"
| "justified stack h seen (Started i # cs) =
     ((\<exists>v. seen = [v] \<and> i_id v = i \<and> managed stack h v \<and> i_state v = Some ''stopped'') \<and>
      justified stack h seen cs)"
| "justified stack h seen (Stopped i # cs) =
     ((\<exists>v. seen = [v] \<and> i_id v = i \<and> managed stack h v \<and>
           (i_state v = Some ''running'' \<or> i_state v = Some ''pending'')) \<and>
      justified stack h seen cs)"
| "justified stack h seen (Terminated i # cs) =
     ((\<exists>v. seen = [v] \<and> i_id v = i \<and> managed stack h v \<and> i_state v \<noteq> Some ''terminated'') \<and>
      justified stack h seen cs)"

text \<open>Every call of an operation only adds to the record of calls, and what it adds is justified.\<close>

lemma observed_find:
  assumes "find_machine (observed_ec2 e) h (w, cs) = (r, (w', cs'))"
  obtains vs where "cs' = cs @ [Described vs]"
    "\<And>v. r = Inr (Some v) \<Longrightarrow> vs = [v] \<and> managed (e_stack e) h v"
    "r = Inr None \<Longrightarrow> vs = []"
    "(r, w') = find_machine e h w"
proof -
  obtain q w1 where q: "ec_describe (e_client e) (find_query (e_stack e) h) w = (q, w1)" by fastforce
  define vs where "vs = (case q of Inl _ \<Rightarrow> [] | Inr rs \<Rightarrow> concat rs)"
  have "cs' = cs @ [Described vs]"
    using assms q by (auto simp: find_machine_def observed_ec2_def observed_def vs_def split: sum.splits if_splits)
  moreover have "(r, w') = find_machine e h w"
    using assms q by (auto simp: find_machine_def observed_ec2_def observed_def split: sum.splits if_splits)
  moreover have "vs = [v] \<and> managed (e_stack e) h v" if "r = Inr (Some v)" for v
    using assms q that
    by (auto simp: find_machine_def observed_ec2_def observed_def vs_def dest!: single_sound
        split: sum.splits if_splits)
  moreover have "vs = []" if "r = Inr None"
    using assms q that
    by (auto simp: find_machine_def observed_ec2_def observed_def vs_def dest!: single_sound
        split: sum.splits if_splits)
  ultimately show thesis using that by blast
qed


definition sound_calls :: "string \<Rightarrow> host \<Rightarrow> ec2_call list \<Rightarrow> ec2_call list \<Rightarrow> bool" where
  "sound_calls stack h cs cs' \<longleftrightarrow>
     (\<exists>added. cs' = cs @ added \<and> (\<forall>seen. justified stack h seen added))"

lemma justified_append:
  "justified stack h s a \<Longrightarrow> (\<And>s. justified stack h s b) \<Longrightarrow> justified stack h s (a @ b)"
proof (induction a arbitrary: s)
  case (Cons c a)
  then show ?case by (cases c) auto
qed simp

lemma sound_calls_trans:
  "sound_calls stack h a b \<Longrightarrow> sound_calls stack h b c \<Longrightarrow> sound_calls stack h a c"
  unfolding sound_calls_def by (metis append.assoc justified_append)

lemma sound_described: "sound_calls stack h cs (cs @ [Described vs])"
  by (simp add: sound_calls_def)

lemma sound_pair:
  "justified stack h vs [c] \<Longrightarrow> sound_calls stack h cs (cs @ [Described vs, c])"
  by (simp add: sound_calls_def)

lemma observed_find_sound:
  "find_machine (observed_ec2 e) h (w, cs) = (r, (w', cs')) \<Longrightarrow> sound_calls (e_stack e) h cs cs'"
  using sound_described by (auto elim!: observed_find)

lemma observed_wake:
  assumes "wake_machine (observed_ec2 e) h (w, cs) = (r, (w', cs'))"
  shows "sound_calls (e_stack e) h cs cs'"
proof (cases "launchable h")
  case False
  then show ?thesis using assms by (auto simp: wake_machine_def sound_calls_def)
next
  case True
  obtain f w1 c1 where f: "find_machine (observed_ec2 e) h (w, cs) = (f, (w1, c1))" by (metis prod.collapse)
  obtain vs where vs: "c1 = cs @ [Described vs]"
    "\<And>v. f = Inr (Some v) \<Longrightarrow> vs = [v] \<and> managed (e_stack e) h v" "f = Inr None \<Longrightarrow> vs = []"
    by (rule observed_find [OF f]) blast
  consider "cs' = c1"
    | "f = Inr None" "h_instance_id h = []" "cs' = c1 @ [Ran (launch_of (e_stack e) h)]"
    | v where "f = Inr (Some v)" "i_state v = Some ''stopped''" "cs' = c1 @ [Started (i_id v)]"
    using assms f True
    by (auto simp: wake_machine_def observed_ec2_def observed_def noting_def
        split: if_splits sum.splits option.splits prod.splits list.splits)
  then show ?thesis
  proof cases
    case 1
    then show ?thesis using vs(1) sound_described by simp
  next
    case 2
    then show ?thesis using vs(1) vs(3) True by (simp add: sound_pair)
  next
    case 3
    then show ?thesis using vs(1) vs(2) [OF 3(1)] by (simp add: sound_pair)
  qed
qed

lemma observed_delete_found:
  assumes "delete_found (observed_ec2 e) h v (w, c0 @ [Described [v]]) = (r, (w', cs'))"
    "managed (e_stack e) h v"
  shows "sound_calls (e_stack e) h c0 cs'"
proof -
  consider "cs' = c0 @ [Described [v]]"
    | "i_state v \<noteq> Some ''terminated''" "cs' = (c0 @ [Described [v]]) @ [Terminated (i_id v)]"
    using assms(1)
    by (auto simp: delete_found_def disks_deleted_def observed_ec2_def observed_def noting_def Let_def
        split: if_splits sum.splits option.splits prod.splits)
  then show ?thesis
    by cases (use assms(2) in \<open>simp_all add: sound_described sound_pair\<close>)
qed

lemma observed_disks:
  "disks_deleted (observed_ec2 e) h (w, cs) = (r, (w', cs')) \<Longrightarrow> cs' = cs"
  by (auto simp: disks_deleted_def observed_ec2_def observed_def split: sum.splits if_splits prod.splits)

lemma observed_delete:
  assumes "delete_machine (observed_ec2 e) h (w, cs) = (r, (w', cs'))"
  shows "sound_calls (e_stack e) h cs cs'"
proof -
  obtain f w1 c1 where f: "find_machine (observed_ec2 e) h (w, cs) = (f, (w1, c1))" by (metis prod.collapse)
  obtain vs where vs: "c1 = cs @ [Described vs]"
    "\<And>v. f = Inr (Some v) \<Longrightarrow> vs = [v] \<and> managed (e_stack e) h v"
    by (rule observed_find [OF f]) blast
  have s1: "sound_calls (e_stack e) h cs c1" using observed_find_sound [OF f] .
  obtain k w2 c2 where k: "wake_machine (observed_ec2 e) h (w1, c1) = (k, (w2, c2))" by (metis prod.collapse)
  have s2: "sound_calls (e_stack e) h c1 c2" using observed_wake [OF k] .
  obtain g w3 c3 where g: "find_machine (observed_ec2 e) h (w2, c2) = (g, (w3, c3))" by (metis prod.collapse)
  obtain us where us: "c3 = c2 @ [Described us]"
    "\<And>v. g = Inr (Some v) \<Longrightarrow> us = [v] \<and> managed (e_stack e) h v"
    by (rule observed_find [OF g]) blast
  have s3: "sound_calls (e_stack e) h c2 c3" using observed_find_sound [OF g] .
  consider "cs' = c1" | "cs' = c2" | "cs' = c3"
    | v where "f = Inr (Some v)" "delete_found (observed_ec2 e) h v (w1, c1) = (r, (w', cs'))"
    | "disks_deleted (observed_ec2 e) h (w1, c1) = (r, (w', cs'))"
    | v where "g = Inr (Some v)" "delete_found (observed_ec2 e) h v (w3, c3) = (r, (w', cs'))"
    using assms f k g
    by (auto simp: delete_machine_def split: sum.splits option.splits if_splits)
  then show ?thesis
  proof cases
    case 4
    then show ?thesis using observed_delete_found vs(1) vs(2) [OF 4(1)] by metis
  next
    case 5
    then show ?thesis using observed_disks s1 by metis
  next
    case 6
    then have "sound_calls (e_stack e) h c2 cs'" using observed_delete_found us(1) us(2) [OF 6(1)] by metis
    then show ?thesis using s1 s2 sound_calls_trans by metis
  qed (use s1 s2 s3 sound_calls_trans in metis)+
qed

lemma observed_stop:
  assumes "stop_machine (observed_ec2 e) h (w, cs) = (r, (w', cs'))"
  shows "sound_calls (e_stack e) h cs cs'"
proof -
  obtain f w1 c1 where f: "find_machine (observed_ec2 e) h (w, cs) = (f, (w1, c1))" by (metis prod.collapse)
  obtain vs where vs: "c1 = cs @ [Described vs]"
    "\<And>v. f = Inr (Some v) \<Longrightarrow> vs = [v] \<and> managed (e_stack e) h v"
    by (rule observed_find [OF f]) blast
  consider "cs' = c1"
    | v where "f = Inr (Some v)" "i_state v = Some ''running'' \<or> i_state v = Some ''pending''"
        "cs' = c1 @ [Stopped (i_id v)]"
    using assms f
    by (auto simp: stop_machine_def observed_ec2_def observed_def noting_def
        split: if_splits sum.splits option.splits prod.splits)
  then show ?thesis
  proof cases
    case 1
    then show ?thesis using vs(1) sound_described by simp
  next
    case 2
    then show ?thesis using vs(1) vs(2) [OF 2(1)] by (auto intro: sound_pair)
  qed
qed

text \<open>
  A deletion succeeds only when the machine is described as terminated or is not described any
  more, and then no volume of the host is left.
\<close>

lemma delete_done:
  assumes "delete_machine e h w = (Inr (), w')"
  shows "\<exists>w1. ec_volumes (e_client e) (e_stack e) (h_id h) w1 = (Inr 0, w')"
proof -
  have disks: "\<exists>w1. ec_volumes (e_client e) (e_stack e) (h_id h) w1 = (Inr 0, w')"
    if "disks_deleted e h w2 = (Inr (), w')" for w2
    using that by (auto simp: disks_deleted_def split: sum.splits if_splits prod.splits)
  have "\<exists>w2. disks_deleted e h w2 = (Inr (), w')" if "delete_found e h v w2 = (Inr (), w')" for v w2
    using that by (auto simp: delete_found_def Let_def split: sum.splits if_splits prod.splits option.splits)
  then have "\<exists>w2. disks_deleted e h w2 = (Inr (), w')"
    using assms by (auto simp: delete_machine_def split: sum.splits option.splits if_splits prod.splits)
  then show ?thesis using disks by blast
qed

end
