(* ===== verification/FleetWorld.thy ===== *)
theory FleetWorld
  imports FleetReconcile FleetEC2
begin

text \<open>
  The fleet controller as it is deployed: the scheduler of internal/fleet/scheduler.go over the
  DynamoDB table and the EC2 client. The locale \<open>fleet_system\<close> states what is assumed of the
  services outside the repository; the \<open>sublocale\<close> turns it into the scheduler's world. The
  theory then gives one complete in-memory world (a table, machines, a clock, tokens) that meets
  every assumption, on which the properties are exercised.
\<close>

definition fleet_scheduler ::
  "('w, 't) table \<Rightarrow> 'w ec2 \<Rightarrow> fleet_config \<Rightarrow> 'w runtime \<Rightarrow> 'w scheduler" where
  "fleet_scheduler t e c rt =
     \<lparr>sc_store = table_store t, sc_machines = ec2_machines e, sc_config = c, sc_runtime = rt\<rparr>"

text \<open>
  \<open>tenv\<close> is everything other clients of the table may do between two instants. It must keep
  tables well formed and look like \<open>fleet_step\<close> through the registry.
\<close>

locale fleet_system = table_world t tbl tenv fleet_step
  for t :: "('w, 't) table" and tbl :: "'w \<Rightarrow> 't tbl" and tenv :: "'t tbl \<Rightarrow> 't tbl \<Rightarrow> bool" +
  fixes e :: "'w ec2" and rt :: "'w runtime" and c :: fleet_config
  assumes describe_frame: "ec_describe (e_client e) q w = (dr, w') \<Longrightarrow> tenv (tbl w) (tbl w')"
    and run_frame: "ec_run (e_client e) l w = (rr, w') \<Longrightarrow> tenv (tbl w) (tbl w')"
    and start_frame: "ec_start (e_client e) i w = (ru, w') \<Longrightarrow> tenv (tbl w) (tbl w')"
    and halt_frame: "ec_stop (e_client e) i w = (ru, w') \<Longrightarrow> tenv (tbl w) (tbl w')"
    and terminate_frame: "ec_terminate (e_client e) i w = (ru, w') \<Longrightarrow> tenv (tbl w) (tbl w')"
    and volumes_frame: "ec_volumes (e_client e) i j w = (rn, w') \<Longrightarrow> tenv (tbl w) (tbl w')"
    and clock_frame: "rt_now rt w = (tm, w') \<Longrightarrow> tenv (tbl w) (tbl w')"
    and random_frame: "rt_token rt w = (tok, w') \<Longrightarrow> tenv (tbl w) (tbl w')"
    and random_fresh: "wf w \<Longrightarrow> rt_token rt w = (tok, w') \<Longrightarrow>
      length (st_hosts (rg_state (view w'))) \<le> 16 \<Longrightarrow>
      ''host-'' @ take 16 tok \<notin> h_id ` set (st_hosts (rg_state (view w')))"
    and config_valid: "sound_config c"
begin

lemma find_tenv: "find_machine e h w = (r, w') \<Longrightarrow> tenv (tbl w) (tbl w')"
  using describe_frame by (auto simp: find_machine_def split: sum.splits prod.splits if_splits)

lemma inspect_tenv: "inspect_machine e h w = (r, w') \<Longrightarrow> tenv (tbl w) (tbl w')"
  using find_tenv
  by (auto simp: inspect_machine_def split: sum.splits prod.splits if_splits option.splits)

lemma wake_tenv:
  assumes "wake_machine e h w = (r, w')"
  shows "tenv (tbl w) (tbl w')"
proof -
  obtain f w1 where f: "find_machine e h w = (f, w1)" by fastforce
  have 1: "tenv (tbl w) (tbl w1)" using find_tenv [OF f] .
  consider "w' = w" | "w' = w1" | q where "ec_run (e_client e) (launch_of (e_stack e) h) w1 = (q, w')"
    | q i where "ec_start (e_client e) i w1 = (q, w')"
    using assms f
    by (auto simp: wake_machine_def split: if_splits sum.splits option.splits prod.splits list.splits)
  then show ?thesis
    by cases (use 1 tenv_refl tenv_trans run_frame start_frame in blast)+
qed

lemma disks_tenv: "disks_deleted e h w = (r, w') \<Longrightarrow> tenv (tbl w) (tbl w')"
  using volumes_frame by (auto simp: disks_deleted_def split: sum.splits prod.splits if_splits)

lemma delete_found_tenv:
  assumes "delete_found e h v w = (r, w')"
  shows "tenv (tbl w) (tbl w')"
proof -
  consider "w' = w" | "disks_deleted e h w = (r, w')" | q i where "ec_terminate (e_client e) i w = (q, w')"
    using assms
    by (auto simp: delete_found_def Let_def split: if_splits sum.splits option.splits prod.splits)
  then show ?thesis by cases (use tenv_refl disks_tenv terminate_frame in blast)+
qed

lemma delete_tenv:
  assumes "delete_machine e h w = (r, w')"
  shows "tenv (tbl w) (tbl w')"
proof -
  obtain f w1 where f: "find_machine e h w = (f, w1)" by fastforce
  obtain k w2 where k: "wake_machine e h w1 = (k, w2)" by fastforce
  obtain g w3 where g: "find_machine e h w2 = (g, w3)" by fastforce
  have 1: "tenv (tbl w) (tbl w1)" using find_tenv [OF f] .
  have 2: "tenv (tbl w) (tbl w2)" using 1 wake_tenv [OF k] by (rule tenv_trans)
  have 3: "tenv (tbl w) (tbl w3)" using 2 find_tenv [OF g] by (rule tenv_trans)
  consider "w' = w1" | "w' = w2" | "w' = w3"
    | v where "delete_found e h v w1 = (r, w')" | "disks_deleted e h w1 = (r, w')"
    | v where "delete_found e h v w3 = (r, w')"
    using assms f k g by (auto simp: delete_machine_def split: sum.splits option.splits if_splits)
  then show ?thesis
  proof cases
    case 4 then show ?thesis using tenv_trans [OF 1] delete_found_tenv by blast
  next
    case 5 then show ?thesis using tenv_trans [OF 1] disks_tenv by blast
  next
    case 6 then show ?thesis using tenv_trans [OF 3] delete_found_tenv by blast
  qed (use 1 2 3 in simp_all)
qed

lemma stop_tenv:
  assumes "stop_machine e h w = (r, w')"
  shows "tenv (tbl w) (tbl w')"
proof -
  obtain f w1 where f: "find_machine e h w = (f, w1)" by fastforce
  have 1: "tenv (tbl w) (tbl w1)" using find_tenv [OF f] .
  consider "w' = w1" | q i where "ec_stop (e_client e) i w1 = (q, w')"
    using assms f by (auto simp: stop_machine_def split: if_splits sum.splits option.splits prod.splits)
  then show ?thesis by cases (use 1 tenv_trans halt_frame in blast)+
qed

end

lemma fleet_scheduler_sel [simp]:
  "sc_store (fleet_scheduler t e c rt) = table_store t" "sc_config (fleet_scheduler t e c rt) = c"
  "sc_runtime (fleet_scheduler t e c rt) = rt"
  "mc_inspect (sc_machines (fleet_scheduler t e c rt)) = inspect_machine e"
  "mc_wake (sc_machines (fleet_scheduler t e c rt)) = wake_machine e"
  "mc_stop (sc_machines (fleet_scheduler t e c rt)) = stop_machine e"
  "mc_delete (sc_machines (fleet_scheduler t e c rt)) = delete_machine e"
  by (simp_all add: fleet_scheduler_def ec2_machines_def)

sublocale fleet_system \<subseteq> sched: scheduler_world "fleet_scheduler t e c rt" wf view
proof (intro scheduler_world.intro scheduler_world_axioms.intro, unfold fleet_scheduler_sel)
  show "fleet_store (table_store t) wf view fleet_step" by (rule store.fleet_store_axioms)
  show "sound_config c" by (rule config_valid)
next
  fix w w' tok
  assume "wf w" "rt_token rt w = (tok, w')" "length (st_hosts (rg_state (view w'))) \<le> 16"
  then show "''host-'' @ take 16 tok \<notin> h_id ` set (st_hosts (rg_state (view w')))"
    by (rule random_fresh)
qed (rule frame; blast intro: inspect_tenv wake_tenv stop_tenv delete_tenv clock_frame random_frame)+

context fleet_system
begin

lemma scheduler_here: "scheduler_world (fleet_scheduler t e c rt) wf view"
  by (rule sched.scheduler_world_axioms)

end

section \<open>A world in memory\<close>

datatype doc = StateText fleet_state | ReportText report

fun parse_state :: "doc \<Rightarrow> err + fleet_state" where
  "parse_state (StateText s) = Inr s"
| "parse_state (ReportText r) = Inl (ErrMsg ''cannot unmarshal'')"

fun parse_report :: "doc \<Rightarrow> err + report" where
  "parse_report (ReportText r) = Inr r"
| "parse_report (StateText s) = Inl (ErrMsg ''cannot unmarshal'')"

fun doc_size :: "doc \<Rightarrow> nat" where
  "doc_size (StateText s) = 64 + 512 * length (st_hosts s) + 512 * length (st_servers s)"
| "doc_size (ReportText r) = 256 + length (rp_address r) + length (rp_error r)"

definition memory_codec :: "doc codec" where
  "memory_codec = \<lparr>cd_state = StateText, cd_unstate = parse_state, cd_report = (\<lambda>r. Inr (ReportText r)),
     cd_unreport = parse_report, cd_size = doc_size\<rparr>"

record memory =
  mm_table :: "doc tbl"
  mm_clock :: time
  mm_count :: nat
  mm_machines :: "ec2_instance list"

definition condition_codes :: "doc tbl \<Rightarrow> doc txop list \<Rightarrow> string list" where
  "condition_codes m ops = map (\<lambda>x. if op_holds m x then ''None'' else ''ConditionalCheckFailed'') ops"

definition memory_dynamo :: "(memory, doc) dynamo" where
  "memory_dynamo =
     \<lparr>dy_get = (\<lambda>k w. (Inr (mm_table w k), w)),
      dy_put = (\<lambda>p w. if holds (pt_cond p) (mm_table w (pt_key p))
                      then (Inr (), w\<lparr>mm_table := apply_op (TxPut p) (mm_table w)\<rparr>)
                      else (Inl ConditionFailed, w)),
      dy_transact = (\<lambda>ops w. if \<forall>x\<in>set ops. op_holds (mm_table w) x
                      then (Inr (), w\<lparr>mm_table := fold apply_op ops (mm_table w)\<rparr>)
                      else (Inl (TxCanceled (condition_codes (mm_table w) ops)), w)),
      dy_batch = (\<lambda>ks w. (Inr (filter (\<lambda>it. it \<noteq> []) (map (mm_table w) ks), []), w)),
      dy_pause = (\<lambda>n w. (Inr (), w\<lparr>mm_clock := mm_clock w + int n * second\<rparr>))\<rparr>"

definition set_machine :: "string \<Rightarrow> string \<Rightarrow> ec2_instance list \<Rightarrow> ec2_instance list" where
  "set_machine i s = map (\<lambda>v. if i_id v = i then v\<lparr>i_state := Some s\<rparr> else v)"

definition memory_ec2 :: "memory ec2" where
  "memory_ec2 = \<lparr>e_client =
     \<lparr>ec_describe = (\<lambda>q w. case q of
          ById i \<Rightarrow> (let vs = filter (\<lambda>v. i_id v = i) (mm_machines w) in
             (if vs = [] then Inl (''InvalidInstanceID.NotFound'', ErrOutside 1) else Inr [vs], w))
        | ByLaunch s h tok \<Rightarrow>
            (Inr [filter (\<lambda>v. tag (i_tags v) ''insta-game:fleet'' = s \<and>
                    tag (i_tags v) ''insta-game:host'' = h \<and> i_token v = tok) (mm_machines w)], w)),
      ec_run = (\<lambda>l w. let i = ''i-'' @ show_nat (length (mm_machines w)) in
         (Inr [i], w\<lparr>mm_machines := mm_machines w @
            [\<lparr>i_id = i, i_token = ls_token l, i_state = Some ''pending'',
              i_tags = [(''insta-game:fleet'', ls_stack l), (''insta-game:host'', ls_host l)]\<rparr>]\<rparr>)),
      ec_start = (\<lambda>i w. (Inr (), w\<lparr>mm_machines := set_machine i ''running'' (mm_machines w)\<rparr>)),
      ec_stop = (\<lambda>i w. (Inr (), w\<lparr>mm_machines := set_machine i ''stopped'' (mm_machines w)\<rparr>)),
      ec_terminate = (\<lambda>i w. (Inr (), w\<lparr>mm_machines := set_machine i ''terminated'' (mm_machines w)\<rparr>)),
      ec_volumes = (\<lambda>s h w. (Inr (length (filter (\<lambda>v. tag (i_tags v) ''insta-game:fleet'' = s \<and>
            tag (i_tags v) ''insta-game:host'' = h \<and> i_state v \<noteq> Some ''terminated'') (mm_machines w))), w))\<rparr>,
     e_stack = ''stack''\<rparr>"

text \<open>A token that starts differently from the IDs of the saved hosts.\<close>

definition memory_prefix :: "nat \<Rightarrow> string" where
  "memory_prefix n = replicate n CHR ''a'' @ replicate (16 - n) CHR ''0''"

definition memory_hosts :: "memory \<Rightarrow> string list" where
  "memory_hosts w =
     (case decode_state memory_codec (mm_table w registry_key) of
        Inl _ \<Rightarrow> [] | Inr s \<Rightarrow> map h_id (st_hosts s))"

definition memory_runtime :: "memory runtime" where
  "memory_runtime =
     \<lparr>rt_now = (\<lambda>w. (mm_clock w, w\<lparr>mm_clock := mm_clock w + second\<rparr>)),
      rt_token = (\<lambda>w. let free = filter (\<lambda>n. ''host-'' @ memory_prefix n \<notin> set (memory_hosts w)) [0..<17] in
                   (memory_prefix (if free = [] then 0 else hd free) @ show_nat (mm_count w),
                    w\<lparr>mm_count := Suc (mm_count w)\<rparr>))\<rparr>"

definition memory_table :: "(memory, doc) table" where
  "memory_table = \<lparr>tb_client = memory_dynamo, tb_codec = memory_codec\<rparr>"

definition memory_config :: fleet_config where
  "memory_config =
     \<lparr>fc_release = ''r1'', fc_workload = ''w1'',
      fc_games = [\<lparr>g_id = ''quake'', g_name = ''Quake'', g_resources = \<lparr>r_cpu = 512, r_memory = 1024, r_disk = 2048\<rparr>\<rparr>,
                  \<lparr>g_id = ''bzflag'', g_name = ''BZFlag'', g_resources = \<lparr>r_cpu = 256, r_memory = 512, r_disk = 512\<rparr>\<rparr>],
      fc_capacity = \<lparr>r_cpu = 1024, r_memory = 2048, r_disk = 8192\<rparr>, fc_max_hosts = 2, fc_max_servers = 4,
      fc_launch_template = ''lt-1'', fc_launch_version = ''7'', fc_idle_minutes = 15, fc_max_minutes = 0,
      fc_deadline = 0\<rparr>"

definition memory_scheduler :: "memory scheduler" where
  "memory_scheduler = fleet_scheduler memory_table memory_ec2 memory_config memory_runtime"

definition fresh_memory :: memory where
  "fresh_memory = \<lparr>mm_table = (\<lambda>_. []), mm_clock = 1700000000 * second, mm_count = 0, mm_machines = []\<rparr>"

text \<open>Other clients of the memory's table: whatever keeps tables well formed and the promise.\<close>

definition memory_env :: "doc tbl \<Rightarrow> doc tbl \<Rightarrow> bool" where
  "memory_env x y \<longleftrightarrow>
     (table_wf memory_codec x \<longrightarrow>
        table_wf memory_codec y \<and> fleet_step (table_abs memory_codec x) (table_abs memory_codec y))"

lemma memory_env_refl [simp]: "memory_env x x"
  by (simp add: memory_env_def)

lemma memory_env_trans: "memory_env x y \<Longrightarrow> memory_env y z \<Longrightarrow> memory_env x z"
  unfolding memory_env_def using fleet_step_trans by blast

text \<open>The table keeps its laws whatever the other clients are said to do.\<close>

lemma memory_dynamo_service:
  assumes "\<And>a. tenv a a" "\<And>a b c. tenv a b \<Longrightarrow> tenv b c \<Longrightarrow> tenv a c"
  shows "dynamo_service memory_dynamo mm_table tenv"
proof
  have now: "ok a \<Longrightarrow> f a = b \<Longrightarrow> takes_effect tenv ok f a b" for ok f a b
    using assms(1) by (auto intro: takes_effectI [of _ _ a])
  show "tenv a c" if "tenv a b" "tenv b c" for a b c using that assms(2) by blast
  show "takes_effect tenv (\<lambda>m. holds (pt_cond p) (m (pt_key p))) (apply_op (TxPut p)) (mm_table w) (mm_table w')"
    if "dy_put memory_dynamo p w = (Inr u, w')" for p w u w'
    using that by (auto simp: memory_dynamo_def intro!: now split: if_splits)
  show "takes_effect tenv (\<lambda>m. \<forall>x\<in>set ops. op_holds m x) (fold apply_op ops) (mm_table w) (mm_table w')"
    if "dy_transact memory_dynamo ops w = (Inr u, w')" for ops w u w'
    using that by (auto simp: memory_dynamo_def intro!: now split: if_splits)
qed (use assms(1) in \<open>auto simp: memory_dynamo_def split: if_splits\<close>)

interpretation memory_db: dynamo_service memory_dynamo mm_table memory_env
  by (rule memory_dynamo_service) (use memory_env_trans in auto)

lemma memory_codec_ok: "codec_ok memory_codec"
  by (simp add: codec_ok_def memory_codec_def)

lemma memory_prefix_length [simp]: "n \<le> 16 \<Longrightarrow> length (memory_prefix n) = 16"
  by (simp add: memory_prefix_def)

lemma memory_prefix_inj: "inj_on memory_prefix {0..<17}"
proof (rule inj_onI)
  fix i j assume "i \<in> {0..<17}" "j \<in> {0..<17}" "memory_prefix i = memory_prefix j"
  then have "length (filter (\<lambda>c. c = CHR ''a'') (memory_prefix i)) = length (filter (\<lambda>c. c = CHR ''a'') (memory_prefix j))"
    by simp
  then show "i = j" by (simp add: memory_prefix_def)
qed

lemma memory_free:
  assumes "length ids \<le> 16"
  shows "filter (\<lambda>n. ''host-'' @ memory_prefix n \<notin> set ids) [0..<17] \<noteq> []"
proof
  assume "filter (\<lambda>n. ''host-'' @ memory_prefix n \<notin> set ids) [0..<17] = []"
  then have "(\<lambda>n. ''host-'' @ memory_prefix n) ` {0..<17} \<subseteq> set ids"
    by (auto simp: filter_empty_conv)
  moreover have "inj_on (\<lambda>n. ''host-'' @ memory_prefix n) {0..<17}"
    using memory_prefix_inj by (auto simp: inj_on_def)
  ultimately have "card {0..<17::nat} \<le> card (set ids)"
    by (metis card_image card_mono List.finite_set)
  then show False using card_length [of ids] assms by simp
qed

lemma memory_token_fresh:
  assumes "rt_token memory_runtime w = (tok, w')"
    "length (st_hosts (rg_state (table_abs memory_codec (mm_table w')))) \<le> 16"
    "table_wf memory_codec (mm_table w)"
  shows "''host-'' @ take 16 tok \<notin> h_id ` set (st_hosts (rg_state (table_abs memory_codec (mm_table w'))))"
proof -
  define free where "free = filter (\<lambda>n. ''host-'' @ memory_prefix n \<notin> set (memory_hosts w)) [0..<17]"
  obtain s where s: "decode_state memory_codec (mm_table w registry_key) = Inr s"
    using assms(3) by (auto simp: table_wf_def)
  have tok: "tok = memory_prefix (if free = [] then 0 else hd free) @ show_nat (mm_count w)"
    and tbl: "mm_table w' = mm_table w"
    using assms(1) by (auto simp: memory_runtime_def Let_def free_def)
  have hosts: "memory_hosts w = map h_id (st_hosts s)" using s by (simp add: memory_hosts_def)
  have "free \<noteq> []"
    unfolding free_def hosts
    by (rule memory_free) (use assms(2) s tbl in \<open>simp add: table_abs_def\<close>)
  then have "hd free \<in> set free" by simp
  then have "hd free < 17" "''host-'' @ memory_prefix (hd free) \<notin> set (memory_hosts w)"
    by (auto simp: free_def)
  then show ?thesis using tok \<open>free \<noteq> []\<close> s tbl hosts by (simp add: table_abs_def)
qed

lemma memory_config_valid: "validate memory_config = Inr ()"
proof -
  have "trim_space ''Quake'' \<noteq> []" "trim_space ''BZFlag'' \<noteq> []" 
    by (simp_all add: trim_space_graphic graphic_def)
  then show ?thesis by (simp add: validate_def memory_config_def is_lower_alnum_def is_digit_def)
qed

lemma memory_ec2_frame:
  "ec_describe (e_client memory_ec2) q w = (dr, w') \<Longrightarrow> mm_table w' = mm_table w"
  "ec_run (e_client memory_ec2) l w = (rr, w') \<Longrightarrow> mm_table w' = mm_table w"
  "ec_start (e_client memory_ec2) i w = (ru, w') \<Longrightarrow> mm_table w' = mm_table w"
  "ec_stop (e_client memory_ec2) i w = (ru, w') \<Longrightarrow> mm_table w' = mm_table w"
  "ec_terminate (e_client memory_ec2) i w = (ru, w') \<Longrightarrow> mm_table w' = mm_table w"
  "ec_volumes (e_client memory_ec2) i j w = (rn, w') \<Longrightarrow> mm_table w' = mm_table w"
  by (auto simp: memory_ec2_def Let_def split: ec2_query.splits)

lemma memory_runtime_frame:
  "rt_now memory_runtime w = (tm, w') \<Longrightarrow> mm_table w' = mm_table w"
  "rt_token memory_runtime w = (tok, w') \<Longrightarrow> mm_table w' = mm_table w"
  by (auto simp: memory_runtime_def Let_def)

lemma memory_table_sel [simp]:
  "tb_client memory_table = memory_dynamo" "tb_codec memory_table = memory_codec"
  by (simp_all add: memory_table_def)

lemma memory_table_world:
  assumes "\<And>a. tenv a a" "\<And>a b c. tenv a b \<Longrightarrow> tenv b c \<Longrightarrow> tenv a c"
    "\<And>x y. tenv x y \<Longrightarrow> table_wf memory_codec x \<Longrightarrow> table_wf memory_codec y"
    "\<And>x y. tenv x y \<Longrightarrow> table_wf memory_codec x \<Longrightarrow> env (table_abs memory_codec x) (table_abs memory_codec y)"
    "\<And>a. env a a" "\<And>a b c. env a b \<Longrightarrow> env b c \<Longrightarrow> env a c"
  shows "table_world memory_table mm_table tenv env"
proof (intro table_world.intro table_world_axioms.intro)
  show "dynamo_service (tb_client memory_table) mm_table tenv"
    unfolding memory_table_sel using assms(1,2) by (rule memory_dynamo_service)
  show "env a c" if "env a b" "env b c" for a b c using that assms(6) by blast
qed (use assms memory_codec_ok in auto)

lemma memory_system:
  assumes "table_world memory_table mm_table tenv fleet_step" "\<And>a. tenv a a" "sound_config c"
  shows "fleet_system memory_table mm_table tenv memory_ec2 memory_runtime c"
proof (intro fleet_system.intro fleet_system_axioms.intro)
  show "table_world memory_table mm_table tenv fleet_step" by (rule assms(1))
  show "sound_config c" by (rule assms(3))
  show "''host-'' @ take 16 tok \<notin> h_id ` set (st_hosts (rg_state (table_abs (tb_codec memory_table) (mm_table w'))))"
    if "table_wf (tb_codec memory_table) (mm_table w)" "rt_token memory_runtime w = (tok, w')"
      "length (st_hosts (rg_state (table_abs (tb_codec memory_table) (mm_table w')))) \<le> 16" for w tok w'
    using that unfolding memory_table_sel by (intro memory_token_fresh)
qed (use memory_ec2_frame memory_runtime_frame assms(2) in \<open>metis+\<close>)

lemma memory_shared: "sound_config c \<Longrightarrow> fleet_system memory_table mm_table memory_env memory_ec2 memory_runtime c"
  by (rule memory_system, rule memory_table_world)
    (use memory_env_trans fleet_step_trans in \<open>auto simp: memory_env_def\<close>)

text \<open>The memory among other clients, and alone.\<close>

interpretation memory: fleet_system memory_table mm_table memory_env memory_ec2 memory_runtime memory_config
  by (rule memory_shared, rule validate_sound_config [OF memory_config_valid])

lemma alone_table: "table_world memory_table mm_table (=) (=)"
  by (rule memory_table_world) auto

interpretation alone: fleet_system memory_table mm_table "(=)" memory_ec2 memory_runtime memory_config
  by (rule memory_system, rule memory_table_world)
    (use fleet_step_trans validate_sound_config [OF memory_config_valid] in auto)

lemma quiet_refl: "retiring_quiet a a"
  by (simp add: retiring_quiet_def)

lemma quiet_worldI:
  assumes "fleet_system t tbl tenv e rt c" "table_world t tbl tenv env"
    "\<And>a b. env a b \<Longrightarrow> retiring_quiet a b"
  shows "quiet_world (fleet_scheduler t e c rt) (\<lambda>w. table_wf (tb_codec t) (tbl w))
    (\<lambda>w. table_abs (tb_codec t) (tbl w)) env"
proof (intro quiet_world.intro quiet_world_axioms.intro)
  show "scheduler_world (fleet_scheduler t e c rt) (\<lambda>w. table_wf (tb_codec t) (tbl w))
      (\<lambda>w. table_abs (tb_codec t) (tbl w))"
    by (rule fleet_system.scheduler_here [OF assms(1)])
  show "fleet_store (sc_store (fleet_scheduler t e c rt)) (\<lambda>w. table_wf (tb_codec t) (tbl w))
      (\<lambda>w. table_abs (tb_codec t) (tbl w)) env"
    unfolding fleet_scheduler_sel by (rule table_world.store_here [OF assms(2)])
qed (rule assms(3))

interpretation alone: quiet_world "fleet_scheduler memory_table memory_ec2 memory_config memory_runtime"
  "\<lambda>w. table_wf (tb_codec memory_table) (mm_table w)" "\<lambda>w. table_abs (tb_codec memory_table) (mm_table w)" "(=)"
  by (rule quiet_worldI [OF alone.fleet_system_axioms alone_table]) (simp add: quiet_refl)

lemma fresh_memory_wf: "table_wf memory_codec (mm_table fresh_memory)"
  by (simp add: table_wf_def fresh_memory_def decode_state_def)

end
