(* ===== verification/FleetAlone.thy ===== *)
theory FleetAlone
  imports FleetWorld
begin

text \<open>
  The scheduler when nobody else writes the table: \<open>tenv\<close> is equality. Then a created server is
  in the registry when \<open>Create\<close> returns, and a client that repeats its request (it generated the
  server's ID, and its first answer may have been lost) gets the same server back.
\<close>

locale lone_system = fleet_system t tbl "(=)" e rt c
  for t :: "('w, 't) table" and tbl :: "'w \<Rightarrow> 't tbl"
    and e :: "'w ec2" and rt :: "'w runtime" and c :: fleet_config
begin

abbreviation sc :: "'w scheduler" where
  "sc \<equiv> fleet_scheduler t e c rt"

lemma lone_table: "table_world t tbl (=) (=)"
  by (intro table_world.intro table_world_axioms.intro) (use dynamo_service_axioms codec in auto)

lemma load_lone:
  "wf w \<Longrightarrow> load t w = (r, w') \<Longrightarrow> tbl w' = tbl w \<and> (\<forall>s. r = Inr s \<longrightarrow> s = rg_state (view w))"
  using load_laws [of w r w'] get_frame by (force simp: load_def split: sum.splits prod.splits)

lemma tombstoned_lone: "tombstoned t i w = (r, w') \<Longrightarrow> tbl w' = tbl w"
  using get_frame by (force simp: tombstoned_def split: sum.splits prod.splits)

lemma save_lone:
  "wf w \<Longrightarrow> save t s p w = (Inr u, w') \<Longrightarrow> wf w' \<and> view w' = commit s p (view w)"
  using table_world.save_laws [OF lone_table, of w s p "Inr u" w'] by auto

lemma save_lone_wf: "wf w \<Longrightarrow> save t s p w = (r, w') \<Longrightarrow> wf w'"
  using table_world.save_laws [OF lone_table, of w s p r w'] by blast

lemma ended_lone: "ended sc s w = (b, w') \<Longrightarrow> tbl w' = tbl w"
  using clock_frame by (auto simp: ended_def split: if_splits prod.splits)

lemma candidates_lone: "candidates sc s req hs w = (cs, w') \<Longrightarrow> tbl w' = tbl w"
proof (induction hs arbitrary: cs w)
  case Nil
  then show ?case by simp
next
  case (Cons h hs)
  obtain im w1 where im: "inspect_machine e h w = (im, w1)" by fastforce
  have w1: "tbl w1 = tbl w" using inspect_tenv [OF im] by simp
  consider cs' where "candidates sc s req hs w = (cs', w')" | cs' where "candidates sc s req hs w1 = (cs', w')"
    using Cons.prems im
    by (auto simp: Let_def split: if_splits sum.splits prod.splits option.splits)
  then show ?case by cases (use Cons.IH w1 in \<open>metis+\<close>)
qed

lemma choose_lone: "choose_host sc s req w = (h, w') \<Longrightarrow> tbl w' = tbl w"
  using candidates_lone by (fastforce simp: choose_host_def Let_def split: prod.splits list.splits)

lemma new_server_lone: "new_server sc i game name h res w = (v, w') \<Longrightarrow> tbl w' = tbl w"
  using clock_frame random_frame by (fastforce simp: new_server_def Let_def split: prod.splits)

lemma new_host_lone:
  assumes "new_host sc w = (h, w')"
  shows "tbl w' = tbl w"
proof -
  obtain t1 w1 where 1: "rt_token rt w = (t1, w1)" by fastforce
  obtain t2 w2 where 2: "rt_token rt w1 = (t2, w2)" by fastforce
  obtain t3 w3 where 3: "rt_now rt w2 = (t3, w3)" by fastforce
  have "w' = w3" using assms 1 2 3 by (simp add: new_host_def Let_def)
  then show ?thesis using random_frame [OF 1] random_frame [OF 2] clock_frame [OF 3] by simp
qed

definition created :: "string \<Rightarrow> string \<Rightarrow> string \<Rightarrow> server \<Rightarrow> 'w \<Rightarrow> bool" where
  "created i game name v w \<longleftrightarrow>
     v \<in> set (st_servers (rg_state (view w))) \<and> v_id v = i \<and> v_game v = game \<and> v_name v = name \<and>
     v_desired v \<noteq> ''deleted'' \<and> \<not> st_deleting (rg_state (view w))"

lemma commit_lone:
  assumes "wf w" "create_commit sc i game name res s h w = (r, w')"
  shows "wf w' \<and> (\<forall>v. r = Some (Inr v) \<longrightarrow> \<not> st_deleting s \<longrightarrow> created i game name v w')"
proof -
  obtain v w1 where v: "new_server sc i game name h res w = (v, w1)" by fastforce
  define s' where "s' = s\<lparr>st_servers := st_servers s @ [v]\<rparr>"
  obtain q w2 where q: "save t s' (st_revision s) w1 = (q, w2)" by fastforce
  have wf1: "wf w1" using new_server_lone [OF v] assms(1) by simp
  have w2: "w' = w2" and r: "\<And>u. r = Some (Inr u) \<Longrightarrow> q = Inr () \<and> u = v"
    using assms(2) v q
    by (auto simp: create_commit_def s'_def table_store_def split: sum.splits if_splits)
  have "created i game name u w'" if "r = Some (Inr u)" "\<not> st_deleting s" for u
    using save_lone [OF wf1, of s' "st_revision s" "()" w2] q r [OF that(1)] that(2) w2
      new_server_fields [OF v]
    by (simp add: created_def commit_def s'_def)
  then show ?thesis using save_lone_wf [OF wf1 q] w2 by blast
qed

lemma place_lone:
  assumes "wf w" "create_place sc i game name res s w = (r, w')"
  shows "wf w' \<and> (\<forall>v. r = Some (Inr v) \<longrightarrow> \<not> st_deleting s \<longrightarrow> created i game name v w')"
proof -
  obtain h w1 where h: "choose_host sc s res w = (h, w1)" by fastforce
  obtain g w2 where g: "new_host sc w1 = (g, w2)" by fastforce
  have wf: "wf w1" "wf w2" using choose_lone [OF h] new_host_lone [OF g] assms(1) by simp_all
  consider "w' = w1" "r = Some (Inl ErrCapacity)" | "create_commit sc i game name res s h w1 = (r, w')"
    | "create_commit sc i game name res (s\<lparr>st_hosts := st_hosts s @ [g]\<rparr>) g w2 = (r, w')"
    using assms(2) h g
    by (cases "h_id h = []"; cases "fc_max_hosts c \<le> int (length (st_hosts s))") (simp_all add: create_place_def)
  then show ?thesis
  proof cases
    case 1 then show ?thesis using wf by simp
  next
    case 2 then show ?thesis using commit_lone [OF wf(1)] by blast
  next
    case 3 then show ?thesis using commit_lone [OF wf(2) 3] by simp
  qed
qed

lemma attempt_lone:
  assumes "wf w" "create_attempt sc i game name res w = (r, w')"
  shows "wf w' \<and> (\<forall>v. r = Some (Inr v) \<longrightarrow> created i game name v w')"
proof -
  obtain l w1 where l: "load t w = (l, w1)" by fastforce
  have w1: "tbl w1 = tbl w" using load_lone [OF assms(1) l] by simp
  show ?thesis
  proof (cases l)
    case (Inl er)
    then show ?thesis using assms l w1 by (auto simp: create_attempt_def table_store_def)
  next
    case (Inr s)
    have s: "s = rg_state (view w)" using load_lone [OF assms(1) l] Inr by simp
    obtain over w2 where o: "ended sc s w1 = (over, w2)" by fastforce
    have w2: "tbl w2 = tbl w" using ended_lone [OF o] w1 by simp
    have opened: "\<not> st_deleting s" if "\<not> over" using o that by (auto simp: ended_def split: if_splits)
    obtain b w3 where b: "tombstoned t i w2 = (b, w3)" by fastforce
    have w3: "tbl w3 = tbl w" using tombstoned_lone [OF b] w2 by simp
    consider "w' = w2" "\<forall>v. r \<noteq> Some (Inr v)" | "w' = w3" "\<forall>v. r \<noteq> Some (Inr v)"
      | (found) v where "r = Some (Inr v)" "w' = w2" "\<not> over"
          "List.find (\<lambda>v. v_id v = i) (st_servers s) = Some v" "v_game v = game" "v_name v = name"
          "v_desired v \<noteq> ''deleted''"
      | (place) "create_place sc i game name res s w3 = (r, w')" "\<not> over"
      using assms(2) l Inr o b
      by (auto simp: create_attempt_def table_store_def split: if_splits option.splits sum.splits)
    then show ?thesis
    proof cases
      case found
      then show ?thesis using find_SomeD [OF found(4)] w2 assms(1) s opened by (simp add: created_def)
    next
      case place
      then show ?thesis using place_lone [of w3 i game name res s r w'] w3 assms(1) opened by simp
    qed (use w2 w3 assms(1) in simp_all)
  qed
qed

lemma loop_lone:
  assumes "wf w" "create_loop n sc i game name res w = (Inr v, w')"
  shows "wf w' \<and> created i game name v w'"
  using assms
proof (induction n arbitrary: w)
  case 0
  then show ?case by simp
next
  case (Suc n)
  obtain q w1 where q: "create_attempt sc i game name res w = (q, w1)" by fastforce
  have w1: "wf w1 \<and> (\<forall>v. q = Some (Inr v) \<longrightarrow> created i game name v w1)"
    using attempt_lone [OF Suc.prems(1) q] .
  then show ?case using Suc q by (cases q) auto
qed

lemma create_lone:
  assumes "wf w" "create sc i game name w = (Inr v, w')"
  shows "wf w' \<and> created i game name v w'"
  using assms loop_lone by (auto simp: create_def split: option.splits if_splits)

text \<open>A repeated request finds the server it made.\<close>

lemma create_again:
  assumes "wf w" "fleet_inv (view w)" "fc_deadline c = 0"
    and "create sc i game name w = (Inr v, w1)"
    and "load t w1 = (Inr s, w2)"
  shows "\<exists>w3. create sc i game name w1 = (Inr v, w3) \<and> tbl w3 = tbl w1"
proof -
  have w1: "wf w1" "created i game name v w1" using create_lone [OF assms(1,4)] by simp_all
  have s: "s = rg_state (view w1)" and w2: "tbl w2 = tbl w1" using load_lone [OF w1(1) assms(5)] by simp_all
  have "fleet_inv (view w1)"
    using sched.create_adv [OF assms(1,4)] assms(2) by (simp add: fleet_step_def)
  then have "distinct (map v_id (st_servers s))" using s by (simp add: state_ok_def)
  then have find: "List.find (\<lambda>x. v_id x = i) (st_servers s) = Some v"
    using find_distinct [of v_id "st_servers s" v] w1(2) s by (simp add: created_def)
  obtain tm w3 where tm: "rt_now rt w2 = (tm, w3)" by fastforce
  have w3: "tbl w3 = tbl w1" using clock_frame [OF tm] w2 by simp
  have ended: "ended sc s w2 = (False, w3)"
    using tm assms(3) w1(2) s by (simp add: ended_def expired_def created_def)
  have "create_attempt sc i game name res w1 = (Some (Inr v), w3)" for res
    using assms(5) ended find w1(2) by (simp add: create_attempt_def table_store_def created_def)
  then have "create_loop 8 sc i game name res w1 = (Inr v, w3)" for res
    by (simp add: numeral_eq_Suc)
  moreover obtain g where "List.find (\<lambda>g. g_id g = game) (fc_games c) = Some g" "g_id g \<noteq> []"
    using assms(4) by (auto simp: create_def split: option.splits if_splits)
  ultimately show ?thesis using w3 by (simp add: create_def)
qed

end

interpretation lone: lone_system memory_table mm_table memory_ec2 memory_runtime memory_config
  by (intro lone_system.intro alone.fleet_system_axioms)

section \<open>A creation in memory\<close>

text \<open>The memory with an empty table, whatever its clock and counters: a creation succeeds.\<close>

abbreviation ms :: "memory scheduler" where
  "ms \<equiv> fleet_scheduler memory_table memory_ec2 memory_config memory_runtime"

definition blank :: "memory \<Rightarrow> bool" where
  "blank w \<longleftrightarrow> mm_table w = (\<lambda>_. [])"


lemma blank_load:
  "blank w \<Longrightarrow> load memory_table w = (Inr zero_state, w)"
  by (simp add: load_def memory_dynamo_def blank_def decode_state_def)

lemma blank_ended:
  "\<exists>w1. ended ms zero_state w = (False, w1) \<and> mm_table w1 = mm_table w"
  by (simp add: ended_def zero_state_def expired_def memory_config_def memory_runtime_def)

lemma blank_tombstoned:
  "blank w \<Longrightarrow> tombstoned memory_table i w = (Inr False, w)"
  by (simp add: tombstoned_def memory_dynamo_def blank_def)

lemma blank_choose:
  "choose_host ms zero_state r w = (zero_host, w)"
  by (simp add: choose_host_def zero_state_def)

lemma blank_new_host:
  "\<exists>h w1. new_host ms w = (h, w1) \<and> mm_table w1 = mm_table w"
  by (simp add: new_host_def memory_runtime_def Let_def)

lemma blank_commit:
  "blank w \<Longrightarrow> \<exists>v w1. create_commit ms i game name r (zero_state\<lparr>st_hosts := [h]\<rparr>) h w = (Some (Inr v), w1)"
  by (simp add: create_commit_def new_server_def memory_runtime_def Let_def table_store_def save_def state_put_def zero_state_def
     memory_codec_def max_state_bytes_def memory_dynamo_def blank_def)

lemma blank_place:
  "\<exists>h w1. create_place ms i game name r zero_state w = create_commit ms i game name r (zero_state\<lparr>st_hosts := [h]\<rparr>) h w1 \<and> mm_table w1 = mm_table w"
proof -
  obtain h w1 where h: "new_host ms w = (h, w1)" "mm_table w1 = mm_table w" using blank_new_host by blast
  have "fc_max_hosts memory_config = 2" by (simp add: memory_config_def)
  moreover have "h_id zero_host = []" "st_hosts zero_state = []" by (simp_all add: zero_host_def zero_state_def)
  ultimately have "create_place ms i game name r zero_state w = create_commit ms i game name r (zero_state\<lparr>st_hosts := [h]\<rparr>) h w1"
    using h blank_choose [of r w] by (simp add: create_place_def)
  then show ?thesis using h(2) by blast
qed

lemma blank_attempt:
  assumes "blank w" shows "\<exists>v w1. create_attempt ms i game name r w = (Some (Inr v), w1)"
proof -
  obtain w1 where w1: "ended ms zero_state w = (False, w1)" "blank w1" using blank_ended [of w] assms by (auto simp: blank_def)
  obtain h w2 where w2: "create_place ms i game name r zero_state w1 = create_commit ms i game name r (zero_state\<lparr>st_hosts := [h]\<rparr>) h w2"
     "blank w2" using blank_place w1(2) by (metis blank_def)
  then show ?thesis using blank_load [OF assms] w1 blank_tombstoned [OF w1(2)] blank_commit [OF w2(2)]
    by (auto simp: create_attempt_def table_store_def zero_state_def memory_config_def)
qed

lemma blank_create:
  assumes "blank w"
  shows "\<exists>v w1. create ms i ''quake'' name w = (Inr v, w1)"
proof -
  obtain g where g: "List.find (\<lambda>g. g_id g = ''quake'') (fc_games memory_config) = Some g" "g_id g = ''quake''"
    by (simp add: memory_config_def)
  obtain v w1 where "create_attempt ms i ''quake'' name (g_resources g) w = (Some (Inr v), w1)"
    using blank_attempt [OF assms] by blast
  then have "create_loop (Suc n) ms i ''quake'' name (g_resources g) w = (Inr v, w1)" for n
    by (simp only: create_loop.simps option.case prod.case)
  moreover have "(8::nat) = Suc 7" by simp
  ultimately have "create_loop 8 ms i ''quake'' name (g_resources g) w = (Inr v, w1)" by metis
  then show ?thesis using g by (simp add: create_def)
qed

end
