(* ===== verification/FleetProperties.thy ===== *)
theory FleetProperties
  imports FleetAlone
begin

text \<open>
  The properties of the fleet controller (internal/fleet). A property whose hypotheses speak of
  services outside the repository names the locale that states them (\<open>fleet_system\<close>,
  \<open>table_world\<close>); its witness applies it to the memory of the theory FleetWorld.
\<close>

section \<open>The registry under any interleaving\<close>

text \<open>C1. Whatever other clients of the table do between any two calls, as long as they keep the
  promise \<open>fleet_step\<close>, \<open>Scheduler.Create\<close> keeps it too: if the registry satisfied its
  invariant (distinct host and server IDs, every server on a registered host, no host over its
  capacity, no tombstoned ID in use, retiring hosts hold no wanted server), it does afterwards, no
  server was lost, changed owner or left its removal, and versions name one state.\<close>

theorem create_keeps_registry:
  assumes "fleet_system t tbl tenv e rt c"
    and "table_wf (tb_codec t) (tbl w)"
    and "create (fleet_scheduler t e c rt) i game name w = (r, w')"
  shows "table_wf (tb_codec t) (tbl w') \<and>
    fleet_step (table_abs (tb_codec t) (tbl w)) (table_abs (tb_codec t) (tbl w'))"
  using scheduler_world.create_adv [OF fleet_system.scheduler_here [OF assms(1)] assms(2,3)] by simp

theorem create_keeps_registry_witness:
  "table_wf memory_codec (mm_table (snd (create (fleet_scheduler memory_table memory_ec2 memory_config memory_runtime)
      ''s-1'' ''quake'' ''Q'' fresh_memory)))"
  using create_keeps_registry [OF memory.fleet_system_axioms _ prod.collapse [symmetric], of fresh_memory]
    fresh_memory_wf by simp

text \<open>\<open>Scheduler.Action\<close> (start, stop, remove) keeps the registry's invariant and the
  promise to the other clients, on every path including lost races.\<close>

theorem action_keeps_registry:
  assumes "fleet_system t tbl tenv e rt c"
    and "table_wf (tb_codec t) (tbl w)"
    and "action (fleet_scheduler t e c rt) i a w = (r, w')"
  shows "table_wf (tb_codec t) (tbl w') \<and>
    fleet_step (table_abs (tb_codec t) (tbl w)) (table_abs (tb_codec t) (tbl w'))"
  using scheduler_world.action_adv [OF fleet_system.scheduler_here [OF assms(1)] assms(2,3)] by simp

theorem action_keeps_registry_witness:
  "table_wf memory_codec (mm_table (snd (action (fleet_scheduler memory_table memory_ec2 memory_config memory_runtime)
      ''s-1'' ''stop'' fresh_memory)))"
  using action_keeps_registry [OF memory.fleet_system_axioms _ prod.collapse [symmetric], of fresh_memory]
    fresh_memory_wf by simp

text \<open>C2. A pass of \<open>Scheduler.Reconcile\<close> that returns keeps the registry's invariant and the
  promise: servers are forgotten only into tombstones, hosts are retired only when nothing is
  retained on them (or the deployment is closing), a host record is dropped only when empty, and no host
  is added to a fleet that is being deleted.\<close>

theorem reconcile_keeps_registry:
  assumes "fleet_system t tbl tenv e rt c"
    and "table_wf (tb_codec t) (tbl w)"
    and "reconcile (fleet_scheduler t e c rt) w = Some (r, w')"
  shows "table_wf (tb_codec t) (tbl w') \<and>
    fleet_step (table_abs (tb_codec t) (tbl w)) (table_abs (tb_codec t) (tbl w'))"
  using scheduler_world.reconcile_adv [OF fleet_system.scheduler_here [OF assms(1)] assms(2,3)] by simp

text \<open>C6. \<open>Scheduler.Reconcile\<close> returns, \<open>forgetHost\<close>'s unbounded loop included, as long
  as no other client places servers on a retiring host.\<close>

theorem reconcile_terminates:
  assumes "fleet_system t tbl tenv e rt c" and "table_world t tbl tenv env"
    and "\<And>a b. env a b \<Longrightarrow> retiring_quiet a b"
    and "table_wf (tb_codec t) (tbl w)"
  shows "\<exists>r w'. reconcile (fleet_scheduler t e c rt) w = Some (r, w')"
  using quiet_world.reconcile_returns [OF quiet_worldI [OF assms(1-3)] assms(4)] by auto

theorem reconcile_terminates_witness:
  "\<exists>r w'. reconcile (fleet_scheduler memory_table memory_ec2 memory_config memory_runtime) fresh_memory = Some (r, w')"
  by (rule reconcile_terminates [OF alone.fleet_system_axioms alone_table])
    (simp_all add: quiet_refl fresh_memory_wf)

theorem reconcile_keeps_registry_witness:
  "\<exists>r w'. reconcile (fleet_scheduler memory_table memory_ec2 memory_config memory_runtime) fresh_memory = Some (r, w') \<and>
     table_wf memory_codec (mm_table w')"
proof -
  obtain r w' where r: "reconcile (fleet_scheduler memory_table memory_ec2 memory_config memory_runtime) fresh_memory
      = Some (r, w')"
    using alone.reconcile_returns [of fresh_memory] fresh_memory_wf by auto
  then show ?thesis
    using reconcile_keeps_registry [OF memory.fleet_system_axioms _ r] fresh_memory_wf by simp
qed

section \<open>The table\<close>

text \<open>C3. \<open>Table.Save\<close> is a compare-and-swap on the whole registry: a call that reports success
  took effect at one instant, against exactly the version the caller names; a call that reports an
  error either changed nothing or took effect the same way (an answer lost on the way).\<close>

theorem save_is_compare_and_swap:
  assumes "table_world t tbl tenv env"
    and "table_wf (tb_codec t) (tbl w)" and "save t s p w = (r, w')"
  shows "table_wf (tb_codec t) (tbl w') \<and>
    (takes_effect env (\<lambda>m. rg_revision m = p \<and> within_limits s) (commit s p)
       (table_abs (tb_codec t) (tbl w)) (table_abs (tb_codec t) (tbl w')) \<or>
     env (table_abs (tb_codec t) (tbl w)) (table_abs (tb_codec t) (tbl w')) \<and> r \<noteq> Inr ())"
  by (rule table_world.save_laws [OF assms])

theorem save_is_compare_and_swap_witness:
  "table_wf memory_codec (mm_table (snd (save memory_table zero_state 0 fresh_memory)))"
  using save_is_compare_and_swap [OF alone_table _ prod.collapse [symmetric], of fresh_memory] fresh_memory_wf
  by simp

text \<open>C4. \<open>Table.Publish\<close> never resurrects the report of a removed server and never overwrites
  another host's report: when it changes the table at all, the ID had no tombstone at that instant
  and any earlier report was of the same host.\<close>

theorem publish_never_resurrects:
  assumes "table_world t tbl tenv env"
    and "table_wf (tb_codec t) (tbl w)" and "publish t x w = (r, w')"
  shows "table_wf (tb_codec t) (tbl w') \<and>
    (env (table_abs (tb_codec t) (tbl w)) (table_abs (tb_codec t) (tbl w')) \<or>
     takes_effect env
       (\<lambda>m. rp_id x \<notin> rg_tombs m \<and> (\<forall>y. rg_reports m (rp_id x) = Some y \<longrightarrow> rp_host y = rp_host x))
       (commit_report x) (table_abs (tb_codec t) (tbl w)) (table_abs (tb_codec t) (tbl w')))"
  by (rule table_world.publish_laws [OF assms])

theorem publish_never_resurrects_witness:
  "table_wf memory_codec (mm_table (snd (publish memory_table zero_report fresh_memory)))"
  using publish_never_resurrects [OF alone_table _ prod.collapse [symmetric], of fresh_memory] fresh_memory_wf
  by simp

section \<open>Machines\<close>

text \<open>C5. Whatever EC2 answers, \<open>EC2.Wake\<close>, \<open>EC2.Stop\<close> and \<open>EC2.Delete\<close> start, stop
  or terminate only a machine that the description just before it showed alone, tagged with this
  stack and this host and launched with this host's token; a launch follows a description that
  showed no machine and carries the host's own token, template and version.\<close>

theorem machine_calls_justified:
  fixes e :: "'w ec2" and h :: host and w w' :: 'w
  assumes "wake_machine (observed_ec2 e) h (w, cs) = (r, (w', cs')) \<or>
    stop_machine (observed_ec2 e) h (w, cs) = (u, (w', cs')) \<or>
    delete_machine (observed_ec2 e) h (w, cs) = (u, (w', cs'))"
  shows "\<exists>added. cs' = cs @ added \<and> (\<forall>seen. justified (e_stack e) h seen added)"
  using assms observed_wake observed_stop observed_delete by (metis sound_calls_def)

theorem machine_calls_justified_witness:
  "\<exists>added. snd (snd (stop_machine (observed_ec2 memory_ec2) zero_host (fresh_memory, []))) = [] @ added \<and>
     (\<forall>seen. justified (e_stack memory_ec2) zero_host seen added)"
  by (rule machine_calls_justified
      [where w = fresh_memory and w' = "fst (snd (stop_machine (observed_ec2 memory_ec2) zero_host (fresh_memory, [])))"
         and u = "fst (stop_machine (observed_ec2 memory_ec2) zero_host (fresh_memory, []))" and r = "Inr []"])
    (simp add: surjective_pairing)

text \<open>C7. \<open>EC2.Delete\<close> reports success, after which the host's record and its servers are
  forgotten, only if its last call found no volume of the host left.\<close>

theorem delete_leaves_no_disk:
  assumes "delete_machine e h w = (Inr (), w')"
  shows "\<exists>w1. ec_volumes (e_client e) (e_stack e) (h_id h) w1 = (Inr 0, w')"
  by (rule delete_done [OF assms])

theorem delete_leaves_no_disk_witness:
  "\<exists>w1. ec_volumes (e_client memory_ec2) (e_stack memory_ec2) (h_id (zero_host\<lparr>h_instance_id := ''i-9''\<rparr>)) w1 =
     (Inr 0, fresh_memory)"
proof (rule delete_leaves_no_disk)
  have "find_machine memory_ec2 h fresh_memory = (Inr None, fresh_memory)" if "h_instance_id h \<noteq> []" for h
    using that by (simp add: find_machine_def find_query_def memory_ec2_def fresh_memory_def Let_def)
  moreover have "disks_deleted memory_ec2 h fresh_memory = (Inr (), fresh_memory)" for h
    by (simp add: disks_deleted_def memory_ec2_def fresh_memory_def)
  ultimately show "delete_machine memory_ec2 (zero_host\<lparr>h_instance_id := ''i-9''\<rparr>) fresh_memory = (Inr (), fresh_memory)"
    by (simp add: delete_machine_def)
qed

section \<open>Decisions\<close>

text \<open>\<open>choose\<close> returns an eligible host whose (machine state, memory left, ID) is least
  among all candidates it saw: running machines first, then the tightest fit, ties by ID; and the
  zero host only when there is no candidate.\<close>

theorem choose_host_least:
  assumes "choose_host sc s required w = (h, w')"
    and "candidates sc s required (st_hosts s) w = (cs, w1)"
  shows "w' = w1 \<and> (if cs = [] then h = zero_host
    else \<exists>q. (h, q) \<in> set cs \<and> h \<in> set (st_hosts s) \<and> eligible (sc_config sc) s required h \<and>
      (\<forall>c\<in>set cs. candidate_order (h, q) \<le> candidate_order c))"
proof (cases "sort_key candidate_order cs")
  case Nil
  then have "cs = []" by (metis length_0_conv length_sort)
  then show ?thesis using assms by (simp add: choose_host_def)
next
  case (Cons x xs)
  then have "cs \<noteq> []" by auto
  moreover have x: "x \<in> set cs" using Cons by (metis list.set_intros(1) set_sort)
  moreover have "candidate_order x \<le> candidate_order c" if "c \<in> set cs" for c
  proof -
    have "sorted (map candidate_order (x # xs))" using Cons sorted_sort_key by metis
    moreover have "c \<in> set (x # xs)" using Cons that by (metis set_sort)
    ultimately show ?thesis by auto
  qed
  moreover have "h = fst x" "w' = w1" using assms Cons by (simp_all add: choose_host_def)
  ultimately show ?thesis
    using candidates_sound [OF assms(2), of "fst x" "snd x"] by (cases x) fastforce
qed

theorem choose_host_least_witness:
  "snd (choose_host memory_scheduler zero_state zero_resources fresh_memory) = fresh_memory"
  using choose_host_least [of memory_scheduler zero_state zero_resources fresh_memory zero_host fresh_memory "[]" fresh_memory]
  by (simp add: choose_host_def zero_state_def)

text \<open>A configuration that \<open>Validate\<close> accepts has between 1 and 16 hosts and 1 and 128
  servers, distinct valid game IDs, and every game fits an empty host.\<close>

theorem validate_sound:
  assumes "validate c = Inr ()"
  shows "1 \<le> fc_max_hosts c \<and> fc_max_hosts c \<le> 16 \<and> 1 \<le> fc_max_servers c \<and> fc_max_servers c \<le> 128 \<and>
    launch_version (fc_launch_version c) \<and> distinct (map g_id (fc_games c)) \<and>
    (\<forall>g\<in>set (fc_games c). valid_id (g_id g) \<and> fits (fc_capacity c) zero_resources (g_resources g))"
  using assms validate_games_sound [OF validate_games_part [OF assms]]
  by (auto simp: validate_def fits_def split: if_splits)

theorem validate_sound_witness: "1 \<le> fc_max_hosts memory_config"
  using validate_sound [OF memory_config_valid] by blast

text \<open>Creating is idempotent: with nobody else writing the table, a client that repeats a
  successful \<open>Create\<close> (its answer may have been lost) gets the same server again and the table
  does not change.\<close>

theorem create_idempotent:
  assumes "fleet_system t tbl (=) e rt c" and "fc_deadline c = 0"
    and "table_wf (tb_codec t) (tbl w)"
    and "state_ok (rg_tombs (table_abs (tb_codec t) (tbl w))) (rg_state (table_abs (tb_codec t) (tbl w)))"
    and "create (fleet_scheduler t e c rt) i game name w = (Inr v, w1)"
    and "load t w1 = (Inr s, w2)"
  shows "\<exists>w3. create (fleet_scheduler t e c rt) i game name w1 = (Inr v, w3) \<and> tbl w3 = tbl w1"
  using lone_system.create_again [OF lone_system.intro [OF assms(1)] assms(3,4,2,5,6)] .

theorem create_idempotent_witness:
  "\<exists>v w1 w3. create ms ''s-1'' ''quake'' ''Q'' fresh_memory = (Inr v, w1) \<and>
     create ms ''s-1'' ''quake'' ''Q'' w1 = (Inr v, w3)"
proof -
  have "blank fresh_memory" by (simp add: blank_def fresh_memory_def)
  then obtain v w1 where c: "create ms ''s-1'' ''quake'' ''Q'' fresh_memory = (Inr v, w1)"
    using blank_create by blast
  have wf1: "table_wf memory_codec (mm_table w1)"
    using lone.create_lone [of fresh_memory, OF _ c] fresh_memory_wf by simp
  then obtain s where "decode_state memory_codec (mm_table w1 registry_key) = Inr s"
    by (auto simp: table_wf_def)
  then have l: "load memory_table w1 = (Inr s, w1)"
    by (simp add: load_def memory_dynamo_def)
  have "rg_state (table_abs memory_codec (mm_table fresh_memory)) = zero_state"
    by (simp add: table_abs_def fresh_memory_def decode_state_def)
  then have "state_ok (rg_tombs (table_abs memory_codec (mm_table fresh_memory)))
      (rg_state (table_abs memory_codec (mm_table fresh_memory)))"
    by (simp add: state_ok_def zero_state_def within_capacity_def retirement_closed_def)
  moreover have "fc_deadline memory_config = 0" by (simp add: memory_config_def)
  ultimately have "\<exists>w3. create ms ''s-1'' ''quake'' ''Q'' w1 = (Inr v, w3) \<and> mm_table w3 = mm_table w1"
    using fresh_memory_wf by (intro create_idempotent [OF alone.fleet_system_axioms _ _ _ c l]) simp_all
  then show ?thesis using c by blast
qed

end
