(* ===== verification/ControlStore.thy ===== *)
theory ControlStore
  imports FleetState "HOL-Library.Char_ord" "HOL-Library.List_Lexorder"
begin

text \<open>
  The game host's controller, its data and its database (internal/control/model.go and store.go).
  The database is a bbolt file: one bucket, a sorted list of keys and encoded records, read and
  changed in serializable transactions. The bbolt library and the JSON encoding are parameters.
  Ports are kept as the keys of their JSON object, which is all the code reads of them.
\<close>

section \<open>Data\<close>

record game =
  gm_id :: string
  gm_display_name :: string
  gm_protocol :: string
  gm_image :: string
  gm_agent_port :: int
  gm_game_port :: int
  gm_ports :: "string list"
  gm_cmd :: string
  gm_args :: string
  gm_quit_cmd :: string
  gm_quit_timeout :: int
  gm_data_root :: string
  gm_config_path :: string
  gm_data_url_env :: string
  gm_default_config :: string
  gm_config_editor :: string

record create_request =
  cq_provider :: string
  cq_id :: string
  cq_game :: string
  cq_name :: string
  cq_config :: "string option"
  cq_idle_minutes :: int
  cq_max_minutes :: int

record endpoint =
  ep_port :: int
  ep_protocol :: string
  ep_address :: string

record inst =
  in_generation :: int
  in_id :: string
  in_name :: string
  in_game :: game
  in_provider :: string
  in_desired :: string
  in_phase :: string
  in_config :: string
  in_idle_minutes :: int
  in_max_minutes :: int
  in_created_at :: time
  in_started_at :: time
  in_empty_since :: time
  in_endpoints :: "endpoint list"
  in_players :: "int option"
  in_map :: string
  in_error :: string
  in_stop_reason :: string
  in_updated_at :: time
  in_request_id :: string
  in_agent_token :: string
  in_rcon_password :: string

record observation =
  ob_started :: bool
  ob_exists :: bool
  ob_running :: bool
  ob_endpoints :: "endpoint list"
  ob_agent_url :: string
  ob_failure :: string

definition zero_observation :: observation where
  "zero_observation = \<lparr>ob_started = False, ob_exists = False, ob_running = False, ob_endpoints = [],
     ob_agent_url = [], ob_failure = []\<rparr>"

definition connect :: "inst \<Rightarrow> string" where
  "connect i =
     (case List.find (\<lambda>e. ep_port e = gm_game_port (in_game i)) (in_endpoints i) of
        None \<Rightarrow> [] | Some e \<Rightarrow> ep_address e)"

text \<open>
  Go's interface \<open>Provider\<close>; a provider that also has a method \<open>Prepare\<close> (found by a
  type assertion in the source) carries it in the last field.
\<close>

record 'w provider =
  pv_ensure :: "inst \<Rightarrow> ('w, observation) io"
  pv_inspect :: "inst \<Rightarrow> ('w, observation) io"
  pv_start :: "inst \<Rightarrow> ('w, unit) io"
  pv_stop :: "inst \<Rightarrow> ('w, unit) io"
  pv_delete :: "inst \<Rightarrow> ('w, unit) io"
  pv_prepare :: "(inst \<Rightarrow> ('w, bool) io) option"

section \<open>The stored record\<close>

text \<open>
  The three private fields of an instance carry the tag \<open>json:"-"\<close>, so the encoding of an
  instance drops them; the stored record repeats them beside it.
\<close>

record stored =
  sd_instance :: inst
  sd_agent_token :: string
  sd_request_id :: string
  sd_rcon_password :: string

record 't json =
  js_record :: "stored \<Rightarrow> err + 't"
  js_parse :: "'t \<Rightarrow> err + stored"

definition public :: "inst \<Rightarrow> inst" where
  "public i = i\<lparr>in_request_id := [], in_agent_token := [], in_rcon_password := []\<rparr>"

text \<open>What the encoding promises: a record comes back, its instance without the private fields.\<close>

definition json_ok :: "'t json \<Rightarrow> bool" where
  "json_ok js \<longleftrightarrow>
     (\<forall>r d. js_record js r = Inr d \<longrightarrow> js_parse js d = Inr (r\<lparr>sd_instance := public (sd_instance r)\<rparr>))"

definition encode :: "'t json \<Rightarrow> inst \<Rightarrow> err + 't" where
  "encode js i =
     js_record js \<lparr>sd_instance = i, sd_agent_token = in_agent_token i, sd_request_id = in_request_id i,
       sd_rcon_password = in_rcon_password i\<rparr>"

definition decode :: "'t json \<Rightarrow> 't option \<Rightarrow> err + inst" where
  "decode js data =
     (case data of
        None \<Rightarrow> Inl ErrNotFound
      | Some d \<Rightarrow>
          (case js_parse js d of
             Inl e \<Rightarrow> Inl e
           | Inr r \<Rightarrow> Inr ((sd_instance r)\<lparr>in_request_id := sd_request_id r,
                        in_agent_token := sd_agent_token r, in_rcon_password := sd_rcon_password r\<rparr>)))"

lemma decode_encode:
  assumes "json_ok js" "encode js i = Inr d"
  shows "decode js (Some d) = Inr i"
  using assms by (auto simp: json_ok_def encode_def decode_def public_def)

section \<open>The bucket and its transactions\<close>

type_synonym 't bucket = "(string \<times> 't) list"

fun bucket_put :: "string \<Rightarrow> 't \<Rightarrow> 't bucket \<Rightarrow> 't bucket" where
  "bucket_put k d [] = [(k, d)]"
| "bucket_put k d ((k', d') # b) =
     (if k = k' then (k, d) # b else if k < k' then (k, d) # (k', d') # b else (k', d') # bucket_put k d b)"

lemma map_of_bucket_put: "map_of (bucket_put k d b) = (map_of b)(k \<mapsto> d)"
  by (induction b) (auto simp: fun_eq_iff)

lemma bucket_put_keys: "set (map fst (bucket_put k d b)) = insert k (set (map fst b))"
  by (simp flip: dom_map_of_conv_image_fst add: map_of_bucket_put)

definition bucket_ok :: "'t bucket \<Rightarrow> bool" where
  "bucket_ok b \<longleftrightarrow> sorted_wrt (<) (map fst b)"

lemma bucket_put_ok: "bucket_ok b \<Longrightarrow> bucket_ok (bucket_put k d b)"
  unfolding bucket_ok_def
proof (induction b)
  case (Cons x b)
  have "k < a" if "k < fst x" "a \<in> fst ` set b" for a
    using that Cons.prems by force
  then show ?case using Cons bucket_put_keys [of k d b] by (cases x) auto
qed simp

text \<open>
  A transaction's function gets the clock it ran at and the bucket, and fails (the transaction is
  rolled back) or returns the new bucket and a result.
\<close>

record ('w, 't) bolt =
  bo_view :: "('w, 't bucket) io"
  bo_update :: "(time \<Rightarrow> 't bucket \<Rightarrow> err + ('t bucket \<times> inst)) \<Rightarrow> ('w, inst) io"

record ('w, 't) db =
  db_bolt :: "('w, 't) bolt"
  db_json :: "'t json"

definition db_get :: "('w, 't) db \<Rightarrow> string \<Rightarrow> ('w, inst) io" where
  "db_get d k w =
     (case bo_view (db_bolt d) w of
        (Inl e, w) \<Rightarrow> (Inl e, w)
      | (Inr b, w) \<Rightarrow> (decode (db_json d) (map_of b k), w))"

fun decode_all :: "'t json \<Rightarrow> 't bucket \<Rightarrow> err + inst list" where
  "decode_all js [] = Inr []"
| "decode_all js ((k, d) # b) =
     (case decode js (Some d) of
        Inl e \<Rightarrow> Inl e
      | Inr i \<Rightarrow> (case decode_all js b of Inl e \<Rightarrow> Inl e | Inr is \<Rightarrow> Inr (i # is)))"

definition db_list :: "('w, 't) db \<Rightarrow> ('w, inst list) io" where
  "db_list d w =
     (case bo_view (db_bolt d) w of
        (Inl e, w) \<Rightarrow> (Inl e, w)
      | (Inr b, w) \<Rightarrow> (decode_all (db_json d) b, w))"

definition same_request :: "inst \<Rightarrow> inst \<Rightarrow> bool" where
  "same_request a b \<longleftrightarrow>
     in_provider a = in_provider b \<and> gm_id (in_game a) = gm_id (in_game b) \<and> in_name a = in_name b \<and>
     in_config a = in_config b \<and> in_idle_minutes a = in_idle_minutes b \<and>
     in_max_minutes a = in_max_minutes b"

definition create_txn :: "'t json \<Rightarrow> inst \<Rightarrow> time \<Rightarrow> 't bucket \<Rightarrow> err + ('t bucket \<times> inst)" where
  "create_txn js candidate t b =
     (case map_of b (in_id candidate) of
        Some data \<Rightarrow>
          (case decode js (Some data) of
             Inl e \<Rightarrow> Inl e
           | Inr existing \<Rightarrow>
               if \<not> same_request existing candidate then Inl ErrInstanceConflict else Inr (b, existing))
      | None \<Rightarrow>
          (case encode js candidate of
             Inl e \<Rightarrow> Inl e
           | Inr data \<Rightarrow> Inr (bucket_put (in_id candidate) data b, candidate)))"

definition db_create :: "('w, 't) db \<Rightarrow> inst \<Rightarrow> ('w, inst) io" where
  "db_create d candidate w = bo_update (db_bolt d) (create_txn (db_json d) candidate) w"

definition update_txn ::
  "'t json \<Rightarrow> string \<Rightarrow> (time \<Rightarrow> inst \<Rightarrow> err + inst) \<Rightarrow> time \<Rightarrow> 't bucket \<Rightarrow> err + ('t bucket \<times> inst)" where
  "update_txn js k f t b =
     (case decode js (map_of b k) of
        Inl e \<Rightarrow> Inl e
      | Inr i \<Rightarrow>
          (case f t i of
             Inl e \<Rightarrow> Inl e
           | Inr i' \<Rightarrow>
               (case encode js i' of
                  Inl e \<Rightarrow> Inl (ErrWrap ''encode instance: '' e)
                | Inr data \<Rightarrow> Inr (bucket_put k data b, i'))))"

definition db_update :: "('w, 't) db \<Rightarrow> string \<Rightarrow> (time \<Rightarrow> inst \<Rightarrow> err + inst) \<Rightarrow> ('w, unit) io" where
  "db_update d k f w =
     (case bo_update (db_bolt d) (update_txn (db_json d) k f) w of
        (Inl e, w) \<Rightarrow> (Inl e, w)
      | (Inr i, w) \<Rightarrow> (Inr (), w))"

section \<open>The bucket as a map of instances\<close>

definition instances :: "'t json \<Rightarrow> 't bucket \<Rightarrow> string \<Rightarrow> inst option" where
  "instances js b k =
     (case map_of b k of None \<Rightarrow> None
      | Some d \<Rightarrow> (case decode js (Some d) of Inl e \<Rightarrow> None | Inr i \<Rightarrow> Some i))"

lemma instances_put:
  assumes "json_ok js" "encode js i = Inr d"
  shows "instances js (bucket_put k d b) = (instances js b)(k \<mapsto> i)"
  using decode_encode [OF assms] by (auto simp: instances_def map_of_bucket_put fun_eq_iff)

lemma create_txn_cases:
  assumes "create_txn js c t b = Inr (b', i)" "json_ok js"
  shows "(instances js b (in_id c) = Some i \<and> same_request i c \<and> b' = b) \<or>
    (map_of b (in_id c) = None \<and> i = c \<and> instances js b' = (instances js b)(in_id c \<mapsto> c))"
proof (cases "map_of b (in_id c)")
  case None
  obtain d where d: "encode js c = Inr d" "b' = bucket_put (in_id c) d b" "i = c"
  proof (cases "encode js c")
    case (Inr d)
    then show thesis using assms(1) None by (intro that [of d]) (auto simp: create_txn_def)
  qed (use assms(1) None in \<open>simp add: create_txn_def\<close>)
  then show ?thesis using None instances_put [OF assms(2) d(1)] by simp
next
  case (Some x)
  then show ?thesis using assms(1)
    by (auto simp: create_txn_def instances_def split: sum.splits if_splits)
qed

lemma update_txn_cases:
  assumes "update_txn js k f t b = Inr (b', i')" "json_ok js"
  shows "\<exists>i. instances js b k = Some i \<and> f t i = Inr i' \<and> instances js b' = (instances js b)(k \<mapsto> i')"
proof -
  obtain i d where i: "decode js (map_of b k) = Inr i" "f t i = Inr i'" "encode js i' = Inr d"
    "b' = bucket_put k d b"
    using assms(1) by (auto simp: update_txn_def split: sum.splits)
  have "instances js b k = Some i"
    using i(1) by (cases "map_of b k") (simp_all add: decode_def instances_def)
  then show ?thesis using i instances_put [OF assms(2) i(3)] by blast
qed

end
