(* ===== verification/Controller.thy ===== *)
theory Controller
  imports ControlStore
begin

text \<open>
  The controller of a game host (internal/control/controller.go): user intents (create, start,
  stop, delete) under one mutex, the idle shutdown that closes admission under the same mutex, and
  the reconciler that drives a provider and the agent of every instance towards its intent.
  \<open>down\<close> is the field \<open>shuttingDown\<close>. Providers, the HTTP client, the clock and the
  random tokens are parameters of the record \<open>controller\<close>. The text of \<open>%q\<close> is kept
  between quotes without escapes; no code reads it back.
\<close>

section \<open>The controller's parts\<close>

record http_request =
  rq_method :: string
  rq_url :: string
  rq_bearer :: string
  rq_pinned :: bool
  rq_body :: string

record http_response =
  rs_status :: int
  rs_body :: string

record agent_status =
  as_running :: bool
  as_ready :: bool
  as_players :: int
  as_map :: string
  as_error :: string

record ('w, 't) controller =
  ct_db :: "('w, 't) db"
  ct_games :: "game list"
  ct_providers :: "string \<Rightarrow> 'w provider option"
  ct_default :: string
  ct_clock :: "'w \<Rightarrow> time \<times> 'w"
  ct_token :: "'w \<Rightarrow> string \<times> 'w"
  ct_http :: "http_request \<Rightarrow> ('w, http_response) io"
  ct_status :: "string \<Rightarrow> err + agent_status"

definition zero_agent_status :: agent_status where
  "zero_agent_status = \<lparr>as_running = False, as_ready = False, as_players = 0, as_map = [], as_error = []\<rparr>"

section \<open>Intents\<close>

definition quoted :: "string \<Rightarrow> string" where
  "quoted s = CHR 0x22 # s @ [CHR 0x22]"

definition intent_ok :: "string \<Rightarrow> bool" where
  "intent_ok d \<longleftrightarrow> d = ''running'' \<or> d = ''stopped'' \<or> d = ''deleted''"

definition invalid_desired :: err where
  "invalid_desired = ErrMsg ''invalid desired state''"

definition set_desired :: "string \<Rightarrow> time \<Rightarrow> inst \<Rightarrow> err + inst" where
  "set_desired d now i =
     (if in_desired i = ''deleted''
      then (if d \<noteq> ''deleted'' then Inl (ErrMsg ''instance has been deleted'')
            else if in_phase i \<noteq> ''deleted'' \<and> in_error i \<noteq> []
            then Inr (i\<lparr>in_generation := in_generation i + 1, in_error := []\<rparr>)
            else Inr i)
      else if in_desired i = d
      then (if d = ''running'' \<and> in_phase i = ''failed''
            then Inr (i\<lparr>in_generation := in_generation i + 1, in_error := [], in_phase := ''queued'',
                       in_started_at := now\<rparr>)
            else Inr i)
      else (let i = i\<lparr>in_generation := in_generation i + 1, in_desired := d, in_error := [],
                     in_stop_reason := [], in_empty_since := zero_time\<rparr>
            in Inr (if d = ''running'' then i\<lparr>in_started_at := now, in_phase := ''queued''\<rparr> else i)))"

definition request_desired_fn :: "string \<Rightarrow> string \<Rightarrow> time \<Rightarrow> inst \<Rightarrow> err + inst" where
  "request_desired_fn rid d now i =
     (if in_request_id i = rid then Inr i
      else (case set_desired d now i of
              Inl e \<Rightarrow> Inl e
            | Inr i \<Rightarrow> Inr (i\<lparr>in_request_id := rid\<rparr>)))"

definition set_desired_op :: "('w, 't) controller \<Rightarrow> bool \<Rightarrow> string \<Rightarrow> string \<Rightarrow> ('w, unit) io" where
  "set_desired_op ct down k d w =
     (if down then (Inl ErrShuttingDown, w)
      else if \<not> intent_ok d then (Inl invalid_desired, w)
      else db_update (ct_db ct) k (set_desired d) w)"

definition request_desired ::
  "('w, 't) controller \<Rightarrow> bool \<Rightarrow> string \<Rightarrow> string \<Rightarrow> string \<Rightarrow> ('w, unit) io" where
  "request_desired ct down k rid d w =
     (if \<not> intent_ok d then (Inl invalid_desired, w)
      else if down then (Inl ErrShuttingDown, w)
      else if rid = [] then (Inl (ErrMsg ''start request ID is required''), w)
      else db_update (ct_db ct) k (request_desired_fn rid d) w)"

definition request_start :: "('w, 't) controller \<Rightarrow> bool \<Rightarrow> string \<Rightarrow> string \<Rightarrow> ('w, unit) io" where
  "request_start ct down k rid w = request_desired ct down k rid ''running'' w"

text \<open>The checks of \<open>CreateRequested\<close>, up to the configuration text.\<close>

definition create_checks ::
  "('w, 't) controller \<Rightarrow> create_request \<Rightarrow> err + (game \<times> string \<times> string \<times> string)" where
  "create_checks ct q =
     (if \<not> valid_id (cq_id q)
      then Inl (ErrMsg (''id must contain 1'' @ en_dash @ ''64 lowercase letters, numbers or hyphens''))
      else (let name = trim_space (cq_name q) in
        if name = [] \<or> 80 < length name
        then Inl (ErrMsg (''name must contain 1'' @ en_dash @ ''80 characters''))
        else if cq_idle_minutes q < 0 \<or> 10080 < cq_idle_minutes q \<or>
                cq_max_minutes q < 0 \<or> 10080 < cq_max_minutes q
        then Inl (ErrMsg ''timeouts must be between 0 and 10080 minutes'')
        else (case List.find (\<lambda>g. gm_id g = cq_game q) (ct_games ct) of
                None \<Rightarrow> Inl (ErrMsg (''unknown game '' @ quoted (cq_game q)))
              | Some g \<Rightarrow>
                  if gm_id g = [] then Inl (ErrMsg (''unknown game '' @ quoted (cq_game q)))
                  else (let p = (if cq_provider q = [] then ct_default ct else cq_provider q);
                            config = (case cq_config q of None \<Rightarrow> gm_default_config g | Some c \<Rightarrow> c)
                        in if ct_providers ct p = None
                           then Inl (ErrMsg (''provider '' @ quoted p @ '' is not configured''))
                           else if 60000 < length config \<or> CHR 0x00 \<in> set config
                           then Inl (ErrMsg ''config must be at most 60000 bytes without NUL characters'')
                           else Inr (g, name, p, config)))))"

definition create_requested ::
  "('w, 't) controller \<Rightarrow> bool \<Rightarrow> create_request \<Rightarrow> string \<Rightarrow> ('w, inst) io" where
  "create_requested ct down q rid w =
     (if down then (Inl ErrShuttingDown, w)
      else (let (fresh, w) = (if cq_id q = [] then ct_token ct w else ([], w));
                q = (if cq_id q = [] then q\<lparr>cq_id := take 20 fresh\<rparr> else q)
        in case create_checks ct q of
             Inl e \<Rightarrow> (Inl e, w)
           | Inr (g, name, p, config) \<Rightarrow>
               (let (t, w) = ct_clock ct w; (agent, w) = ct_token ct w; (rcon, w) = ct_token ct w in
                db_create (ct_db ct)
                  \<lparr>in_generation = 1, in_id = cq_id q, in_name = name, in_game = g, in_provider = p,
                   in_desired = ''running'', in_phase = ''queued'', in_config = config,
                   in_idle_minutes = cq_idle_minutes q, in_max_minutes = cq_max_minutes q,
                   in_created_at = t, in_started_at = t, in_empty_since = zero_time, in_endpoints = [],
                   in_players = None, in_map = [], in_error = [], in_stop_reason = [], in_updated_at = t,
                   in_request_id = rid, in_agent_token = agent, in_rcon_password = rcon\<rparr> w)))"

definition create_instance :: "('w, 't) controller \<Rightarrow> bool \<Rightarrow> create_request \<Rightarrow> ('w, inst) io" where
  "create_instance ct down q w = create_requested ct down q [] w"

section \<open>Idle shutdown\<close>

definition instances_idle :: "inst list \<Rightarrow> bool" where
  "instances_idle is \<longleftrightarrow>
     (\<forall>i\<in>set is.
        (in_desired i = ''stopped'' \<and> in_phase i = ''stopped'' \<or>
         in_desired i = ''deleted'' \<and> in_phase i = ''deleted'') \<and> in_error i = [])"

text \<open>The result, and the new value of \<open>shuttingDown\<close>.\<close>

definition begin_idle_shutdown ::
  "('w, 't) controller \<Rightarrow> bool \<Rightarrow> 'w \<Rightarrow> ((err + bool) \<times> bool) \<times> 'w" where
  "begin_idle_shutdown ct down w =
     (case db_list (ct_db ct) w of
        (Inl e, w) \<Rightarrow> ((Inl e, down), w)
      | (Inr is, w) \<Rightarrow> if \<not> instances_idle is then ((Inr False, down), w) else ((Inr True, True), w))"

section \<open>Talking to the agent\<close>

definition agent_request ::
  "('w, 't) controller \<Rightarrow> inst \<Rightarrow> string \<Rightarrow> string \<Rightarrow> string \<Rightarrow> string \<Rightarrow> ('w, string) io" where
  "agent_request ct i base meth path body w =
     (if base = [] then (Inl (ErrMsg ''agent address is unavailable''), w)
      else (case ct_http ct \<lparr>rq_method = meth, rq_url = base @ path, rq_bearer = in_agent_token i,
                    rq_pinned = has_prefix base ''https://'', rq_body = body\<rparr> w of
              (Inl e, w) \<Rightarrow> (Inl e, w)
            | (Inr r, w) \<Rightarrow>
                if 300 \<le> rs_status r
                then (Inl (ErrMsg (''agent HTTP '' @ show_int (rs_status r) @ '': '' @ take 4096 (rs_body r))), w)
                else (Inr (rs_body r), w)))"

definition agent_status_of :: "('w, 't) controller \<Rightarrow> inst \<Rightarrow> string \<Rightarrow> ('w, agent_status) io" where
  "agent_status_of ct i base w =
     (case agent_request ct i base ''GET'' ''/status'' [] w of
        (Inl e, w) \<Rightarrow> (Inl e, w)
      | (Inr body, w) \<Rightarrow> (ct_status ct body, w))"

section \<open>Reconcile\<close>

fun err_text :: "err \<Rightarrow> string" where
  "err_text ErrConflict = ''fleet state changed; retry with current state''"
| "err_text ErrCapacity =
     ''Host limit reached. Remove a saved server to free space, or ask the administrator to raise the limit.''"
| "err_text ErrUnavailable = ''This host is unavailable. Its saved servers have not been moved.''"
| "err_text ErrReportOwner = ''report belongs to another host''"
| "err_text ErrNotFound = ''instance not found''"
| "err_text ErrInstanceConflict = ''instance already exists with different settings''"
| "err_text ErrShuttingDown = ''host is shutting down; retry shortly''"
| "err_text ErrBusy = ''busy''"
| "err_text ErrCanceled = ''context canceled''"
| "err_text (ErrOutside n) = ''error '' @ show_nat n"
| "err_text (ErrMsg s) = s"
| "err_text (ErrWrap s e) = s @ err_text e"
| "err_text (ErrJoin es) = join_with [CHR 0x0A] (map err_text es)"

definition max_runtime_fn :: "int \<Rightarrow> time \<Rightarrow> inst \<Rightarrow> err + inst" where
  "max_runtime_fn g now cur =
     Inr (if in_desired cur = ''running'' \<and> in_generation cur = g
          then cur\<lparr>in_desired := ''stopped'', in_stop_reason := ''Maximum runtime reached''\<rparr> else cur)"

text \<open>Bring up the infrastructure of an instance that is wanted running: from \<open>Inspect\<close>'s answer.\<close>

definition start_machine ::
  "'w provider \<Rightarrow> inst \<Rightarrow> observation \<Rightarrow> 'w \<Rightarrow> (observation \<times> string \<times> err option) \<times> 'w" where
  "start_machine p i ob w =
     (if \<not> ob_running ob
      then (if in_phase i \<noteq> ''queued'' \<and> ob_started ob
            then ((ob\<lparr>ob_failure := ''Game exited; stop and start to retry''\<rparr>, ''failed'', None), w)
            else (case pv_start p i w of
                    (Inl e, w) \<Rightarrow> ((ob, ''starting'', Some e), w)
                  | (Inr u, w) \<Rightarrow> ((ob, ''starting'', None), w)))
      else ((ob, ''running'', None), w))"

definition ensure_machine ::
  "'w provider \<Rightarrow> inst \<Rightarrow> 'w \<Rightarrow> (observation \<times> string \<times> err option) \<times> 'w" where
  "ensure_machine p i w =
     (case pv_ensure p i w of
        (Inl e, w) \<Rightarrow> ((zero_observation, ''queued'', Some e), w)
      | (Inr ob, w) \<Rightarrow> start_machine p i ob w)"

definition prepare_machine ::
  "'w provider \<Rightarrow> inst \<Rightarrow> 'w \<Rightarrow> (observation \<times> string \<times> err option) \<times> 'w" where
  "prepare_machine p i w =
     (case pv_prepare p of
        None \<Rightarrow> ensure_machine p i w
      | Some prepare \<Rightarrow>
          (case prepare i w of
             (Inl e, w) \<Rightarrow> ((zero_observation\<lparr>ob_failure := err_text e\<rparr>, ''failed'', None), w)
           | (Inr ready, w) \<Rightarrow>
               if \<not> ready then ((zero_observation, ''preparing'', None), w) else ensure_machine p i w))"

definition reconcile_machine ::
  "('w, 't) controller \<Rightarrow> inst \<Rightarrow> 'w \<Rightarrow> (observation \<times> string \<times> err option) \<times> 'w" where
  "reconcile_machine ct i w =
     (case ct_providers ct (in_provider i) of
        None \<Rightarrow> ((zero_observation, in_phase i,
                   Some (ErrMsg (''provider '' @ quoted (in_provider i) @ '' is not configured''))), w)
      | Some p \<Rightarrow>
          if in_desired i = ''deleted''
          then (case pv_delete p i w of
                  (Inl e, w) \<Rightarrow> ((zero_observation, ''deleted'', Some e), w)
                | (Inr u, w) \<Rightarrow> ((zero_observation, ''deleted'', None), w))
          else (let (late, w) = (if in_desired i = ''running'' \<and> 0 < in_max_minutes i
                                 then (let (t, w) = ct_clock ct w in
                                       (in_max_minutes i * minute \<le> time_sub t (in_started_at i), w))
                                 else (False, w))
            in if late
               then (case db_update (ct_db ct) (in_id i) (max_runtime_fn (in_generation i)) w of
                       (Inl e, w) \<Rightarrow> ((zero_observation, ''stopping'', Some e), w)
                     | (Inr u, w) \<Rightarrow> ((zero_observation, ''stopping'', None), w))
               else (case pv_inspect p i w of
                       (Inl e, w) \<Rightarrow> ((zero_observation, in_phase i, Some e), w)
                     | (Inr ob, w) \<Rightarrow>
                         if in_desired i = ''stopped''
                         then (if ob_running ob
                               then (case pv_stop p i w of
                                       (Inl e, w) \<Rightarrow> ((ob, ''stopping'', Some e), w)
                                     | (Inr u, w) \<Rightarrow> ((ob, ''stopping'', None), w))
                               else ((ob, ''stopped'', None), w))
                         else if \<not> ob_exists ob
                         then (if in_phase i = ''failed''
                               then ((zero_observation\<lparr>ob_failure := in_error i\<rparr>, ''failed'', None), w)
                               else prepare_machine p i w)
                         else start_machine p i ob w)))"

definition apply_agent_status :: "time \<Rightarrow> agent_status \<Rightarrow> err option \<Rightarrow> inst \<Rightarrow> inst" where
  "apply_agent_status now st e cur =
     (case e of
        Some er \<Rightarrow>
          cur\<lparr>in_error := ''Agent unavailable: '' @ err_text er, in_players := None,
             in_empty_since := zero_time, in_phase := ''starting''\<rparr>
      | None \<Rightarrow>
          if \<not> as_running st
          then cur\<lparr>in_phase := ''failed'',
                  in_error := (if as_error st \<noteq> [] then as_error st else ''Game process exited'')\<rparr>
          else if \<not> as_ready st then cur\<lparr>in_phase := ''starting'', in_empty_since := zero_time\<rparr>
          else (let cur = cur\<lparr>in_phase := ''running'', in_players := Some (as_players st), in_map := as_map st,
                             in_error := []\<rparr>
            in if 0 < as_players st then cur\<lparr>in_empty_since := zero_time\<rparr>
               else (let cur = (if is_zero (in_empty_since cur) then cur\<lparr>in_empty_since := now\<rparr> else cur)
                 in if 0 < in_idle_minutes cur \<and>
                       in_idle_minutes cur * minute \<le> time_sub now (in_empty_since cur)
                    then cur\<lparr>in_desired := ''stopped'', in_stop_reason := ''Server empty for idle timeout''\<rparr>
                    else cur)))"

text \<open>What a pass writes back, unless the user's intent changed meanwhile.\<close>

definition observe_fn ::
  "int \<Rightarrow> time \<Rightarrow> observation \<times> string \<times> err option \<Rightarrow> agent_status \<Rightarrow> err option \<Rightarrow>
     time \<Rightarrow> inst \<Rightarrow> err + inst" where
  "observe_fn g seen = (\<lambda>(ob, phase, oe) st ae now cur. Inr
     (if in_generation cur \<noteq> g then cur
      else (let cur = cur\<lparr>in_updated_at := seen\<rparr> in
        case oe of
          Some e \<Rightarrow> cur\<lparr>in_error := err_text e, in_players := None, in_empty_since := zero_time\<rparr>
        | None \<Rightarrow>
            (let cur = cur\<lparr>in_phase := phase, in_endpoints := ob_endpoints ob, in_error := ob_failure ob,
                          in_players := None\<rparr>
             in if phase = ''running'' then apply_agent_status now st ae cur
                else cur\<lparr>in_empty_since := zero_time\<rparr>))))"

definition reconcile_instance :: "('w, 't) controller \<Rightarrow> inst \<Rightarrow> ('w, unit) io" where
  "reconcile_instance ct i w =
     (let ((ob, phase, oe), w) = reconcile_machine ct i w;
          ((st, ae), w) =
            (if oe = None \<and> phase = ''running''
             then (case agent_status_of ct i (ob_agent_url ob) w of
                     (Inl e, w) \<Rightarrow> ((zero_agent_status, Some e), w)
                   | (Inr st, w) \<Rightarrow> ((st, None), w))
             else ((zero_agent_status, None), w));
          (now, w) = ct_clock ct w
      in db_update (ct_db ct) (in_id i) (observe_fn (in_generation i) now (ob, phase, oe) st ae) w)"

text \<open>
  One pass over all instances. The source runs up to four of them at a time; each touches only its
  own record, and the model takes them one after the other.
\<close>

fun reconcile_each :: "('w, 't) controller \<Rightarrow> inst list \<Rightarrow> 'w \<Rightarrow> 'w" where
  "reconcile_each ct [] w = w"
| "reconcile_each ct (i # is) w =
     (if in_phase i = ''deleted'' then reconcile_each ct is w
      else reconcile_each ct is (snd (reconcile_instance ct i w)))"

definition reconcile_pass :: "('w, 't) controller \<Rightarrow> 'w \<Rightarrow> 'w" where
  "reconcile_pass ct w =
     (case db_list (ct_db ct) w of
        (Inl e, w) \<Rightarrow> w
      | (Inr is, w) \<Rightarrow> reconcile_each ct is w)"

end
