(* ===== verification/ControlSafety.thy ===== *)
theory ControlSafety
  imports Controller
begin

text \<open>
  Safety of the game host's controller. \<open>inst_step\<close> is how a stored instance may change
  between two instants, whoever changes it; the locales assume it of the other goroutines and
  prove it of every intent and of the reconciler, whose passes work on a snapshot that may be out
  of date when they write back.
\<close>

section \<open>How an instance evolves\<close>

definition inst_ok :: "inst \<Rightarrow> bool" where
  "inst_ok i \<longleftrightarrow> intent_ok (in_desired i) \<and> (in_phase i = ''deleted'' \<longrightarrow> in_desired i = ''deleted'')"

definition same_identity :: "inst \<Rightarrow> inst \<Rightarrow> bool" where
  "same_identity a b \<longleftrightarrow>
     in_id b = in_id a \<and> in_name b = in_name a \<and> in_game b = in_game a \<and> in_provider b = in_provider a \<and>
     in_config b = in_config a \<and> in_idle_minutes b = in_idle_minutes a \<and>
     in_max_minutes b = in_max_minutes a \<and> in_created_at b = in_created_at a \<and>
     in_agent_token b = in_agent_token a \<and> in_rcon_password b = in_rcon_password a"

definition inst_step :: "inst \<Rightarrow> inst \<Rightarrow> bool" where
  "inst_step a b \<longleftrightarrow>
     same_identity a b \<and> in_generation a \<le> in_generation b \<and>
     (in_desired a = ''deleted'' \<longrightarrow> in_desired b = ''deleted'') \<and>
     (in_generation a = in_generation b \<longrightarrow>
        in_desired b = in_desired a \<or> in_desired a = ''running'' \<and> in_desired b = ''stopped'') \<and>
     (inst_ok a \<longrightarrow> inst_ok b \<and> (in_phase a = ''deleted'' \<longrightarrow> in_phase b = ''deleted''))"

lemma inst_step_refl [simp]: "inst_step a a"
  by (simp add: inst_step_def same_identity_def)

lemma same_identity_trans: "same_identity a b \<Longrightarrow> same_identity b c \<Longrightarrow> same_identity a c"
  by (simp add: same_identity_def)

lemma inst_step_trans:
  assumes "inst_step a b" "inst_step b c"
  shows "inst_step a c"
proof -
  have "in_desired c = in_desired a \<or> in_desired a = ''running'' \<and> in_desired c = ''stopped''"
    if "in_generation a = in_generation c"
  proof -
    have "in_generation b = in_generation a" using that assms by (simp add: inst_step_def)
    then show ?thesis using that assms unfolding inst_step_def by auto
  qed
  then show ?thesis
    using assms same_identity_trans [of a b c] unfolding inst_step_def by auto
qed

text \<open>An intent on one record.\<close>

lemma set_desired_cases:
  "(\<exists>e. set_desired d t i = Inl e) \<or> set_desired d t i = Inr i \<or>
   (in_desired i = ''deleted'' \<and> in_phase i \<noteq> ''deleted'' \<and>
      set_desired d t i = Inr (i\<lparr>in_generation := in_generation i + 1, in_error := []\<rparr>)) \<or>
   (in_desired i = ''running'' \<and> in_phase i = ''failed'' \<and>
      set_desired d t i = Inr (i\<lparr>in_generation := in_generation i + 1, in_error := [], in_phase := ''queued'',
        in_started_at := t\<rparr>)) \<or>
   (in_desired i \<noteq> ''deleted'' \<and> d = ''running'' \<and>
      set_desired d t i = Inr (i\<lparr>in_generation := in_generation i + 1, in_desired := d, in_error := [],
        in_stop_reason := [], in_empty_since := zero_time, in_started_at := t, in_phase := ''queued''\<rparr>)) \<or>
   (in_desired i \<noteq> ''deleted'' \<and>
      set_desired d t i = Inr (i\<lparr>in_generation := in_generation i + 1, in_desired := d, in_error := [],
        in_stop_reason := [], in_empty_since := zero_time\<rparr>))"
  by (simp add: set_desired_def Let_def)

lemma bump_step:
  assumes "same_identity i j" "in_generation j = in_generation i + 1"
    "in_desired i = ''deleted'' \<longrightarrow> in_desired j = ''deleted''" "intent_ok (in_desired j)"
    "in_phase j = in_phase i \<or> in_phase j = ''queued''" "in_phase i = ''deleted'' \<longrightarrow> in_desired i \<noteq> ''deleted''"
  shows "inst_step i j"
  using assms unfolding inst_step_def inst_ok_def by auto

lemma set_desired_step:
  assumes d: "intent_ok d" and j: "set_desired d t i = Inr j"
  shows "inst_step i j"
  using set_desired_cases [of d t i] unfolding j
  by (elim disjE conjE exE)
    (use d in \<open>auto intro!: bump_step simp: same_identity_def intent_ok_def\<close>)

lemma inst_step_request_id: "inst_step i j \<Longrightarrow> inst_step i (j\<lparr>in_request_id := r\<rparr>)"
  unfolding inst_step_def same_identity_def inst_ok_def by auto

lemma request_desired_step:
  assumes "intent_ok d" "request_desired_fn rid d t i = Inr j"
  shows "inst_step i j"
proof (cases "in_request_id i = rid")
  case True
  then show ?thesis using assms(2) by (simp add: request_desired_fn_def)
next
  case False
  then obtain k where "set_desired d t i = Inr k" "j = k\<lparr>in_request_id := rid\<rparr>"
    using assms(2) by (cases "set_desired d t i") (auto simp: request_desired_fn_def)
  then show ?thesis using set_desired_step [OF assms(1)] inst_step_request_id by blast
qed

lemma max_runtime_step:
  assumes "max_runtime_fn g t i = Inr j"
  shows "inst_step i j"
proof (cases "in_desired i = ''running'' \<and> in_generation i = g")
  case True
  then have j: "j = i\<lparr>in_desired := ''stopped'', in_stop_reason := ''Maximum runtime reached''\<rparr>"
    using assms by (simp add: max_runtime_fn_def)
  show ?thesis
    unfolding inst_step_def inst_ok_def same_identity_def j using True by (simp add: intent_ok_def)
next
  case False
  then have "j = i" using assms by (simp add: max_runtime_fn_def split: if_splits)
  then show ?thesis by simp
qed

text \<open>The phase a pass computes fits the intent of its snapshot.\<close>

definition phase_fits :: "inst \<Rightarrow> string \<Rightarrow> err option \<Rightarrow> bool" where
  "phase_fits i phase oe \<longleftrightarrow> oe = None \<longrightarrow> (phase = ''deleted'') = (in_desired i = ''deleted'')"

lemma start_machine_phase:
  "start_machine p i ob w = ((ob', phase, oe), w') \<Longrightarrow> phase \<noteq> ''deleted''"
  by (auto simp: start_machine_def split: if_splits sum.splits prod.splits)

lemma ensure_machine_phase:
  "ensure_machine p i w = ((ob', phase, oe), w') \<Longrightarrow> phase \<noteq> ''deleted''"
  by (auto simp: ensure_machine_def dest: start_machine_phase split: sum.splits prod.splits)

lemma prepare_machine_phase:
  "prepare_machine p i w = ((ob', phase, oe), w') \<Longrightarrow> phase \<noteq> ''deleted''"
  by (auto simp: prepare_machine_def dest: ensure_machine_phase split: sum.splits prod.splits option.splits if_splits)

lemma reconcile_machine_phase:
  assumes "reconcile_machine ct i w = ((ob, phase, oe), w')"
  shows "phase_fits i phase oe"
  using assms
  by (auto simp: reconcile_machine_def phase_fits_def Let_def dest: start_machine_phase prepare_machine_phase
      split: sum.splits prod.splits option.splits if_splits)

lemma apply_agent_status_fields:
  "same_identity cur (apply_agent_status now st e cur)"
  "in_generation (apply_agent_status now st e cur) = in_generation cur"
  "in_desired (apply_agent_status now st e cur) = in_desired cur \<or>
     in_desired (apply_agent_status now st e cur) = ''stopped''"
  "in_phase (apply_agent_status now st e cur) \<noteq> ''deleted''"
  by (auto simp: apply_agent_status_def same_identity_def Let_def split: option.splits)

text \<open>Writing back a pass over the snapshot \<open>i\<close> is a step from any record \<open>i\<close> has become.\<close>

lemma observe_step:
  assumes i: "inst_step i cur" and ok: "inst_ok i" and fits: "phase_fits i phase oe"
    and wrote: "observe_fn (in_generation i) seen (ob, phase, oe) st ae now cur = Inr new"
  shows "inst_step cur new"
proof (cases "in_generation cur = in_generation i")
  case False
  then show ?thesis using wrote by (simp add: observe_fn_def)
next
  case True
  have cur: "in_desired cur = in_desired i \<or> in_desired i = ''running'' \<and> in_desired cur = ''stopped''"
    "inst_ok cur" using i ok True by (auto simp: inst_step_def)
  show ?thesis
  proof (cases oe)
    case (Some e)
    then have "new = cur\<lparr>in_updated_at := seen, in_error := err_text e, in_players := None, in_empty_since := zero_time\<rparr>"
      using wrote True by (simp add: observe_fn_def Let_def)
    then show ?thesis by (simp add: inst_step_def same_identity_def inst_ok_def)
  next
    case None
    define c2 where "c2 = cur\<lparr>in_updated_at := seen, in_phase := phase, in_endpoints := ob_endpoints ob,
      in_error := ob_failure ob, in_players := None\<rparr>"
    have new: "new = (if phase = ''running'' then apply_agent_status now st ae c2 else c2\<lparr>in_empty_since := zero_time\<rparr>)"
      using wrote True None by (auto simp: observe_fn_def Let_def c2_def split: if_splits)
    have c2: "same_identity cur c2" "in_generation c2 = in_generation cur" "in_desired c2 = in_desired cur"
      "in_phase c2 = phase" by (simp_all add: c2_def same_identity_def)
    have del: "(phase = ''deleted'') = (in_desired cur = ''deleted'')"
      using fits None cur(1) by (auto simp: phase_fits_def)
    show ?thesis
    proof (cases "phase = ''running''")
      case run: True
      define n where "n = apply_agent_status now st ae c2"
      have n: "same_identity c2 n" "in_generation n = in_generation c2" "in_desired n = in_desired c2 \<or> in_desired n = ''stopped''"
        "in_phase n \<noteq> ''deleted''" using apply_agent_status_fields [where cur = c2 and now = now and st = st and e = ae] by (simp_all add: n_def)
      have nd: "in_desired cur \<noteq> ''deleted''" using del run by simp
      then have "in_desired cur = ''running'' \<or> in_desired cur = ''stopped''"
        using cur(2) by (auto simp: inst_ok_def intent_ok_def)
      moreover have "in_phase cur \<noteq> ''deleted''" using cur(2) nd by (auto simp: inst_ok_def)
      ultimately show ?thesis
        using new run n c2 nd cur(2) unfolding n_def [symmetric]
        by (auto simp: inst_step_def same_identity_def inst_ok_def intent_ok_def)
    next
      case False
      then show ?thesis using new c2 cur(2) del
        by (auto simp: inst_step_def same_identity_def inst_ok_def)
    qed
  qed
qed

section \<open>The database among other goroutines\<close>

type_synonym imap = "string \<Rightarrow> inst option"

text \<open>Every record stays and evolves; a new one is a fresh, valid instance under its own ID.\<close>

definition store_step :: "imap \<Rightarrow> imap \<Rightarrow> bool" where
  "store_step m m' \<longleftrightarrow>
     (\<forall>k i. m k = Some i \<longrightarrow> (\<exists>j. m' k = Some j \<and> inst_step i j)) \<and>
     (\<forall>k j. m k = None \<longrightarrow> m' k = Some j \<longrightarrow> inst_ok j \<and> in_id j = k)"

definition store_ok :: "imap \<Rightarrow> bool" where
  "store_ok m \<longleftrightarrow> (\<forall>k i. m k = Some i \<longrightarrow> inst_ok i \<and> in_id i = k)"

lemma store_step_refl [simp]: "store_step m m"
  by (simp add: store_step_def)

lemma inst_step_keeps: "inst_step i j \<Longrightarrow> inst_ok i \<and> in_id i = k \<Longrightarrow> inst_ok j \<and> in_id j = k"
  by (simp add: inst_step_def same_identity_def)

lemma store_step_trans:
  assumes "store_step a b" "store_step b c"
  shows "store_step a c"
  unfolding store_step_def
proof (rule conjI; intro allI impI)
  fix k i assume "a k = Some i"
  then obtain j where j: "b k = Some j" "inst_step i j" using assms(1) unfolding store_step_def by blast
  then obtain l where "c k = Some l" "inst_step j l" using assms(2) unfolding store_step_def by blast
  then show "\<exists>l. c k = Some l \<and> inst_step i l" using j(2) inst_step_trans by blast
next
  fix k l assume a: "a k = None" and c: "c k = Some l"
  show "inst_ok l \<and> in_id l = k"
  proof (cases "b k")
    case None
    then show ?thesis using assms(2) c unfolding store_step_def by blast
  next
    case (Some j)
    then have "inst_ok j \<and> in_id j = k" using assms(1) a unfolding store_step_def by blast
    moreover have "inst_step j l" using assms(2) Some c unfolding store_step_def by fastforce
    ultimately show ?thesis using inst_step_keeps by blast
  qed
qed

lemma store_step_ok: "store_step m m' \<Longrightarrow> store_ok m \<Longrightarrow> store_ok m'"
  unfolding store_step_def store_ok_def using inst_step_keeps by (metis option.exhaust option.inject)

lemma store_step_update:
  assumes "m k = Some i" "inst_step i j"
  shows "store_step m (m(k \<mapsto> j))"
  using assms by (auto simp: store_step_def)

lemma store_step_new:
  assumes "m k = None" "inst_ok j" "in_id j = k"
  shows "store_step m (m(k \<mapsto> j))"
  using assms by (auto simp: store_step_def)

text \<open>
  bbolt's documented behaviour: a read transaction sees one state of the bucket; an update
  transaction runs its function on one state and commits its result, or changes nothing. Between
  any two states other goroutines may have committed.
\<close>

locale bolt_world =
  fixes bolt :: "('w, 't) bolt" and js :: "'t json" and bucket :: "'w \<Rightarrow> 't bucket"
  assumes json: "json_ok js"
    and view_step: "bo_view bolt w = (r, w') \<Longrightarrow> store_step (instances js (bucket w)) (instances js (bucket w'))"
    and view_value: "bo_view bolt w = (Inr b, w') \<Longrightarrow> b = bucket w' \<and> bucket_ok b"
    and update_done: "bo_update bolt f w = (Inr x, w') \<Longrightarrow>
      \<exists>m t b. store_step (instances js (bucket w)) (instances js m) \<and> f t m = Inr (b, x) \<and>
        store_step (instances js b) (instances js (bucket w'))"
    and update_failed: "bo_update bolt f w = (Inl e, w') \<Longrightarrow>
      store_step (instances js (bucket w)) (instances js (bucket w'))"
begin

abbreviation db :: "('w, 't) db" where
  "db \<equiv> \<lparr>db_bolt = bolt, db_json = js\<rparr>"

abbreviation recs :: "'w \<Rightarrow> imap" where
  "recs w \<equiv> instances js (bucket w)"

lemma db_update_step:
  assumes f: "\<And>m t i j. store_step (recs w) m \<Longrightarrow> m k = Some i \<Longrightarrow> f t i = Inr j \<Longrightarrow> inst_step i j"
    and call: "db_update db k f w = (r, w')"
  shows "store_step (recs w) (recs w')"
proof -
  obtain q where q: "bo_update bolt (update_txn js k f) w = (q, w')"
    using call by (auto simp: db_update_def split: sum.splits prod.splits)
  show ?thesis
  proof (cases q)
    case (Inl e)
    then show ?thesis using update_failed q by blast
  next
    case (Inr x)
    then obtain m t b where m: "store_step (recs w) (instances js m)" "update_txn js k f t m = Inr (b, x)"
      "store_step (instances js b) (recs w')" using update_done q by blast
    obtain i where i: "instances js m k = Some i" "f t i = Inr x" "instances js b = (instances js m)(k \<mapsto> x)"
      using update_txn_cases [OF m(2) json] by blast
    have "store_step (instances js m) (instances js b)"
      unfolding i(3) by (rule store_step_update [of "instances js m", OF i(1)]) (rule f [OF m(1) i(1,2)])
    then show ?thesis using m(1,3) store_step_trans by blast
  qed
qed

lemma db_create_step:
  assumes "inst_ok c" "db_create db c w = (r, w')"
  shows "store_step (recs w) (recs w')"
proof (cases r)
  case (Inl e)
  then show ?thesis using update_failed assms(2) by (simp add: db_create_def)
next
  case (Inr x)
  then obtain m t b where m: "store_step (recs w) (instances js m)" "create_txn js c t m = Inr (b, x)"
    "store_step (instances js b) (recs w')"
    using update_done assms(2) by (fastforce simp: db_create_def)
  have "store_step (instances js m) (instances js b)"
  proof (cases "map_of m (in_id c)")
    case None
    then have "instances js m (in_id c) = None" by (simp add: instances_def)
    then show ?thesis
      using create_txn_cases [OF m(2) json] store_step_new [of "instances js m" "in_id c" c] assms(1) by auto
  next
    case (Some d)
    then show ?thesis using create_txn_cases [OF m(2) json] by auto
  qed
  then show ?thesis using m(1,3) store_step_trans by blast
qed

lemma db_list_step: "db_list db w = (r, w') \<Longrightarrow> store_step (recs w) (recs w')"
  using view_step by (auto simp: db_list_def split: sum.splits prod.splits)

end

section \<open>The controller among other goroutines\<close>

locale controller_world = bolt_world bolt js bucket
  for bolt :: "('w, 't) bolt" and js and bucket +
  fixes ct :: "('w, 't) controller"
  assumes ct_db: "ct_db ct = \<lparr>db_bolt = bolt, db_json = js\<rparr>"
    and clock_step: "ct_clock ct w = (t, w') \<Longrightarrow> store_step (recs w) (recs w')"
    and token_step: "ct_token ct w = (tok, w') \<Longrightarrow> store_step (recs w) (recs w')"
    and http_step: "ct_http ct q w = (h, w') \<Longrightarrow> store_step (recs w) (recs w')"
    and ensure_step: "ct_providers ct n = Some p \<Longrightarrow> pv_ensure p i w = (o1, w') \<Longrightarrow> store_step (recs w) (recs w')"
    and inspect_step: "ct_providers ct n = Some p \<Longrightarrow> pv_inspect p i w = (o1, w') \<Longrightarrow> store_step (recs w) (recs w')"
    and start_step: "ct_providers ct n = Some p \<Longrightarrow> pv_start p i w = (u1, w') \<Longrightarrow> store_step (recs w) (recs w')"
    and stop_step: "ct_providers ct n = Some p \<Longrightarrow> pv_stop p i w = (u1, w') \<Longrightarrow> store_step (recs w) (recs w')"
    and delete_step: "ct_providers ct n = Some p \<Longrightarrow> pv_delete p i w = (u1, w') \<Longrightarrow> store_step (recs w) (recs w')"
    and prepare_step: "ct_providers ct n = Some p \<Longrightarrow> pv_prepare p = Some f \<Longrightarrow> f i w = (b1, w') \<Longrightarrow>
      store_step (recs w) (recs w')"
begin

abbreviation step :: "'w \<Rightarrow> 'w \<Rightarrow> bool" where
  "step w w' \<equiv> store_step (recs w) (recs w')"

lemma step_trans: "step a b \<Longrightarrow> step b c \<Longrightarrow> step a c"
  by (rule store_step_trans)

lemma intent_update_step:
  assumes "\<And>t i j. f t i = Inr j \<Longrightarrow> inst_step i j" "db_update (ct_db ct) k f w = (r, w')"
  shows "step w w'"
  using db_update_step [of w k f r w'] assms by (simp add: ct_db)

lemma set_desired_op_step:
  assumes "set_desired_op ct down k d w = (r, w')"
  shows "step w w'"
proof (cases "down \<or> \<not> intent_ok d")
  case True
  then show ?thesis using assms by (auto simp: set_desired_op_def split: if_splits)
next
  case False
  then have "db_update (ct_db ct) k (set_desired d) w = (r, w')" "intent_ok d"
    using assms by (simp_all add: set_desired_op_def)
  then show ?thesis using intent_update_step set_desired_step by blast
qed

lemma request_desired_op_step:
  assumes "request_desired ct down k rid d w = (r, w')"
  shows "step w w'"
proof (cases "down \<or> \<not> intent_ok d \<or> rid = []")
  case True
  then show ?thesis using assms by (auto simp: request_desired_def split: if_splits)
next
  case False
  then have "db_update (ct_db ct) k (request_desired_fn rid d) w = (r, w')" "intent_ok d"
    using assms by (simp_all add: request_desired_def)
  then show ?thesis using intent_update_step request_desired_step by blast
qed

lemma create_requested_step:
  assumes "create_requested ct down q rid w = (r, w')"
  shows "step w w'"
proof (cases down)
  case True
  then show ?thesis using assms by (simp add: create_requested_def)
next
  case False
  obtain fresh w1 where f: "(if cq_id q = [] then ct_token ct w else ([], w)) = (fresh, w1)" by fastforce
  have w1: "step w w1" using f token_step by (auto split: if_splits)
  define q' where "q' = (if cq_id q = [] then q\<lparr>cq_id := take 20 fresh\<rparr> else q)"
  show ?thesis
  proof (cases "create_checks ct q'")
    case (Inl e)
    then show ?thesis using assms False f w1 by (simp add: create_requested_def q'_def)
  next
    case (Inr x)
    obtain g name p config where x: "x = (g, name, p, config)" by (metis prod.collapse)
    obtain t w2 where t: "ct_clock ct w1 = (t, w2)" by fastforce
    obtain a w3 where a: "ct_token ct w2 = (a, w3)" by fastforce
    obtain b w4 where b: "ct_token ct w3 = (b, w4)" by fastforce
    define c where "c = \<lparr>in_generation = 1, in_id = cq_id q', in_name = name, in_game = g, in_provider = p,
       in_desired = ''running'', in_phase = ''queued'', in_config = config,
       in_idle_minutes = cq_idle_minutes q', in_max_minutes = cq_max_minutes q',
       in_created_at = t, in_started_at = t, in_empty_since = zero_time, in_endpoints = [],
       in_players = None, in_map = [], in_error = [], in_stop_reason = [], in_updated_at = t,
       in_request_id = rid, in_agent_token = a, in_rcon_password = b\<rparr>"
    have c: "inst_ok c" "db_create (ct_db ct) c w4 = (r, w')"
      using assms False f Inr x t a b
      by (simp_all add: create_requested_def q'_def [symmetric] c_def [symmetric] Let_def)
        (simp add: c_def inst_ok_def intent_ok_def)
    have "step w4 w'" using db_create_step c by (simp add: ct_db)
    then show ?thesis
      using w1 clock_step [OF t] token_step [OF a] token_step [OF b] step_trans by meson
  qed
qed

lemma start_machine_step:
  "ct_providers ct n = Some p \<Longrightarrow> start_machine p i ob w = (x, w') \<Longrightarrow> step w w'"
  using start_step by (fastforce simp: start_machine_def split: if_splits sum.splits prod.splits)

lemma ensure_machine_step:
  assumes "ct_providers ct n = Some p" "ensure_machine p i w = (x, w')"
  shows "step w w'"
proof -
  obtain o1 w1 where o1: "pv_ensure p i w = (o1, w1)" by fastforce
  have "step w1 w'" using assms(2) o1 start_machine_step [OF assms(1)]
    by (auto simp: ensure_machine_def split: sum.splits)
  then show ?thesis using ensure_step [OF assms(1) o1] step_trans by blast
qed

lemma prepare_machine_step:
  assumes "ct_providers ct n = Some p" "prepare_machine p i w = (x, w')"
  shows "step w w'"
proof (cases "pv_prepare p")
  case None
  then show ?thesis using assms ensure_machine_step by (simp add: prepare_machine_def)
next
  case (Some f)
  obtain b w1 where b: "f i w = (b, w1)" by fastforce
  have "step w1 w'" using assms(2) Some b ensure_machine_step [OF assms(1)]
    by (auto simp: prepare_machine_def split: sum.splits if_splits)
  then show ?thesis using prepare_step [OF assms(1) Some b] step_trans by blast
qed

lemma late_step:
  "(if c then (let (t, w) = ct_clock ct w in (f t, w)) else (False, w)) = (late, w') \<Longrightarrow> step w w'"
  using clock_step by (auto split: if_splits prod.splits)

lemma reconcile_machine_step:
  assumes "reconcile_machine ct i w = (x, w')"
  shows "step w w'"
proof (cases "ct_providers ct (in_provider i)")
  case None
  then show ?thesis using assms by (simp add: reconcile_machine_def)
next
  case (Some p)
  note prov = Some
  show ?thesis
  proof (cases "in_desired i = ''deleted''")
    case True
    then show ?thesis using assms prov delete_step [OF prov]
      by (auto simp: reconcile_machine_def split: sum.splits prod.splits)
  next
    case False
    obtain late w1 where l: "(if in_desired i = ''running'' \<and> 0 < in_max_minutes i
        then (let (t, w) = ct_clock ct w in (in_max_minutes i * minute \<le> time_sub t (in_started_at i), w))
        else (False, w)) = (late, w1)" by fastforce
    have w1: "step w w1" using late_step [OF l] .
    show ?thesis
    proof (cases late)
      case True
      then obtain q where "db_update (ct_db ct) (in_id i) (max_runtime_fn (in_generation i)) w1 = (q, w')"
        using assms prov False l
        by (auto simp: reconcile_machine_def split: sum.splits prod.splits)
      then have "step w1 w'" using intent_update_step max_runtime_step by blast
      then show ?thesis using w1 step_trans by blast
    next
      case nl: False
      obtain o1 w2 where o1: "pv_inspect p i w1 = (o1, w2)" by fastforce
      have w2: "step w1 w2" using inspect_step [OF prov o1] .
      consider "w' = w2" | u where "pv_stop p i w2 = (u, w')" | "prepare_machine p i w2 = (x, w')"
        | ob where "start_machine p i ob w2 = (x, w')"
        using assms prov False l nl o1
        by (auto simp: reconcile_machine_def split: sum.splits prod.splits if_splits)
      then have "step w2 w'"
        by cases (use stop_step [OF prov] prepare_machine_step [OF prov] start_machine_step [OF prov] in auto)
      then show ?thesis using w1 w2 step_trans by blast
    qed
  qed
qed

lemma agent_status_step: "agent_status_of ct i base w = (x, w') \<Longrightarrow> step w w'"
  using http_step
  by (fastforce simp: agent_status_of_def agent_request_def split: sum.splits prod.splits if_splits)

text \<open>A pass over a snapshot that was read at some earlier instant.\<close>

lemma reconcile_instance_step:
  assumes "store_step m (recs w)" "m (in_id i) = Some i" "inst_ok i"
    and "reconcile_instance ct i w = (r, w')"
  shows "step w w'"
proof -
  obtain ob phase oe w1 where m1: "reconcile_machine ct i w = ((ob, phase, oe), w1)" by (metis prod.collapse)
  define asked where "asked = (if oe = None \<and> phase = ''running''
      then (case agent_status_of ct i (ob_agent_url ob) w1 of
              (Inl e, w) \<Rightarrow> ((zero_agent_status, Some e), w) | (Inr st, w) \<Rightarrow> ((st, None), w))
      else ((zero_agent_status, None), w1))"
  obtain st ae w2 where s: "asked = ((st, ae), w2)" by (metis prod.collapse)
  obtain t w3 where t: "ct_clock ct w2 = (t, w3)" by fastforce
  have w1: "step w w1" using reconcile_machine_step [OF m1] .
  have w2: "step w1 w2"
    using s agent_status_step [of i "ob_agent_url ob" w1]
    by (auto simp: asked_def split: if_splits sum.splits prod.splits)
  have w3: "step w2 w3" using clock_step [OF t] .
  have upd: "db_update db (in_id i) (observe_fn (in_generation i) t (ob, phase, oe) st ae) w3 = (r, w')"
    using assms(4) m1 s t unfolding asked_def by (simp add: reconcile_instance_def Let_def ct_db)
  have fits: "phase_fits i phase oe" using reconcile_machine_phase [OF m1] .
  have "step w3 w'"
  proof (rule db_update_step [OF _ upd])
    fix n now cur new
    assume n: "store_step (recs w3) n" "n (in_id i) = Some cur"
      and wrote: "observe_fn (in_generation i) t (ob, phase, oe) st ae now cur = Inr new"
    have "store_step m n" using assms(1) w1 w2 w3 n(1) step_trans store_step_trans by meson
    then have "inst_step i cur" using assms(2) n(2) unfolding store_step_def by fastforce
    then show "inst_step cur new" by (rule observe_step [OF _ assms(3) fits wrote])
  qed
  then show ?thesis using w1 w2 w3 step_trans by meson
qed

lemma reconcile_each_step:
  assumes "store_step m (recs w)" "\<forall>i\<in>set is. m (in_id i) = Some i \<and> inst_ok i"
  shows "step w (reconcile_each ct is w)"
  using assms
proof (induction "is" arbitrary: w)
  case (Cons i "is")
  define w1 where "w1 = (if in_phase i = ''deleted'' then w else snd (reconcile_instance ct i w))"
  have "step w (snd (reconcile_instance ct i w))"
    using reconcile_instance_step [of m w i "fst (reconcile_instance ct i w)" "snd (reconcile_instance ct i w)"] Cons.prems
    by simp
  then have w1: "step w w1" by (simp add: w1_def)
  have "store_step m (recs w1)" using Cons.prems(1) w1 by (rule store_step_trans)
  then have "step w1 (reconcile_each ct is w1)" using Cons.prems(2) by (intro Cons.IH) simp_all
  then have "step w (reconcile_each ct is w1)" using w1 step_trans by blast
  moreover have "reconcile_each ct (i # is) w = reconcile_each ct is w1" by (simp add: w1_def)
  ultimately show ?case by simp
qed simp

end

text \<open>What listing the bucket returns, when every key holds a decodable record of its own.\<close>

lemma decode_all_records:
  assumes "decode_all js b = Inr is" "distinct (map fst b)" "i \<in> set is"
  shows "\<exists>k. instances js b k = Some i"
  using assms
proof (induction b arbitrary: "is")
  case (Cons x b)
  obtain k d where x: "x = (k, d)" by fastforce
  obtain j js' where j: "decode js (Some d) = Inr j" "decode_all js b = Inr js'" "is = j # js'"
    using Cons.prems(1) x by (auto split: sum.splits)
  show ?case
  proof (cases "i = j")
    case True
    then have "instances js (x # b) k = Some i" using x j(1) by (simp add: instances_def)
    then show ?thesis by blast
  next
    case False
    then obtain l where l: "instances js b l = Some i"
      using Cons.IH [OF j(2)] Cons.prems j(3) by auto
    then have "l \<in> fst ` set b" by (auto simp: instances_def dest: map_of_SomeD split: option.splits intro: rev_image_eqI)
    then have "l \<noteq> k" using Cons.prems(2) x by auto
    then have "instances js (x # b) l = Some i" using l x by (simp add: instances_def)
    then show ?thesis by blast
  qed
qed simp

context controller_world
begin

lemma reconcile_pass_step:
  assumes "store_ok (recs w)"
  shows "step w (reconcile_pass ct w)"
proof -
  obtain l w1 where l: "db_list (ct_db ct) w = (l, w1)" by fastforce
  have w1: "step w w1" using l db_list_step by (simp add: ct_db)
  show ?thesis
  proof (cases l)
    case (Inl e)
    then show ?thesis using l w1 by (simp add: reconcile_pass_def)
  next
    case (Inr "is")
    obtain b where b: "bo_view bolt w = (Inr b, w1)" "decode_all js b = Inr is"
      using l Inr by (auto simp: db_list_def ct_db split: sum.splits prod.splits)
    have "b = bucket w1" "distinct (map fst b)"
      using view_value [OF b(1)] by (auto simp: bucket_ok_def strict_sorted_iff)
    then have "\<exists>k. recs w1 k = Some i" if "i \<in> set is" for i
      using decode_all_records [OF b(2) _ that] by blast
    then have "recs w1 (in_id i) = Some i \<and> inst_ok i" if "i \<in> set is" for i
      using store_step_ok [OF w1 assms] that unfolding store_ok_def by blast
    then have "step w1 (reconcile_each ct is w1)"
      by (intro reconcile_each_step [of "recs w1"]) auto
    then show ?thesis using l Inr w1 step_trans by (simp add: reconcile_pass_def)
  qed
qed

end

end
