(* ===== verification/ControlProperties.thy ===== *)
theory ControlProperties
  imports ControlSafety
begin

text \<open>
  The properties of the game host's controller (internal/control), with a controller whose
  database, provider and agent live in memory to exercise them.
\<close>

section \<open>A game host in memory\<close>

definition memory_json :: "stored json" where
  "memory_json = \<lparr>js_record = (\<lambda>r. Inr (r\<lparr>sd_instance := public (sd_instance r)\<rparr>)), js_parse = Inr\<rparr>"

record desk =
  dk_bucket :: "stored bucket"
  dk_clock :: time
  dk_count :: nat
  dk_running :: "string list"

definition desk_bucket :: "desk \<Rightarrow> stored bucket" where
  "desk_bucket w = (if bucket_ok (dk_bucket w) then dk_bucket w else [])"

definition desk_bolt :: "(desk, stored) bolt" where
  "desk_bolt =
     \<lparr>bo_view = (\<lambda>w. (Inr (desk_bucket w), w)),
      bo_update = (\<lambda>f w. case f (dk_clock w) (desk_bucket w) of
          Inl e \<Rightarrow> (Inl e, w)
        | Inr (b, x) \<Rightarrow> (if bucket_ok b then (Inr x, w\<lparr>dk_bucket := b, dk_clock := dk_clock w + second\<rparr>)
                        else (Inl (ErrMsg ''unsorted''), w)))\<rparr>"

definition desk_provider :: "desk provider" where
  "desk_provider =
     \<lparr>pv_ensure = (\<lambda>i w. (Inr (zero_observation\<lparr>ob_exists := True\<rparr>), w)),
      pv_inspect = (\<lambda>i w. (Inr (zero_observation\<lparr>ob_exists := True, ob_started := True,
                              ob_running := in_id i \<in> set (dk_running w), ob_agent_url := ''http://agent''\<rparr>), w)),
      pv_start = (\<lambda>i w. (Inr (), w\<lparr>dk_running := in_id i # dk_running w\<rparr>)),
      pv_stop = (\<lambda>i w. (Inr (), w\<lparr>dk_running := removeAll (in_id i) (dk_running w)\<rparr>)),
      pv_delete = (\<lambda>i w. (Inr (), w\<lparr>dk_running := removeAll (in_id i) (dk_running w)\<rparr>)),
      pv_prepare = None\<rparr>"

definition desk_game :: game where
  "desk_game =
     \<lparr>gm_id = ''quake'', gm_display_name = ''Quake'', gm_protocol = ''quake1'', gm_image = ''img'', gm_agent_port = 8080,
      gm_game_port = 26000, gm_ports = [''26000/udp''], gm_cmd = ''quake'', gm_args = [], gm_quit_cmd = ''quit'',
      gm_quit_timeout = 5, gm_data_root = ''/opt'', gm_config_path = ''/opt/data/server.cfg'', gm_data_url_env = [],
      gm_default_config = ''hostname q'', gm_config_editor = []\<rparr>"

definition desk_controller :: "(desk, stored) controller" where
  "desk_controller =
     \<lparr>ct_db = \<lparr>db_bolt = desk_bolt, db_json = memory_json\<rparr>, ct_games = [desk_game],
      ct_providers = (\<lambda>n. if n = ''docker'' then Some desk_provider else None), ct_default = ''docker'',
      ct_clock = (\<lambda>w. (dk_clock w, w\<lparr>dk_clock := dk_clock w + second\<rparr>)),
      ct_token = (\<lambda>w. (''token'' @ show_nat (dk_count w), w\<lparr>dk_count := Suc (dk_count w)\<rparr>)),
      ct_http = (\<lambda>q w. (Inr \<lparr>rs_status = 200, rs_body = ''ok''\<rparr>, w)),
      ct_status = (\<lambda>b. Inr \<lparr>as_running = True, as_ready = True, as_players = 0, as_map = ''e1m1'', as_error = []\<rparr>)\<rparr>"

definition empty_desk :: desk where
  "empty_desk = \<lparr>dk_bucket = [], dk_clock = 1700000000 * second, dk_count = 0, dk_running = []\<rparr>"

lemma memory_json_ok: "json_ok memory_json"
  by (simp add: json_ok_def memory_json_def)

interpretation desk: bolt_world desk_bolt memory_json desk_bucket
proof
  show "json_ok memory_json" by (rule memory_json_ok)
  show "store_step (instances memory_json (desk_bucket w)) (instances memory_json (desk_bucket w'))"
    if "bo_view desk_bolt w = (r, w')" for w r w'
    using that by (simp add: desk_bolt_def)
  show "b = desk_bucket w' \<and> bucket_ok b" if "bo_view desk_bolt w = (Inr b, w')" for w b w'
    using that by (auto simp: desk_bolt_def desk_bucket_def bucket_ok_def)
  show "\<exists>m t b. store_step (instances memory_json (desk_bucket w)) (instances memory_json m) \<and> f t m = Inr (b, x) \<and>
        store_step (instances memory_json b) (instances memory_json (desk_bucket w'))"
    if up: "bo_update desk_bolt f w = (Inr x, w')" for f w x w'
  proof -
    obtain b where "f (dk_clock w) (desk_bucket w) = Inr (b, x)" "desk_bucket w' = b"
      using up by (auto simp: desk_bolt_def desk_bucket_def split: sum.splits prod.splits if_splits)
    then show ?thesis by (metis store_step_refl)
  qed
  show "store_step (instances memory_json (desk_bucket w)) (instances memory_json (desk_bucket w'))"
    if "bo_update desk_bolt f w = (Inl e, w')" for f w e w'
    using that by (auto simp: desk_bolt_def split: sum.splits prod.splits if_splits)
qed

interpretation desk: controller_world desk_bolt memory_json desk_bucket desk_controller
proof
  show "ct_db desk_controller = \<lparr>db_bolt = desk_bolt, db_json = memory_json\<rparr>" by (simp add: desk_controller_def)
qed (auto simp: desk_controller_def desk_provider_def desk_bucket_def split: if_splits)

section \<open>Intents and passes\<close>



text \<open>C9. Creating an instance and setting or requesting an intent change the database only in the
  same ways, with a fresh record only under its own valid ID, on every path.\<close>

theorem intents_keep_records:
  assumes "controller_world bolt js bucket ct"
    and "create_requested ct down q rid w = (r, w') \<or> set_desired_op ct down k d w = (u, w') \<or>
      request_desired ct down k rid d w = (u, w')"
  shows "store_step (instances js (bucket w)) (instances js (bucket w'))"
  using assms controller_world.create_requested_step controller_world.set_desired_op_step
    controller_world.request_desired_op_step by metis

theorem intents_keep_records_witness:
  "store_step (instances memory_json (desk_bucket empty_desk))
     (instances memory_json (desk_bucket (snd (set_desired_op desk_controller False ''a'' ''stopped'' empty_desk))))"
  by (rule intents_keep_records [OF desk.controller_world_axioms, where down = False and k = "''a''" and d = "''stopped''"
        and u = "fst (set_desired_op desk_controller False ''a'' ''stopped'' empty_desk)"
        and q = "\<lparr>cq_provider = [], cq_id = [], cq_game = [], cq_name = [], cq_config = None,
          cq_idle_minutes = 0, cq_max_minutes = 0\<rparr>" and rid = "[]" and r = "Inl ErrBusy"]) simp

section \<open>Request IDs\<close>

text \<open>Everything that may happen to a record after a request was accepted.\<close>

datatype change =
    Desire string time
  | Request string string time
  | Expire int time
  | Observe int time "observation \<times> string \<times> err option" agent_status "err option" time

fun change_fn :: "change \<Rightarrow> inst \<Rightarrow> err + inst" where
  "change_fn (Desire d t) i = set_desired d t i"
| "change_fn (Request rid d t) i = request_desired_fn rid d t i"
| "change_fn (Expire g t) i = max_runtime_fn g t i"
| "change_fn (Observe g seen x st ae now) i = observe_fn g seen x st ae now i"

text \<open>A failed change rolls back.\<close>

definition apply_change :: "change \<Rightarrow> inst \<Rightarrow> inst" where
  "apply_change c i = (case change_fn c i of Inl e \<Rightarrow> i | Inr j \<Rightarrow> j)"

fun other_request :: "string \<Rightarrow> change \<Rightarrow> bool" where
  "other_request rid (Request r d t) = (r \<noteq> rid)"
| "other_request rid c = False"

lemma set_desired_request_id: "set_desired d t i = Inr j \<Longrightarrow> in_request_id j = in_request_id i"
  by (auto simp: set_desired_def Let_def split: if_splits)

lemma observe_request_id: "observe_fn g seen x st ae now i = Inr j \<Longrightarrow> in_request_id j = in_request_id i"
  by (auto simp: observe_fn_def apply_agent_status_def Let_def split: if_splits option.splits prod.splits)

lemma apply_change_request_id:
  assumes "in_request_id i = rid" "\<not> other_request rid c"
  shows "in_request_id (apply_change c i) = rid"
proof (cases c)
  case (Desire d t)
  then show ?thesis using assms(1) set_desired_request_id by (auto simp: apply_change_def split: sum.splits)
next
  case (Request r d t)
  then show ?thesis using assms by (simp add: apply_change_def request_desired_fn_def)
next
  case (Expire g t)
  then show ?thesis using assms(1) by (simp add: apply_change_def max_runtime_fn_def)
next
  case (Observe g seen x st ae now)
  then show ?thesis using assms(1) observe_request_id by (auto simp: apply_change_def split: sum.splits)
qed

text \<open>A retried request cannot undo a later intent: once a request was accepted, whatever stops,
  starts, deletions, observations and timeouts follow (but no newer request), delivering the same
  request again succeeds and changes nothing, whatever intent it carries.\<close>

theorem retried_request_is_void:
  assumes "request_desired_fn rid d t i = Inr j"
    and "\<And>c. c \<in> set cs \<Longrightarrow> \<not> other_request rid c"
  shows "request_desired_fn rid d' t' (fold apply_change cs j) = Inr (fold apply_change cs j)"
proof -
  have "in_request_id j = rid"
    using assms(1) by (auto simp: request_desired_fn_def split: if_splits sum.splits)
  then have "in_request_id (fold apply_change cs j) = rid"
    using assms(2) by (induction cs arbitrary: j) (simp_all add: apply_change_request_id)
  then show ?thesis by (simp add: request_desired_fn_def)
qed

definition desk_instance :: inst where
  "desk_instance =
     \<lparr>in_generation = 1, in_id = ''q1'', in_name = ''Q'', in_game = desk_game, in_provider = ''docker'',
      in_desired = ''running'', in_phase = ''queued'', in_config = [], in_idle_minutes = 10, in_max_minutes = 0,
      in_created_at = 0, in_started_at = 0, in_empty_since = zero_time, in_endpoints = [], in_players = None,
      in_map = [], in_error = [], in_stop_reason = [], in_updated_at = 0, in_request_id = [],
      in_agent_token = ''a'', in_rcon_password = ''b''\<rparr>"

theorem retried_request_is_void_witness:
  "\<exists>j. request_desired_fn ''r1'' ''running'' 5 (fold apply_change [Desire ''stopped'' 3] j) = Inr (fold apply_change [Desire ''stopped'' 3] j) \<and>
     in_desired (fold apply_change [Desire ''stopped'' 3] j) = ''stopped''"
proof -
  let ?j = "desk_instance\<lparr>in_request_id := ''r1''\<rparr>"
  have "request_desired_fn ''r1'' ''running'' 1 desk_instance = Inr ?j"
    by (simp add: request_desired_fn_def set_desired_def desk_instance_def)
  then have "request_desired_fn ''r1'' ''running'' 5 (fold apply_change [Desire ''stopped'' 3] ?j) =
      Inr (fold apply_change [Desire ''stopped'' 3] ?j)"
    by (rule retried_request_is_void) simp
  moreover have "in_desired (fold apply_change [Desire ''stopped'' 3] ?j) = ''stopped''"
    by (simp add: apply_change_def set_desired_def desk_instance_def)
  ultimately show ?thesis by blast
qed

section \<open>Idle stop\<close>

text \<open>One pass as it reaches the record: what it saw, and when.\<close>

record pass =
  ps_now :: time
  ps_result :: "observation \<times> string \<times> err option"
  ps_status :: agent_status
  ps_failure :: "err option"

definition pass_fn :: "pass \<Rightarrow> inst \<Rightarrow> inst" where
  "pass_fn p i = apply_change (Observe (in_generation i) (ps_now p) (ps_result p) (ps_status p) (ps_failure p) (ps_now p)) i"

text \<open>The pass reached the agent and saw no player.\<close>

definition saw_nobody :: "pass \<Rightarrow> bool" where
  "saw_nobody p \<longleftrightarrow>
     fst (snd (ps_result p)) = ''running'' \<and> snd (snd (ps_result p)) = None \<and> ps_failure p = None \<and>
     (as_running (ps_status p) \<longrightarrow> as_ready (ps_status p) \<and> as_players (ps_status p) \<le> 0)"

definition idle_reason :: string where
  "idle_reason = ''Server empty for idle timeout''"

lemma pass_fn_cases:
  "(in_empty_since (pass_fn p i) = zero_time \<and> in_desired (pass_fn p i) = in_desired i) \<or>
   (saw_nobody p \<and> in_empty_since (pass_fn p i) = in_empty_since i \<and> in_desired (pass_fn p i) = in_desired i) \<or>
   (saw_nobody p \<and>
      in_empty_since (pass_fn p i) = (if is_zero (in_empty_since i) then ps_now p else in_empty_since i) \<and>
      (in_desired (pass_fn p i) = in_desired i \<or>
       in_idle_minutes i * minute \<le> time_sub (ps_now p) (in_empty_since (pass_fn p i)) \<and> 0 < in_idle_minutes i))"
proof -
  obtain ob phase oe where x: "ps_result p = (ob, phase, oe)" by (metis prod.collapse)
  show ?thesis
  proof (cases "oe = None \<and> phase = ''running'' \<and> ps_failure p = None \<and> as_running (ps_status p) \<and> as_ready (ps_status p)")
    case True
    then show ?thesis using x
      by (auto simp: pass_fn_def apply_change_def observe_fn_def apply_agent_status_def saw_nobody_def Let_def)
  next
    case False
    then show ?thesis using x
      by (cases oe; cases "ps_failure p")
        (auto simp: pass_fn_def apply_change_def observe_fn_def apply_agent_status_def saw_nobody_def Let_def)
  qed
qed

lemma pass_fn_idle_minutes: "in_idle_minutes (pass_fn p i) = in_idle_minutes i"
  by (auto simp: pass_fn_def apply_change_def observe_fn_def apply_agent_status_def Let_def
      split: prod.splits option.splits if_splits)

text \<open>The record's \<open>EmptySince\<close> is the time of the first pass of an unbroken run without players.\<close>

lemma empty_since_run:
  assumes "in_empty_since i = zero_time"
  shows "in_empty_since (fold pass_fn ps i) = zero_time \<or>
    (\<exists>before p rest. ps = before @ p # rest \<and> ps_now p = in_empty_since (fold pass_fn ps i) \<and>
       (\<forall>q\<in>set (p # rest). saw_nobody q))"
proof (induction ps rule: rev_induct)
  case Nil
  then show ?case using assms by simp
next
  case (snoc p ps)
  let ?i = "fold pass_fn ps i"
  have *: "fold pass_fn (ps @ [p]) i = pass_fn p ?i" by simp
  consider "in_empty_since (pass_fn p ?i) = zero_time"
    | (kept) "saw_nobody p" "in_empty_since (pass_fn p ?i) = in_empty_since ?i"
    | (first) "saw_nobody p" "in_empty_since (pass_fn p ?i) = ps_now p"
    using pass_fn_cases [of p ?i] by metis
  then show ?case
  proof cases
    case 1
    then show ?thesis by simp
  next
    case kept
    show ?thesis
    proof (cases "in_empty_since ?i = zero_time")
      case True
      then show ?thesis using kept by simp
    next
      case False
      then obtain before q rest where q: "ps = before @ q # rest" "ps_now q = in_empty_since ?i"
        "\<forall>x\<in>set (q # rest). saw_nobody x" using snoc.IH by blast
      then have "ps @ [p] = before @ q # (rest @ [p]) \<and> ps_now q = in_empty_since (pass_fn p ?i) \<and>
          (\<forall>x\<in>set (q # (rest @ [p])). saw_nobody x)" using kept by auto
      then show ?thesis unfolding * by blast
    qed
  next
    case first
    then have "ps @ [p] = ps @ p # [] \<and> ps_now p = in_empty_since (pass_fn p ?i) \<and> (\<forall>x\<in>set [p]. saw_nobody x)"
      by simp
    then show ?thesis unfolding * by blast
  qed
qed


definition quiet_pass :: "time \<Rightarrow> pass" where
  "quiet_pass t = \<lparr>ps_now = t, ps_result = (zero_observation, ''running'', None),
     ps_status = \<lparr>as_running = True, as_ready = True, as_players = 0, as_map = [], as_error = []\<rparr>, ps_failure = None\<rparr>"


section \<open>Idle shutdown\<close>

datatype intent =
    MakeIntent create_request string
  | SetIntent string string
  | RequestIntent string string string

fun run_intent :: "('w, 't) controller \<Rightarrow> bool \<Rightarrow> intent \<Rightarrow> 'w \<Rightarrow> (err + inst option) \<times> 'w" where
  "run_intent ct down (MakeIntent q rid) w =
     (case create_requested ct down q rid w of (Inl e, w) \<Rightarrow> (Inl e, w) | (Inr i, w) \<Rightarrow> (Inr (Some i), w))"
| "run_intent ct down (SetIntent k d) w =
     (case set_desired_op ct down k d w of (Inl e, w) \<Rightarrow> (Inl e, w) | (Inr u, w) \<Rightarrow> (Inr None, w))"
| "run_intent ct down (RequestIntent k rid d) w =
     (case request_desired ct down k rid d w of (Inl e, w) \<Rightarrow> (Inl e, w) | (Inr u, w) \<Rightarrow> (Inr None, w))"

text \<open>\<open>BeginIdleShutdown\<close> closes admission exactly when it answers true: it then read a list in
  which every instance is stopped or deleted without an error, and from then on every intent, in
  any order, is refused and leaves the world as it is.\<close>

theorem idle_shutdown_closes_admission:
  assumes "begin_idle_shutdown ct False w = ((Inr answer, down), w1)"
  shows "down = answer \<and> (\<exists>is. db_list (ct_db ct) w = (Inr is, w1) \<and> answer = instances_idle is) \<and>
    (answer \<longrightarrow> (\<forall>x w2. \<exists>e. run_intent ct down x w2 = (Inl e, w2)))"
proof -
  obtain "is" where l: "db_list (ct_db ct) w = (Inr is, w1)" "answer = instances_idle is" "down = answer"
    using assms by (auto simp: begin_idle_shutdown_def split: sum.splits prod.splits if_splits)
  have "\<exists>e. run_intent ct True x w2 = (Inl e, w2)" for x w2
    by (cases x) (auto simp: create_requested_def set_desired_op_def request_desired_def)
  then show ?thesis using l by auto
qed

theorem idle_shutdown_closes_admission_witness:
  "\<exists>down w1. begin_idle_shutdown desk_controller False empty_desk = ((Inr True, down), w1) \<and> down = True"
proof -
  have r: "begin_idle_shutdown desk_controller False empty_desk = ((Inr True, True), empty_desk)"
    by (simp add: begin_idle_shutdown_def desk_controller_def db_list_def desk_bolt_def desk_bucket_def
        empty_desk_def instances_idle_def)
  show ?thesis using idle_shutdown_closes_admission [OF r] r by blast
qed

section \<open>The database\<close>

text \<open>A stored instance is read back as it was written, private fields included, although the JSON
  of an instance leaves them out.\<close>

theorem stored_instance_round_trip:
  assumes "json_ok js" "encode js i = Inr d"
  shows "decode js (Some d) = Inr i"
  by (rule decode_encode [OF assms])

theorem stored_instance_round_trip_witness:
  "\<exists>d. encode memory_json desk_instance = Inr d \<and> decode memory_json (Some d) = Inr desk_instance"
proof -
  obtain d where d: "encode memory_json desk_instance = Inr d" by (simp add: encode_def memory_json_def)
  show ?thesis using stored_instance_round_trip [OF memory_json_ok d] d by blast
qed

text \<open>\<open>Store.Create\<close> is idempotent and never overwrites: it answers with the instance it wrote
  under an unused ID, or with the one that was there, made by the same request; a different request
  under a used ID is an error.\<close>

theorem create_never_overwrites:
  assumes "json_ok js" "create_txn js c t b = Inr (b', i)"
  shows "(instances js b (in_id c) = Some i \<and> same_request i c \<and> b' = b) \<or>
    (map_of b (in_id c) = None \<and> i = c \<and> instances js b' = (instances js b)(in_id c \<mapsto> c))"
  by (rule create_txn_cases [OF assms(2,1)])

theorem create_never_overwrites_witness:
  "\<exists>b. create_txn memory_json desk_instance 0 [] = Inr (b, desk_instance) \<and>
     instances memory_json b ''q1'' = Some desk_instance"
proof -
  obtain b where b: "create_txn memory_json desk_instance 0 [] = Inr (b, desk_instance)"
    by (simp add: create_txn_def encode_def memory_json_def)
  have "instances memory_json [] ''q1'' = None" "in_id desk_instance = ''q1''"
    by (simp_all add: instances_def desk_instance_def)
  then show ?thesis using create_never_overwrites [OF memory_json_ok b] b by auto
qed

end
