(* ===== verification/ControlCatalog.thy ===== *)
theory ControlCatalog
  imports Controller "HOL-Library.Multiset"
begin

text \<open>
  The catalog of games (internal/control/catalog.go). The file system and the JSON decoder are
  parameters: \<open>cf_glob\<close> gives the files \<open>game.json\<close> one directory below the root, and a
  read error says whether the file does not exist. The keys of a game's port map come as
  the list \<open>gm_ports\<close> in the order the loop visits them. The lemmas show what a loaded catalog
  satisfies.
\<close>

section \<open>Loading\<close>

record catalog_files =
  cf_glob :: "string \<Rightarrow> err + string list"
  cf_read :: "string \<Rightarrow> (bool \<times> err) + string"
  cf_parse :: "string \<Rightarrow> err + game"

text \<open>\<open>filepath.Join(filepath.Dir(path), name)\<close> for the clean paths \<open>Glob\<close> returns.\<close>

definition sibling :: "string \<Rightarrow> string \<Rightarrow> string" where
  "sibling path name = rev (dropWhile (\<lambda>c. c \<noteq> CHR ''/'') (rev path)) @ name"

definition port_number :: "string \<Rightarrow> int option" where
  "port_number key =
     (case split_on (CHR ''/'') key of
        [n, proto] \<Rightarrow>
          (case atoi n of
             None \<Rightarrow> None
           | Some p \<Rightarrow> if 1 \<le> p \<and> p \<le> 65535 \<and> (proto = ''tcp'' \<or> proto = ''udp'') then Some p else None)
      | _ \<Rightarrow> None)"

text \<open>The first bad key, or whether the game's port is among the keys.\<close>

fun scan_ports :: "int \<Rightarrow> string list \<Rightarrow> string + bool" where
  "scan_ports p [] = Inr False"
| "scan_ports p (k # ks) =
     (case port_number k of
        None \<Rightarrow> Inl k
      | Some n \<Rightarrow> (case scan_ports p ks of Inl bad \<Rightarrow> Inl bad | Inr found \<Rightarrow> Inr (n = p \<or> found)))"

definition check_game :: "string set \<Rightarrow> game \<Rightarrow> err + unit" where
  "check_game seen g =
     (if \<not> valid_id (gm_id g) \<or> gm_id g \<in> seen \<or> gm_cmd g = [] \<or> gm_game_port g < 1 \<or> gm_agent_port g < 1
      then Inl (ErrMsg ''invalid or duplicate game definition'')
      else if 65535 < gm_game_port g \<or> 65535 < gm_agent_port g \<or> gm_game_port g = gm_agent_port g
      then Inl (ErrMsg ''invalid game/agent port'')
      else (case scan_ports (gm_game_port g) (gm_ports g) of
              Inl k \<Rightarrow> Inl (ErrMsg (''invalid port '' @ quoted k))
            | Inr found \<Rightarrow> if found then Inr () else Inl (ErrMsg ''gamePort is missing from ports'')))"

definition default_fields :: "game \<Rightarrow> game" where
  "default_fields g =
     g\<lparr>gm_image := (if gm_image g = [] then ''ghcr.io/fogo-sh/insta-game:'' @ gm_id g else gm_image g),
       gm_data_root := (if gm_data_root g = [] then ''/opt'' else gm_data_root g),
       gm_config_path := (if gm_config_path g = [] then ''/opt/data/server.cfg'' else gm_config_path g)\<rparr>"

fun default_config :: "catalog_files \<Rightarrow> string \<Rightarrow> string list \<Rightarrow> game \<Rightarrow> err + game" where
  "default_config fs path [] g = Inr g"
| "default_config fs path (n # ns) g =
     (case cf_read fs (sibling path n) of
        Inr b \<Rightarrow> Inr (g\<lparr>gm_default_config := b\<rparr>)
      | Inl (missing, e) \<Rightarrow> if missing then default_config fs path ns g else Inl e)"

definition load_game :: "catalog_files \<Rightarrow> string set \<Rightarrow> string \<Rightarrow> err + game" where
  "load_game fs seen path =
     (case cf_read fs path of
        Inl (missing, e) \<Rightarrow> Inl e
      | Inr data \<Rightarrow>
          (case cf_parse fs data of
             Inl e \<Rightarrow> Inl (ErrWrap (path @ '': '') e)
           | Inr g \<Rightarrow>
               (case check_game seen g of
                  Inl e \<Rightarrow> Inl (ErrWrap (path @ '': '') e)
                | Inr u \<Rightarrow> default_config fs path [''server.cfg'', ''UnrealTournament.ini''] (default_fields g))))"

fun load_games :: "catalog_files \<Rightarrow> string set \<Rightarrow> string list \<Rightarrow> err + game list" where
  "load_games fs seen [] = Inr []"
| "load_games fs seen (p # ps) =
     (case load_game fs seen p of
        Inl e \<Rightarrow> Inl e
      | Inr g \<Rightarrow> (case load_games fs (insert (gm_id g) seen) ps of Inl e \<Rightarrow> Inl e | Inr gs \<Rightarrow> Inr (g # gs)))"

text \<open>\<open>sort.Slice\<close> leaves the order of games with one display name open; here they keep theirs.\<close>

definition load_catalog :: "catalog_files \<Rightarrow> string \<Rightarrow> err + game list" where
  "load_catalog fs root =
     (case cf_glob fs root of
        Inl e \<Rightarrow> Inl e
      | Inr paths \<Rightarrow>
          if paths = [] then Inl (ErrMsg (''no game.json files in '' @ root))
          else (case load_games fs {} paths of Inl e \<Rightarrow> Inl e | Inr gs \<Rightarrow> Inr (sort_key gm_display_name gs)))"

section \<open>What a catalog satisfies\<close>

definition game_ok :: "game \<Rightarrow> bool" where
  "game_ok g \<longleftrightarrow>
     valid_id (gm_id g) \<and> gm_cmd g \<noteq> [] \<and> gm_image g \<noteq> [] \<and> gm_data_root g \<noteq> [] \<and> gm_config_path g \<noteq> [] \<and>
     gm_game_port g \<in> {1..65535} \<and> gm_agent_port g \<in> {1..65535} \<and> gm_game_port g \<noteq> gm_agent_port g \<and>
     (\<forall>k\<in>set (gm_ports g). port_number k \<noteq> None) \<and> (\<exists>k\<in>set (gm_ports g). port_number k = Some (gm_game_port g))"

lemma scan_ports_ok:
  "scan_ports p ks = Inr found \<Longrightarrow> (\<forall>k\<in>set ks. port_number k \<noteq> None) \<and> (found \<longleftrightarrow> (\<exists>k\<in>set ks. port_number k = Some p))"
  by (induction ks arbitrary: found) (auto split: option.splits sum.splits)

lemma default_config_keeps:
  "default_config fs path ns g = Inr h \<Longrightarrow> \<exists>c. h = g\<lparr>gm_default_config := c\<rparr>"
proof (induction ns)
  case Nil
  then show ?case by (intro exI [of _ "gm_default_config g"]) simp
qed (auto split: sum.splits if_splits)

lemma load_game_ok:
  assumes "load_game fs seen path = Inr g"
  shows "game_ok g \<and> gm_id g \<notin> seen"
proof -
  obtain data g0 where g0: "cf_read fs path = Inr data" "cf_parse fs data = Inr g0" "check_game seen g0 = Inr ()"
    "default_config fs path [''server.cfg'', ''UnrealTournament.ini''] (default_fields g0) = Inr g"
    using assms unfolding load_game_def by (auto simp del: default_config.simps split: sum.splits)
  obtain c where g: "g = (default_fields g0)\<lparr>gm_default_config := c\<rparr>" using default_config_keeps [OF g0(4)] by blast
  have "scan_ports (gm_game_port g0) (gm_ports g0) = Inr True"
    using g0(3) by (auto simp: check_game_def split: if_splits sum.splits)
  from scan_ports_ok [OF this] g0(3) show ?thesis
    unfolding g game_ok_def by (simp add: check_game_def default_fields_def split: if_splits sum.splits)
qed

lemma load_games_ok:
  "load_games fs seen ps = Inr gs \<Longrightarrow> (\<forall>g\<in>set gs. game_ok g \<and> gm_id g \<notin> seen) \<and> distinct (map gm_id gs) \<and> length gs = length ps"
proof (induction ps arbitrary: seen gs)
  case (Cons p ps)
  obtain g hs where g: "load_game fs seen p = Inr g" "load_games fs (insert (gm_id g) seen) ps = Inr hs" "gs = g # hs"
    using Cons.prems by (auto split: sum.splits)
  from Cons.IH [OF g(2)] load_game_ok [OF g(1)] show ?case unfolding g(3) by auto
qed simp

lemma load_catalog_ok:
  assumes "load_catalog fs root = Inr gs"
  shows "gs \<noteq> [] \<and> (\<forall>g\<in>set gs. game_ok g) \<and> distinct (map gm_id gs) \<and> sorted (map gm_display_name gs)"
proof -
  obtain paths hs where p: "paths \<noteq> []" "load_games fs {} paths = Inr hs" "gs = sort_key gm_display_name hs"
    using assms by (auto simp: load_catalog_def split: sum.splits if_splits)
  have "hs \<noteq> []" using load_games_ok [OF p(2)] p(1) by auto
  moreover have "distinct (map gm_id gs)"
  proof -
    have "mset (map gm_id gs) = mset (map gm_id hs)" unfolding p(3) by simp
    then show ?thesis using load_games_ok [OF p(2)] mset_eq_imp_distinct_iff by metis
  qed
  ultimately show ?thesis using load_games_ok [OF p(2)] unfolding p(3) by (auto simp: set_empty [symmetric] simp del: set_empty)
qed

end
