(* ===== verification/Bytes.thy ===== *)
theory Bytes
  imports GoStrings
begin

text \<open>
  Bytes and their integers as the packet code uses them: encoding/binary in both byte orders,
  string literals as bytes, the prefix and trimming functions of the \<open>bytes\<close> package, and the
  update of a byte in place.
\<close>

unbundle bit_operations_syntax

type_synonym byte = "8 word"

section \<open>Literals\<close>

definition byte_of :: "char \<Rightarrow> byte" where
  "byte_of c = of_nat (of_char c)"

definition char_of_byte :: "byte \<Rightarrow> char" where
  "char_of_byte b = char_of (unat b)"

definition str :: "string \<Rightarrow> byte list" where
  "str s = map byte_of s"

definition text_of :: "byte list \<Rightarrow> string" where
  "text_of bs = map char_of_byte bs"

lemma unat_byte_of: "unat (byte_of c) = of_char c"
proof -
  have "(of_char c :: nat) \<in> range of_char" by simp
  then have "(of_char c :: nat) < 256" unfolding range_nat_of_char by simp
  then show ?thesis by (simp add: byte_of_def unat_of_nat)
qed

lemma char_of_byte_of [simp]: "char_of_byte (byte_of c) = c"
  by (simp add: char_of_byte_def unat_byte_of)

lemma byte_of_char_of [simp]: "byte_of (char_of_byte b) = b"
proof -
  have "unat b < 256" using unsigned_less [of b] by simp
  then show ?thesis by (simp add: byte_of_def char_of_byte_def)
qed

lemma text_of_str [simp]: "text_of (str s) = s"
  by (simp add: text_of_def str_def comp_def)

lemma str_text_of [simp]: "str (text_of bs) = bs"
  by (simp add: text_of_def str_def comp_def)

lemma str_length [simp]: "length (str s) = length s" "length (text_of bs) = length bs"
  by (simp_all add: str_def text_of_def)

section \<open>Integers in packets\<close>

text \<open>Reading past the end of a slice panics in Go; the callers check lengths first.\<close>

definition be16 :: "byte list \<Rightarrow> 16 word" where
  "be16 p = push_bit 8 (ucast (p ! 0)) OR ucast (p ! 1)"

definition be32 :: "byte list \<Rightarrow> 32 word" where
  "be32 p = push_bit 24 (ucast (p ! 0)) OR push_bit 16 (ucast (p ! 1)) OR push_bit 8 (ucast (p ! 2)) OR ucast (p ! 3)"

definition le32 :: "byte list \<Rightarrow> 32 word" where
  "le32 p = push_bit 24 (ucast (p ! 3)) OR push_bit 16 (ucast (p ! 2)) OR push_bit 8 (ucast (p ! 1)) OR ucast (p ! 0)"

definition put_be16 :: "16 word \<Rightarrow> byte list" where
  "put_be16 w = [ucast (drop_bit 8 w), ucast w]"

definition put_be32 :: "32 word \<Rightarrow> byte list" where
  "put_be32 w = [ucast (drop_bit 24 w), ucast (drop_bit 16 w), ucast (drop_bit 8 w), ucast w]"

definition put_le32 :: "32 word \<Rightarrow> byte list" where
  "put_le32 w = [ucast w, ucast (drop_bit 8 w), ucast (drop_bit 16 w), ucast (drop_bit 24 w)]"

lemma put_length [simp]: "length (put_be16 v) = 2" "length (put_be32 w) = 4" "length (put_le32 w) = 4"
  by (simp_all add: put_be16_def put_be32_def put_le32_def)

lemma be16_put [simp, wire_simps]: "be16 (put_be16 w @ rest) = w"
  unfolding be16_def put_be16_def
  by (rule bit_word_eqI) (auto simp: bit_simps less_diff_conv2 not_less)

lemma split_32:
  fixes w :: "32 word"
  assumes "a = ucast (drop_bit 24 w)" "b = ucast (drop_bit 16 w)" "c = ucast (drop_bit 8 w)" "d = ucast w"
  shows "push_bit 24 (ucast (a :: byte)) OR push_bit 16 (ucast (b :: byte)) OR
    push_bit 8 (ucast (c :: byte)) OR ucast (d :: byte) = w"
  unfolding assms
proof (rule bit_word_eqI)
  fix n assume "n < LENGTH(32)"
  then show "bit (push_bit 24 (ucast (ucast (drop_bit 24 w) :: byte)) OR push_bit 16 (ucast (ucast (drop_bit 16 w) :: byte)) OR
      push_bit 8 (ucast (ucast (drop_bit 8 w) :: byte)) OR ucast (ucast w :: byte) :: 32 word) n = bit w n"
    by (cases "n < 8"; cases "n < 16"; cases "n < 24") (auto simp: bit_simps)
qed

lemma be32_put [simp, wire_simps]: "be32 (put_be32 w @ rest) = w"
  unfolding be32_def put_be32_def by (rule split_32) simp_all

lemma le32_put [simp, wire_simps]: "le32 (put_le32 w @ rest) = w"
  unfolding le32_def put_le32_def by (rule split_32) simp_all

lemma be32_put_nil [simp, wire_simps]: "be32 (put_be32 w) = w" "le32 (put_le32 w) = w" "be16 (put_be16 v) = v"
  using be32_put [of w "[]"] le32_put [of w "[]"] be16_put [of v "[]"] by simp_all

text \<open>\<open>PutUint32(packet[k:], w)\<close>: four bytes overwritten in place.\<close>

definition set_be32 :: "nat \<Rightarrow> 32 word \<Rightarrow> byte list \<Rightarrow> byte list" where
  "set_be32 k w p = take k p @ put_be32 w @ drop (k + 4) p"

lemma set_be32_length: "k + 4 \<le> length p \<Longrightarrow> length (set_be32 k w p) = length p"
  by (simp add: set_be32_def)

lemma set_be32_set: "k + 4 \<le> length p \<Longrightarrow> set_be32 k w (set_be32 k v p) = set_be32 k w p"
  by (simp add: set_be32_def)

lemma set_be32_get: "k + 4 \<le> length p \<Longrightarrow> be32 (drop k (set_be32 k w p)) = w"
  by (simp add: set_be32_def)

lemma four_bytes: "4 \<le> length p \<Longrightarrow> take 4 p = [p ! 0, p ! 1, p ! 2, p ! 3]"
  by (cases p; cases "tl p"; cases "tl (tl p)"; cases "tl (tl (tl p))") (auto simp: numeral_eq_Suc)

lemma put_be32_get: "4 \<le> length p \<Longrightarrow> put_be32 (be32 p) = take 4 p"
proof -
  assume "4 \<le> length p"
  moreover have "ucast (drop_bit 24 (be32 p)) = p ! 0" "ucast (drop_bit 16 (be32 p)) = p ! 1"
    "ucast (drop_bit 8 (be32 p)) = p ! 2" "ucast (be32 p) = p ! 3"
    unfolding be32_def by (rule bit_word_eqI; auto simp: bit_simps not_less dest: bit_imp_le_length)+
  ultimately show ?thesis by (simp add: put_be32_def four_bytes)
qed

lemma set_be32_same: "k + 4 \<le> length p \<Longrightarrow> set_be32 k (be32 (drop k p)) p = p"
  by (simp add: set_be32_def put_be32_get) (metis append_take_drop_id drop_drop add.commute)

section \<open>Prefixes and trimming\<close>

definition bytes_prefix :: "byte list \<Rightarrow> byte list \<Rightarrow> bool" where
  "bytes_prefix p q \<longleftrightarrow> take (length q) p = q"

text \<open>\<open>bytes.TrimRight(p, "\<^bold>x")\<close> for one byte.\<close>

definition trim_right_byte :: "byte \<Rightarrow> byte list \<Rightarrow> byte list" where
  "trim_right_byte b p = rev (dropWhile (\<lambda>x. x = b) (rev p))"

text \<open>The part before the first NUL (\<open>strings.Cut\<close>).\<close>

definition before_nul :: "byte list \<Rightarrow> byte list" where
  "before_nul p = takeWhile (\<lambda>x. x \<noteq> 0) p"

end
