(* ===== verification/WakeWire.thy ===== *)
theory WakeWire
  imports Bytes
begin

text \<open>
  The packets of the wake gateway (internal/wake/wire.go, ut99.go and the recognition of
  connection requests in relay.go): NetQuake control and data frames, their parsing, the loading
  messages sent while a game boots, and the replies of a DarkPlaces handshake (darkplaces.go).
\<close>

section \<open>Frames\<close>

definition flag_control :: "32 word" where "flag_control = 0x80000000"
definition flag_data :: "32 word" where "flag_data = 0x00010000"
definition flag_ack :: "32 word" where "flag_ack = 0x00020000"
definition flag_nak :: "32 word" where "flag_nak = 0x00040000"
definition flag_eom :: "32 word" where "flag_eom = 0x00080000"
definition flag_unreliable :: "32 word" where "flag_unreliable = 0x00100000"

lemmas flag_defs = flag_control_def flag_data_def flag_ack_def flag_nak_def flag_eom_def flag_unreliable_def

definition backend_connect :: "byte list" where
  "backend_connect = [0x80, 0, 0, 12, 1] @ str ''QUAKE'' @ [0, 3]"

definition control_request :: "byte list \<Rightarrow> byte \<Rightarrow> bool" where
  "control_request p command \<longleftrightarrow>
     12 \<le> length p \<and> length p \<le> 1024 \<and> be32 p = flag_control OR of_nat (length p) \<and>
     p ! 4 = command \<and> take 6 (drop 5 p) = str ''QUAKE'' @ [0] \<and> p ! 11 = 3"

definition control_packet :: "byte \<Rightarrow> byte list \<Rightarrow> byte list" where
  "control_packet command payload = put_be32 (flag_control OR of_nat (5 + length payload)) @ [command] @ payload"

definition accept_packet :: "int \<Rightarrow> byte list" where
  "accept_packet port = control_packet 0x81 (put_le32 (word_of_int port))"

definition rejection :: "string \<Rightarrow> byte list" where
  "rejection m = control_packet 0x82 (str m @ [0])"

definition data_packet :: "32 word \<Rightarrow> byte list \<Rightarrow> byte list" where
  "data_packet s payload = put_be32 (flag_data OR flag_eom OR of_nat (8 + length payload)) @ put_be32 s @ payload"

definition frame :: "byte list \<Rightarrow> (32 word \<times> 32 word) option" where
  "frame p =
     (if length p < 8 then None
      else (let header = be32 p in
        if header AND flag_control \<noteq> 0 \<or> unat (header AND 0xffff) \<noteq> length p then None
        else Some (header AND 0xffff0000, be32 (drop 4 p))))"

definition print_message :: "string \<Rightarrow> byte list" where
  "print_message s = [8] @ str s @ [0]"

section \<open>Reading frames back\<close>

lemma mask_high: "(0xffff0000 :: 32 word) = push_bit 16 (mask 16)"
  by (simp add: mask_eq_exp_minus_1 push_bit_eq_mult)

lemma mask_low: "(0xffff :: 32 word) = mask 16"
  by (simp add: mask_eq_exp_minus_1)

lemma flag_bits:
  "flag_control = push_bit 31 1" "flag_data = push_bit 16 1" "flag_ack = push_bit 17 1"
  "flag_nak = push_bit 18 1" "flag_eom = push_bit 19 1" "flag_unreliable = push_bit 20 1"
  by (simp_all add: flag_defs push_bit_eq_mult)

lemma small_length:
  assumes "n < 65536"
  shows "take_bit 16 (of_nat n :: 32 word) = of_nat n" "unat (of_nat n :: 32 word) = n"
proof -
  show "unat (of_nat n :: 32 word) = n" using assms by (simp add: unat_of_nat)
  then have "unat (take_bit 16 (of_nat n :: 32 word)) = unat (of_nat n :: 32 word)"
    using assms by (simp add: unsigned_take_bit_eq take_bit_nat_eq_self)
  then show "take_bit 16 (of_nat n :: 32 word) = of_nat n" by (simp add: word_unat_eq_iff)
qed

text \<open>A header is its flags above bit 16 and the length below.\<close>

lemma header_parts:
  fixes f :: "32 word"
  assumes "f AND 0xffff = 0" "f AND 0xffff0000 = f" "n < 65536"
  shows "(f OR of_nat n) AND 0xffff0000 = f" "(f OR of_nat n) AND 0xffff = of_nat n"
proof -
  define v :: "32 word" where "v = of_nat n"
  have v: "take_bit 16 v = v" using small_length(1) [OF assms(3)] by (simp add: v_def)
  have "v AND 0xffff0000 = 0"
    by (subst v [symmetric], rule bit_word_eqI) (auto simp: mask_high bit_simps)
  then show "(f OR of_nat n) AND 0xffff0000 = f"
    using assms(2) by (simp add: bit.conj_disj_distrib2 v_def)
  have "v AND 0xffff = v" using v by (simp add: mask_low take_bit_eq_mask)
  then show "(f OR of_nat n) AND 0xffff = of_nat n"
    using assms(1) by (simp add: bit.conj_disj_distrib2 v_def)
qed

lemma control_bit_length: "n < 65536 \<Longrightarrow> (of_nat n :: 32 word) AND flag_control = 0"
proof -
  assume n: "n < 65536"
  have "take_bit 16 (of_nat n :: 32 word) AND flag_control = 0"
    by (simp add: take_bit_eq_mask and.assoc flag_control_def mask_numeral)
  then show ?thesis using small_length(1) [OF n] by simp
qed

lemma frame_header:
  fixes f :: "32 word"
  assumes "f AND 0xffff = 0" "f AND 0xffff0000 = f" "f AND flag_control = 0" "8 + length payload < 65536"
  shows "frame (put_be32 (f OR of_nat (8 + length payload)) @ put_be32 s @ payload) = Some (f, s)"
proof -
  have "(f OR of_nat (8 + length payload)) AND flag_control = 0"
    using assms(3) control_bit_length [OF assms(4)] by (simp add: bit.conj_disj_distrib2)
  moreover have "unat ((f OR of_nat (8 + length payload)) AND 0xffff) = 8 + length payload"
    using header_parts(2) [OF assms(1,2,4)] small_length(2) [OF assms(4)] by simp
  ultimately show ?thesis
    using header_parts(1) [OF assms(1,2,4)] by (simp add: frame_def Let_def)
qed

lemma frame_data_packet:
  "8 + length payload < 65536 \<Longrightarrow> frame (data_packet s payload) = Some (flag_data OR flag_eom, s)"
  unfolding data_packet_def or.assoc [symmetric] by (rule frame_header) (simp_all add: flag_defs)

lemma frame_SomeD:
  assumes "frame p = Some (flags, s)"
  shows "8 \<le> length p" "length p < 65536" "s = be32 (drop 4 p)" "flags = be32 p AND 0xffff0000"
    "flags AND flag_control = 0"
proof -
  have *: "8 \<le> length p" "be32 p AND flag_control = 0" "unat (be32 p AND 0xffff) = length p"
    "flags = be32 p AND 0xffff0000" "s = be32 (drop 4 p)"
    using assms by (auto simp: frame_def Let_def split: if_splits)
  then show "8 \<le> length p" "s = be32 (drop 4 p)" "flags = be32 p AND 0xffff0000" by simp_all
  have "be32 p AND 0xffff = take_bit 16 (be32 p)" by (simp add: mask_low take_bit_eq_mask)
  then have "unat (be32 p AND 0xffff) < 2 ^ 16"
    using take_bit_nat_less_exp [of 16 "unat (be32 p)"] by (simp add: unsigned_take_bit_eq)
  then show "length p < 65536" using * by simp
  show "flags AND flag_control = 0"
  proof -
    have "(be32 p AND 0xffff0000) AND flag_control = (be32 p AND flag_control) AND 0xffff0000"
      by (simp only: and.assoc and.commute [of flag_control])
    then show ?thesis using * by simp
  qed
qed

text \<open>Changing the sequence of a frame leaves its flags and its length.\<close>

lemma frame_set_sequence:
  assumes "frame p = Some (flags, s)"
  shows "frame (set_be32 4 v p) = Some (flags, v)"
proof -
  have len: "8 \<le> length p" using frame_SomeD(1) [OF assms] .
  have four: "take 4 (set_be32 4 v p) = take 4 p" using len by (simp add: set_be32_def)
  have "(set_be32 4 v p) ! j = p ! j" if "j < 4" for j
    using four that len by (metis nth_take)
  then have "be32 (set_be32 4 v p) = be32 p" by (simp add: be32_def)
  moreover have "be32 (drop 4 (set_be32 4 v p)) = v" using len by (simp add: set_be32_get)
  ultimately show ?thesis
    using assms len by (simp add: frame_def Let_def set_be32_length split: if_splits)
qed

lemma control_packet_request:
  assumes "length rest \<le> 1012" "rest' = str ''QUAKE'' @ [0, 3] @ rest"
  shows "control_request (control_packet c rest') c"
  using assms by (simp add: control_request_def control_packet_def str_def nth_append)

text \<open>The gateway's own connection request to a backend is one a gateway accepts.\<close>

lemma backend_connect_request: "control_request backend_connect 1"
  by (simp add: control_request_def backend_connect_def be32_def flag_control_def str_def byte_of_def)

text \<open>Data frames and control packets are told apart by the top bit.\<close>

lemma frame_not_control:
  assumes "control_request p c"
  shows "frame p = None"
proof -
  have "be32 p AND flag_control \<noteq> 0"
    using assms by (auto simp: control_request_def bit.conj_disj_distrib2 flag_control_def)
  then show ?thesis by (simp add: frame_def Let_def)
qed

section \<open>Connection requests of the other protocols\<close>

definition connectionless :: "byte list" where
  "connectionless = [255, 255, 255, 255]"

definition connection_request :: "string \<Rightarrow> byte list \<Rightarrow> bool" where
  "connection_request protocol p =
     (if p = [] \<or> 4096 < length p then False
      else if protocol = ''quake2'' \<or> protocol = ''quake3''
      then (if \<not> bytes_prefix p connectionless then False
            else (let command = trim_space (text_of (trim_right_byte 0 (drop 4 p))) in
              command = ''getchallenge'' \<or> has_prefix command ''getchallenge ''))
      else if protocol = ''ut99'' then 3 \<le> length p \<and> p ! 0 \<noteq> byte_of (CHR 0x5C)
      else False)"

definition ut99_rejection :: "byte list" where
  "ut99_rejection = [0x00, 0x80, 0x06, 0x20, 0x80, 0x20, 0x01, 0x82, 0x51, 0x50, 0x12, 0x53, 0x95, 0x54, 0x11, 0x40]"

text \<open>The bits of a packet in the order they are sent: least significant first.\<close>

definition wire_bits :: "byte list \<Rightarrow> bool list" where
  "wire_bits p = concat (map (\<lambda>b. map (bit b) [0..<8]) p)"

fun field :: "bool list \<Rightarrow> nat" where
  "field [] = 0"
| "field (b # bs) = of_bool b + 2 * field bs"

text \<open>
  The field layout the comment in ut99.go describes: packet ID (14), bunch marker (1), control,
  open, close, reliable flags (1 each), channel (10), sequence (10), channel type (3), payload
  size in bits (12), the payload, and a terminator bit followed by zero padding.
\<close>

fun take_fields :: "nat list \<Rightarrow> bool list \<Rightarrow> nat list" where
  "take_fields [] bs = []"
| "take_fields (n # ns) bs = field (take n bs) # take_fields ns (drop n bs)"

definition ut99_layout :: "nat list" where
  "ut99_layout = [14, 1, 1, 1, 1, 1, 10, 10, 3, 12] @ replicate 9 8 @ [1]"

lemma ut99_rejection_fields:
  "take_fields ut99_layout (wire_bits ut99_rejection) =
     [0, 0, 1, 0, 1, 1, 0, 1, 1, 72, 8] @ map of_char ''FAILURE'' @ [0, 1]"
  by (simp add: ut99_layout_def ut99_rejection_def wire_bits_def bit_simps upt_rec numeral_eq_Suc)

end
