(* ===== verification/WakeSession.thy ===== *)
theory WakeSession
  imports WakeWire
begin

text \<open>
  A NetQuake client while its game starts and after (internal/wake/session.go, \<open>session.run\<close>).
  The select loop is a function of the events it receives: the address of the game or an error,
  a packet of the client, a packet of the backend, a tick. A step yields the packets it sends and
  either the next state or the loop's return value; \<open>werr\<close> is the error of the step's write,
  if it makes one whose error the code looks at. The lemmas show that the loading messages and the
  game's own reliable packets form one unbroken numbering for the client.
\<close>

section \<open>State, events, outputs\<close>

record wait =
  wt_prefix :: "32 word"
  wt_pending :: "byte list option"
  wt_initial :: "byte list option"
  wt_target :: string
  wt_backend :: bool
  wt_last_seen :: time
  wt_sent_at :: time
  wt_next_message :: time
  wt_next_notice :: time
  wt_began :: time

datatype out = ToClient "byte list" | ToBackend "byte list" | Resolve

datatype outcome = Run wait | Return "err option"

datatype dialled = Connected | Rejected string | DialFailed err

datatype event =
    Cancelled
  | Ready "err + string"
  | FromClient time "byte list"
  | FromBackend "err + byte list"
  | Tick time

definition client_timeout :: int where "client_timeout = minute"

definition start_wait :: "time \<Rightarrow> wait" where
  "start_wait now =
     \<lparr>wt_prefix = 0, wt_pending = None, wt_initial = None, wt_target = [], wt_backend = False,
      wt_last_seen = now, wt_sent_at = zero_time, wt_next_message = now, wt_next_notice = now, wt_began = now\<rparr>"

text \<open>\<open>s.fail\<close>: an unreliable print and disconnect, three times.\<close>

definition fail_packet :: "string \<Rightarrow> byte list" where
  "fail_packet m =
     (let p = data_packet 0 (print_message (m @ [CHR 0x0A]) @ [2]) in
      set_be32 0 (flag_unreliable OR of_nat (length p)) p)"

definition fail_outs :: "string \<Rightarrow> out list" where
  "fail_outs m = replicate 3 (ToClient (fail_packet m))"

definition not_in_time :: string where
  "not_in_time = ''Server did not start in time. Please try again.''"

section \<open>The loop\<close>

text \<open>The head of an iteration: connect to the game once its address is known and no loading
  message waits for an acknowledgement. \<open>late\<close> is \<open>bootCtx.Err()\<close>.\<close>

definition wants_backend :: "wait \<Rightarrow> bool" where
  "wants_backend s \<longleftrightarrow> \<not> wt_backend s \<and> wt_target s \<noteq> [] \<and> wt_pending s = None"

definition attach :: "dialled \<Rightarrow> err option \<Rightarrow> wait \<Rightarrow> out list \<times> outcome" where
  "attach d late s =
     (if \<not> wants_backend s then ([], Run s)
      else (case d of
              Rejected reason \<Rightarrow> (fail_outs reason, Return (Some (ErrMsg reason)))
            | DialFailed e \<Rightarrow>
                if late \<noteq> None then (fail_outs not_in_time, Return (Some e))
                else ([Resolve], Run (s\<lparr>wt_target := []\<rparr>))
            | Connected \<Rightarrow>
                ((case wt_initial s of None \<Rightarrow> [] | Some p \<Rightarrow> [ToBackend p]), Run (s\<lparr>wt_backend := True\<rparr>))))"

definition disconnects :: "32 word \<Rightarrow> byte list \<Rightarrow> bool" where
  "disconnects flags p \<longleftrightarrow> flags AND (flag_data OR flag_unreliable) \<noteq> 0 \<and> length p = 9 \<and> p ! 8 = 2"

definition see_client :: "time \<Rightarrow> byte list \<Rightarrow> 32 word \<Rightarrow> 32 word \<Rightarrow> wait \<Rightarrow> wait" where
  "see_client now p flags sequence s =
     (let s = s\<lparr>wt_last_seen := now\<rparr>
      in if flags AND flag_data \<noteq> 0 \<and> sequence = 0 \<and> wt_initial s = None then s\<lparr>wt_initial := Some p\<rparr> else s)"

definition take_ack :: "32 word \<Rightarrow> 32 word \<Rightarrow> wait \<Rightarrow> wait" where
  "take_ack flags sequence s =
     (if flags AND flag_ack \<noteq> 0 \<and> wt_pending s \<noteq> None \<and> sequence = wt_prefix s
      then s\<lparr>wt_prefix := wt_prefix s + 1, wt_pending := None\<rparr> else s)"

definition client_packet :: "err option \<Rightarrow> time \<Rightarrow> byte list \<Rightarrow> wait \<Rightarrow> out list \<times> outcome" where
  "client_packet werr now p s =
     (case frame p of
        None \<Rightarrow> ([], Run s)
      | Some (flags, sequence) \<Rightarrow>
          (let s = see_client now p flags sequence s
           in if \<not> wt_backend s
              then (let s = take_ack flags sequence s
                    in if disconnects flags p then ([], Return None) else ([], Run s))
              else if flags AND (flag_ack OR flag_nak) \<noteq> 0 \<and> sequence < wt_prefix s then ([], Run s)
              else (let q = (if flags AND (flag_ack OR flag_nak) \<noteq> 0 then set_be32 4 (sequence - wt_prefix s) p else p)
                    in ([ToBackend q],
                        case werr of Some e \<Rightarrow> Return (Some e)
                        | None \<Rightarrow> if disconnects flags p then Return None else Run s))))"

definition backend_packet :: "err option \<Rightarrow> byte list \<Rightarrow> wait \<Rightarrow> out list \<times> outcome" where
  "backend_packet werr p s =
     (case frame p of
        None \<Rightarrow> ([], Run s)
      | Some (flags, sequence) \<Rightarrow>
          (let q = (if flags AND flag_data \<noteq> 0 then set_be32 4 (sequence + wt_prefix s) p else p)
           in ([ToClient q], case werr of Some e \<Rightarrow> Return (Some e) | None \<Rightarrow> Run s)))"

definition loading_text :: "int \<Rightarrow> string" where
  "loading_text n = ''Starting server... '' @ show_int n @ ''s elapsed. Please wait.'' @ [CHR 0x0A]"

definition loading_payload :: "time \<Rightarrow> wait \<Rightarrow> byte list" where
  "loading_payload now s =
     (if wt_next_notice s \<le> now then print_message (loading_text (time_sub now (wt_began s) div second)) else [1])"

definition tick :: "err option \<Rightarrow> err option \<Rightarrow> time \<Rightarrow> wait \<Rightarrow> out list \<times> outcome" where
  "tick late werr now s =
     (if client_timeout < time_sub now (wt_last_seen s) then ([], Return None)
      else if wt_backend s then ([], Run s)
      else if late \<noteq> None then (fail_outs not_in_time, Return late)
      else (case wt_pending s of
              Some p \<Rightarrow>
                if second \<le> time_sub now (wt_sent_at s)
                then ([ToClient p],
                      case werr of Some e \<Rightarrow> Return (Some e) | None \<Rightarrow> Run (s\<lparr>wt_sent_at := now\<rparr>))
                else ([], Run s)
            | None \<Rightarrow>
                if wt_target s = [] \<and> wt_next_message s \<le> now
                then (let p = data_packet (wt_prefix s) (loading_payload now s);
                          s = (if wt_next_notice s \<le> now then s\<lparr>wt_next_notice := now + 5 * second\<rparr> else s)
                      in ([ToClient p],
                          case werr of
                            Some e \<Rightarrow> Return (Some e)
                          | None \<Rightarrow> Run (s\<lparr>wt_pending := Some p, wt_sent_at := now,
                                         wt_next_message := now + 2 * second\<rparr>)))
                else ([], Run s)))"

fun handle :: "err option \<Rightarrow> err option \<Rightarrow> event \<Rightarrow> wait \<Rightarrow> out list \<times> outcome" where
  "handle late werr Cancelled s = ([], Return None)"
| "handle late werr (Ready r) s =
     (case r of
        Inl e \<Rightarrow> (fail_outs ''Unable to start server. Please try again shortly.'', Return (Some e))
      | Inr address \<Rightarrow> ([], Run (s\<lparr>wt_target := address\<rparr>)))"
| "handle late werr (FromClient now p) s = client_packet werr now p s"
| "handle late werr (FromBackend r) s =
     (case r of Inl e \<Rightarrow> ([], Return (Some e)) | Inr p \<Rightarrow> backend_packet werr p s)"
| "handle late werr (Tick now) s = tick late werr now s"

record input =
  ip_dialled :: dialled
  ip_late :: "err option"
  ip_werr :: "err option"
  ip_event :: event

definition iteration :: "input \<Rightarrow> wait \<Rightarrow> out list \<times> outcome" where
  "iteration x s =
     (case attach (ip_dialled x) (ip_late x) s of
        (outs, Return e) \<Rightarrow> (outs, Return e)
      | (outs, Run s) \<Rightarrow>
          (let (outs', r) = handle (ip_late x) (ip_werr x) (ip_event x) s in (outs @ outs', r)))"

fun run_session :: "input list \<Rightarrow> wait \<Rightarrow> out list \<times> outcome" where
  "run_session [] s = ([], Run s)"
| "run_session (x # xs) s =
     (case iteration x s of
        (outs, Return e) \<Rightarrow> (outs, Return e)
      | (outs, Run s) \<Rightarrow> (let (outs', r) = run_session xs s in (outs @ outs', r)))"

section \<open>One numbering for the client\<close>

text \<open>The reliable data frames among what was sent to the client, by sequence number.\<close>

definition reliable :: "out \<Rightarrow> 32 word option" where
  "reliable x =
     (case x of
        ToClient p \<Rightarrow> (case frame p of Some (f, s) \<Rightarrow> if f AND flag_data \<noteq> 0 then Some s else None | None \<Rightarrow> None)
      | _ \<Rightarrow> None)"

definition sequences :: "out list \<Rightarrow> 32 word list" where
  "sequences outs = List.map_filter reliable outs"

lemma sequences_append [simp]: "sequences (a @ b) = sequences a @ sequences b"
  by (simp add: sequences_def map_filter_def)

lemma sequences_nil [simp]: "sequences [] = []" "sequences [ToBackend p] = []" "sequences [Resolve] = []"
  by (simp_all add: sequences_def map_filter_def reliable_def)

text \<open>
  Before the game is attached the loading messages were sent in the order of their numbers, each one
  possibly repeated before the next: those below the prefix, which the client has acknowledged, and
  at most one more, the pending one, which carries the prefix as its number.
\<close>

definition waiting_ok :: "32 word list \<Rightarrow> wait \<Rightarrow> bool" where
  "waiting_ok sent s \<longleftrightarrow>
     (\<forall>p. wt_pending s = Some p \<longrightarrow> \<not> wt_backend s \<and> reliable (ToClient p) = Some (wt_prefix s)) \<and>
     (\<not> wt_backend s \<longrightarrow>
        remdups_adj sent = map of_nat [0..<unat (wt_prefix s) + (if wt_pending s = None then 0 else 1)])"

lemma remdups_adj_snoc: "remdups_adj (xs @ [x]) = remdups_adj xs @ (if xs \<noteq> [] \<and> last xs = x then [] else [x])"
proof (cases xs rule: rev_cases)
  case (snoc ys y)
  then show ?thesis using remdups_adj_append_two [of ys y x] by simp
qed simp

lemma remdups_adj_upto:
  assumes "remdups_adj sent = map of_nat [0..<Suc n]"
  shows "sent \<noteq> [] \<and> last sent = (of_nat n :: 32 word)"
proof -
  have "sent \<noteq> []" using assms by auto
  moreover have "last (remdups_adj sent) = last sent" by (simp add: last_remdups_adj)
  ultimately show ?thesis using assms by simp
qed

lemma remdups_adj_next:
  assumes "remdups_adj sent = map of_nat [0..<n]"
  shows "remdups_adj (sent @ [of_nat n :: 32 word]) = map of_nat [0..<Suc n]"
proof (cases n)
  case 0
  then show ?thesis using assms by (simp add: remdups_adj_snoc)
next
  case (Suc m)
  have "(of_nat m :: 32 word) \<noteq> of_nat m + 1" by simp
  then show ?thesis
    using assms remdups_adj_upto [of sent m] unfolding Suc remdups_adj_snoc by (simp add: add.commute)
qed

lemma loading_length: "length (loading_text (time_sub a b div second)) \<le> 80"
proof -
  define n where "n = time_sub a b div second"
  have "- (2 ^ 63) \<le> time_sub a b" "time_sub a b \<le> 2 ^ 63" by (simp_all add: time_sub_def)
  then have "- (10 ^ 11) < n" "n < 10 ^ 11" by (simp_all add: n_def second_def)
  then have "nat n < 10 ^ 11" "nat (- n) < 10 ^ 11" by simp_all
  from this [THEN show_nat_length]
  have "length (show_nat (nat n)) \<le> 11" "length (show_nat (nat (- n))) \<le> 11" by simp_all
  then show ?thesis by (simp add: loading_text_def show_int_def n_def [symmetric])
qed

lemma fail_not_reliable:
  assumes "length m \<le> 200"
  shows "reliable (ToClient (fail_packet m)) = None"
proof -
  define payload where "payload = print_message (m @ [CHR 0x0A]) @ [2]"
  have len: "8 + length payload < 65536" using assms by (simp add: payload_def print_message_def)
  have "fail_packet m = put_be32 (flag_unreliable OR of_nat (8 + length payload)) @ put_be32 0 @ payload"
    by (simp add: fail_packet_def payload_def [symmetric] data_packet_def set_be32_def)
  moreover have "frame (put_be32 (flag_unreliable OR of_nat (8 + length payload)) @ put_be32 0 @ payload) =
      Some (flag_unreliable, 0)"
    using len by (intro frame_header) (simp_all add: flag_defs)
  ultimately show ?thesis by (simp add: reliable_def flag_defs)
qed

lemma reliable_data:
  "8 + length payload < 65536 \<Longrightarrow> reliable (ToClient (data_packet s payload)) = Some s"
  by (simp add: reliable_def frame_data_packet flag_defs)

text \<open>What an iteration does to the numbering, as long as it goes on.\<close>

lemma attach_ok:
  assumes "attach d late s = (outs, Run s')" "waiting_ok sent s"
  shows "sequences outs = [] \<and> waiting_ok sent s' \<and> wt_prefix s' = wt_prefix s"
  using assms
  by (auto simp: attach_def waiting_ok_def wants_backend_def split: if_splits dialled.splits option.splits)

definition numbering_ok :: "32 word list \<Rightarrow> wait \<Rightarrow> out list \<Rightarrow> wait \<Rightarrow> bool" where
  "numbering_ok sent s outs s' \<longleftrightarrow>
     (wt_backend s \<longrightarrow> wt_backend s' \<and> wt_prefix s' = wt_prefix s \<and> wt_pending s' = None) \<and>
     (\<not> wt_backend s \<longrightarrow> \<not> wt_backend s' \<and> waiting_ok (sent @ sequences outs) s' \<and>
        unat (wt_prefix s') \<le> unat (wt_prefix s) + 1)"

lemma tick_ok:
  assumes ok: "waiting_ok sent s" and t: "tick late werr now s = (outs, Run s')"
  shows "numbering_ok sent s outs s'"
proof (cases "wt_backend s")
  case True
  then show ?thesis using assms by (auto simp: tick_def numbering_ok_def waiting_ok_def split: if_splits)
next
  case False
  have stay: "late = None" "\<not> client_timeout < time_sub now (wt_last_seen s)"
    using t False by (auto simp: tick_def split: if_splits)
  show ?thesis
  proof (cases "wt_pending s")
    case (Some p)
    have c: "outs = [] \<and> s' = s \<or> outs = [ToClient p] \<and> s' = s\<lparr>wt_sent_at := now\<rparr>"
      using t False stay Some by (auto simp: tick_def split: if_splits option.splits)
    have q: "sequences [ToClient p] = [wt_prefix s]"
      using ok Some by (simp add: waiting_ok_def sequences_def map_filter_def)
    have "remdups_adj sent = map of_nat [0..<Suc (unat (wt_prefix s))]"
      using ok False Some unfolding waiting_ok_def by simp
    from remdups_adj_upto [OF this] have e: "remdups_adj (sent @ [wt_prefix s]) = remdups_adj sent"
      by (simp add: remdups_adj_snoc)
    have "remdups_adj (sent @ sequences outs) = remdups_adj sent"
      using c by (elim disjE conjE) (simp_all only: q e, simp)
    moreover have "wt_pending s' = wt_pending s" "wt_prefix s' = wt_prefix s" "wt_backend s' = wt_backend s"
      using c by (elim disjE conjE; simp)+
    ultimately show ?thesis using ok False unfolding numbering_ok_def waiting_ok_def by simp
  next
    case None
    define p where "p = data_packet (wt_prefix s) (loading_payload now s)"
    have "length (loading_payload now s) \<le> 82"
      using loading_length [of now "wt_began s"] by (simp add: loading_payload_def print_message_def)
    then have rel: "reliable (ToClient p) = Some (wt_prefix s)" unfolding p_def by (intro reliable_data) simp
    have "outs = [] \<and> s' = s \<or>
      outs = [ToClient p] \<and> wt_pending s' = Some p \<and> wt_prefix s' = wt_prefix s \<and> wt_backend s' = wt_backend s"
      using t False stay None
      by (auto simp: tick_def Let_def p_def [symmetric] split: if_splits option.splits)
    moreover have "sequences [ToClient p] = [wt_prefix s]" using rel by (simp add: sequences_def map_filter_def)
    moreover have "remdups_adj (sent @ [wt_prefix s]) = map of_nat [0..<Suc (unat (wt_prefix s))]"
      using remdups_adj_next [of sent "unat (wt_prefix s)"] ok False None by (simp add: waiting_ok_def)
    ultimately show ?thesis using ok False None rel
      by (elim disjE conjE) (simp_all add: numbering_ok_def waiting_ok_def)
  qed
qed

lemma see_client_keeps [simp]:
  "wt_backend (see_client now p flags sequence s) = wt_backend s"
  "wt_prefix (see_client now p flags sequence s) = wt_prefix s"
  "wt_pending (see_client now p flags sequence s) = wt_pending s"
  "wt_target (see_client now p flags sequence s) = wt_target s"
  by (simp_all add: see_client_def Let_def)

lemma take_ack_ok:
  assumes ok: "waiting_ok sent s" and "\<not> wt_backend s" and bound: "unat (wt_prefix s) + 1 < 2 ^ 32"
  shows "numbering_ok sent s [] (take_ack flags sequence s)"
proof (cases "flags AND flag_ack \<noteq> 0 \<and> wt_pending s \<noteq> None \<and> sequence = wt_prefix s")
  case True
  have "unat (wt_prefix s + 1) = unat (wt_prefix s) + 1" using bound by (simp add: unat_word_ariths)
  moreover obtain q where "wt_pending s = Some q" using True by blast
  ultimately show ?thesis using True assms by (simp add: take_ack_def numbering_ok_def waiting_ok_def)
next
  case False
  then have "take_ack flags sequence s = s" unfolding take_ack_def by (rule if_not_P)
  with assms show ?thesis by (simp add: numbering_ok_def)
qed

lemma numbering_see_client:
  "numbering_ok sent (see_client now p flags sequence s) outs s' = numbering_ok sent s outs s'"
  "waiting_ok sent (see_client now p flags sequence s) = waiting_ok sent s"
  by (simp_all add: numbering_ok_def waiting_ok_def)

lemma client_packet_ok:
  assumes ok: "waiting_ok sent s" and t: "client_packet werr now p s = (outs, Run s')"
    and bound: "unat (wt_prefix s) + 1 < 2 ^ 32"
  shows "numbering_ok sent s outs s'"
proof (cases "frame p")
  case None
  then show ?thesis using ok t by (auto simp: client_packet_def numbering_ok_def waiting_ok_def)
next
  case (Some x)
  obtain flags sequence where x: "x = (flags, sequence)" by fastforce
  define s1 where "s1 = see_client now p flags sequence s"
  show ?thesis
  proof (cases "wt_backend s")
    case True
    then have "s' = s1"
      using t Some x
      by (auto simp: client_packet_def s1_def [symmetric] Let_def split: if_splits option.splits)
    then show ?thesis using ok True by (simp add: s1_def numbering_ok_def waiting_ok_def)
  next
    case False
    then have r: "outs = []" "s' = take_ack flags sequence s1"
      using t Some x by (simp_all add: client_packet_def s1_def Let_def split: if_splits)
    have "numbering_ok sent s1 [] s'"
      unfolding r using ok False bound by (intro take_ack_ok) (simp_all add: s1_def numbering_see_client)
    then show ?thesis by (simp add: r s1_def numbering_see_client)
  qed
qed

lemma handle_ok:
  assumes "waiting_ok sent s" "handle late werr ev s = (outs, Run s')" "unat (wt_prefix s) + 1 < 2 ^ 32"
    and "\<not> wt_backend s \<longrightarrow> (\<forall>r. ev \<noteq> FromBackend r)"
  shows "numbering_ok sent s outs s'"
proof (cases ev)
  case (Ready r)
  then show ?thesis using assms by (cases r) (auto simp: numbering_ok_def waiting_ok_def)
next
  case (FromClient now p)
  then show ?thesis using client_packet_ok assms by simp
next
  case (FromBackend r)
  then have "wt_backend s" using assms(4) by auto
  then show ?thesis using FromBackend assms(1,2)
    by (cases r) (auto simp: backend_packet_def numbering_ok_def waiting_ok_def Let_def split: option.splits)
next
  case (Tick now)
  then show ?thesis using tick_ok assms by simp
qed (use assms in simp)

section \<open>Whole runs\<close>

text \<open>
  A run of the loop that has not returned, with what it received and sent. Packets of the backend
  come only once it is connected: the code starts reading them then.
\<close>

definition possible :: "wait \<Rightarrow> event \<Rightarrow> bool" where
  "possible s ev \<longleftrightarrow> wt_backend s \<or> (case ev of FromBackend r \<Rightarrow> False | _ \<Rightarrow> True)"

inductive session_run :: "wait \<Rightarrow> input list \<Rightarrow> out list \<Rightarrow> wait \<Rightarrow> bool" where
  session_begins: "session_run s [] [] s"
| session_goes_on:
    "session_run s xs outs s1 \<Longrightarrow> attach (ip_dialled x) (ip_late x) s1 = (outs1, Run s2) \<Longrightarrow>
     possible s2 (ip_event x) \<Longrightarrow> handle (ip_late x) (ip_werr x) (ip_event x) s2 = (outs2, Run s3) \<Longrightarrow>
     session_run s (xs @ [x]) (outs @ outs1 @ outs2) s3"

inductive_cases session_run_snocE: "session_run s (xs @ [x]) outs s'"

text \<open>The reliable frames the game sent, by its own numbers.\<close>

definition game_sequences :: "input list \<Rightarrow> 32 word list" where
  "game_sequences xs =
     List.map_filter (\<lambda>x. case ip_event x of FromBackend (Inr p) \<Rightarrow> reliable (ToClient p) | _ \<Rightarrow> None) xs"

lemma game_sequences_snoc:
  "game_sequences (xs @ [x]) = game_sequences xs @
     (case ip_event x of FromBackend (Inr p) \<Rightarrow> (case reliable (ToClient p) of Some q \<Rightarrow> [q] | None \<Rightarrow> []) | _ \<Rightarrow> [])"
  by (simp add: game_sequences_def map_filter_def split: event.split sum.split option.split)

definition one_numbering :: "32 word list \<Rightarrow> 32 word list \<Rightarrow> wait \<Rightarrow> bool" where
  "one_numbering sent game s \<longleftrightarrow>
     (\<exists>loading. sent = loading @ map (\<lambda>q. q + wt_prefix s) game \<and>
        remdups_adj loading = map of_nat [0..<unat (wt_prefix s) + (if wt_pending s = None then 0 else 1)]) \<and>
     (\<not> wt_backend s \<longrightarrow> game = [])"

lemma handle_attached:
  assumes "wt_backend s" "wt_pending s = None" "handle late werr ev s = (outs, Run s')"
  shows "wt_backend s' \<and> wt_pending s' = None \<and> wt_prefix s' = wt_prefix s \<and>
    sequences outs = map (\<lambda>q. q + wt_prefix s)
      (case ev of FromBackend (Inr p) \<Rightarrow> (case reliable (ToClient p) of Some q \<Rightarrow> [q] | None \<Rightarrow> []) | _ \<Rightarrow> [])"
proof (cases ev)
  case (Ready r)
  then show ?thesis using assms by (cases r) auto
next
  case (FromClient now p)
  then show ?thesis using assms
    by (auto simp: client_packet_def Let_def split: option.splits if_splits)
next
  case (FromBackend r)
  then obtain p where r: "r = Inr p" using assms(3) by (cases r) auto
  show ?thesis
  proof (cases "frame p")
    case None
    then show ?thesis using FromBackend r assms by (simp add: backend_packet_def reliable_def)
  next
    case (Some fs)
    obtain f q where fs: "fs = (f, q)" by fastforce
    have "frame (set_be32 4 (q + wt_prefix s) p) = Some (f, q + wt_prefix s)"
      using Some fs by (auto intro: frame_set_sequence)
    then show ?thesis using FromBackend r assms Some fs
      by (auto simp: backend_packet_def reliable_def sequences_def map_filter_def Let_def split: option.splits)
  qed
next
  case (Tick now)
  then show ?thesis using assms by (auto simp: tick_def split: if_splits)
qed (use assms in simp)

definition run_ok :: "input list \<Rightarrow> out list \<Rightarrow> wait \<Rightarrow> bool" where
  "run_ok xs outs s \<longleftrightarrow>
     one_numbering (sequences outs) (game_sequences xs) s \<and> unat (wt_prefix s) \<le> length xs \<and>
     (\<forall>p. wt_pending s = Some p \<longrightarrow> \<not> wt_backend s \<and> reliable (ToClient p) = Some (wt_prefix s))"

lemma run_ok_waiting: "run_ok xs outs s \<Longrightarrow> \<not> wt_backend s \<Longrightarrow> waiting_ok (sequences outs) s \<and> game_sequences xs = []"
  by (auto simp: run_ok_def one_numbering_def waiting_ok_def)

lemma attach_cases:
  assumes "attach d late s = (outs, Run s')"
  obtains "s' = s" "outs = []"
  | "\<not> wt_backend s" "wt_pending s = None" "sequences outs = []" "s' = s\<lparr>wt_target := []\<rparr>"
  | "\<not> wt_backend s" "wt_pending s = None" "sequences outs = []" "s' = s\<lparr>wt_backend := True\<rparr>"
proof (cases "wants_backend s")
  case False
  then show ?thesis using assms by (intro that(1)) (simp_all add: attach_def)
next
  case True
  then have w: "\<not> wt_backend s" "wt_pending s = None" by (simp_all add: wants_backend_def)
  show ?thesis
  proof (cases d)
    case Connected
    then show ?thesis using assms True w
      by (intro that(3)) (auto simp: attach_def split: option.splits)
  next
    case (DialFailed e)
    then show ?thesis using assms True w by (intro that(2)) (auto simp: attach_def split: if_splits)
  qed (use assms True in \<open>simp add: attach_def\<close>)
qed

lemma session_run_ok:
  "session_run s xs outs s' \<Longrightarrow> s = start_wait began \<Longrightarrow> length xs < 2 ^ 32 \<Longrightarrow> run_ok xs outs s'"
proof (induction rule: session_run.induct)
  case (session_begins s)
  then show ?case
    by (simp add: run_ok_def one_numbering_def start_wait_def game_sequences_def map_filter_def)
next
  case (session_goes_on s xs outs s1 x outs1 s2 outs2 s3)
  have ok: "run_ok xs outs s1" and len: "length xs + 1 < 2 ^ 32" using session_goes_on by simp_all
  from session_goes_on.hyps(2) have ok2: "run_ok xs (outs @ outs1) s2"
  proof (cases rule: attach_cases)
    case 3
    then show ?thesis using ok unfolding run_ok_def one_numbering_def by auto
  qed (use ok in \<open>auto simp: run_ok_def one_numbering_def\<close>)
  show ?case
  proof (cases "wt_backend s2")
    case True
    then have "wt_pending s2 = None" using ok2 unfolding run_ok_def by fastforce
    note h = handle_attached [OF True this session_goes_on.hyps(4)]
    obtain loading where l: "sequences (outs @ outs1) = loading @ map (\<lambda>q. q + wt_prefix s2) (game_sequences xs)"
      "remdups_adj loading = map of_nat [0..<unat (wt_prefix s2)]"
      using ok2 \<open>wt_pending s2 = None\<close> unfolding run_ok_def one_numbering_def by auto
    have "sequences (outs @ outs1 @ outs2) = loading @ map (\<lambda>q. q + wt_prefix s3) (game_sequences (xs @ [x]))"
      using h l(1) unfolding game_sequences_snoc by simp
    moreover have "unat (wt_prefix s3) \<le> length (xs @ [x])" using h ok2 by (simp add: run_ok_def)
    ultimately show ?thesis unfolding run_ok_def one_numbering_def using h l(2) by simp
  next
    case False
    have b: "unat (wt_prefix s2) + 1 < 2 ^ 32" using ok2 len by (simp add: run_ok_def)
    have w: "waiting_ok (sequences (outs @ outs1)) s2" "game_sequences xs = []"
      using run_ok_waiting [OF ok2 False] by simp_all
    have fb: "\<forall>r. ip_event x \<noteq> FromBackend r"
      using session_goes_on.hyps(3) False by (auto simp: possible_def)
    then have "game_sequences (xs @ [x]) = []"
      using w(2) by (simp add: game_sequences_snoc split: event.split sum.split)
    moreover have "numbering_ok (sequences (outs @ outs1)) s2 outs2 s3"
      using handle_ok [OF w(1) session_goes_on.hyps(4) b] fb by simp
    ultimately show ?thesis using False ok2
      unfolding numbering_ok_def waiting_ok_def run_ok_def one_numbering_def by simp
  qed
qed

end
