(* ===== verification/BZWire.thy ===== *)
theory BZWire
  imports Bytes
begin

text \<open>
  BZFlag packets (internal/wake/bzflag_wire.go): building and reading them, and the translation of
  player IDs between the gateway's virtual ID and the backend's. The lemmas show that a
  translation changes only the ID bytes the opcode names, swaps exactly the two IDs there, and is
  undone by translating again.
\<close>

section \<open>Opcodes\<close>

definition bz_version :: string where "bz_version = ''BZFS0221''"

definition bz_accept :: "16 word" where "bz_accept = 0x6163"
definition bz_add_player :: "16 word" where "bz_add_player = 0x6170"
definition bz_admin_info :: "16 word" where "bz_admin_info = 0x6169"
definition bz_alive :: "16 word" where "bz_alive = 0x616c"
definition bz_auto_pilot :: "16 word" where "bz_auto_pilot = 0x6175"
definition bz_cache_url :: "16 word" where "bz_cache_url = 0x6375"
definition bz_capture_flag :: "16 word" where "bz_capture_flag = 0x6366"
definition bz_custom_sound :: "16 word" where "bz_custom_sound = 0x6373"
definition bz_drop_flag :: "16 word" where "bz_drop_flag = 0x6466"
definition bz_enter :: "16 word" where "bz_enter = 0x656e"
definition bz_exit :: "16 word" where "bz_exit = 0x6578"
definition bz_fetch_resources :: "16 word" where "bz_fetch_resources = 0x6672"
definition bz_flag_type :: "16 word" where "bz_flag_type = 0x6674"
definition bz_flag_update :: "16 word" where "bz_flag_update = 0x6675"
definition bz_gm_update :: "16 word" where "bz_gm_update = 0x676d"
definition bz_game_settings :: "16 word" where "bz_game_settings = 0x6773"
definition bz_game_time :: "16 word" where "bz_game_time = 0x6774"
definition bz_get_world :: "16 word" where "bz_get_world = 0x6777"
definition bz_grab_flag :: "16 word" where "bz_grab_flag = 0x6766"
definition bz_handicap :: "16 word" where "bz_handicap = 0x6863"
definition bz_killed :: "16 word" where "bz_killed = 0x6b6c"
definition bz_lag_ping :: "16 word" where "bz_lag_ping = 0x7069"
definition bz_message :: "16 word" where "bz_message = 0x6d67"
definition bz_near_flag :: "16 word" where "bz_near_flag = 0x4e66"
definition bz_negotiate_flags :: "16 word" where "bz_negotiate_flags = 0x6e66"
definition bz_new_rabbit :: "16 word" where "bz_new_rabbit = 0x6e52"
definition bz_pause :: "16 word" where "bz_pause = 0x7061"
definition bz_player_info :: "16 word" where "bz_player_info = 0x7062"
definition bz_player_update :: "16 word" where "bz_player_update = 0x7075"
definition bz_player_update_small :: "16 word" where "bz_player_update_small = 0x7073"
definition bz_query_game :: "16 word" where "bz_query_game = 0x7167"
definition bz_query_players :: "16 word" where "bz_query_players = 0x7170"
definition bz_reject_code :: "16 word" where "bz_reject_code = 0x726a"
definition bz_remove_player :: "16 word" where "bz_remove_player = 0x7270"
definition bz_replay_reset :: "16 word" where "bz_replay_reset = 0x7272"
definition bz_score :: "16 word" where "bz_score = 0x7363"
definition bz_score_over :: "16 word" where "bz_score_over = 0x736f"
definition bz_set_var :: "16 word" where "bz_set_var = 0x7376"
definition bz_shot_begin :: "16 word" where "bz_shot_begin = 0x7362"
definition bz_shot_end :: "16 word" where "bz_shot_end = 0x7365"
definition bz_super_kill :: "16 word" where "bz_super_kill = 0x736b"
definition bz_team_update :: "16 word" where "bz_team_update = 0x7475"
definition bz_teleport :: "16 word" where "bz_teleport = 0x7470"
definition bz_time_update :: "16 word" where "bz_time_update = 0x746f"
definition bz_transfer_flag :: "16 word" where "bz_transfer_flag = 0x7466"
definition bz_udp_link_established :: "16 word" where "bz_udp_link_established = 0x6f67"
definition bz_udp_link_request :: "16 word" where "bz_udp_link_request = 0x6f66"
definition bz_want_settings :: "16 word" where "bz_want_settings = 0x7773"
definition bz_want_whash :: "16 word" where "bz_want_whash = 0x7768"

lemmas bz_codes =
  bz_accept_def bz_add_player_def bz_admin_info_def bz_alive_def bz_auto_pilot_def bz_cache_url_def
  bz_capture_flag_def bz_custom_sound_def bz_drop_flag_def bz_enter_def bz_exit_def
  bz_fetch_resources_def bz_flag_type_def bz_flag_update_def bz_gm_update_def bz_game_settings_def
  bz_game_time_def bz_get_world_def bz_grab_flag_def bz_handicap_def bz_killed_def bz_lag_ping_def
  bz_message_def bz_near_flag_def bz_negotiate_flags_def bz_new_rabbit_def bz_pause_def
  bz_player_info_def bz_player_update_def bz_player_update_small_def bz_query_game_def
  bz_query_players_def bz_reject_code_def bz_remove_player_def bz_replay_reset_def bz_score_def
  bz_score_over_def bz_set_var_def bz_shot_begin_def bz_shot_end_def bz_super_kill_def
  bz_team_update_def bz_teleport_def bz_time_update_def bz_transfer_flag_def
  bz_udp_link_established_def bz_udp_link_request_def bz_want_settings_def bz_want_whash_def

section \<open>Packets\<close>

definition bz_packet :: "16 word \<Rightarrow> byte list \<Rightarrow> byte list" where
  "bz_packet code payload = put_be16 (of_nat (length payload)) @ put_be16 code @ payload"

text \<open>
  \<open>bzRead\<close> on a stream that holds these bytes and then ends: the packet and what is left.
  An end inside the header or the payload is an error.
\<close>

definition bz_read :: "byte list \<Rightarrow> err + (byte list \<times> byte list)" where
  "bz_read r =
     (if length r < 4 then Inl (ErrMsg ''unexpected EOF'')
      else (let n = unat (be16 r) in
        if 1020 < n then Inl (ErrMsg ''BZFlag packet exceeds 1024 bytes'')
        else if length r < n + 4 then Inl (ErrMsg ''unexpected EOF'')
        else Inr (take (n + 4) r, drop (n + 4) r)))"

definition bz_valid :: "byte list \<Rightarrow> bool" where
  "bz_valid p \<longleftrightarrow> 4 \<le> length p \<and> length p \<le> 1024 \<and> unat (be16 p) + 4 = length p"

section \<open>Where a packet names players\<close>

text \<open>\<open>for i := from; i < n; i += stride\<close>\<close>

function positions :: "nat \<Rightarrow> nat \<Rightarrow> nat \<Rightarrow> nat list" where
  "positions i n stride = (if stride = 0 \<or> n \<le> i then [] else i # positions (i + stride) n stride)"
  by pat_completeness auto
termination by (relation "measure (\<lambda>(i, n, stride). n - i)") auto

declare positions.simps [simp del]

text \<open>The address list: entries of a length byte, an ID, and the rest of the entry.\<close>

fun admin_offsets :: "byte list \<Rightarrow> nat \<Rightarrow> nat \<Rightarrow> (nat list \<times> nat) option" where
  "admin_offsets p i 0 = Some ([], i)"
| "admin_offsets p i (Suc count) =
     (if length p \<le> i \<or> unat (p ! i) < 2 \<or> length p < i + 2 + unat (p ! i) then None
      else (case admin_offsets p (i + 2 + unat (p ! i)) count of
              None \<Rightarrow> None
            | Some (os, j) \<Rightarrow> Some ((i + 1) # os, j)))"

definition one_id :: "16 word list" where
  "one_id = [bz_accept, bz_score_over, bz_add_player, bz_remove_player, bz_alive, bz_auto_pilot, bz_pause,
     bz_capture_flag, bz_new_rabbit, bz_shot_end, bz_teleport]"

definition server_plain :: "16 word list" where
  "server_plain = [bz_custom_sound, bz_cache_url, bz_flag_type, bz_fetch_resources, bz_get_world,
     bz_game_settings, bz_game_time, bz_near_flag, bz_negotiate_flags, bz_query_game, bz_query_players,
     bz_reject_code, bz_super_kill, bz_set_var, bz_time_update, bz_team_update, bz_want_whash,
     bz_udp_link_request, bz_udp_link_established, bz_lag_ping]"

definition client_plain :: "16 word list" where
  "client_plain = [bz_enter, bz_exit, bz_negotiate_flags, bz_get_world, bz_want_settings, bz_want_whash,
     bz_query_game, bz_query_players, bz_alive, bz_grab_flag, bz_drop_flag, bz_capture_flag, bz_teleport,
     bz_udp_link_established, bz_new_rabbit, bz_pause, bz_auto_pilot, bz_lag_ping]"

definition list_stride :: "16 word \<Rightarrow> nat" where
  "list_stride code = (if code = bz_handicap then 3 else if code = bz_score then 7 else 2)"

definition server_offsets :: "16 word \<Rightarrow> byte list \<Rightarrow> err + nat list" where
  "server_offsets code p =
     (if code \<in> set one_id then Inr [0]
      else if code = bz_killed \<or> code = bz_message then Inr [0, 1]
      else if code = bz_grab_flag \<or> code = bz_drop_flag then Inr [0, 9]
      else if code = bz_transfer_flag then Inr [0, 1, 10]
      else if code = bz_flag_update
      then (if length p < 2 \<or> length p \<noteq> 2 + 57 * unat (be16 p) then Inl (ErrMsg ''invalid BZFlag flag list'')
            else Inr (map (\<lambda>i. i + 8) (positions 2 (length p) 57)))
      else if code = bz_handicap \<or> code = bz_score \<or> code = bz_player_info
      then (if length p < 1 \<or> length p \<noteq> 1 + unat (p ! 0) * list_stride code
            then Inl (ErrMsg ''invalid BZFlag player list'')
            else Inr (positions 1 (length p) (list_stride code)))
      else if code = bz_admin_info
      then (if length p < 1 then Inl (ErrMsg ''invalid BZFlag address list'')
            else (case admin_offsets p 1 (unat (p ! 0)) of
                    None \<Rightarrow> Inl (ErrMsg ''invalid BZFlag address entry'')
                  | Some (os, i) \<Rightarrow>
                      if i \<noteq> length p then Inl (ErrMsg ''invalid BZFlag address list length'') else Inr os))
      else if code = bz_player_update \<or> code = bz_player_update_small \<or> code = bz_shot_begin then Inr [4]
      else if code = bz_gm_update then Inr [0, 33]
      else if code \<in> set server_plain then Inr []
      else Inl (ErrMsg (''unsupported BZFlag server opcode '' @ show_hex4 (unat code))))"

definition client_offsets :: "16 word \<Rightarrow> err + nat list" where
  "client_offsets code =
     (if code = bz_killed \<or> code = bz_shot_end \<or> code = bz_message \<or> code = bz_udp_link_request then Inr [0]
      else if code = bz_transfer_flag then Inr [0, 1]
      else if code = bz_player_update \<or> code = bz_player_update_small \<or> code = bz_shot_begin then Inr [4]
      else if code = bz_gm_update then Inr [0, 33]
      else if code \<in> set client_plain then Inr []
      else Inl (ErrMsg (''unsupported BZFlag client opcode '' @ show_hex4 (unat code))))"

definition id_offsets :: "bool \<Rightarrow> 16 word \<Rightarrow> byte list \<Rightarrow> err + nat list" where
  "id_offsets from_server code p = (if from_server then server_offsets code p else client_offsets code)"

section \<open>Translation\<close>

definition swap_id :: "byte \<Rightarrow> byte \<Rightarrow> byte \<Rightarrow> byte" where
  "swap_id virtual actual b = (if b = virtual then actual else if b = actual then virtual else b)"

fun swap_at :: "byte \<Rightarrow> byte \<Rightarrow> nat list \<Rightarrow> byte list \<Rightarrow> byte list" where
  "swap_at virtual actual [] p = p"
| "swap_at virtual actual (i # os) p = swap_at virtual actual os (p[i := swap_id virtual actual (p ! i)])"

definition bz_translate :: "byte list \<Rightarrow> byte \<Rightarrow> byte \<Rightarrow> bool \<Rightarrow> err + byte list" where
  "bz_translate packet virtual actual from_server =
     (if \<not> bz_valid packet then Inl (ErrMsg ''invalid BZFlag packet'')
      else (let p = drop 4 packet; code = be16 (drop 2 packet) in
        case id_offsets from_server code p of
          Inl e \<Rightarrow> Inl e
        | Inr os \<Rightarrow>
            if \<exists>i\<in>set os. length p \<le> i then Inl (ErrMsg (''truncated BZFlag opcode '' @ show_hex4 (unat code)))
            else Inr (take 4 packet @ swap_at virtual actual os p)))"

text \<open>A datagram of several messages. The source translates in place and gives up at the first
  message that fails; the caller then drops the connection.\<close>

function bz_translate_messages :: "byte list \<Rightarrow> byte \<Rightarrow> byte \<Rightarrow> err + byte list" where
  "bz_translate_messages packet virtual actual =
     (if packet = [] then Inr []
      else if length packet < 4 then Inl (ErrMsg ''truncated BZFlag datagram'')
      else (let n = 4 + unat (be16 packet) in
        if length packet < n then Inl (ErrMsg ''truncated BZFlag datagram message'')
        else (case bz_translate (take n packet) virtual actual True of
                Inl e \<Rightarrow> Inl e
              | Inr q \<Rightarrow>
                  (case bz_translate_messages (drop n packet) virtual actual of
                     Inl e \<Rightarrow> Inl e
                   | Inr qs \<Rightarrow> Inr (q @ qs)))))"
  by pat_completeness auto
termination by (relation "measure (\<lambda>(p, v, a). length p)") auto

declare bz_translate_messages.simps [simp del]

definition bz_translate_datagram :: "byte list \<Rightarrow> byte \<Rightarrow> byte \<Rightarrow> err + byte list" where
  "bz_translate_datagram packet virtual actual =
     (if packet = [] \<or> 1024 < length packet then Inl (ErrMsg ''invalid BZFlag datagram'')
      else bz_translate_messages packet virtual actual)"

text \<open>The refusal of a connection: a fixed 130-byte payload, the message cut to 127 bytes.\<close>

definition bz_reject_packet :: "string \<Rightarrow> byte list" where
  "bz_reject_packet m =
     (let text = take 127 (str m) in
      bz_packet bz_reject_code (put_be16 1 @ text @ replicate (128 - length text) 0))"

section \<open>Swapping\<close>

lemma swap_id_invol [simp]: "swap_id v a (swap_id v a b) = b"
  by (simp add: swap_id_def)

lemma swap_id_same [simp]: "swap_id v v b = b"
  by (simp add: swap_id_def)

lemma swap_at_length [simp]: "length (swap_at v a os p) = length p"
  by (induction os arbitrary: p) simp_all

lemma swap_at_nth:
  assumes "distinct os" "\<forall>i\<in>set os. i < length p" "k < length p"
  shows "swap_at v a os p ! k = (if k \<in> set os then swap_id v a (p ! k) else p ! k)"
  using assms by (induction os arbitrary: p) (auto simp: nth_list_update)

lemma swap_at_invol:
  assumes "distinct os" "\<forall>i\<in>set os. i < length p"
  shows "swap_at v a os (swap_at v a os p) = p"
proof (rule nth_equalityI)
  fix k assume "k < length (swap_at v a os (swap_at v a os p))"
  then have "k < length p" by simp
  then show "swap_at v a os (swap_at v a os p) ! k = p ! k"
    using assms by (simp add: swap_at_nth)
qed simp

lemma swap_at_same: "swap_at v v os p = p"
proof (induction os arbitrary: p)
  case (Cons i os)
  then show ?case by (simp add: list_update_id)
qed simp

section \<open>The offsets do not depend on the IDs\<close>

lemma positions_bounds: "i \<in> set (positions k n s) \<Longrightarrow> k \<le> i \<and> i < n"
proof (induction k n s rule: positions.induct)
  case (1 k n s)
  then show ?case by (subst (asm) (2) positions.simps) (fastforce split: if_splits)
qed

lemma positions_distinct: "distinct (positions k n s)"
proof (induction k n s rule: positions.induct)
  case (1 k n s)
  have "k \<notin> set (positions (k + s) n s)" if "s \<noteq> 0" using positions_bounds that by fastforce
  then show ?case using 1 by (subst positions.simps) auto
qed

text \<open>Positions the address list reads as lengths.\<close>

lemma admin_offsets_bounds:
  "admin_offsets p i c = Some (os, j) \<Longrightarrow> (\<forall>k\<in>set os. i < k \<and> k < j) \<and> i \<le> j \<and> distinct os \<and>
     (c = 0 \<or> j \<le> length p)"
proof (induction c arbitrary: i os)
  case 0
  then show ?case by simp
next
  case (Suc c)
  define n where "n = i + 2 + unat (p ! i)"
  obtain os' where os': "admin_offsets p n c = Some (os', j)" "os = (i + 1) # os'" "2 \<le> unat (p ! i)"
    "n \<le> length p"
    using Suc.prems by (auto simp: n_def split: if_splits option.splits)
  note ih = Suc.IH [OF os'(1)]
  have "i + 1 < n" using os'(3) by (simp add: n_def)
  then show ?case using ih os'(2,4) by (cases c) (use os'(1) in auto)
qed

lemma admin_offsets_agree:
  assumes "admin_offsets p i c = Some (os, j)" "length q = length p"
    and "\<And>k. i \<le> k \<Longrightarrow> k < length p \<Longrightarrow> k \<notin> set os \<Longrightarrow> q ! k = p ! k"
  shows "admin_offsets q i c = Some (os, j)"
  using assms(1,3)
proof (induction c arbitrary: i os)
  case 0
  then show ?case by simp
next
  case (Suc c)
  define n where "n = i + 2 + unat (p ! i)"
  obtain os' where os': "admin_offsets p n c = Some (os', j)" "os = (i + 1) # os'" "2 \<le> unat (p ! i)"
    "n \<le> length p" "i < length p"
    using Suc.prems(1) by (auto simp: n_def split: if_splits option.splits)
  have "i \<notin> set os" using admin_offsets_bounds [OF Suc.prems(1)] by blast
  then have qi: "q ! i = p ! i" using Suc.prems(2) os'(5) by simp
  have "admin_offsets q n c = Some (os', j)"
  proof (rule Suc.IH [OF os'(1)])
    fix k assume k: "n \<le> k" "k < length p" "k \<notin> set os'"
    then show "q ! k = p ! k" using Suc.prems(2) os'(2) by (simp add: n_def)
  qed
  then show ?case using os' qi assms(2) by (simp add: n_def)
qed

lemma be16_agree: "2 \<le> length p \<Longrightarrow> p ! 0 = q ! 0 \<Longrightarrow> p ! 1 = q ! 1 \<Longrightarrow> be16 p = be16 q"
  by (simp add: be16_def)

lemma server_offsets_swap:
  assumes os: "server_offsets code p = Inr os" and valid: "\<forall>i\<in>set os. i < length p"
  shows "distinct os \<and> server_offsets code (swap_at v a os p) = Inr os"
proof -
  let ?q = "swap_at v a os p"
  consider (flags) "code = bz_flag_update" | (list) "code = bz_handicap \<or> code = bz_score \<or> code = bz_player_info"
    | (admin) "code = bz_admin_info"
    | (fixed) "code \<noteq> bz_flag_update" "code \<noteq> bz_handicap" "code \<noteq> bz_score" "code \<noteq> bz_player_info" "code \<noteq> bz_admin_info"
    by blast
  then show ?thesis
  proof cases
    case flags
    have o: "os = map (\<lambda>i. i + 8) (positions 2 (length p) 57)" "2 \<le> length p" "length p = 2 + 57 * unat (be16 p)"
      using os flags by (auto simp: server_offsets_def one_id_def bz_codes split: if_splits)
    have d: "distinct os" unfolding o(1) by (simp add: distinct_map positions_distinct inj_on_def)
    have "0 \<notin> set os" "1 \<notin> set os" using positions_bounds o(1) by fastforce+
    moreover have "p \<noteq> []" "1 < length p" using o(2) by auto
    ultimately have "be16 ?q = be16 p" using d valid by (intro be16_agree) (simp_all add: swap_at_nth)
    then show ?thesis using d o flags by (simp add: server_offsets_def one_id_def bz_codes)
  next
    case list
    have o: "os = positions 1 (length p) (list_stride code)" "1 \<le> length p"
      "length p = 1 + unat (p ! 0) * list_stride code"
      using os list by (auto simp: server_offsets_def one_id_def bz_codes split: if_splits)
    have d: "distinct os" unfolding o(1) by (rule positions_distinct)
    have "0 \<notin> set os" using positions_bounds o(1) by fastforce
    then have "?q ! 0 = p ! 0" using d valid o(2) by (subst swap_at_nth) auto
    then show ?thesis using d o list by (auto simp: server_offsets_def one_id_def bz_codes)
  next
    case admin
    obtain j where o: "admin_offsets p 1 (unat (p ! 0)) = Some (os, j)" "j = length p" "p \<noteq> []"
      using os admin
      by (auto simp: server_offsets_def one_id_def bz_codes split: if_splits option.splits)
    have d: "distinct os" using admin_offsets_bounds [OF o(1)] by blast
    have "0 \<notin> set os" using admin_offsets_bounds [OF o(1)] by fastforce
    then have "?q ! 0 = p ! 0" using d valid o(3) by (subst swap_at_nth) auto
    moreover have "admin_offsets ?q 1 (unat (p ! 0)) = Some (os, j)"
      by (rule admin_offsets_agree [OF o(1)]) (use d valid in \<open>simp_all add: swap_at_nth\<close>)
    ultimately show ?thesis using d o admin by (simp add: server_offsets_def one_id_def bz_codes)
  next
    case fixed
    then have same: "server_offsets code q = server_offsets code p" for q by (simp add: server_offsets_def)
    moreover have "distinct os"
      using os fixed by (auto simp: server_offsets_def split: if_splits)
    ultimately show ?thesis using os by simp
  qed
qed

lemma id_offsets_swap:
  assumes "id_offsets fs code p = Inr os" "\<forall>i\<in>set os. i < length p"
  shows "distinct os \<and> id_offsets fs code (swap_at v a os p) = Inr os"
proof (cases fs)
  case True
  then show ?thesis using server_offsets_swap assms by (simp add: id_offsets_def)
next
  case False
  then show ?thesis using assms(1) by (auto simp: id_offsets_def client_offsets_def split: if_splits)
qed

section \<open>What a translation does\<close>

lemma bz_translate_cases:
  assumes "bz_translate p v a fs = Inr q"
  obtains os where "bz_valid p" "id_offsets fs (be16 (drop 2 p)) (drop 4 p) = Inr os"
    "\<forall>i\<in>set os. i < length (drop 4 p)" "q = take 4 p @ swap_at v a os (drop 4 p)" "distinct os"
proof -
  obtain os where os: "bz_valid p" "id_offsets fs (be16 (drop 2 p)) (drop 4 p) = Inr os"
    "\<forall>i\<in>set os. i < length (drop 4 p)" "q = take 4 p @ swap_at v a os (drop 4 p)"
    using assms by (force simp: bz_translate_def Let_def not_le split: if_splits sum.splits)
  then show thesis using that id_offsets_swap [OF os(2,3)] by blast
qed

lemma take4_header:
  assumes "length p \<ge> 4"
  shows "be16 (take 4 p @ r) = be16 p" "be16 (drop 2 (take 4 p @ r)) = be16 (drop 2 p)"
  using assms by (simp_all add: be16_def nth_append)

lemma bz_translate_invol:
  assumes "bz_translate p v a fs = Inr q"
  shows "bz_translate q v a fs = Inr p"
proof -
  obtain os where os: "bz_valid p" "id_offsets fs (be16 (drop 2 p)) (drop 4 p) = Inr os"
    "\<forall>i\<in>set os. i < length (drop 4 p)" "q = take 4 p @ swap_at v a os (drop 4 p)" "distinct os"
    using bz_translate_cases [OF assms] by blast
  have len: "4 \<le> length p" using os(1) by (simp add: bz_valid_def)
  have q: "take 4 q = take 4 p" "drop 4 q = swap_at v a os (drop 4 p)" "length q = length p"
    using os(4) len by simp_all
  have "bz_valid q" using os(1) len take4_header(1) [OF len] os(4) q(3) by (simp add: bz_valid_def)
  moreover have "be16 (drop 2 q) = be16 (drop 2 p)" unfolding os(4) by (rule take4_header(2) [OF len])
  moreover have "id_offsets fs (be16 (drop 2 p)) (drop 4 q) = Inr os"
    using id_offsets_swap [OF os(2,3)] q(2) by simp
  moreover have "swap_at v a os (drop 4 q) = drop 4 p" using swap_at_invol [OF os(5,3)] q(2) by simp
  moreover have "\<not> (\<exists>i\<in>set os. length (drop 4 q) \<le> i)" using os(3) q(3) by force
  ultimately show ?thesis using q(1) by (simp add: bz_translate_def Let_def)
qed

lemma bz_translate_bytes:
  assumes "bz_translate p v a fs = Inr q"
  shows "length q = length p \<and> take 4 q = take 4 p \<and>
    (\<forall>k<length p. q ! k = p ! k \<or> q ! k = swap_id v a (p ! k))"
proof -
  obtain os where os: "bz_valid p" "\<forall>i\<in>set os. i < length (drop 4 p)"
    "q = take 4 p @ swap_at v a os (drop 4 p)" "distinct os"
    using bz_translate_cases [OF assms] by blast
  have len: "4 \<le> length p" using os(1) by (simp add: bz_valid_def)
  have "q ! k = p ! k \<or> q ! k = swap_id v a (p ! k)" if "k < length p" for k
  proof (cases "k < 4")
    case True
    then show ?thesis using os(3) len by (simp add: nth_append)
  next
    case False
    then have "q ! k = swap_at v a os (drop 4 p) ! (k - 4)" "drop 4 p ! (k - 4) = p ! k" "k - 4 < length (drop 4 p)"
      using os(3) len that by (simp_all add: nth_append)
    then show ?thesis using swap_at_nth [OF os(4,2)] by metis
  qed
  then show ?thesis using os(3) len by simp
qed

lemma bz_translate_same: "bz_translate p v v fs = Inr q \<Longrightarrow> q = p"
  by (elim bz_translate_cases) (simp add: swap_at_same)

section \<open>Reading back\<close>

lemma bz_packet_length [simp]: "length (bz_packet c p) = 4 + length p"
  by (simp add: bz_packet_def)

lemma be16_bz_packet:
  "length p < 65536 \<Longrightarrow> unat (be16 (bz_packet c p @ r)) = length p"
  by (simp add: bz_packet_def unat_of_nat)

lemma bz_read_packet:
  assumes "length payload \<le> 1020"
  shows "bz_read (bz_packet code payload @ rest) = Inr (bz_packet code payload, rest)"
  using assms be16_bz_packet [of payload code rest] by (simp add: bz_read_def Let_def)

lemma bz_packet_valid: "length payload \<le> 1020 \<Longrightarrow> bz_valid (bz_packet code payload)"
  using be16_bz_packet [of payload code "[]"] by (simp add: bz_valid_def)

text \<open>A datagram is translated message by message.\<close>

lemma bz_translate_messages_concat:
  assumes "list_all2 (\<lambda>p q. bz_translate p v a True = Inr q) ps qs"
  shows "bz_translate_messages (concat ps) v a = Inr (concat qs)"
  using assms
proof (induction rule: list_all2_induct)
  case Nil
  then show ?case by (simp add: bz_translate_messages.simps)
next
  case (Cons p ps q qs)
  then have valid: "bz_valid p" by (elim bz_translate_cases)
  then have len: "4 \<le> length p" "4 + unat (be16 p) = length p" by (simp_all add: bz_valid_def)
  have "p \<noteq> []" using len(1) by auto
  then have "be16 (p @ concat ps) = be16 p" using len(1) by (simp add: be16_def nth_append)
  then show ?case
    using Cons len by (subst bz_translate_messages.simps) (auto simp: Let_def)
qed

end
