(* ===== verification/WakeProperties.thy ===== *)
theory WakeProperties
  imports WakeSession BZWire
begin

text \<open>
  What the wake gateway's packet handling promises: the numbering a NetQuake client sees while its
  game boots and after, and the player IDs a BZFlag client sees.
\<close>

section \<open>One numbering for a NetQuake client\<close>

text \<open>C11. The reliable frames a NetQuake client receives form one numbering. Over any run of the
  session loop that has not returned, of fewer than 2^32 events, they are first the loading
  messages, in the order 0, 1, 2, ... with repetitions of the last one only, and then the game's own
  frames, shifted by the number of loading messages, all of which the client has acknowledged before
  the game is attached.\<close>

theorem session_numbers_frames:
  assumes "session_run (start_wait began) xs outs s" "length xs < 2 ^ 32"
  shows "\<exists>loading. sequences outs = loading @ map (\<lambda>q. q + wt_prefix s) (game_sequences xs) \<and>
    remdups_adj loading = map of_nat [0..<unat (wt_prefix s) + (if wt_pending s = None then 0 else 1)] \<and>
    (wt_backend s \<longrightarrow> wt_pending s = None) \<and> (\<not> wt_backend s \<longrightarrow> game_sequences xs = [])"
proof -
  have ok: "run_ok xs outs s" using session_run_ok [OF assms(1) refl assms(2)] .
  then have "wt_backend s \<longrightarrow> wt_pending s = None" unfolding run_ok_def by fastforce
  with ok show ?thesis unfolding run_ok_def one_numbering_def by blast
qed

text \<open>A boot: a loading message, its acknowledgement, the game, a frame of the game.\<close>

definition boot :: "input list" where
  "boot = map (\<lambda>ev. \<lparr>ip_dialled = Connected, ip_late = None, ip_werr = None, ip_event = ev\<rparr>)
     [Tick 0, FromClient 1 [0, 2, 0, 8, 0, 0, 0, 0], Ready (Inr ''10.0.0.1:26000''),
      FromBackend (Inr [0, 9, 0, 9, 0, 0, 0, 0, 1])]"

lemma run_session_run:
  "session_run s0 ys outs0 s \<Longrightarrow> run_session xs s = (outs, Run s') \<Longrightarrow>
   (\<forall>x\<in>set xs. \<forall>r. ip_event x \<noteq> FromBackend r) \<Longrightarrow> session_run s0 (ys @ xs) (outs0 @ outs) s'"
proof (induction xs arbitrary: ys outs0 s outs)
  case (Cons x xs)
  obtain o1 s2 o2 s3 o3 where a: "attach (ip_dialled x) (ip_late x) s = (o1, Run s2)"
    "handle (ip_late x) (ip_werr x) (ip_event x) s2 = (o2, Run s3)"
    "run_session xs s3 = (o3, Run s')" "outs = (o1 @ o2) @ o3"
    using Cons.prems(2) by (auto simp: iteration_def Let_def split: prod.splits outcome.splits)
  have "possible s2 (ip_event x)" using Cons.prems(3) by (auto simp: possible_def split: event.split)
  from Cons.IH [OF session_goes_on [OF Cons.prems(1) a(1) this a(2)] a(3)] Cons.prems(3) show ?case
    by (simp add: a(4))
qed simp

lemma boot_runs:
  "\<exists>outs s. session_run (start_wait 0) boot outs s \<and> wt_backend s \<and> wt_prefix s = 1 \<and> length boot < 2 ^ 32"
proof -
  define waiting where "waiting = take 3 boot"
  define final where "final = boot ! 3"
  define mid where "mid = run_session waiting (start_wait 0)"
  have "case snd mid of Return e \<Rightarrow> False
    | Run s \<Rightarrow> \<not> wt_backend s \<and> wt_target s \<noteq> [] \<and> wt_pending s = None \<and> wt_prefix s = 1"
    unfolding mid_def waiting_def boot_def by code_simp
  then obtain o1 s1 where s1: "run_session waiting (start_wait 0) = (o1, Run s1)" "\<not> wt_backend s1"
    "wt_target s1 \<noteq> []" "wt_pending s1 = None" "wt_prefix s1 = 1"
    by (cases "run_session waiting (start_wait 0)") (auto simp: mid_def split: outcome.splits)
  have r: "session_run (start_wait 0) waiting o1 s1"
    using run_session_run [OF session_begins s1(1)] by (simp add: waiting_def boot_def)
  obtain o2 where a: "attach (ip_dialled final) (ip_late final) s1 = (o2, Run (s1\<lparr>wt_backend := True\<rparr>))"
    using s1 by (simp add: final_def boot_def attach_def wants_backend_def)
  obtain o3 where h: "handle (ip_late final) (ip_werr final) (ip_event final) (s1\<lparr>wt_backend := True\<rparr>) =
      (o3, Run (s1\<lparr>wt_backend := True\<rparr>))"
  proof -
    have "frame [0, 9, 0, 9, 0, 0, 0, 0, 1] = Some (flag_data OR flag_eom, 0)" by code_simp
    then show ?thesis using that by (simp add: final_def boot_def backend_packet_def Let_def)
  qed
  have "boot = waiting @ [final]" by (simp add: waiting_def final_def boot_def)
  moreover have "session_run (start_wait 0) (waiting @ [final]) (o1 @ o2 @ o3) (s1\<lparr>wt_backend := True\<rparr>)"
    by (rule session_goes_on [OF r a _ h]) (simp add: possible_def)
  moreover have "length boot < 2 ^ 32" by (simp add: boot_def)
  ultimately show ?thesis using s1 by fastforce
qed

theorem session_numbers_frames_witness:
  "\<exists>outs s loading. session_run (start_wait 0) boot outs s \<and> wt_prefix s = 1 \<and>
     sequences outs = loading @ map (\<lambda>q. q + 1) (game_sequences boot) \<and> remdups_adj loading = [0]"
proof -
  obtain outs s where r: "session_run (start_wait 0) boot outs s" "wt_backend s" "wt_prefix s = 1" "length boot < 2 ^ 32"
    using boot_runs by blast
  obtain loading where "sequences outs = loading @ map (\<lambda>q. q + wt_prefix s) (game_sequences boot)"
    "remdups_adj loading = map of_nat [0..<unat (wt_prefix s) + (if wt_pending s = None then 0 else 1)]"
    "wt_pending s = None"
    using session_numbers_frames [OF r(1,4)] r(2) by blast
  then show ?thesis using r by (intro exI [of _ outs] exI [of _ s] exI [of _ loading]) simp
qed

text \<open>Once the game is attached the shift is invisible to both ends: a reliable frame the game
  numbers \<open>q\<close> reaches the client as \<open>q + prefix\<close>, and the acknowledgement the client
  returns for that number reaches the game as one for \<open>q\<close>; flags, length and payload of
  both packets are unchanged.\<close>

theorem shift_is_transparent:
  assumes s: "wt_backend s" and game: "frame p = Some (fp, q)" "fp AND flag_data \<noteq> 0"
    and sum: "unat q + unat (wt_prefix s) < 2 ^ 32"
    and ack: "frame r = Some (fr, q + wt_prefix s)" "fr AND flag_ack \<noteq> 0" "\<not> disconnects fr r"
  shows "\<exists>p' r' s'. backend_packet None p s = ([ToClient p'], Run s) \<and>
    client_packet None now r s = ([ToBackend r'], Run s') \<and>
    frame p' = Some (fp, q + wt_prefix s) \<and> drop 8 p' = drop 8 p \<and>
    frame r' = Some (fr, q) \<and> drop 8 r' = drop 8 r"
proof -
  have "\<not> q + wt_prefix s < wt_prefix s"
    using sum by (simp add: word_less_nat_alt unat_word_ariths)
  moreover have "fr AND (flag_ack OR flag_nak) \<noteq> 0"
  proof
    assume "fr AND (flag_ack OR flag_nak) = 0"
    then have "(fr AND (flag_ack OR flag_nak)) AND flag_ack = 0" by simp
    moreover have "(flag_ack OR flag_nak) AND flag_ack = flag_ack" by (simp add: flag_defs)
    ultimately show False using ack(2) by (simp add: and.assoc)
  qed
  ultimately have "client_packet None now r s =
      ([ToBackend (set_be32 4 q r)], Run (see_client now r fr (q + wt_prefix s) s))"
    using s ack by (simp add: client_packet_def Let_def)
  moreover have "backend_packet None p s = ([ToClient (set_be32 4 (q + wt_prefix s) p)], Run s)"
    using game by (simp add: backend_packet_def)
  moreover have "8 \<le> length p" "8 \<le> length r" using frame_SomeD(1) game(1) ack(1) by blast+
  ultimately show ?thesis
    using frame_set_sequence [OF game(1)] frame_set_sequence [OF ack(1)] by (simp add: set_be32_def)
qed

theorem shift_is_transparent_witness:
  "\<exists>p' r' s'. backend_packet None [0, 9, 0, 9, 0, 0, 0, 5, 1] ((start_wait 0)\<lparr>wt_backend := True, wt_prefix := 3\<rparr>) =
       ([ToClient p'], Run ((start_wait 0)\<lparr>wt_backend := True, wt_prefix := 3\<rparr>)) \<and>
     client_packet None 1 [0, 2, 0, 8, 0, 0, 0, 8] ((start_wait 0)\<lparr>wt_backend := True, wt_prefix := 3\<rparr>) = ([ToBackend r'], Run s') \<and>
     frame r' = Some (flag_ack, 5)"
proof -
  let ?s = "(start_wait 0)\<lparr>wt_backend := True, wt_prefix := 3\<rparr>"
  have "frame [0, 9, 0, 9, 0, 0, 0, 5, 1] = Some (flag_data OR flag_eom, 5)"
    "frame [0, 2, 0, 8, 0, 0, 0, 8] = Some (flag_ack, 8)" "\<not> disconnects flag_ack [0, 2, 0, 8, 0, 0, 0, 8]"
    by code_simp+
  then show ?thesis
    using shift_is_transparent [of ?s "[0, 9, 0, 9, 0, 0, 0, 5, 1]" "flag_data OR flag_eom" 5
        "[0, 2, 0, 8, 0, 0, 0, 8]" flag_ack 1]
    by (simp add: flag_defs) blast
qed

text \<open>A data frame the gateway builds is read back with its sequence number, its payload and
  the flags of a complete reliable message; a connection request is never taken for a frame; and the
  gateway's own request to a backend is a connection request.\<close>

theorem frames_read_back:
  assumes "8 + length payload < 65536" "control_request request c"
  shows "frame (data_packet n payload) = Some (flag_data OR flag_eom, n) \<and> drop 8 (data_packet n payload) = payload \<and>
    frame request = None \<and> control_request backend_connect 1"
  using frame_data_packet [OF assms(1)] frame_not_control [OF assms(2)] backend_connect_request
  by (simp_all add: data_packet_def)

theorem frames_read_back_witness:
  "frame (data_packet 7 [1]) = Some (flag_data OR flag_eom, 7) \<and> drop 8 (data_packet 7 [1]) = [1] \<and>
   frame backend_connect = None \<and> control_request backend_connect 1"
  using frames_read_back [of "[1]" backend_connect 1 7] backend_connect_request by simp

section \<open>BZFlag player IDs\<close>



text \<open>A message built by the gateway is valid and is read back from the stream with whatever
  follows it left unread; and a datagram made of several messages is translated message by
  message.\<close>

theorem messages_are_framed:
  assumes "length payload \<le> 1020" "list_all2 (\<lambda>p q. bz_translate p v a True = Inr q) ps qs"
    "ps \<noteq> []" "length (concat ps) \<le> 1024"
  shows "bz_valid (bz_packet code payload) \<and>
    bz_read (bz_packet code payload @ rest) = Inr (bz_packet code payload, rest) \<and>
    bz_translate_datagram (concat ps) v a = Inr (concat qs)"
proof -
  have "bz_valid (hd ps)" using assms(2,3) by (cases ps) (auto simp: list_all2_Cons1 elim: bz_translate_cases)
  then have "concat ps \<noteq> []" using assms(3) by (cases ps) (auto simp: bz_valid_def)
  then have "bz_translate_datagram (concat ps) v a = Inr (concat qs)"
    using bz_translate_messages_concat [OF assms(2)] assms(4) by (simp add: bz_translate_datagram_def)
  then show ?thesis using bz_packet_valid bz_read_packet assms(1) by blast
qed

theorem messages_are_framed_witness:
  "bz_translate_datagram (bz_packet bz_killed [3, 9, 0, 0] @ bz_packet bz_alive [9, 0]) 3 9 =
     Inr (bz_packet bz_killed [9, 3, 0, 0] @ bz_packet bz_alive [3, 0])"
proof -
  have "bz_translate (bz_packet bz_killed [3, 9, 0, 0]) 3 9 True = Inr (bz_packet bz_killed [9, 3, 0, 0])"
    "bz_translate (bz_packet bz_alive [9, 0]) 3 9 True = Inr (bz_packet bz_alive [3, 0])" by code_simp+
  then show ?thesis
    using messages_are_framed [of "[]" 3 9 "[bz_packet bz_killed [3, 9, 0, 0], bz_packet bz_alive [9, 0]]"
        "[bz_packet bz_killed [9, 3, 0, 0], bz_packet bz_alive [3, 0]]"] by simp
qed

end
