(* ===== verification/WakeGateway.thy ===== *)
theory WakeGateway
  imports WakeWire BZWire "HOL-Library.AList"
begin

text \<open>
  The wake gateway's admission (internal/wake/gateway.go, and the slots and UDP links of
  bzflag.go): which packets open a session, how many there may be, which session a packet goes to,
  and who owns a UDP address. A Go map is an association list with distinct keys. The read loop of
  a listener is one function of a packet, its sender and the outcome of the reply; the goroutines
  it starts appear as the events of their end and of taking a packet from their input channel.
\<close>

section \<open>Addresses\<close>

text \<open>\<open>netip.Addr\<close>: the 16-byte form carries a zone.\<close>

datatype ip = V4 "32 word" | V6 "128 word" string

type_synonym addr = "ip \<times> 16 word"

definition unmap :: "ip \<Rightarrow> ip" where
  "unmap a =
     (case a of V4 w \<Rightarrow> V4 w
      | V6 w z \<Rightarrow> if drop_bit 32 w = 0xffff then V4 (ucast w) else V6 w z)"

lemma unmap_idem [simp]: "unmap (unmap a) = unmap a"
  by (simp add: unmap_def split: ip.splits)

text \<open>\<open>net.SplitHostPort\<close>: the last colon ends the host, which may stand in brackets.\<close>

definition split_host_port :: "string \<Rightarrow> (string \<times> string) option" where
  "split_host_port s =
     (let tail = takeWhile (\<lambda>c. c \<noteq> CHR '':'') (rev s);
          port = rev tail;
          front = take (length s - length tail - 1) s
      in if CHR '':'' \<notin> set s then None
         else if hd s = CHR ''[''
         then (let inner = takeWhile (\<lambda>c. c \<noteq> CHR '']'') (tl s) in
               if CHR '']'' \<notin> set s \<or> front \<noteq> CHR ''['' # inner @ [CHR '']''] then None
               else if CHR ''['' \<in> set inner \<or> CHR ''['' \<in> set port \<or> CHR '']'' \<in> set port then None
               else Some (inner, port))
         else if CHR '':'' \<in> set front \<or> CHR ''['' \<in> set s \<or> CHR '']'' \<in> set s then None
         else Some (front, port))"

section \<open>Routes\<close>

record mapping =
  mp_listen :: string
  mp_instance :: string
  mp_protocol :: string

definition wake_protocols :: "string list" where
  "wake_protocols = [''quake1'', ''quake2'', ''quake3'', ''xonotic'', ''ut99'', ''bzflag'']"

text \<open>The loop of \<open>New\<close> over the routes, with the addresses seen and the protocol of each
  instance so far; \<open>resolve_udp\<close> is \<open>net.ResolveUDPAddr\<close>.\<close>

fun check_mappings ::
  "(string \<Rightarrow> err option) \<Rightarrow> string list \<Rightarrow> (string \<Rightarrow> string) \<Rightarrow> mapping list \<Rightarrow> err + mapping list" where
  "check_mappings resolve_udp seen protocols [] = Inr []"
| "check_mappings resolve_udp seen protocols (m # ms) =
     (let m = (if mp_protocol m = [] then m\<lparr>mp_protocol := ''quake1''\<rparr> else m);
          prior = protocols (mp_instance m)
      in if mp_protocol m \<notin> set wake_protocols
         then Inl (ErrMsg (''unsupported wake protocol '' @ [CHR 0x22] @ mp_protocol m @ [CHR 0x22]))
         else if prior \<noteq> [] \<and> prior \<noteq> mp_protocol m
         then Inl (ErrMsg (''conflicting protocols for instance '' @ [CHR 0x22] @ mp_instance m @ [CHR 0x22]))
         else if trim_space (mp_instance m) = [] \<or> mp_listen m = [] \<or> mp_listen m \<in> set seen
         then Inl (ErrMsg ''wake requires unique addresses and nonempty instance IDs'')
         else (case resolve_udp (mp_listen m) of
                 Some e \<Rightarrow> Inl e
               | None \<Rightarrow>
                   (case check_mappings resolve_udp (mp_listen m # seen)
                           (protocols(mp_instance m := mp_protocol m)) ms of
                      Inl e \<Rightarrow> Inl e
                    | Inr ms \<Rightarrow> Inr (m # ms))))"

definition new_gateway :: "(string \<Rightarrow> err option) \<Rightarrow> bool \<Rightarrow> mapping list \<Rightarrow> err + mapping list" where
  "new_gateway resolve_udp has_start ms =
     (if ms = [] \<or> \<not> has_start then Inl (ErrMsg ''wake requires routes and a start callback'')
      else check_mappings resolve_udp [] (\<lambda>i. []) ms)"

text \<open>What routes that pass satisfy.\<close>

definition routes_ok :: "string list \<Rightarrow> (string \<Rightarrow> string) \<Rightarrow> mapping list \<Rightarrow> bool" where
  "routes_ok seen protocols ms \<longleftrightarrow>
     distinct (map mp_listen ms) \<and> set (map mp_listen ms) \<inter> set seen = {} \<and>
     (\<forall>m\<in>set ms. mp_protocol m \<in> set wake_protocols \<and> trim_space (mp_instance m) \<noteq> [] \<and> mp_listen m \<noteq> [] \<and>
        (protocols (mp_instance m) \<noteq> [] \<longrightarrow> protocols (mp_instance m) = mp_protocol m)) \<and>
     (\<forall>a\<in>set ms. \<forall>b\<in>set ms. mp_instance a = mp_instance b \<longrightarrow> mp_protocol a = mp_protocol b)"

lemma routes_ok_Cons:
  assumes "routes_ok (mp_listen m # seen) (protocols(mp_instance m := mp_protocol m)) ms"
    and "mp_protocol m \<in> set wake_protocols" "trim_space (mp_instance m) \<noteq> []" "mp_listen m \<noteq> []"
    and "mp_listen m \<notin> set seen" "protocols (mp_instance m) \<noteq> [] \<longrightarrow> protocols (mp_instance m) = mp_protocol m"
  shows "routes_ok seen protocols (m # ms)"
proof -
  have "mp_protocol m \<noteq> []" using assms(2) by (auto simp: wake_protocols_def)
  then have same: "mp_protocol b = mp_protocol m" if "b \<in> set ms" "mp_instance b = mp_instance m" for b
    using assms(1) that by (auto simp: routes_ok_def)
  have prior: "protocols (mp_instance b) \<noteq> [] \<longrightarrow> protocols (mp_instance b) = mp_protocol b" if "b \<in> set ms" for b
  proof (cases "mp_instance b = mp_instance m")
    case True
    then show ?thesis using assms(6) same [OF that] by simp
  next
    case False
    then show ?thesis using assms(1) that by (simp add: routes_ok_def)
  qed
  have eq: "mp_protocol a = mp_protocol b" if "a \<in> set (m # ms)" "b \<in> set (m # ms)" "mp_instance a = mp_instance b" for a b
  proof (cases "a = m \<or> b = m")
    case True
    have "mp_protocol c = mp_protocol m" if "c \<in> set (m # ms)" "mp_instance c = mp_instance m" for c
      using same that by (cases "c = m") simp_all
    from True this [OF that(1)] this [OF that(2)] that(3) show ?thesis by fastforce
  next
    case False
    have "\<forall>a\<in>set ms. \<forall>b\<in>set ms. mp_instance a = mp_instance b \<longrightarrow> mp_protocol a = mp_protocol b"
      using assms(1) unfolding routes_ok_def by (elim conjE)
    moreover have "a \<in> set ms" "b \<in> set ms" using that(1,2) False by simp_all
    ultimately show ?thesis using that(3) by blast
  qed
  have lists: "distinct (map mp_listen (m # ms))" "set (map mp_listen (m # ms)) \<inter> set seen = {}"
    using assms(1,5) by (auto simp: routes_ok_def)
  have each: "\<forall>b\<in>set (m # ms). mp_protocol b \<in> set wake_protocols \<and> trim_space (mp_instance b) \<noteq> [] \<and>
      mp_listen b \<noteq> [] \<and> (protocols (mp_instance b) \<noteq> [] \<longrightarrow> protocols (mp_instance b) = mp_protocol b)"
  proof
    fix b
    assume b: "b \<in> set (m # ms)"
    show "mp_protocol b \<in> set wake_protocols \<and> trim_space (mp_instance b) \<noteq> [] \<and>
      mp_listen b \<noteq> [] \<and> (protocols (mp_instance b) \<noteq> [] \<longrightarrow> protocols (mp_instance b) = mp_protocol b)"
    proof (cases "b = m")
      case True
      show ?thesis unfolding True by (intro conjI assms)
    next
      case False
      then have "b \<in> set ms" using b by simp
      then show ?thesis using assms(1) prior [of b] unfolding routes_ok_def by blast
    qed
  qed
  show ?thesis unfolding routes_ok_def by (intro conjI lists each ballI impI eq)
qed

lemma check_mappings_ok:
  "check_mappings resolve_udp seen protocols ms = Inr rs \<Longrightarrow>
     routes_ok seen protocols rs \<and> map mp_listen rs = map mp_listen ms \<and> map mp_instance rs = map mp_instance ms \<and>
     (\<forall>m\<in>set rs. resolve_udp (mp_listen m) = None)"
proof (induction ms arbitrary: seen protocols rs)
  case Nil
  then show ?case by (simp add: routes_ok_def)
next
  case (Cons m ms)
  define m' where "m' = (if mp_protocol m = [] then m\<lparr>mp_protocol := ''quake1''\<rparr> else m)"
  have same: "mp_listen m' = mp_listen m" "mp_instance m' = mp_instance m" by (simp_all add: m'_def)
  obtain rs' where r: "mp_protocol m' \<in> set wake_protocols" "trim_space (mp_instance m') \<noteq> []" "mp_listen m' \<noteq> []"
    "mp_listen m' \<notin> set seen" "protocols (mp_instance m') \<noteq> [] \<longrightarrow> protocols (mp_instance m') = mp_protocol m'"
    "resolve_udp (mp_listen m') = None" "rs = m' # rs'"
    "check_mappings resolve_udp (mp_listen m' # seen) (protocols(mp_instance m' := mp_protocol m')) ms = Inr rs'"
    using Cons.prems unfolding check_mappings.simps m'_def [symmetric] Let_def
    by (auto split: if_splits option.splits sum.splits)
  note ih = Cons.IH [OF r(8)]
  have "routes_ok seen protocols (m' # rs')" 
    by (rule routes_ok_Cons [where m = m' and seen = seen and protocols = protocols and ms = rs',
          OF conjunct1 [OF ih] r(1-5)])
  then show ?case using ih r(6,7) same by simp
qed

section \<open>State\<close>

text \<open>
  A session of a UDP client: the request it was opened with, where the protocol relays it, and its
  input channel, which holds eight packets. A BZFlag client has a virtual player ID, its slot.
\<close>

record sess =
  ss_first :: "byte list option"
  ss_input :: "byte list list"

record bz_client =
  bc_virtual :: byte
  bc_ip :: ip
  bc_accepted :: bool
  bc_udp :: "addr option"
  bc_input :: "byte list list"

record listener =
  ls_protocol :: string
  ls_instance :: string
  ls_local :: string
  ls_sessions :: "(addr \<times> sess) list"
  ls_bz :: "(byte \<times> bz_client) list"

definition max_sessions :: int where "max_sessions = 64"

definition push_input :: "byte list \<Rightarrow> byte list list \<Rightarrow> byte list list" where
  "push_input p q = (if length q < 8 then q @ [p] else q)"

section \<open>Packets of a UDP listener\<close>

definition netquake :: "string \<Rightarrow> bool" where
  "netquake protocol \<longleftrightarrow> protocol = [] \<or> protocol = ''quake1'' \<or> protocol = ''xonotic''"

definition nul :: string where "nul = [char_of (0 :: nat)]"

definition server_info :: "listener \<Rightarrow> byte list" where
  "server_info l =
     control_packet 0x83
       (str (ls_local l @ nul @ ''insta-game: '' @ ls_instance l @ nul @ ''on-demand'' @ nul) @
        [of_nat (length (ls_sessions l)), word_of_int max_sessions, 3])"

definition local_port :: "listener \<Rightarrow> int" where
  "local_port l =
     (case split_host_port (ls_local l) of
        None \<Rightarrow> atoi_value []
      | Some (h, port) \<Rightarrow> atoi_value port)"

definition admit :: "addr \<Rightarrow> sess \<Rightarrow> int \<times> listener \<Rightarrow> int \<times> listener" where
  "admit a s = (\<lambda>(n, l). (n + 1, l\<lparr>ls_sessions := (a, s) # ls_sessions l\<rparr>))"

definition remove_session :: "addr \<Rightarrow> int \<times> listener \<Rightarrow> int \<times> listener" where
  "remove_session a = (\<lambda>(n, l). (n - 1, l\<lparr>ls_sessions := AList.delete a (ls_sessions l)\<rparr>))"

definition deliver :: "addr \<Rightarrow> byte list \<Rightarrow> listener \<Rightarrow> listener" where
  "deliver a p l =
     l\<lparr>ls_sessions := AList.map_entry a (\<lambda>s. s\<lparr>ss_input := push_input p (ss_input s)\<rparr>) (ls_sessions l)\<rparr>"

text \<open>A datagram of a BZFlag client: a link request binds the sender's address to the slot it names,
  any other packet goes to the client that owns the sender's address.\<close>

definition link_request :: "byte list \<Rightarrow> bool" where
  "link_request p \<longleftrightarrow> length p = 5 \<and> be16 (drop 2 p) = bz_udp_link_request"

definition may_link :: "addr \<Rightarrow> byte \<Rightarrow> listener \<Rightarrow> bool" where
  "may_link a slot l \<longleftrightarrow>
     (case map_of (ls_bz l) slot of
        None \<Rightarrow> False
      | Some c \<Rightarrow>
          bc_accepted c \<and> bc_ip c = fst a \<and> (case bc_udp c of None \<Rightarrow> True | Some b \<Rightarrow> b = a) \<and>
          (\<forall>(k, d)\<in>set (ls_bz l). k \<noteq> slot \<longrightarrow> bc_udp d \<noteq> Some a))"

definition bz_deliver :: "byte \<Rightarrow> byte list \<Rightarrow> listener \<Rightarrow> listener" where
  "bz_deliver slot p l =
     l\<lparr>ls_bz := AList.map_entry slot (\<lambda>c. c\<lparr>bc_input := push_input p (bc_input c)\<rparr>) (ls_bz l)\<rparr>"

definition bzflag_udp :: "addr \<Rightarrow> byte list \<Rightarrow> listener \<Rightarrow> listener" where
  "bzflag_udp sender p l =
     (if \<not> bz_valid p then l
      else (let a = (unmap (fst sender), snd sender) in
        if link_request p
        then (let slot = p ! 4 in
          if \<not> may_link a slot l then l
          else bz_deliver slot p (l\<lparr>ls_bz := AList.map_entry slot (\<lambda>c. c\<lparr>bc_udp := Some a\<rparr>) (ls_bz l)\<rparr>))
        else (case List.find (\<lambda>(k, c). bc_udp c = Some a) (ls_bz l) of
                None \<Rightarrow> l
              | Some (k, c) \<Rightarrow> bz_deliver k p l)))"

text \<open>One turn of the read loop. The result is what was sent back to the peer and the new state;
  \<open>werr\<close> says that the reply of an acceptance could not be sent. Between the admission and
  the removal of such a session only the count may be seen by others.\<close>

definition read_packet :: "bool \<Rightarrow> addr \<Rightarrow> byte list \<Rightarrow> int \<times> listener \<Rightarrow> byte list list \<times> int \<times> listener" where
  "read_packet werr a p = (\<lambda>(n, l).
     (if ls_protocol l = ''bzflag'' then ([], n, bzflag_udp a p l)
      else if netquake (ls_protocol l) \<and> control_request p 2 then ([server_info l], n, l)
      else (let nq = netquake (ls_protocol l);
                connect = (if nq then control_request p 1 else connection_request (ls_protocol l) p)
        in if \<not> connect \<and> nq \<and> frame p = None then ([], n, l)
        else (let s = map_of (ls_sessions l) a;
                  created = (s = None \<and> connect \<and> n < max_sessions)
          in if connect \<and> nq
             then (if s = None \<and> \<not> created then ([rejection ''Gateway full; try again shortly.''], n, l)
                   else (let st = (if created then admit a \<lparr>ss_first = None, ss_input = []\<rparr> (n, l) else (n, l))
                     in ([accept_packet (local_port l)],
                         if werr \<and> created then remove_session a st else st)))
             else if created then ([], admit a \<lparr>ss_first = Some p, ss_input = []\<rparr> (n, l))
             else if s \<noteq> None then ([], n, deliver a p l)
             else ([], n, l)))))"

section \<open>Connections of a BZFlag listener\<close>

definition slots :: "byte list" where
  "slots = map of_nat [0..<200]"

definition bzflag_tcp :: "addr \<Rightarrow> int \<times> listener \<Rightarrow> byte option \<times> int \<times> listener" where
  "bzflag_tcp peer = (\<lambda>(n, l).
     (if n < max_sessions
      then (case List.find (\<lambda>k. map_of (ls_bz l) k = None) slots of
              None \<Rightarrow> (None, n, l)
            | Some k \<Rightarrow>
                (Some k, n + 1,
                 l\<lparr>ls_bz := (k, \<lparr>bc_virtual = k, bc_ip = unmap (fst peer), bc_accepted = False, bc_udp = None,
                             bc_input = []\<rparr>) # ls_bz l\<rparr>))
      else (None, n, l)))"

definition bz_greeted :: "byte \<Rightarrow> listener \<Rightarrow> listener" where
  "bz_greeted k l = l\<lparr>ls_bz := AList.map_entry k (\<lambda>c. c\<lparr>bc_accepted := True\<rparr>) (ls_bz l)\<rparr>"

definition bz_leave :: "byte \<Rightarrow> int \<times> listener \<Rightarrow> int \<times> listener" where
  "bz_leave k = (\<lambda>(n, l). (n - 1, l\<lparr>ls_bz := AList.delete k (ls_bz l)\<rparr>))"

section \<open>The gateway\<close>

text \<open>
  The listeners share one count. Its events: a packet read by a listener, the end of a session's
  goroutine, a session taking a packet from its channel, an accepted connection, its greeting, a
  BZFlag client taking a packet, the end of its goroutine.
\<close>

record gateway =
  gw_clients :: int
  gw_listeners :: "listener list"

datatype gw_event =
    Datagram nat bool addr "byte list"
  | SessionEnds nat addr
  | SessionTakes nat addr
  | Dial nat addr
  | Greeting nat byte
  | BZTakes nat byte
  | BZEnds nat byte

definition on_listener :: "nat \<Rightarrow> (int \<times> listener \<Rightarrow> int \<times> listener) \<Rightarrow> gateway \<Rightarrow> gateway" where
  "on_listener i f g =
     (let (n, l) = f (gw_clients g, gw_listeners g ! i)
      in g\<lparr>gw_clients := n, gw_listeners := (gw_listeners g)[i := l]\<rparr>)"

fun event_listener :: "gw_event \<Rightarrow> nat" where
  "event_listener (Datagram i w a p) = i"
| "event_listener (SessionEnds i a) = i"
| "event_listener (SessionTakes i a) = i"
| "event_listener (Dial i a) = i"
| "event_listener (Greeting i k) = i"
| "event_listener (BZTakes i k) = i"
| "event_listener (BZEnds i k) = i"

fun event_fn :: "gw_event \<Rightarrow> int \<times> listener \<Rightarrow> int \<times> listener" where
  "event_fn (Datagram i w a p) nl = snd (read_packet w a p nl)"
| "event_fn (SessionEnds i a) nl = remove_session a nl"
| "event_fn (SessionTakes i a) nl =
     (fst nl, (snd nl)\<lparr>ls_sessions := AList.map_entry a (\<lambda>s. s\<lparr>ss_input := tl (ss_input s)\<rparr>) (ls_sessions (snd nl))\<rparr>)"
| "event_fn (Dial i a) nl = snd (bzflag_tcp a nl)"
| "event_fn (Greeting i k) nl = (fst nl, bz_greeted k (snd nl))"
| "event_fn (BZTakes i k) nl =
     (fst nl, (snd nl)\<lparr>ls_bz := AList.map_entry k (\<lambda>c. c\<lparr>bc_input := tl (bc_input c)\<rparr>) (ls_bz (snd nl))\<rparr>)"
| "event_fn (BZEnds i k) nl = bz_leave k nl"

text \<open>Only the goroutine of a session or client that is there can end.\<close>

definition event_possible :: "gw_event \<Rightarrow> gateway \<Rightarrow> bool" where
  "event_possible ev g \<longleftrightarrow>
     event_listener ev < length (gw_listeners g) \<and>
     (case ev of
        SessionEnds i a \<Rightarrow> a \<in> fst ` set (ls_sessions (gw_listeners g ! i))
      | BZEnds i k \<Rightarrow> k \<in> fst ` set (ls_bz (gw_listeners g ! i))
      | _ \<Rightarrow> True)"

inductive gw_step :: "gateway \<Rightarrow> gw_event \<Rightarrow> gateway \<Rightarrow> bool" where
  "event_possible ev g \<Longrightarrow> gw_step g ev (on_listener (event_listener ev) (event_fn ev) g)"

inductive_cases gw_stepE [elim!]: "gw_step g ev g'"

definition new_listener :: "mapping \<Rightarrow> string \<Rightarrow> listener" where
  "new_listener m local =
     \<lparr>ls_protocol = mp_protocol m, ls_instance = mp_instance m, ls_local = local, ls_sessions = [], ls_bz = []\<rparr>"

inductive gw_reachable :: "gateway \<Rightarrow> bool" where
  gw_start: "gw_reachable \<lparr>gw_clients = 0, gw_listeners = map2 new_listener ms locals\<rparr>"
| gw_next: "gw_reachable g \<Longrightarrow> gw_step g ev g' \<Longrightarrow> gw_reachable g'"

end
