(* ===== verification/WakeAdmission.thy ===== *)
theory WakeAdmission
  imports WakeGateway
begin

text \<open>
  The invariant of the wake gateway: its count of clients is the number of sessions and BZFlag
  clients there are and never exceeds 64, input channels hold at most eight packets, slots are
  unique and below 200, and a UDP address belongs to at most one BZFlag client, one that was greeted
  and connected from the same host.
\<close>

section \<open>Association lists\<close>

lemma map_entry_keys [simp]: "map fst (AList.map_entry k f al) = map fst al"
  by (induction al) auto

lemma map_entry_length [simp]: "length (AList.map_entry k f al) = length al"
  by (induction al) auto

lemma map_entry_cases:
  assumes "(k', v) \<in> set (AList.map_entry k f al)" "distinct (map fst al)"
  obtains "k' \<noteq> k" "(k', v) \<in> set al" | u where "k' = k" "(k, u) \<in> set al" "v = f u"
proof -
  have "map_of (AList.map_entry k f al) k' = Some v" using assms by simp
  then have "((map_of al)(k := case map_of al k of None \<Rightarrow> None | Some v' \<Rightarrow> Some (f v'))) k' = Some v"
    by (simp only: AList.map_of_map_entry)
  then show thesis
    using that by (cases "k' = k") (auto split: option.splits dest: map_of_SomeD)
qed

lemma delete_length:
  assumes "distinct (map fst al)" "k \<in> fst ` set al"
  shows "int (length (AList.delete k al)) = int (length al) - 1"
  using assms
proof (induction al)
  case (Cons x al)
  obtain j v where x: "x = (j, v)" by fastforce
  show ?case
  proof (cases "j = k")
    case True
    then have "k \<notin> fst ` set al" using Cons.prems(1) x by auto
    then have "AList.delete k al = al" by (rule delete_id)
    then show ?thesis using True x by (simp add: AList.delete_eq)
  next
    case False
    then have "k \<in> fst ` set al" using Cons.prems(2) x by auto
    then show ?thesis using Cons.IH Cons.prems(1) False x by (simp add: AList.delete_eq)
  qed
qed simp

lemma delete_subset: "set (AList.delete k al) \<subseteq> set al"
  by (auto simp: AList.delete_eq)

section \<open>Listeners\<close>

definition client_ok :: "byte \<Rightarrow> bz_client \<Rightarrow> bool" where
  "client_ok k c \<longleftrightarrow>
     unat k < 200 \<and> bc_virtual c = k \<and> length (bc_input c) \<le> 8 \<and>
     (\<forall>a. bc_udp c = Some a \<longrightarrow> bc_accepted c \<and> fst a = bc_ip c)"

definition owners_ok :: "(byte \<times> bz_client) list \<Rightarrow> bool" where
  "owners_ok cs \<longleftrightarrow>
     (\<forall>(k, c)\<in>set cs. \<forall>(j, d)\<in>set cs. \<forall>a. bc_udp c = Some a \<and> bc_udp d = Some a \<longrightarrow> k = j)"

definition listener_ok :: "listener \<Rightarrow> bool" where
  "listener_ok l \<longleftrightarrow>
     distinct (map fst (ls_sessions l)) \<and> distinct (map fst (ls_bz l)) \<and>
     (\<forall>(a, s)\<in>set (ls_sessions l). length (ss_input s) \<le> 8) \<and>
     (\<forall>(k, c)\<in>set (ls_bz l). client_ok k c) \<and> owners_ok (ls_bz l)"

definition load_of :: "listener \<Rightarrow> int" where
  "load_of l = int (length (ls_sessions l)) + int (length (ls_bz l))"

text \<open>What one event may do to the count and to its listener.\<close>

definition counted :: "int \<times> listener \<Rightarrow> int \<times> listener \<Rightarrow> bool" where
  "counted a b \<longleftrightarrow>
     listener_ok (snd b) \<and> fst b - fst a = load_of (snd b) - load_of (snd a) \<and>
     (fst b \<le> fst a \<or> fst b = fst a + 1 \<and> fst a < max_sessions)"

lemma counted_same: "listener_ok l \<Longrightarrow> load_of l = load_of l' \<Longrightarrow> listener_ok l' \<Longrightarrow> counted (n, l) (n, l')"
  by (simp add: counted_def)

lemma push_input_length: "length q \<le> 8 \<Longrightarrow> length (push_input p q) \<le> 8"
  by (simp add: push_input_def)

lemma sessions_entry_ok:
  assumes "listener_ok l" "\<And>s. length (ss_input s) \<le> 8 \<Longrightarrow> length (ss_input (f s)) \<le> 8"
  shows "counted (n, l) (n, l\<lparr>ls_sessions := AList.map_entry a f (ls_sessions l)\<rparr>)"
proof -
  have "length (ss_input s) \<le> 8" if "(b, s) \<in> set (AList.map_entry a f (ls_sessions l))" for b s
  proof -
    have d: "distinct (map fst (ls_sessions l))" "\<forall>(a, s)\<in>set (ls_sessions l). length (ss_input s) \<le> 8"
      using assms(1) by (simp_all add: listener_ok_def)
    from that d(1) show ?thesis
    proof (cases rule: map_entry_cases)
      case 1
      then show ?thesis using d(2) by blast
    next
      case (2 u)
      then show ?thesis using d(2) assms(2) by blast
    qed
  qed
  then show ?thesis using assms(1) by (auto simp: counted_def listener_ok_def load_of_def)
qed

lemma clients_entry_ok:
  assumes ok: "listener_ok l"
    and f: "\<And>c. (k, c) \<in> set (ls_bz l) \<Longrightarrow> client_ok k c \<Longrightarrow> client_ok k (f c)"
    and owner: "\<And>c a. (k, c) \<in> set (ls_bz l) \<Longrightarrow> bc_udp (f c) = Some a \<Longrightarrow>
      bc_udp c = Some a \<or> (\<forall>(j, d)\<in>set (ls_bz l). j \<noteq> k \<longrightarrow> bc_udp d \<noteq> Some a)"
  shows "counted (n, l) (n, l\<lparr>ls_bz := AList.map_entry k f (ls_bz l)\<rparr>)"
proof -
  define cs where "cs = ls_bz l"
  have d: "distinct (map fst cs)" "\<forall>(k, c)\<in>set cs. client_ok k c" "owners_ok cs"
    using ok by (simp_all add: listener_ok_def cs_def)
  have each: "client_ok j c" if "(j, c) \<in> set (AList.map_entry k f cs)" for j c
    using that d(1)
  proof (cases rule: map_entry_cases)
    case 1
    then show ?thesis using d(2) by blast
  next
    case (2 u)
    then show ?thesis using d(2) f cs_def by blast
  qed
  have clash: "False" if "(j, c) \<in> set cs" "j \<noteq> k" "(k, u) \<in> set cs" "bc_udp c = Some a" "bc_udp (f u) = Some a" for j c u a
  proof -
    from owner [of u a] that cs_def consider "bc_udp u = Some a" | "bc_udp c \<noteq> Some a" by blast
    then show False using that d(3) unfolding owners_ok_def by cases blast+
  qed
  have "owners_ok (AList.map_entry k f cs)"
    unfolding owners_ok_def
  proof (intro ballI, clarify)
    fix i c j e a
    assume i: "(i, c) \<in> set (AList.map_entry k f cs)" and j: "(j, e) \<in> set (AList.map_entry k f cs)"
      and u: "bc_udp c = Some a" "bc_udp e = Some a"
    from i d(1) show "i = j"
    proof (cases rule: map_entry_cases)
      case i1: 1
      from j d(1) show ?thesis
      proof (cases rule: map_entry_cases)
        case 1
        then show ?thesis using i1 u d(3) unfolding owners_ok_def by blast
      next
        case (2 v)
        then show ?thesis using clash i1 u by blast
      qed
    next
      case i2: (2 v)
      from j d(1) show ?thesis
      proof (cases rule: map_entry_cases)
        case 1
        then show ?thesis using clash i2 u by blast
      next
        case (2 w)
        then show ?thesis using i2 by simp
      qed
    qed
  qed
  then show ?thesis using ok each by (auto simp: counted_def listener_ok_def load_of_def cs_def)
qed

lemma counted_trans_same:
  "counted (n, l) (n, l') \<Longrightarrow> counted (n, l') b \<Longrightarrow> counted (n, l) b"
  by (auto simp: counted_def)

lemma admit_ok:
  assumes "listener_ok l" "map_of (ls_sessions l) a = None" "n < max_sessions" "ss_input s = []"
  shows "counted (n, l) (admit a s (n, l))"
  using assms by (auto simp: admit_def counted_def listener_ok_def load_of_def map_of_eq_None_iff)

lemma remove_session_ok:
  assumes "listener_ok l" "a \<in> fst ` set (ls_sessions l)"
  shows "counted (n, l) (remove_session a (n, l))"
proof -
  have d: "distinct (map fst (ls_sessions l))" using assms(1) by (simp add: listener_ok_def)
  then have "int (length (AList.delete a (ls_sessions l))) = int (length (ls_sessions l)) - 1"
    using assms(2) by (rule delete_length)
  moreover have "distinct (map fst (AList.delete a (ls_sessions l)))" using d by (rule distinct_delete)
  ultimately show ?thesis
    using assms(1) delete_subset [of a "ls_sessions l"]
    by (auto simp: remove_session_def counted_def listener_ok_def load_of_def)
qed

lemma bz_leave_ok:
  assumes "listener_ok l" "k \<in> fst ` set (ls_bz l)"
  shows "counted (n, l) (bz_leave k (n, l))"
proof -
  have d: "distinct (map fst (ls_bz l))" using assms(1) by (simp add: listener_ok_def)
  then have "int (length (AList.delete k (ls_bz l))) = int (length (ls_bz l)) - 1"
    using assms(2) by (rule delete_length)
  moreover have "distinct (map fst (AList.delete k (ls_bz l)))" using d by (rule distinct_delete)
  moreover have "owners_ok (AList.delete k (ls_bz l))" "\<forall>(j, c)\<in>set (AList.delete k (ls_bz l)). client_ok j c"
    using assms(1) delete_subset [of k "ls_bz l"] unfolding listener_ok_def owners_ok_def by blast+
  ultimately show ?thesis
    using assms(1) by (simp add: bz_leave_def counted_def listener_ok_def load_of_def)
qed

lemma deliver_ok: "listener_ok l \<Longrightarrow> counted (n, l) (n, deliver a p l)"
  unfolding deliver_def by (rule sessions_entry_ok) (simp_all add: push_input_length)

lemma bz_deliver_ok: "listener_ok l \<Longrightarrow> counted (n, l) (n, bz_deliver k p l)"
  unfolding bz_deliver_def by (rule clients_entry_ok) (simp_all add: client_ok_def push_input_length)

lemma link_ok:
  assumes ok: "listener_ok l" and may: "may_link a k l"
  shows "counted (n, l) (n, l\<lparr>ls_bz := AList.map_entry k (\<lambda>c. c\<lparr>bc_udp := Some a\<rparr>) (ls_bz l)\<rparr>)"
proof -
  obtain c where c: "map_of (ls_bz l) k = Some c" "bc_accepted c" "bc_ip c = fst a"
    "\<forall>(j, d)\<in>set (ls_bz l). j \<noteq> k \<longrightarrow> bc_udp d \<noteq> Some a"
    using may by (auto simp: may_link_def split: option.splits)
  have "e = c" if "(k, e) \<in> set (ls_bz l)" for e
    using that ok c(1) by (simp add: listener_ok_def)
  then show ?thesis using ok c by (intro clients_entry_ok) (auto simp: client_ok_def)
qed

lemma bzflag_udp_ok: "listener_ok l \<Longrightarrow> counted (n, l) (n, bzflag_udp s p l)"
proof -
  assume ok: "listener_ok l"
  define a where "a = (unmap (fst s), snd s)"
  define bound where "bound = l\<lparr>ls_bz := AList.map_entry (p ! 4) (\<lambda>c. c\<lparr>bc_udp := Some a\<rparr>) (ls_bz l)\<rparr>"
  have unfolded: "bzflag_udp s p l =
      (if \<not> bz_valid p then l
       else if link_request p then (if \<not> may_link a (p ! 4) l then l else bz_deliver (p ! 4) p bound)
       else (case List.find (\<lambda>(k, c). bc_udp c = Some a) (ls_bz l) of None \<Rightarrow> l | Some (k, c) \<Rightarrow> bz_deliver k p l))"
    by (simp add: bzflag_udp_def Let_def a_def bound_def)
  have stays: "counted (n, l) (n, l)" using ok by (simp add: counted_same)
  have linked: "counted (n, l) (n, bz_deliver (p ! 4) p bound)" if "may_link a (p ! 4) l"
  proof -
    have link: "counted (n, l) (n, bound)" unfolding bound_def using ok that by (rule link_ok)
    then have "listener_ok bound" by (simp add: counted_def)
    then show ?thesis by (rule counted_trans_same [OF link bz_deliver_ok])
  qed
  have found: "counted (n, l) (n, case List.find (\<lambda>(k, c). bc_udp c = Some a) (ls_bz l) of
      None \<Rightarrow> l | Some (k, c) \<Rightarrow> bz_deliver k p l)"
    using stays bz_deliver_ok [OF ok] by (simp split: option.split)
  show ?thesis unfolding unfolded using stays linked found by simp
qed

lemma read_packet_ok:
  assumes ok: "listener_ok l"
  shows "counted (n, l) (snd (read_packet werr a p (n, l)))"
proof -
  define nq where "nq = netquake (ls_protocol l)"
  define connecting where "connecting = (if nq then control_request p 1 else connection_request (ls_protocol l) p)"
  define created where "created = (map_of (ls_sessions l) a = None \<and> connecting \<and> n < max_sessions)"
  define st where "st = (if created then admit a \<lparr>ss_first = None, ss_input = []\<rparr> (n, l) else (n, l))"
  have enter: "counted (n, l) (admit a \<lparr>ss_first = f, ss_input = []\<rparr> (n, l))" if created for f
    using that ok unfolding created_def by (intro admit_ok) simp_all
  have st: "counted (n, l) st" using enter ok by (simp add: st_def counted_same)
  have undone: "counted (n, l) (remove_session a st)" if created
  proof -
    have "remove_session a st = (n, l)"
      using that by (simp add: st_def created_def admit_def remove_session_def map_of_eq_None_iff delete_id)
    then show ?thesis using ok by (simp add: counted_same)
  qed
  have "snd (read_packet werr a p (n, l)) =
     (if ls_protocol l = ''bzflag'' then (n, bzflag_udp a p l)
      else if nq \<and> control_request p 2 then (n, l)
      else if \<not> connecting \<and> nq \<and> frame p = None then (n, l)
      else if connecting \<and> nq
      then (if map_of (ls_sessions l) a = None \<and> \<not> created then (n, l)
            else if werr \<and> created then remove_session a st else st)
      else if created then admit a \<lparr>ss_first = Some p, ss_input = []\<rparr> (n, l)
      else if map_of (ls_sessions l) a \<noteq> None then (n, deliver a p l)
      else (n, l))"
    by (simp add: read_packet_def Let_def nq_def connecting_def created_def st_def)
  moreover have "counted (n, l) (n, l)" using ok by (simp add: counted_same)
  ultimately show ?thesis using bzflag_udp_ok [OF ok] deliver_ok [OF ok] enter undone st by simp
qed

lemma slots_bound: "k \<in> set slots \<Longrightarrow> unat k < 200"
  by (auto simp: slots_def unat_of_nat)

lemma bzflag_tcp_ok:
  assumes ok: "listener_ok l"
  shows "counted (n, l) (snd (bzflag_tcp a (n, l)))"
proof (cases "n < max_sessions \<and> List.find (\<lambda>k. map_of (ls_bz l) k = None) slots \<noteq> None")
  case True
  then obtain k where k: "List.find (\<lambda>k. map_of (ls_bz l) k = None) slots = Some k" by auto
  define c where "c = \<lparr>bc_virtual = k, bc_ip = unmap (fst a), bc_accepted = False, bc_udp = None, bc_input = []\<rparr>"
  have free: "k \<in> set slots" "k \<notin> fst ` set (ls_bz l)"
    using find_SomeD [OF k] by (simp_all add: map_of_eq_None_iff)
  have "client_ok k c" using slots_bound [OF free(1)] by (simp add: client_ok_def c_def)
  moreover have "owners_ok ((k, c) # ls_bz l)"
    using ok by (auto simp: owners_ok_def listener_ok_def c_def)
  ultimately have "listener_ok (l\<lparr>ls_bz := (k, c) # ls_bz l\<rparr>)"
    using ok free(2) unfolding listener_ok_def by simp
  then show ?thesis using True k by (simp add: bzflag_tcp_def counted_def load_of_def c_def [symmetric])
next
  case False
  then have "snd (bzflag_tcp a (n, l)) = (n, l)" by (auto simp: bzflag_tcp_def)
  then show ?thesis using ok by (simp add: counted_same)
qed

lemma event_fn_ok:
  assumes ok: "listener_ok l" and possible: "\<And>a i. ev = SessionEnds i a \<Longrightarrow> a \<in> fst ` set (ls_sessions l)"
    "\<And>k i. ev = BZEnds i k \<Longrightarrow> k \<in> fst ` set (ls_bz l)"
  shows "counted (n, l) (event_fn ev (n, l))"
proof (cases ev)
  case (Greeting i k)
  have "counted (n, l) (n, bz_greeted k l)"
    unfolding bz_greeted_def using ok by (intro clients_entry_ok) (simp_all add: client_ok_def)
  then show ?thesis using Greeting by simp
next
  case (SessionTakes i a)
  have "counted (n, l) (n, l\<lparr>ls_sessions := AList.map_entry a (\<lambda>s. s\<lparr>ss_input := tl (ss_input s)\<rparr>) (ls_sessions l)\<rparr>)"
    using ok by (rule sessions_entry_ok) simp
  then show ?thesis using SessionTakes by simp
next
  case (BZTakes i k)
  have "counted (n, l) (n, l\<lparr>ls_bz := AList.map_entry k (\<lambda>c. c\<lparr>bc_input := tl (bc_input c)\<rparr>) (ls_bz l)\<rparr>)"
    using ok by (rule clients_entry_ok) (auto simp: client_ok_def)
  then show ?thesis using BZTakes by simp
qed (use assms read_packet_ok remove_session_ok bzflag_tcp_ok bz_leave_ok in simp_all)

section \<open>The gateway\<close>

definition gateway_ok :: "gateway \<Rightarrow> bool" where
  "gateway_ok g \<longleftrightarrow>
     (\<forall>l\<in>set (gw_listeners g). listener_ok l) \<and>
     gw_clients g = sum_list (map load_of (gw_listeners g)) \<and> gw_clients g \<le> max_sessions"

lemma sum_list_update_load:
  "i < length ls \<Longrightarrow>
     sum_list (map load_of (ls[i := l])) = sum_list (map load_of ls) + load_of l - load_of (ls ! i)"
proof (induction ls arbitrary: i)
  case (Cons x ls)
  then show ?case by (cases i) simp_all
qed simp

lemma gw_step_ok:
  assumes "gw_step g ev g'" "gateway_ok g"
  shows "gateway_ok g'"
  using assms(1)
proof
  let ?i = "event_listener ev" and ?l = "gw_listeners g ! event_listener ev"
  assume g': "g' = on_listener ?i (event_fn ev) g" and p: "event_possible ev g"
  have i: "?i < length (gw_listeners g)" using p by (simp add: event_possible_def)
  then have ok: "listener_ok ?l" using assms(2) by (simp add: gateway_ok_def)
  obtain n' l' where r: "event_fn ev (gw_clients g, ?l) = (n', l')" by fastforce
  have "counted (gw_clients g, ?l) (event_fn ev (gw_clients g, ?l))"
    using ok p by (intro event_fn_ok) (auto simp: event_possible_def)
  then have c: "listener_ok l'" "n' - gw_clients g = load_of l' - load_of ?l"
    "n' \<le> gw_clients g \<or> n' = gw_clients g + 1 \<and> gw_clients g < max_sessions"
    by (simp_all add: counted_def r)
  have "gw_clients g' = n'" "gw_listeners g' = (gw_listeners g)[?i := l']"
    by (simp_all add: g' on_listener_def r)
  moreover have "\<forall>l\<in>set ((gw_listeners g)[?i := l']). listener_ok l"
    using assms(2) c(1) set_update_subset_insert [of "gw_listeners g" ?i l'] by (auto simp: gateway_ok_def)
  ultimately show ?thesis
    using assms(2) c(2,3) i by (auto simp: gateway_ok_def sum_list_update_load)
qed

lemma gw_reachable_ok: "gw_reachable g \<Longrightarrow> gateway_ok g"
proof (induction rule: gw_reachable.induct)
  case (gw_start ms locals)
  have "load_of (new_listener m s) = 0" "listener_ok (new_listener m s)" for m s
    by (simp_all add: load_of_def new_listener_def listener_ok_def owners_ok_def)
  then have "\<forall>l\<in>set (map2 new_listener ms locals). listener_ok l \<and> load_of l = 0" by auto
  moreover from this have "sum_list (map load_of (map2 new_listener ms locals)) = 0"
    by (simp cong: map_cong add: sum_list_0)
  ultimately show ?case by (simp add: gateway_ok_def max_sessions_def)
next
  case (gw_next g ev g')
  from gw_next.hyps(2) gw_next.IH show ?case by (rule gw_step_ok)
qed

end
