(* ===== verification/WakeResolve.thy ===== *)
theory WakeResolve
  imports WakeGateway WakeSession
begin

text \<open>
  How the wake gateway gets from an instance to a connected backend: \<open>resolve\<close> and
  \<open>backendAddress\<close> (internal/wake/gateway.go), and the handshakes of session.go,
  darkplaces.go and bzflag.go. Parsing and printing of addresses (\<open>netip\<close>) and the DNS lookup
  are parameters. The lemmas show that the starts of an instance never overlap and are paced, and
  what a handshake must have seen before it reports a connection.
\<close>

section \<open>Starting a game once\<close>

definition attempt_timeout :: int where "attempt_timeout = 3 * minute"
definition failure_cooldown :: int where "failure_cooldown = minute"
definition ready_ttl :: int where "ready_ttl = 5 * second"

text \<open>\<open>gameState\<close>; its channel is closed when \<open>gs_done\<close> holds.\<close>

record game_state =
  gs_done :: bool
  gs_result :: "err + string"
  gs_expires :: time

type_synonym games = "string \<Rightarrow> game_state option"

definition resolve_enter :: "time \<Rightarrow> string \<Rightarrow> games \<Rightarrow> games \<times> bool" where
  "resolve_enter now i g =
     (let fresh = (g(i \<mapsto> \<lparr>gs_done = False, gs_result = Inr [], gs_expires = zero_time\<rparr>), True)
      in case g i of
           None \<Rightarrow> fresh
         | Some st \<Rightarrow> if \<not> is_zero (gs_expires st) \<and> gs_expires st < now then fresh else (g, False))"

definition resolve_finish :: "time \<Rightarrow> string \<Rightarrow> err + string \<Rightarrow> games \<Rightarrow> games" where
  "resolve_finish now i r g =
     (case g i of
        None \<Rightarrow> g
      | Some st \<Rightarrow>
          g(i \<mapsto> st\<lparr>gs_result := r, gs_done := True,
                    gs_expires := now + (case r of Inl e \<Rightarrow> failure_cooldown | Inr a \<Rightarrow> ready_ttl)\<rparr>))"

definition resolve_answer :: "err option \<Rightarrow> game_state \<Rightarrow> (err + string) option" where
  "resolve_answer cancelled st =
     (case cancelled of
        Some e \<Rightarrow> Some (Inl e)
      | None \<Rightarrow> if gs_done st then Some (gs_result st) else None)"

definition unspecified :: "ip \<Rightarrow> bool" where
  "unspecified a \<longleftrightarrow> a = V4 0 \<or> a = V6 0 []"

definition is_v4 :: "ip \<Rightarrow> bool" where
  "is_v4 a \<longleftrightarrow> (case unmap a of V4 w \<Rightarrow> True | V6 w z \<Rightarrow> False)"

definition pick_ip :: "ip list \<Rightarrow> ip option" where
  "pick_ip as =
     (case as of
        [] \<Rightarrow> None
      | a # _ \<Rightarrow> Some (case List.find is_v4 as of None \<Rightarrow> a | Some b \<Rightarrow> b))"

definition backend_address ::
  "(string \<Rightarrow> ip option) \<Rightarrow> (string \<Rightarrow> err + ip list) \<Rightarrow> (addr \<Rightarrow> string) \<Rightarrow> string \<Rightarrow> err + string" where
  "backend_address parse lookup render address =
     (let invalid = Inl (ErrMsg ''invalid backend address'') in
      case split_host_port address of
        None \<Rightarrow> invalid
      | Some (host, port_text) \<Rightarrow>
          (case atoi port_text of
             None \<Rightarrow> invalid
           | Some port \<Rightarrow>
               if port < 1 \<or> 65535 < port \<or> host = [] then invalid
               else (let found = (case parse host of
                            Some a \<Rightarrow> Inr (Some a)
                          | None \<Rightarrow> (case lookup host of Inl e \<Rightarrow> Inl e | Inr as \<Rightarrow> Inr (pick_ip as)))
                 in case found of
                      Inl e \<Rightarrow> Inl e
                    | Inr None \<Rightarrow> invalid
                    | Inr (Some a) \<Rightarrow>
                        if unspecified a then invalid else Inr (render (unmap a, word_of_int port)))))"

text \<open>What the starting goroutine stores: the callback's result unless its time was up.\<close>

definition start_result ::
  "(string \<Rightarrow> ip option) \<Rightarrow> (string \<Rightarrow> err + ip list) \<Rightarrow> (addr \<Rightarrow> string) \<Rightarrow> err option \<Rightarrow> err + string \<Rightarrow> err + string" where
  "start_result parse lookup render expired r =
     (case expired of
        Some e \<Rightarrow> Inl e
      | None \<Rightarrow> (case r of Inl e \<Rightarrow> Inl e | Inr a \<Rightarrow> backend_address parse lookup render a))"

lemma backend_address_Inr:
  assumes "backend_address parse lookup render address = Inr s"
  obtains host port_text port a where "split_host_port address = Some (host, port_text)" "atoi port_text = Some port"
    "1 \<le> port" "port \<le> 65535" "host \<noteq> []" "\<not> unspecified a" "s = render (unmap a, word_of_int port)"
  using assms
  by (auto simp: backend_address_def Let_def split: option.splits prod.splits if_splits sum.splits)

section \<open>The pace of starts\<close>

datatype mark = Started time | Finished time bool

text \<open>The history of one instance: idle, being started, or resting until its answer expires.\<close>

datatype pace = Idle | Flying | Resting time

fun pace_step :: "pace \<Rightarrow> mark \<Rightarrow> pace option" where
  "pace_step Idle (Started t) = Some Flying"
| "pace_step Flying (Finished t ok) = Some (Resting (t + (if ok then ready_ttl else failure_cooldown)))"
| "pace_step (Resting e) (Started t) = (if e < t then Some Flying else None)"
| "pace_step p m = None"

fun pacing :: "mark list \<Rightarrow> pace option" where
  "pacing [] = Some Idle"
| "pacing (m # ms) = (case pacing ms of None \<Rightarrow> None | Some p \<Rightarrow> pace_step p m)"

text \<open>Runs of the map of games: the clock, the map, and what happened to each instance, newest
  first. A start finishes once, while its state is pending.\<close>

inductive resolving :: "time \<Rightarrow> games \<Rightarrow> (string \<Rightarrow> mark list) \<Rightarrow> bool" where
  resolving_starts: "0 \<le> t \<Longrightarrow> resolving t (\<lambda>i. None) (\<lambda>i. [])"
| resolving_asked:
    "resolving t g h \<Longrightarrow> t \<le> now \<Longrightarrow> resolve_enter now i g = (g', started) \<Longrightarrow>
     resolving now g' (if started then h(i := Started now # h i) else h)"
| resolving_done:
    "resolving t g h \<Longrightarrow> t \<le> now \<Longrightarrow> g i = Some st \<Longrightarrow> \<not> gs_done st \<Longrightarrow>
     resolving now (resolve_finish now i r g) (h(i := Finished now (\<not> isl r) # h i))"

definition pace_of :: "game_state option \<Rightarrow> pace" where
  "pace_of st =
     (case st of None \<Rightarrow> Idle | Some s \<Rightarrow> if gs_done s then Resting (gs_expires s) else Flying)"

definition resolving_ok :: "time \<Rightarrow> games \<Rightarrow> (string \<Rightarrow> mark list) \<Rightarrow> bool" where
  "resolving_ok t g h \<longleftrightarrow>
     0 \<le> t \<and> (\<forall>i. pacing (h i) = Some (pace_of (g i))) \<and>
     (\<forall>i st. g i = Some st \<longrightarrow> (gs_done st \<longrightarrow> 0 < gs_expires st) \<and> (\<not> gs_done st \<longrightarrow> gs_expires st = zero_time))"

lemma zero_time_neg: "zero_time < 0"
  by (simp add: zero_time_def second_def)

lemma enter_cases:
  assumes "resolve_enter now i g = (g', started)"
  obtains "\<not> started" "g' = g" "g i \<noteq> None"
  | "started" "g' = g(i \<mapsto> \<lparr>gs_done = False, gs_result = Inr [], gs_expires = zero_time\<rparr>)"
    "g i = None \<or> (\<exists>st. g i = Some st \<and> gs_expires st \<noteq> zero_time \<and> gs_expires st < now)"
proof (cases "g i")
  case None
  then show ?thesis using assms by (intro that(2)) (simp_all add: resolve_enter_def)
next
  case (Some st)
  show ?thesis
  proof (cases "gs_expires st \<noteq> zero_time \<and> gs_expires st < now")
    case True
    then show ?thesis using assms Some by (intro that(2)) (simp_all add: resolve_enter_def is_zero_def)
  next
    case False
    then show ?thesis using assms Some by (intro that(1)) (auto simp: resolve_enter_def is_zero_def)
  qed
qed

lemma resolving_is_ok: "resolving t g h \<Longrightarrow> resolving_ok t g h"
proof (induction rule: resolving.induct)
  case (resolving_starts t)
  then show ?case by (simp add: resolving_ok_def pace_of_def)
next
  case (resolving_asked t g h now i g' started)
  note ok = resolving_asked.IH
  from resolving_asked.hyps(3) show ?case
  proof (cases rule: enter_cases)
    case 1
    then show ?thesis using ok resolving_asked.hyps(2) by (simp add: resolving_ok_def)
  next
    case 2
    have "pacing (Started now # h i) = Some Flying"
    proof (cases "g i")
      case None
      then show ?thesis using ok by (simp add: resolving_ok_def pace_of_def)
    next
      case (Some st)
      then have "gs_done st" "gs_expires st < now" using 2(3) ok unfolding resolving_ok_def by auto
      moreover have "pacing (h i) = Some (pace_of (Some st))" using ok Some unfolding resolving_ok_def by metis
      ultimately show ?thesis by (simp add: pace_of_def)
    qed
    then show ?thesis using ok resolving_asked.hyps(2) 2(1,2)
      by (auto simp: resolving_ok_def pace_of_def)
  qed
next
  case (resolving_done t g h now i st r)
  have "pacing (h i) = Some (pace_of (Some st))"
    using resolving_done.IH resolving_done.hyps(3) unfolding resolving_ok_def by metis
  then have "pacing (Finished now (\<not> isl r) # h i) =
      Some (Resting (now + (case r of Inl e \<Rightarrow> failure_cooldown | Inr a \<Rightarrow> ready_ttl)))"
    using resolving_done.hyps(4) by (simp add: pace_of_def split: sum.split)
  moreover have "0 < now + (case r of Inl e \<Rightarrow> failure_cooldown | Inr a \<Rightarrow> ready_ttl)"
    using resolving_done.IH resolving_done.hyps(2)
    by (simp add: resolving_ok_def failure_cooldown_def ready_ttl_def time_defs split: sum.split)
  ultimately show ?case using resolving_done.IH resolving_done.hyps
    by (auto simp: resolving_ok_def resolve_finish_def pace_of_def)
qed

section \<open>The NetQuake handshake\<close>

text \<open>One turn of the loop of \<open>connectBackend\<close>: the outcome of the write, then what the read
  brought. The list of turns ends when the deadline or the context ends the loop. The first
  component of a result is the address to use from then on, the last one the value of \<open>err\<close>.\<close>

datatype reading = TimedOut err | ReadFailed err | Received addr "byte list"

type_synonym turn = "err option \<times> reading"

definition text_before_nul :: "byte list \<Rightarrow> string" where
  "text_before_nul p = text_of (before_nul p)"

definition peer_of :: "addr \<Rightarrow> addr" where
  "peer_of a = (unmap (fst a), snd a)"

definition with_port :: "addr \<Rightarrow> byte list \<Rightarrow> addr" where
  "with_port remote p =
     (let port = (ucast (le32 (drop 5 p)) :: 16 word) in if port \<noteq> 0 then (fst remote, port) else remote)"

datatype reply = Ignored | Answer dialled

definition nq_reply :: "addr \<Rightarrow> addr \<Rightarrow> byte list \<Rightarrow> reply" where
  "nq_reply remote from p =
     (if peer_of from \<noteq> remote \<or> length p < 5 \<or> be32 p \<noteq> flag_control OR of_nat (length p) then Ignored
      else if p ! 4 = 0x82 then Answer (Rejected (''Server rejected connection: '' @ text_before_nul (drop 5 p)))
      else if p ! 4 \<noteq> 0x81 \<or> length p < 9 then Ignored
      else if length p \<noteq> 9
      then Answer (Rejected ''Backend requires extended transport; configure FTE sv_listen_nq 1.'')
      else Answer Connected)"

fun nq_loop :: "addr \<Rightarrow> err option \<Rightarrow> turn list \<Rightarrow> addr \<times> dialled option" where
  "nq_loop remote e [] = (remote, map_option DialFailed e)"
| "nq_loop remote e ((Some w, r) # ts) = (remote, Some (DialFailed w))"
| "nq_loop remote e ((None, TimedOut x) # ts) = nq_loop remote (Some x) ts"
| "nq_loop remote e ((None, ReadFailed x) # ts) = (remote, Some (DialFailed x))"
| "nq_loop remote e ((None, Received from p) # ts) =
     (case nq_reply remote from p of
        Ignored \<Rightarrow> nq_loop remote None ts
      | Answer Connected \<Rightarrow> (with_port remote p, Some Connected)
      | Answer d \<Rightarrow> (remote, Some d))"

definition connect_backend :: "addr \<Rightarrow> err option \<Rightarrow> turn list \<Rightarrow> addr \<times> dialled" where
  "connect_backend remote cancelled ts =
     (case nq_loop remote None ts of
        (a, Some Connected) \<Rightarrow> (a, Connected)
      | (a, d) \<Rightarrow>
          (a, case cancelled of
                Some e \<Rightarrow> DialFailed e
              | None \<Rightarrow> (case d of None \<Rightarrow> DialFailed (ErrMsg ''backend handshake timed out'') | Some x \<Rightarrow> x)))"

text \<open>\<open>readBackend\<close> passes on the packets of the backend only.\<close>

fun read_backend :: "addr \<Rightarrow> reading \<Rightarrow> (err + byte list) option" where
  "read_backend remote (Received from p) = (if peer_of from \<noteq> remote then None else Some (Inr p))"
| "read_backend remote (TimedOut e) = Some (Inl e)"
| "read_backend remote (ReadFailed e) = Some (Inl e)"

section \<open>The DarkPlaces handshake\<close>

definition get_challenge :: "byte list" where
  "get_challenge = connectionless @ str ''getchallenge''"

definition bslash :: string where "bslash = [CHR 0x5C]"

definition dp_connect :: "string \<Rightarrow> byte list" where
  "dp_connect c =
     connectionless @
     str (''connect'' @ bslash @ ''protocol'' @ bslash @ ''darkplaces 3'' @ bslash @ ''protocols'' @ bslash @ ''DP7'' @
          bslash @ ''challenge'' @ bslash @ c)"

definition challenge_ok :: "string \<Rightarrow> bool" where
  "challenge_ok c \<longleftrightarrow> c \<noteq> [] \<and> length c \<le> 49 \<and> \<not> contains_any c [CHR 0x5C, CHR 0x0D, CHR 0x0A]"

datatype dp_reply = DPIgnored | DPRequest "byte list" | DPAnswer dialled

definition dp_reply_of :: "addr \<Rightarrow> byte list \<Rightarrow> addr \<Rightarrow> byte list \<Rightarrow> dp_reply" where
  "dp_reply_of remote request from p =
     (if peer_of from \<noteq> remote \<or> length p < 4 \<or> take 4 p \<noteq> connectionless then DPIgnored
      else (let message = text_before_nul (drop 4 p) in
        case cut_prefix message ''challenge '' of
          Some c \<Rightarrow> if challenge_ok c then DPRequest (dp_connect c) else DPIgnored
        | None \<Rightarrow>
            if message = ''accept'' \<and> request \<noteq> get_challenge then DPAnswer Connected
            else (case cut_prefix message ''reject '' of
                    Some reason \<Rightarrow> DPAnswer (Rejected (''Server rejected connection: '' @ reason))
                  | None \<Rightarrow> DPIgnored)))"

text \<open>The result has the requests sent, in order. A rejection returns at once; any other end of the
  loop looks at the context first.\<close>

fun dp_loop ::
  "addr \<Rightarrow> byte list \<Rightarrow> err option \<Rightarrow> err option \<Rightarrow> turn list \<Rightarrow> byte list list \<times> dialled" where
  "dp_loop remote request cancelled e [] =
     ([], DialFailed (case cancelled of Some c \<Rightarrow> c
        | None \<Rightarrow> (case e of None \<Rightarrow> ErrMsg ''DarkPlaces backend handshake timed out'' | Some x \<Rightarrow> x)))"
| "dp_loop remote request cancelled e ((Some w, r) # ts) =
     ([request], DialFailed (case cancelled of Some c \<Rightarrow> c | None \<Rightarrow> w))"
| "dp_loop remote request cancelled e ((None, TimedOut x) # ts) =
     (let (sent, d) = dp_loop remote request cancelled (Some x) ts in (request # sent, d))"
| "dp_loop remote request cancelled e ((None, ReadFailed x) # ts) =
     ([request], DialFailed (case cancelled of Some c \<Rightarrow> c | None \<Rightarrow> x))"
| "dp_loop remote request cancelled e ((None, Received from p) # ts) =
     (case dp_reply_of remote request from p of
        DPIgnored \<Rightarrow> (let (sent, d) = dp_loop remote request cancelled None ts in (request # sent, d))
      | DPRequest q \<Rightarrow> (let (sent, d) = dp_loop remote q cancelled None ts in (request # sent, d))
      | DPAnswer d \<Rightarrow> ([request], d))"

definition connect_darkplaces :: "addr \<Rightarrow> err option \<Rightarrow> turn list \<Rightarrow> byte list list \<times> dialled" where
  "connect_darkplaces remote cancelled ts = dp_loop (peer_of remote) get_challenge cancelled None ts"

section \<open>The BZFlag handshake\<close>

text \<open>What the server sends first, as the bytes read until the connection ended with \<open>e\<close>.\<close>

definition bz_greeting :: "byte list" where
  "bz_greeting = str (''BZFLAG'' @ [CHR 0x0D, CHR 0x0A, CHR 0x0D, CHR 0x0A])"

definition refusal_reason :: "byte list \<Rightarrow> string" where
  "refusal_reason s =
     (let reason = trim_space (text_before_nul (take 127 s)) in if reason = [] then ''connection refused'' else reason)"

datatype refusal = Refusal string | Failure err

definition bz_hello :: "err \<Rightarrow> byte list \<Rightarrow> refusal + byte" where
  "bz_hello e s =
     (if length s < 8 then Inl (Failure e)
      else if take 8 s = str ''REFUSED:''
      then Inl (Refusal (''Server rejected connection: '' @ refusal_reason (drop 8 s)))
      else if take 8 s \<noteq> str bz_version
      then Inl (Refusal (''Unsupported BZFlag server protocol; expected '' @ bz_version @ ''.''))
      else if length s < 9 then Inl (Failure e)
      else if s ! 8 = 255 then Inl (Refusal ''Server is full. Please try again later.'')
      else if 200 \<le> s ! 8 then Inl (Refusal ''BZFlag replay servers are not supported by the wake gateway.'')
      else Inr (s ! 8))"

lemma bz_hello_Inr: "bz_hello e s = Inr i \<Longrightarrow> i < 200 \<and> take 8 s = str bz_version"
  by (auto simp: bz_hello_def not_le split: if_splits)

section \<open>What a connection rests on\<close>

lemma nq_loop_connected:
  "nq_loop remote e ts = (a, Some Connected) \<Longrightarrow>
     \<exists>from p. (None, Received from p) \<in> set ts \<and> peer_of from = remote \<and> length p = 9 \<and>
       be32 p = flag_control OR 9 \<and> p ! 4 = 0x81 \<and> a = with_port remote p"
proof (induction remote e ts rule: nq_loop.induct)
  case (5 remote e "from" p ts)
  show ?case
  proof (cases "nq_reply remote from p")
    case Ignored
    then show ?thesis using 5 by fastforce
  next
    case (Answer d)
    then have "d = Connected" "a = with_port remote p" using 5(2) by (cases d; simp)+
    then show ?thesis using Answer
      by (intro exI [of _ "from"] exI [of _ p]) (auto simp: nq_reply_def split: if_splits)
  qed
qed auto

definition dp_request_ok :: "byte list \<Rightarrow> bool" where
  "dp_request_ok q \<longleftrightarrow> q = get_challenge \<or> (\<exists>c. challenge_ok c \<and> q = dp_connect c)"

lemma dp_reply_request: "dp_reply_of remote request from p = DPRequest q \<Longrightarrow> dp_request_ok q"
  by (auto simp: dp_reply_of_def dp_request_ok_def Let_def split: if_splits option.splits)

lemma dp_reply_connected:
  "dp_reply_of remote request from p = DPAnswer Connected \<Longrightarrow>
     peer_of from = remote \<and> request \<noteq> get_challenge \<and> take 4 p = connectionless \<and> text_before_nul (drop 4 p) = ''accept''"
  by (auto simp: dp_reply_of_def Let_def split: if_splits option.splits)

lemma dp_loop_sent:
  "dp_loop remote request cancelled e ts = (sent, d) \<Longrightarrow> dp_request_ok request \<Longrightarrow>
     (\<forall>q\<in>set sent. dp_request_ok q) \<and>
     (d = Connected \<longrightarrow> sent \<noteq> [] \<and> last sent \<noteq> get_challenge \<and>
        (\<exists>from p. (None, Received from p) \<in> set ts \<and> peer_of from = remote \<and> text_before_nul (drop 4 p) = ''accept''))"
proof (induction remote request cancelled e ts arbitrary: sent rule: dp_loop.induct)
  case (3 remote request cancelled e x ts)
  obtain rest where r: "dp_loop remote request cancelled (Some x) ts = (rest, d)" "sent = request # rest"
    using 3(2) by (auto split: prod.splits)
  show ?case using 3(1) [OF r(1) 3(3)] 3(3) r(2) by auto
next
  case (5 remote request cancelled e "from" p ts)
  show ?case
  proof (cases "dp_reply_of remote request from p")
    case DPIgnored
    then obtain rest where r: "dp_loop remote request cancelled None ts = (rest, d)" "sent = request # rest"
      using 5(3) by (auto split: prod.splits)
    show ?thesis using 5(1) [OF DPIgnored r(1) 5(4)] 5(4) r(2) by auto
  next
    case (DPRequest q)
    then obtain rest where r: "dp_loop remote q cancelled None ts = (rest, d)" "sent = request # rest"
      using 5(3) by (auto split: prod.splits)
    show ?thesis using 5(2) [OF DPRequest r(1) dp_reply_request [OF DPRequest]] 5(4) r(2) by auto
  next
    case (DPAnswer b)
    then have r: "sent = [request]" "d = b" using 5(3) by auto
    have "(None, Received from p) \<in> set ((None, Received from p) # ts)" by simp
    then show ?thesis
      using dp_reply_connected [of remote request "from" p] DPAnswer r 5(4)
      by (intro conjI impI exI [of _ "from"] exI [of _ p]) auto
  qed
qed auto

end
