(* ===== verification/WakeRelay.thy ===== *)
theory WakeRelay
  imports WakeResolve
begin

text \<open>
  Sessions of the other protocols: the relay of Quake II, Quake III and UT99 clients, which holds the
  first request while the game starts (internal/wake/relay.go), and the BZFlag session, which queues
  what the client sends while the game boots and then translates player IDs in both directions
  (\<open>bzflagSession\<close> of bzflag.go). Select loops are functions of the events they receive.
\<close>

section \<open>Waiting for the game\<close>

definition print_packet :: "string \<Rightarrow> byte list" where
  "print_packet m = connectionless @ str (''print'' @ [CHR 0x0A] @ m @ [CHR 0x0A] @ nul)"

definition held :: "string \<Rightarrow> bool" where
  "held protocol \<longleftrightarrow> protocol = ''quake2'' \<or> protocol = ''quake3'' \<or> protocol = ''ut99''"

definition progress :: "string \<Rightarrow> byte list" where
  "progress protocol =
     (if protocol = ''ut99'' then [0xff, 0x7f] else print_packet ''Starting server...'')"

definition hold_fail :: "string \<Rightarrow> string \<Rightarrow> byte list list" where
  "hold_fail protocol m =
     (if protocol = ''ut99'' then replicate 3 ut99_rejection else [print_packet m])"

text \<open>\<open>HoldEnded e b\<close>: the boot context ended with \<open>e\<close>; \<open>b\<close> says that the gateway
  itself goes on.\<close>

datatype hold_event =
    HoldIdle
  | HoldEnded err bool
  | HoldReady "err + string"
  | HoldTick "err option"
  | HoldInput "byte list"

fun hold :: "string \<Rightarrow> hold_event list \<Rightarrow> byte list list \<times> (err + string) option" where
  "hold protocol [] = ([], None)"
| "hold protocol (HoldIdle # evs) = ([], Some (Inl (ErrMsg ''client inactive while waiting for server'')))"
| "hold protocol (HoldEnded e alive # evs) =
     (if alive then hold_fail protocol ''Server did not start in time. Please try again.'' else [], Some (Inl e))"
| "hold protocol (HoldReady r # evs) =
     (case r of
        Inl e \<Rightarrow> (hold_fail protocol ''Unable to start server. Please try again.'', Some (Inl e))
      | Inr a \<Rightarrow> ([], Some (Inr a)))"
| "hold protocol (HoldTick w # evs) =
     (case w of
        Some e \<Rightarrow> ([progress protocol], Some (Inl e))
      | None \<Rightarrow> (let (outs, r) = hold protocol evs in (progress protocol # outs, r)))"
| "hold protocol (HoldInput p # evs) = hold protocol evs"

fun only_resolve :: "hold_event list \<Rightarrow> (err + string) option" where
  "only_resolve [] = None"
| "only_resolve (HoldEnded e alive # evs) = Some (Inl e)"
| "only_resolve (HoldReady r # evs) = Some r"
| "only_resolve (ev # evs) = only_resolve evs"

definition wait_for_game ::
  "string \<Rightarrow> err option \<Rightarrow> hold_event list \<Rightarrow> byte list list \<times> (err + string) option" where
  "wait_for_game protocol werr evs =
     (if \<not> held protocol then ([], only_resolve evs)
      else if protocol = ''ut99'' then hold protocol evs
      else (case werr of
              Some e \<Rightarrow> ([progress protocol], Some (Inl e))
            | None \<Rightarrow> (let (outs, r) = hold protocol evs in (progress protocol # outs, r))))"

section \<open>Relaying\<close>

datatype relay_event =
    RelayCancelled
  | RelayIdle
  | ClientSent "err option" "byte list"
  | GameSent "err option" "err + byte list"

datatype relay_out = ToGame "byte list" | ToPeer "byte list"

fun relay_loop :: "relay_event list \<Rightarrow> relay_out list \<times> err option option" where
  "relay_loop [] = ([], None)"
| "relay_loop (RelayCancelled # evs) = ([], Some None)"
| "relay_loop (RelayIdle # evs) = ([], Some None)"
| "relay_loop (ClientSent w p # evs) =
     (case w of
        Some e \<Rightarrow> ([ToGame p], Some (Some e))
      | None \<Rightarrow> (let (outs, r) = relay_loop evs in (ToGame p # outs, r)))"
| "relay_loop (GameSent w (Inl e) # evs) = ([], Some (Some e))"
| "relay_loop (GameSent w (Inr p) # evs) =
     (case w of
        Some e \<Rightarrow> ([ToPeer p], Some (Some e))
      | None \<Rightarrow> (let (outs, r) = relay_loop evs in (ToPeer p # outs, r)))"

text \<open>
  \<open>session.relay\<close>: \<open>first\<close> is the request the session was opened with, \<open>dial\<close> the
  outcome of resolving and dialling the address. What the client sent before the game was there is
  in the events of the wait and is dropped.
\<close>

definition relay_session ::
  "string \<Rightarrow> byte list \<Rightarrow> err option \<Rightarrow> hold_event list \<Rightarrow> err option \<Rightarrow> err option \<Rightarrow> relay_event list \<Rightarrow>
     relay_out list \<times> err option option" where
  "relay_session protocol first werr boot dial first_err evs =
     (let (outs, r) = wait_for_game protocol werr boot; outs = map ToPeer outs
      in case r of
           None \<Rightarrow> (outs, None)
         | Some (Inl e) \<Rightarrow> (outs, Some (Some e))
         | Some (Inr a) \<Rightarrow>
             (case dial of
                Some e \<Rightarrow> (outs, Some (Some e))
              | None \<Rightarrow>
                  (case first_err of
                     Some e \<Rightarrow> (outs @ [ToGame first], Some (Some e))
                   | None \<Rightarrow> (let (outs', r) = relay_loop evs in (outs @ ToGame first # outs', r)))))"

definition to_game :: "relay_out list \<Rightarrow> byte list list" where
  "to_game outs = List.map_filter (\<lambda>x. case x of ToGame p \<Rightarrow> Some p | ToPeer p \<Rightarrow> None) outs"

definition to_peer :: "relay_out list \<Rightarrow> byte list list" where
  "to_peer outs = List.map_filter (\<lambda>x. case x of ToPeer p \<Rightarrow> Some p | ToGame p \<Rightarrow> None) outs"

definition client_sent :: "relay_event list \<Rightarrow> byte list list" where
  "client_sent evs = List.map_filter (\<lambda>x. case x of ClientSent w p \<Rightarrow> Some p | _ \<Rightarrow> None) evs"

definition game_sent :: "relay_event list \<Rightarrow> byte list list" where
  "game_sent evs = List.map_filter (\<lambda>x. case x of GameSent w (Inr p) \<Rightarrow> Some p | _ \<Rightarrow> None) evs"

lemmas stream_defs = to_game_def to_peer_def client_sent_def game_sent_def map_filter_def

lemma to_game_streams:
  "to_game (a @ b) = to_game a @ to_game b" "to_game (map ToPeer ps) = []" "to_game (ToGame p # b) = p # to_game b"
  by (simp_all add: stream_defs comp_def)

lemma to_peer_streams:
  "to_peer (a @ b) = to_peer a @ to_peer b" "to_peer (map ToPeer ps) = ps" "to_peer (ToGame p # b) = to_peer b"
  by (simp_all add: stream_defs comp_def)

lemma relay_loop_streams:
  "relay_loop evs = (outs, None) \<Longrightarrow> to_game outs = client_sent evs \<and> to_peer outs = game_sent evs"
proof (induction evs arbitrary: outs rule: relay_loop.induct)
  case (4 w p evs)
  then show ?case by (auto simp: stream_defs split: option.splits prod.splits)
next
  case (6 w p evs)
  then show ?case by (auto simp: stream_defs split: option.splits prod.splits)
qed (auto simp: stream_defs)

lemma hold_outs: "hold protocol evs = (outs, Some (Inr a)) \<Longrightarrow> set outs \<subseteq> {progress protocol}"
proof (induction protocol evs arbitrary: outs rule: hold.induct)
  case (4 protocol r evs)
  then show ?case by (auto split: sum.splits)
next
  case (5 protocol w evs)
  then show ?case by (auto split: option.splits prod.splits)
qed (auto split: if_splits)

lemma wait_outs: "wait_for_game protocol werr evs = (outs, Some (Inr a)) \<Longrightarrow> set outs \<subseteq> {progress protocol}"
  using hold_outs
  by (fastforce simp: wait_for_game_def split: if_splits option.splits prod.splits)

section \<open>A BZFlag session while its game boots\<close>

record bz_boot =
  bb_pending :: "byte list list"
  bb_request :: "byte list option"

datatype bz_boot_event =
    BootCancelled
  | BootReady "refusal + byte"
  | BootTCP "err + byte list"
  | BootUDP "byte list"
  | BootTick int "err option"

datatype bz_out = ClientTCP "byte list" | ClientUDP "byte list" | ServerTCP "byte list" | ServerUDP "byte list"

datatype bz_next = Booting bz_boot | Attached byte bz_boot | BZReturn "err option"

definition bz_notice :: "int \<Rightarrow> byte list" where
  "bz_notice seconds =
     bz_packet bz_message
       ([253, 254, 0] @ str (''Starting server... '' @ show_int seconds @ ''s elapsed. Please wait.'') @ [0])"

fun bz_boot_step :: "byte \<Rightarrow> bz_boot_event \<Rightarrow> bz_boot \<Rightarrow> bz_out list \<times> bz_next" where
  "bz_boot_step v BootCancelled s = ([], BZReturn None)"
| "bz_boot_step v (BootReady (Inr i)) s = ([], Attached i s)"
| "bz_boot_step v (BootReady (Inl (Refusal reason))) s =
     ([ClientTCP (bz_reject_packet reason)], BZReturn (Some (ErrMsg reason)))"
| "bz_boot_step v (BootReady (Inl (Failure e))) s =
     ([ClientTCP (bz_reject_packet ''Unable to start server. Please try again shortly.'')], BZReturn (Some e))"
| "bz_boot_step v (BootTCP (Inl e)) s = ([], BZReturn (Some e))"
| "bz_boot_step v (BootTCP (Inr p)) s =
     ([], if be16 (drop 2 p) = bz_exit then BZReturn None
          else if 8 \<le> length (bb_pending s) then BZReturn (Some (ErrMsg ''BZFlag startup packet queue is full''))
          else (case bz_translate p v v False of
                  Inl e \<Rightarrow> BZReturn (Some e)
                | Inr q \<Rightarrow> Booting (s\<lparr>bb_pending := bb_pending s @ [q]\<rparr>)))"
| "bz_boot_step v (BootUDP p) s = ([], Booting (if link_request p then s\<lparr>bb_request := Some p\<rparr> else s))"
| "bz_boot_step v (BootTick seconds werr) s =
     ([ClientTCP (bz_notice seconds)], case werr of Some e \<Rightarrow> BZReturn (Some e) | None \<Rightarrow> Booting s)"

inductive bz_booting :: "byte \<Rightarrow> bz_boot_event list \<Rightarrow> bz_boot \<Rightarrow> bool" where
  bz_boot_starts: "bz_booting v [] \<lparr>bb_pending = [], bb_request = None\<rparr>"
| bz_boot_goes_on:
    "bz_booting v evs s \<Longrightarrow> bz_boot_step v ev s = (outs, Booting s') \<Longrightarrow> bz_booting v (evs @ [ev]) s'"

text \<open>Once the game is there the queue is sent, then the link request under the game's player ID;
  \<open>werr\<close> is the outcome of each write.\<close>

fun bz_flush :: "byte \<Rightarrow> byte \<Rightarrow> (byte list \<Rightarrow> err option) \<Rightarrow> byte list list \<Rightarrow> bz_out list \<times> err option" where
  "bz_flush v i werr [] = ([], None)"
| "bz_flush v i werr (p # ps) =
     (case bz_translate p v i False of
        Inl e \<Rightarrow> ([], Some e)
      | Inr q \<Rightarrow>
          (case werr q of
             Some e \<Rightarrow> ([ServerTCP q], Some e)
           | None \<Rightarrow> (let (outs, r) = bz_flush v i werr ps in (ServerTCP q # outs, r))))"

definition bz_attach :: "byte \<Rightarrow> byte \<Rightarrow> (byte list \<Rightarrow> err option) \<Rightarrow> bz_boot \<Rightarrow> bz_out list \<times> err option" where
  "bz_attach v i werr s =
     (case bz_flush v i werr (bb_pending s) of
        (outs, Some e) \<Rightarrow> (outs, Some e)
      | (outs, None) \<Rightarrow>
          (case bb_request s of
             None \<Rightarrow> (outs, None)
           | Some p \<Rightarrow> (let q = p[4 := i] in (outs @ [ServerUDP q], werr q))))"

section \<open>A BZFlag session attached\<close>

datatype bz_source = ClientStream | ClientLink | ServerStream | ServerLink

text \<open>One turn of the relay loop; \<open>linked\<close> says that the client has a UDP peer.\<close>

definition bz_relay_step ::
  "byte \<Rightarrow> byte \<Rightarrow> bool \<Rightarrow> (byte list \<Rightarrow> err option) \<Rightarrow> bz_source \<Rightarrow> err + byte list \<Rightarrow> bz_out list \<times> err option" where
  "bz_relay_step v i linked werr src r =
     (case r of
        Inl e \<Rightarrow> ([], Some e)
      | Inr p \<Rightarrow>
          (case (if src = ServerLink then bz_translate_datagram p v i else bz_translate p v i (src = ServerStream)) of
             Inl e \<Rightarrow>
               ([ClientTCP (bz_reject_packet ''Unsupported server protocol. Please contact the server operator.'')], Some e)
           | Inr q \<Rightarrow>
               (case src of
                  ClientStream \<Rightarrow> ([ServerTCP q], werr q)
                | ClientLink \<Rightarrow> ([ServerUDP q], werr q)
                | ServerStream \<Rightarrow> ([ClientTCP q], werr q)
                | ServerLink \<Rightarrow> if linked then ([ClientUDP q], werr q) else ([], None))))"

lemma bz_translate_any_ids: "bz_translate p v w False = Inr q \<Longrightarrow> \<exists>q'. bz_translate p v' w' False = Inr q'"
  by (auto simp: bz_translate_def Let_def split: if_splits sum.splits)

definition boot_ok :: "bz_boot \<Rightarrow> bool" where
  "boot_ok s \<longleftrightarrow>
     length (bb_pending s) \<le> 8 \<and> (\<forall>p\<in>set (bb_pending s). \<forall>v i. \<exists>q. bz_translate p v i False = Inr q) \<and>
     (\<forall>p. bb_request s = Some p \<longrightarrow> link_request p)"

lemma bz_boot_step_ok:
  assumes "boot_ok s" "bz_boot_step v ev s = (outs, Booting s')"
  shows "boot_ok s' \<and> (bb_pending s' = bb_pending s \<or> (\<exists>p. ev = BootTCP (Inr p) \<and> bb_pending s' = bb_pending s @ [p]))"
  using assms(2)
proof (cases rule: bz_boot_step.elims)
  case (6 p)
  then obtain q where q: "bz_translate p v v False = Inr q" "s' = s\<lparr>bb_pending := bb_pending s @ [q]\<rparr>"
    "length (bb_pending s) < 8"
    by (auto split: if_splits sum.splits)
  have "q = p" using q(1) by (rule bz_translate_same)
  moreover have "\<exists>q'. bz_translate p v' i False = Inr q'" for v' i using bz_translate_any_ids [OF q(1)] .
  ultimately show ?thesis using assms(1) q(2,3) 6 by (auto simp: boot_ok_def)
qed (use assms(1) in \<open>auto simp: boot_ok_def split: if_splits option.splits\<close>)

lemma bz_booting_ok: "bz_booting v evs s \<Longrightarrow> boot_ok s"
proof (induction rule: bz_booting.induct)
  case (bz_boot_starts v)
  then show ?case by (simp add: boot_ok_def)
next
  case (bz_boot_goes_on v evs s ev outs s')
  then show ?case using bz_boot_step_ok by blast
qed

lemma bz_flush_all:
  "\<forall>p\<in>set ps. \<exists>q. bz_translate p v i False = Inr q \<Longrightarrow>
     \<exists>qs. bz_flush v i (\<lambda>q. None) ps = (map ServerTCP qs, None) \<and> list_all2 (\<lambda>p q. bz_translate p v i False = Inr q) ps qs"
proof (induction ps)
  case (Cons p ps)
  then obtain q qs where q: "bz_translate p v i False = Inr q" "bz_flush v i (\<lambda>q. None) ps = (map ServerTCP qs, None)"
    "list_all2 (\<lambda>p q. bz_translate p v i False = Inr q) ps qs" by auto
  then show ?case by (intro exI [of _ "q # qs"]) simp
qed simp

end
