(* ===== verification/GatewayProperties.thy ===== *)
theory GatewayProperties
  imports WakeAdmission WakeRelay
begin

text \<open>
  What the wake gateway promises across its listeners and sessions: admission, ownership of UDP
  addresses, the pace of starts, the checks of a handshake, and the streams that are relayed.
\<close>

section \<open>Admission\<close>

text \<open>C13. In every state the gateway reaches, by any interleaving of packets, connections and ends of
  sessions on its listeners, its count is exactly the number of sessions and BZFlag clients there are,
  at most 64, no address and no slot is held twice, and no input channel holds more than eight
  packets.\<close>

theorem gateway_within_limits:
  assumes "gw_reachable g"
  shows "gw_clients g = sum_list (map load_of (gw_listeners g)) \<and> gw_clients g \<le> 64 \<and>
    (\<forall>l\<in>set (gw_listeners g).
       distinct (map fst (ls_sessions l)) \<and> distinct (map fst (ls_bz l)) \<and>
       (\<forall>(a, s)\<in>set (ls_sessions l). length (ss_input s) \<le> 8) \<and>
       (\<forall>(k, c)\<in>set (ls_bz l). unat k < 200 \<and> bc_virtual c = k \<and> length (bc_input c) \<le> 8))"
proof -
  have ok: "gateway_ok g" using assms by (rule gw_reachable_ok)
  have "distinct (map fst (ls_sessions l)) \<and> distinct (map fst (ls_bz l)) \<and>
       (\<forall>(a, s)\<in>set (ls_sessions l). length (ss_input s) \<le> 8) \<and>
       (\<forall>(k, c)\<in>set (ls_bz l). unat k < 200 \<and> bc_virtual c = k \<and> length (bc_input c) \<le> 8)"
    if "l \<in> set (gw_listeners g)" for l
  proof -
    have l: "listener_ok l" using ok that by (simp add: gateway_ok_def)
    then have "\<forall>(k, c)\<in>set (ls_bz l). client_ok k c" by (simp add: listener_ok_def)
    then have "\<forall>(k, c)\<in>set (ls_bz l). unat k < 200 \<and> bc_virtual c = k \<and> length (bc_input c) \<le> 8"
      by (auto simp: client_ok_def)
    with l show ?thesis by (simp add: listener_ok_def)
  qed
  with ok show ?thesis by (simp add: gateway_ok_def max_sessions_def)
qed

definition idle_gateway :: gateway where
  "idle_gateway =
     \<lparr>gw_clients = 0,
      gw_listeners = map2 new_listener
        [\<lparr>mp_listen = '':5154'', mp_instance = ''tanks'', mp_protocol = ''bzflag''\<rparr>] [''10.0.0.1:5154'']\<rparr>"

definition dialled_gateway :: gateway where
  "dialled_gateway = on_listener 0 (event_fn (Dial 0 (V4 5, 7))) idle_gateway"

lemma dialled_reachable: "gw_reachable dialled_gateway"
proof -
  have "gw_step idle_gateway (Dial 0 (V4 5, 7)) dialled_gateway"
    using gw_step.intros [of "Dial 0 (V4 5, 7)" idle_gateway]
    by (simp add: dialled_gateway_def event_possible_def idle_gateway_def)
  moreover have "gw_reachable idle_gateway" unfolding idle_gateway_def by (rule gw_start)
  ultimately show ?thesis by (rule gw_next [rotated])
qed

lemma dialled_state:
  "gw_clients dialled_gateway = 1"
  "gw_listeners dialled_gateway =
     [\<lparr>ls_protocol = ''bzflag'', ls_instance = ''tanks'', ls_local = ''10.0.0.1:5154'', ls_sessions = [],
       ls_bz = [(0, \<lparr>bc_virtual = 0, bc_ip = V4 5, bc_accepted = False, bc_udp = None, bc_input = []\<rparr>)]\<rparr>]"
  by (simp_all add: dialled_gateway_def on_listener_def idle_gateway_def new_listener_def bzflag_tcp_def
      slots_def max_sessions_def unmap_def upt_rec)

theorem gateway_within_limits_witness:
  "\<exists>g l. gw_reachable g \<and> gw_clients g = 1 \<and> l \<in> set (gw_listeners g) \<and> ls_bz l \<noteq> [] \<and>
     gw_clients g = sum_list (map load_of (gw_listeners g))"
  using gateway_within_limits [OF dialled_reachable] dialled_reachable dialled_state
  by (intro exI [of _ dialled_gateway] exI [of _ "hd (gw_listeners dialled_gateway)"]) simp

section \<open>UDP links\<close>

lemma map_of_map_entry_other:
  "map_of (AList.map_entry j f al) k =
     (if j = k then map_option f (map_of al k) else map_of al k)"
  by (simp add: AList.map_of_map_entry split: option.split)

lemma datagram_for_other:
  assumes k: "map_of (ls_bz l) k = Some c" "bc_udp c = Some a" and d: "distinct (map fst (ls_bz l))"
  shows "\<exists>c'. map_of (ls_bz (bzflag_udp s p l)) k = Some c' \<and> bc_udp c' = Some a \<and>
    (c' \<noteq> c \<longrightarrow> (unmap (fst s), snd s) = a)"
proof -
  define b where "b = (unmap (fst s), snd s)"
  let ?found = "List.find (\<lambda>(k, c). bc_udp c = Some b) (ls_bz l)"
  consider "bzflag_udp s p l = l"
    | "bz_valid p" "link_request p" "may_link b (p ! 4) l"
    | e where "bz_valid p" "\<not> link_request p" "?found = Some e"
    by (cases "bz_valid p"; cases "link_request p"; cases "may_link b (p ! 4) l"; cases ?found)
      (simp_all add: bzflag_udp_def Let_def b_def)
  then show ?thesis
  proof cases
    case 1
    then show ?thesis using k by simp
  next
    case 2
    have "b = a" if "p ! 4 = k" using 2(3) that k by (simp add: may_link_def)
    then show ?thesis using 2 k
      by (auto simp: bzflag_udp_def Let_def b_def [symmetric] bz_deliver_def map_of_map_entry_other)
  next
    case (3 e')
    obtain j e where e': "e' = (j, e)" by fastforce
    note 3 = 3 [unfolded e']
    have j: "(j, e) \<in> set (ls_bz l)" "bc_udp e = Some b" using find_SomeD [OF 3(3)] by simp_all
    have "b = a" if "j = k"
    proof -
      have "map_of (ls_bz l) k = Some e" using j(1) that d by simp
      then show ?thesis using k j(2) by simp
    qed
    then show ?thesis using 3 k
      by (auto simp: bzflag_udp_def Let_def b_def [symmetric] bz_deliver_def map_of_map_entry_other)
  qed
qed

text \<open>C14. In every state the gateway reaches, a UDP address belongs to at most one BZFlag client, one
  that was greeted and whose connection comes from the same host; and a datagram from any other
  address changes nothing for that client, whatever the datagram says.\<close>

theorem udp_link_is_owned:
  assumes "gw_reachable g" "l \<in> set (gw_listeners g)" "(k, c) \<in> set (ls_bz l)" "bc_udp c = Some a"
  shows "bc_accepted c \<and> fst a = bc_ip c \<and>
    (\<forall>(j, d)\<in>set (ls_bz l). bc_udp d = Some a \<longrightarrow> j = k) \<and>
    (\<forall>sender p. (unmap (fst sender), snd sender) \<noteq> a \<longrightarrow> map_of (ls_bz (bzflag_udp sender p l)) k = Some c)"
proof -
  have l: "listener_ok l" using gw_reachable_ok [OF assms(1)] assms(2) by (simp add: gateway_ok_def)
  then have d: "distinct (map fst (ls_bz l))" "client_ok k c" "owners_ok (ls_bz l)"
    using assms(3) unfolding listener_ok_def by blast+
  have "bc_accepted c \<and> fst a = bc_ip c" using d(2) assms(4) by (simp add: client_ok_def)
  moreover have "\<forall>(j, d)\<in>set (ls_bz l). bc_udp d = Some a \<longrightarrow> j = k"
    using d(3) assms(3,4) unfolding owners_ok_def by blast
  moreover have "map_of (ls_bz l) k = Some c" using d(1) assms(3) by simp
  ultimately show ?thesis using datagram_for_other [OF _ assms(4) d(1)] by blast
qed

definition linked_gateway :: gateway where
  "linked_gateway =
     on_listener 0 (event_fn (Datagram 0 False (V4 5, 9) (bz_packet bz_udp_link_request [0])))
       (on_listener 0 (event_fn (Greeting 0 0)) dialled_gateway)"

lemma linked_state:
  "gw_listeners linked_gateway =
     [\<lparr>ls_protocol = ''bzflag'', ls_instance = ''tanks'', ls_local = ''10.0.0.1:5154'', ls_sessions = [],
       ls_bz = [(0, \<lparr>bc_virtual = 0, bc_ip = V4 5, bc_accepted = True, bc_udp = Some (V4 5, 9),
         bc_input = [bz_packet bz_udp_link_request [0]]\<rparr>)]\<rparr>]"
proof -
  have "bz_valid (bz_packet bz_udp_link_request [0])" "link_request (bz_packet bz_udp_link_request [0])"
    "bz_packet bz_udp_link_request [0] ! 4 = 0" by code_simp+
  then show ?thesis
    by (simp add: linked_gateway_def on_listener_def dialled_state bz_greeted_def read_packet_def
        bzflag_udp_def Let_def may_link_def bz_deliver_def unmap_def push_input_def)
qed

lemma linked_reachable: "gw_reachable linked_gateway"
proof -
  let ?greeted = "on_listener 0 (event_fn (Greeting 0 0)) dialled_gateway"
  have "gw_step dialled_gateway (Greeting 0 0) ?greeted"
    using gw_step.intros [of "Greeting 0 0" dialled_gateway] by (simp add: event_possible_def dialled_state)
  then have "gw_reachable ?greeted" by (rule gw_next [OF dialled_reachable])
  moreover have "gw_step ?greeted (Datagram 0 False (V4 5, 9) (bz_packet bz_udp_link_request [0])) linked_gateway"
    using gw_step.intros [of "Datagram 0 False (V4 5, 9) (bz_packet bz_udp_link_request [0])" ?greeted]
    by (simp add: event_possible_def on_listener_def dialled_state linked_gateway_def)
  ultimately show ?thesis by (rule gw_next)
qed

theorem udp_link_is_owned_witness:
  "\<exists>g l c. gw_reachable g \<and> l \<in> set (gw_listeners g) \<and> (0, c) \<in> set (ls_bz l) \<and> bc_udp c = Some (V4 5, 9) \<and>
     bc_accepted c \<and> map_of (ls_bz (bzflag_udp (V4 6, 9) (bz_packet bz_udp_link_request [0]) l)) 0 = Some c"
proof -
  let ?l = "hd (gw_listeners linked_gateway)" and ?c = "snd (hd (ls_bz (hd (gw_listeners linked_gateway))))"
  have l: "?l \<in> set (gw_listeners linked_gateway)" "(0, ?c) \<in> set (ls_bz ?l)" "bc_udp ?c = Some (V4 5, 9)"
    by (simp_all add: linked_state)
  have "(unmap (fst (V4 6, 9 :: 16 word)), snd (V4 6, 9 :: 16 word)) \<noteq> (V4 5, 9)" by (simp add: unmap_def)
  then show ?thesis using udp_link_is_owned [OF linked_reachable l] linked_reachable l by blast
qed

section \<open>Routes\<close>

text \<open>The routes \<open>New\<close> accepts are those it was given, in order, with the default protocol
  filled in; their listen addresses are distinct and resolve, every instance has a name that is not
  blank, and all routes of an instance speak one supported protocol.\<close>

theorem routes_are_sound:
  assumes "new_gateway resolve_udp has_start ms = Inr rs"
  shows "ms \<noteq> [] \<and> has_start \<and> map mp_listen rs = map mp_listen ms \<and> map mp_instance rs = map mp_instance ms \<and>
    distinct (map mp_listen rs) \<and>
    (\<forall>m\<in>set rs. mp_protocol m \<in> set wake_protocols \<and> trim_space (mp_instance m) \<noteq> [] \<and> resolve_udp (mp_listen m) = None) \<and>
    (\<forall>a\<in>set rs. \<forall>b\<in>set rs. mp_instance a = mp_instance b \<longrightarrow> mp_protocol a = mp_protocol b)"
proof -
  have checked: "check_mappings resolve_udp [] (\<lambda>i. []) ms = Inr rs" and given: "ms \<noteq> [] \<and> has_start"
    using assms by (auto simp: new_gateway_def split: if_splits)
  have result: "routes_ok [] (\<lambda>i. []) rs \<and> map mp_listen rs = map mp_listen ms \<and>
      map mp_instance rs = map mp_instance ms \<and> (\<forall>m\<in>set rs. resolve_udp (mp_listen m) = None)"
    using checked by (rule check_mappings_ok)
  have one: "\<forall>a\<in>set rs. \<forall>b\<in>set rs. mp_instance a = mp_instance b \<longrightarrow> mp_protocol a = mp_protocol b"
    using result unfolding routes_ok_def by (elim conjE)
  have protocols: "\<forall>m\<in>set rs. mp_protocol m \<in> set wake_protocols \<and> trim_space (mp_instance m) \<noteq> [] \<and>
      mp_listen m \<noteq> [] \<and> (([] :: string) \<noteq> [] \<longrightarrow> [] = mp_protocol m)"
    using result unfolding routes_ok_def by (elim conjE)
  have resolved: "\<forall>m\<in>set rs. resolve_udp (mp_listen m) = None" using result by (elim conjE)
  have each: "mp_protocol m \<in> set wake_protocols \<and> trim_space (mp_instance m) \<noteq> [] \<and> resolve_udp (mp_listen m) = None"
    if "m \<in> set rs" for m
    using bspec [OF protocols that] bspec [OF resolved that] by (elim conjE) (intro conjI)
  have listens: "distinct (map mp_listen rs)" using result unfolding routes_ok_def by (elim conjE)
  have same: "map mp_listen rs = map mp_listen ms" "map mp_instance rs = map mp_instance ms"
    using result by simp_all
  show ?thesis
    by (intro conjI conjunct1 [OF given] conjunct2 [OF given] same listens one) (rule ballI, rule each)
qed

theorem routes_are_sound_witness:
  "\<exists>rs. new_gateway (\<lambda>a. None) True [\<lparr>mp_listen = '':1'', mp_instance = ''a'', mp_protocol = []\<rparr>] = Inr rs \<and>
     distinct (map mp_listen rs) \<and> map mp_instance rs = [''a'']"
proof -
  let ?ms = "[\<lparr>mp_listen = '':1'', mp_instance = ''a'', mp_protocol = []\<rparr>]"
  define rs where "rs = [\<lparr>mp_listen = '':1'', mp_instance = ''a'', mp_protocol = ''quake1''\<rparr>]"
  have accepted: "new_gateway (\<lambda>a. None) True ?ms = Inr rs"
    by (simp add: rs_def new_gateway_def Let_def wake_protocols_def trim_space_graphic graphic_def)
  have "distinct (map mp_listen rs) \<and> map mp_instance rs = map mp_instance ?ms"
    using routes_are_sound [OF accepted] by (elim conjE) (rule conjI)
  with accepted show ?thesis by (intro exI [of _ rs]) simp
qed

section \<open>Starts\<close>

text \<open>C15. For every instance, over any interleaving of clients asking for its address and of starts
  finishing, the starts never overlap; after a start that succeeded the next one comes more than five
  seconds later, and after one that failed more than a minute later. The map of games is a refinement
  of this pace: idle, being started, or resting until the answer expires.\<close>

theorem starts_are_paced:
  assumes "resolving t g h"
  shows "pacing (h i) = Some (pace_of (g i))"
  using resolving_is_ok [OF assms] by (simp add: resolving_ok_def)

theorem starts_are_paced_witness:
  "\<exists>g h. resolving 100 g h \<and> h ''a'' = [Finished 100 True, Started 7] \<and>
     pacing (h ''a'') = Some (Resting (100 + ready_ttl))"
proof -
  define g where "g = fst (resolve_enter 7 ''a'' (\<lambda>i. None))"
  define h where "h = (\<lambda>i. if i = ''a'' then [Started 7] else [])"
  have "resolving 0 (\<lambda>i. None) (\<lambda>i. [])" by (rule resolving_starts) simp
  from resolving_asked [OF this, of 7 "''a''" g True]
  have "resolving 7 g h" by (simp add: g_def h_def resolve_enter_def fun_upd_def)
  from resolving_done [OF this, of 100 "''a''" _ "Inr ''x''"]
  have r: "resolving 100 (resolve_finish 100 ''a'' (Inr ''x'') g) (h(''a'' := [Finished 100 True, Started 7]))"
    by (simp add: g_def h_def resolve_enter_def)
  have rest: "pace_of (resolve_finish 100 ''a'' (Inr ''x'') g ''a'') = Resting (100 + ready_ttl)"
    by (simp add: pace_of_def resolve_finish_def g_def resolve_enter_def)
  show ?thesis
    by (rule exI, rule exI, rule conjI [OF r], rule conjI) (simp, rule starts_are_paced [OF r, of "''a''", unfolded rest])
qed

section \<open>Handshakes\<close>

text \<open>C16. A backend counts as connected only on its own word. A NetQuake backend has sent, from the
  address that was asked, a well-formed accept of nine bytes, and only the port may change; a
  DarkPlaces backend has sent an accept after its challenge was answered, and no request carries a
  challenge that is empty, longer than 49 bytes, or able to add fields to the request; a BZFlag server
  has named the version the gateway speaks and a player slot below 200.\<close>

theorem handshakes_are_checked:
  shows "(connect_backend remote cancelled ts = (a, Connected) \<longrightarrow>
      fst a = fst remote \<and>
      (\<exists>from p. (None, Received from p) \<in> set ts \<and> peer_of from = remote \<and> length p = 9 \<and>
         be32 p = flag_control OR 9 \<and> p ! 4 = 0x81)) \<and>
    (connect_darkplaces remote cancelled ts = (sent, d) \<longrightarrow>
      (\<forall>q\<in>set sent. q = get_challenge \<or> (\<exists>c. challenge_ok c \<and> q = dp_connect c)) \<and>
      (d = Connected \<longrightarrow> sent \<noteq> [] \<and> last sent \<noteq> get_challenge \<and>
         (\<exists>from p. (None, Received from p) \<in> set ts \<and> peer_of from = peer_of remote \<and>
            text_before_nul (drop 4 p) = ''accept''))) \<and>
    (bz_hello e s = Inr slot \<longrightarrow> slot < 200 \<and> take 8 s = str ''BZFS0221'')"
proof (intro conjI impI)
  assume c: "connect_backend remote cancelled ts = (a, Connected)"
  obtain b d where l: "nq_loop remote None ts = (b, d)" by fastforce
  have "d = Some Connected \<and> b = a" 
    using c l by (auto simp: connect_backend_def split: option.splits dialled.splits)
  then have "nq_loop remote None ts = (a, Some Connected)" using l by simp
  from nq_loop_connected [OF this] obtain "from" p where p: "(None, Received from p) \<in> set ts" "peer_of from = remote"
    "length p = 9" "be32 p = flag_control OR 9" "p ! 4 = 0x81" "a = with_port remote p" by blast
  show "\<exists>from p. (None, Received from p) \<in> set ts \<and> peer_of from = remote \<and> length p = 9 \<and>
         be32 p = flag_control OR 9 \<and> p ! 4 = 0x81" using p by blast
  show "fst a = fst remote" using p(6) by (simp add: with_port_def Let_def)
next
  assume "connect_darkplaces remote cancelled ts = (sent, d)"
  then have l: "dp_loop (peer_of remote) get_challenge cancelled None ts = (sent, d)"
    by (simp add: connect_darkplaces_def)
  have "dp_request_ok get_challenge" by (simp add: dp_request_ok_def)
  note r = dp_loop_sent [OF l this]
  show "\<forall>q\<in>set sent. q = get_challenge \<or> (\<exists>c. challenge_ok c \<and> q = dp_connect c)"
    using r unfolding dp_request_ok_def by blast
  assume "d = Connected"
  with r show "sent \<noteq> []" "last sent \<noteq> get_challenge"
    "\<exists>from p. (None, Received from p) \<in> set ts \<and> peer_of from = peer_of remote \<and> text_before_nul (drop 4 p) = ''accept''"
    by blast+
next
  assume "bz_hello e s = Inr slot"
  from bz_hello_Inr [OF this] show "slot < 200" "take 8 s = str ''BZFS0221''" by (simp_all add: bz_version_def)
qed

text \<open>A backend that accepts on its second answer and moves to port 27000.\<close>

theorem handshakes_are_checked_witness:
  "\<exists>a. connect_backend (V4 9, 26000) None
      [(None, TimedOut ErrBusy), (None, Received (V4 9, 26000) [0x80, 0, 0, 9, 0x81, 0x78, 0x69, 0, 0])] = (a, Connected) \<and>
     fst a = V4 9 \<and> snd a = 27000"
proof -
  have run: "connect_backend (V4 9, 26000) None
      [(None, TimedOut ErrBusy), (None, Received (V4 9, 26000) [0x80, 0, 0, 9, 0x81, 0x78, 0x69, 0, 0])] =
      ((V4 9, 27000), Connected)"
    by (simp add: connect_backend_def nq_reply_def peer_of_def unmap_def be32_def with_port_def le32_def flag_control_def)
  with handshakes_are_checked [of "(V4 9, 26000)" None
      "[(None, TimedOut ErrBusy), (None, Received (V4 9, 26000) [0x80, 0, 0, 9, 0x81, 0x78, 0x69, 0, 0])]" "(V4 9, 27000)"]
  show ?thesis by auto
qed

section \<open>Relayed streams\<close>

text \<open>A relayed session that is still running once its game is attached has sent the game exactly
  the request it was opened with and then the client's packets, in order and unchanged; and has sent the
  client the game's packets, in order and unchanged, after a number of copies of the progress packet.\<close>

theorem relay_is_transparent:
  assumes "relay_session protocol first werr boot dial first_err evs = (outs, None)"
    and "snd (wait_for_game protocol werr boot) \<noteq> None"
  shows "to_game outs = first # client_sent evs \<and>
    (\<exists>n. to_peer outs = replicate n (progress protocol) @ game_sent evs)"
proof -
  obtain waited a where w: "wait_for_game protocol werr boot = (waited, Some (Inr a))"
    using assms by (cases "wait_for_game protocol werr boot"; cases "the (snd (wait_for_game protocol werr boot))")
      (auto simp: relay_session_def)
  obtain rest where r: "relay_loop evs = (rest, None)" "outs = map ToPeer waited @ ToGame first # rest"
    using assms(1) w by (auto simp: relay_session_def Let_def split: option.splits prod.splits)
  have "waited = replicate (length waited) (progress protocol)"
    using wait_outs [OF w] by (metis replicate_eqI singletonD subsetD)
  then have "to_peer outs = replicate (length waited) (progress protocol) @ game_sent evs"
    using relay_loop_streams [OF r(1)] unfolding r(2) by (simp add: to_peer_streams)
  moreover have "to_game outs = first # client_sent evs"
    using relay_loop_streams [OF r(1)] unfolding r(2) by (simp add: to_game_streams)
  ultimately show ?thesis by blast
qed

theorem relay_is_transparent_witness:
  "\<exists>outs. relay_session ''ut99'' [1, 2, 3] None [HoldTick None, HoldInput [9], HoldReady (Inr ''g'')] None None
      [ClientSent None [4], GameSent None (Inr [5])] = (outs, None) \<and> to_game outs = [[1, 2, 3], [4]]"
proof -
  have run: "relay_session ''ut99'' [1, 2, 3] None [HoldTick None, HoldInput [9], HoldReady (Inr ''g'')] None None
      [ClientSent None [4], GameSent None (Inr [5])] =
      ([ToPeer (progress ''ut99''), ToGame [1, 2, 3], ToGame [4], ToPeer [5]], None)"
    by (simp add: relay_session_def wait_for_game_def held_def)
  have "snd (wait_for_game ''ut99'' None [HoldTick None, HoldInput [9], HoldReady (Inr ''g'')]) \<noteq> None"
    by (simp add: wait_for_game_def held_def)
  from relay_is_transparent [OF run this] run show ?thesis by (simp add: client_sent_def map_filter_def)
qed



end
