(* ===== verification/AgentLog.thy ===== *)
theory AgentLog
  imports GoStrings
begin

text \<open>
  The log buffer of the agent (internal/agent/logs.go, \<open>RingLog\<close>): bytes written by the game in
  pieces of any size are split into lines at LF, CR and CRLF, the last lines are kept in a ring, and
  every line goes to the subscribers, whose channels hold 64 lines and drop what does not fit. The
  lemmas show that the split does not depend on the pieces and that the ring is the list of the last
  lines.
\<close>

section \<open>The buffer\<close>

text \<open>A subscriber is the queue of its channel.\<close>

record ring_log =
  rl_buf :: "string list"
  rl_head :: nat
  rl_size :: nat
  rl_partial :: string
  rl_pending_cr :: bool
  rl_subs :: "string list list"

definition lf :: char where "lf = CHR 0x0A"
definition cr :: char where "cr = CHR 0x0D"

lemma lf_cr [simp]: "lf \<noteq> cr" "cr \<noteq> lf"
  by (simp_all add: lf_def cr_def)

definition new_ring_log :: "nat \<Rightarrow> ring_log" where
  "new_ring_log capacity =
     \<lparr>rl_buf = replicate capacity [], rl_head = 0, rl_size = 0, rl_partial = [], rl_pending_cr = False, rl_subs = []\<rparr>"

definition offer :: "string \<Rightarrow> string list \<Rightarrow> string list" where
  "offer line q = (if length q < 64 then q @ [line] else q)"

text \<open>\<open>appendLocked\<close>; a log of capacity zero divides by zero in the source.\<close>

definition append_locked :: "string \<Rightarrow> ring_log \<Rightarrow> ring_log" where
  "append_locked line r =
     (let n = length (rl_buf r);
          r = (if rl_size r < n
               then r\<lparr>rl_buf := (rl_buf r)[(rl_head r + rl_size r) mod n := line], rl_size := rl_size r + 1\<rparr>
               else r\<lparr>rl_buf := (rl_buf r)[rl_head r := line], rl_head := (rl_head r + 1) mod n\<rparr>)
      in r\<lparr>rl_subs := map (offer line) (rl_subs r)\<rparr>)"

section \<open>Splitting\<close>

text \<open>The loop of \<open>Write\<close> over the text, with the line so far: the complete lines and the rest. An
  LF right after a CR is skipped.\<close>

function split_lines :: "string \<Rightarrow> string \<Rightarrow> string list \<times> string" where
  "split_lines cur [] = ([], cur)"
| "split_lines cur (c # cs) =
     (if c = lf then (let (ls, rest) = split_lines [] cs in (cur # ls, rest))
      else if c = cr
      then (let (ls, rest) = split_lines [] (case cs of d # ds \<Rightarrow> if d = lf then ds else cs | [] \<Rightarrow> [])
            in (cur # ls, rest))
      else split_lines (cur @ [c]) cs)"
  by pat_completeness auto
termination by (relation "measure (\<lambda>(cur, s). length s)") (auto split: list.split)

definition write_log :: "string \<Rightarrow> ring_log \<Rightarrow> ring_log" where
  "write_log p r =
     (let chunk = (if rl_pending_cr r then trim_prefix p [lf] else p);
          text = rl_partial r @ chunk;
          (ls, rest) = split_lines [] text;
          r = fold append_locked ls r;
          ends_cr = (text \<noteq> [] \<and> last text = cr)
      in r\<lparr>rl_partial := (if ends_cr then [] else rest), rl_pending_cr := ends_cr\<rparr>)"

section \<open>Subscribers\<close>

definition history :: "ring_log \<Rightarrow> string list" where
  "history r = map (\<lambda>i. rl_buf r ! ((rl_head r + i) mod length (rl_buf r))) [0..<rl_size r]"

definition subscribe :: "ring_log \<Rightarrow> string list \<times> ring_log" where
  "subscribe r = (history r, r\<lparr>rl_subs := rl_subs r @ [[]]\<rparr>)"

section \<open>The ring is the list of the last lines\<close>

definition keep_last :: "nat \<Rightarrow> 'a list \<Rightarrow> 'a list" where
  "keep_last n xs = drop (length xs - n) xs"

lemma keep_last_length [simp]: "length (keep_last n xs) = min n (length xs)"
  by (simp add: keep_last_def)

lemma keep_last_snoc: "0 < n \<Longrightarrow> keep_last n (keep_last n xs @ [x]) = keep_last n (xs @ [x])"
proof (cases "length xs < n")
  case False
  assume n: "0 < n"
  have "keep_last n (keep_last n xs @ [x]) = drop 1 (drop (length xs - n) xs) @ [x]"
    using False n by (simp add: keep_last_def)
  also have "\<dots> = drop (length xs - n + 1) xs @ [x]" by (simp add: add.commute)
  also have "\<dots> = keep_last n (xs @ [x])" using False n by (simp add: keep_last_def Suc_diff_le)
  finally show ?thesis .
qed (simp add: keep_last_def)

definition ring_ok :: "ring_log \<Rightarrow> bool" where
  "ring_ok r \<longleftrightarrow>
     rl_buf r \<noteq> [] \<and> rl_size r \<le> length (rl_buf r) \<and> rl_head r < length (rl_buf r) \<and>
     (rl_size r < length (rl_buf r) \<longrightarrow> rl_head r = 0)"

lemma append_keeps:
  "rl_partial (append_locked line r) = rl_partial r" "rl_pending_cr (append_locked line r) = rl_pending_cr r"
  "length (rl_buf (append_locked line r)) = length (rl_buf r)"
  by (simp_all add: append_locked_def Let_def)

lemma history_length [simp]: "length (history r) = rl_size r"
  by (simp add: history_def)

lemma append_history:
  assumes ok: "ring_ok r"
  shows "ring_ok (append_locked line r) \<and> history (append_locked line r) = keep_last (length (rl_buf r)) (history r @ [line])"
proof -
  define n h where "n = length (rl_buf r)" and "h = rl_head r"
  have n: "0 < n" "rl_size r \<le> n" "h < n" "rl_size r < n \<longrightarrow> h = 0" using ok by (simp_all add: ring_ok_def n_def h_def)
  show ?thesis
  proof (cases "rl_size r < n")
    case True
    then have h: "h = 0" using n by simp
    have "history (append_locked line r) = history r @ [line]"
    proof (rule nth_equalityI)
      fix i assume "i < length (history (append_locked line r))"
      then have i: "i < Suc (rl_size r)" using True by (simp add: append_locked_def Let_def n_def)
      then have "i < n" using True by simp
      then show "history (append_locked line r) ! i = (history r @ [line]) ! i"
        using i True h by (simp add: history_def append_locked_def Let_def n_def h_def nth_append nth_list_update)
    qed (use True in \<open>simp add: append_locked_def Let_def n_def\<close>)
    then show ?thesis using True n h
      by (simp add: keep_last_def ring_ok_def append_locked_def Let_def n_def h_def)
  next
    case False
    then have full: "rl_size r = n" using n by simp
    have "history (append_locked line r) = tl (history r) @ [line]"
    proof (rule nth_equalityI)
      fix i assume "i < length (history (append_locked line r))"
      then have i: "i < n" using full by (simp add: append_locked_def Let_def n_def)
      have wrap: "((h + 1) mod n + i) mod n = (h + Suc i) mod n" 
        using mod_add_left_eq [of "h + 1" n i] by simp
      have "(h + Suc i) mod n = h \<longleftrightarrow> Suc i = n"
      proof
        assume eq: "(h + Suc i) mod n = h"
        show "Suc i = n"
        proof (cases "h + Suc i < n")
          case True
          then show ?thesis using eq by simp
        next
          case False
          then have "(h + Suc i) mod n = h + Suc i - n" using i n by (simp add: mod_if)
          then show ?thesis using eq False by linarith
        qed
      qed (use n in simp)
      then show "history (append_locked line r) ! i = (tl (history r) @ [line]) ! i"
        using i full n wrap
        by (auto simp: history_def append_locked_def Let_def n_def [symmetric] h_def [symmetric] nth_append nth_tl nth_list_update)
    qed (use full n in \<open>simp add: append_locked_def Let_def n_def\<close>)
    moreover have "keep_last n (history r @ [line]) = tl (history r) @ [line]"
      using full n by (simp add: keep_last_def drop_Suc)
    ultimately show ?thesis using full n
      by (simp add: ring_ok_def append_locked_def Let_def n_def h_def)
  qed
qed

lemma fold_append_history:
  assumes "ring_ok r"
  shows "ring_ok (fold append_locked ls r) \<and> length (rl_buf (fold append_locked ls r)) = length (rl_buf r) \<and>
    history (fold append_locked ls r) = keep_last (length (rl_buf r)) (history r @ ls)"
proof (induction ls rule: rev_induct)
  case Nil
  have "rl_size r \<le> length (rl_buf r)" using assms by (simp add: ring_ok_def)
  then show ?case using assms by (simp add: keep_last_def)
next
  case (snoc l ls)
  define s where "s = fold append_locked ls r"
  have s: "ring_ok s" "length (rl_buf s) = length (rl_buf r)" "history s = keep_last (length (rl_buf r)) (history r @ ls)"
    using snoc.IH by (simp_all add: s_def)
  have "0 < length (rl_buf r)" using assms by (simp add: ring_ok_def)
  then have "keep_last (length (rl_buf r)) (history s @ [l]) = keep_last (length (rl_buf r)) (history r @ ls @ [l])"
    using keep_last_snoc [of "length (rl_buf r)" "history r @ ls" l] by (simp add: s(3))
  then show ?case using append_history [OF s(1), of l] s(2)
    by (simp add: s_def [symmetric] append_keeps)
qed

section \<open>The split does not depend on the pieces\<close>

text \<open>Feeding one text after another: what is carried is the unfinished line and whether the last
  byte was a CR.\<close>

definition carry :: "bool \<Rightarrow> string \<Rightarrow> string" where
  "carry pending s = (if pending then trim_prefix s [lf] else s)"

lemma carry_simps [simp]: "carry False s = s" "carry b [] = []"
  "carry True (c # s) = (if c = lf then s else c # s)"
  by (simp_all add: carry_def trim_prefix_def has_prefix_def)

lemma split_lf: "split_lines cur (lf # cs) = (cur # fst (split_lines [] cs), snd (split_lines [] cs))"
  by (simp add: split_beta)

lemma split_crlf: "split_lines cur (cr # lf # cs) = (cur # fst (split_lines [] cs), snd (split_lines [] cs))"
  by (simp add: split_beta)

lemma split_cr:
  "c \<noteq> lf \<Longrightarrow> split_lines cur (cr # c # cs) = (cur # fst (split_lines [] (c # cs)), snd (split_lines [] (c # cs)))"
  by (subst split_lines.simps(2)) (simp add: split_beta del: split_lines.simps)

lemma split_end_cr: "split_lines cur [cr] = ([cur], [])"
  by simp

lemma split_plain: "c \<noteq> lf \<Longrightarrow> c \<noteq> cr \<Longrightarrow> split_lines cur (c # cs) = split_lines (cur @ [c]) cs"
  by simp

declare split_lines.simps(2) [simp del]

lemmas split_steps = split_lf split_crlf split_cr split_end_cr split_plain

text \<open>Induction along the splitting.\<close>

lemma split_induct [case_names nil lf crlf cr end_cr plain]:
  assumes "\<And>cur. P cur []"
    and "\<And>cur cs. P [] cs \<Longrightarrow> P cur (lf # cs)"
    and "\<And>cur cs. P [] cs \<Longrightarrow> P cur (cr # lf # cs)"
    and "\<And>cur c cs. c \<noteq> lf \<Longrightarrow> P [] (c # cs) \<Longrightarrow> P cur (cr # c # cs)"
    and "\<And>cur. P cur [cr]"
    and "\<And>cur c cs. c \<noteq> lf \<Longrightarrow> c \<noteq> cr \<Longrightarrow> P (cur @ [c]) cs \<Longrightarrow> P cur (c # cs)"
  shows "P cur s"
proof (induction cur s rule: split_lines.induct)
  case (2 cur c cs)
  consider (l) "c = lf" | (cl) ds where "c = cr" "cs = lf # ds" | (c) d ds where "c = cr" "cs = d # ds" "d \<noteq> lf"
    | (e) "c = cr" "cs = []" | (p) "c \<noteq> lf" "c \<noteq> cr"
    by (cases cs) auto
  then show ?case
  proof cases
    case l
    then show ?thesis using 2(1) assms(2) by simp
  next
    case cl
    then show ?thesis using 2(2) assms(3) by simp
  next
    case c
    then show ?thesis using 2(2) assms(4) by simp
  next
    case e
    then show ?thesis using assms(5) by simp
  next
    case p
    then show ?thesis using 2(3) assms(6) by simp
  qed
qed (rule assms(1))

lemma split_lines_ends_cr: "s \<noteq> [] \<Longrightarrow> last s = cr \<Longrightarrow> snd (split_lines cur s) = []"
  by (induction cur s rule: split_induct) (auto simp: split_steps split: if_splits)

lemma split_lines_append:
  "split_lines cur (s @ t) =
     (let a = split_lines cur s; b = split_lines (snd a) (carry (s \<noteq> [] \<and> last s = cr) t)
      in (fst a @ fst b, snd b))"
proof (induction cur s rule: split_induct)
  case (end_cr cur)
  show ?case
  proof (cases t)
    case (Cons c cs)
    then show ?thesis by (cases "c = lf") (simp_all add: split_steps Let_def)
  qed (simp add: split_steps Let_def)
qed (auto simp: split_steps Let_def split: if_splits)

lemma write_log_lines:
  "write_log p r =
     (let text = rl_partial r @ carry (rl_pending_cr r) p; ends_cr = (text \<noteq> [] \<and> last text = cr)
      in (fold append_locked (fst (split_lines [] text)) r)
           \<lparr>rl_partial := if ends_cr then [] else snd (split_lines [] text), rl_pending_cr := ends_cr\<rparr>)"
  by (simp add: write_log_def carry_def Let_def split_beta)

section \<open>Whole texts\<close>

definition plain :: "string \<Rightarrow> bool" where
  "plain s \<longleftrightarrow> lf \<notin> set s \<and> cr \<notin> set s"

lemma plain_simps [simp]: "plain []" "plain (c # s) \<longleftrightarrow> c \<noteq> lf \<and> c \<noteq> cr \<and> plain s" "plain (s @ t) \<longleftrightarrow> plain s \<and> plain t"
  by (auto simp: plain_def)

lemma split_keeps_plain: "plain u \<Longrightarrow> split_lines cur (u @ x) = split_lines (cur @ u) x"
  by (induction u arbitrary: cur) (simp_all add: split_plain)

lemma split_rest_plain: "plain cur \<Longrightarrow> plain (snd (split_lines cur s))"
proof (induction cur s rule: split_induct)
  case (plain cur c cs)
  then show ?case by (simp add: split_plain)
qed (simp_all add: split_steps)

lemma carry_last: "p \<noteq> [] \<Longrightarrow> carry b p \<noteq> [] \<Longrightarrow> last (carry b p) = last p"
  by (cases b; cases p) (auto split: if_splits)

text \<open>The state of a log that has received a text: the ring has its last lines, the rest of the
  state is its unfinished line.\<close>

definition log_matches :: "nat \<Rightarrow> string \<Rightarrow> ring_log \<Rightarrow> bool" where
  "log_matches n sofar r \<longleftrightarrow>
     ring_ok r \<and> length (rl_buf r) = n \<and> history r = keep_last n (fst (split_lines [] sofar)) \<and>
     rl_partial r = snd (split_lines [] sofar) \<and> rl_pending_cr r = (sofar \<noteq> [] \<and> last sofar = cr)"

lemma log_updates [simp]:
  "ring_ok (r\<lparr>rl_partial := a\<rparr>) = ring_ok r" "history (r\<lparr>rl_partial := a\<rparr>) = history r"
  "ring_ok (r\<lparr>rl_pending_cr := b\<rparr>) = ring_ok r" "history (r\<lparr>rl_pending_cr := b\<rparr>) = history r"
  "ring_ok (r\<lparr>rl_subs := q\<rparr>) = ring_ok r" "history (r\<lparr>rl_subs := q\<rparr>) = history r"
  by (simp_all add: ring_ok_def history_def)

lemma new_log_matches: "0 < n \<Longrightarrow> log_matches n [] (new_ring_log n)"
  by (simp add: log_matches_def new_ring_log_def ring_ok_def history_def keep_last_def)

lemma keep_last_append: "0 < n \<Longrightarrow> keep_last n (keep_last n xs @ ys) = keep_last n (xs @ ys)"
proof (induction ys rule: rev_induct)
  case Nil
  then show ?case by (simp add: keep_last_def)
next
  case (snoc y ys)
  then show ?case
    using keep_last_snoc [of n "keep_last n xs @ ys" y] keep_last_snoc [of n "xs @ ys" y] by simp
qed

text \<open>One piece: the lines it completes, and the state after it.\<close>

definition new_lines :: "string \<Rightarrow> string \<Rightarrow> string list" where
  "new_lines sofar p = fst (split_lines (snd (split_lines [] sofar)) (carry (sofar \<noteq> [] \<and> last sofar = cr) p))"

lemma new_lines_append: "fst (split_lines [] (sofar @ p)) = fst (split_lines [] sofar) @ new_lines sofar p"
  by (simp add: split_lines_append [of "[]" sofar p] new_lines_def Let_def)

lemma write_log_text:
  assumes r: "log_matches n sofar r" and p: "p \<noteq> []"
  shows "write_log p r =
    (fold append_locked (new_lines sofar p) r)
      \<lparr>rl_partial := snd (split_lines [] (sofar @ p)), rl_pending_cr := (last p = cr)\<rparr>"
proof -
  let ?pending = "sofar \<noteq> [] \<and> last sofar = cr" and ?rest = "snd (split_lines [] sofar)"
  define fed where "fed = rl_partial r @ carry ?pending p"
  have rest: "rl_partial r = ?rest" "rl_pending_cr r = ?pending" using r by (simp_all add: log_matches_def)
  have plain: "plain ?rest" by (rule split_rest_plain) simp
  have split: "split_lines [] fed = split_lines ?rest (carry ?pending p)"
    using split_keeps_plain [OF plain, of "[]"] by (simp add: fed_def rest)
  have ends: "fed \<noteq> [] \<and> last fed = cr \<longleftrightarrow> last p = cr"
  proof (cases "carry ?pending p = []")
    case True
    then have "?pending" "p = [lf]" using p by (cases p; auto simp: carry_def trim_prefix_def has_prefix_def split: if_splits)+
    moreover have "?rest = []" using split_lines_ends_cr calculation(1) by blast
    ultimately show ?thesis using True by (simp add: fed_def rest)
  next
    case False
    then show ?thesis using carry_last [OF p False] by (simp add: fed_def)
  qed
  have snd: "snd (split_lines [] (sofar @ p)) = snd (split_lines [] fed)"
    by (simp add: split_lines_append [of "[]" sofar p] split Let_def)
  have "last p = cr \<longrightarrow> snd (split_lines [] fed) = []" using split_lines_ends_cr ends by blast
  then show ?thesis
    unfolding write_log_lines Let_def rest(2) fed_def [symmetric] ends snd
    by (simp add: split new_lines_def)
qed

lemma write_log_matches:
  assumes r: "log_matches n sofar r" and p: "p \<noteq> []"
  shows "log_matches n (sofar @ p) (write_log p r)"
proof -
  have ok: "ring_ok r" "length (rl_buf r) = n" using r by (simp_all add: log_matches_def)
  then have n: "0 < n" by (auto simp: ring_ok_def)
  note folded = fold_append_history [OF ok(1), of "new_lines sofar p", unfolded ok(2)]
  have "keep_last n (history r @ new_lines sofar p) = keep_last n (fst (split_lines [] (sofar @ p)))"
    using r keep_last_append [OF n] by (simp add: log_matches_def new_lines_append)
  then show ?thesis
    using folded p unfolding write_log_text [OF r p]
    by (simp add: log_matches_def)
qed

lemma write_all_matches:
  "log_matches n sofar r \<Longrightarrow> \<forall>p\<in>set ps. p \<noteq> [] \<Longrightarrow> log_matches n (sofar @ concat ps) (fold write_log ps r)"
proof (induction ps arbitrary: sofar r)
  case (Cons p ps)
  then show ?case using write_log_matches [OF Cons.prems(1), of p] Cons.IH [of "sofar @ p"] by simp
qed simp

section \<open>What a subscriber receives\<close>

lemma append_locked_subs: "rl_subs (append_locked line r) = map (offer line) (rl_subs r)"
  by (simp add: append_locked_def Let_def)

lemma fold_append_subs: "rl_subs (fold append_locked ls r) = map (fold offer ls) (rl_subs r)"
  by (induction ls arbitrary: r) (simp_all add: append_locked_subs comp_def)

lemma fold_offer: "length q + length ls \<le> 64 \<Longrightarrow> fold offer ls q = q @ ls"
  by (induction ls arbitrary: q) (simp_all add: offer_def)

lemma write_all_subs:
  assumes "log_matches n sofar r" "\<forall>p\<in>set ps. p \<noteq> []"
  shows "\<exists>ls. rl_subs (fold write_log ps r) = map (fold offer ls) (rl_subs r) \<and>
    fst (split_lines [] (sofar @ concat ps)) = fst (split_lines [] sofar) @ ls"
  using assms
proof (induction ps arbitrary: sofar r)
  case (Cons p ps)
  have p: "p \<noteq> []" using Cons.prems(2) by simp
  from Cons.IH [OF write_log_matches [OF Cons.prems(1) p]] Cons.prems(2) obtain ls where ls:
    "rl_subs (fold write_log ps (write_log p r)) = map (fold offer ls) (rl_subs (write_log p r))"
    "fst (split_lines [] ((sofar @ p) @ concat ps)) = fst (split_lines [] (sofar @ p)) @ ls" by auto
  have "rl_subs (write_log p r) = map (fold offer (new_lines sofar p)) (rl_subs r)"
    unfolding write_log_text [OF Cons.prems(1) p] by (simp add: fold_append_subs)
  with ls show ?case
    by (intro exI [of _ "new_lines sofar p @ ls"]) (simp add: comp_def new_lines_append)
qed simp

section \<open>Properties\<close>

text \<open>C18. However the game's output is cut into writes, none of them empty, the log afterwards is that
  of the whole text: the ring holds the last lines of the text, in order, the line breaks being LF, CR
  and CRLF even when a CRLF falls between two writes, and the unfinished line waits.\<close>

theorem log_ignores_pieces:
  assumes "0 < n" "\<forall>p\<in>set ps. p \<noteq> []"
  shows "history (fold write_log ps (new_ring_log n)) = keep_last n (fst (split_lines [] (concat ps))) \<and>
    rl_partial (fold write_log ps (new_ring_log n)) = snd (split_lines [] (concat ps))"
  using write_all_matches [OF new_log_matches [OF assms(1)] assms(2)] by (simp add: log_matches_def)

theorem log_ignores_pieces_witness:
  "history (fold write_log [''ab'' @ [cr], [lf] @ ''cd'', [lf] @ ''e''] (new_ring_log 5)) = [''ab'', ''cd''] \<and>
   rl_partial (fold write_log [''ab'' @ [cr], [lf] @ ''cd'', [lf] @ ''e''] (new_ring_log 5)) = ''e''"
proof -
  let ?ps = "[''ab'' @ [cr], [lf] @ ''cd'', [lf] @ ''e'']"
  have plain: "CHR ''a'' \<noteq> lf" "CHR ''a'' \<noteq> cr" "CHR ''b'' \<noteq> lf" "CHR ''b'' \<noteq> cr" "CHR ''c'' \<noteq> lf" "CHR ''c'' \<noteq> cr"
    "CHR ''d'' \<noteq> lf" "CHR ''d'' \<noteq> cr" "CHR ''e'' \<noteq> lf" "CHR ''e'' \<noteq> cr" by (simp_all add: lf_def cr_def)
  have "split_lines [] (concat ?ps) = ([''ab'', ''cd''], ''e'')" by (simp add: split_steps plain)
  then show ?thesis using log_ignores_pieces [of 5 ?ps] by (simp add: keep_last_def)
qed

text \<open>A subscriber misses nothing: the replay it gets is the last lines of the text so far, and what
  its channel then holds are exactly the lines completed since, as long as they are at most 64.\<close>

theorem subscriber_misses_nothing:
  assumes "0 < n" "\<forall>p\<in>set before. p \<noteq> []" "\<forall>p\<in>set after. p \<noteq> []"
    and "subscribe (fold write_log before (new_ring_log n)) = (replay, r)"
    and "length (fst (split_lines [] (concat before @ concat after))) \<le> 64"
  shows "\<exists>ls. replay = keep_last n (fst (split_lines [] (concat before))) \<and>
    last (rl_subs (fold write_log after r)) = ls \<and>
    fst (split_lines [] (concat before @ concat after)) = fst (split_lines [] (concat before)) @ ls"
proof -
  define r0 where "r0 = fold write_log before (new_ring_log n)"
  have m: "log_matches n (concat before) r0"
    using write_all_matches [OF new_log_matches [OF assms(1)] assms(2)] by (simp add: r0_def)
  have s: "replay = history r0" "r = r0\<lparr>rl_subs := rl_subs r0 @ [[]]\<rparr>"
    using assms(4) by (simp_all add: subscribe_def r0_def)
  have m': "log_matches n (concat before) r" using m by (simp add: s(2) log_matches_def)
  obtain ls where ls: "rl_subs (fold write_log after r) = map (fold offer ls) (rl_subs r)"
    "fst (split_lines [] (concat before @ concat after)) = fst (split_lines [] (concat before)) @ ls"
    using write_all_subs [OF m' assms(3)] by blast
  have "length ls \<le> 64" using ls(2) assms(5) by simp
  then have "last (rl_subs (fold write_log after r)) = ls" using ls(1) s(2) by (simp add: fold_offer)
  then show ?thesis using m s(1) ls(2) by (simp add: log_matches_def)
qed

theorem subscriber_misses_nothing_witness:
  "\<exists>r. subscribe (fold write_log [[lf]] (new_ring_log 2)) = ([[]], r) \<and>
     last (rl_subs (fold write_log [[lf, lf]] r)) = [[], []]"
proof -
  obtain replay r where s: "subscribe (fold write_log [[lf]] (new_ring_log 2)) = (replay, r)" by fastforce
  have one: "split_lines [] [lf] = ([[]], [])" and three: "split_lines [] [lf, lf, lf] = ([[], [], []], [])"
    by (simp_all add: split_steps)
  have "\<forall>p\<in>set [[lf]]. p \<noteq> []" "\<forall>p\<in>set [[lf, lf]]. p \<noteq> []" by simp_all
  from subscriber_misses_nothing [OF _ this s] show ?thesis
    using s one three by (auto simp: keep_last_def)
qed

text \<open>An empty write between the halves of a CRLF makes the log count a line too many.\<close>

lemma empty_write_splits_crlf:
  "history (fold write_log [[cr], [], [lf]] (new_ring_log 5)) \<noteq> keep_last 5 (fst (split_lines [] [cr, lf]))"
  by (simp add: write_log_lines new_ring_log_def split_steps append_locked_def history_def keep_last_def Let_def)

end
