(* ===== verification/Query.thy ===== *)
theory Query
  imports WakeGateway
begin

text \<open>
  The status queries of the agent (internal/protocol, internal/agent/query.go): what each protocol asks
  the local game server and how it reads the answer. The network is a parameter: \<open>ask\<close> gives
  the datagram that answers a request on a port, \<open>stream\<close> the bytes a TCP server sends until the
  connection ends with an error. The lemmas show which answers are accepted and that what a server
  writes is read back.
\<close>

section \<open>Shared parsing\<close>

record status_info =
  si_players :: int
  si_hostname :: string
  si_map :: string

definition out_of_band :: "string \<Rightarrow> byte list" where
  "out_of_band s = connectionless @ str s"

text \<open>\<open>bytes.Cut\<close> at the first NUL.\<close>

definition cut_nul :: "byte list \<Rightarrow> (byte list \<times> byte list) option" where
  "cut_nul p = (if 0 \<in> set p then Some (before_nul p, drop (Suc (length (before_nul p))) p) else None)"

definition compact_lines :: "string \<Rightarrow> string list" where
  "compact_lines s = filter (\<lambda>l. l \<noteq> []) (map trim_space (split_on (CHR 0x0A) s))"

text \<open>Keys and values in turn; a later value replaces an earlier one, a key without a value is left
  out.\<close>

fun pair_up :: "(string \<times> string) list \<Rightarrow> string list \<Rightarrow> (string \<times> string) list" where
  "pair_up m (k # v # rest) = pair_up (AList.update k v m) rest"
| "pair_up m rest = m"

definition info_pairs :: "string \<Rightarrow> (string \<times> string) list" where
  "info_pairs s = pair_up [] (tl (split_on (CHR 0x5C) s))"

definition value_of :: "(string \<times> string) list \<Rightarrow> string \<Rightarrow> string" where
  "value_of m k = (case map_of m k of None \<Rightarrow> [] | Some v \<Rightarrow> v)"

section \<open>The protocols\<close>

definition quake1_query :: "byte list" where
  "quake1_query = [0x80, 0, 0, 0x0c, 2] @ str ''QUAKE'' @ [0, 3]"

definition quake1_reply :: "byte list \<Rightarrow> err + status_info" where
  "quake1_reply p =
     (if length p < 5 \<or> be32 p \<noteq> flag_control OR of_nat (length p) \<or> p ! 4 \<noteq> 0x83
      then Inl (ErrMsg ''unexpected Quake server info header'')
      else (case cut_nul (drop 5 p) of
              None \<Rightarrow> Inl (ErrMsg ''incomplete Quake server info'')
            | Some (address, p1) \<Rightarrow>
                (case cut_nul p1 of
                   None \<Rightarrow> Inl (ErrMsg ''incomplete Quake server info'')
                 | Some (hostname, p2) \<Rightarrow>
                     (case cut_nul p2 of
                        None \<Rightarrow> Inl (ErrMsg ''incomplete Quake server info'')
                      | Some (level, p3) \<Rightarrow>
                          if length p3 \<noteq> 3 then Inl (ErrMsg ''invalid Quake server counts'')
                          else Inr \<lparr>si_players = uint (p3 ! 0), si_hostname = text_of hostname, si_map = text_of level\<rparr>))))"

definition quake2_reply :: "byte list \<Rightarrow> err + status_info" where
  "quake2_reply p =
     (if length p < 5 \<or> take 4 p \<noteq> connectionless then Inl (ErrMsg ''unexpected response header'')
      else (let lines = compact_lines (text_of (drop 4 p)) in
        if lines = [] then Inl (ErrMsg ''empty status response'')
        else (let lines = (if hd lines = ''print'' \<or> hd lines = ''statusResponse'' then tl lines else lines) in
          if lines = [] then Inl (ErrMsg ''missing server info'')
          else (let m = info_pairs (hd lines) in
            Inr \<lparr>si_players = int (length lines) - 1, si_hostname = value_of m ''hostname'', si_map = value_of m ''mapname''\<rparr>))))"

fun query_quake2 :: "(byte list \<Rightarrow> err + byte list) \<Rightarrow> byte list list \<Rightarrow> err + status_info" where
  "query_quake2 ask [] = Inl (ErrMsg ''no quake2 status response'')"
| "query_quake2 ask (q # qs) =
     (case ask q of
        Inl e \<Rightarrow> query_quake2 ask qs
      | Inr p \<Rightarrow> (case quake2_reply p of Inr i \<Rightarrow> Inr i | Inl e \<Rightarrow> query_quake2 ask qs))"

definition quake2_queries :: "byte list list" where
  "quake2_queries = [out_of_band ''getstatus'', out_of_band ''status'']"

definition quake3_player :: "string \<Rightarrow> bool" where
  "quake3_player line \<longleftrightarrow>
     (let fs = GoStrings.fields line in
      2 \<le> length fs \<and> (case atoi (fs ! 1) of None \<Rightarrow> True | Some ping \<Rightarrow> 0 < ping))"

definition count_quake3_players :: "string list \<Rightarrow> int" where
  "count_quake3_players lines = int (length (filter quake3_player lines))"

definition quake3_query :: "byte list" where
  "quake3_query = out_of_band (''getstatus'' @ [CHR 0x0A])"

definition quake3_reply :: "byte list \<Rightarrow> err + status_info" where
  "quake3_reply p =
     (if length p < 5 \<or> take 4 p \<noteq> connectionless then Inl (ErrMsg ''unexpected response header'')
      else (let lines = compact_lines (text_of (drop 4 p)) in
        if length lines < 2 \<or> hd lines \<noteq> ''statusResponse'' then Inl (ErrMsg ''unexpected status response'')
        else (let m = info_pairs (lines ! 1) in
          Inr \<lparr>si_players = count_quake3_players (drop 2 lines), si_hostname = value_of m ''sv_hostname'',
               si_map = value_of m ''mapname''\<rparr>)))"

definition xonotic_header :: "byte list" where
  "xonotic_header = out_of_band (''infoResponse'' @ [CHR 0x0A])"

definition xonotic_players :: "(string \<times> string) list \<Rightarrow> err + int" where
  "xonotic_players m =
     (case atoi (value_of m ''clients'') of
        None \<Rightarrow> Inl (ErrMsg ''invalid Xonotic client count'')
      | Some players \<Rightarrow>
          if players < 0 then Inl (ErrMsg ''invalid Xonotic client count'')
          else (case map_of m ''bots'' of
                  None \<Rightarrow> Inr players
                | Some v \<Rightarrow>
                    (case atoi v of
                       None \<Rightarrow> Inl (ErrMsg ''invalid Xonotic bot count'')
                     | Some bots \<Rightarrow>
                         if bots < 0 \<or> players < bots then Inl (ErrMsg ''invalid Xonotic bot count'')
                         else Inr (players - bots))))"

definition xonotic_reply :: "byte list \<Rightarrow> err + status_info" where
  "xonotic_reply p =
     (if \<not> bytes_prefix p xonotic_header then Inl (ErrMsg ''unexpected Xonotic info response'')
      else (let m = info_pairs (text_of (drop (length xonotic_header) p)) in
        case xonotic_players m of
          Inl e \<Rightarrow> Inl e
        | Inr n \<Rightarrow> Inr \<lparr>si_players = n, si_hostname = value_of m ''hostname'', si_map = value_of m ''mapname''\<rparr>))"

definition trim_char :: "char \<Rightarrow> string \<Rightarrow> string" where
  "trim_char c s = rev (dropWhile (\<lambda>x. x = c) (rev (dropWhile (\<lambda>x. x = c) s)))"

fun ut99_pairs :: "(string \<times> string) list \<Rightarrow> string list \<Rightarrow> (string \<times> string) list" where
  "ut99_pairs m (k # v # rest) =
     (let key = trim_space k in
      ut99_pairs (if key = [] \<or> key = ''final'' \<or> key = ''queryid'' then m else AList.update key v m) rest)"
| "ut99_pairs m rest = m"

definition parse_ut99_status :: "string \<Rightarrow> (string \<times> string) list" where
  "parse_ut99_status s = ut99_pairs [] (split_on (CHR 0x5C) (trim_char (CHR 0x5C) s))"

definition count_ut99_players :: "(string \<times> string) list \<Rightarrow> int" where
  "count_ut99_players m = int (length (filter (\<lambda>(k, v). has_prefix k ''player_'' \<and> trim_space v \<noteq> []) m))"

definition ut99_query :: "byte list" where
  "ut99_query = str ([CHR 0x5C] @ ''status'' @ [CHR 0x5C])"

definition ut99_reply :: "byte list \<Rightarrow> err + status_info" where
  "ut99_reply p =
     (let m = parse_ut99_status (text_of p) in
      if m = [] then Inl (ErrMsg ''empty ut99 status response'')
      else (let n = atoi_value (value_of m ''numplayers'');
                h = value_of m ''hostname''; level = value_of m ''mapname'' in
        Inr \<lparr>si_players = (if n = 0 then count_ut99_players m else n),
             si_hostname = (if h = [] then value_of m ''servername'' else h),
             si_map = (if level = [] then value_of m ''maptitle'' else level)\<rparr>))"

definition bz_query_players_request :: "byte list" where
  "bz_query_players_request = put_be16 0 @ put_be16 0x7170"

text \<open>The server's greeting of nine bytes, then its answer of eight; \<open>e\<close> is the error the read
  gets when the stream ends early.\<close>

definition bzflag_reply :: "err \<Rightarrow> byte list \<Rightarrow> err + status_info" where
  "bzflag_reply e s =
     (if length s < 9 then Inl e
      else if take 4 s \<noteq> str ''BZFS'' then Inl (ErrMsg ''not a bzflag server'')
      else if take 4 (drop 4 s) \<noteq> str ''0221''
      then Inl (ErrMsg (''unsupported bzflag protocol '' @ [CHR 0x22] @ text_of (take 4 (drop 4 s)) @ [CHR 0x22]))
      else if s ! 8 = 255 then Inl (ErrMsg ''bzflag server rejected connection'')
      else (let reply = take 8 (drop 9 s) in
        if length reply < 8 then Inl e
        else if be16 (drop 2 reply) \<noteq> 0x7170
        then Inl (ErrMsg (''unexpected bzflag player reply: '' @ concat (map (\<lambda>b. [hex_char (unat b div 16), hex_char (unat b mod 16)]) reply)))
        else Inr \<lparr>si_players = uint (be16 (drop 6 reply)), si_hostname = [], si_map = []\<rparr>))"

section \<open>The agent's query\<close>

definition ask_one :: "(byte list \<Rightarrow> err + status_info) \<Rightarrow> err + byte list \<Rightarrow> err + status_info" where
  "ask_one reply r = (case r of Inl e \<Rightarrow> Inl e | Inr p \<Rightarrow> reply p)"

definition query_result ::
  "(int \<Rightarrow> byte list \<Rightarrow> err + byte list) \<Rightarrow> (int \<Rightarrow> err + byte list \<times> err) \<Rightarrow> string \<Rightarrow> int \<Rightarrow> (err + status_info) option" where
  "query_result ask stream protocol port =
     (if protocol = ''bzflag''
      then Some (case stream port of Inl e \<Rightarrow> Inl e | Inr (s, e) \<Rightarrow> bzflag_reply e s)
      else if protocol = ''quake1'' then Some (ask_one quake1_reply (ask port quake1_query))
      else if protocol = ''quake2'' then Some (query_quake2 (ask port) quake2_queries)
      else if protocol = ''quake3'' then Some (ask_one quake3_reply (ask port quake3_query))
      else if protocol = ''ut99'' then Some (ask_one ut99_reply (ask (port + 1) ut99_query))
      else if protocol = ''xonotic'' then Some (ask_one xonotic_reply (ask port (out_of_band ''getinfo'')))
      else None)"

definition query_server ::
  "(int \<Rightarrow> byte list \<Rightarrow> err + byte list) \<Rightarrow> (int \<Rightarrow> err + byte list \<times> err) \<Rightarrow> string \<Rightarrow> int \<Rightarrow> status_info option" where
  "query_server ask stream protocol port =
     (case query_result ask stream protocol port of Some (Inr i) \<Rightarrow> Some i | _ \<Rightarrow> None)"

section \<open>Reading back\<close>

lemma cut_nul_append: "0 \<notin> set a \<Longrightarrow> cut_nul (a @ 0 # b) = Some (a, b)"
  by (simp add: cut_nul_def before_nul_def takeWhile_append)

lemma byte_of_zero: "byte_of c = 0 \<longleftrightarrow> c = char_of (0 :: nat)"
proof
  assume "byte_of c = 0"
  then have "c = char_of_byte 0" using char_of_byte_of [of c] by simp
  then show "c = char_of (0 :: nat)" by (simp add: char_of_byte_def)
qed (simp add: byte_of_def)

lemma nul_in_str: "0 \<in> set (str s) \<longleftrightarrow> char_of (0 :: nat) \<in> set s"
  by (auto simp: str_def byte_of_zero image_iff)

text \<open>The information the gateway gives about a sleeping game is what a query of it reads.\<close>

lemma server_info_read:
  assumes plain: "char_of (0 :: nat) \<notin> set (ls_local l)" "char_of (0 :: nat) \<notin> set (ls_instance l)"
    and small: "length (ls_sessions l) < 256"
  shows "quake1_reply (server_info l) =
    Inr \<lparr>si_players = int (length (ls_sessions l)), si_hostname = ''insta-game: '' @ ls_instance l, si_map = ''on-demand''\<rparr>"
proof -
  define counts :: "byte list" where "counts = [of_nat (length (ls_sessions l)), word_of_int max_sessions, 3]"
  define payload where "payload = str (ls_local l) @ 0 # str (''insta-game: '' @ ls_instance l) @ 0 # str ''on-demand'' @ 0 # counts"
  have str_app: "str (a @ b) = str a @ str b" for a b by (simp add: str_def)
  have str_nul: "str nul = [0]" by (simp add: str_def nul_def byte_of_def)
  have info: "server_info l = control_packet 0x83 payload"
    unfolding server_info_def payload_def counts_def str_app str_nul append_assoc by simp
  have zero: "char_of (0 :: nat) = CHR 0x00" by code_simp
  have head: "length (control_packet 0x83 payload) = 5 + length payload" "drop 5 (control_packet 0x83 payload) = payload"
    "be32 (control_packet 0x83 payload) = flag_control OR of_nat (5 + length payload)" "control_packet 0x83 payload ! 4 = 0x83"
    by (simp_all add: control_packet_def nth_append)
  have "0 \<notin> set (str (ls_local l))" "0 \<notin> set (str (''insta-game: '' @ ls_instance l))" "0 \<notin> set (str ''on-demand'')"
    unfolding nul_in_str using plain by (simp_all add: zero)
  note cuts = this [THEN cut_nul_append]
  have "cut_nul payload = Some (str (ls_local l), str (''insta-game: '' @ ls_instance l) @ 0 # str ''on-demand'' @ 0 # counts)"
    unfolding payload_def by (rule cuts)
  moreover have "cut_nul (str (''insta-game: '' @ ls_instance l) @ 0 # str ''on-demand'' @ 0 # counts) =
       Some (str (''insta-game: '' @ ls_instance l), str ''on-demand'' @ 0 # counts)" by (rule cuts)
  moreover have "cut_nul (str ''on-demand'' @ 0 # counts) = Some (str ''on-demand'', counts)" by (rule cuts)
  moreover have "uint (counts ! 0) = int (length (ls_sessions l))" "length counts = 3"
    using small by (simp_all add: counts_def uint_nat unat_of_nat)
  ultimately show ?thesis unfolding info quake1_reply_def head by simp
qed

text \<open>An info string written with plain keys and values is read back, the last value of a key
  counting.\<close>

definition render_info :: "(string \<times> string) list \<Rightarrow> string" where
  "render_info kvs = concat (map (\<lambda>(k, v). [CHR 0x5C] @ k @ [CHR 0x5C] @ v) kvs)"

lemma split_render:
  assumes "\<forall>(k, v)\<in>set kvs. CHR 0x5C \<notin> set k \<and> CHR 0x5C \<notin> set v" "CHR 0x5C \<notin> set s"
  shows "split_on (CHR 0x5C) (s @ render_info kvs) = s # concat (map (\<lambda>(k, v). [k, v]) kvs)"
  using assms
proof (induction kvs arbitrary: s)
  case Nil
  then show ?case by (simp add: render_info_def split_on_plain)
next
  case (Cons kv kvs)
  obtain k v where kv: "kv = (k, v)" by fastforce
  have "s @ render_info (kv # kvs) = s @ CHR 0x5C # (k @ CHR 0x5C # (v @ render_info kvs))"
    by (simp add: render_info_def kv)
  then show ?case using Cons kv by (simp add: split_on_append)
qed

lemma pair_up_pairs: "pair_up m (concat (map (\<lambda>(k, v). [k, v]) kvs)) = foldl (\<lambda>m (k, v). AList.update k v m) m kvs"
  by (induction kvs arbitrary: m) auto

lemma info_pairs_render:
  assumes "\<forall>(k, v)\<in>set kvs. CHR 0x5C \<notin> set k \<and> CHR 0x5C \<notin> set v"
  shows "map_of (info_pairs (render_info kvs)) = map_of (rev kvs)"
proof -
  have "map_of (foldl (\<lambda>m (k, v). AList.update k v m) m kvs) = map_of m ++ map_of (rev kvs)" for m
    by (induction kvs arbitrary: m) (auto simp: update_conv' map_add_def fun_eq_iff split: option.split)
  from this [of "[]"] show ?thesis
    using split_render [OF assms, of "[]"] by (simp add: info_pairs_def pair_up_pairs)
qed

lemma xonotic_players_bounds: "xonotic_players m = Inr n \<Longrightarrow> 0 \<le> n"
  by (auto simp: xonotic_players_def split: option.splits if_splits)

section \<open>Properties\<close>

text \<open>A status query of a sleeping game is answered by the gateway without a session, and the agent's
  parser reads from the answer the number of sessions, the instance and the map name the gateway put
  there.\<close>

theorem sleeping_game_is_readable:
  assumes "netquake (ls_protocol l)" "char_of (0 :: nat) \<notin> set (ls_local l)" "char_of (0 :: nat) \<notin> set (ls_instance l)"
    and "length (ls_sessions l) < 256"
  shows "\<exists>answer. read_packet werr a quake1_query (n, l) = ([answer], n, l) \<and>
    query_server (\<lambda>port q. Inr answer) stream ''quake1'' port =
      Some \<lparr>si_players = int (length (ls_sessions l)), si_hostname = ''insta-game: '' @ ls_instance l, si_map = ''on-demand''\<rparr>"
proof -
  have "control_request quake1_query 2"
    by (simp add: control_request_def quake1_query_def be32_def flag_control_def str_def byte_of_def)
  moreover have "ls_protocol l \<noteq> ''bzflag''" using assms(1) by (auto simp: netquake_def)
  ultimately have "read_packet werr a quake1_query (n, l) = ([server_info l], n, l)"
    using assms(1) by (simp add: read_packet_def)
  moreover have "query_server (\<lambda>port q. Inr (server_info l)) stream ''quake1'' port =
      Some \<lparr>si_players = int (length (ls_sessions l)), si_hostname = ''insta-game: '' @ ls_instance l, si_map = ''on-demand''\<rparr>"
    using server_info_read [OF assms(2-4)] by (simp add: query_server_def query_result_def ask_one_def)
  ultimately show ?thesis by blast
qed

definition sleeping :: listener where
  "sleeping = \<lparr>ls_protocol = ''quake1'', ls_instance = ''arena'', ls_local = ''10.0.0.1:26000'', ls_sessions = [], ls_bz = []\<rparr>"

theorem sleeping_game_is_readable_witness:
  "\<exists>answer. read_packet False (V4 1, 2) quake1_query (0, sleeping) = ([answer], 0, sleeping) \<and>
     query_server (\<lambda>port q. Inr answer) (\<lambda>port. Inl ErrBusy) ''quake1'' 26000 =
       Some \<lparr>si_players = 0, si_hostname = ''insta-game: arena'', si_map = ''on-demand''\<rparr>"
proof -
  have zero: "char_of (0 :: nat) = CHR 0x00" by code_simp
  have "netquake (ls_protocol sleeping)" "char_of (0 :: nat) \<notin> set (ls_local sleeping)"
    "char_of (0 :: nat) \<notin> set (ls_instance sleeping)" "length (ls_sessions sleeping) < 256"
    by (simp_all add: sleeping_def netquake_def zero)
  from sleeping_game_is_readable [OF this] show ?thesis by (simp add: sleeping_def)
qed

text \<open>What a DarkPlaces server writes as an info string of plain keys and values is read back, the
  last value of a key counting: the humans are the clients without the bots, and a count of bots beyond
  the clients is refused.\<close>

theorem xonotic_info_reads_back:
  assumes plain: "\<forall>(k, v)\<in>set kvs. CHR 0x5C \<notin> set k \<and> CHR 0x5C \<notin> set v"
    and counts: "map_of (rev kvs) ''clients'' = Some (show_nat clients)" "map_of (rev kvs) ''bots'' = Some (show_nat bots)"
    and range: "clients < 2 ^ 63" "bots < 2 ^ 63"
  shows "xonotic_reply (xonotic_header @ str (render_info kvs)) =
    (if clients < bots then Inl (ErrMsg ''invalid Xonotic bot count'')
     else Inr \<lparr>si_players = int clients - int bots,
               si_hostname = (case map_of (rev kvs) ''hostname'' of None \<Rightarrow> [] | Some v \<Rightarrow> v),
               si_map = (case map_of (rev kvs) ''mapname'' of None \<Rightarrow> [] | Some v \<Rightarrow> v)\<rparr>)"
proof -
  let ?m = "info_pairs (render_info kvs)"
  have m: "map_of ?m = map_of (rev kvs)" using plain by (rule info_pairs_render)
  have n: "atoi (show_nat clients) = Some (int clients)" "atoi (show_nat bots) = Some (int bots)"
    using range by (simp_all add: atoi_show_nat)
  have "xonotic_players ?m = (if clients < bots then Inl (ErrMsg ''invalid Xonotic bot count'') else Inr (int clients - int bots))"
    by (simp add: xonotic_players_def value_of_def m counts n)
  then show ?thesis by (simp add: xonotic_reply_def bytes_prefix_def value_of_def m Let_def)
qed

theorem xonotic_info_reads_back_witness:
  "xonotic_reply (xonotic_header @ str (render_info [(''clients'', show_nat 5), (''bots'', show_nat 2), (''mapname'', ''dance'')])) =
     Inr \<lparr>si_players = 3, si_hostname = [], si_map = ''dance''\<rparr>"
proof -
  let ?kvs = "[(''clients'', show_nat 5), (''bots'', show_nat 2), (''mapname'', ''dance'')]"
  have "CHR 0x5C \<notin> set (show_nat 5)" "CHR 0x5C \<notin> set (show_nat 2)"
    by code_simp+
  then have "\<forall>(k, v)\<in>set ?kvs. CHR 0x5C \<notin> set k \<and> CHR 0x5C \<notin> set v" by simp
  from xonotic_info_reads_back [OF this, of 5 2] show ?thesis by simp
qed

end
