(* ===== verification/FleetHost.thy ===== *)
theory FleetHost
  imports FleetScheduler ControlProperties
begin

text \<open>
  The host's side of the fleet (internal/fleet/worker.go) and its idle power-off
  (internal/command/idle.go and the callback of fleet_host.go): what a host tells the fleet about its
  servers, how it takes over their requests, and when it may switch itself off. \<open>down\<close> is the
  controller's field \<open>shuttingDown\<close>. A pass of the worker is taken alone, without the
  controller's reconciler between its calls; the controller theories cover that one.
\<close>

section \<open>Reports\<close>

record ('w, 't) worker =
  wk_store :: "'w store"
  wk_host :: string
  wk_config :: fleet_config
  wk_controller :: "('w, 't) controller"
  wk_started_at :: time

definition ready_here :: "inst \<Rightarrow> server \<Rightarrow> time \<Rightarrow> bool" where
  "ready_here i v started \<longleftrightarrow>
     in_request_id i = v_request_id v \<and> in_phase i = ''running'' \<and> in_desired i = ''running'' \<and>
     in_players i \<noteq> None \<and> in_error i = [] \<and> \<not> in_updated_at i < started"

text \<open>\<open>time.Since\<close> is read only when everything before it holds.\<close>

definition locally_ready :: "('w, 't) worker \<Rightarrow> server \<Rightarrow> err + inst \<Rightarrow> 'w \<Rightarrow> bool \<times> 'w" where
  "locally_ready k v got w =
     (case got of
        Inl e \<Rightarrow> (False, w)
      | Inr i \<Rightarrow>
          if ready_here i v (wk_started_at k)
          then (let (t, w) = ct_clock (wk_controller k) w in (time_sub t (in_updated_at i) \<le> 45 * second, w))
          else (False, w))"

definition plain_report :: "('w, 't) worker \<Rightarrow> server \<Rightarrow> string \<Rightarrow> string \<Rightarrow> string \<Rightarrow> time \<Rightarrow> report" where
  "plain_report k v phase desired failure t =
     \<lparr>rp_id = v_id v, rp_host = wk_host k, rp_request_id = v_request_id v, rp_phase = phase, rp_desired = desired,
      rp_address = [], rp_players = None, rp_error = failure, rp_observed_at = t\<rparr>"

definition instance_report :: "('w, 't) worker \<Rightarrow> server \<Rightarrow> inst \<Rightarrow> report" where
  "instance_report k v i =
     (let r = \<lparr>rp_id = v_id v, rp_host = wk_host k, rp_request_id = v_request_id v, rp_phase = in_phase i,
               rp_desired = in_desired i, rp_address = connect i, rp_players = in_players i, rp_error = [],
               rp_observed_at = in_updated_at i\<rparr>;
          r = (if in_error i \<noteq> [] \<and> (v_ready_at v \<noteq> 0 \<or> in_phase i \<noteq> ''starting'')
               then r\<lparr>rp_error := ''Game unavailable. Check the host logs.''\<rparr> else r);
          r = (if in_phase i \<noteq> ''deleted'' \<and> in_desired i = ''running'' \<and> in_updated_at i < wk_started_at k
               then r\<lparr>rp_phase := ''starting'', rp_address := [], rp_players := None\<rparr> else r)
      in if rp_phase r \<noteq> ''running'' \<or> rp_desired r \<noteq> ''running'' \<or> rp_players r = None \<or> rp_error r \<noteq> []
         then r\<lparr>rp_address := []\<rparr> else r)"

section \<open>One server\<close>

text \<open>
  \<open>syncServer\<close> ends by returning or by publishing a report; \<open>failed\<close> publishes one and joins
  the cause with the outcome. The verdict is computed first, then carried out.
\<close>

datatype verdict = Return "err + unit" | Publish report | Fail err report

definition failed_report :: "('w, 't) worker \<Rightarrow> server \<Rightarrow> err \<Rightarrow> 'w \<Rightarrow> verdict \<times> 'w" where
  "failed_report k v cause w =
     (let (t, w) = ct_clock (wk_controller k) w in
      (Fail cause (plain_report k v ''failed'' (v_desired v) ''Server setup failed. Check the host logs.'' t), w))"

definition timed_out :: "('w, 't) worker \<Rightarrow> bool \<Rightarrow> server \<Rightarrow> err + inst \<Rightarrow> 'w \<Rightarrow> verdict \<times> 'w" where
  "timed_out k down v got w =
     (let report = (\<lambda>w. let (t, w) = ct_clock (wk_controller k) w in
                        (Publish (plain_report k v ''failed'' ''stopped'' startup_timeout_message t), w))
      in case got of
           Inr i \<Rightarrow>
             (case set_desired_op (wk_controller k) down (v_id v) ''stopped'' w of
                (Inl e, w) \<Rightarrow> if err_is e ErrShuttingDown then report w else (Return (Inl e), w)
              | (Inr u, w) \<Rightarrow> report w)
         | Inl e \<Rightarrow> if err_is e ErrNotFound then report w else (Return (Inl e), w))"

definition worker_request :: "('w, 't) worker \<Rightarrow> server \<Rightarrow> create_request" where
  "worker_request k v =
     \<lparr>cq_provider = ''docker'', cq_id = v_id v, cq_game = v_game v, cq_name = v_name v, cq_config = None,
      cq_idle_minutes = fc_idle_minutes (wk_config k), cq_max_minutes = fc_max_minutes (wk_config k)\<rparr>"

text \<open>From the instance the host has, or the error of getting one: take over the request, report.\<close>

definition adopt :: "('w, 't) worker \<Rightarrow> bool \<Rightarrow> server \<Rightarrow> err + inst \<Rightarrow> 'w \<Rightarrow> verdict \<times> 'w" where
  "adopt k down v got w =
     (case got of
        Inl e \<Rightarrow> if err_is e ErrShuttingDown then (Return (Inr ()), w) else failed_report k v e w
      | Inr i \<Rightarrow>
          if in_request_id i = v_request_id v then (Publish (instance_report k v i), w)
          else (case request_desired (wk_controller k) down (v_id v) (v_request_id v) (v_desired v) w of
                  (Inl e, w) \<Rightarrow> if err_is e ErrShuttingDown then (Return (Inr ()), w) else failed_report k v e w
                | (Inr u, w) \<Rightarrow>
                    (case db_get (ct_db (wk_controller k)) (v_id v) w of
                       (Inl e, w) \<Rightarrow> (Return (Inl e), w)
                     | (Inr i, w) \<Rightarrow> (Publish (instance_report k v i), w))))"

definition sync_verdict :: "('w, 't) worker \<Rightarrow> bool \<Rightarrow> server \<Rightarrow> 'w \<Rightarrow> verdict \<times> 'w" where
  "sync_verdict k down v w =
     (let ct = wk_controller k; (got, w) = db_get (ct_db ct) (v_id v) w; (ready, w) = locally_ready k v got w;
          (t, w) = ct_clock ct w
      in if startup_expired v t \<and> \<not> ready then timed_out k down v got w
         else (case got of
                 Inr i \<Rightarrow> adopt k down v got w
               | Inl e \<Rightarrow>
                   if \<not> err_is e ErrNotFound then adopt k down v got w
                   else if v_desired v \<noteq> ''running''
                   then (let (t, w) = ct_clock ct w;
                             phase = (if v_desired v = ''stopped'' \<or> v_desired v = ''deleted'' then v_desired v else [])
                         in (Publish (plain_report k v phase (v_desired v) [] t), w))
                   else (let (made, w) = create_requested ct down (worker_request k v) (v_request_id v) w
                         in adopt k down v made w)))"

fun carry_out :: "('w, 't) worker \<Rightarrow> verdict \<times> 'w \<Rightarrow> (err + unit) \<times> 'w" where
  "carry_out k (Return r, w) = (r, w)"
| "carry_out k (Publish r, w) = sto_publish (wk_store k) r w"
| "carry_out k (Fail cause r, w) =
     (case sto_publish (wk_store k) r w of
        (Inl e, w) \<Rightarrow> (Inl (ErrJoin [cause, e]), w)
      | (Inr u, w) \<Rightarrow> (Inl (ErrJoin [cause]), w))"

definition sync_server :: "('w, 't) worker \<Rightarrow> bool \<Rightarrow> server \<Rightarrow> ('w, unit) io" where
  "sync_server k down v w = carry_out k (sync_verdict k down v w)"

section \<open>The whole host\<close>

fun sync_each :: "('w, 't) worker \<Rightarrow> bool \<Rightarrow> server list \<Rightarrow> 'w \<Rightarrow> err list \<times> 'w" where
  "sync_each k down [] w = ([], w)"
| "sync_each k down (v # vs) w =
     (if v_host v \<noteq> wk_host k then sync_each k down vs w
      else (case sync_server k down v w of
              (Inl e, w) \<Rightarrow> (let (es, w) = sync_each k down vs w in (ErrWrap (v_id v @ '': '') e # es, w))
            | (Inr u, w) \<Rightarrow> sync_each k down vs w))"

definition worker_sync :: "('w, 't) worker \<Rightarrow> bool \<Rightarrow> ('w, unit) io" where
  "worker_sync k down w =
     (case sto_load (wk_store k) w of
        (Inl e, w) \<Rightarrow> (Inl e, w)
      | (Inr s, w) \<Rightarrow>
          if \<not> (\<exists>h\<in>set (st_hosts s). h_id h = wk_host k \<and> \<not> h_retiring h) \<or> st_deleting s
          then (Inl (ErrMsg ''host is no longer accepting fleet requests''), w)
          else (let (es, w) = sync_each k down (st_servers s) w in (join_errors es, w)))"

text \<open>The check of one server: a result that ends the search, or \<open>None\<close> to go on.\<close>

definition pending_server :: "('w, 't) worker \<Rightarrow> server \<Rightarrow> err + inst \<Rightarrow> (bool \<times> err option) option" where
  "pending_server k v got =
     (case got of
        Inl e \<Rightarrow> if err_is e ErrNotFound \<and> v_desired v \<noteq> ''running'' then None else Some (True, Some e)
      | Inr i \<Rightarrow> if in_request_id i \<noteq> v_request_id v then Some (True, None) else None)"

fun pending_each :: "('w, 't) worker \<Rightarrow> server list \<Rightarrow> 'w \<Rightarrow> (bool \<times> err option) \<times> 'w" where
  "pending_each k [] w = ((False, None), w)"
| "pending_each k (v # vs) w =
     (if v_host v \<noteq> wk_host k then pending_each k vs w
      else (let (got, w) = db_get (ct_db (wk_controller k)) (v_id v) w in
        case pending_server k v got of
          Some r \<Rightarrow> (r, w)
        | None \<Rightarrow> pending_each k vs w))"

definition worker_pending :: "('w, 't) worker \<Rightarrow> 'w \<Rightarrow> (bool \<times> err option) \<times> 'w" where
  "worker_pending k w =
     (case sto_load (wk_store k) w of
        (Inl e, w) \<Rightarrow> ((False, Some e), w)
      | (Inr s, w) \<Rightarrow> if st_deleting s then ((False, None), w) else pending_each k (st_servers s) w)"

section \<open>Idle power-off\<close>

definition idle_since :: "inst list \<Rightarrow> time \<Rightarrow> time \<Rightarrow> time" where
  "idle_since is previous t =
     (if \<not> instances_idle is then zero_time else if is_zero previous then t else previous)"

text \<open>
  One turn of the loop: the error of the context, the listing, the clock, the error of the context
  again, and what the power-off callback returned, if it is called. The loop returns or goes on with
  the new \<open>since\<close>; the flag says whether the callback was called.
\<close>

record idle_turn =
  it_ended :: "err option"
  it_listed :: "err + inst list"
  it_now :: time
  it_ended_late :: "err option"
  it_poweroff :: "bool \<times> err option"

definition idle_step :: "int \<Rightarrow> idle_turn \<Rightarrow> time \<Rightarrow> bool \<times> (err option + time)" where
  "idle_step duration x since =
     (case it_ended x of
        Some e \<Rightarrow> (False, Inl (Some e))
      | None \<Rightarrow>
          (case it_listed x of
             Inl e \<Rightarrow> (False, Inl (Some (ErrWrap ''check host idle state: '' e)))
           | Inr is \<Rightarrow>
               (let since = idle_since is since (it_now x) in
                if \<not> is_zero since \<and> duration \<le> time_sub (it_now x) since
                then (case it_ended_late x of
                        Some e \<Rightarrow> (False, Inl (Some e))
                      | None \<Rightarrow>
                          if snd (it_poweroff x) \<noteq> None \<or> fst (it_poweroff x)
                          then (True, Inl (snd (it_poweroff x)))
                          else (True, Inr zero_time))
                else (False, Inr since))))"

text \<open>The state of the loop after a number of turns that did not return.\<close>

fun idle_run :: "int \<Rightarrow> idle_turn list \<Rightarrow> time \<Rightarrow> time option" where
  "idle_run duration [] since = Some since"
| "idle_run duration (x # xs) since =
     (case idle_step duration x since of (called, Inl r) \<Rightarrow> None | (called, Inr s) \<Rightarrow> idle_run duration xs s)"

text \<open>What the loop has returned after these turns; \<open>None\<close> if it is still running.\<close>

fun idle_loop :: "int \<Rightarrow> idle_turn list \<Rightarrow> time \<Rightarrow> err option option" where
  "idle_loop duration [] since = None"
| "idle_loop duration (x # xs) since =
     (case idle_step duration x since of (called, Inl r) \<Rightarrow> Some r | (called, Inr s) \<Rightarrow> idle_loop duration xs s)"

definition poweroff_when_idle :: "int \<Rightarrow> idle_turn list \<Rightarrow> err option option" where
  "poweroff_when_idle duration xs = (if duration \<le> 0 then Some None else idle_loop duration xs zero_time)"

text \<open>The callback of a fleet host.\<close>

definition fleet_poweroff ::
  "('w, 't) worker \<Rightarrow> ('w \<Rightarrow> err option \<times> 'w) \<Rightarrow> bool \<Rightarrow> 'w \<Rightarrow> ((bool \<times> err option) \<times> bool) \<times> 'w" where
  "fleet_poweroff k systemctl down w =
     (case worker_pending k w of
        ((pending, e), w) \<Rightarrow>
          if e \<noteq> None \<or> pending then (((False, e), down), w)
          else (case begin_idle_shutdown (wk_controller k) down w of
                  ((Inl e, down), w) \<Rightarrow> (((False, Some e), down), w)
                | ((Inr ok, down), w) \<Rightarrow>
                    if \<not> ok then (((False, None), down), w)
                    else (let (e, w) = systemctl w in (((True, e), down), w))))"

section \<open>What the host reports and when it stops\<close>

lemma instance_report_truth:
  assumes "r = instance_report k v i"
  shows "rp_id r = v_id v \<and> rp_host r = wk_host k \<and> rp_request_id r = v_request_id v \<and>
    (rp_address r \<noteq> [] \<or> rp_phase r = ''running'' \<and> rp_desired r = ''running'' \<and> rp_error r = [] \<and> rp_players r \<noteq> None \<longrightarrow>
       in_phase i = ''running'' \<and> in_desired i = ''running'' \<and> in_players i \<noteq> None \<and> in_error i = [] \<and>
       \<not> in_updated_at i < wk_started_at k \<and> rp_observed_at r = in_updated_at i \<and>
       (rp_address r \<noteq> [] \<longrightarrow> rp_address r = connect i))"
proof -
  define early where "early = (in_phase i \<noteq> ''deleted'' \<and> in_desired i = ''running'' \<and> in_updated_at i < wk_started_at k)"
  define broken where "broken = (in_error i \<noteq> [] \<and> (v_ready_at v \<noteq> 0 \<or> in_phase i \<noteq> ''starting''))"
  have r: "r = (let r = \<lparr>rp_id = v_id v, rp_host = wk_host k, rp_request_id = v_request_id v, rp_phase = in_phase i,
               rp_desired = in_desired i, rp_address = connect i, rp_players = in_players i, rp_error = [],
               rp_observed_at = in_updated_at i\<rparr>;
          r = (if broken then r\<lparr>rp_error := ''Game unavailable. Check the host logs.''\<rparr> else r);
          r = (if early then r\<lparr>rp_phase := ''starting'', rp_address := [], rp_players := None\<rparr> else r)
      in if rp_phase r \<noteq> ''running'' \<or> rp_desired r \<noteq> ''running'' \<or> rp_players r = None \<or> rp_error r \<noteq> []
         then r\<lparr>rp_address := []\<rparr> else r)"
    by (simp add: assms instance_report_def early_def broken_def)
  show ?thesis
  proof (cases "early \<or> broken")
    case True
    then show ?thesis unfolding r by (cases early; cases broken) (simp_all add: Let_def)
  next
    case False
    have err: "in_phase i = ''running'' \<Longrightarrow> in_error i = []" using False by (auto simp: broken_def)
    have upd: "in_phase i = ''running'' \<Longrightarrow> in_desired i = ''running'' \<Longrightarrow> \<not> in_updated_at i < wk_started_at k"
      using False by (auto simp: early_def)
    show ?thesis unfolding r using False err upd by (simp add: Let_def)
  qed
qed

lemma idle_since_cases:
  assumes "idle_since is previous t = s" "s \<noteq> zero_time"
  shows "instances_idle is \<and> (s = previous \<or> previous = zero_time \<and> s = t)"
  using assms by (auto simp: idle_since_def is_zero_def split: if_splits)

text \<open>\<open>since\<close> is the clock of a turn from which on every listing was idle.\<close>

definition quiet_from :: "idle_turn list \<Rightarrow> time \<Rightarrow> bool" where
  "quiet_from xs since \<longleftrightarrow>
     (since \<noteq> zero_time \<longrightarrow>
       (\<exists>before after. xs = before @ after \<and> after \<noteq> [] \<and> it_now (hd after) = since \<and>
          (\<forall>x\<in>set after. \<exists>is. it_listed x = Inr is \<and> instances_idle is)))"

lemma quiet_from_turn:
  assumes "quiet_from xs since" "it_listed x = Inr is"
  shows "quiet_from (xs @ [x]) (idle_since is since (it_now x))"
proof (cases "idle_since is since (it_now x) = zero_time")
  case False
  from idle_since_cases [OF refl False] have idle: "instances_idle is"
    and c: "idle_since is since (it_now x) = since \<or> since = zero_time \<and> idle_since is since (it_now x) = it_now x" by simp_all
  show ?thesis
  proof (cases "since = zero_time")
    case True
    then have "idle_since is since (it_now x) = it_now x" using c False by auto
    then show ?thesis unfolding quiet_from_def using idle assms(2)
      by (intro impI exI [of _ xs] exI [of _ "[x]"]) simp
  next
    case since: False
    then obtain before after where s: "xs = before @ after" "after \<noteq> []" "it_now (hd after) = since"
      "\<forall>x\<in>set after. \<exists>is. it_listed x = Inr is \<and> instances_idle is"
      using assms(1) unfolding quiet_from_def by blast
    have "idle_since is since (it_now x) = since" using c since by simp
    then show ?thesis unfolding quiet_from_def using s idle assms(2)
      by (intro impI exI [of _ before] exI [of _ "after @ [x]"]) simp
  qed
qed (simp add: quiet_from_def)

lemma idle_step_continues:
  assumes "idle_step duration x since = (called, Inr s)"
  shows "s = zero_time \<or> (\<exists>is. it_listed x = Inr is \<and> s = idle_since is since (it_now x))"
  using assms by (auto simp: idle_step_def Let_def split: option.splits sum.splits if_splits)

lemma idle_run_snoc:
  "idle_run duration (xs @ [x]) since =
     (case idle_run duration xs since of None \<Rightarrow> None
      | Some s \<Rightarrow> (case idle_step duration x s of (called, Inl r) \<Rightarrow> None | (called, Inr s) \<Rightarrow> Some s))"
  by (induction xs arbitrary: since) (auto split: prod.split sum.split)

lemma idle_run_quiet: "idle_run duration xs zero_time = Some s \<Longrightarrow> quiet_from xs s"
proof (induction xs arbitrary: s rule: rev_induct)
  case Nil
  then show ?case by (simp add: quiet_from_def)
next
  case (snoc x xs)
  then obtain s0 called where s0: "idle_run duration xs zero_time = Some s0" "idle_step duration x s0 = (called, Inr s)"
    by (auto simp: idle_run_snoc split: option.splits prod.splits sum.splits)
  from idle_step_continues [OF s0(2)] show ?case
    using quiet_from_turn [OF snoc.IH [OF s0(1)]] by (auto simp: quiet_from_def)
qed

lemma idle_step_calls:
  assumes "idle_step duration x since = (True, r)"
  shows "\<exists>is. it_listed x = Inr is \<and> idle_since is since (it_now x) \<noteq> zero_time \<and>
    duration \<le> time_sub (it_now x) (idle_since is since (it_now x))"
  using assms by (auto simp: idle_step_def Let_def is_zero_def split: option.splits sum.splits if_splits)

lemma pending_each_none:
  "pending_each k vs w = ((False, None), w') \<Longrightarrow> v \<in> set vs \<Longrightarrow> v_host v = wk_host k \<Longrightarrow>
     \<exists>w1. pending_server k v (fst (db_get (ct_db (wk_controller k)) (v_id v) w1)) = None"
proof (induction k vs w rule: pending_each.induct)
  case (2 k u vs w)
  show ?case
  proof (cases "v_host u = wk_host k")
    case False
    then show ?thesis using 2 by auto
  next
    case True
    obtain got w1 where g: "db_get (ct_db (wk_controller k)) (v_id u) w = (got, w1)" by fastforce
    have none: "pending_server k u got = None"
    proof (cases "pending_server k u got")
      case (Some r)
      then have "r = (False, None)" using 2(3) True g by simp
      then show ?thesis using Some by (simp add: pending_server_def split: sum.splits if_splits)
    qed
    then have "pending_each k vs w1 = ((False, None), w')" using 2(3) True g by simp
    then have ih: "v \<in> set vs \<Longrightarrow> ?thesis" using 2(2) [OF _ g [symmetric] refl] 2(5) True g none by simp
    show ?thesis
    proof (cases "v = u")
      case True
      then show ?thesis using g none by (intro exI [of _ w]) simp
    next
      case False
      then show ?thesis using ih 2(4) by simp
    qed
  qed
qed simp

lemma timed_out_report:
  "timed_out k down v got w = (Publish r, w') \<Longrightarrow>
     \<exists>t. r = plain_report k v ''failed'' ''stopped'' startup_timeout_message t"
  by (auto simp: timed_out_def Let_def split: sum.splits prod.splits if_splits)

lemma adopt_report:
  "adopt k down v got w = (Publish r, w') \<Longrightarrow>
     \<exists>i. r = instance_report k v i \<and> (got = Inr i \<or> (\<exists>w1. fst (db_get (ct_db (wk_controller k)) (v_id v) w1) = Inr i))"
  by (auto simp: adopt_def failed_report_def split: sum.splits prod.splits if_splits) (metis fst_conv)+

definition promises :: "report \<Rightarrow> bool" where
  "promises r \<longleftrightarrow>
     rp_address r \<noteq> [] \<or> rp_phase r = ''running'' \<and> rp_desired r = ''running'' \<and> rp_error r = [] \<and> rp_players r \<noteq> None"

lemma plain_report_promises: "phase \<noteq> ''running'' \<Longrightarrow> \<not> promises (plain_report k v phase desired failure t)"
  by (simp add: promises_def plain_report_def)

text \<open>What the worker publishes comes from an instance it has read or made, or promises nothing.\<close>

lemma sync_verdict_report:
  assumes "sync_verdict k down v w = (Publish r, w')"
  shows "\<not> promises r \<or>
    (\<exists>i w1. r = instance_report k v i \<and>
       (fst (db_get (ct_db (wk_controller k)) (v_id v) w1) = Inr i \<or>
        fst (create_requested (wk_controller k) down (worker_request k v) (v_request_id v) w1) = Inr i))"
proof -
  obtain got w1 where g: "db_get (ct_db (wk_controller k)) (v_id v) w = (got, w1)" by fastforce
  obtain ready w2 where l: "locally_ready k v got w1 = (ready, w2)" by fastforce
  obtain t w3 where c: "ct_clock (wk_controller k) w2 = (t, w3)" by fastforce
  note s = assms [unfolded sync_verdict_def Let_def g l c prod.case]
  have first: ?thesis if "adopt k down v got w3 = (Publish r, w')"
    using adopt_report [OF that] g by (metis fst_conv)
  show ?thesis
  proof (cases "startup_expired v t \<and> \<not> ready")
    case True
    then have "timed_out k down v got w3 = (Publish r, w')" using s by simp
    from timed_out_report [OF this] show ?thesis by (auto simp: plain_report_promises)
  next
    case late: False
    show ?thesis
    proof (cases got)
      case (Inr i)
      then show ?thesis using s late first by auto
    next
      case (Inl e)
      consider "\<not> err_is e ErrNotFound" | "err_is e ErrNotFound" "v_desired v \<noteq> ''running''"
        | "err_is e ErrNotFound" "v_desired v = ''running''" by blast
      then show ?thesis
      proof cases
        case 1
        then show ?thesis using s late first Inl by auto
      next
        case 2
        then have "\<exists>phase t. phase \<noteq> ''running'' \<and> r = plain_report k v phase (v_desired v) [] t"
          using s late Inl by (auto split: prod.splits if_splits)
        then show ?thesis by (auto simp: plain_report_promises)
      next
        case 3
        obtain made w4 where m: "create_requested (wk_controller k) down (worker_request k v) (v_request_id v) w3 = (made, w4)"
          by fastforce
        have "adopt k down v made w4 = (Publish r, w')" using s late Inl 3 m by auto
        from adopt_report [OF this] show ?thesis using m by (metis fst_conv)
      qed
    qed
  qed
qed

section \<open>Properties\<close>

text \<open>C19. A report of the worker that promises a game (an address, or a running phase with a player count and
  no error) is about that server, this host and its current request, and rests on an instance the worker
  read from its database or made itself, which runs, is meant to run, has no error, answered with a
  player count and was updated after the worker started; an address is that instance's own.\<close>

theorem worker_reports_truthfully:
  assumes "sync_verdict k down v w = (Publish r, w')"
    and "rp_address r \<noteq> [] \<or> rp_phase r = ''running'' \<and> rp_desired r = ''running'' \<and> rp_error r = [] \<and> rp_players r \<noteq> None"
  shows "rp_id r = v_id v \<and> rp_host r = wk_host k \<and> rp_request_id r = v_request_id v \<and>
    (\<exists>i w1. (fst (db_get (ct_db (wk_controller k)) (v_id v) w1) = Inr i \<or>
        fst (create_requested (wk_controller k) down (worker_request k v) (v_request_id v) w1) = Inr i) \<and>
      in_phase i = ''running'' \<and> in_desired i = ''running'' \<and> in_players i \<noteq> None \<and> in_error i = [] \<and>
      \<not> in_updated_at i < wk_started_at k \<and> rp_observed_at r = in_updated_at i \<and>
      (rp_address r \<noteq> [] \<longrightarrow> rp_address r = connect i))"
proof -
  obtain i w1 where i: "r = instance_report k v i"
    "fst (db_get (ct_db (wk_controller k)) (v_id v) w1) = Inr i \<or>
     fst (create_requested (wk_controller k) down (worker_request k v) (v_request_id v) w1) = Inr i"
    using sync_verdict_report [OF assms(1)] assms(2) unfolding promises_def by blast
  show ?thesis using instance_report_truth [OF i(1)] i(2) assms(2) by blast
qed

text \<open>C20. The power-off is attempted only at the end of a window at least as long as the configured
  duration in which every listing of the instances showed them all idle.\<close>

theorem poweroff_needs_quiet_window:
  assumes "idle_run duration xs zero_time = Some since" and "idle_step duration x since = (True, r)"
  shows "\<exists>before first rest. xs @ [x] = before @ first # rest \<and>
    duration \<le> time_sub (it_now x) (it_now first) \<and>
    (\<forall>y\<in>set (first # rest). \<exists>is. it_listed y = Inr is \<and> instances_idle is)"
proof -
  obtain "is" where l: "it_listed x = Inr is" "idle_since is since (it_now x) \<noteq> zero_time"
    "duration \<le> time_sub (it_now x) (idle_since is since (it_now x))"
    using idle_step_calls [OF assms(2)] by blast
  from quiet_from_turn [OF idle_run_quiet [OF assms(1)] l(1)] l(2)
  obtain before after where a: "xs @ [x] = before @ after" "after \<noteq> []"
    "it_now (hd after) = idle_since is since (it_now x)"
    "\<forall>y\<in>set after. \<exists>is. it_listed y = Inr is \<and> instances_idle is"
    unfolding quiet_from_def by blast
  then show ?thesis using l(3) by (intro exI [of _ before] exI [of _ "hd after"] exI [of _ "tl after"]) simp
qed

definition idle_turn_at :: "time \<Rightarrow> idle_turn" where
  "idle_turn_at t = \<lparr>it_ended = None, it_listed = Inr [], it_now = t, it_ended_late = None, it_poweroff = (True, None)\<rparr>"

theorem poweroff_needs_quiet_window_witness:
  "\<exists>before first rest. [idle_turn_at 5] @ [idle_turn_at (5 + 120 * second)] = before @ first # rest \<and>
     120 * second \<le> time_sub (5 + 120 * second) (it_now first)"
proof -
  have "idle_run (120 * second) [idle_turn_at 5] zero_time = Some 5"
    "idle_step (120 * second) (idle_turn_at (5 + 120 * second)) 5 = (True, Inl None)"
    by (simp_all add: idle_turn_at_def idle_step_def idle_since_def instances_idle_def time_defs)
  from poweroff_needs_quiet_window [OF this] show ?thesis by (auto simp: idle_turn_at_def)
qed

text \<open>A fleet host commits to switching off only when admission is closed for good (every later intent
  is refused without touching the world), its database listed only idle instances, and the registry
  it loaded, unless it is being deleted, had no request for it that its database had not taken over.\<close>

theorem fleet_poweroff_leaves_nothing_pending:
  assumes "fleet_poweroff k systemctl down w = (((True, e), down'), w')"
  shows "down' \<and> (\<forall>x w1. \<exists>e. run_intent (wk_controller k) down' x w1 = (Inl e, w1)) \<and>
    (\<exists>is w1 w2. db_list (ct_db (wk_controller k)) w1 = (Inr is, w2) \<and> instances_idle is) \<and>
    (\<exists>s w1. sto_load (wk_store k) w = (Inr s, w1) \<and>
       (st_deleting s \<or>
        (\<forall>v\<in>set (st_servers s). v_host v = wk_host k \<longrightarrow>
           (\<exists>w2. case fst (db_get (ct_db (wk_controller k)) (v_id v) w2) of
              Inl e \<Rightarrow> err_is e ErrNotFound \<and> v_desired v \<noteq> ''running''
            | Inr i \<Rightarrow> in_request_id i = v_request_id v))))"
proof -
  obtain w2 where p: "worker_pending k w = ((False, None), w2)"
    using assms by (auto simp: fleet_poweroff_def split: prod.splits if_splits)
  obtain w3 where b: "begin_idle_shutdown (wk_controller k) down w2 = ((Inr True, down'), w3)"
    using assms p by (auto simp: fleet_poweroff_def split: prod.splits sum.splits if_splits)
  obtain "is" where l: "db_list (ct_db (wk_controller k)) w2 = (Inr is, w3)" "instances_idle is" "down'"
    using b by (auto simp: begin_idle_shutdown_def split: sum.splits prod.splits if_splits)
  have refused: "\<exists>e. run_intent (wk_controller k) True x w1 = (Inl e, w1)" for x w1
    by (cases x) (auto simp: create_requested_def set_desired_op_def request_desired_def)
  obtain s w1 where s: "sto_load (wk_store k) w = (Inr s, w1)"
    "\<not> st_deleting s \<Longrightarrow> pending_each k (st_servers s) w1 = ((False, None), w2)"
    using p by (auto simp: worker_pending_def split: sum.splits prod.splits if_splits)
  have "\<exists>w2. case fst (db_get (ct_db (wk_controller k)) (v_id v) w2) of
      Inl e \<Rightarrow> err_is e ErrNotFound \<and> v_desired v \<noteq> ''running'' | Inr i \<Rightarrow> in_request_id i = v_request_id v"
    if "\<not> st_deleting s" "v \<in> set (st_servers s)" "v_host v = wk_host k" for v
    using pending_each_none [OF s(2) [OF that(1)] that(2,3)]
    by (auto simp: pending_server_def split: sum.splits if_splits)
  then have regs: "st_deleting s \<or> (\<forall>v\<in>set (st_servers s). v_host v = wk_host k \<longrightarrow>
           (\<exists>w2. case fst (db_get (ct_db (wk_controller k)) (v_id v) w2) of
              Inl e \<Rightarrow> err_is e ErrNotFound \<and> v_desired v \<noteq> ''running''
            | Inr i \<Rightarrow> in_request_id i = v_request_id v))" by blast
  have closed: "\<forall>x w1. \<exists>e. run_intent (wk_controller k) down' x w1 = (Inl e, w1)" using refused l(3) by simp
  show ?thesis using l(3) closed by (intro conjI exI) (assumption | rule l(1,2) s(1) regs)+
qed

definition desk_worker :: "server list \<Rightarrow> (desk, stored) worker" where
  "desk_worker vs =
     \<lparr>wk_store = \<lparr>sto_load = (\<lambda>w. (Inr (zero_state\<lparr>st_servers := vs\<rparr>), w)), sto_save = (\<lambda>s n w. (Inr (), w)),
        sto_reports = (\<lambda>w. (Inr [], w)), sto_publish = (\<lambda>r w. (Inr (), w)), sto_tombstoned = (\<lambda>i w. (Inr False, w)),
        sto_forget = (\<lambda>s n i w. (Inr (), w))\<rparr>,
      wk_host = ''host-1'',
      wk_config = \<lparr>fc_release = ''r'', fc_workload = ''w'', fc_games = [], fc_capacity = zero_resources, fc_max_hosts = 1,
        fc_max_servers = 1, fc_launch_template = ''lt'', fc_launch_version = ''1'', fc_idle_minutes = 10,
        fc_max_minutes = 0, fc_deadline = 0\<rparr>,
      wk_controller = desk_controller, wk_started_at = 0\<rparr>"

definition desk_server :: server where
  "desk_server =
     \<lparr>v_ready_at = 0, v_error = [], v_resources = zero_resources, v_id = ''q1'', v_game = ''quake'', v_name = ''Q'',
      v_host = ''host-1'', v_desired = ''running'', v_request_id = ''r1'', v_requested_at = 1700000000\<rparr>"

definition ready_instance :: inst where
  "ready_instance = desk_instance\<lparr>in_phase := ''running'', in_players := Some 2, in_request_id := ''r1'',
     in_updated_at := 1700000000 * second, in_endpoints := [\<lparr>ep_port = 26000, ep_protocol = ''udp'', ep_address = ''192.0.2.1:26000''\<rparr>]\<rparr>"

definition ready_desk :: desk where
  "ready_desk = empty_desk\<lparr>dk_bucket := [(''q1'',
     \<lparr>sd_instance = public ready_instance, sd_agent_token = ''a'', sd_request_id = ''r1'', sd_rcon_password = ''b''\<rparr>)]\<rparr>"

lemmas desk_simps = desk_worker_def desk_server_def ready_instance_def ready_desk_def empty_desk_def desk_controller_def
  desk_instance_def desk_bolt_def desk_bucket_def memory_json_def desk_game_def

theorem worker_reports_truthfully_witness:
  "\<exists>r w'. sync_verdict (desk_worker []) False desk_server ready_desk = (Publish r, w') \<and>
     rp_address r = ''192.0.2.1:26000'' \<and> rp_request_id r = ''r1''"
proof -
  have g: "db_get (ct_db (wk_controller (desk_worker []))) (v_id desk_server) ready_desk = (Inr ready_instance, ready_desk)"
    by (simp add: db_get_def desk_simps decode_def public_def bucket_ok_def)
  obtain w2 where l: "locally_ready (desk_worker []) desk_server (Inr ready_instance) ready_desk = (True, w2)"
    by (simp add: locally_ready_def ready_here_def desk_simps time_defs)
  have a: "adopt (desk_worker []) False desk_server (Inr ready_instance) w =
      (Publish (instance_report (desk_worker []) desk_server ready_instance), w)" for w
    by (simp add: adopt_def ready_instance_def desk_server_def)
  have "\<exists>w'. sync_verdict (desk_worker []) False desk_server ready_desk =
      (Publish (instance_report (desk_worker []) desk_server ready_instance), w')"
    by (simp add: sync_verdict_def g l a split: prod.split)
  then obtain r w' where r: "sync_verdict (desk_worker []) False desk_server ready_desk = (Publish r, w')"
    "r = instance_report (desk_worker []) desk_server ready_instance" by blast
  then have "rp_address r = ''192.0.2.1:26000''"
    by (simp add: instance_report_def desk_simps connect_def time_defs)
  then show ?thesis using worker_reports_truthfully [OF r(1)] r(1) by (auto simp: desk_server_def)
qed

theorem fleet_poweroff_leaves_nothing_pending_witness:
  "\<exists>down'. fst (fleet_poweroff (desk_worker []) (\<lambda>w. (None, w)) False empty_desk) = ((True, None), down') \<and> down'"
proof -
  have r: "fleet_poweroff (desk_worker []) (\<lambda>w. (None, w)) False empty_desk = (((True, None), True), empty_desk)"
    by (simp add: fleet_poweroff_def worker_pending_def begin_idle_shutdown_def db_list_def desk_simps
        instances_idle_def zero_state_def bucket_ok_def)
  show ?thesis using fleet_poweroff_leaves_nothing_pending [OF r, THEN conjunct1] unfolding r by (intro exI [of _ True]) simp
qed

end
