(* ===== verification/LobbyStore.thy ===== *)
theory LobbyStore
  imports FleetTable "HOL-Library.AList"
begin

text \<open>
  The storage of the single-host lobby (internal/lobby/store.go): one DynamoDB item per game, with
  the public snapshot and the fields that coordinate one request at a time. The client of the service
  and the JSON encoding of a snapshot are parameters; expressions are written as data and evaluated by
  \<open>lholds\<close> and \<open>updated\<close> the way the service documents them: comparing with a missing attribute is
  false, differing from one is true. The lemmas show what the conditions protect.
\<close>

section \<open>Rows\<close>

definition request_lifetime :: int where "request_lifetime = 10 * minute"

fun check_ids :: "string list \<Rightarrow> string set \<Rightarrow> bool" where
  "check_ids [] seen = True"
| "check_ids (i # is) seen = (valid_id i \<and> i \<notin> seen \<and> check_ids is (insert i seen))"

definition parse_ids :: "string \<Rightarrow> err + string list" where
  "parse_ids s =
     (let is = split_on (CHR 0x2C) s in
      if 16 < length is then Inl (ErrMsg ''lobby supports at most 16 saved instances'')
      else if \<not> check_ids is {}
      then Inl (ErrMsg ''lobby requires unique saved instance IDs, separated by commas'')
      else Inr is)"

record snapshot =
  sn_id :: string
  sn_name :: string
  sn_game :: string
  sn_phase :: string
  sn_desired :: string
  sn_address :: string
  sn_players :: "int option"
  sn_error :: string
  sn_observed_at :: time

definition zero_snapshot :: snapshot where
  "zero_snapshot = \<lparr>sn_id = [], sn_name = [], sn_game = [], sn_phase = [], sn_desired = [], sn_address = [],
     sn_players = None, sn_error = [], sn_observed_at = zero_time\<rparr>"

record lobby_row =
  lr_snapshot :: snapshot
  lr_request_id :: string
  lr_accepted_id :: string
  lr_completed_id :: string
  lr_failure :: string
  lr_template_id :: string
  lr_action :: string
  lr_expires_at :: int
  lr_requested_at :: int

definition row_pending :: "lobby_row \<Rightarrow> time \<Rightarrow> bool" where
  "row_pending r t \<longleftrightarrow> lr_request_id r \<noteq> [] \<and> lr_request_id r \<noteq> lr_completed_id r \<and> unix t < lr_expires_at r"

section \<open>Expressions\<close>

datatype 't lcond =
    LExists string
  | LMissing string
  | LAtMost string int
  | LSame string string
  | LIs string "'t attr"
  | LDiffers string "'t attr"
  | LAnd "'t lcond" "'t lcond"
  | LOr "'t lcond" "'t lcond"

fun attr_number :: "'t attr option \<Rightarrow> int option" where
  "attr_number (Some (AttrN s)) = atoi s"
| "attr_number _ = None"

fun lholds :: "'t lcond \<Rightarrow> 't item \<Rightarrow> bool" where
  "lholds (LExists a) it = (map_of it a \<noteq> None)"
| "lholds (LMissing a) it = (map_of it a = None)"
| "lholds (LAtMost a n) it = (case attr_number (map_of it a) of None \<Rightarrow> False | Some m \<Rightarrow> m \<le> n)"
| "lholds (LSame a b) it = (map_of it a \<noteq> None \<and> map_of it a = map_of it b)"
| "lholds (LIs a v) it = (map_of it a = Some v)"
| "lholds (LDiffers a v) it = (map_of it a \<noteq> Some v)"
| "lholds (LAnd c d) it = (lholds c it \<and> lholds d it)"
| "lholds (LOr c d) it = (lholds c it \<or> lholds d it)"

record 't update =
  ud_key :: string
  ud_set :: "(string \<times> 't attr) list"
  ud_remove :: "string list"
  ud_cond :: "'t lcond option"

definition allowed :: "'t update \<Rightarrow> 't item \<Rightarrow> bool" where
  "allowed u it \<longleftrightarrow> (case ud_cond u of None \<Rightarrow> True | Some c \<Rightarrow> lholds c it)"

text \<open>An update of a missing item makes one with its key.\<close>

definition updated :: "'t update \<Rightarrow> 't item \<Rightarrow> 't item" where
  "updated u it =
     (let it = (if map_of it ''id'' = None then AList.update ''id'' (AttrS (ud_key u)) it else it)
      in fold AList.delete (ud_remove u) (fold (\<lambda>(a, v). AList.update a v) (ud_set u) it))"

section \<open>The client\<close>

text \<open>\<open>lc_scan\<close> is what the paginator's pages give until the last one or an error.\<close>

record ('w, 't) lobby_client =
  lc_get :: "string \<Rightarrow> ('w, 't item) io"
  lc_update :: "'t update \<Rightarrow> 'w \<Rightarrow> (dyn_err + unit) \<times> 'w"
  lc_put :: "'t put \<Rightarrow> 'w \<Rightarrow> (dyn_err + unit) \<times> 'w"
  lc_scan :: "'w \<Rightarrow> (err + 't item list) list \<times> 'w"
  lc_token :: "'w \<Rightarrow> string \<times> 'w"
  lc_encode :: "snapshot \<Rightarrow> err + 't"
  lc_decode :: "'t \<Rightarrow> err + snapshot"

fun text_attr :: "'t item \<Rightarrow> string \<Rightarrow> string" where
  "text_attr it a = (case map_of it a of Some (AttrS s) \<Rightarrow> s | _ \<Rightarrow> [])"

fun number_attr :: "'t item \<Rightarrow> string \<Rightarrow> int" where
  "number_attr it a = (case map_of it a of Some (AttrN s) \<Rightarrow> atoi_value s | _ \<Rightarrow> 0)"

text \<open>The text of a snapshot that is not there is empty and leaves the zero snapshot.\<close>

definition decode_snapshot :: "('t \<Rightarrow> err + snapshot) \<Rightarrow> 't attr option \<Rightarrow> err + snapshot" where
  "decode_snapshot dec a =
     (case a of
        Some (AttrDoc d) \<Rightarrow> (case dec d of Inl e \<Rightarrow> Inl (ErrWrap ''decode lobby snapshot: '' e) | Inr s \<Rightarrow> Inr s)
      | Some (AttrS s) \<Rightarrow>
          if s = [] then Inr zero_snapshot else Inl (ErrWrap ''decode lobby snapshot: '' (ErrMsg ''invalid JSON''))
      | _ \<Rightarrow> Inr zero_snapshot)"

definition decode_row :: "('t \<Rightarrow> err + snapshot) \<Rightarrow> 't item \<Rightarrow> err + lobby_row" where
  "decode_row dec it =
     (case decode_snapshot dec (map_of it ''snapshot'') of
        Inl e \<Rightarrow> Inl e
      | Inr s \<Rightarrow> Inr \<lparr>lr_snapshot = s, lr_request_id = text_attr it ''requestID'', lr_accepted_id = text_attr it ''acceptedID'',
          lr_completed_id = text_attr it ''completedID'', lr_failure = text_attr it ''failure'',
          lr_template_id = text_attr it ''templateID'', lr_action = text_attr it ''action'',
          lr_expires_at = number_attr it ''expiresAt'', lr_requested_at = number_attr it ''requestedAt''\<rparr>)"

section \<open>Operations\<close>

definition read_row :: "('w, 't) lobby_client \<Rightarrow> string \<Rightarrow> ('w, lobby_row) io" where
  "read_row c i w =
     (case lc_get c i w of (Inl e, w) \<Rightarrow> (Inl e, w) | (Inr it, w) \<Rightarrow> (decode_row (lc_decode c) it, w))"

definition queue_update :: "string \<Rightarrow> string \<Rightarrow> string \<Rightarrow> time \<Rightarrow> 't update" where
  "queue_update i act token t =
     \<lparr>ud_key = i,
      ud_set = [(''action'', AttrS act), (''requestID'', AttrS token),
                (''expiresAt'', AttrN (show_int (unix (t + request_lifetime)))), (''requestedAt'', AttrN (show_int (unix t)))],
      ud_remove = [''failure''],
      ud_cond = Some (LAnd (LExists ''snapshot'')
        (LAnd (LOr (LMissing ''expiresAt'') (LOr (LAtMost ''expiresAt'' (unix t)) (LSame ''requestID'' ''completedID'')))
              (LOr (LMissing ''requestedAt'') (LOr (LAtMost ''requestedAt'' (unix (t - 30 * second)))
                (LDiffers ''action'' (AttrS act))))))\<rparr>"

fun busy_or :: "dyn_err + unit \<Rightarrow> err + unit" where
  "busy_or (Inr u) = Inr ()"
| "busy_or (Inl e) = (if e = ConditionFailed then Inl ErrBusy else Inl (dyn_error e))"

definition queue :: "('w, 't) lobby_client \<Rightarrow> string \<Rightarrow> string \<Rightarrow> time \<Rightarrow> ('w, unit) io" where
  "queue c i act t w =
     (let (token, w) = lc_token c w; (r, w) = lc_update c (queue_update i act token t) w in (busy_or r, w))"

definition start_request :: "('w, 't) lobby_client \<Rightarrow> string \<Rightarrow> time \<Rightarrow> ('w, unit) io" where
  "start_request c i t = queue c i ''start'' t"

definition publish_update :: "string \<Rightarrow> 't \<Rightarrow> 't update" where
  "publish_update i d = \<lparr>ud_key = i, ud_set = [(''snapshot'', AttrDoc d)], ud_remove = [], ud_cond = None\<rparr>"

definition publish_snapshot :: "('w, 't) lobby_client \<Rightarrow> snapshot \<Rightarrow> ('w, unit) io" where
  "publish_snapshot c s w =
     (case lc_encode c s of
        Inl e \<Rightarrow> (Inl e, w)
      | Inr d \<Rightarrow>
          (case lc_update c (publish_update (sn_id s) d) w of
             (Inl e, w) \<Rightarrow> (Inl (dyn_error e), w)
           | (Inr u, w) \<Rightarrow> (Inr (), w)))"

definition mark_update :: "string \<Rightarrow> string \<Rightarrow> string \<Rightarrow> string \<Rightarrow> 't update" where
  "mark_update i request stage failure =
     \<lparr>ud_key = i,
      ud_set = (stage, AttrS request) # (if stage = ''completedID'' then [(''failure'', AttrS failure)] else []),
      ud_remove = [], ud_cond = Some (LIs ''requestID'' (AttrS request))\<rparr>"

definition mark :: "('w, 't) lobby_client \<Rightarrow> string \<Rightarrow> string \<Rightarrow> string \<Rightarrow> string \<Rightarrow> ('w, unit) io" where
  "mark c i request stage failure w =
     (if stage \<noteq> ''acceptedID'' \<and> stage \<noteq> ''completedID'' then (Inl (ErrMsg ''invalid request stage''), w)
      else (case lc_update c (mark_update i request stage failure) w of
              (Inr u, w) \<Rightarrow> (Inr (), w)
            | (Inl e, w) \<Rightarrow> (if e = ConditionFailed then (Inr (), w) else (Inl (dyn_error e), w))))"

fun decode_rows :: "('t \<Rightarrow> err + snapshot) \<Rightarrow> 't item list \<Rightarrow> err + lobby_row list" where
  "decode_rows dec [] = Inr []"
| "decode_rows dec (it # its) =
     (case decode_row dec it of
        Inl e \<Rightarrow> Inl e
      | Inr r \<Rightarrow> (case decode_rows dec its of Inl e \<Rightarrow> Inl e | Inr rs \<Rightarrow> Inr (r # rs)))"

fun all_rows :: "('t \<Rightarrow> err + snapshot) \<Rightarrow> (err + 't item list) list \<Rightarrow> err + lobby_row list" where
  "all_rows dec [] = Inr []"
| "all_rows dec (p # ps) =
     (case p of
        Inl e \<Rightarrow> Inl e
      | Inr its \<Rightarrow>
          (case decode_rows dec its of
             Inl e \<Rightarrow> Inl e
           | Inr rs \<Rightarrow> (case all_rows dec ps of Inl e \<Rightarrow> Inl e | Inr ss \<Rightarrow> Inr (rs @ ss))))"

text \<open>\<open>sort.Slice\<close> leaves the order of rows with one ID open (only rows without a snapshot share the
  empty one); here they keep theirs.\<close>

definition list_rows :: "('w, 't) lobby_client \<Rightarrow> ('w, lobby_row list) io" where
  "list_rows c w =
     (let (pages, w) = lc_scan c w
      in (case all_rows (lc_decode c) pages of
            Inl e \<Rightarrow> Inl e
          | Inr rs \<Rightarrow> Inr (sort_key (\<lambda>r. sn_id (lr_snapshot r)) rs), w))"

definition create_put :: "string \<Rightarrow> snapshot \<Rightarrow> 't \<Rightarrow> time \<Rightarrow> 't put" where
  "create_put template s d t =
     \<lparr>pt_key = sn_id s,
      pt_item = [(''id'', AttrS (sn_id s)), (''templateID'', AttrS template), (''snapshot'', AttrDoc d),
        (''action'', AttrS ''start''), (''requestID'', AttrS (sn_id s)), (''requestedAt'', AttrN (show_int (unix t))),
        (''expiresAt'', AttrN (show_int (unix (t + request_lifetime))))],
      pt_cond = NotExists ''id''\<rparr>"

definition create_row :: "('w, 't) lobby_client \<Rightarrow> string \<Rightarrow> snapshot \<Rightarrow> time \<Rightarrow> ('w, unit) io" where
  "create_row c template s t w =
     (case lc_encode c s of
        Inl e \<Rightarrow> (Inl e, w)
      | Inr d \<Rightarrow> (let (r, w) = lc_put c (create_put template s d t) w in (busy_or r, w)))"

definition managed_ids :: "lobby_row list \<Rightarrow> string list \<Rightarrow> string list" where
  "managed_ids rows templates =
     templates @ map (\<lambda>r. sn_id (lr_snapshot r)) (filter (\<lambda>r. lr_template_id r \<in> set templates) rows)"

section \<open>The interface the others use\<close>

record 'w storage =
  sg_read :: "string \<Rightarrow> ('w, lobby_row) io"
  sg_list :: "('w, lobby_row list) io"
  sg_create :: "string \<Rightarrow> snapshot \<Rightarrow> time \<Rightarrow> ('w, unit) io"
  sg_queue :: "string \<Rightarrow> string \<Rightarrow> time \<Rightarrow> ('w, unit) io"
  sg_request :: "string \<Rightarrow> time \<Rightarrow> ('w, unit) io"
  sg_publish :: "snapshot \<Rightarrow> ('w, unit) io"
  sg_mark :: "string \<Rightarrow> string \<Rightarrow> string \<Rightarrow> string \<Rightarrow> ('w, unit) io"

definition table_storage :: "('w, 't) lobby_client \<Rightarrow> 'w storage" where
  "table_storage c =
     \<lparr>sg_read = read_row c, sg_list = list_rows c, sg_create = create_row c, sg_queue = queue c,
      sg_request = start_request c, sg_publish = publish_snapshot c, sg_mark = mark c\<rparr>"

section \<open>What the conditions protect\<close>

lemma map_of_sets: "map_of (fold (\<lambda>(a, v). AList.update a v) kvs it) = (map_of it)(map fst kvs [\<mapsto>] map snd kvs)"
  by (induction kvs arbitrary: it) (auto simp: update_conv')

lemma map_of_removes: "map_of (fold AList.delete ks it) a = (if a \<in> set ks then None else map_of it a)"
  by (induction ks arbitrary: it) (auto simp: delete_conv')

lemma map_of_updated:
  "map_of (updated u it) a =
     (if a \<in> set (ud_remove u) then None
      else (((map_of it)(''id'' := (case map_of it ''id'' of None \<Rightarrow> Some (AttrS (ud_key u)) | x \<Rightarrow> x)))
             (map fst (ud_set u) [\<mapsto>] map snd (ud_set u))) a)"
  by (auto simp: updated_def Let_def map_of_removes map_of_sets update_conv' fun_upd_idem split: option.split)

text \<open>The operations of any clients on the item of one key; the service applies each of them at once.\<close>

datatype 't lobby_op =
    OpQueue string string time
  | OpPublish 't
  | OpMark string string string
  | OpCreate string snapshot 't time

fun run_op :: "string \<Rightarrow> 't lobby_op \<Rightarrow> 't item \<Rightarrow> 't item" where
  "run_op i (OpQueue act token t) it =
     (if allowed (queue_update i act token t) it then updated (queue_update i act token t) it else it)"
| "run_op i (OpPublish d) it = updated (publish_update i d) it"
| "run_op i (OpMark request stage failure) it =
     (if (stage = ''acceptedID'' \<or> stage = ''completedID'') \<and> allowed (mark_update i request stage failure) it
      then updated (mark_update i request stage failure) it else it)"
| "run_op i (OpCreate template s d t) it =
     (if holds (pt_cond (create_put template s d t)) it then pt_item (create_put template s d t) else it)"

definition carries :: "string \<Rightarrow> string \<Rightarrow> int \<Rightarrow> int \<Rightarrow> 't item \<Rightarrow> bool" where
  "carries request act expires asked it \<longleftrightarrow>
     map_of it ''id'' \<noteq> None \<and> text_attr it ''requestID'' = request \<and> text_attr it ''completedID'' \<noteq> request \<and>
     text_attr it ''action'' = act \<and> number_attr it ''expiresAt'' = expires \<and> number_attr it ''requestedAt'' = asked"

definition spares :: "string \<Rightarrow> int \<Rightarrow> 't lobby_op \<Rightarrow> bool" where
  "spares request expires op =
     (case op of OpQueue act token t \<Rightarrow> unix t < expires
      | OpMark r stage failure \<Rightarrow> \<not> (r = request \<and> stage = ''completedID'')
      | _ \<Rightarrow> True)"

lemma text_attrD: "text_attr it a = s \<Longrightarrow> s \<noteq> [] \<Longrightarrow> map_of it a = Some (AttrS s)"
  by (auto split: option.splits attr.splits)

lemma queue_refused:
  assumes "carries request act expires asked it" "request \<noteq> []" "0 < expires" "unix t < expires"
  shows "\<not> allowed (queue_update i a token t) it"
proof -
  have it: "text_attr it ''requestID'' = request" "text_attr it ''completedID'' \<noteq> request" "number_attr it ''expiresAt'' = expires"
    using assms(1) unfolding carries_def by blast+
  have "map_of it ''requestID'' = Some (AttrS request)" by (rule text_attrD [OF it(1) assms(2)])
  moreover have "map_of it ''completedID'' \<noteq> Some (AttrS request)" using it(2) by auto
  ultimately have same: "\<not> lholds (LSame ''requestID'' ''completedID'') it" by simp
  obtain n where n: "map_of it ''expiresAt'' = Some (AttrN n)" "atoi_value n = expires"
    using it(3) assms(3) by (auto split: option.splits attr.splits)
  have "m = atoi_value n" if "atoi n = Some m" for m
    using that by (simp add: atoi_value_def)
  then have "\<not> lholds (LAtMost ''expiresAt'' (unix t)) it"
    using n assms(4) by (simp split: option.split) fastforce
  then show ?thesis using same n(1) by (auto simp: allowed_def queue_update_def)
qed

lemma run_op_carries:
  assumes "carries request act expires asked it" "request \<noteq> []" "0 < expires" "spares request expires op"
  shows "carries request act expires asked (run_op i op it)"
proof (cases op)
  case (OpQueue a token t)
  then show ?thesis using assms queue_refused [OF assms(1-3)] by (simp add: spares_def)
next
  case (OpPublish d)
  then show ?thesis using assms(1) by (auto simp: carries_def map_of_updated publish_update_def)
next
  case (OpCreate template s d t)
  then show ?thesis using assms(1) by (auto simp: carries_def create_put_def)
next
  case (OpMark r stage failure)
  show ?thesis
  proof (cases "(stage = ''acceptedID'' \<or> stage = ''completedID'') \<and> allowed (mark_update i r stage failure) it")
    case True
    then have "map_of it ''requestID'' = Some (AttrS r)" by (simp add: allowed_def mark_update_def)
    then have "r = request" using assms(1) by (simp add: carries_def)
    then have "stage = ''acceptedID''" using True assms(4) OpMark by (simp add: spares_def)
    then show ?thesis using True assms(1) OpMark by (auto simp: carries_def map_of_updated mark_update_def)
  qed (use assms(1) OpMark in auto)
qed

lemma run_ops_carry:
  "carries request act expires asked it \<Longrightarrow> request \<noteq> [] \<Longrightarrow> 0 < expires \<Longrightarrow> \<forall>op\<in>set ops. spares request expires op \<Longrightarrow>
     carries request act expires asked (fold (run_op i) ops it)"
  by (induction ops arbitrary: it) (simp_all add: run_op_carries)

lemma decode_row_fields:
  assumes "decode_row dec it = Inr r"
  shows "lr_request_id r = text_attr it ''requestID''" "lr_completed_id r = text_attr it ''completedID''"
    "lr_action r = text_attr it ''action''" "lr_expires_at r = number_attr it ''expiresAt''"
    "lr_requested_at r = number_attr it ''requestedAt''" "lr_accepted_id r = text_attr it ''acceptedID''"
  using assms by (auto simp: decode_row_def split: sum.splits)

end
