(* ===== verification/LobbyWorker.thy ===== *)
theory LobbyWorker
  imports LobbyStore Controller
begin

text \<open>
  The host's side of the single-host lobby (internal/lobby/worker.go) and the machine it wakes
  (internal/lobby/host.go): what the host publishes about a game, and when it takes over, completes or
  refuses a request. \<open>down\<close> is the controller's field \<open>shuttingDown\<close>. The EC2 client is
  a parameter.
\<close>

section \<open>What a game looks like from outside\<close>

definition public_error :: "string \<Rightarrow> string" where
  "public_error s = (if s \<noteq> [] then ''Game is unavailable; ask the host administrator'' else [])"

definition lobby_snapshot :: "string \<Rightarrow> inst \<Rightarrow> time \<Rightarrow> snapshot" where
  "lobby_snapshot k i started =
     (let s = \<lparr>sn_id = k, sn_name = in_name i, sn_game = gm_display_name (in_game i), sn_phase = in_phase i,
               sn_desired = in_desired i, sn_address = connect i, sn_players = in_players i,
               sn_error = public_error (in_error i), sn_observed_at = in_updated_at i\<rparr>
      in if in_phase i \<noteq> ''deleted'' \<and> in_updated_at i < started
         then s\<lparr>sn_phase := ''starting'', sn_address := [], sn_players := None\<rparr> else s)"

definition gone_snapshot :: "string \<Rightarrow> lobby_row \<Rightarrow> time \<Rightarrow> snapshot" where
  "gone_snapshot k row now' =
     (if lr_template_id row \<noteq> []
      then (let s = (lr_snapshot row)\<lparr>sn_phase := ''stopped'', sn_desired := ''stopped'', sn_address := [],
                      sn_players := None, sn_observed_at := now'\<rparr>
            in if lr_action row = ''remove'' then s\<lparr>sn_desired := ''deleted'', sn_phase := ''deleted''\<rparr> else s)
      else zero_snapshot\<lparr>sn_id := k, sn_name := k, sn_phase := ''unavailable'',
             sn_error := ''Saved game no longer exists'', sn_observed_at := now'\<rparr>)"

section \<open>Requests\<close>

definition desired_of :: "string \<Rightarrow> string" where
  "desired_of act =
     (if act = [] \<or> act = ''start'' then ''running'' else if act = ''stop'' then ''stopped''
      else if act = ''remove'' then ''deleted'' else [])"

text \<open>The decision of the switch: nothing, a completion with its failure, or the intent to hand over.\<close>

datatype settlement = Leave | Complete string | Accept string

definition failure_reason :: "inst \<Rightarrow> string" where
  "failure_reason i =
     (let r = public_error (in_error i); r = (if r = [] then in_stop_reason i else r)
      in if r = [] then ''Game stopped before becoming ready'' else r)"

definition settle :: "lobby_row \<Rightarrow> inst \<Rightarrow> time \<Rightarrow> time \<Rightarrow> settlement" where
  "settle row i now' started =
     (let starts = (lr_action row = ''start'' \<or> lr_action row = []) in
      if lr_request_id row = [] \<or> lr_request_id row = lr_completed_id row then Leave
      else if \<not> row_pending row now' then Complete ''Request expired; try again''
      else if lr_accepted_id row \<noteq> lr_request_id row then Accept (desired_of (lr_action row))
      else if lr_action row = ''stop'' \<and> in_phase i = ''stopped'' \<or> lr_action row = ''remove'' \<and> in_phase i = ''deleted''
      then Complete []
      else if starts \<and> in_phase i = ''running'' \<and> in_desired i = ''running'' \<and> in_players i \<noteq> None \<and> \<not> in_updated_at i < started
      then Complete []
      else if in_phase i = ''failed'' \<and> \<not> in_updated_at i < started \<or> starts \<and> in_desired i \<noteq> ''running''
      then Complete (failure_reason i)
      else Leave)"

section \<open>One game\<close>

record ('w, 't) lobby_worker =
  lw_table :: "'w storage"
  lw_ids :: "string list"
  lw_controller :: "('w, 't) controller"
  lw_started_at :: time

definition preset_request :: "string \<Rightarrow> lobby_row \<Rightarrow> inst \<Rightarrow> create_request" where
  "preset_request k row tpl =
     \<lparr>cq_provider = in_provider tpl, cq_id = k, cq_game = gm_id (in_game tpl), cq_name = sn_name (lr_snapshot row),
      cq_config = Some (in_config tpl), cq_idle_minutes = in_idle_minutes tpl, cq_max_minutes = in_max_minutes tpl\<rparr>"

text \<open>The instance, made from its preset when a pending start needs it; \<open>Inl\<close> ends the handler.\<close>

definition lobby_instance ::
  "('w, 't) lobby_worker \<Rightarrow> bool \<Rightarrow> string \<Rightarrow> lobby_row \<Rightarrow> time \<Rightarrow> 'w \<Rightarrow> ((err + unit) + (err + inst)) \<times> 'w" where
  "lobby_instance k down i row now' w =
     (let db = ct_db (lw_controller k);
          unavailable = sg_mark (lw_table k) i (lr_request_id row) ''completedID'' ''Game preset is no longer available''
      in case db_get db i w of
           (Inr x, w) \<Rightarrow> (Inr (Inr x), w)
         | (Inl e, w) \<Rightarrow>
             if err_is e ErrNotFound \<and> lr_template_id row \<noteq> [] \<and> row_pending row now' \<and> lr_action row = ''start''
             then (case db_get db (lr_template_id row) w of
                     (Inl f, w) \<Rightarrow>
                       if \<not> err_is f ErrNotFound then (Inl (Inl f), w)
                       else (let (r, w) = unavailable w in (Inl r, w))
                   | (Inr tpl, w) \<Rightarrow>
                       if in_desired tpl = ''deleted'' then (let (r, w) = unavailable w in (Inl r, w))
                       else (let (made, w) = create_requested (lw_controller k) down (preset_request i row tpl) (lr_request_id row) w
                             in (Inr made, w)))
             else (Inr (Inl e), w))"

definition lobby_gone :: "('w, 't) lobby_worker \<Rightarrow> string \<Rightarrow> lobby_row \<Rightarrow> time \<Rightarrow> ('w, unit) io" where
  "lobby_gone k i row now' w =
     (let (r, w) = (if row_pending row now'
                    then sg_mark (lw_table k) i (lr_request_id row) ''completedID''
                           (if lr_action row = ''remove'' then [] else ''Saved game no longer exists'') w
                    else (Inr (), w))
      in case r of Inl e \<Rightarrow> (Inl e, w) | Inr u \<Rightarrow> sg_publish (lw_table k) (gone_snapshot i row now') w)"

text \<open>Carrying out the decision: \<open>Inr False\<close> ends the handler without an error.\<close>

definition carry_settlement ::
  "('w, 't) lobby_worker \<Rightarrow> bool \<Rightarrow> string \<Rightarrow> lobby_row \<Rightarrow> settlement \<Rightarrow> 'w \<Rightarrow> (err + bool) \<times> 'w" where
  "carry_settlement k down i row d w =
     (let mark = (\<lambda>stage failure w. case sg_mark (lw_table k) i (lr_request_id row) stage failure w of
                    (Inl e, w) \<Rightarrow> (Inl e, w) | (Inr u, w) \<Rightarrow> (Inr True, w))
      in case d of
           Leave \<Rightarrow> (Inr True, w)
         | Complete failure \<Rightarrow> mark ''completedID'' failure w
         | Accept desired \<Rightarrow>
             (case request_desired (lw_controller k) down i (lr_request_id row) desired w of
                (Inl e, w) \<Rightarrow> if err_is e ErrShuttingDown then (Inr False, w) else (Inl e, w)
              | (Inr u, w) \<Rightarrow> mark ''acceptedID'' [] w))"

definition publish_current :: "('w, 't) lobby_worker \<Rightarrow> string \<Rightarrow> ('w, unit) io" where
  "publish_current k i w =
     (case db_get (ct_db (lw_controller k)) i w of
        (Inl e, w) \<Rightarrow> (Inl e, w)
      | (Inr x, w) \<Rightarrow> sg_publish (lw_table k) (lobby_snapshot i x (lw_started_at k)) w)"

definition sync_instance :: "('w, 't) lobby_worker \<Rightarrow> bool \<Rightarrow> string \<Rightarrow> time \<Rightarrow> ('w, unit) io" where
  "sync_instance k down i now' w =
     (case sg_read (lw_table k) i w of
        (Inl e, w) \<Rightarrow> (Inl e, w)
      | (Inr row, w) \<Rightarrow>
          (case lobby_instance k down i row now' w of
             (Inl r, w) \<Rightarrow> (r, w)
           | (Inr (Inl e), w) \<Rightarrow>
               if err_is e ErrNotFound then lobby_gone k i row now' w
               else if err_is e ErrShuttingDown then (Inr (), w) else (Inl e, w)
           | (Inr (Inr x), w) \<Rightarrow>
               (case carry_settlement k down i row (settle row x now' (lw_started_at k)) w of
                  (Inl e, w) \<Rightarrow> (Inl e, w)
                | (Inr goes_on, w) \<Rightarrow> if goes_on then publish_current k i w else (Inr (), w))))"

section \<open>All games\<close>

fun sync_instances :: "('w, 't) lobby_worker \<Rightarrow> bool \<Rightarrow> string list \<Rightarrow> time \<Rightarrow> ('w, unit) io" where
  "sync_instances k down [] now' w = (Inr (), w)"
| "sync_instances k down (i # is) now' w =
     (case sync_instance k down i now' w of
        (Inl e, w) \<Rightarrow> (Inl (ErrWrap (''lobby '' @ i @ '': '') e), w)
      | (Inr u, w) \<Rightarrow> sync_instances k down is now' w)"

definition lobby_sync :: "('w, 't) lobby_worker \<Rightarrow> bool \<Rightarrow> time \<Rightarrow> ('w, unit) io" where
  "lobby_sync k down now' w =
     (case sg_list (lw_table k) w of
        (Inl e, w) \<Rightarrow> (Inl (ErrWrap ''list lobby: '' e), w)
      | (Inr rows, w) \<Rightarrow> sync_instances k down (managed_ids rows (lw_ids k)) now' w)"

fun any_pending :: "('w, 't) lobby_worker \<Rightarrow> string list \<Rightarrow> time \<Rightarrow> ('w, bool) io" where
  "any_pending k [] now' w = (Inr False, w)"
| "any_pending k (i # is) now' w =
     (case sg_read (lw_table k) i w of
        (Inl e, w) \<Rightarrow> (Inl e, w)
      | (Inr row, w) \<Rightarrow> if row_pending row now' then (Inr True, w) else any_pending k is now' w)"

definition lobby_pending :: "('w, 't) lobby_worker \<Rightarrow> time \<Rightarrow> ('w, bool) io" where
  "lobby_pending k now' w =
     (case sg_list (lw_table k) w of
        (Inl e, w) \<Rightarrow> (Inl e, w)
      | (Inr rows, w) \<Rightarrow> any_pending k (managed_ids rows (lw_ids k)) now' w)"

section \<open>The machine\<close>

record machine_view =
  mv_tags :: "(string \<times> string) list"
  mv_state :: "string option"

record 'w lobby_host =
  lh_describe :: "('w, machine_view list list) io"
  lh_start :: "('w, unit) io"
  lh_stack :: string

definition host_state :: "'w lobby_host \<Rightarrow> ('w, string) io" where
  "host_state h w =
     (case lh_describe h w of
        (Inl e, w) \<Rightarrow> (Inl e, w)
      | (Inr [[m]], w) \<Rightarrow>
          (case mv_state m of
             None \<Rightarrow> (Inl (ErrMsg ''refusing unmanaged game host''), w)
           | Some s \<Rightarrow>
               if (''aws:cloudformation:stack-id'', lh_stack h) \<in> set (mv_tags m) then (Inr s, w)
               else (Inl (ErrMsg ''refusing unmanaged game host''), w))
      | (Inr x, w) \<Rightarrow> (Inl (ErrMsg ''expected one owned game host''), w))"

definition host_wake :: "'w lobby_host \<Rightarrow> ('w, unit) io" where
  "host_wake h w =
     (case host_state h w of
        (Inl e, w) \<Rightarrow> (Inl e, w)
      | (Inr s, w) \<Rightarrow>
          if s = ''stopped'' then lh_start h w
          else if s = ''running'' \<or> s = ''pending'' \<or> s = ''stopping'' then (Inr (), w)
          else (Inl (ErrMsg (''cannot wake game host in state '' @ s)), w))"

end
