(* ===== verification/FleetPage.thy ===== *)
theory FleetPage
  imports FleetScheduler
begin

text \<open>
  The fleet's page (internal/fleet/http.go): who may call it, what a create or an action request does,
  and the listing. A handler returns the status and the body it replies with. Routing, headers and JSON
  are the HTTP library's: \<open>body\<close> is the decoded request, \<open>None\<close> when decoding failed or
  something followed. SHA-256 is a parameter. The lemmas show when the listing shows a game as running.
\<close>

section \<open>The key\<close>

fun hex_value :: "char \<Rightarrow> nat option" where
  "hex_value c =
     (let n = of_char c in
      if 48 \<le> n \<and> n \<le> 57 then Some (n - 48)
      else if 97 \<le> n \<and> n \<le> 102 then Some (n - 87)
      else if 65 \<le> n \<and> n \<le> 70 then Some (n - 55) else None)"

text \<open>\<open>hex.DecodeString\<close>, with \<open>None\<close> for its error.\<close>

fun hex_decode :: "string \<Rightarrow> nat list option" where
  "hex_decode [] = Some []"
| "hex_decode [c] = None"
| "hex_decode (c # d # cs) =
     (case (hex_value c, hex_value d, hex_decode cs) of
        (Some a, Some b, Some bs) \<Rightarrow> Some ((16 * a + b) # bs)
      | _ \<Rightarrow> None)"

definition authorized :: "(string \<Rightarrow> nat list) \<Rightarrow> string \<Rightarrow> string \<Rightarrow> bool" where
  "authorized sha256 hash header =
     (case hex_decode hash of
        None \<Rightarrow> False
      | Some expected \<Rightarrow> length expected = 32 \<and> expected = sha256 (trim_prefix header ''Bearer ''))"

definition refused :: "(string \<Rightarrow> nat list) \<Rightarrow> string \<Rightarrow> string \<Rightarrow> string \<Rightarrow> bool" where
  "refused sha256 hash path header \<longleftrightarrow> has_prefix path ''/api/'' \<and> \<not> authorized sha256 hash header"

section \<open>Replies\<close>

text \<open>\<open>Cause\<close> carries the text of an error.\<close>

datatype body = Said string | Refusal string | Cause err | Made string string

type_synonym reply = "int \<times> body"

definition page_fail :: reply where
  "page_fail = (503, Refusal (''Couldn'' @ [CHR 0x27] @ ''t load the fleet. Try again shortly.''))"

section \<open>Create and action\<close>

definition server_id :: "string \<Rightarrow> bool" where
  "server_id s \<longleftrightarrow>
     has_prefix s ''server-'' \<and> length s = 39 \<and> list_all (\<lambda>c. is_digit c \<or> c \<in> set ''abcdef'') (drop 7 s)"

definition chosen_name :: "fleet_game list \<Rightarrow> string \<Rightarrow> string \<Rightarrow> string" where
  "chosen_name games game name =
     (let name = trim_space name in
      if name = [] then fold (\<lambda>g n. if g_id g = game then g_name g else n) games name else name)"

definition create_page :: "'w scheduler \<Rightarrow> (string \<times> string \<times> string) option \<Rightarrow> 'w \<Rightarrow> (reply \<times> 'w) option" where
  "create_page sc body w =
     (case body of
        None \<Rightarrow> Some ((400, Refusal ''Invalid server request''), w)
      | Some (i, game, name) \<Rightarrow>
          if \<not> server_id i then Some ((400, Refusal ''Invalid server request''), w)
          else (let name = chosen_name (fc_games (sc_config sc)) game name in
            if name = [] \<or> 80 < length name \<or> contains_any name [CHR 0x00, CHR 0x0A, CHR 0x0D]
            then Some ((400, Refusal ''Choose a game and server name''), w)
            else (case create sc i game name w of
                    (Inl e, w) \<Rightarrow> Some ((if err_is e ErrCapacity then 429 else 409, Cause e), w)
                  | (Inr v, w) \<Rightarrow>
                      (case reconcile sc w of
                         None \<Rightarrow> None
                       | Some (r, w) \<Rightarrow> Some ((202, Made (v_id v) ''Starting server.''), w)))))"

definition action_page :: "'w scheduler \<Rightarrow> string \<Rightarrow> string \<Rightarrow> string \<Rightarrow> 'w \<Rightarrow> (reply \<times> 'w) option" where
  "action_page sc hid i a w =
     (let act = (\<lambda>w. case action sc i a w of
            (Inl e, w) \<Rightarrow> Some ((409, Cause e), w)
          | (Inr u, w) \<Rightarrow>
              (case reconcile sc w of None \<Rightarrow> None | Some (r, w) \<Rightarrow> Some ((202, Said ''Queued.''), w)))
      in if hid = [] then act w
         else (case sto_load (sc_store sc) w of
                 (Inl e, w) \<Rightarrow> Some (page_fail, w)
               | (Inr s, w) \<Rightarrow>
                   if \<exists>v\<in>set (st_servers s). v_id v = i \<and> v_host v = hid then act w
                   else Some ((404, Refusal ''Server not found''), w)))"

section \<open>The listing\<close>

definition report_of :: "report list \<Rightarrow> string \<Rightarrow> report" where
  "report_of rs i = (case map_of (rev (map (\<lambda>r. (rp_id r, r)) rs)) i of None \<Rightarrow> zero_report | Some r \<Rightarrow> r)"

record host_view =
  hv_id :: string
  hv_state :: string
  hv_error :: string
  hv_capacity :: resources
  hv_reserved :: resources

definition host_view_of :: "fleet_state \<Rightarrow> host \<Rightarrow> err + machine \<Rightarrow> host_view" where
  "host_view_of s h got =
     (let (hs, message) = (case got of Inl e \<Rightarrow> (''unknown'', ''Status unavailable'') | Inr m \<Rightarrow> (m_state m, h_error h))
      in \<lparr>hv_id = h_id h, hv_state = (if h_retiring h then ''stopping'' else hs), hv_error = message,
          hv_capacity = h_capacity h, hv_reserved = used s (h_id h)\<rparr>)"

fun host_views :: "'w scheduler \<Rightarrow> fleet_state \<Rightarrow> host list \<Rightarrow> 'w \<Rightarrow> host_view list \<times> 'w" where
  "host_views sc s [] w = ([], w)"
| "host_views sc s (h # hs) w =
     (let (got, w) = mc_inspect (sc_machines sc) h w; (vs, w) = host_views sc s hs w in (host_view_of s h got # vs, w))"

definition state_of :: "host_view list \<Rightarrow> string \<Rightarrow> string" where
  "state_of hvs i = (case map_of (rev (map (\<lambda>h. (hv_id h, hv_state h)) hvs)) i of None \<Rightarrow> [] | Some x \<Rightarrow> x)"

record game_view =
  gv_id :: string
  gv_name :: string
  gv_game :: string
  gv_host :: string
  gv_phase :: string
  gv_desired :: string
  gv_pending :: bool
  gv_action :: string
  gv_address :: string
  gv_players :: "int option"
  gv_error :: string

text \<open>What the report says of the server, if it is about this request, and what a stopped host says.\<close>

definition reported_view :: "fleet_config \<Rightarrow> server \<Rightarrow> report \<Rightarrow> string \<Rightarrow> game_view" where
  "reported_view c v r hs =
     (let g = \<lparr>gv_id = v_id v, gv_name = v_name v,
               gv_game = (case map_of (rev (map (\<lambda>g. (g_id g, g_name g)) (fc_games c))) (v_game v) of None \<Rightarrow> [] | Some n \<Rightarrow> n),
               gv_host = v_host v, gv_phase = ''queued'', gv_desired = v_desired v, gv_pending = True,
               gv_action = (if v_desired v = ''running'' then ''start'' else if v_desired v = ''stopped'' then ''stop''
                            else if v_desired v = ''deleted'' then ''remove'' else []),
               gv_address = [], gv_players = None, gv_error = []\<rparr>;
          g = (if rp_host r = v_host v \<and> rp_request_id r = v_request_id v
               then g\<lparr>gv_phase := rp_phase r, gv_address := rp_address r, gv_players := rp_players r, gv_error := rp_error r,
                      gv_pending := \<not> request_complete v r \<and> rp_phase r \<noteq> ''failed''\<rparr>
               else g)
      in if hs = ''stopped'' \<and> v_desired v = ''stopped''
         then g\<lparr>gv_phase := ''stopped'', gv_pending := False, gv_address := [], gv_players := None\<rparr> else g)"

definition overdue_message :: string where
  "overdue_message = ''Startup is taking too long. Stop the server and check the host logs.''"

definition hide_game :: "game_view \<Rightarrow> game_view" where
  "hide_game g = g\<lparr>gv_address := [], gv_players := None,
     gv_phase := (if gv_phase g = ''running'' then ''unknown'' else gv_phase g)\<rparr>"

definition finished_view :: "server \<Rightarrow> report \<Rightarrow> bool \<Rightarrow> bool \<Rightarrow> game_view \<Rightarrow> game_view" where
  "finished_view v r overdue stale g =
     (let g = (if overdue then g\<lparr>gv_error := overdue_message\<rparr> else g);
          g = (if stale \<or> rp_desired r \<noteq> ''running'' \<or> gv_error g \<noteq> [] then hide_game g else g)
      in if v_error v \<noteq> []
         then g\<lparr>gv_error := v_error v, gv_phase := ''failed'', gv_pending := False, gv_address := [], gv_players := None\<rparr>
         else g)"

text \<open>The clock is read where the conditions before it leave the question open.\<close>

definition game_view_of :: "'w scheduler \<Rightarrow> server \<Rightarrow> report \<Rightarrow> string \<Rightarrow> 'w \<Rightarrow> game_view \<times> 'w" where
  "game_view_of sc v r hs w =
     (let g = reported_view (sc_config sc) v r hs;
          (overdue, w) = (if gv_pending g then (let (t, w) = now sc w in (1200 < unix t - v_requested_at v, w)) else (False, w));
          (stale, w) = (if hs \<noteq> ''running'' then (True, w)
                        else (let (t, w) = now sc w in (rp_observed_at r < t - 45 * second, w)))
      in (finished_view v r overdue stale g, w))"

fun game_views :: "'w scheduler \<Rightarrow> report list \<Rightarrow> host_view list \<Rightarrow> server list \<Rightarrow> 'w \<Rightarrow> game_view list \<times> 'w" where
  "game_views sc rs hvs [] w = ([], w)"
| "game_views sc rs hvs (v # vs) w =
     (let (g, w) = game_view_of sc v (report_of rs (v_id v)) (state_of hvs (v_host v)) w;
          (gs, w) = game_views sc rs hvs vs w
      in (g # gs, w))"

record page_list =
  pl_hosts :: "host_view list"
  pl_games :: "game_view list"
  pl_choices :: "(string \<times> string) list"
  pl_max_hosts :: int
  pl_expires_at :: int

definition list_page :: "'w scheduler \<Rightarrow> 'w \<Rightarrow> (reply + page_list) \<times> 'w" where
  "list_page sc w =
     (case sto_load (sc_store sc) w of
        (Inl e, w) \<Rightarrow> (Inl page_fail, w)
      | (Inr s, w) \<Rightarrow>
          (case sto_reports (sc_store sc) w of
             (Inl e, w) \<Rightarrow> (Inl page_fail, w)
           | (Inr rs, w) \<Rightarrow>
               (let (hvs, w) = host_views sc s (st_hosts s) w; (gs, w) = game_views sc rs hvs (st_servers s) w
                in (Inr \<lparr>pl_hosts = hvs, pl_games = gs,
                         pl_choices = map (\<lambda>g. (g_id g, g_name g)) (fc_games (sc_config sc)),
                         pl_max_hosts = fc_max_hosts (sc_config sc), pl_expires_at = fc_deadline (sc_config sc)\<rparr>, w))))"

section \<open>When a game is shown as running\<close>

definition shown :: "game_view \<Rightarrow> bool" where
  "shown g \<longleftrightarrow> gv_address g \<noteq> [] \<or> gv_phase g = ''running''"

lemma hide_game_hides [simp]: "\<not> shown (hide_game g)"
  by (simp add: shown_def hide_game_def)

lemma reported_view_fields [simp]:
  "gv_id (reported_view c v r hs) = v_id v" "gv_host (reported_view c v r hs) = v_host v"
  by (simp_all add: reported_view_def Let_def)

lemma reported_view_shown:
  assumes "shown (reported_view c v r hs)"
  shows "rp_host r = v_host v \<and> rp_request_id r = v_request_id v \<and> gv_address (reported_view c v r hs) = rp_address r \<and>
    gv_phase (reported_view c v r hs) = rp_phase r \<and> gv_error (reported_view c v r hs) = rp_error r"
  using assms by (auto simp: shown_def reported_view_def Let_def split: if_splits)

lemma report_of_in: "report_of rs i \<noteq> zero_report \<Longrightarrow> report_of rs i \<in> set rs \<and> rp_id (report_of rs i) = i"
  by (auto simp: report_of_def split: option.splits dest!: map_of_SomeD)

lemma finished_view_shown:
  assumes "shown (finished_view v r overdue stale g)"
  shows "v_error v = [] \<and> \<not> stale \<and> rp_desired r = ''running'' \<and> gv_error g = [] \<and> finished_view v r overdue stale g = g"
  using assms hide_game_hides unfolding finished_view_def Let_def
  by (cases "v_error v = []"; cases overdue; cases "stale \<or> rp_desired r \<noteq> ''running''") (auto simp: shown_def overdue_message_def split: if_splits)

lemma game_view_shown:
  assumes "game_view_of sc v r hs w = (g, w')" "shown g"
  shows "gv_id g = v_id v \<and> v_error v = [] \<and> hs = ''running'' \<and> rp_host r = v_host v \<and> rp_request_id r = v_request_id v \<and>
    rp_desired r = ''running'' \<and> rp_error r = [] \<and> gv_address g = rp_address r \<and> gv_phase g = rp_phase r \<and>
    (\<exists>t w1 w2. now sc w1 = (t, w2) \<and> \<not> rp_observed_at r < t - 45 * second)"
proof -
  define g0 where "g0 = reported_view (sc_config sc) v r hs"
  obtain overdue w1 where o: "(if gv_pending g0 then (let (t, w) = now sc w in (1200 < unix t - v_requested_at v, w)) else (False, w)) =
      (overdue, w1)" by fastforce
  obtain stale w2 where s: "(if hs \<noteq> ''running'' then (True, w1)
      else (let (t, w) = now sc w1 in (rp_observed_at r < t - 45 * second, w))) = (stale, w2)" by fastforce
  have g: "g = finished_view v r overdue stale g0"
    using assms(1) by (simp add: game_view_of_def Let_def g0_def [symmetric] o s)
  note fin = finished_view_shown [OF assms(2) [unfolded g], folded g]
  have clock: "hs = ''running'' \<and> (\<exists>t w1 w2. now sc w1 = (t, w2) \<and> \<not> rp_observed_at r < t - 45 * second)"
    using s fin by (cases "hs = ''running''") (auto split: prod.splits)
  have "shown (reported_view (sc_config sc) v r hs)" using assms(2) fin by (simp add: g0_def)
  note view = reported_view_shown [OF this, folded g0_def]
  have "gv_id g = v_id v" using fin by (simp add: g0_def)
  then show ?thesis using fin clock view by simp
qed

lemma game_views_in:
  assumes "game_views sc rs hvs vs w = (gs, w')" "g \<in> set gs"
  shows "\<exists>v\<in>set vs. \<exists>w1 w2. game_view_of sc v (report_of rs (v_id v)) (state_of hvs (v_host v)) w1 = (g, w2)"
  using assms
proof (induction vs arbitrary: w gs)
  case (Cons v vs)
  obtain g0 w1 where g: "game_view_of sc v (report_of rs (v_id v)) (state_of hvs (v_host v)) w = (g0, w1)" by fastforce
  obtain gs1 w2 where r: "game_views sc rs hvs vs w1 = (gs1, w2)" by fastforce
  have gs: "gs = g0 # gs1" "w' = w2" using Cons.prems(1) g r by simp_all
  show ?case
  proof (cases "g = g0")
    case True
    then show ?thesis using g by auto
  next
    case False
    then show ?thesis using Cons.IH [of w1 gs1] r gs Cons.prems(2) by auto
  qed
qed simp

lemma host_views_in:
  assumes "host_views sc s hs w = (hvs, w')" "x \<in> set hvs"
  shows "\<exists>h\<in>set hs. \<exists>w1 w2 got. mc_inspect (sc_machines sc) h w1 = (got, w2) \<and> x = host_view_of s h got"
  using assms
proof (induction hs arbitrary: w hvs)
  case (Cons h hs)
  obtain got w1 where g: "mc_inspect (sc_machines sc) h w = (got, w1)" by fastforce
  obtain hvs1 w2 where r: "host_views sc s hs w1 = (hvs1, w2)" by fastforce
  have hvs: "hvs = host_view_of s h got # hvs1" "w' = w2" using Cons.prems(1) g r by simp_all
  show ?case
  proof (cases "x = host_view_of s h got")
    case True
    then show ?thesis using g by auto
  next
    case False
    then show ?thesis using Cons.IH [of w1 hvs1] r hvs Cons.prems(2) by auto
  qed
qed simp

lemma state_of_running:
  assumes "host_views sc s hs w = (hvs, w')" "state_of hvs i = ''running''"
  shows "\<exists>h\<in>set hs. h_id h = i \<and> \<not> h_retiring h \<and>
    (\<exists>m w1 w2. mc_inspect (sc_machines sc) h w1 = (Inr m, w2) \<and> m_state m = ''running'')"
proof -
  obtain x where x: "x \<in> set hvs" "hv_id x = i" "hv_state x = ''running''"
    using assms(2) by (auto simp: state_of_def split: option.splits dest!: map_of_SomeD)
  obtain h w1 w2 got where h: "h \<in> set hs" "mc_inspect (sc_machines sc) h w1 = (got, w2)" "x = host_view_of s h got"
    using host_views_in [OF assms(1) x(1)] by blast
  have "h_id h = i \<and> \<not> h_retiring h \<and> (\<exists>m. got = Inr m \<and> m_state m = ''running'')"
    using x(2,3) h(3) by (auto simp: host_view_of_def split: sum.splits if_splits)
  then show ?thesis using h(1,2) by blast
qed

end
