(* ===== verification/LobbyPage.thy ===== *)
theory LobbyPage
  imports LobbyWorker FleetPage
begin

text \<open>
  The lobby's service (internal/lobby/http.go): the scheduled pass that wakes the host for a pending
  request, the requests of the page, and the listing. Routing and JSON are the HTTP library's, as in the
  fleet's page.
\<close>

section \<open>The service\<close>

record 'w host_control =
  hc_state :: "('w, string) io"
  hc_wake :: "('w, unit) io"

definition lobby_host_control :: "'w lobby_host \<Rightarrow> 'w host_control" where
  "lobby_host_control h = \<lparr>hc_state = host_state h, hc_wake = host_wake h\<rparr>"

record 'w service =
  sv_table :: "'w storage"
  sv_host :: "'w host_control"
  sv_ids :: "string list"
  sv_clock :: "'w \<Rightarrow> time \<times> 'w"

definition unsettled :: "lobby_row \<Rightarrow> bool" where
  "unsettled row \<longleftrightarrow> lr_request_id row \<noteq> [] \<and> lr_request_id row \<noteq> lr_completed_id row"

text \<open>\<open>Reconcile\<close>: expired requests are completed as such; the first pending one wakes the host.\<close>

definition expire_request :: "'w service \<Rightarrow> string \<Rightarrow> lobby_row \<Rightarrow> ('w, unit) io" where
  "expire_request s i row w =
     (if \<not> unsettled row then (Inr (), w)
      else (let (t, w) = sv_clock s w in
        if row_pending row t then (Inr (), w)
        else sg_mark (sv_table s) i (lr_request_id row) ''completedID'' ''Request expired; try again'' w))"

fun wake_pending :: "'w service \<Rightarrow> string list \<Rightarrow> ('w, unit) io" where
  "wake_pending s [] w = (Inr (), w)"
| "wake_pending s (i # is) w =
     (case sg_read (sv_table s) i w of
        (Inl e, w) \<Rightarrow> (Inl e, w)
      | (Inr row, w) \<Rightarrow>
          (case expire_request s i row w of
             (Inl e, w) \<Rightarrow> (Inl e, w)
           | (Inr u, w) \<Rightarrow>
               (let (t, w) = sv_clock s w in
                if row_pending row t then hc_wake (sv_host s) w else wake_pending s is w)))"

definition lobby_reconcile :: "'w service \<Rightarrow> ('w, unit) io" where
  "lobby_reconcile s w =
     (case sg_list (sv_table s) w of
        (Inl e, w) \<Rightarrow> (Inl e, w)
      | (Inr rows, w) \<Rightarrow> wake_pending s (managed_ids rows (sv_ids s)) w)"

section \<open>Requests\<close>

definition service_fail :: reply where
  "service_fail = (503, Refusal ''Status unavailable. Try again shortly.'')"

definition lobby_action :: "'w service \<Rightarrow> string \<Rightarrow> string \<Rightarrow> 'w \<Rightarrow> reply \<times> 'w" where
  "lobby_action s i act w =
     (if act \<noteq> ''start'' \<and> act \<noteq> ''stop'' \<and> act \<noteq> ''remove'' then ((404, Refusal ''Unknown action''), w)
      else (case sg_read (sv_table s) i w of
        (Inl e, w) \<Rightarrow> (service_fail, w)
      | (Inr row, w) \<Rightarrow>
          if i \<notin> set (sv_ids s) \<and> lr_template_id row \<notin> set (sv_ids s) then ((404, Refusal ''Game not found''), w)
          else if i \<in> set (sv_ids s) \<and> act = ''remove''
          then ((409, Refusal ''Game presets can only be removed by the administrator''), w)
          else if sn_id (lr_snapshot row) = [] \<or> sn_phase (lr_snapshot row) = ''unavailable'' \<or>
                  (sn_desired (lr_snapshot row) = ''deleted'' \<and> act \<noteq> ''remove'')
          then ((409, Refusal ''This server is unavailable.''), w)
          else (let (t, w) = sv_clock s w in
            case sg_queue (sv_table s) i act t w of
              (Inl e, w) \<Rightarrow> if err_is e ErrBusy then ((409, Cause e), w) else (service_fail, w)
            | (Inr u, w) \<Rightarrow>
                (case hc_wake (sv_host s) w of
                   (Inl e, w) \<Rightarrow> ((202, Said ''Queued. Host startup will retry.''), w)
                 | (Inr u, w) \<Rightarrow> ((202, Said ''Queued.''), w)))))"

definition preset_name :: "snapshot \<Rightarrow> string \<Rightarrow> string" where
  "preset_name preset name = (if name \<noteq> [] then name else if sn_name preset \<noteq> [] then sn_name preset else sn_game preset)"

text \<open>A repeated creation of the same server succeeds; another server under the ID is refused.\<close>

definition lobby_create :: "'w service \<Rightarrow> (string \<times> string \<times> string) option \<Rightarrow> 'w \<Rightarrow> reply \<times> 'w" where
  "lobby_create s body w =
     (case body of
        None \<Rightarrow> ((400, Refusal ''Invalid server request''), w)
      | Some (i, template, name) \<Rightarrow>
          (let name = trim_space name;
               woken = (\<lambda>w. let (r, w) = hc_wake (sv_host s) w in ((202, Made i ''Starting server.''), w))
           in if \<not> valid_id i \<or> \<not> has_prefix i ''server-'' \<or> length i \<noteq> 39 \<or> 80 < length name
              then ((400, Refusal ''Invalid server ID or name''), w)
              else if template \<notin> set (sv_ids s) then ((404, Refusal ''Game not found''), w)
              else (case sg_read (sv_table s) template w of
                (Inl e, w) \<Rightarrow> (service_fail, w)
              | (Inr row, w) \<Rightarrow>
                  (let preset = lr_snapshot row; name = preset_name preset name in
                   if sn_id preset = [] \<or> sn_phase preset = ''unavailable''
                   then ((409, Refusal ''This game is unavailable.''), w)
                   else (let (t, w) = sv_clock s w;
                             snap = \<lparr>sn_id = i, sn_name = name, sn_game = sn_game preset, sn_phase = ''queued'',
                               sn_desired = ''running'', sn_address = [], sn_players = None, sn_error = [], sn_observed_at = t\<rparr>
                         in case sg_create (sv_table s) template snap t w of
                              (Inr u, w) \<Rightarrow> woken w
                            | (Inl e, w) \<Rightarrow>
                                if \<not> err_is e ErrBusy then (service_fail, w)
                                else (case sg_read (sv_table s) i w of
                                        (Inl e, w) \<Rightarrow> (service_fail, w)
                                      | (Inr x, w) \<Rightarrow>
                                          if lr_template_id x \<noteq> template \<or> sn_name (lr_snapshot x) \<noteq> name
                                          then ((409, Refusal ''Server ID already exists''), w)
                                          else woken w))))))"

section \<open>The listing\<close>

record lobby_view =
  lv_snapshot :: snapshot
  lv_action :: string
  lv_pending :: bool
  lv_failure :: string

record lobby_listing =
  ll_host :: string
  ll_games :: "lobby_view list"
  ll_presets :: "(string \<times> string \<times> string) list"

definition zero_row :: lobby_row where
  "zero_row = \<lparr>lr_snapshot = zero_snapshot, lr_request_id = [], lr_accepted_id = [], lr_completed_id = [], lr_failure = [],
     lr_template_id = [], lr_action = [], lr_expires_at = 0, lr_requested_at = 0\<rparr>"

definition row_of :: "lobby_row list \<Rightarrow> string \<Rightarrow> lobby_row" where
  "row_of rows i = (case map_of (rev (map (\<lambda>r. (sn_id (lr_snapshot r), r)) rows)) i of None \<Rightarrow> zero_row | Some r \<Rightarrow> r)"

definition presets :: "lobby_row list \<Rightarrow> string list \<Rightarrow> (string \<times> string \<times> string) list" where
  "presets rows is =
     [(i, sn_name (lr_snapshot (row_of rows i)), sn_game (lr_snapshot (row_of rows i))). i \<leftarrow> is,
        sn_id (lr_snapshot (row_of rows i)) \<noteq> [] \<and> sn_phase (lr_snapshot (row_of rows i)) \<noteq> ''unavailable'']"

definition asleep :: "string \<Rightarrow> snapshot \<Rightarrow> snapshot" where
  "asleep state x =
     x\<lparr>sn_address := [], sn_players := None, sn_phase := (if state = ''stopped'' then ''sleeping'' else ''unknown'')\<rparr>"

definition lobby_view_of :: "'w service \<Rightarrow> string \<Rightarrow> lobby_row \<Rightarrow> string \<Rightarrow> 'w \<Rightarrow> lobby_view \<times> 'w" where
  "lobby_view_of s i row state w =
     (let x = (if sn_id (lr_snapshot row) = []
               then zero_snapshot\<lparr>sn_id := i, sn_name := i, sn_phase := ''unavailable'', sn_error := ''Waiting for initial host setup''\<rparr>
               else lr_snapshot row);
          (t, w) = sv_clock s w;
          failure = (if unsettled row \<and> \<not> row_pending row t then ''Request expired; try again'' else lr_failure row);
          (hidden, w) = (if sn_phase x = ''unavailable'' \<or> sn_phase x = ''deleted'' then (False, w)
                         else if state \<noteq> ''running'' then (True, w)
                         else (let (t, w) = sv_clock s w in (45 * second < time_sub t (sn_observed_at x), w)))
      in (\<lparr>lv_snapshot = (if hidden then asleep state x else x), lv_action = lr_action row,
           lv_pending = row_pending row t, lv_failure = failure\<rparr>, w))"

fun lobby_views :: "'w service \<Rightarrow> lobby_row list \<Rightarrow> string \<Rightarrow> string list \<Rightarrow> 'w \<Rightarrow> lobby_view list \<times> 'w" where
  "lobby_views s rows state [] w = ([], w)"
| "lobby_views s rows state (i # is) w =
     (let (v, w) = lobby_view_of s i (row_of rows i) state w; (vs, w) = lobby_views s rows state is w in (v # vs, w))"

definition lobby_list :: "'w service \<Rightarrow> ('w, lobby_listing) io" where
  "lobby_list s w =
     (case hc_state (sv_host s) w of
        (Inl e, w) \<Rightarrow> (Inl e, w)
      | (Inr state, w) \<Rightarrow>
          (case sg_list (sv_table s) w of
             (Inl e, w) \<Rightarrow> (Inl e, w)
           | (Inr rows, w) \<Rightarrow>
               (let (vs, w) = lobby_views s rows state (managed_ids rows (sv_ids s)) w
                in (Inr \<lparr>ll_host = state, ll_games = vs, ll_presets = presets rows (sv_ids s)\<rparr>, w))))"

definition validate_hash :: "string \<Rightarrow> err + unit" where
  "validate_hash s =
     (case hex_decode s of
        Some b \<Rightarrow> if length b = 32 then Inr () else Inl (ErrMsg ''lobby token hash must be a SHA-256 hex digest'')
      | None \<Rightarrow> Inl (ErrMsg ''lobby token hash must be a SHA-256 hex digest''))"

section \<open>When a game is shown as running\<close>

lemma row_of_in: "row_of rows i \<noteq> zero_row \<Longrightarrow> row_of rows i \<in> set rows \<and> sn_id (lr_snapshot (row_of rows i)) = i"
  by (auto simp: row_of_def split: option.splits dest!: map_of_SomeD)

lemma lobby_view_running:
  assumes "lobby_view_of s i row state w = (v, w')" "sn_phase (lv_snapshot v) = ''running''"
  shows "state = ''running'' \<and> lv_snapshot v = lr_snapshot row \<and> sn_id (lr_snapshot row) \<noteq> [] \<and>
    (\<exists>t w1 w2. sv_clock s w1 = (t, w2) \<and> time_sub t (sn_observed_at (lr_snapshot row)) \<le> 45 * second)"
proof -
  define x where "x = (if sn_id (lr_snapshot row) = []
     then zero_snapshot\<lparr>sn_id := i, sn_name := i, sn_phase := ''unavailable'', sn_error := ''Waiting for initial host setup''\<rparr>
     else lr_snapshot row)"
  obtain t w1 where c: "sv_clock s w = (t, w1)" by fastforce
  obtain hidden w2 where h: "(if sn_phase x = ''unavailable'' \<or> sn_phase x = ''deleted'' then (False, w1)
     else if state \<noteq> ''running'' then (True, w1)
     else (let (t, w) = sv_clock s w1 in (45 * second < time_sub t (sn_observed_at x), w))) = (hidden, w2)" by fastforce
  have v: "lv_snapshot v = (if hidden then asleep state x else x)"
    using assms(1) by (auto simp: lobby_view_of_def Let_def x_def [symmetric] c h)
  then have shown: "\<not> hidden" "sn_phase x = ''running''" "lv_snapshot v = x"
    using assms(2) by (auto simp: asleep_def split: if_splits)
  then have "sn_id (lr_snapshot row) \<noteq> []" "x = lr_snapshot row" by (auto simp: x_def split: if_splits)
  moreover have "state = ''running'' \<and> (\<exists>t w1 w2. sv_clock s w1 = (t, w2) \<and> time_sub t (sn_observed_at x) \<le> 45 * second)"
  proof (cases "state = ''running''")
    case True
    obtain t2 w3 where "sv_clock s w1 = (t2, w3)" by fastforce
    moreover from this have "time_sub t2 (sn_observed_at x) \<le> 45 * second" using h shown True by (simp add: not_less)
    ultimately show ?thesis using True by blast
  qed (use h shown in simp)
  ultimately show ?thesis using shown(3) by simp
qed

lemma lobby_views_in:
  assumes "lobby_views s rows state is w = (vs, w')" "v \<in> set vs"
  shows "\<exists>i\<in>set is. \<exists>w1 w2. lobby_view_of s i (row_of rows i) state w1 = (v, w2)"
  using assms
proof (induction "is" arbitrary: w vs)
  case (Cons i "is")
  obtain v0 w1 where g: "lobby_view_of s i (row_of rows i) state w = (v0, w1)" by fastforce
  obtain vs1 w2 where r: "lobby_views s rows state is w1 = (vs1, w2)" by fastforce
  have vs: "vs = v0 # vs1" "w' = w2" using Cons.prems(1) g r by simp_all
  show ?case
  proof (cases "v = v0")
    case True
    then show ?thesis using g by auto
  next
    case False
    then show ?thesis using Cons.IH [of w1 vs1] r vs Cons.prems(2) by auto
  qed
qed simp

end
