(* ===== verification/PageProperties.thy ===== *)
theory PageProperties
  imports LobbyPage
begin

text \<open>
  The properties of the two launch pages and of the lobby's requests (internal/fleet/http.go,
  internal/lobby).
\<close>

section \<open>Requests of the lobby\<close>

text \<open>C21. A pending request of a lobby game survives whatever any clients do to its item, in any order
  (other requests, publications, marks of other requests, creations), as long as nobody asks again
  after it expires and nobody marks it completed: it stays the row's request with its action and
  its times, and stays pending.\<close>

theorem pending_request_is_kept:
  assumes "decode_row dec it = Inr row" and "row_pending row t" and "0 \<le> unix t" and "map_of it ''id'' \<noteq> None"
    and "\<forall>op\<in>set ops. case op of OpQueue act token t' \<Rightarrow> unix t' < lr_expires_at row
           | OpMark r stage failure \<Rightarrow> \<not> (r = lr_request_id row \<and> stage = ''completedID'') | _ \<Rightarrow> True"
    and "decode_row dec (fold (run_op i) ops it) = Inr row'"
  shows "row_pending row' t \<and> lr_request_id row' = lr_request_id row \<and> lr_action row' = lr_action row \<and>
    lr_expires_at row' = lr_expires_at row \<and> lr_requested_at row' = lr_requested_at row"
proof -
  have "carries (lr_request_id row) (lr_action row) (lr_expires_at row) (lr_requested_at row) it"
    using assms(2,4) decode_row_fields [OF assms(1)]
    by (auto simp: carries_def row_pending_def simp del: text_attr.simps number_attr.simps)
  moreover have "lr_request_id row \<noteq> []" "0 < lr_expires_at row" using assms(2,3) by (simp_all add: row_pending_def)
  moreover have "\<forall>op\<in>set ops. spares (lr_request_id row) (lr_expires_at row) op" using assms(5) by (simp add: spares_def)
  ultimately have "carries (lr_request_id row) (lr_action row) (lr_expires_at row) (lr_requested_at row) (fold (run_op i) ops it)"
    by (rule run_ops_carry)
  then show ?thesis using assms(2) decode_row_fields [OF assms(6)]
    by (auto simp: carries_def row_pending_def simp del: text_attr.simps number_attr.simps)
qed

theorem pending_request_is_kept_witness:
  "\<exists>row'. decode_row Inr (fold (run_op ''g'') [OpQueue ''stop'' ''r2'' (20 * second), OpMark ''r2'' ''completedID'' [], OpPublish zero_snapshot]
       (pt_item (create_put ''q1'' (zero_snapshot\<lparr>sn_id := ''g''\<rparr>) (zero_snapshot\<lparr>sn_id := ''g''\<rparr>) 0))) = Inr row' \<and>
     row_pending row' 0 \<and> lr_request_id row' = ''g''"
proof -
  let ?s = "zero_snapshot\<lparr>sn_id := ''g''\<rparr>"
  let ?it = "pt_item (create_put ''q1'' ?s ?s 0) :: snapshot item"
  let ?ops = "[OpQueue ''stop'' ''r2'' (20 * second), OpMark ''r2'' ''completedID'' [], OpPublish zero_snapshot]"
  have num: "atoi_value (show_int 600) = 600" by code_simp
  obtain row where row: "decode_row Inr ?it = Inr row" "lr_request_id row = ''g''" "lr_expires_at row = 600" "lr_completed_id row = []"
    by (simp add: decode_row_def decode_snapshot_def create_put_def request_lifetime_def time_defs num)
  have pending: "row_pending row 0" using row by (simp add: row_pending_def time_defs)
  have id: "map_of ?it ''id'' \<noteq> None" by (simp add: create_put_def)
  have ops: "\<forall>op\<in>set ?ops. case op of OpQueue act token t' \<Rightarrow> unix t' < lr_expires_at row
           | OpMark r stage failure \<Rightarrow> \<not> (r = lr_request_id row \<and> stage = ''completedID'') | _ \<Rightarrow> True"
    using row by (simp add: time_defs)
  have "map_of (fold (run_op ''g'') ?ops ?it) ''snapshot'' = Some (AttrDoc zero_snapshot)"
    by (simp add: map_of_updated publish_update_def)
  then obtain row' where row': "decode_row Inr (fold (run_op ''g'') ?ops ?it) = Inr row'"
    by (simp add: decode_row_def decode_snapshot_def del: fold_simps)
  have "0 \<le> unix 0" by (simp add: time_defs)
  from pending_request_is_kept [OF row(1) pending this id ops row'] row row' show ?thesis by auto
qed

text \<open>The lobby's page shows a game as running only when the host is running now, and then exactly
  the snapshot of the row listed under that ID, not older than 45 seconds by a clock read for it: a
  sleeping or unreachable host never shows a running game.\<close>

theorem lobby_shows_live_games:
  assumes "lobby_list s w = (Inr l, w')" and "v \<in> set (ll_games l)" and "sn_phase (lv_snapshot v) = ''running''"
  shows "ll_host l = ''running'' \<and>
    (\<exists>rows row w1 w2. sg_list (sv_table s) w1 = (Inr rows, w2) \<and> row \<in> set rows \<and> lv_snapshot v = lr_snapshot row \<and>
      sn_id (lr_snapshot row) \<in> set (managed_ids rows (sv_ids s)) \<and>
      (\<exists>t w3 w4. sv_clock s w3 = (t, w4) \<and> time_sub t (sn_observed_at (lr_snapshot row)) \<le> 45 * second))"
proof -
  obtain state rows w1 w2 vs w3 where l: "sg_list (sv_table s) w1 = (Inr rows, w2)"
    "lobby_views s rows state (managed_ids rows (sv_ids s)) w2 = (vs, w3)" "ll_games l = vs" "ll_host l = state"
    using assms(1) by (auto simp: lobby_list_def split: sum.splits prod.splits)
  obtain i w4 w5 where i: "i \<in> set (managed_ids rows (sv_ids s))" "lobby_view_of s i (row_of rows i) state w4 = (v, w5)"
    using lobby_views_in [OF l(2)] assms(2) l(3) by blast
  note v = lobby_view_running [OF i(2) assms(3)]
  then have "row_of rows i \<noteq> zero_row" by (auto simp: zero_row_def zero_snapshot_def)
  from row_of_in [OF this] v l(1,4) i(1) show ?thesis by metis
qed

definition unit_service :: "unit service" where
  "unit_service =
     \<lparr>sv_table = \<lparr>sg_read = (\<lambda>i w. (Inr zero_row, w)),
        sg_list = (\<lambda>w. (Inr [zero_row\<lparr>lr_snapshot := zero_snapshot\<lparr>sn_id := ''q1'', sn_phase := ''running'', sn_observed_at := 0\<rparr>\<rparr>], w)),
        sg_create = (\<lambda>t s n w. (Inr (), w)), sg_queue = (\<lambda>i a t w. (Inr (), w)), sg_request = (\<lambda>i t w. (Inr (), w)),
        sg_publish = (\<lambda>s w. (Inr (), w)), sg_mark = (\<lambda>i r s f w. (Inr (), w))\<rparr>,
      sv_host = \<lparr>hc_state = (\<lambda>w. (Inr ''running'', w)), hc_wake = (\<lambda>w. (Inr (), w))\<rparr>,
      sv_ids = [''q1''], sv_clock = (\<lambda>w. (30 * second, w))\<rparr>"

theorem lobby_shows_live_games_witness:
  "\<exists>l v. lobby_list unit_service () = (Inr l, ()) \<and> v \<in> set (ll_games l) \<and> sn_phase (lv_snapshot v) = ''running'' \<and>
     ll_host l = ''running''"
proof -
  obtain l where l: "lobby_list unit_service () = (Inr l, ())" "\<exists>v\<in>set (ll_games l). sn_phase (lv_snapshot v) = ''running''"
    by (simp add: lobby_list_def unit_service_def managed_ids_def lobby_view_of_def row_of_def time_defs Let_def zero_row_def)
  then show ?thesis using lobby_shows_live_games [OF l(1)] by blast
qed

section \<open>The fleet's page\<close>

text \<open>C22. The fleet's page gives an address for a server, or calls it running, only when the registry has the
  server without an error, its host is registered, not retiring, and just seen running by the machine
  service, and a report about the server's current request on that host says so, wants it running, has
  no error and is at most 45 seconds old by a clock read for it.\<close>

theorem fleet_page_shows_live_games:
  assumes "list_page sc w = (Inr l, w')" and "g \<in> set (pl_games l)" and "gv_address g \<noteq> [] \<or> gv_phase g = ''running''"
  shows "\<exists>s rs v h r. (\<exists>w1. sto_load (sc_store sc) w = (Inr s, w1) \<and> (\<exists>w2. sto_reports (sc_store sc) w1 = (Inr rs, w2))) \<and>
    v \<in> set (st_servers s) \<and> gv_id g = v_id v \<and> v_error v = [] \<and>
    h \<in> set (st_hosts s) \<and> h_id h = v_host v \<and> \<not> h_retiring h \<and>
    (\<exists>m w1 w2. mc_inspect (sc_machines sc) h w1 = (Inr m, w2) \<and> m_state m = ''running'') \<and>
    r \<in> set rs \<and> rp_id r = v_id v \<and> rp_host r = v_host v \<and> rp_request_id r = v_request_id v \<and>
    rp_desired r = ''running'' \<and> rp_error r = [] \<and> gv_address g = rp_address r \<and> gv_phase g = rp_phase r \<and>
    (\<exists>t w1 w2. now sc w1 = (t, w2) \<and> \<not> rp_observed_at r < t - 45 * second)"
proof -
  obtain s w1 rs w2 hvs w3 gs w4 where l: "sto_load (sc_store sc) w = (Inr s, w1)" "sto_reports (sc_store sc) w1 = (Inr rs, w2)"
    "host_views sc s (st_hosts s) w2 = (hvs, w3)" "game_views sc rs hvs (st_servers s) w3 = (gs, w4)" "pl_games l = gs"
    using assms(1) by (auto simp: list_page_def split: sum.splits prod.splits)
  obtain v w5 w6 where v: "v \<in> set (st_servers s)"
    "game_view_of sc v (report_of rs (v_id v)) (state_of hvs (v_host v)) w5 = (g, w6)"
    using game_views_in [OF l(4)] assms(2) l(5) by blast
  have sh: "shown g" using assms(3) by (simp add: shown_def)
  note view = game_view_shown [OF v(2) sh]
  then have "report_of rs (v_id v) \<noteq> zero_report" using assms(3) by (auto simp: zero_report_def)
  note r = report_of_in [OF this]
  obtain h where h: "h \<in> set (st_hosts s)" "h_id h = v_host v" "\<not> h_retiring h"
    "\<exists>m w1 w2. mc_inspect (sc_machines sc) h w1 = (Inr m, w2) \<and> m_state m = ''running''"
    using state_of_running [OF l(3)] view by blast
  have load: "\<exists>w1. sto_load (sc_store sc) w = (Inr s, w1) \<and> (\<exists>w2. sto_reports (sc_store sc) w1 = (Inr rs, w2))"
    using l(1,2) by blast
  show ?thesis
    by (intro exI [of _ s] exI [of _ rs] exI [of _ v] exI [of _ h] exI [of _ "report_of rs (v_id v)"] conjI)
      (use load v(1) h r view in blast)+
qed

definition unit_scheduler :: "unit scheduler" where
  "unit_scheduler =
     \<lparr>sc_store =
        \<lparr>sto_load = (\<lambda>w. (Inr (zero_state\<lparr>st_hosts := [zero_host\<lparr>h_id := ''h''\<rparr>],
            st_servers := [\<lparr>v_ready_at = 1, v_error = [], v_resources = zero_resources, v_id = ''s'', v_game = ''q'', v_name = ''S'',
              v_host = ''h'', v_desired = ''running'', v_request_id = ''r'', v_requested_at = 0\<rparr>]\<rparr>), w)),
         sto_save = (\<lambda>s n w. (Inr (), w)),
         sto_reports = (\<lambda>w. (Inr [\<lparr>rp_id = ''s'', rp_host = ''h'', rp_request_id = ''r'', rp_phase = ''running'',
            rp_desired = ''running'', rp_address = ''192.0.2.1:1'', rp_players = Some 1, rp_error = [], rp_observed_at = 0\<rparr>], w)),
         sto_publish = (\<lambda>r w. (Inr (), w)), sto_tombstoned = (\<lambda>i w. (Inr False, w)), sto_forget = (\<lambda>s n i w. (Inr (), w))\<rparr>,
      sc_machines = \<lparr>mc_inspect = (\<lambda>h w. (Inr \<lparr>m_id = ''i'', m_state = ''running''\<rparr>, w)), mc_wake = (\<lambda>h w. (Inr ''i'', w)),
        mc_stop = (\<lambda>h w. (Inr (), w)), mc_delete = (\<lambda>h w. (Inr (), w))\<rparr>,
      sc_config = \<lparr>fc_release = ''r'', fc_workload = ''w'', fc_games = [], fc_capacity = zero_resources, fc_max_hosts = 1,
        fc_max_servers = 1, fc_launch_template = ''lt'', fc_launch_version = ''1'', fc_idle_minutes = 10,
        fc_max_minutes = 0, fc_deadline = 0\<rparr>,
      sc_runtime = \<lparr>rt_now = (\<lambda>w. (30 * second, w)), rt_token = (\<lambda>w. (''t'', w))\<rparr>\<rparr>"

theorem fleet_page_shows_live_games_witness:
  "\<exists>l g. list_page unit_scheduler () = (Inr l, ()) \<and> g \<in> set (pl_games l) \<and> gv_address g = ''192.0.2.1:1'' \<and> gv_id g = ''s''"
proof -
  obtain l where l: "list_page unit_scheduler () = (Inr l, ())"
    and "\<exists>g\<in>set (pl_games l). gv_address g = ''192.0.2.1:1'' \<and> gv_id g = ''s''"
    by (simp add: list_page_def unit_scheduler_def zero_state_def zero_host_def host_view_of_def state_of_def report_of_def
        game_view_of_def reported_view_def finished_view_def request_complete_def time_defs Let_def)
  then obtain g where g: "g \<in> set (pl_games l)" "gv_address g = ''192.0.2.1:1''" "gv_id g = ''s''" by blast
  then show ?thesis using fleet_page_shows_live_games [OF l g(1)] l by auto
qed

end
