(* ===== verification/Docker.thy ===== *)
theory Docker
  imports Controller "HOL-Library.AList"
begin

text \<open>
  The Docker provider of a game host (internal/control/docker.go and docker_prepare.go): finding an
  instance's container, creating, starting, stopping and deleting it, and the background preparation of
  its image and assets. The daemon is a parameter that answers requests; so are the JSON codecs, SHA-256
  and the sockets used to choose free ports. The lemmas show which containers a call may touch.
\<close>

section \<open>Escaping and addresses\<close>

definition unreserved :: "char \<Rightarrow> bool" where
  "unreserved c \<longleftrightarrow>
     (let n = of_char c :: nat in
      48 \<le> n \<and> n \<le> 57 \<or> 65 \<le> n \<and> n \<le> 90 \<or> 97 \<le> n \<and> n \<le> 122 \<or> c \<in> set ''-_.~'')"

definition upper_hex :: "nat \<Rightarrow> char" where
  "upper_hex d = (if d < 10 then digit_char d else char_of (d + 55))"

definition percent :: "char \<Rightarrow> string" where
  "percent c = [CHR 0x25, upper_hex (of_char c div 16), upper_hex (of_char c mod 16)]"

definition path_escape :: "string \<Rightarrow> string" where
  "path_escape s = concat (map (\<lambda>c. if unreserved c \<or> c \<in> set ''$&+=:@'' then [c] else percent c) s)"

definition query_escape :: "string \<Rightarrow> string" where
  "query_escape s = concat (map (\<lambda>c. if unreserved c then [c] else if c = CHR '' '' then ''+'' else percent c) s)"

definition join_host_port :: "string \<Rightarrow> string \<Rightarrow> string" where
  "join_host_port h p = (if CHR '':'' \<in> set h then ''['' @ h @ '']:'' @ p else h @ '':'' @ p)"

fun has_substring :: "string \<Rightarrow> string \<Rightarrow> bool" where
  "has_substring sub [] = (sub = [])"
| "has_substring sub (c # cs) = (has_prefix (c # cs) sub \<or> has_substring sub cs)"

text \<open>\<open>strings.ReplaceAll\<close> of a text that is not empty.\<close>

function replace_all :: "string \<Rightarrow> string \<Rightarrow> string \<Rightarrow> string" where
  "replace_all a b [] = []"
| "replace_all a b (c # cs) =
     (if a \<noteq> [] \<and> has_prefix (c # cs) a then b @ replace_all a b (drop (length a) (c # cs)) else c # replace_all a b cs)"
  by pat_completeness auto
termination by (relation "measure (\<lambda>(a, b, s). length s)") auto

section \<open>The daemon\<close>

record docker_inspect =
  di_id :: string
  di_status :: string
  di_running :: bool
  di_error :: string
  di_exit_code :: int
  di_started_at :: time
  di_labels :: "(string \<times> string) list"
  di_ports :: "(string \<times> (string \<times> string) list) list"

definition no_container :: docker_inspect where
  "no_container = \<lparr>di_id = [], di_status = [], di_running = False, di_error = [], di_exit_code = 0,
     di_started_at = zero_time, di_labels = [], di_ports = []\<rparr>"

record container_spec =
  cs_image :: string
  cs_env :: "string list"
  cs_exposed :: "string list"
  cs_labels :: "(string \<times> string) list"
  cs_ports :: "(string \<times> string \<times> string) list"
  cs_mounts :: "(string \<times> string) list"

record 'w docker =
  dc_do :: "string \<Rightarrow> string \<Rightarrow> string \<Rightarrow> ('w, http_response) io"
  dc_parse :: "string \<Rightarrow> err + docker_inspect"
  dc_encode :: "container_spec \<Rightarrow> err + string"
  dc_sha256 :: "string \<Rightarrow> string"
  dc_listen_tcp :: "string \<Rightarrow> ('w, int) io"
  dc_listen_udp :: "string \<Rightarrow> ('w, int) io"
  dc_getenv :: "string \<Rightarrow> string"
  dc_clock :: "'w \<Rightarrow> time \<times> 'w"
  dc_stream :: "string \<Rightarrow> ('w, int \<times> (err + string) list) io"
  dc_prepare_assets :: "(game \<Rightarrow> ('w, string) io) option"
  dc_public_host :: string
  dc_bind_ip :: string
  dc_booted_at :: time
  dc_binary :: string
  dc_asset_version :: string

datatype docker_err = DockerError int string | DockerFailure err

fun docker_error :: "docker_err \<Rightarrow> err" where
  "docker_error (DockerError s m) = ErrMsg (''Docker: '' @ m @ '' (HTTP '' @ show_int s @ '')'')"
| "docker_error (DockerFailure e) = e"

fun is_404 :: "docker_err \<Rightarrow> bool" where
  "is_404 (DockerError s m) = (s = 404)"
| "is_404 (DockerFailure e) = False"

text \<open>\<open>request\<close>, its body encoded and its answer's body not yet decoded.\<close>

definition docker_request :: "'w docker \<Rightarrow> string \<Rightarrow> string \<Rightarrow> string \<Rightarrow> 'w \<Rightarrow> (docker_err + string) \<times> 'w" where
  "docker_request d meth path body w =
     (case dc_do d meth (''http://docker'' @ path) body w of
        (Inl e, w) \<Rightarrow> (Inl (DockerFailure e), w)
      | (Inr r, w) \<Rightarrow>
          if 300 \<le> rs_status r then (Inl (DockerError (rs_status r) (take 8192 (rs_body r))), w) else (Inr (rs_body r), w))"

section \<open>Finding a container\<close>

definition container_name :: "inst \<Rightarrow> string" where
  "container_name i = ''insta-game-'' @ in_id i"

definition container_path :: "inst \<Rightarrow> string" where
  "container_path i = ''/containers/'' @ path_escape (container_name i)"

definition owner :: "'w docker \<Rightarrow> inst \<Rightarrow> string" where
  "owner d i = dc_sha256 d (in_agent_token i)"

definition label :: "docker_inspect \<Rightarrow> string \<Rightarrow> string" where
  "label s k = (case map_of (di_labels s) k of None \<Rightarrow> [] | Some v \<Rightarrow> v)"

definition owned :: "'w docker \<Rightarrow> inst \<Rightarrow> docker_inspect \<Rightarrow> bool" where
  "owned d i s \<longleftrightarrow> label s ''gg.insta-game.instance'' = in_id i \<and> label s ''gg.insta-game.owner'' = owner d i"

definition find_container :: "'w docker \<Rightarrow> inst \<Rightarrow> ('w, docker_inspect) io" where
  "find_container d i w =
     (case docker_request d ''GET'' (container_path i @ ''/json'') [] w of
        (Inl e, w) \<Rightarrow> if is_404 e then (Inr no_container, w) else (Inl (docker_error e), w)
      | (Inr body, w) \<Rightarrow>
          (case dc_parse d body of
             Inl e \<Rightarrow> (Inl e, w)
           | Inr s \<Rightarrow>
               if \<not> owned d i s then (Inl (ErrMsg ''container name is occupied by an unmanaged container''), w)
               else if di_id s = [] then (Inl (ErrMsg ''Docker returned an empty container ID''), w)
               else (Inr s, w)))"

text \<open>A port key without a slash, which the daemon does not give, panics in the source.\<close>

fun observe_ports :: "'w docker \<Rightarrow> inst \<Rightarrow> docker_inspect \<Rightarrow> string list \<Rightarrow> observation \<Rightarrow> observation" where
  "observe_ports d i s [] ob = ob"
| "observe_ports d i s (k # ks) ob =
     (case map_of (di_ports s) k of
        Some ((ip, hport) # rest) \<Rightarrow>
          (let parts = split_on (CHR ''/'') k; port = atoi_value (parts ! 0); proto = parts ! 1 in
           if port = gm_agent_port (in_game i) \<and> proto = ''tcp''
           then observe_ports d i s ks (ob\<lparr>ob_agent_url := ''http://'' @ join_host_port ''127.0.0.1'' hport\<rparr>)
           else (let port = (if parts ! 0 = label s ''gg.insta-game.game-port'' then gm_game_port (in_game i) else port)
                 in observe_ports d i s ks (ob\<lparr>ob_endpoints := ob_endpoints ob @
                      [\<lparr>ep_port = port, ep_protocol = proto, ep_address = join_host_port (dc_public_host d) hport\<rparr>]\<rparr>)))
      | _ \<Rightarrow> observe_ports d i s ks ob)"

definition observe_container :: "'w docker \<Rightarrow> inst \<Rightarrow> docker_inspect \<Rightarrow> observation" where
  "observe_container d i s =
     (let ob = zero_observation\<lparr>ob_exists := True, ob_started := (di_status s \<noteq> ''created''), ob_running := di_running s,
                 ob_failure := di_error s\<rparr>;
          ob = (if \<not> di_running s \<and> di_exit_code s \<noteq> 0
                then ob\<lparr>ob_failure := ''container exited with code '' @ show_int (di_exit_code s) @ '': '' @ di_error s\<rparr> else ob);
          ob = (if \<not> di_running s \<and> \<not> is_zero (di_started_at s) \<and> di_started_at s < dc_booted_at d
                then ob\<lparr>ob_started := False, ob_failure := []\<rparr> else ob)
      in observe_ports d i s (sort (map fst (di_ports s))) ob)"

definition docker_inspect_op :: "'w docker \<Rightarrow> inst \<Rightarrow> ('w, observation) io" where
  "docker_inspect_op d i w =
     (case find_container d i w of
        (Inl e, w) \<Rightarrow> (Inl e, w)
      | (Inr s, w) \<Rightarrow> (Inr (if di_id s = [] then zero_observation else observe_container d i s), w))"

section \<open>Creating a container\<close>

definition text_of_port :: "(string \<times> string) list \<Rightarrow> string \<Rightarrow> string" where
  "text_of_port m k = (case map_of m k of None \<Rightarrow> [] | Some v \<Rightarrow> v)"

text \<open>One host port for the keys that have both protocols.\<close>

fun share_ports ::
  "'w docker \<Rightarrow> string list \<Rightarrow> string list \<Rightarrow> (string \<times> string) list \<Rightarrow> ('w, (string \<times> string) list) io" where
  "share_ports d keys [] shared w = (Inr shared, w)"
| "share_ports d keys (k # ks) shared w =
     (let (port, proto, found) = cut (CHR ''/'') k in
      if proto \<noteq> ''tcp'' \<or> port @ ''/udp'' \<notin> set keys then share_ports d keys ks shared w
      else (case dc_listen_tcp d (join_host_port (dc_bind_ip d) ''0'') w of
              (Inl e, w) \<Rightarrow> (Inl e, w)
            | (Inr n, w) \<Rightarrow>
                (case dc_listen_udp d (join_host_port (dc_bind_ip d) (show_int n)) w of
                   (Inl e, w) \<Rightarrow> (Inl e, w)
                 | (Inr m, w) \<Rightarrow> share_ports d keys ks (AList.update port (show_int n) shared) w)))"

text \<open>The port the game listens on inside, and the shared ports with it.\<close>

definition runtime_port ::
  "'w docker \<Rightarrow> game \<Rightarrow> (string \<times> string) list \<Rightarrow> ('w, string \<times> (string \<times> string) list) io" where
  "runtime_port d g shared w =
     (let gp = show_int (gm_game_port g) in
      if \<not> has_substring ''{port}'' (gm_args g) then (Inr (gp, shared), w)
      else if gp @ ''/udp'' \<notin> set (gm_ports g) then (Inl (ErrMsg ''game port templates require a UDP game port''), w)
      else if text_of_port shared gp \<noteq> [] then (Inr (text_of_port shared gp, shared), w)
      else (case dc_listen_udp d (join_host_port (dc_bind_ip d) ''0'') w of
              (Inl e, w) \<Rightarrow> (Inl e, w)
            | (Inr n, w) \<Rightarrow> (Inr (show_int n, AList.update gp (show_int n) shared), w)))"

fun bind_ports ::
  "'w docker \<Rightarrow> game \<Rightarrow> string \<Rightarrow> (string \<times> string) list \<Rightarrow> string list \<Rightarrow>
     (string \<times> string \<times> string) list \<Rightarrow> (string \<times> string \<times> string) list" where
  "bind_ports d g rp shared [] m = m"
| "bind_ports d g rp shared (k # ks) m =
     (if k = show_int (gm_agent_port g) @ ''/tcp'' then bind_ports d g rp shared ks m
      else (let (number, proto, found) = cut (CHR ''/'') k; gp = show_int (gm_game_port g);
                (key, hport) = (if number = gp \<and> rp \<noteq> gp then (rp @ ''/'' @ proto, rp) else (k, text_of_port shared number))
            in bind_ports d g rp shared ks (AList.update key (dc_bind_ip d, hport) m)))"

definition container_env :: "'w docker \<Rightarrow> inst \<Rightarrow> string \<Rightarrow> string list" where
  "container_env d i rp =
     (let g = in_game i;
          env = [''GAME_CMD='' @ gm_cmd g, ''GAME_ARGS='' @ replace_all ''{port}'' rp (gm_args g), ''GAME_PORT='' @ rp,
            ''PROTOCOL='' @ gm_protocol g, ''PORT='' @ show_int (gm_agent_port g), ''CONFIG_PATH='' @ gm_config_path g,
            ''CONFIG_TEXT='' @ in_config i, ''TOKEN='' @ in_agent_token i, ''RCON_PASSWORD='' @ in_rcon_password i,
            ''GAME_QUIT_CMD='' @ gm_quit_cmd g, ''GAME_QUIT_TIMEOUT='' @ show_int (gm_quit_timeout g)]
      in if gm_data_url_env g \<noteq> [] \<and> dc_getenv d (gm_data_url_env g) \<noteq> []
         then env @ [''DATA_URL='' @ dc_getenv d (gm_data_url_env g)] else env)"

definition container_of :: "'w docker \<Rightarrow> inst \<Rightarrow> string \<Rightarrow> string \<Rightarrow> (string \<times> string) list \<Rightarrow> container_spec" where
  "container_of d i assets rp shared =
     (let g = in_game i;
          ports = AList.update (show_int (gm_agent_port g) @ ''/tcp'') (''127.0.0.1'', []) (bind_ports d g rp shared (gm_ports g) [])
      in \<lparr>cs_image = gm_image g,
          cs_env = container_env d i rp @ (if assets \<noteq> [] then [''ASSET_SEED=/insta-game-assets''] else []),
          cs_exposed = map fst ports,
          cs_labels = [(''gg.insta-game.instance'', in_id i), (''gg.insta-game.owner'', owner d i), (''gg.insta-game.game-port'', rp)],
          cs_ports = ports,
          cs_mounts = (if assets \<noteq> [] then [(assets, ''/insta-game-assets'')] else []) @
            (if dc_binary d \<noteq> [] then [(dc_binary d, ''/usr/local/bin/insta-game'')] else [])\<rparr>)"

definition create_container :: "'w docker \<Rightarrow> inst \<Rightarrow> container_spec \<Rightarrow> ('w, observation) io" where
  "create_container d i spec w =
     (case dc_encode d spec of
        Inl e \<Rightarrow> (Inl e, w)
      | Inr body \<Rightarrow>
          (case docker_request d ''POST'' (''/containers/create?name='' @ query_escape (container_name i)) body w of
             (Inl e, w) \<Rightarrow>
               if is_404 e
               then (Inl (ErrMsg (''image '' @ gm_image (in_game i) @ '' is not installed; build or pull it before creating a server'')), w)
               else (Inl (docker_error e), w)
           | (Inr u, w) \<Rightarrow> docker_inspect_op d i w))"

definition docker_ensure :: "'w docker \<Rightarrow> string \<Rightarrow> inst \<Rightarrow> ('w, observation) io" where
  "docker_ensure d assets i w =
     (case docker_inspect_op d i w of
        (Inl e, w) \<Rightarrow> (Inl e, w)
      | (Inr ob, w) \<Rightarrow>
          if ob_exists ob then (Inr ob, w)
          else (case share_ports d (gm_ports (in_game i)) (gm_ports (in_game i)) [] w of
                  (Inl e, w) \<Rightarrow> (Inl e, w)
                | (Inr shared, w) \<Rightarrow>
                    (case runtime_port d (in_game i) shared w of
                       (Inl e, w) \<Rightarrow> (Inl e, w)
                     | (Inr (rp, shared), w) \<Rightarrow> create_container d i (container_of d i assets rp shared) w)))"

section \<open>Starting, stopping, deleting\<close>

definition mutate :: "'w docker \<Rightarrow> inst \<Rightarrow> string \<Rightarrow> string \<Rightarrow> ('w, unit) io" where
  "mutate d i meth rest w =
     (case find_container d i w of
        (Inl e, w) \<Rightarrow> (Inl e, w)
      | (Inr s, w) \<Rightarrow>
          if di_id s = [] then (if meth = ''DELETE'' then Inr () else Inl (ErrMsg ''container does not exist''), w)
          else (case docker_request d meth (''/containers/'' @ path_escape (di_id s) @ rest) [] w of
                  (Inl e, w) \<Rightarrow> (if is_404 e \<and> meth = ''DELETE'' then Inr () else Inl (docker_error e), w)
                | (Inr u, w) \<Rightarrow> (Inr (), w)))"

definition docker_start :: "'w docker \<Rightarrow> inst \<Rightarrow> ('w, unit) io" where
  "docker_start d i = mutate d i ''POST'' ''/start''"

definition docker_stop :: "'w docker \<Rightarrow> inst \<Rightarrow> ('w, unit) io" where
  "docker_stop d i = mutate d i ''POST'' (''/stop?t='' @ show_int (max 20 (gm_quit_timeout (in_game i) + 5)))"

definition docker_delete :: "'w docker \<Rightarrow> inst \<Rightarrow> ('w, unit) io" where
  "docker_delete d i = mutate d i ''DELETE'' ''?force=true&v=true''"

text \<open>\<open>hostBootTime\<close> over the text of /proc/stat, \<open>None\<close> when it cannot be read.\<close>

fun boot_line :: "string list \<Rightarrow> time" where
  "boot_line [] = zero_time"
| "boot_line (l # ls) =
     (case cut_prefix l ''btime '' of
        None \<Rightarrow> boot_line ls
      | Some v \<Rightarrow> (case atoi (trim_space v) of None \<Rightarrow> boot_line ls | Some n \<Rightarrow> n * second))"

definition host_boot_time :: "string option \<Rightarrow> time" where
  "host_boot_time data = (case data of None \<Rightarrow> zero_time | Some s \<Rightarrow> boot_line (split_on (CHR 0x0A) s))"

end
