(* ===== verification/DockerPrepare.thy ===== *)
theory DockerPrepare
  imports Docker ControlProperties
begin

text \<open>
  The background preparation of images and assets (internal/control/docker_prepare.go), the provider
  made of it and of the operations on containers, and the properties of both. The map of jobs is part of
  the state; the goroutine of a job is what it computes (\<open>prepare_job\<close>) and the event of its end
  (\<open>finish_job\<close>). Between the two anything may happen, in particular other calls of \<open>Prepare\<close>.
\<close>

section \<open>Jobs\<close>

record prep_job =
  pj_done :: bool
  pj_started :: time
  pj_assets :: string
  pj_error :: "err option"

type_synonym jobs = "string \<Rightarrow> prep_job option"

definition preparation_key :: "'w docker \<Rightarrow> game \<Rightarrow> string" where
  "preparation_key d g = gm_id g @ ''/'' @ gm_image g @ ''/'' @ dc_asset_version d"

definition image_path :: "game \<Rightarrow> string" where
  "image_path g = ''/images/'' @ path_escape (gm_image g) @ ''/json''"

text \<open>What \<open>Prepare\<close> answers; \<open>Spawned\<close> is the answer false after a job was started.\<close>

datatype prep_answer = Answer "err + bool" | Spawned

definition spawn :: "'w docker \<Rightarrow> string \<Rightarrow> jobs \<Rightarrow> 'w \<Rightarrow> prep_answer \<times> jobs \<times> 'w" where
  "spawn d k p w =
     (let (t, w) = dc_clock d w
      in (Spawned, p(k \<mapsto> \<lparr>pj_done = False, pj_started = t, pj_assets = [], pj_error = None\<rparr>), w))"

text \<open>
  \<open>ended\<close> is the error of the caller's context, if it has ended; when the job is done as well,
  the select may take either case, which \<open>sees_end\<close> says.
\<close>

definition prepare ::
  "'w docker \<Rightarrow> err option \<Rightarrow> bool \<Rightarrow> inst \<Rightarrow> jobs \<Rightarrow> 'w \<Rightarrow> prep_answer \<times> jobs \<times> 'w" where
  "prepare d ended sees_end i p w =
     (let k = preparation_key d (in_game i) in
      case p k of
        Some job \<Rightarrow>
          if pj_done job \<and> (ended = None \<or> \<not> sees_end)
          then (case pj_error job of
                  None \<Rightarrow> (Answer (Inr True), p, w)
                | Some e \<Rightarrow> if \<not> pj_started job < in_started_at i then (Answer (Inl e), p, w) else spawn d k p w)
          else (Answer (case ended of Some e \<Rightarrow> Inl e | None \<Rightarrow> Inr False), p, w)
      | None \<Rightarrow>
          if dc_prepare_assets d = None
          then (case docker_request d ''GET'' (image_path (in_game i)) [] w of
                  (Inr body, w) \<Rightarrow> (Answer (Inr True), p, w)
                | (Inl e, w) \<Rightarrow> if is_404 e then spawn d k p w else (Answer (Inl (docker_error e)), p, w))
          else spawn d k p w)"

fun pull_events :: "(err + string) list \<Rightarrow> err option" where
  "pull_events [] = None"
| "pull_events (Inl e # xs) = Some e"
| "pull_events (Inr s # xs) = (if s \<noteq> [] then Some (ErrMsg (''image pull: '' @ s)) else pull_events xs)"

definition pull_image :: "'w docker \<Rightarrow> err option \<Rightarrow> string \<Rightarrow> 'w \<Rightarrow> err option \<times> 'w" where
  "pull_image d ended img w =
     (case dc_stream d (''http://docker/images/create?fromImage='' @ query_escape img) w of
        (Inl e, w) \<Rightarrow> (Some e, w)
      | (Inr (status, events), w) \<Rightarrow>
          (if status \<noteq> 200 then Some (ErrMsg (''image pull failed (HTTP '' @ show_int status @ '')''))
           else (case pull_events events of Some e \<Rightarrow> Some e | None \<Rightarrow> ended), w))"

text \<open>The goroutine: \<open>slot\<close> is the error of its context if that ended before it got the slot.\<close>

definition prepare_job :: "'w docker \<Rightarrow> err option \<Rightarrow> err option \<Rightarrow> game \<Rightarrow> 'w \<Rightarrow> (string \<times> err option) \<times> 'w" where
  "prepare_job d slot ended g w =
     (if slot \<noteq> None then (([], slot), w)
      else (let (failed, w) =
              (case docker_request d ''GET'' (image_path g) [] w of
                 (Inr body, w) \<Rightarrow> (None, w)
               | (Inl e, w) \<Rightarrow> if is_404 e then pull_image d ended (gm_image g) w else (Some (docker_error e), w))
            in if failed \<noteq> None then (([], failed), w)
               else (case dc_prepare_assets d of
                       None \<Rightarrow> (([], None), w)
                     | Some f \<Rightarrow> (case f g w of (Inl e, w) \<Rightarrow> (([], Some e), w) | (Inr a, w) \<Rightarrow> ((a, None), w)))))"

definition finish_job :: "string \<Rightarrow> string \<times> err option \<Rightarrow> jobs \<Rightarrow> jobs" where
  "finish_job k x p =
     (case p k of
        None \<Rightarrow> p
      | Some job \<Rightarrow> p(k \<mapsto> job\<lparr>pj_done := True, pj_assets := fst x, pj_error := snd x\<rparr>))"

definition asset_directory :: "'w docker \<Rightarrow> game \<Rightarrow> jobs \<Rightarrow> string" where
  "asset_directory d g p =
     (case p (preparation_key d g) of None \<Rightarrow> [] | Some job \<Rightarrow> if pj_done job then pj_assets job else [])"

section \<open>The provider\<close>

definition beside_jobs :: "('w \<Rightarrow> 'a \<times> 'w) \<Rightarrow> 'w \<times> jobs \<Rightarrow> 'a \<times> ('w \<times> jobs)" where
  "beside_jobs f = (\<lambda>(w, p). let (r, w) = f w in (r, (w, p)))"

definition docker_provider :: "'w docker \<Rightarrow> ('w \<times> jobs) provider" where
  "docker_provider d =
     \<lparr>pv_ensure = (\<lambda>i (w, p). beside_jobs (docker_ensure d (asset_directory d (in_game i) p) i) (w, p)),
      pv_inspect = (\<lambda>i. beside_jobs (docker_inspect_op d i)),
      pv_start = (\<lambda>i. beside_jobs (docker_start d i)),
      pv_stop = (\<lambda>i. beside_jobs (docker_stop d i)),
      pv_delete = (\<lambda>i. beside_jobs (docker_delete d i)),
      pv_prepare = Some (\<lambda>i (w, p). case prepare d None False i p w of
                           (Answer r, p, w) \<Rightarrow> (r, (w, p)) | (Spawned, p, w) \<Rightarrow> (Inr False, (w, p)))\<rparr>"

section \<open>Which containers are touched\<close>

lemma find_container_found:
  assumes "find_container d i w = (Inr s, w1)" "di_id s \<noteq> []"
  shows "owned d i s \<and> (\<exists>body. docker_request d ''GET'' (container_path i @ ''/json'') [] w = (Inr body, w1) \<and> dc_parse d body = Inr s)"
  using assms by (auto simp: find_container_def no_container_def split: sum.splits prod.splits if_splits)

lemma find_container_world:
  "find_container d i w = (r, w1) \<Longrightarrow> w1 = snd (docker_request d ''GET'' (container_path i @ ''/json'') [] w)"
  by (auto simp: find_container_def split: sum.splits prod.splits if_splits)

lemma docker_request_world: "snd (docker_request d meth path body w) = snd (dc_do d meth (''http://docker'' @ path) body w)"
  by (auto simp: docker_request_def split: sum.splits prod.splits)

lemma mutate_touches:
  assumes "mutate d i meth rest w = (r, w1)"
  shows "w1 = snd (docker_request d ''GET'' (container_path i @ ''/json'') [] w) \<or>
    (\<exists>body w2 s. docker_request d ''GET'' (container_path i @ ''/json'') [] w = (Inr body, w2) \<and> dc_parse d body = Inr s \<and>
       di_id s \<noteq> [] \<and> owned d i s \<and> w1 = snd (dc_do d meth (''http://docker/containers/'' @ path_escape (di_id s) @ rest) [] w2))"
proof -
  obtain got w2 where g: "find_container d i w = (got, w2)" by fastforce
  show ?thesis
  proof (cases "\<exists>s. got = Inr s \<and> di_id s \<noteq> []")
    case True
    then obtain s where s: "got = Inr s" "di_id s \<noteq> []" by blast
    have "w1 = snd (docker_request d meth (''/containers/'' @ path_escape (di_id s) @ rest) [] w2)"
      using assms g s by (auto simp: mutate_def split: sum.splits prod.splits)
    then show ?thesis using find_container_found [of d i w s w2] g s unfolding docker_request_world by auto
  next
    case False
    then have "w1 = w2" using assms g by (auto simp: mutate_def split: sum.splits)
    then show ?thesis using find_container_world [OF g] by simp
  qed
qed

section \<open>One preparation at a time\<close>

text \<open>The jobs and the keys of the goroutines that run, under any order of calls and ends.\<close>

inductive prep_run :: "'w docker \<Rightarrow> jobs \<Rightarrow> string list \<Rightarrow> bool" for d where
  prep_new: "prep_run d Map.empty []"
| prep_answered: "prep_run d p ks \<Longrightarrow> prepare d ended sees_end i p w = (Answer r, p', w') \<Longrightarrow> prep_run d p' ks"
| prep_spawned: "prep_run d p ks \<Longrightarrow> prepare d ended sees_end i p w = (Spawned, p', w') \<Longrightarrow>
    prep_run d p' (preparation_key d (in_game i) # ks)"
| prep_finished: "prep_run d p ks \<Longrightarrow> k \<in> set ks \<Longrightarrow> prep_run d (finish_job k x p) (remove1 k ks)"

definition running_keys :: "jobs \<Rightarrow> string set" where
  "running_keys p = {k. \<exists>job. p k = Some job \<and> \<not> pj_done job}"

lemma prepare_answered: "prepare d ended sees_end i p w = (Answer r, p', w') \<Longrightarrow> p' = p"
  by (auto simp: prepare_def spawn_def Let_def split: option.splits sum.splits prod.splits if_splits)

lemma prepare_spawned:
  assumes "prepare d ended sees_end i p w = (Spawned, p', w')"
  shows "preparation_key d (in_game i) \<notin> running_keys p \<and>
    (\<exists>t. p' = p(preparation_key d (in_game i) \<mapsto> \<lparr>pj_done = False, pj_started = t, pj_assets = [], pj_error = None\<rparr>))"
  using assms
  by (auto simp: prepare_def spawn_def Let_def running_keys_def split: option.splits sum.splits prod.splits if_splits)

lemma running_keys_spawn: "\<not> pj_done job \<Longrightarrow> running_keys (p(k \<mapsto> job)) = insert k (running_keys p)"
  by (auto simp: running_keys_def)

lemma running_keys_finish: "running_keys (finish_job k x p) = running_keys p - {k}"
  by (auto simp: running_keys_def finish_job_def split: option.splits if_splits)

lemma prep_run_keys: "prep_run d p ks \<Longrightarrow> distinct ks \<and> set ks = running_keys p"
proof (induction rule: prep_run.induct)
  case (prep_answered p ks ended sees_end i w r p' w')
  then show ?case using prepare_answered by metis
next
  case (prep_spawned p ks ended sees_end i w p' w')
  let ?k = "preparation_key d (in_game i)"
  obtain t where p': "p' = p(?k \<mapsto> \<lparr>pj_done = False, pj_started = t, pj_assets = [], pj_error = None\<rparr>)"
    using prepare_spawned [OF prep_spawned(2)] by blast
  have "running_keys p' = insert ?k (running_keys p)" unfolding p' by (rule running_keys_spawn) simp
  moreover have "?k \<notin> running_keys p" using prepare_spawned [OF prep_spawned(2)] by blast
  ultimately show ?case using prep_spawned.IH by simp
next
  case (prep_finished p ks k x)
  then show ?case by (simp add: running_keys_finish)
qed (simp add: running_keys_def)

lemma prepare_true:
  assumes "prepare d ended sees_end i p w = (Answer (Inr True), p', w')"
  shows "(\<exists>job. p (preparation_key d (in_game i)) = Some job \<and> pj_done job \<and> pj_error job = None) \<or>
    p (preparation_key d (in_game i)) = None \<and> dc_prepare_assets d = None \<and>
      (\<exists>body. fst (docker_request d ''GET'' (image_path (in_game i)) [] w) = Inr body)"
  using assms
  by (auto simp: prepare_def spawn_def Let_def split: option.splits sum.splits prod.splits if_splits)

section \<open>Properties\<close>

text \<open>C23. Starting, stopping or deleting an instance's container sends at most one request beyond looking
  the container up by name, and that one goes to the very container the daemon has just described with
  the instance's ID and the digest of its secret token as labels; a container of somebody else under the
  same name is never touched.\<close>

theorem docker_touches_only_its_own:
  assumes "act \<in> {docker_start d i, docker_stop d i, docker_delete d i}" and "act w = (r, w1)"
  shows "w1 = snd (docker_request d ''GET'' (container_path i @ ''/json'') [] w) \<or>
    (\<exists>body w2 s meth rest. docker_request d ''GET'' (container_path i @ ''/json'') [] w = (Inr body, w2) \<and> dc_parse d body = Inr s \<and>
       di_id s \<noteq> [] \<and> label s ''gg.insta-game.instance'' = in_id i \<and>
       label s ''gg.insta-game.owner'' = dc_sha256 d (in_agent_token i) \<and>
       w1 = snd (dc_do d meth (''http://docker/containers/'' @ path_escape (di_id s) @ rest) [] w2))"
proof -
  obtain meth rest where "mutate d i meth rest w = (r, w1)"
    using assms unfolding docker_start_def docker_stop_def docker_delete_def by blast
  from mutate_touches [OF this] show ?thesis unfolding owned_def owner_def by blast
qed

definition labelled_docker :: "string \<Rightarrow> string list docker" where
  "labelled_docker who =
     \<lparr>dc_do = (\<lambda>meth path body w. (Inr \<lparr>rs_status = 200, rs_body = who\<rparr>, (meth @ path) # w)),
      dc_parse = (\<lambda>s. Inr (no_container\<lparr>di_id := ''c1'',
        di_labels := [(''gg.insta-game.instance'', ''q1''), (''gg.insta-game.owner'', s)]\<rparr>)),
      dc_encode = (\<lambda>s. Inr []), dc_sha256 = (\<lambda>s. s), dc_listen_tcp = (\<lambda>a w. (Inr 1, w)), dc_listen_udp = (\<lambda>a w. (Inr 1, w)),
      dc_getenv = (\<lambda>n. []), dc_clock = (\<lambda>w. (0, w)), dc_stream = (\<lambda>p w. (Inr (200, []), w)), dc_prepare_assets = None,
      dc_public_host = [], dc_bind_ip = [], dc_booted_at = 0, dc_binary = [], dc_asset_version = []\<rparr>"

theorem docker_touches_only_its_own_witness:
  "\<exists>w1. docker_start (labelled_docker ''a'') desk_instance [] = (Inr (), w1) \<and>
     w1 \<noteq> snd (docker_request (labelled_docker ''a'') ''GET'' (container_path desk_instance @ ''/json'') [] []) \<and>
     (\<exists>body w2 s meth rest. dc_parse (labelled_docker ''a'') body = Inr s \<and> label s ''gg.insta-game.instance'' = ''q1'' \<and>
        w1 = snd (dc_do (labelled_docker ''a'') meth (''http://docker/containers/'' @ path_escape (di_id s) @ rest) [] w2))"
proof -
  obtain w1 where r: "docker_start (labelled_docker ''a'') desk_instance [] = (Inr (), w1)" "length w1 = 2"
    by (simp add: docker_start_def mutate_def find_container_def docker_request_def labelled_docker_def no_container_def
        owned_def owner_def label_def desk_instance_def)
  then have "w1 \<noteq> snd (docker_request (labelled_docker ''a'') ''GET'' (container_path desk_instance @ ''/json'') [] [])"
    by (auto simp: docker_request_def labelled_docker_def)
  moreover have "in_id desk_instance = ''q1''" by (simp add: desk_instance_def)
  moreover note docker_touches_only_its_own [where d = "labelled_docker ''a''" and i = desk_instance
      and act = "docker_start (labelled_docker ''a'') desk_instance", OF _ r(1)]
  ultimately show ?thesis using r(1) by (intro exI [of _ w1] conjI) (assumption | blast | metis insertI1)+
qed

text \<open>Whatever calls of \<open>Prepare\<close> and ends of background jobs happen in whatever order, at most one job runs
  per game, image and asset version, and exactly the entries not done are running; and \<open>Prepare\<close> says
  that a game is ready only when its job ended without an error, or when there is none, no assets are
  wanted and the daemon has the image.\<close>

theorem one_preparation_at_a_time:
  assumes "prep_run d p ks"
  shows "distinct ks \<and> (\<forall>k. k \<in> set ks = (\<exists>job. p k = Some job \<and> \<not> pj_done job)) \<and>
    (prepare d ended sees_end i p w = (Answer (Inr True), p', w') \<longrightarrow>
       (\<exists>job. p (preparation_key d (in_game i)) = Some job \<and> pj_done job \<and> pj_error job = None) \<or>
       p (preparation_key d (in_game i)) = None \<and> dc_prepare_assets d = None \<and>
         (\<exists>body. fst (docker_request d ''GET'' (image_path (in_game i)) [] w) = Inr body))"
  using prep_run_keys [OF assms] prepare_true [of d ended sees_end i p w p' w'] by (auto simp: running_keys_def)

theorem one_preparation_at_a_time_witness:
  "\<exists>p ks. prep_run ((labelled_docker [])\<lparr>dc_prepare_assets := Some (\<lambda>g w. (Inr ''/assets'', w))\<rparr>) p ks \<and>
     ks \<noteq> [] \<and> distinct ks \<and> (\<forall>k\<in>set ks. \<exists>job. p k = Some job \<and> \<not> pj_done job)"
proof -
  let ?d = "(labelled_docker [])\<lparr>dc_prepare_assets := Some (\<lambda>g w. (Inr ''/assets'', w))\<rparr>"
  obtain p w where s: "prepare ?d None False desk_instance Map.empty [] = (Spawned, p, w)"
    by (simp add: prepare_def spawn_def labelled_docker_def Let_def)
  have run: "prep_run ?d p [preparation_key ?d (in_game desk_instance)]" by (rule prep_spawned [OF prep_new s])
  show ?thesis using one_preparation_at_a_time [OF run] run by blast
qed

end
