(* ===== verification/AgentRcon.thy ===== *)
theory AgentRcon
  imports GoStrings
begin

text \<open>
  The agent's remote console password (internal/agent/rcon.go): the password is written into the game's
  configuration file, replacing every line that already sets it. Reading and writing the file are
  parameters. The lemmas show that exactly one line of the result sets the password.
\<close>

section \<open>The verb %q\<close>

text \<open>Bytes outside ASCII are kept, as the verb keeps the printable characters they encode.\<close>

definition quote_char :: "char \<Rightarrow> string" where
  "quote_char c =
     (let n = of_char c :: nat in
      if n = 34 \<or> n = 92 then [CHR 0x5C, c]
      else if n = 7 then [CHR 0x5C, CHR ''a''] else if n = 8 then [CHR 0x5C, CHR ''b'']
      else if n = 12 then [CHR 0x5C, CHR ''f''] else if n = 10 then [CHR 0x5C, CHR ''n'']
      else if n = 13 then [CHR 0x5C, CHR ''r''] else if n = 9 then [CHR 0x5C, CHR ''t'']
      else if n = 11 then [CHR 0x5C, CHR ''v'']
      else if n < 32 \<or> n = 127 then [CHR 0x5C, CHR ''x'', hex_char (n div 16), hex_char (n mod 16)]
      else [c])"

definition go_quote :: "string \<Rightarrow> string" where
  "go_quote s = CHR 0x22 # concat (map quote_char s) @ [CHR 0x22]"

section \<open>Directives\<close>

definition newline :: char where "newline = CHR 0x0A"

definition has_directive_prefix :: "string \<Rightarrow> string \<Rightarrow> bool" where
  "has_directive_prefix line p =
     (let t = trim_space line in
      if has_prefix t ''//'' \<or> has_prefix t ''#'' \<or> t = [] then False
      else (let t = to_lower t; p = to_lower p in
        t = p \<or> has_prefix t (p @ '' '') \<or> has_prefix t (p @ [CHR 0x09]) \<or> has_prefix t (p @ ''='')))"

fun replace_directives :: "string \<Rightarrow> string \<Rightarrow> bool \<Rightarrow> string list \<Rightarrow> string list \<times> bool" where
  "replace_directives p r found [] = ([], found)"
| "replace_directives p r found (l # ls) =
     (if has_directive_prefix l p
      then (let (rest, f) = replace_directives p r True ls in ((if found then [] else r) # rest, f))
      else (let (rest, f) = replace_directives p r found ls in (l # rest, f)))"

definition append_config_line :: "string list \<Rightarrow> string \<Rightarrow> string list" where
  "append_config_line ls l = (if ls \<noteq> [] \<and> last ls \<noteq> [] then ls @ [[]] else ls) @ [l]"

definition config_lines :: "string \<Rightarrow> string \<Rightarrow> string list \<Rightarrow> string list" where
  "config_lines p r ls =
     (let (out, found) = replace_directives p r False ls in if found then out else append_config_line out r)"

definition set_config_line ::
  "('w, string) io \<Rightarrow> (string \<Rightarrow> ('w, unit) io) \<Rightarrow> string \<Rightarrow> string \<Rightarrow> ('w, unit) io" where
  "set_config_line read' write' p r w =
     (case read' w of
        (Inl e, w) \<Rightarrow> (Inl e, w)
      | (Inr content, w) \<Rightarrow> write' (join_with [newline] (config_lines p r (split_on newline content))) w)"

section \<open>INI files\<close>

definition has_suffix :: "string \<Rightarrow> string \<Rightarrow> bool" where
  "has_suffix s x = has_prefix (rev s) (rev x)"

definition has_ini_key :: "string \<Rightarrow> string \<Rightarrow> bool" where
  "has_ini_key line key =
     (let t = trim_space line in
      if has_prefix t '';'' \<or> has_prefix t ''#'' \<or> t = [] then False
      else (let (name, rest, ok) = cut (CHR ''='') t in ok \<and> equal_fold (trim_space name) key))"

record ini_scan =
  is_inside :: bool
  is_section :: bool
  is_key :: bool
  is_insert :: nat

fun scan_ini :: "string \<Rightarrow> string \<Rightarrow> string \<Rightarrow> nat \<Rightarrow> string list \<Rightarrow> ini_scan \<Rightarrow> string list \<times> ini_scan" where
  "scan_ini header key value i [] s = ([], s)"
| "scan_ini header key value i (l # ls) s =
     (let t = trim_space l in
      if has_prefix t ''['' \<and> has_suffix t '']''
      then (let s = (if is_inside s \<and> \<not> is_key s then s\<lparr>is_insert := i\<rparr> else s);
                inside = equal_fold t header;
                (rest, s) = scan_ini header key value (i + 1) ls (s\<lparr>is_inside := inside, is_section := is_section s \<or> inside\<rparr>)
            in (l # rest, s))
      else if is_inside s \<and> has_ini_key l key
      then (let (rest, s2) = scan_ini header key value (i + 1) ls (s\<lparr>is_key := True\<rparr>)
            in ((if is_key s then [] else key @ ''='' @ value) # rest, s2))
      else (let (rest, s) = scan_ini header key value (i + 1) ls s in (l # rest, s)))"

definition ini_lines :: "string \<Rightarrow> string \<Rightarrow> string \<Rightarrow> string list \<Rightarrow> string list" where
  "ini_lines section key value ls =
     (let header = ''['' @ section @ '']''; entry = key @ ''='' @ value;
          (out, s) = scan_ini header key value 0 ls
            \<lparr>is_inside = False, is_section = False, is_key = False, is_insert = length ls\<rparr>
      in if \<not> is_section s then append_config_line out [] @ [header, entry]
         else if \<not> is_key s then take (is_insert s) out @ [entry] @ drop (is_insert s) out
         else out)"

definition set_ini_value ::
  "('w, string) io \<Rightarrow> (string \<Rightarrow> ('w, unit) io) \<Rightarrow> string \<Rightarrow> string \<Rightarrow> string \<Rightarrow> ('w, unit) io" where
  "set_ini_value read' write' section key value w =
     (case read' w of
        (Inl e, w) \<Rightarrow> (Inl e, w)
      | (Inr content, w) \<Rightarrow> write' (join_with [newline] (ini_lines section key value (split_on newline content))) w)"

section \<open>Every protocol\<close>

definition directive :: "string \<Rightarrow> string \<Rightarrow> (string \<times> string) option" where
  "directive protocol password =
     (if protocol = ''xonotic'' \<or> protocol = ''quake1''
      then Some (''rcon_password'', ''rcon_password '' @ go_quote password)
      else if protocol = ''quake3'' then Some (''seta rconPassword'', ''seta rconPassword '' @ go_quote password)
      else if protocol = ''quake2'' then Some (''set rcon_password'', ''set rcon_password '' @ go_quote password)
      else if protocol = ''bzflag'' then Some (''-passwd'', ''-passwd '' @ password)
      else None)"

definition configure_rcon ::
  "('w, string) io \<Rightarrow> (string \<Rightarrow> ('w, unit) io) \<Rightarrow> string \<Rightarrow> string \<Rightarrow> ('w, unit) io" where
  "configure_rcon read' write' protocol password w =
     (if password = [] then (Inr (), w)
      else if contains_any password [CHR 0x0D, CHR 0x0A] then (Inl (ErrMsg ''password contains newline''), w)
      else (case directive protocol password of
              Some (p, r) \<Rightarrow> set_config_line read' write' p r w
            | None \<Rightarrow>
                if protocol = ''ut99'' then set_ini_value read' write' ''Engine.AccessControl'' ''AdminPassword'' password w
                else (Inr (), w)))"

section \<open>One line sets the password\<close>

lemma trim_space_Nil [simp]: "trim_space [] = []"
  using length_trim_space [of "[]"] by simp

lemma empty_line_sets_nothing [simp]: "\<not> has_directive_prefix [] p"
  by (simp add: has_directive_prefix_def)

definition other_line :: "string \<Rightarrow> string \<Rightarrow> bool" where
  "other_line p l \<longleftrightarrow> l \<noteq> [] \<and> \<not> has_directive_prefix l p"

lemma replace_directives_sets:
  assumes "has_directive_prefix r p"
  shows "filter (\<lambda>l. has_directive_prefix l p) (fst (replace_directives p r found ls)) =
      (if found \<or> (\<forall>l\<in>set ls. \<not> has_directive_prefix l p) then [] else [r]) \<and>
    snd (replace_directives p r found ls) = (found \<or> (\<exists>l\<in>set ls. has_directive_prefix l p))"
proof (induction ls arbitrary: found)
  case (Cons l ls)
  then show ?case
    using Cons.IH [of True] Cons.IH [of found] assms by (auto simp: split_beta)
qed simp

lemma replace_directives_keeps:
  assumes "has_directive_prefix r p"
  shows "filter (other_line p) (fst (replace_directives p r found ls)) = filter (other_line p) ls"
  using assms by (induction ls arbitrary: found) (auto simp: split_beta other_line_def)

lemma config_lines_set:
  assumes "has_directive_prefix r p"
  shows "filter (\<lambda>l. has_directive_prefix l p) (config_lines p r ls) = [r]"
    and "filter (other_line p) (config_lines p r ls) = filter (other_line p) ls"
proof -
  obtain out found where o: "replace_directives p r False ls = (out, found)" by fastforce
  have "other_line p r = False" "other_line p [] = False" using assms by (simp_all add: other_line_def)
  then show "filter (\<lambda>l. has_directive_prefix l p) (config_lines p r ls) = [r]"
    "filter (other_line p) (config_lines p r ls) = filter (other_line p) ls"
    using replace_directives_sets [OF assms, of False ls] replace_directives_keeps [OF assms, of False ls] o assms
    by (auto simp: config_lines_def append_config_line_def split: if_splits)
qed

lemma quote_char_newline: "newline \<notin> set (quote_char c)"
proof -
  have hex: "newline \<noteq> hex_char d" if "d < 16" for d
  proof
    assume "newline = hex_char d"
    then have "(of_char newline :: nat) = of_char (hex_char d)" by simp
    then show False using that by (simp add: newline_def hex_char_def digit_char_def split: if_splits)
  qed
  have "of_char c < (256 :: nat)" by simp
  then show ?thesis using hex [of "of_char c div 16"] hex [of "of_char c mod 16"]
    by (auto simp: quote_char_def Let_def newline_def less_mult_imp_div_less)
qed

lemma go_quote_newline: "newline \<notin> set (go_quote s)"
  using quote_char_newline by (auto simp: go_quote_def newline_def)

lemma config_lines_newline:
  assumes "newline \<notin> set r" "\<forall>l\<in>set ls. newline \<notin> set l"
  shows "\<forall>l\<in>set (config_lines p r ls). newline \<notin> set l"
proof -
  have "\<forall>l\<in>set (fst (replace_directives p r found ls)). newline \<notin> set l" for found
    using assms by (induction ls arbitrary: found) (auto simp: split_beta)
  from this [of False] show ?thesis using assms(1)
    by (auto simp: config_lines_def append_config_line_def split_beta split: if_splits)
qed

lemma config_lines_not_Nil: "ls \<noteq> [] \<Longrightarrow> config_lines p r ls \<noteq> []"
  by (cases ls) (auto simp: config_lines_def append_config_line_def split_beta)

lemma replacement_is_directive:
  assumes "p \<noteq> []" "graphic (hd p)" "q \<noteq> []" "graphic (last q)" "\<not> has_prefix (p @ '' '' @ q) ''//''" "hd p \<noteq> CHR ''#''"
  shows "has_directive_prefix (p @ '' '' @ q) p"
proof -
  have t: "trim_space (p @ '' '' @ q) = p @ '' '' @ q"
    using assms by (intro trim_space_graphic) simp_all
  have "\<not> has_prefix (p @ '' '' @ q) ''#''" using assms(1,6) by (cases p) (simp_all add: has_prefix_def)
  moreover have "has_prefix (to_lower (p @ '' '' @ q)) (to_lower p @ '' '')"
    using has_prefix_append [of "to_lower p @ '' ''" "to_lower q"] by (simp add: to_lower_def lower_char_def)
  ultimately show ?thesis using assms(1,5) unfolding has_directive_prefix_def Let_def t by simp
qed

lemma directive_replacement:
  assumes "directive protocol password = Some (p, r)" "password \<noteq> []" "graphic (last password)"
    "\<not> contains_any password [CHR 0x0D, CHR 0x0A]"
  shows "has_directive_prefix r p \<and> newline \<notin> set r"
proof -
  have q: "graphic (last (go_quote password))" "go_quote password \<noteq> []" by (simp_all add: go_quote_def graphic_def)
  have pw: "newline \<notin> set password" using assms(4) by (auto simp: contains_any_def newline_def)
  have "\<exists>q. r = p @ '' '' @ q \<and> q \<noteq> [] \<and> graphic (last q) \<and> newline \<notin> set q"
    using assms q pw go_quote_newline by (auto simp: directive_def split: if_splits)
  then obtain q where r: "r = p @ '' '' @ q" "q \<noteq> []" "graphic (last q)" "newline \<notin> set q" by blast
  have "p \<in> {''rcon_password'', ''seta rconPassword'', ''set rcon_password'', ''-passwd''}"
    using assms(1) by (auto simp: directive_def split: if_splits)
  then have "p \<noteq> [] \<and> graphic (hd p) \<and> \<not> has_prefix (p @ '' '' @ q) ''//'' \<and> hd p \<noteq> CHR ''#'' \<and> newline \<notin> set p"
    by (auto simp: graphic_def has_prefix_def newline_def)
  then show ?thesis using replacement_is_directive [of p q] r by (auto simp: newline_def)
qed

section \<open>Properties\<close>

text \<open>For every protocol with a directive, configuring the password writes a file in which exactly one
  line sets it, to the given password, however many did before; all other lines that are not empty are
  kept in their order. Nothing in the password can end its line early.\<close>

theorem one_line_sets_the_password:
  assumes "directive protocol password = Some (p, r)" and "password \<noteq> []" and "graphic (last password)"
    and "\<not> contains_any password [CHR 0x0D, CHR 0x0A]" and "read' w = (Inr content, w1)"
  shows "\<exists>out. configure_rcon read' write' protocol password w = write' out w1 \<and>
    filter (\<lambda>l. has_directive_prefix l p) (split_on newline out) = [r] \<and>
    filter (other_line p) (split_on newline out) = filter (other_line p) (split_on newline content)"
proof -
  let ?ls = "config_lines p r (split_on newline content)"
  note r = directive_replacement [OF assms(1-4)]
  have "\<forall>l\<in>set ?ls. newline \<notin> set l" using r split_on_parts by (intro config_lines_newline) blast+
  then have split: "split_on newline (join_with [newline] ?ls) = ?ls"
    by (intro split_join_on config_lines_not_Nil) simp_all
  have "configure_rcon read' write' protocol password w = write' (join_with [newline] ?ls) w1"
    using assms by (simp add: configure_rcon_def set_config_line_def)
  then show ?thesis using config_lines_set [of r p] r split by auto
qed

theorem one_line_sets_the_password_witness:
  "\<exists>out. configure_rcon (\<lambda>w. (Inr (''seta rconPassword old'' @ [newline] @ ''map q3dm1''), w)) (\<lambda>s w. (Inr (), s))
       ''quake3'' ''secret'' [] = (Inr (), out) \<and>
     filter (\<lambda>l. has_directive_prefix l ''seta rconPassword'') (split_on newline out) = [''seta rconPassword '' @ go_quote ''secret'']"
proof -
  have d: "directive ''quake3'' ''secret'' = Some (''seta rconPassword'', ''seta rconPassword '' @ go_quote ''secret'')"
    by (simp add: directive_def)
  have p: "''secret'' \<noteq> []" "graphic (last ''secret'')" "\<not> contains_any ''secret'' [CHR 0x0D, CHR 0x0A]"
    by (simp_all add: graphic_def contains_any_def)
  show ?thesis
    using one_line_sets_the_password [OF d p, where read' = "\<lambda>w. (Inr (''seta rconPassword old'' @ [newline] @ ''map q3dm1''), w)"
        and w = "[]" and write' = "\<lambda>s w. (Inr (), s)", OF refl]
    by (elim exE conjE) (intro exI conjI)
qed

end
