(* ===== verification/WakeCommand.thy ===== *)
theory WakeCommand
  imports WakeGateway Docker ControlProperties
begin

text \<open>
  The command that runs the gateway (internal/command/wake.go) and the EC2 host it wakes
  (internal/cloud/host.go): the routes, the start of a saved game through its controller, which is what the
  gateway calls for a sleeping instance, and waking and stopping the host. HTTP, EC2, the waits and the clock
  are parameters. The loops have no bound in the source; not returning is \<open>None\<close>.
\<close>

section \<open>The host\<close>

record ec2_view =
  ev_id :: string
  ev_architecture :: string
  ev_state :: "string option"
  ev_ip :: string

record cloud_state =
  hs_id :: string
  hs_architecture :: string
  hs_state :: string
  hs_ip :: string

text \<open>\<open>ch_poll\<close> is \<open>waitPoll\<close>; \<open>ch_stack_output\<close> the output \<open>InstanceID\<close> of the stack.\<close>

record 'w cloud_host =
  ch_instance_id :: string
  ch_stack_output :: "('w, string) io"
  ch_describe :: "('w, ec2_view list list) io"
  ch_start :: "('w, unit) io"
  ch_stop :: "('w, unit) io"
  ch_wait_stopped :: "('w, unit) io"
  ch_poll :: "('w, unit) io"
  ch_console :: "('w, string \<times> (err + string) option) io"
  ch_ssh_key :: "string \<Rightarrow> string option"

definition verify_ownership :: "'w cloud_host \<Rightarrow> ('w, unit) io" where
  "verify_ownership h w =
     (case ch_stack_output h w of
        (Inl e, w) \<Rightarrow> (Inl e, w)
      | (Inr i, w) \<Rightarrow>
          (if ch_instance_id h = [] \<or> i \<noteq> ch_instance_id h
           then Inl (ErrMsg ''instance does not belong to the configured shared-host stack'') else Inr (), w))"

definition host_inspect :: "'w cloud_host \<Rightarrow> ('w, cloud_state) io" where
  "host_inspect h w =
     (case ch_describe h w of
        (Inl e, w) \<Rightarrow> (Inl e, w)
      | (Inr rs, w) \<Rightarrow>
          (case rs of
             [[x]] \<Rightarrow>
               (case ev_state x of
                  None \<Rightarrow> Inl (ErrMsg ''EC2 host has no state'')
                | Some s \<Rightarrow> Inr \<lparr>hs_id = ev_id x, hs_architecture = ev_architecture x, hs_state = s, hs_ip = ev_ip x\<rparr>)
           | _ \<Rightarrow> Inl (ErrMsg ''expected one EC2 host''), w))"

text \<open>One pass of the loop of \<open>Wake\<close>: an answer, or to wait and look again.\<close>

definition wake_pass :: "'w cloud_host \<Rightarrow> 'w \<Rightarrow> (err + string) option \<times> 'w" where
  "wake_pass h w =
     (case host_inspect h w of
        (Inl e, w) \<Rightarrow> (Some (Inl e), w)
      | (Inr s, w) \<Rightarrow>
          if hs_state s = ''running'' then (if hs_ip s \<noteq> [] then Some (Inr (hs_ip s)) else None, w)
          else if hs_state s = ''stopped'' then (case ch_start h w of (Inl e, w) \<Rightarrow> (Some (Inl e), w) | (Inr u, w) \<Rightarrow> (None, w))
          else if hs_state s = ''pending'' \<or> hs_state s = ''stopping'' then (None, w)
          else (Some (Inl (ErrMsg (''cannot wake EC2 host in state '' @ hs_state s))), w))"

partial_function (option) wake_poll :: "'w cloud_host \<Rightarrow> 'w \<Rightarrow> ((err + string) \<times> 'w) option" where
  "wake_poll h w =
     (case wake_pass h w of (x, w) \<Rightarrow>
      (case x of
         Some r \<Rightarrow> Some (r, w)
       | None \<Rightarrow>
           (case ch_poll h w of (p, w) \<Rightarrow>
            (case p of Inl e \<Rightarrow> Some (Inl e, w) | Inr u \<Rightarrow> wake_poll h w))))"

definition cloud_wake :: "'w cloud_host \<Rightarrow> 'w \<Rightarrow> ((err + string) \<times> 'w) option" where
  "cloud_wake h w = (case verify_ownership h w of (Inl e, w) \<Rightarrow> Some (Inl e, w) | (Inr u, w) \<Rightarrow> wake_poll h w)"

definition cloud_stop :: "'w cloud_host \<Rightarrow> ('w, unit) io" where
  "cloud_stop h w =
     (case verify_ownership h w of
        (Inl e, w) \<Rightarrow> (Inl e, w)
      | (Inr u, w) \<Rightarrow>
          (case host_inspect h w of
             (Inl e, w) \<Rightarrow> (Inl e, w)
           | (Inr s, w) \<Rightarrow>
               if hs_state s = ''stopped'' then (Inr (), w)
               else (case (if hs_state s \<noteq> ''stopping'' then ch_stop h w else (Inr (), w)) of
                       (Inl e, w) \<Rightarrow> (Inl e, w)
                     | (Inr u, w) \<Rightarrow> ch_wait_stopped h w)))"

text \<open>The host key lines of a console: the key they all give. \<open>key_of\<close> is the SSH library's reader of
  one Ed25519 key.\<close>

fun console_keys :: "(string \<Rightarrow> string option) \<Rightarrow> string option \<Rightarrow> string list \<Rightarrow> err + string option" where
  "console_keys key_of found [] = Inr found"
| "console_keys key_of found (l # ls) =
     (case cut_prefix (trim_space l) ''INSTA_GAME_SSH_HOST_KEY='' of
        None \<Rightarrow> console_keys key_of found ls
      | Some material \<Rightarrow>
          (case key_of material of
             None \<Rightarrow> Inl (ErrMsg ''invalid SSH host key in EC2 console'')
           | Some k \<Rightarrow>
               if found \<noteq> None \<and> found \<noteq> Some k then Inl (ErrMsg ''conflicting SSH host keys in EC2 console'')
               else console_keys key_of (Some k) ls))"

definition console_host_key :: "(string \<Rightarrow> string option) \<Rightarrow> string \<Rightarrow> err + string option" where
  "console_host_key key_of output = console_keys key_of None (split_on (CHR 0x0A) output)"

definition key_pass :: "'w cloud_host \<Rightarrow> 'w \<Rightarrow> (err + string) option \<times> 'w" where
  "key_pass h w =
     (case ch_console h w of
        (Inl e, w) \<Rightarrow> (Some (Inl e), w)
      | (Inr (i, output), w) \<Rightarrow>
          (if i \<noteq> ch_instance_id h then Some (Inl (ErrMsg ''console response belongs to another instance''))
           else (case output of
                   None \<Rightarrow> None
                 | Some (Inl e) \<Rightarrow> Some (Inl (ErrWrap ''decode EC2 console: '' e))
                 | Some (Inr text) \<Rightarrow>
                     (case console_host_key (ch_ssh_key h) text of
                        Inl e \<Rightarrow> Some (Inl e) | Inr (Some k) \<Rightarrow> Some (Inr k) | Inr None \<Rightarrow> None)), w))"

partial_function (option) console_key_loop :: "'w cloud_host \<Rightarrow> 'w \<Rightarrow> ((err + string) \<times> 'w) option" where
  "console_key_loop h w =
     (case key_pass h w of (x, w) \<Rightarrow>
      (case x of
         Some r \<Rightarrow> Some (r, w)
       | None \<Rightarrow>
           (case ch_poll h w of (p, w) \<Rightarrow>
            (case p of
               Inl e \<Rightarrow> Some (Inl (ErrWrap ''waiting for authenticated SSH host key: '' e), w)
             | Inr u \<Rightarrow> console_key_loop h w))))"

section \<open>Routes\<close>

record wake_target =
  wt_id :: string
  wt_protocol :: string
  wt_port :: int

text \<open>\<open>strings.Cut\<close> at the first \<open>://\<close>.\<close>

fun cut_scheme :: "string \<Rightarrow> (string \<times> string) option" where
  "cut_scheme [] = None"
| "cut_scheme (c # cs) =
     (if has_prefix (c # cs) ''://'' then Some ([], drop 3 (c # cs))
      else (case cut_scheme cs of None \<Rightarrow> None | Some (a, b) \<Rightarrow> Some (c # a, b)))"

definition parse_route :: "string \<Rightarrow> err + (string \<times> wake_target \<times> mapping)" where
  "parse_route value =
     (let (listen, i, ok) = cut (CHR ''='') value in
      if \<not> ok \<or> trim_space i = [] then Inl (ErrMsg ''route must be listen-address=instance-id'')
      else (let (protocol, listen) = (case cut_scheme listen of None \<Rightarrow> (''quake1'', listen) | Some (s, a) \<Rightarrow> (s, a));
                m = \<lparr>mp_listen = listen, mp_instance = i, mp_protocol = protocol\<rparr>;
                (base, port, has_port) = cut (CHR ''/'') i
            in if \<not> has_port then Inr (i, \<lparr>wt_id = i, wt_protocol = protocol, wt_port = 0\<rparr>, m)
               else if trim_space base = [] then Inl (ErrMsg ''route requires a game ID'')
               else (case atoi port of
                       None \<Rightarrow> Inl (ErrMsg ''invalid catalog port'')
                     | Some n \<Rightarrow>
                         if n < 1 \<or> 65535 < n then Inl (ErrMsg ''invalid catalog port'')
                         else Inr (i, \<lparr>wt_id = base, wt_protocol = protocol, wt_port = n\<rparr>, m))))"

section \<open>Starting a game\<close>

text \<open>What the waker uses: requests to the controller with its token, the decoder of an instance, the
  clock, and the wait of a second, which gives the error of the context if that ended.\<close>

record 'w waker =
  wk_do :: "string \<Rightarrow> string \<Rightarrow> ('w, http_response) io"
  wk_instance :: "string \<Rightarrow> err + inst"
  wk_clock :: "'w \<Rightarrow> time \<times> 'w"
  wk_wait :: "('w, unit) io"
  wk_cloud :: "'w cloud_host option"
  wk_target :: wake_target

datatype wake_err = MissingGame | ControllerHTTP int | WakeOther err

fun wake_error :: "string \<Rightarrow> wake_err \<Rightarrow> err" where
  "wake_error i MissingGame = ErrWrap (''game '' @ i @ '': '') (ErrMsg ''file does not exist'')"
| "wake_error i (ControllerHTTP s) = ErrMsg (''controller HTTP '' @ show_int s)"
| "wake_error i (WakeOther e) = e"

fun wake_final :: "wake_err \<Rightarrow> bool" where
  "wake_final MissingGame = True"
| "wake_final (ControllerHTTP s) = (400 \<le> s \<and> s < 500 \<and> s \<noteq> 408 \<and> s \<noteq> 409 \<and> s \<noteq> 429)"
| "wake_final (WakeOther e) = False"

definition wake_request :: "'w waker \<Rightarrow> string \<Rightarrow> string \<Rightarrow> 'w \<Rightarrow> (wake_err + string) \<times> 'w" where
  "wake_request k meth address w =
     (case wk_do k meth address w of
        (Inl e, w) \<Rightarrow> (Inl (WakeOther e), w)
      | (Inr r, w) \<Rightarrow>
          (if rs_status r = 404 then Inl MissingGame
           else if rs_status r < 200 \<or> 300 \<le> rs_status r then Inl (ControllerHTTP (rs_status r))
           else Inr (rs_body r), w))"

definition read_instance :: "'w waker \<Rightarrow> string \<Rightarrow> 'w \<Rightarrow> (wake_err + inst) \<times> 'w" where
  "read_instance k address w =
     (case wake_request k ''GET'' address w of
        (Inl e, w) \<Rightarrow> (Inl e, w)
      | (Inr body, w) \<Rightarrow> (case wk_instance k body of Inl e \<Rightarrow> Inl (WakeOther e) | Inr i \<Rightarrow> Inr i, w))"

definition instances_url :: "string \<Rightarrow> string \<Rightarrow> string" where
  "instances_url base i = base @ ''/api/instances/'' @ path_escape i"

definition cloud_base :: "string \<Rightarrow> string" where
  "cloud_base ip = ''https://'' @ join_host_port ip ''3000''"

record wake_state =
  ws_base :: string
  ws_observed_at :: time
  ws_last_wake :: time
  ws_started :: bool

definition wake_ready :: "inst \<Rightarrow> bool" where
  "wake_ready i \<longleftrightarrow>
     in_phase i = ''running'' \<and> in_desired i = ''running'' \<and> in_error i = [] \<and> in_players i \<noteq> None \<and> connect i \<noteq> []"

definition target_address :: "wake_target \<Rightarrow> inst \<Rightarrow> err + string" where
  "target_address t i =
     (if wt_port t = 0 then Inr (connect i)
      else (case List.find (\<lambda>e. ep_port e = wt_port t) (in_endpoints i) of
              Some e \<Rightarrow> Inr (ep_address e)
            | None \<Rightarrow> Inl (ErrMsg (''game '' @ wt_id t @ '' has no endpoint for catalog port '' @ show_int (wt_port t)))))"

text \<open>A turn that read an instance: an answer, or the error of the start request and the new state.\<close>

definition seen_instance ::
  "'w waker \<Rightarrow> inst \<Rightarrow> wake_state \<Rightarrow> 'w \<Rightarrow> ((err + string) + wake_err option \<times> wake_state) \<times> 'w" where
  "seen_instance k i s w =
     (let t = wk_target k;
          fresh = (\<not> is_zero (ws_observed_at s) \<and> in_updated_at i \<noteq> ws_observed_at s);
          s = (if is_zero (ws_observed_at s) then s\<lparr>ws_observed_at := in_updated_at i\<rparr> else s)
      in if gm_protocol (in_game i) \<noteq> wt_protocol t
         then (Inl (Inl (ErrMsg (''route protocol '' @ wt_protocol t @ '' does not match game protocol '' @ gm_protocol (in_game i)))), w)
         else if fresh \<and> (in_phase i = ''deleted'' \<or> in_phase i = ''failed'')
         then (Inl (Inl (ErrMsg (''game '' @ wt_id t @ '' is '' @ in_phase i @ '': '' @ in_error i))), w)
         else (let (e, s, w) =
                 (if in_desired i = ''stopped'' \<and> \<not> ws_started s
                  then (case wake_request k ''POST'' (ws_base s @ ''/start'') w of
                          (Inl e, w) \<Rightarrow> (Some e, s, w)
                        | (Inr body, w) \<Rightarrow> (None, s\<lparr>ws_started := True\<rparr>, w))
                  else (None, s, w))
               in if fresh \<and> e = None \<and> wake_ready i then (Inl (target_address t i), w) else (Inr (e, s), w)))"

text \<open>After an error that does not end the attempt, the host is woken again, at most every ten seconds.\<close>

definition wake_again :: "'w waker \<Rightarrow> wake_err option \<Rightarrow> wake_state \<Rightarrow> 'w \<Rightarrow> ((err + wake_state) \<times> 'w) option" where
  "wake_again k e s w =
     (case (e, wk_cloud k) of
        (Some f, Some h) \<Rightarrow>
          (case wk_clock k w of (t, w) \<Rightarrow>
             if time_sub t (ws_last_wake s) < 10 * second then Some (Inr s, w)
             else (case cloud_wake h w of
                     None \<Rightarrow> None
                   | Some (Inl f, w) \<Rightarrow> Some (Inl f, w)
                   | Some (Inr ip, w) \<Rightarrow>
                       (let (t, w) = wk_clock k w
                        in Some (Inr \<lparr>ws_base = instances_url (cloud_base ip) (wt_id (wk_target k)), ws_observed_at = zero_time,
                                  ws_last_wake = t, ws_started = False\<rparr>, w))))
      | _ \<Rightarrow> Some (Inr s, w))"

text \<open>One turn of the loop, without the wait.\<close>

definition wake_turn :: "'w waker \<Rightarrow> wake_state \<Rightarrow> 'w \<Rightarrow> (((err + string) + wake_state) \<times> 'w) option" where
  "wake_turn k s w =
     (let (x, w) = (case read_instance k (ws_base s) w of
                      (Inl e, w) \<Rightarrow> (Inr (Some e, s), w) | (Inr i, w) \<Rightarrow> seen_instance k i s w)
      in case x of
           Inl r \<Rightarrow> Some (Inl r, w)
         | Inr (e, s) \<Rightarrow>
             (case e of
                Some f \<Rightarrow> if wake_final f then Some (Inl (Inl (wake_error (wt_id (wk_target k)) f)), w)
                          else (case wake_again k e s w of
                                  None \<Rightarrow> None | Some (Inl g, w) \<Rightarrow> Some (Inl (Inl g), w) | Some (Inr s, w) \<Rightarrow> Some (Inr s, w))
              | None \<Rightarrow> Some (Inr s, w)))"

partial_function (option) wake_loop :: "'w waker \<Rightarrow> wake_state \<Rightarrow> 'w \<Rightarrow> ((err + string) \<times> 'w) option" where
  "wake_loop k s w =
     (case wake_turn k s w of
        None \<Rightarrow> None
      | Some xw \<Rightarrow>
          (case xw of (x, w) \<Rightarrow>
           (case x of
              Inl r \<Rightarrow> Some (r, w)
            | Inr s \<Rightarrow>
                (case wk_wait k w of (p, w) \<Rightarrow>
                 (case p of Inl e \<Rightarrow> Some (Inl e, w) | Inr u \<Rightarrow> wake_loop k s w)))))"

definition trim_slashes :: "string \<Rightarrow> string" where
  "trim_slashes s = rev (dropWhile (\<lambda>c. c = CHR ''/'') (rev s))"

definition wake_game :: "'w waker \<Rightarrow> string \<Rightarrow> 'w \<Rightarrow> ((err + string) \<times> 'w) option" where
  "wake_game k url w =
     (let run = (\<lambda>url w. let (t, w) = wk_clock k w in
                  wake_loop k \<lparr>ws_base = instances_url (trim_slashes url) (wt_id (wk_target k)), ws_observed_at = zero_time,
                    ws_last_wake = t, ws_started = False\<rparr> w)
      in case wk_cloud k of
           None \<Rightarrow> run url w
         | Some h \<Rightarrow>
             (case cloud_wake h w of
                None \<Rightarrow> None
              | Some (Inl e, w) \<Rightarrow> Some (Inl e, w)
              | Some (Inr ip, w) \<Rightarrow> run (cloud_base ip) w))"

section \<open>What an answer rests on\<close>

definition read_from :: "'w waker \<Rightarrow> string \<Rightarrow> inst \<Rightarrow> bool" where
  "read_from k base i \<longleftrightarrow> (\<exists>w1 w2. read_instance k base w1 = (Inr i, w2))"

definition wake_state_ok :: "'w waker \<Rightarrow> wake_state \<Rightarrow> bool" where
  "wake_state_ok k s \<longleftrightarrow>
     is_zero (ws_observed_at s) \<or> (\<exists>j. read_from k (ws_base s) j \<and> in_updated_at j = ws_observed_at s)"

definition answered :: "'w waker \<Rightarrow> string \<Rightarrow> bool" where
  "answered k a \<longleftrightarrow>
     (\<exists>base i j. read_from k base i \<and> read_from k base j \<and> in_updated_at i \<noteq> in_updated_at j \<and>
        gm_protocol (in_game i) = wt_protocol (wk_target k) \<and> wake_ready i \<and> target_address (wk_target k) i = Inr a)"

lemma seen_instance_ok:
  assumes "seen_instance k i s w = (x, w1)" "wake_state_ok k s" "read_from k (ws_base s) i"
  shows "(\<forall>a. x = Inl (Inr a) \<longrightarrow> answered k a) \<and> (\<forall>e s1. x = Inr (e, s1) \<longrightarrow> wake_state_ok k s1)"
proof -
  define s0 where "s0 = (if is_zero (ws_observed_at s) then s\<lparr>ws_observed_at := in_updated_at i\<rparr> else s)"
  have base: "ws_base s0 = ws_base s" by (simp add: s0_def)
  have ok0: "wake_state_ok k s0" using assms(2,3) by (auto simp: s0_def wake_state_ok_def)
  then have ok1: "wake_state_ok k (s0\<lparr>ws_started := True\<rparr>)" by (simp add: wake_state_ok_def)
  have ans: "answered k a" if "\<not> is_zero (ws_observed_at s)" "in_updated_at i \<noteq> ws_observed_at s" "wake_ready i"
    "gm_protocol (in_game i) = wt_protocol (wk_target k)" "target_address (wk_target k) i = Inr a" for a
    using that assms(2,3) unfolding answered_def wake_state_ok_def by metis
  show ?thesis
    using assms(1) ok0 ok1 ans
    by (auto simp: seen_instance_def Let_def s0_def [symmetric] split: sum.splits prod.splits if_splits)
qed

lemma wake_again_ok:
  "wake_again k e s w = Some (Inr s1, w1) \<Longrightarrow> wake_state_ok k s \<Longrightarrow> wake_state_ok k s1"
  by (auto simp: wake_again_def wake_state_ok_def is_zero_def split: option.splits prod.splits sum.splits if_splits)

lemma wake_turn_ok:
  assumes "wake_turn k s w = Some (x, w1)" "wake_state_ok k s"
  shows "(\<forall>a. x = Inl (Inr a) \<longrightarrow> answered k a) \<and> (\<forall>s1. x = Inr s1 \<longrightarrow> wake_state_ok k s1)"
proof -
  obtain y w2 where y: "(case read_instance k (ws_base s) w of
      (Inl e, w) \<Rightarrow> (Inr (Some e, s), w) | (Inr i, w) \<Rightarrow> seen_instance k i s w) = (y, w2)" by fastforce
  have "(\<forall>a. y = Inl (Inr a) \<longrightarrow> answered k a) \<and> (\<forall>e s1. y = Inr (e, s1) \<longrightarrow> wake_state_ok k s1)"
  proof (cases "read_instance k (ws_base s) w")
    case (Pair r w3)
    then show ?thesis
      using y assms(2) seen_instance_ok [of k _ s w3 y w2] by (cases r) (auto simp: read_from_def)
  qed
  then show ?thesis
    using assms(1) wake_again_ok unfolding wake_turn_def y Let_def
    by (auto split: sum.splits prod.splits option.splits if_splits)
qed

lemma wake_loop_answers:
  assumes "wake_loop k s w = Some (Inr a, w1)" "wake_state_ok k s"
  shows "answered k a"
proof -
  have "\<forall>a w1. y = (Inr a, w1) \<longrightarrow> wake_state_ok k s \<longrightarrow> answered k a"
    if "wake_loop k s w = Some y" for k :: "'a waker" and s w and y :: "(err + string) \<times> 'a"
  proof (rule wake_loop.raw_induct [where P = "\<lambda>k s w y. \<forall>a w1. y = (Inr a, w1) \<longrightarrow> wake_state_ok k s \<longrightarrow> answered k a",
        OF _ that], intro allI impI)
    fix loop :: "'a waker \<Rightarrow> wake_state \<Rightarrow> 'a \<Rightarrow> ((err + string) \<times> 'a) option"
      and k :: "'a waker" and s w and y :: "(err + string) \<times> 'a" and a w1
    assume IH: "\<And>k s w (y :: (err + string) \<times> 'a). loop k s w = Some y \<Longrightarrow> \<forall>a w1. y = (Inr a, w1) \<longrightarrow> wake_state_ok k s \<longrightarrow> answered k a"
      and y: "y = (Inr a, w1)" and ok: "wake_state_ok k s"
    assume "(case wake_turn k s w of
        None \<Rightarrow> None
      | Some xw \<Rightarrow>
          (case xw of (x, w) \<Rightarrow>
           (case x of
              Inl r \<Rightarrow> Some (r, w)
            | Inr s \<Rightarrow>
                (case wk_wait k w of (p, w) \<Rightarrow>
                 (case p of Inl e \<Rightarrow> Some (Inl e, w) | Inr u \<Rightarrow> loop k s w))))) = Some y"
    then show "answered k a"
      using y wake_turn_ok [OF _ ok] IH by (auto split: option.splits prod.splits sum.splits)
  qed
  then show ?thesis using assms by blast
qed

section \<open>Properties\<close>

text \<open>C24. The gateway's start of a game, if it answers with an address, has read an instance of the route's
  protocol from the controller that runs and is meant to, without an error, with a player count and an
  address, whose record has changed since another read of the same controller, so its reconciler was
  alive; the address is the instance's own, or that of the route's catalog port.\<close>

theorem wake_answers_are_fresh:
  assumes "wake_game k url w = Some (Inr a, w1)"
  shows "\<exists>base i j. (\<exists>w2 w3. read_instance k base w2 = (Inr i, w3)) \<and> (\<exists>w2 w3. read_instance k base w2 = (Inr j, w3)) \<and>
    in_updated_at i \<noteq> in_updated_at j \<and> gm_protocol (in_game i) = wt_protocol (wk_target k) \<and>
    in_phase i = ''running'' \<and> in_desired i = ''running'' \<and> in_error i = [] \<and> in_players i \<noteq> None \<and>
    (if wt_port (wk_target k) = 0 then a = connect i \<and> a \<noteq> []
     else \<exists>e\<in>set (in_endpoints i). ep_port e = wt_port (wk_target k) \<and> a = ep_address e)"
proof -
  obtain s w2 where l: "wake_loop k s w2 = Some (Inr a, w1)" "is_zero (ws_observed_at s)"
    using assms
    by (auto simp: wake_game_def Let_def is_zero_def split: option.splits prod.splits sum.splits if_splits)
  then have "answered k a" using wake_loop_answers [OF l(1)] by (simp add: wake_state_ok_def)
  then obtain base i j where i: "read_from k base i" "read_from k base j" "in_updated_at i \<noteq> in_updated_at j"
    "gm_protocol (in_game i) = wt_protocol (wk_target k)" "wake_ready i" "target_address (wk_target k) i = Inr a"
    unfolding answered_def by blast
  have "if wt_port (wk_target k) = 0 then a = connect i \<and> a \<noteq> []
     else \<exists>e\<in>set (in_endpoints i). ep_port e = wt_port (wk_target k) \<and> a = ep_address e"
    using i(5,6) by (auto simp: target_address_def wake_ready_def find_Some_iff split: if_splits option.splits)
  then show ?thesis using i unfolding read_from_def wake_ready_def by blast
qed

definition counting_waker :: "nat waker" where
  "counting_waker =
     \<lparr>wk_do = (\<lambda>meth address w. (Inr \<lparr>rs_status = 200, rs_body = show_nat w\<rparr>, Suc w)),
      wk_instance = (\<lambda>s. Inr (desk_instance\<lparr>in_phase := ''running'', in_players := Some 0, in_updated_at := int (read_digits s),
        in_endpoints := [\<lparr>ep_port = 26000, ep_protocol = ''udp'', ep_address = ''192.0.2.1:26000''\<rparr>]\<rparr>)),
      wk_clock = (\<lambda>w. (0, w)), wk_wait = (\<lambda>w. (Inr (), w)), wk_cloud = None,
      wk_target = \<lparr>wt_id = ''q1'', wt_protocol = ''quake1'', wt_port = 0\<rparr>\<rparr>"

theorem wake_answers_are_fresh_witness:
  "\<exists>w1. wake_game counting_waker ''http://127.0.0.1:3000/'' 0 = Some (Inr ''192.0.2.1:26000'', w1) \<and>
     (\<exists>i base w2 w3. read_instance counting_waker base w2 = (Inr i, w3) \<and> in_phase i = ''running'' \<and> connect i = ''192.0.2.1:26000'')"
proof -
  define k where "k = counting_waker"
  have turn: "wake_turn k s w =
      (if is_zero (ws_observed_at s) then Some (Inr (s\<lparr>ws_observed_at := int w\<rparr>), Suc w)
       else if int w = ws_observed_at s then Some (Inr s, Suc w) else Some (Inl (Inr ''192.0.2.1:26000''), Suc w))" for s w
    by (simp add: k_def counting_waker_def wake_turn_def read_instance_def wake_request_def seen_instance_def desk_instance_def
        desk_game_def wake_ready_def connect_def target_address_def)
  have wait: "wk_wait k w = (Inr (), w)" for w by (simp add: k_def counting_waker_def)
  have z: "\<not> is_zero (0 :: int)" by (simp add: is_zero_def zero_time_def second_def)
  have "wake_loop k s 0 = Some (Inr ''192.0.2.1:26000'', 2)" if "is_zero (ws_observed_at s)" for s
    by (subst wake_loop.simps, subst wake_loop.simps) (simp add: turn wait that z numeral_2_eq_2)
  then obtain w1 where r: "wake_game k ''http://127.0.0.1:3000/'' 0 = Some (Inr ''192.0.2.1:26000'', w1)"
    by (simp add: wake_game_def k_def counting_waker_def is_zero_def)
  have "wt_port (wk_target k) = 0" by (simp add: k_def counting_waker_def)
  with wake_answers_are_fresh [OF r] obtain i base w2 w3 where
    "read_instance k base w2 = (Inr i, w3)" "in_phase i = ''running''" "connect i = ''192.0.2.1:26000''" by fastforce
  then show ?thesis using r unfolding k_def by blast
qed

end
