(* ===== verification/ControlHTTP.thy ===== *)
theory ControlHTTP
  imports ControlProperties FleetPage
begin

text \<open>
  The host controller's HTTP interface (internal/control/http.go) and its Discord bot (discord.go).
  A handler returns the status and the body it replies with. Paths are those Go's multiplexer hands out,
  clean and without escapes. Ed25519, JSON and the embedded files are parameters: a decoder of a request
  body returns the first value and what follows it. The text of \<open>%q\<close> is kept without escapes.
\<close>

section \<open>Requests and replies\<close>

record interaction =
  it_id :: string
  it_type :: int
  it_guild :: string
  it_name :: string
  it_options :: "(string \<times> string) list"

datatype api_body =
    Problem string
  | Providers "string list" string
  | Catalog "game list"
  | Instances "inst list"
  | OneInstance inst
  | Desired string
  | Sent
  | Stream string
  | Asset string
  | Pong
  | Message string

type_synonym api_reply = "int \<times> api_body"

record api_request =
  ar_method :: string
  ar_path :: string
  ar_authorization :: string
  ar_timestamp :: string
  ar_signature :: string
  ar_body :: "err + string"

text \<open>The controller's fields that only this interface reads, and the libraries it calls.\<close>

record site =
  si_token :: string
  si_discord_key :: string
  si_discord_guild :: string
  si_providers :: "string list"
  si_verify :: "string \<Rightarrow> string \<Rightarrow> nat list \<Rightarrow> bool"
  si_interaction :: "string \<Rightarrow> err + interaction"
  si_create :: "string \<Rightarrow> err + (create_request \<times> string)"
  si_console :: "string \<Rightarrow> err + (string \<times> string)"
  si_command :: "string \<Rightarrow> string"
  si_asset :: "string \<Rightarrow> api_reply"

definition body_limit :: nat where
  "body_limit = 2 ^ 20"

definition body_too_large :: err where
  "body_too_large = ErrMsg ''http: request body too large''"

text \<open>\<open>io.ReadAll\<close> of a body behind \<open>http.MaxBytesReader\<close>.\<close>

definition read_body :: "err + string \<Rightarrow> err + string" where
  "read_body body =
     (case body of Inl e \<Rightarrow> Inl e | Inr s \<Rightarrow> if body_limit < length s then Inl body_too_large else Inr s)"

definition json_space :: "char \<Rightarrow> bool" where
  "json_space c \<longleftrightarrow> c \<in> set [CHR 0x20, CHR 0x09, CHR 0x0A, CHR 0x0D]"

definition read_json :: "(string \<Rightarrow> err + ('a \<times> string)) \<Rightarrow> err + string \<Rightarrow> err + 'a" where
  "read_json decoder body =
     (case read_body body of
        Inl e \<Rightarrow> Inl e
      | Inr s \<Rightarrow>
          (case decoder s of
             Inl e \<Rightarrow> Inl e
           | Inr (v, rest) \<Rightarrow>
               if list_all json_space rest then Inr v else Inl (ErrMsg ''expected one JSON object'')))"

text \<open>An encoded instance leaves out the private fields.\<close>

definition write_error :: "err \<Rightarrow> api_reply" where
  "write_error e =
     (let status = (if err_is e ErrShuttingDown then 503 else 500);
          status = (if err_is e ErrNotFound then 404 else status)
      in (status, Problem (err_text e)))"

section \<open>Discord\<close>

text \<open>The width of the valid UTF-8 sequence a string starts with, or 0.\<close>

definition tail_byte :: "nat \<Rightarrow> bool" where
  "tail_byte b \<longleftrightarrow> 0x80 \<le> b \<and> b \<le> 0xBF"

fun rune_width :: "nat list \<Rightarrow> nat" where
  "rune_width [] = 0"
| "rune_width (a # bs) =
     (if a < 0x80 then 1
      else if 0xC2 \<le> a \<and> a \<le> 0xDF then (case bs of b # _ \<Rightarrow> if tail_byte b then 2 else 0 | _ \<Rightarrow> 0)
      else if 0xE0 \<le> a \<and> a \<le> 0xEF
      then (case bs of b # c # _ \<Rightarrow>
              if (if a = 0xE0 then 0xA0 \<le> b \<and> b \<le> 0xBF else if a = 0xED then 0x80 \<le> b \<and> b \<le> 0x9F else tail_byte b) \<and>
                 tail_byte c then 3 else 0
            | _ \<Rightarrow> 0)
      else if 0xF0 \<le> a \<and> a \<le> 0xF4
      then (case bs of b # c # d # _ \<Rightarrow>
              if (if a = 0xF0 then 0x90 \<le> b \<and> b \<le> 0xBF else if a = 0xF4 then 0x80 \<le> b \<and> b \<le> 0x8F else tail_byte b) \<and>
                 tail_byte c \<and> tail_byte d then 4 else 0
            | _ \<Rightarrow> 0)
      else 0)"

text \<open>\<open>strings.ToValidUTF8\<close> with an empty replacement.\<close>

function valid_utf8 :: "string \<Rightarrow> string" where
  "valid_utf8 [] = []"
| "valid_utf8 (c # cs) =
     (let n = rune_width (map of_char (c # cs)) in
      if n = 0 then valid_utf8 cs else take n (c # cs) @ valid_utf8 (drop n (c # cs)))"
  by pat_completeness auto
termination by (relation "measure length") auto

declare valid_utf8.simps(2) [simp del]

definition em_dash :: string where
  "em_dash = [CHR 0xE2, CHR 0x80, CHR 0x94]"

definition ellipsis :: string where
  "ellipsis = [CHR 0xE2, CHR 0x80, CHR 0xA6]"

definition backquoted :: "string \<Rightarrow> string" where
  "backquoted s = CHR 0x60 # s @ [CHR 0x60]"

definition discord_status :: "inst \<Rightarrow> string" where
  "discord_status i =
     (let content = backquoted (in_id i) @ '': '' @ in_phase i;
          content = (if connect i \<noteq> [] then content @ '' '' @ em_dash @ '' '' @ backquoted (connect i) else content)
      in case in_players i of
           None \<Rightarrow> content
         | Some n \<Rightarrow> content @ '' '' @ em_dash @ '' '' @ show_int n @ '' players'')"

fun status_lines :: "nat \<Rightarrow> inst list \<Rightarrow> string list" where
  "status_lines n [] = []"
| "status_lines n (i # is) =
     (if in_phase i = ''deleted'' then status_lines n is
      else discord_status i #
        (if Suc n = 20 then [''See the web UI or CLI for the full list.''] else status_lines (Suc n) is))"

definition option_value :: "(string \<times> string) list \<Rightarrow> string \<Rightarrow> string" where
  "option_value options k = (case map_of (rev options) k of None \<Rightarrow> [] | Some v \<Rightarrow> v)"

definition discord_create :: "string \<Rightarrow> (string \<times> string) list \<Rightarrow> create_request" where
  "discord_create i options =
     \<lparr>cq_provider = option_value options ''provider'', cq_id = ''discord-'' @ i, cq_game = option_value options ''game'',
      cq_name = option_value options ''name'', cq_config = None, cq_idle_minutes = 10, cq_max_minutes = 120\<rparr>"

definition discord_command ::
  "('w, 't) controller \<Rightarrow> bool \<Rightarrow> string \<Rightarrow> string \<Rightarrow> (string \<times> string) list \<Rightarrow> ('w, string) io" where
  "discord_command ct down i name options w =
     (let server = option_value options ''server'' in
      if name = ''create''
      then (if i = [] then (Inl (ErrMsg ''missing interaction ID''), w)
            else (case create_instance ct down (discord_create i options) w of
                    (Inl e, w) \<Rightarrow> (Inl e, w)
                  | (Inr x, w) \<Rightarrow>
                      (Inr (''Created '' @ backquoted (in_id x) @ '' ('' @ in_phase x @
                            ''). Use /status to check readiness.''), w)))
      else if name = ''start'' \<or> name = ''stop''
      then (let desired = (if name = ''start'' then ''running'' else ''stopped'') in
            case set_desired_op ct down server desired w of
              (Inl e, w) \<Rightarrow> (Inl e, w)
            | (Inr u, w) \<Rightarrow> (Inr (backquoted server @ '': requested '' @ desired @ ''.''), w))
      else if name = ''status''
      then (if server \<noteq> []
            then (case db_get (ct_db ct) server w of
                    (Inl e, w) \<Rightarrow> (Inl e, w)
                  | (Inr x, w) \<Rightarrow> (Inr (discord_status x), w))
            else (case db_list (ct_db ct) w of
                    (Inl e, w) \<Rightarrow> (Inl e, w)
                  | (Inr is, w) \<Rightarrow>
                      (let lines = status_lines 0 is in
                       (Inr (if lines = [] then ''No servers.'' else join_with [CHR 0x0A] lines), w))))
      else (Inl (ErrMsg (''unknown command '' @ quoted name)), w))"

definition discord_content :: "err + string \<Rightarrow> string" where
  "discord_content r =
     (let content = (case r of Inl e \<Rightarrow> err_text e | Inr s \<Rightarrow> s) in
      if 1800 < length content then valid_utf8 (take 1800 content) @ ellipsis else content)"

text \<open>What the signature check lets through, at the time \<open>t\<close>.\<close>

definition discord_signed :: "site \<Rightarrow> api_request \<Rightarrow> string \<Rightarrow> time \<Rightarrow> bool" where
  "discord_signed st q body t =
     (case (atoi (ar_timestamp q), hex_decode (ar_signature q)) of
        (Some seconds, Some signature) \<Rightarrow>
          (let age = time_sub t (seconds * second) in
           age \<le> 5 * minute \<and> - 5 * minute \<le> age \<and>
           si_verify st (si_discord_key st) (ar_timestamp q @ body) signature)
      | _ \<Rightarrow> False)"

definition discord_answer ::
  "site \<Rightarrow> ('w, 't) controller \<Rightarrow> bool \<Rightarrow> string \<Rightarrow> 'w \<Rightarrow> api_reply \<times> 'w" where
  "discord_answer st ct down body w =
     (case si_interaction st body of
        Inl e \<Rightarrow> ((400, Problem ''invalid interaction''), w)
      | Inr it \<Rightarrow>
          if it_type it = 1 then ((200, Pong), w)
          else if it_guild it \<noteq> si_discord_guild st then ((403, Problem ''guild is not allowed''), w)
          else if it_type it \<noteq> 2 then ((400, Problem ''unsupported interaction''), w)
          else (let (r, w) = discord_command ct down (it_id it) (it_name it) (it_options it) w
                in ((200, Message (discord_content r)), w)))"

definition discord :: "site \<Rightarrow> ('w, 't) controller \<Rightarrow> bool \<Rightarrow> api_request \<Rightarrow> 'w \<Rightarrow> api_reply \<times> 'w" where
  "discord st ct down q w =
     (case read_body (ar_body q) of
        Inl e \<Rightarrow> ((400, Problem ''invalid interaction body''), w)
      | Inr body \<Rightarrow>
          (let (t, w) = ct_clock ct w in
           if \<not> discord_signed st q body t then ((401, Problem ''invalid interaction signature''), w)
           else discord_answer st ct down body w))"

text \<open>The commands registered with Discord: name, description, options.\<close>

record command_option =
  co_name :: string
  co_description :: string
  co_required :: bool
  co_choices :: "(string \<times> string) list option"

definition discord_commands :: "game list \<Rightarrow> (string \<times> string \<times> command_option list) list" where
  "discord_commands games =
     (let opt = (\<lambda>name description required.
            \<lparr>co_name = name, co_description = description, co_required = required, co_choices = None\<rparr>);
          choices = map (\<lambda>g. (gm_display_name g, gm_id g)) games;
          game = opt ''game'' ''Game to launch'' True;
          game = (if length choices \<le> 25 then game\<lparr>co_choices := Some choices\<rparr> else game)
      in [(''create'', ''Create an independent game server'',
            [game, opt ''name'' ''Server name'' True,
             opt ''provider'' ''Execution provider (controller default if omitted)'' False]),
          (''start'', ''Start a stopped server'', [opt ''server'' ''Server instance ID'' True]),
          (''stop'', ''Stop a server and retain its data'', [opt ''server'' ''Server instance ID'' True]),
          (''status'', ''Show server status and addresses'', [opt ''server'' ''Server instance ID (omit to list)'' False])])"

section \<open>The routes\<close>

datatype route =
    RDiscord | RProviders | RCatalog | RList | RCreate | RGet string | RAction string string
  | RDelete string | RLogs string | RConsole string | RStatic | RNone

definition discord_on :: "site \<Rightarrow> bool" where
  "discord_on st \<longleftrightarrow> length (si_discord_key st) = 32 \<and> si_discord_guild st \<noteq> []"

text \<open>The most specific registered pattern; \<open>GET\<close> patterns also match \<open>HEAD\<close>.\<close>

definition instance_route :: "string \<Rightarrow> string list \<Rightarrow> route option" where
  "instance_route meth segs =
     (case segs of
        [i] \<Rightarrow>
          if i = [] then None
          else if meth = ''GET'' \<or> meth = ''HEAD'' then Some (RGet i)
          else if meth = ''DELETE'' then Some (RDelete i) else None
      | [i, a] \<Rightarrow>
          if i = [] \<or> a = [] then None
          else if meth = ''POST'' then Some (if a = ''console'' then RConsole i else RAction i a)
          else if (meth = ''GET'' \<or> meth = ''HEAD'') \<and> a = ''logs'' then Some (RLogs i) else None
      | _ \<Rightarrow> None)"

definition api_route :: "string \<Rightarrow> string list \<Rightarrow> route option" where
  "api_route meth segs =
     (let get = (meth = ''GET'' \<or> meth = ''HEAD'') in
      if segs = [''providers''] \<and> get then Some RProviders
      else if segs = [''catalog''] \<and> get then Some RCatalog
      else if segs = [''instances''] \<and> get then Some RList
      else if segs = [''instances''] \<and> meth = ''POST'' then Some RCreate
      else if segs \<noteq> [] \<and> hd segs = ''instances'' then instance_route meth (tl segs) else None)"

definition route_of :: "site \<Rightarrow> string \<Rightarrow> string \<Rightarrow> route" where
  "route_of st meth path =
     (case (if has_prefix path ''/api/'' then api_route meth (split_on CHR ''/'' (drop 5 path))
            else if path = ''/discord'' \<and> meth = ''POST'' \<and> discord_on st then Some RDiscord else None) of
        Some r \<Rightarrow> r
      | None \<Rightarrow> if meth = ''GET'' \<or> meth = ''HEAD'' then RStatic else RNone)"

section \<open>The handlers\<close>

definition provider_of :: "('w, 't) controller \<Rightarrow> inst \<Rightarrow> err + 'w provider" where
  "provider_of ct i =
     (case ct_providers ct (in_provider i) of
        None \<Rightarrow> Inl (ErrMsg (''provider '' @ quoted (in_provider i) @ '' is not configured''))
      | Some p \<Rightarrow> Inr p)"

text \<open>The instance, and what its provider says of it.\<close>

definition inspect_instance :: "('w, 't) controller \<Rightarrow> inst \<Rightarrow> ('w, observation) io" where
  "inspect_instance ct i w =
     (case provider_of ct i of Inl e \<Rightarrow> (Inl e, w) | Inr p \<Rightarrow> pv_inspect p i w)"

definition api_list :: "('w, 't) controller \<Rightarrow> 'w \<Rightarrow> api_reply \<times> 'w" where
  "api_list ct w =
     (case db_list (ct_db ct) w of
        (Inl e, w) \<Rightarrow> (write_error e, w)
      | (Inr is, w) \<Rightarrow> ((200, Instances (map public (filter (\<lambda>i. in_phase i \<noteq> ''deleted'') is))), w))"

definition create_status :: "err \<Rightarrow> int" where
  "create_status e =
     (let status = (if err_is e ErrInstanceConflict then 409 else 400) in
      if err_is e ErrShuttingDown then 503 else status)"

definition api_create :: "site \<Rightarrow> ('w, 't) controller \<Rightarrow> bool \<Rightarrow> err + string \<Rightarrow> 'w \<Rightarrow> api_reply \<times> 'w" where
  "api_create st ct down body w =
     (case read_json (si_create st) body of
        Inl e \<Rightarrow> ((400, Problem (err_text e)), w)
      | Inr q \<Rightarrow>
          (case create_instance ct down q w of
             (Inl e, w) \<Rightarrow> ((create_status e, Problem (err_text e)), w)
           | (Inr i, w) \<Rightarrow> ((202, OneInstance (public i)), w)))"

definition api_get :: "('w, 't) controller \<Rightarrow> string \<Rightarrow> 'w \<Rightarrow> api_reply \<times> 'w" where
  "api_get ct i w =
     (case db_get (ct_db ct) i w of
        (Inl e, w) \<Rightarrow> (write_error e, w)
      | (Inr x, w) \<Rightarrow> ((200, OneInstance (public x)), w))"

definition api_intent :: "('w, 't) controller \<Rightarrow> bool \<Rightarrow> string \<Rightarrow> string \<Rightarrow> 'w \<Rightarrow> api_reply \<times> 'w" where
  "api_intent ct down i desired w =
     (case set_desired_op ct down i desired w of
        (Inl e, w) \<Rightarrow> (write_error e, w)
      | (Inr u, w) \<Rightarrow> ((202, Desired desired), w))"

definition api_action :: "('w, 't) controller \<Rightarrow> bool \<Rightarrow> string \<Rightarrow> string \<Rightarrow> 'w \<Rightarrow> api_reply \<times> 'w" where
  "api_action ct down i a w =
     (let desired = (if a = ''start'' then ''running'' else if a = ''stop'' then ''stopped'' else []) in
      if desired = [] then ((404, Problem ''404 page not found''), w) else api_intent ct down i desired w)"

definition api_delete :: "('w, 't) controller \<Rightarrow> bool \<Rightarrow> string \<Rightarrow> 'w \<Rightarrow> api_reply \<times> 'w" where
  "api_delete ct down i w = api_intent ct down i ''deleted'' w"

definition api_console :: "site \<Rightarrow> ('w, 't) controller \<Rightarrow> string \<Rightarrow> err + string \<Rightarrow> 'w \<Rightarrow> api_reply \<times> 'w" where
  "api_console st ct i body w =
     (case db_get (ct_db ct) i w of
        (Inl e, w) \<Rightarrow> (write_error e, w)
      | (Inr x, w) \<Rightarrow>
          (case read_json (si_console st) body of
             Inl e \<Rightarrow> ((400, Problem (err_text e)), w)
           | Inr command \<Rightarrow>
               (case inspect_instance ct x w of
                  (Inl e, w) \<Rightarrow> (write_error e, w)
                | (Inr ob, w) \<Rightarrow>
                    (case agent_request ct x (ob_agent_url ob) ''POST'' ''/console'' (si_command st command) w of
                       (Inl e, w) \<Rightarrow> (write_error e, w)
                     | (Inr s, w) \<Rightarrow> ((200, Sent), w)))))"

text \<open>The agent's stream is copied until it or the client ends.\<close>

definition api_logs :: "('w, 't) controller \<Rightarrow> string \<Rightarrow> 'w \<Rightarrow> api_reply \<times> 'w" where
  "api_logs ct i w =
     (case db_get (ct_db ct) i w of
        (Inl e, w) \<Rightarrow> (write_error e, w)
      | (Inr x, w) \<Rightarrow>
          (case inspect_instance ct x w of
             (Inl e, w) \<Rightarrow> (write_error e, w)
           | (Inr ob, w) \<Rightarrow>
               if ob_agent_url ob = [] then ((409, Problem ''Server is not running''), w)
               else (case ct_http ct \<lparr>rq_method = ''GET'', rq_url = ob_agent_url ob @ ''/logs'',
                         rq_bearer = in_agent_token x, rq_pinned = True, rq_body = []\<rparr> w of
                       (Inl e, w) \<Rightarrow> (write_error e, w)
                     | (Inr r, w) \<Rightarrow>
                         if rs_status r \<noteq> 200 then ((502, Problem ''Agent logs unavailable''), w)
                         else ((200, Stream (rs_body r)), w))))"

fun dispatch :: "site \<Rightarrow> ('w, 't) controller \<Rightarrow> bool \<Rightarrow> api_request \<Rightarrow> route \<Rightarrow> 'w \<Rightarrow> api_reply \<times> 'w" where
  "dispatch st ct down q RDiscord w = discord st ct down q w"
| "dispatch st ct down q RProviders w = ((200, Providers (sort (si_providers st)) (ct_default ct)), w)"
| "dispatch st ct down q RCatalog w = ((200, Catalog (ct_games ct)), w)"
| "dispatch st ct down q RList w = api_list ct w"
| "dispatch st ct down q RCreate w = api_create st ct down (ar_body q) w"
| "dispatch st ct down q (RGet i) w = api_get ct i w"
| "dispatch st ct down q (RAction i a) w = api_action ct down i a w"
| "dispatch st ct down q (RDelete i) w = api_delete ct down i w"
| "dispatch st ct down q (RLogs i) w = api_logs ct i w"
| "dispatch st ct down q (RConsole i) w = api_console st ct i (ar_body q) w"
| "dispatch st ct down q RStatic w = (si_asset st (ar_path q), w)"
| "dispatch st ct down q RNone w = ((405, Problem ''Method Not Allowed''), w)"

definition bearer_ok :: "site \<Rightarrow> api_request \<Rightarrow> bool" where
  "bearer_ok st q \<longleftrightarrow> si_token st \<noteq> [] \<and> trim_prefix (ar_authorization q) ''Bearer '' = si_token st"

definition serve :: "site \<Rightarrow> ('w, 't) controller \<Rightarrow> bool \<Rightarrow> api_request \<Rightarrow> 'w \<Rightarrow> api_reply \<times> 'w" where
  "serve st ct down q w =
     (if has_prefix (ar_path q) ''/api/'' \<and> \<not> bearer_ok st q
      then ((401, Problem ''Controller token required''), w)
      else dispatch st ct down q (route_of st (ar_method q) (ar_path q)) w)"

section \<open>What gets through\<close>

lemma route_discord: "route_of st m p = RDiscord \<Longrightarrow> p = ''/discord'' \<and> discord_on st"
  by (auto simp: route_of_def api_route_def instance_route_def Let_def
      split: if_splits option.splits list.splits)

lemma route_outside_api:
  "\<not> has_prefix p ''/api/'' \<Longrightarrow> route_of st m p \<in> {RDiscord, RStatic, RNone}"
  by (auto simp: route_of_def split: if_splits option.splits)

text \<open>Only a signed command of the guild gets past the clock.\<close>

lemma discord_effect:
  assumes "discord st ct down q w = ((code, b), w')" "w' \<noteq> w" "w' \<noteq> snd (ct_clock ct w)"
  shows "\<exists>body it. read_body (ar_body q) = Inr body \<and> discord_signed st q body (fst (ct_clock ct w)) \<and>
    si_interaction st body = Inr it \<and> it_guild it = si_discord_guild st \<and> it_type it = 2"
  using assms
  by (auto simp: discord_def discord_answer_def split: sum.splits prod.splits if_splits)

lemma length_valid_utf8: "length (valid_utf8 s) \<le> length s"
proof (induction s rule: valid_utf8.induct)
  case (2 c cs)
  then show ?case by (subst valid_utf8.simps) (force simp: Let_def)
qed simp

text \<open>An answer fits into a Discord message of 2000 characters.\<close>

lemma discord_content_fits: "length (discord_content r) \<le> 1803"
  using length_valid_utf8 [of "take 1800 (case r of Inl e \<Rightarrow> err_text e | Inr s \<Rightarrow> s)"]
  by (auto simp: discord_content_def ellipsis_def Let_def)

lemma set_desired_value: "set_desired d t i = Inr j \<Longrightarrow> in_desired j = d"
  by (auto simp: set_desired_def Let_def split: if_splits)

context controller_world
begin

text \<open>A successful intent was the stored one at some instant of the call.\<close>

lemma intent_recorded:
  assumes "set_desired_op ct down k d w = (Inr u, w')"
  shows "\<not> down \<and> (\<exists>m i. store_step (recs w) m \<and> m k = Some i \<and> in_desired i = d \<and> store_step m (recs w'))"
proof -
  have down: "\<not> down" and ok: "intent_ok d" and up: "db_update db k (set_desired d) w = (Inr u, w')"
    using assms by (auto simp: set_desired_op_def ct_db split: if_splits)
  obtain x where "bo_update bolt (update_txn js k (set_desired d)) w = (Inr x, w')"
    using up by (auto simp: db_update_def split: sum.splits prod.splits)
  then obtain m t b where m: "store_step (recs w) (instances js m)" "update_txn js k (set_desired d) t m = Inr (b, x)"
    "store_step (instances js b) (recs w')" using update_done by blast
  obtain i where i: "instances js m k = Some i" "set_desired d t i = Inr x" "instances js b = (instances js m)(k \<mapsto> x)"
    using update_txn_cases [OF m(2) json] by blast
  have "store_step (instances js m) (instances js b)"
    unfolding i(3) by (rule store_step_update [of "instances js m", OF i(1)]) (rule set_desired_step [OF ok i(2)])
  then have "store_step (recs w) (instances js b)" using m(1) store_step_trans by blast
  then show ?thesis using down i(2,3) m(3) set_desired_value by (intro conjI exI [of _ "instances js b"]) auto
qed

end

section \<open>A host with one game\<close>

definition desk_site :: site where
  "desk_site =
     \<lparr>si_token = ''secret'', si_discord_key = replicate 32 CHR ''k'', si_discord_guild = ''1'', si_providers = [''docker''],
      si_verify = (\<lambda>key m sig. sig = [1]), si_interaction = (\<lambda>s. Inl ErrBusy), si_create = (\<lambda>s. Inl ErrBusy),
      si_console = (\<lambda>s. Inr (s, [])), si_command = id, si_asset = (\<lambda>p. (404, Problem ''404 page not found''))\<rparr>"

definition stop_request :: api_request where
  "stop_request =
     \<lparr>ar_method = ''POST'', ar_path = ''/api/instances/q1/stop'', ar_authorization = ''Bearer secret'',
      ar_timestamp = [], ar_signature = [], ar_body = Inr []\<rparr>"

definition desk_record :: "inst \<Rightarrow> stored" where
  "desk_record i = \<lparr>sd_instance = public i, sd_agent_token = in_agent_token i, sd_request_id = in_request_id i,
     sd_rcon_password = in_rcon_password i\<rparr>"

definition busy_desk :: desk where
  "busy_desk = empty_desk\<lparr>dk_bucket := [(''q1'', desk_record desk_instance)]\<rparr>"

definition stopping_instance :: inst where
  "stopping_instance = desk_instance\<lparr>in_generation := in_generation desk_instance + 1, in_desired := ''stopped'',
     in_error := [], in_stop_reason := [], in_empty_since := zero_time\<rparr>"

definition stopped_desk :: desk where
  "stopped_desk = busy_desk\<lparr>dk_bucket := [(''q1'', desk_record stopping_instance)],
     dk_clock := dk_clock busy_desk + second\<rparr>"

lemma desk_record: "encode memory_json i = Inr (desk_record i)" "decode memory_json (Some (desk_record i)) = Inr i"
  by (simp_all add: encode_def decode_def memory_json_def desk_record_def public_def)

lemma desk_stops: "set_desired_op desk_controller False ''q1'' ''stopped'' busy_desk = (Inr (), stopped_desk)"
proof -
  have d: "set_desired ''stopped'' t desk_instance = Inr stopping_instance" for t
    by (simp add: set_desired_def stopping_instance_def desk_instance_def)
  show ?thesis
    by (simp add: set_desired_op_def intent_ok_def desk_controller_def db_update_def desk_bolt_def desk_bucket_def
        busy_desk_def stopped_desk_def bucket_ok_def update_txn_def desk_record d)
qed

lemma desk_route:
  "route_of desk_site (ar_method stop_request) (ar_path stop_request) = RAction ''q1'' ''stop''"
  by (simp add: route_of_def stop_request_def has_prefix_def api_route_def instance_route_def)

lemma desk_serves:
  "serve desk_site desk_controller False stop_request busy_desk = ((202, Desired ''stopped''), stopped_desk)"
  by (simp add: serve_def desk_route api_action_def api_intent_def desk_stops bearer_ok_def)
    (simp add: desk_site_def stop_request_def trim_prefix_def has_prefix_def)

lemma desk_moves: "stopped_desk \<noteq> busy_desk \<and> stopped_desk \<noteq> snd (ct_clock desk_controller busy_desk)"
proof -
  have "in_desired (sd_instance (desk_record stopping_instance)) \<noteq> in_desired (sd_instance (desk_record desk_instance))"
    by (simp add: desk_record_def public_def stopping_instance_def desk_instance_def)
  then have "dk_bucket stopped_desk \<noteq> dk_bucket busy_desk" by (auto simp: stopped_desk_def busy_desk_def)
  moreover have "dk_bucket (snd (ct_clock desk_controller busy_desk)) = dk_bucket busy_desk"
    by (simp add: desk_controller_def)
  ultimately show ?thesis by metis
qed

section \<open>Properties\<close>

text \<open>C25. Nothing but the clock moves for a request unless it carries the controller's token, which is
  not empty, or is a POST to /discord whose body of at most 1 MiB is signed under the configured key with a
  timestamp at most five minutes away and holds a command from the configured guild.\<close>

theorem changes_need_a_key:
  assumes "serve st ct down q w = ((code, b), w')" and "w' \<noteq> w" and "w' \<noteq> snd (ct_clock ct w)"
  shows "has_prefix (ar_path q) ''/api/'' \<and> si_token st \<noteq> [] \<and>
      trim_prefix (ar_authorization q) ''Bearer '' = si_token st \<or>
    ar_path q = ''/discord'' \<and> length (si_discord_key st) = 32 \<and> si_discord_guild st \<noteq> [] \<and>
      (\<exists>body seconds signature it. ar_body q = Inr body \<and> length body \<le> 2 ^ 20 \<and>
        atoi (ar_timestamp q) = Some seconds \<and> hex_decode (ar_signature q) = Some signature \<and>
        \<bar>fst (ct_clock ct w) - seconds * second\<bar> \<le> 5 * minute \<and>
        si_verify st (si_discord_key st) (ar_timestamp q @ body) signature \<and>
        si_interaction st body = Inr it \<and> it_guild it = si_discord_guild st)"
proof (cases "has_prefix (ar_path q) ''/api/''")
  case True
  then show ?thesis using assms by (auto simp: serve_def bearer_ok_def split: if_splits)
next
  case False
  let ?r = "route_of st (ar_method q) (ar_path q)"
  have r: "?r = RDiscord"
    using route_outside_api [OF False, of st "ar_method q"] assms False by (auto simp: serve_def)
  then have "discord st ct down q w = ((code, b), w')" using assms(1) False by (simp add: serve_def)
  then obtain body it where d: "read_body (ar_body q) = Inr body" "discord_signed st q body (fst (ct_clock ct w))"
    "si_interaction st body = Inr it" "it_guild it = si_discord_guild st"
    using discord_effect [OF _ assms(2,3)] by blast
  have b: "ar_body q = Inr body" "length body \<le> 2 ^ 20"
    using d(1) by (auto simp: read_body_def body_limit_def split: sum.splits if_splits)
  obtain seconds signature where g: "atoi (ar_timestamp q) = Some seconds" "hex_decode (ar_signature q) = Some signature"
    "time_sub (fst (ct_clock ct w)) (seconds * second) \<le> 5 * minute"
    "- 5 * minute \<le> time_sub (fst (ct_clock ct w)) (seconds * second)"
    "si_verify st (si_discord_key st) (ar_timestamp q @ body) signature"
    using d(2) by (auto simp: discord_signed_def Let_def split: option.splits)
  have "\<bar>fst (ct_clock ct w) - seconds * second\<bar> \<le> 5 * minute"
    using g(3,4) by (auto simp: time_sub_def minute_def second_def)
  then show ?thesis using b d(3,4) g(1,2,5) route_discord [OF r] discord_on_def by blast
qed

theorem changes_need_a_key_witness:
  "\<exists>rep u. serve desk_site desk_controller False stop_request busy_desk = (rep, u) \<and> u \<noteq> busy_desk \<and>
     trim_prefix (ar_authorization stop_request) ''Bearer '' = si_token desk_site"
proof -
  obtain c b u where r: "serve desk_site desk_controller False stop_request busy_desk = ((c, b), u)"
    by (metis prod.collapse)
  have u: "u \<noteq> busy_desk \<and> u \<noteq> snd (ct_clock desk_controller busy_desk)"
    using r desk_moves by (simp add: desk_serves)
  have "ar_path stop_request \<noteq> ''/discord''" by (simp add: stop_request_def)
  then have "trim_prefix (ar_authorization stop_request) ''Bearer '' = si_token desk_site"
    using changes_need_a_key [OF r] u by blast
  then show ?thesis using r u by blast
qed

text \<open>C26. A start, stop or delete request with the token is answered 202 exactly if the intent was recorded,
  and then it was the stored intent of that instance at an instant of the call; a host that shuts down
  answers 503 and changes nothing; a failure for a missing instance is answered 404, another one 500.\<close>

theorem intents_are_answered_truthfully:
  assumes "controller_world bolt js bucket ct" and "bearer_ok st q"
    and "route_of st (ar_method q) (ar_path q) = r"
    and "r = RAction k ''start'' \<and> d = ''running'' \<or> r = RAction k ''stop'' \<and> d = ''stopped'' \<or>
      r = RDelete k \<and> d = ''deleted''"
    and "serve st ct down q w = ((code, b), w')" and "set_desired_op ct down k d w = (done, u)"
  shows "w' = u \<and> (down \<longrightarrow> code = 503 \<and> w' = w) \<and> (code = 202 \<longleftrightarrow> done = Inr ()) \<and>
    (\<forall>e. done = Inl e \<longrightarrow> code = (if err_is e ErrNotFound then 404 else if err_is e ErrShuttingDown then 503 else 500)) \<and>
    (code = 202 \<longrightarrow> (\<exists>m i. store_step (instances js (bucket w)) m \<and> m k = Some i \<and> in_desired i = d \<and>
      store_step m (instances js (bucket w'))))"
proof -
  have "api_intent ct down k d w = ((code, b), w')"
    using assms(2-5) by (auto simp: serve_def api_action_def api_delete_def)
  then have c: "w' = u \<and> code = (case done of Inr x \<Rightarrow> 202 | Inl e \<Rightarrow> fst (write_error e))"
    using assms(6) by (auto simp: api_intent_def split: sum.splits)
  have e: "fst (write_error e) = (if err_is e ErrNotFound then 404 else if err_is e ErrShuttingDown then 503 else 500)" for e
    by (simp add: write_error_def)
  have "down \<Longrightarrow> done = Inl ErrShuttingDown \<and> u = w" using assms(6) by (simp add: set_desired_op_def)
  moreover have "done = Inr () \<Longrightarrow> \<exists>m i. store_step (instances js (bucket w)) m \<and> m k = Some i \<and> in_desired i = d \<and>
      store_step m (instances js (bucket w'))"
    using controller_world.intent_recorded [OF assms(1)] assms(6) c by blast
  ultimately show ?thesis using c by (auto simp: e split: sum.splits)
qed

theorem intents_are_answered_truthfully_witness:
  "\<exists>b u. serve desk_site desk_controller False stop_request busy_desk = ((202, b), u)"
proof -
  obtain c b u where r: "serve desk_site desk_controller False stop_request busy_desk = ((c, b), u)"
    by (metis prod.collapse)
  have s: "set_desired_op desk_controller False ''q1'' ''stopped'' busy_desk = (Inr (), stopped_desk)"
    by (rule desk_stops)
  have t: "bearer_ok desk_site stop_request" by (simp add: bearer_ok_def desk_site_def stop_request_def trim_prefix_def has_prefix_def)
  have "c = 202"
    using intents_are_answered_truthfully [OF desk.controller_world_axioms t desk_route _ r s] by simp
  then show ?thesis using r by blast
qed

end
