(* ===== verification/Paths.thy ===== *)
theory Paths
  imports GoStrings
begin

text \<open>
  Go's \<open>path/filepath\<close> on Unix, as the repository uses it: \<open>Clean\<close>, \<open>Join\<close>,
  \<open>Dir\<close>, \<open>Base\<close> and \<open>IsLocal\<close>. The lemmas relate \<open>IsLocal\<close> to a walk that
  never climbs above its start, and show that the other functions keep a path below it.
\<close>

section \<open>The functions\<close>

definition slash :: char where
  "slash = CHR ''/''"

definition elements :: "string \<Rightarrow> string list" where
  "elements p = split_on slash p"

text \<open>The elements that are left of a path; the accumulated ones are in reverse.\<close>

fun clean_elements :: "bool \<Rightarrow> string list \<Rightarrow> string list \<Rightarrow> string list" where
  "clean_elements rooted acc [] = rev acc"
| "clean_elements rooted acc (e # es) =
     (if e = [] \<or> e = ''.'' then clean_elements rooted acc es
      else if e = ''..''
      then (case acc of
              a # as \<Rightarrow> if a \<noteq> ''..'' then clean_elements rooted as es else clean_elements rooted (e # acc) es
            | [] \<Rightarrow> if rooted then clean_elements rooted [] es else clean_elements rooted [e] es)
      else clean_elements rooted (e # acc) es)"

definition is_abs :: "string \<Rightarrow> bool" where
  "is_abs p \<longleftrightarrow> has_prefix p [slash]"

definition clean :: "string \<Rightarrow> string" where
  "clean p =
     (if p = [] then ''.''
      else (let es = clean_elements (is_abs p) [] (elements p) in
        if is_abs p then slash # join_with [slash] es
        else if es = [] then ''.'' else join_with [slash] es))"

definition path_join :: "string list \<Rightarrow> string" where
  "path_join es = (case dropWhile (\<lambda>e. e = []) es of [] \<Rightarrow> [] | e # es \<Rightarrow> clean (join_with [slash] (e # es)))"

definition path_dir :: "string \<Rightarrow> string" where
  "path_dir p = clean (rev (dropWhile (\<lambda>c. c \<noteq> slash) (rev p)))"

definition path_base :: "string \<Rightarrow> string" where
  "path_base p =
     (if p = [] then ''.''
      else (let p = rev (takeWhile (\<lambda>c. c \<noteq> slash) (dropWhile (\<lambda>c. c = slash) (rev p))) in
        if p = [] then [slash] else p))"

definition is_local :: "string \<Rightarrow> bool" where
  "is_local p \<longleftrightarrow>
     (if is_abs p \<or> p = [] then False
      else (let p = (if ''.'' \<in> set (elements p) \<or> ''..'' \<in> set (elements p) then clean p else p) in
        p \<noteq> ''..'' \<and> \<not> has_prefix p ''../''))"

section \<open>Walks\<close>

text \<open>Following the elements from a directory \<open>d\<close> levels below the start, without leaving it.\<close>

fun stays :: "nat \<Rightarrow> string list \<Rightarrow> bool" where
  "stays d [] = True"
| "stays d (e # es) =
     (if e = [] \<or> e = ''.'' then stays d es
      else if e = ''..'' then 0 < d \<and> stays (d - 1) es else stays (Suc d) es)"

definition inside :: "string \<Rightarrow> bool" where
  "inside p \<longleftrightarrow> p \<noteq> [] \<and> \<not> is_abs p \<and> stays 0 (elements p)"

definition plain_name :: "string \<Rightarrow> bool" where
  "plain_name e \<longleftrightarrow> e \<noteq> [] \<and> e \<noteq> ''.'' \<and> e \<noteq> ''..'' \<and> slash \<notin> set e"

lemma stays_no_dots: "''..'' \<notin> set es \<Longrightarrow> stays d es"
  by (induction es arbitrary: d) auto

lemma stays_append_plain: "stays d es \<Longrightarrow> plain_name e \<or> e = ''.'' \<Longrightarrow> stays d (es @ [e])"
  by (induction d es rule: stays.induct) (auto simp: plain_name_def)

text \<open>What is left begins with the climbs, as many as there were and more.\<close>

lemma clean_elements_shape:
  assumes "acc = as @ replicate k ''..''" "''..'' \<notin> set as"
  shows "\<exists>n bs. clean_elements False acc es = replicate n ''..'' @ bs \<and> ''..'' \<notin> set bs \<and> k \<le> n \<and>
    (k = 0 \<longrightarrow> (stays (length as) es \<longleftrightarrow> n = 0))"
  using assms
proof (induction es arbitrary: acc as k)
  case Nil
  then show ?case by (intro exI [of _ k] exI [of _ "rev as"]) auto
next
  case (Cons e es)
  consider "e = [] \<or> e = ''.''" | "e = ''..''" "as = []" | a as' where "e = ''..''" "as = a # as'"
    | "e \<noteq> []" "e \<noteq> ''.''" "e \<noteq> ''..''" by (cases as) auto
  then show ?case
  proof cases
    case 1
    then show ?thesis using Cons.IH [OF Cons.prems] by auto
  next
    case 2
    have "clean_elements False acc (e # es) = clean_elements False (replicate (Suc k) ''..'') es"
      using 2 Cons.prems by (cases k) simp_all
    moreover obtain n bs where "clean_elements False (replicate (Suc k) ''..'') es = replicate n ''..'' @ bs"
      "''..'' \<notin> set bs" "Suc k \<le> n"
      using Cons.IH [of "replicate (Suc k) ''..''" "[]" "Suc k"] by auto
    ultimately show ?thesis using 2 by (intro exI [of _ n] exI [of _ bs]) auto
  next
    case 3
    then have "clean_elements False acc (e # es) = clean_elements False (as' @ replicate k ''..'') es"
      using Cons.prems by auto
    then show ?thesis using Cons.IH [of "as' @ replicate k ''..''" as' k] Cons.prems 3 by auto
  next
    case 4
    then have "clean_elements False acc (e # es) = clean_elements False ((e # as) @ replicate k ''..'') es"
      using Cons.prems by simp
    then show ?thesis using Cons.IH [of "(e # as) @ replicate k ''..''" "e # as" k] Cons.prems(2) 4 by auto
  qed
qed

lemma clean_elements_stays:
  "stays 0 es \<longleftrightarrow> ''..'' \<notin> set (clean_elements False [] es)"
  "''..'' \<in> set (clean_elements False [] es) \<Longrightarrow> \<exists>bs. clean_elements False [] es = ''..'' # bs"
proof -
  obtain n bs where n: "clean_elements False [] es = replicate n ''..'' @ bs" "''..'' \<notin> set bs" "stays 0 es \<longleftrightarrow> n = 0"
    using clean_elements_shape [of "[]" "[]" 0 es] by auto
  then show "stays 0 es \<longleftrightarrow> ''..'' \<notin> set (clean_elements False [] es)" by auto
  show "\<exists>bs. clean_elements False [] es = ''..'' # bs" if "''..'' \<in> set (clean_elements False [] es)"
    using that n by (cases n) auto
qed

lemma clean_elements_parts:
  "\<forall>e\<in>set es. slash \<notin> set e \<Longrightarrow> \<forall>e\<in>set acc. plain_name e \<or> e = ''..'' \<Longrightarrow>
   \<forall>e\<in>set (clean_elements r acc es). plain_name e \<or> e = ''..''"
proof (induction es arbitrary: acc)
  case (Cons e es)
  let ?good = "\<lambda>acc. \<forall>a\<in>set acc. plain_name a \<or> a = ''..''"
  have e: "plain_name e" if "e \<noteq> []" "e \<noteq> ''.''" "e \<noteq> ''..''" using that Cons.prems(1) by (simp add: plain_name_def)
  consider "e = [] \<or> e = ''.''" | "e = ''..''" "acc = []" | a as where "e = ''..''" "acc = a # as" "a = ''..''"
    | a as where "e = ''..''" "acc = a # as" "a \<noteq> ''..''" | "e \<noteq> []" "e \<noteq> ''.''" "e \<noteq> ''..''"
    by (cases acc) auto
  then have "\<exists>acc'. ?good acc' \<and> clean_elements r acc (e # es) = clean_elements r acc' es"
  proof cases
    case 1
    then show ?thesis using Cons.prems(2) by (intro exI [of _ acc]) auto
  next
    case 2
    then show ?thesis by (intro exI [of _ "if r then [] else [e]"]) auto
  next
    case 3
    then show ?thesis using Cons.prems(2) by (intro exI [of _ "e # acc"]) auto
  next
    case 4
    then show ?thesis using Cons.prems(2) by (intro exI [of _ as]) auto
  next
    case 5
    then show ?thesis using Cons.prems(2) e by (intro exI [of _ "e # acc"]) auto
  qed
  then obtain acc' where "?good acc'" "clean_elements r acc (e # es) = clean_elements r acc' es" by blast
  then show ?case using Cons.IH Cons.prems(1) by simp
qed simp

lemma elements_parts: "e \<in> set (elements p) \<Longrightarrow> slash \<notin> set e"
  using split_on_parts by (auto simp: elements_def)

lemma elements_join: "es \<noteq> [] \<Longrightarrow> \<forall>e\<in>set es. slash \<notin> set e \<Longrightarrow> elements (join_with [slash] es) = es"
  by (simp add: elements_def split_join_on)

lemma join_plain_start: "plain_name a \<Longrightarrow> join_with [slash] (a # as) \<noteq> [] \<and> \<not> is_abs (join_with [slash] (a # as))"
proof -
  assume a: "plain_name a"
  obtain c cs where "a = c # cs" "c \<noteq> slash" using a by (cases a) (auto simp: plain_name_def)
  then show ?thesis by (cases as) (simp_all add: is_abs_def has_prefix_def)
qed

lemma dots_elements: "elements ''.'' = [''.'']" "elements ''..'' = [''..'']"
  by (simp_all add: elements_def slash_def)

section \<open>Local paths\<close>

text \<open>The elements of a path that stays, cleaned.\<close>

lemma clean_inside:
  assumes "inside p"
  shows "clean p = ''.'' \<or> elements (clean p) \<noteq> [] \<and> (\<forall>e\<in>set (elements (clean p)). plain_name e)" "inside (clean p)"
proof -
  let ?es = "clean_elements False [] (elements p)"
  have parts: "\<forall>e\<in>set ?es. plain_name e"
    using clean_elements_parts [of "elements p" "[]" False] elements_parts clean_elements_stays(1) [of "elements p"] assms
    by (auto simp: inside_def)
  have c: "clean p = (if ?es = [] then ''.'' else join_with [slash] ?es)"
    using assms by (simp add: inside_def clean_def)
  have e: "elements (join_with [slash] ?es) = ?es" if "?es \<noteq> []"
    using that parts by (intro elements_join) (auto simp: plain_name_def)
  show 1: "clean p = ''.'' \<or> elements (clean p) \<noteq> [] \<and> (\<forall>e\<in>set (elements (clean p)). plain_name e)"
    using c e parts by auto
  show "inside (clean p)"
  proof (cases "?es = []")
    case True
    then show ?thesis using c by (simp add: inside_def is_abs_def has_prefix_def slash_def elements_def)
  next
    case False
    then obtain a as where a: "?es = a # as" by (cases ?es) auto
    then have "plain_name a" using parts by simp
    then have "join_with [slash] ?es \<noteq> []" "\<not> is_abs (join_with [slash] ?es)"
      unfolding a using join_plain_start by fastforce+
    moreover have "''..'' \<notin> set ?es" using parts by (auto simp: plain_name_def)
    ultimately show ?thesis using c False e stays_no_dots by (simp add: inside_def)
  qed
qed

lemma prefix_up: "has_prefix p ''../'' \<Longrightarrow> ''..'' \<in> set (elements p)"
proof -
  assume "has_prefix p ''../''"
  then obtain s where "p = ''..'' @ slash # s" by (auto simp: has_prefix_prefix prefix_def slash_def)
  then show ?thesis by (simp add: elements_def split_on_append [of slash "''..''", simplified] slash_def)
qed

text \<open>\<open>IsLocal\<close>, which cleans a path and looks at its start, accepts exactly the paths that stay.\<close>

lemma is_local_inside: "is_local p \<longleftrightarrow> inside p"
proof (cases "is_abs p \<or> p = []")
  case True
  then show ?thesis by (auto simp: is_local_def inside_def)
next
  case False
  let ?es = "clean_elements False [] (elements p)"
  show ?thesis
  proof (cases "''.'' \<in> set (elements p) \<or> ''..'' \<in> set (elements p)")
    case dots: True
    show ?thesis
    proof (cases "stays 0 (elements p)")
      case True
      then have "inside p" using False by (simp add: inside_def)
      then have "clean p = ''.'' \<or> (\<forall>e\<in>set (elements (clean p)). plain_name e)" using clean_inside(1) by blast
      then have "''..'' \<notin> set (elements (clean p))" by (auto simp: plain_name_def dots_elements)
      then have "clean p \<noteq> ''..'' \<and> \<not> has_prefix (clean p) ''../''"
        using prefix_up [of "clean p"] dots_elements by fastforce
      then show ?thesis using dots False \<open>inside p\<close> by (simp add: is_local_def Let_def)
    next
      case out: False
      then obtain bs where bs: "?es = ''..'' # bs" using clean_elements_stays [of "elements p"] by blast
      then have "clean p = ''..'' \<or> has_prefix (clean p) ''../''"
        using False by (cases bs) (simp_all add: clean_def slash_def has_prefix_def)
      then show ?thesis using dots False out by (auto simp: is_local_def inside_def Let_def)
    qed
  next
    case nodots: False
    then have "p \<noteq> ''..''" "\<not> has_prefix p ''../''" "stays 0 (elements p)"
      using prefix_up [of p] stays_no_dots by (auto simp: elements_def slash_def)
    then show ?thesis using nodots False by (simp add: is_local_def inside_def)
  qed
qed

lemma elements_append: "elements (q @ slash # r) = elements q @ elements r"
proof (induction q)
  case Nil
  then show ?case by (simp add: elements_def)
next
  case (Cons c q)
  obtain e es where e: "split_on slash q = e # es" by (meson neq_Nil_conv split_on_not_Nil)
  then show ?case using Cons.IH by (simp add: elements_def)
qed

lemma stays_append: "stays d (xs @ ys) \<Longrightarrow> stays d xs"
  by (induction d xs rule: stays.induct) (auto split: if_splits)

lemma stays_snoc_empty: "stays d xs \<Longrightarrow> stays d (xs @ [[]])"
  by (induction d xs rule: stays.induct) (auto split: if_splits)

text \<open>The directory of a path that stays, and a name under it, stay.\<close>

lemma inside_dir:
  assumes "inside p"
  shows "inside (path_dir p)"
proof (cases "slash \<in> set p")
  case False
  then have "path_dir p = ''.''" by (simp add: path_dir_def clean_def dropWhile_eq_Nil_conv)
  then show ?thesis by (simp add: inside_def is_abs_def has_prefix_def slash_def dots_elements [unfolded slash_def])
next
  case True
  then obtain q r where q: "p = q @ slash # r" "slash \<notin> set r" by (meson split_list_last)
  then have d: "rev (dropWhile (\<lambda>c. c \<noteq> slash) (rev p)) = q @ [slash]"
    by (auto simp: dropWhile_append)
  have "stays 0 (elements q)" using assms by (auto simp: inside_def q(1) elements_append dest: stays_append)
  then have "stays 0 (elements (q @ [slash]))"
    using elements_append [of q "[]"] stays_snoc_empty by (simp add: elements_def)
  moreover have "\<not> is_abs (q @ [slash])" using assms q by (cases q) (auto simp: inside_def is_abs_def has_prefix_def)
  ultimately have "inside (q @ [slash])" by (simp add: inside_def)
  then show ?thesis using clean_inside(2) by (simp add: path_dir_def d)
qed

lemma inside_join:
  assumes "inside p" "plain_name e"
  shows "inside (path_join [p, e])"
proof -
  have "slash \<notin> set e" using assms(2) by (simp add: plain_name_def)
  then have "elements (p @ slash # e) = elements p @ [e]"
    by (simp add: elements_append) (simp add: elements_def split_on_plain)
  then have "inside (p @ slash # e)"
    using assms stays_append_plain by (cases p) (auto simp: inside_def is_abs_def has_prefix_def)
  moreover have "path_join [p, e] = clean (p @ slash # e)"
    using assms by (simp add: path_join_def inside_def)
  ultimately show ?thesis using clean_inside(2) by simp
qed

lemma inside_name:
  assumes "plain_name e \<or> e = ''.''"
  shows "inside e" "path_join [[], e] = e" "inside (path_join [[], e])"
proof -
  have s: "elements e = [e]" using assms by (auto simp: elements_def split_on_plain plain_name_def slash_def)
  moreover have "e \<noteq> []" "\<not> is_abs e" using assms by (cases e; auto simp: plain_name_def is_abs_def has_prefix_def slash_def)+
  moreover have "e \<noteq> ''..''" using assms by (auto simp: plain_name_def)
  ultimately show "inside e" "path_join [[], e] = e"
    using assms by (auto simp: inside_def path_join_def clean_def plain_name_def)
  then show "inside (path_join [[], e])" by simp
qed

end
