(* ===== verification/AgentFiles.thy ===== *)
theory AgentFiles
  imports Paths "HOL-Library.Word"
begin

text \<open>
  The agent's file work: the calls of the operating system it makes, copying a file
  (internal/agent/download.go) and seeding a data directory (seed.go). An opened file is named by its
  path. The locale file_world says what the calls may do to the contents of paths; a file system in
  memory interprets it.
\<close>

section \<open>Calls\<close>

record 'w files =
  fi_stat :: "string \<Rightarrow> ('w, unit) io"
  fi_lstat :: "string \<Rightarrow> ('w, unit) io"
  fi_missing :: "err \<Rightarrow> bool"
  fi_read :: "string \<Rightarrow> ('w, string) io"
  fi_write :: "string \<Rightarrow> 32 word \<Rightarrow> string \<Rightarrow> ('w, unit) io"
  fi_open :: "string \<Rightarrow> ('w, unit) io"
  fi_create :: "string \<Rightarrow> ('w, unit) io"
  fi_copy :: "string \<Rightarrow> string \<Rightarrow> ('w, unit) io"
  fi_append :: "string \<Rightarrow> string \<Rightarrow> ('w, unit) io"
  fi_head :: "nat \<Rightarrow> string \<Rightarrow> ('w, string) io"
  fi_temp :: "string \<Rightarrow> string \<Rightarrow> ('w, string) io"
  fi_chmod :: "string \<Rightarrow> 32 word \<Rightarrow> ('w, unit) io"
  fi_close :: "string \<Rightarrow> ('w, unit) io"
  fi_rename :: "string \<Rightarrow> string \<Rightarrow> ('w, unit) io"
  fi_remove :: "string \<Rightarrow> ('w, unit) io"
  fi_mkdir_all :: "string \<Rightarrow> 32 word \<Rightarrow> ('w, unit) io"
  fi_readlink :: "string \<Rightarrow> ('w, string) io"
  fi_symlink :: "string \<Rightarrow> string \<Rightarrow> ('w, unit) io"

definition copy_file :: "'w files \<Rightarrow> string \<Rightarrow> string \<Rightarrow> ('w, unit) io" where
  "copy_file fs src dst w =
     (case fi_open fs src w of
        (Inl e, w) \<Rightarrow> (Inl e, w)
      | (Inr u, w) \<Rightarrow>
          (case fi_create fs dst w of
             (Inl e, w) \<Rightarrow> (Inl e, w)
           | (Inr u, w) \<Rightarrow> fi_copy fs src dst w))"

section \<open>Relative paths\<close>

text \<open>\<open>filepath.Rel\<close> of two paths, on the elements they do not share.\<close>

fun strip_common :: "string list \<Rightarrow> string list \<Rightarrow> string list \<times> string list" where
  "strip_common (x # xs) (y # ys) = (if x = y then strip_common xs ys else (x # xs, y # ys))"
| "strip_common xs ys = (xs, ys)"

definition rel_elements :: "string \<Rightarrow> string list" where
  "rel_elements p = (if p = ''.'' then [] else if p = [slash] then [[]] else elements p)"

definition path_rel :: "string \<Rightarrow> string \<Rightarrow> err + string" where
  "path_rel base targ =
     (let b = clean base; t = clean targ; failed = ErrMsg (''Rel: can'' @ [CHR 0x27] @ ''t make '' @ targ @ '' relative to '' @ base);
          (bs, ts) = strip_common (rel_elements b) (rel_elements t)
      in if t = b then Inr ''.''
         else if is_abs b \<noteq> is_abs t then Inl failed
         else if bs \<noteq> [] \<and> hd bs = ''..'' then Inl failed
         else Inr (join_with [slash] (map (\<lambda>b. ''..'') bs @ ts)))"

section \<open>Seeding\<close>

text \<open>What \<open>filepath.WalkDir\<close> calls its function with, in order.\<close>

record walk_item =
  wi_path :: string
  wi_error :: "err option"
  wi_dir :: bool
  wi_symlink :: bool
  wi_regular :: bool
  wi_info :: "err + 32 word"

type_synonym 'w walker = "string \<Rightarrow> 'w \<Rightarrow> walk_item list \<times> 'w"

text \<open>Copying to a temporary file beside the target, which is removed at the end.\<close>

definition seed_regular :: "'w files \<Rightarrow> walk_item \<Rightarrow> string \<Rightarrow> ('w, unit) io" where
  "seed_regular fs item target w =
     (case fi_open fs (wi_path item) w of
        (Inl e, w) \<Rightarrow> (Inl e, w)
      | (Inr u, w) \<Rightarrow>
          (case wi_info item of
             Inl e \<Rightarrow> (Inl e, w)
           | Inr mode \<Rightarrow>
               (case fi_temp fs (path_dir target) ''.insta-game-seed-'' w of
                  (Inl e, w) \<Rightarrow> (Inl e, w)
                | (Inr temporary, w) \<Rightarrow>
                    (let (copied, w) = fi_copy fs (wi_path item) temporary w;
                         (moded, w) = fi_chmod fs temporary mode w;
                         (closed, w) = fi_close fs temporary w;
                         (r, w) = (case copied of
                             Inl e \<Rightarrow> (Inl e, w)
                           | Inr u \<Rightarrow> (case moded of
                               Inl e \<Rightarrow> (Inl e, w)
                             | Inr u \<Rightarrow> (case closed of
                                 Inl e \<Rightarrow> (Inl e, w)
                               | Inr u \<Rightarrow> fi_rename fs temporary target w)));
                         (u, w) = fi_remove fs temporary w
                     in (r, w)))))"

definition seed_target :: "'w files \<Rightarrow> walk_item \<Rightarrow> string \<Rightarrow> ('w, unit) io" where
  "seed_target fs item target w =
     (case fi_lstat fs target w of
        (Inr u, w) \<Rightarrow> (Inr (), w)
      | (Inl e, w) \<Rightarrow>
          if \<not> fi_missing fs e then (Inl e, w)
          else if wi_symlink item
          then (case fi_readlink fs (wi_path item) w of
                  (Inl e, w) \<Rightarrow> (Inl e, w)
                | (Inr link, w) \<Rightarrow> fi_symlink fs link target w)
          else if \<not> wi_regular item then (Inl (ErrMsg (''unsupported seed file '' @ wi_path item)), w)
          else seed_regular fs item target w)"

definition seed_item ::
  "'w files \<Rightarrow> ('w \<Rightarrow> err option \<times> 'w) \<Rightarrow> string \<Rightarrow> string \<Rightarrow> walk_item \<Rightarrow> ('w, unit) io" where
  "seed_item fs canceled source destination item w =
     (case wi_error item of
        Some e \<Rightarrow> (Inl e, w)
      | None \<Rightarrow>
          (case canceled w of
             (Some e, w) \<Rightarrow> (Inl e, w)
           | (None, w) \<Rightarrow>
               (case path_rel source (wi_path item) of
                  Inl e \<Rightarrow> (Inl e, w)
                | Inr relative \<Rightarrow>
                    (let target = path_join [destination, relative] in
                     if wi_dir item then fi_mkdir_all fs target 0x1ED w
                     else seed_target fs item target w))))"

fun seed_items ::
  "'w files \<Rightarrow> ('w \<Rightarrow> err option \<times> 'w) \<Rightarrow> string \<Rightarrow> string \<Rightarrow> walk_item list \<Rightarrow> ('w, unit) io" where
  "seed_items fs canceled source destination [] w = (Inr (), w)"
| "seed_items fs canceled source destination (item # items) w =
     (case seed_item fs canceled source destination item w of
        (Inl e, w) \<Rightarrow> (Inl e, w)
      | (Inr u, w) \<Rightarrow> seed_items fs canceled source destination items w)"

definition seed_files ::
  "'w files \<Rightarrow> ('w \<Rightarrow> err option \<times> 'w) \<Rightarrow> 'w walker \<Rightarrow> string \<Rightarrow> string \<Rightarrow> string \<Rightarrow> ('w, unit) io" where
  "seed_files fs canceled walk source destination marker_name w =
     (if source = [] then (Inr (), w)
      else (let marker = path_join [destination, marker_name] in
        case fi_stat fs marker w of
          (Inr u, w) \<Rightarrow> (Inr (), w)
        | (Inl e, w) \<Rightarrow>
            if \<not> fi_missing fs e then (Inl e, w)
            else if \<not> is_abs source \<or> \<not> is_abs destination \<or> clean source = clean destination
            then (Inl (ErrMsg ''seed and data directories must be different absolute paths''), w)
            else (let (items, w) = walk source w in
              case seed_items fs canceled source destination items w of
                (Inl e, w) \<Rightarrow> (Inl e, w)
              | (Inr u, w) \<Rightarrow> fi_write fs marker 0x180 source w)))"

definition seed_data ::
  "'w files \<Rightarrow> ('w \<Rightarrow> err option \<times> 'w) \<Rightarrow> 'w walker \<Rightarrow> string \<Rightarrow> string \<Rightarrow> ('w, unit) io" where
  "seed_data fs canceled walk source destination w =
     seed_files fs canceled walk source destination ''.insta-game-seeded'' w"

section \<open>The contract of the calls\<close>

text \<open>
  \<open>content\<close> is what a path holds: \<open>None\<close> where there is nothing. Each call changes only the
  path it names; a missing path is reported as such, and a temporary file has a new name.
\<close>

locale file_world =
  fixes fs :: "'w files" and canceled :: "'w \<Rightarrow> err option \<times> 'w" and walk :: "'w walker"
    and content :: "'w \<Rightarrow> string \<Rightarrow> 'c option"
  assumes stat: "fi_stat fs p w = (u, w') \<Longrightarrow> content w' = content w"
    and lstat: "fi_lstat fs p w = (u, w') \<Longrightarrow> content w' = content w"
    and missing: "fi_lstat fs p w = (Inl e, w') \<Longrightarrow> fi_missing fs e \<Longrightarrow> content w p = None"
    and opened: "fi_open fs p w = (u, w') \<Longrightarrow> content w' = content w"
    and copied: "fi_copy fs p q w = (u, w') \<Longrightarrow> r \<noteq> q \<Longrightarrow> content w' r = content w r"
    and temp_new: "fi_temp fs d n w = (Inr p, w') \<Longrightarrow> content w p = None"
    and temp: "fi_temp fs d n w = (tmp, w') \<Longrightarrow> content w r \<noteq> None \<Longrightarrow> content w' r = content w r"
    and chmod: "fi_chmod fs p md w = (u, w') \<Longrightarrow> content w' = content w"
    and closed: "fi_close fs p w = (u, w') \<Longrightarrow> content w' = content w"
    and renamed: "fi_rename fs p q w = (u, w') \<Longrightarrow> r \<noteq> p \<Longrightarrow> r \<noteq> q \<Longrightarrow> content w' r = content w r"
    and removed: "fi_remove fs p w = (u, w') \<Longrightarrow> r \<noteq> p \<Longrightarrow> content w' r = content w r"
    and mkdir: "fi_mkdir_all fs p md w = (u, w') \<Longrightarrow> content w r \<noteq> None \<Longrightarrow> content w' r = content w r"
    and readlink: "fi_readlink fs p w = (link, w') \<Longrightarrow> content w' = content w"
    and symlink: "fi_symlink fs l q w = (u, w') \<Longrightarrow> r \<noteq> q \<Longrightarrow> content w' r = content w r"
    and write_other: "fi_write fs p md d w = (u, w') \<Longrightarrow> r \<noteq> p \<Longrightarrow> content w' r = content w r"
    and canceled: "canceled w = (cn, w') \<Longrightarrow> content w' = content w"
    and walked: "walk s w = (items, w') \<Longrightarrow> content w' = content w"
begin

lemma seed_regular_keeps:
  assumes call: "seed_regular fs item target w = (x, w')" and r: "content w r \<noteq> None" "r \<noteq> target"
  shows "content w' r = content w r"
proof -
  obtain o1 w1 where o1: "fi_open fs (wi_path item) w = (o1, w1)" by fastforce
  have c1: "content w1 = content w" using opened [OF o1] .
  show ?thesis
  proof (cases "\<exists>e. o1 = Inl e \<or> wi_info item = Inl e")
    case True
    then show ?thesis using call o1 c1 by (auto simp: seed_regular_def split: sum.splits)
  next
    case False
    then obtain u md where um: "o1 = Inr u" "wi_info item = Inr md" by (cases o1; cases "wi_info item") auto
    obtain t w2 where t: "fi_temp fs (path_dir target) ''.insta-game-seed-'' w1 = (t, w2)" by fastforce
    have c2: "content w2 r = content w r" using temp [OF t] r(1) c1 by simp
    show ?thesis
    proof (cases t)
      case (Inl e)
      then show ?thesis using call o1 um t c2 by (simp add: seed_regular_def)
    next
      case (Inr tmp)
      have tmp: "r \<noteq> tmp" using temp_new t Inr r(1) c1 by fastforce
      obtain a w3 where a: "fi_copy fs (wi_path item) tmp w2 = (a, w3)" by fastforce
      obtain b w4 where b: "fi_chmod fs tmp md w3 = (b, w4)" by fastforce
      obtain c w5 where c: "fi_close fs tmp w4 = (c, w5)" by fastforce
      have c5: "content w5 r = content w r"
        using copied [OF a tmp] chmod [OF b] closed [OF c] c2 by simp
      obtain d w6 where d: "fi_rename fs tmp target w5 = (d, w6)" by fastforce
      have c6: "content w6 r = content w r" using renamed [OF d tmp r(2)] c5 by simp
      obtain f v where f: "fi_remove fs tmp w5 = (f, v)" by fastforce
      obtain g v' where g: "fi_remove fs tmp w6 = (g, v')" by fastforce
      have "w' = v \<or> w' = v'"
        using call o1 um t Inr a b c d f g by (auto simp: seed_regular_def split: sum.splits)
      then show ?thesis using removed [OF f tmp] removed [OF g tmp] c5 c6 by auto
    qed
  qed
qed

lemma seed_target_keeps:
  assumes call: "seed_target fs item target w = (x, w')" and r: "content w r \<noteq> None"
  shows "content w' r = content w r"
proof -
  obtain l w1 where l: "fi_lstat fs target w = (l, w1)" by fastforce
  have c1: "content w1 = content w" using lstat [OF l] .
  show ?thesis
  proof (cases "\<exists>e. l = Inl e \<and> fi_missing fs e")
    case False
    then show ?thesis using call l c1 by (auto simp: seed_target_def split: sum.splits if_splits)
  next
    case True
    then obtain e where e: "l = Inl e" "fi_missing fs e" by blast
    have new: "r \<noteq> target" using missing l e r by fastforce
    consider "wi_symlink item" | "\<not> wi_symlink item" "\<not> wi_regular item" | "\<not> wi_symlink item" "wi_regular item" by blast
    then show ?thesis
    proof cases
      case 1
      obtain k w2 where k: "fi_readlink fs (wi_path item) w1 = (k, w2)" by fastforce
      then show ?thesis
        using call l e 1 readlink [OF k] c1 symlink [OF _ new] by (auto simp: seed_target_def split: sum.splits)
    next
      case 2
      then show ?thesis using call l e c1 by (simp add: seed_target_def)
    next
      case 3
      then have "seed_regular fs item target w1 = (x, w')" using call l e by (simp add: seed_target_def)
      then show ?thesis using seed_regular_keeps r new c1 by metis
    qed
  qed
qed

lemma seed_item_keeps:
  assumes call: "seed_item fs canceled source destination item w = (x, w')" and r: "content w r \<noteq> None"
  shows "content w' r = content w r"
proof -
  obtain n w1 where n: "canceled w = (n, w1)" by fastforce
  have c1: "content w1 = content w" using canceled [OF n] .
  show ?thesis
  proof (cases "wi_error item = None \<and> n = None")
    case False
    then show ?thesis using call n c1 by (auto simp: seed_item_def split: option.splits)
  next
    case True
    show ?thesis
    proof (cases "path_rel source (wi_path item)")
      case (Inl e)
      then show ?thesis using call n c1 True by (simp add: seed_item_def)
    next
      case (Inr relative)
      let ?t = "path_join [destination, relative]"
      have "(if wi_dir item then fi_mkdir_all fs ?t 0x1ED w1 else seed_target fs item ?t w1) = (x, w')"
        using call n True Inr by (simp add: seed_item_def Let_def)
      then show ?thesis using mkdir seed_target_keeps c1 r by (metis (no_types, lifting))
    qed
  qed
qed

lemma seed_items_keeps:
  "seed_items fs canceled source destination items w = (x, w') \<Longrightarrow> content w r \<noteq> None \<Longrightarrow>
     content w' r = content w r"
proof (induction items arbitrary: w)
  case (Cons item items)
  obtain y w1 where y: "seed_item fs canceled source destination item w = (y, w1)" by fastforce
  have k: "content w1 r = content w r" using seed_item_keeps [OF y Cons.prems(2)] .
  show ?case
  proof (cases y)
    case (Inl e)
    then show ?thesis using Cons.prems(1) y k by simp
  next
    case (Inr u)
    then have "seed_items fs canceled source destination items w1 = (x, w')" using Cons.prems(1) y by simp
    then show ?thesis using Cons.IH k Cons.prems(2) by auto
  qed
qed simp

lemma seed_files_keeps:
  assumes call: "seed_files fs canceled walk source destination marker_name w = (x, w')"
    and r: "content w r \<noteq> None" "r \<noteq> path_join [destination, marker_name]"
  shows "content w' r = content w r"
proof (cases "source = []")
  case True
  then show ?thesis using call by (simp add: seed_files_def)
next
  case False
  let ?marker = "path_join [destination, marker_name]"
  obtain s w1 where s: "fi_stat fs ?marker w = (s, w1)" by fastforce
  have c1: "content w1 = content w" using stat [OF s] .
  show ?thesis
  proof (cases "\<exists>e. s = Inl e \<and> fi_missing fs e \<and>
      \<not> (\<not> is_abs source \<or> \<not> is_abs destination \<or> clean source = clean destination)")
    case False
    then have "w' = w1" using call s \<open>source \<noteq> []\<close> by (auto simp: seed_files_def Let_def split: sum.splits if_splits)
    then show ?thesis using c1 by simp
  next
    case True
    obtain items w2 where w2: "walk source w1 = (items, w2)" by fastforce
    have c2: "content w2 = content w" using walked [OF w2] c1 by simp
    obtain y w3 where y: "seed_items fs canceled source destination items w2 = (y, w3)" by fastforce
    have c3: "content w3 r = content w r" using seed_items_keeps [OF y] r(1) c2 by simp
    have "w' = w3 \<or> (\<exists>u. fi_write fs ?marker 0x180 source w3 = (u, w'))"
      using call s True w2 y \<open>source \<noteq> []\<close> by (auto simp: seed_files_def Let_def split: sum.splits)
    then show ?thesis using c3 write_other r(2) by metis
  qed
qed

end

section \<open>Files in memory\<close>

record disk =
  ds_files :: "string \<Rightarrow> string option"
  ds_count :: nat

definition disk_set :: "string \<Rightarrow> string \<Rightarrow> disk \<Rightarrow> disk" where
  "disk_set p s d = d\<lparr>ds_files := (ds_files d)(p \<mapsto> s)\<rparr>"

definition disk_need :: "string \<Rightarrow> disk \<Rightarrow> (err + string) \<times> disk" where
  "disk_need p d = (case ds_files d p of None \<Rightarrow> (Inl ErrNotFound, d) | Some s \<Rightarrow> (Inr s, d))"

definition disk_files :: "disk files" where
  "disk_files =
     \<lparr>fi_stat = (\<lambda>p d. (map_sum id (\<lambda>s. ()) (fst (disk_need p d)), d)),
      fi_lstat = (\<lambda>p d. (map_sum id (\<lambda>s. ()) (fst (disk_need p d)), d)),
      fi_missing = (\<lambda>e. e = ErrNotFound),
      fi_read = disk_need,
      fi_write = (\<lambda>p md s d. (Inr (), disk_set p s d)),
      fi_open = (\<lambda>p d. (map_sum id (\<lambda>s. ()) (fst (disk_need p d)), d)),
      fi_create = (\<lambda>p d. (Inr (), disk_set p [] d)),
      fi_copy = (\<lambda>p q d. (case ds_files d p of None \<Rightarrow> (Inl ErrNotFound, d) | Some s \<Rightarrow> (Inr (), disk_set q s d))),
      fi_append = (\<lambda>p s d. (Inr (), disk_set p ((case ds_files d p of None \<Rightarrow> [] | Some t \<Rightarrow> t) @ s) d)),
      fi_head = (\<lambda>n p d. (map_sum id (take n) (fst (disk_need p d)), d)),
      fi_temp = (\<lambda>dir name d. (let p = path_join [dir, name @ show_nat (ds_count d)] in
         if ds_files d p \<noteq> None then (Inl ErrBusy, d) else (Inr p, disk_set p [] d\<lparr>ds_count := Suc (ds_count d)\<rparr>))),
      fi_chmod = (\<lambda>p md d. (Inr (), d)),
      fi_close = (\<lambda>p d. (Inr (), d)),
      fi_rename = (\<lambda>p q d. (case ds_files d p of None \<Rightarrow> (Inl ErrNotFound, d)
         | Some s \<Rightarrow> (Inr (), d\<lparr>ds_files := ((ds_files d)(p := None))(q \<mapsto> s)\<rparr>))),
      fi_remove = (\<lambda>p d. (Inr (), d\<lparr>ds_files := (ds_files d)(p := None)\<rparr>)),
      fi_mkdir_all = (\<lambda>p md d. (Inr (), d)),
      fi_readlink = disk_need,
      fi_symlink = (\<lambda>l q d. (Inr (), disk_set q l d))\<rparr>"

interpretation disk: file_world disk_files "\<lambda>d. (None, d)" "\<lambda>s d. (items, d)" ds_files for items
  by unfold_locales
    (auto simp: disk_files_def disk_set_def disk_need_def Let_def split: option.splits if_splits)

section \<open>Properties\<close>


definition seed_walk :: "walk_item list" where
  "seed_walk =
     [\<lparr>wi_path = ''/seed'', wi_error = None, wi_dir = True, wi_symlink = False, wi_regular = False, wi_info = Inr 0x1ED\<rparr>,
      \<lparr>wi_path = ''/seed/a.cfg'', wi_error = None, wi_dir = False, wi_symlink = False, wi_regular = True, wi_info = Inr 0x1A4\<rparr>,
      \<lparr>wi_path = ''/seed/b.cfg'', wi_error = None, wi_dir = False, wi_symlink = False, wi_regular = True, wi_info = Inr 0x1A4\<rparr>]"

definition played_disk :: disk where
  "played_disk = \<lparr>ds_files = [''/seed/a.cfg'' \<mapsto> ''new'', ''/seed/b.cfg'' \<mapsto> ''new'', ''/opt/a.cfg'' \<mapsto> ''mine''],
     ds_count = 0\<rparr>"


end
