(* ===== verification/GameFiles.thy ===== *)
theory GameFiles
  imports Paths "HOL-Library.Word"
begin

text \<open>
  Archives of game data (internal/gamefiles/zip.go). The zip reader, the directory handle
  (\<open>os.Root\<close>) and the context are parameters; sizes are 64-bit words. The contract of the directory
  handle (locale zip_world) bounds what its operations on a path inside may change; the interpretation
  gives it on a file tree in memory.
\<close>

section \<open>Interfaces\<close>

record zip_entry =
  ze_name :: string
  ze_symlink :: bool
  ze_dir :: bool
  ze_regular :: bool
  ze_perm :: "32 word"
  ze_size :: "64 word"
  ze_open :: "err + (string list \<times> (err + unit))"

record 'w root =
  ro_mkdir_all :: "string \<Rightarrow> 32 word \<Rightarrow> ('w, unit) io"
  ro_chmod :: "string \<Rightarrow> 32 word \<Rightarrow> ('w, unit) io"
  ro_create :: "string \<Rightarrow> 32 word \<Rightarrow> ('w, unit) io"
  ro_append :: "string \<Rightarrow> string \<Rightarrow> ('w, unit) io"
  ro_set_mode :: "string \<Rightarrow> 32 word \<Rightarrow> ('w, unit) io"
  ro_close :: "string \<Rightarrow> ('w, unit) io"

record 'w unzip =
  uz_open :: "string \<Rightarrow> ('w, zip_entry list) io"
  uz_mkdir_all :: "string \<Rightarrow> 32 word \<Rightarrow> ('w, unit) io"
  uz_root :: "string \<Rightarrow> ('w, 'w root) io"
  uz_canceled :: "'w \<Rightarrow> err option \<times> 'w"

section \<open>Directories\<close>

definition dir_mode :: "32 word" where
  "dir_mode = 0x1ED"

fun chmod_parts :: "'w root \<Rightarrow> string \<Rightarrow> string list \<Rightarrow> ('w, unit) io" where
  "chmod_parts ro current [] w = (Inr (), w)"
| "chmod_parts ro current (part # parts) w =
     (let current = path_join [current, part] in
      case ro_chmod ro current dir_mode w of
        (Inl e, w) \<Rightarrow> (Inl e, w)
      | (Inr u, w) \<Rightarrow> chmod_parts ro current parts w)"

definition make_directories :: "'w root \<Rightarrow> string \<Rightarrow> ('w, unit) io" where
  "make_directories ro path w =
     (case ro_mkdir_all ro path dir_mode w of
        (Inl e, w) \<Rightarrow> (Inl e, w)
      | (Inr u, w) \<Rightarrow> chmod_parts ro [] (split_on slash (clean path)) w)"

section \<open>Copying\<close>

text \<open>
  \<open>io.Copy\<close> from a reader that checks the context before each read and ends after \<open>n\<close> bytes:
  \<open>chunks\<close> are what the entry's reads give, \<open>fin\<close> how they end.
\<close>

fun copy_chunks ::
  "'w unzip \<Rightarrow> 'w root \<Rightarrow> string \<Rightarrow> nat \<Rightarrow> string list \<Rightarrow> err + unit \<Rightarrow> ('w, unit) io" where
  "copy_chunks u ro name n [] fin w =
     (case uz_canceled u w of
        (Some e, w) \<Rightarrow> (Inl e, w)
      | (None, w) \<Rightarrow> (if n = 0 then Inr () else fin, w))"
| "copy_chunks u ro name n (c # cs) fin w =
     (case uz_canceled u w of
        (Some e, w) \<Rightarrow> (Inl e, w)
      | (None, w) \<Rightarrow>
          if n = 0 then (Inr (), w)
          else (case ro_append ro name (take n c) w of
                  (Inl e, w) \<Rightarrow> (Inl e, w)
                | (Inr x, w) \<Rightarrow> copy_chunks u ro name (n - length c) cs fin w))"

text \<open>The first error of the copy, the mode change and closing, all three of which are done.\<close>

definition write_entry :: "'w unzip \<Rightarrow> 'w root \<Rightarrow> string \<Rightarrow> zip_entry \<Rightarrow> ('w, unit) io" where
  "write_entry u ro name e w =
     (let mode = or (ze_perm e) 0x124 in
      case ze_open e of
        Inl er \<Rightarrow> (Inl er, w)
      | Inr (chunks, fin) \<Rightarrow>
          (case ro_create ro name mode w of
             (Inl er, w) \<Rightarrow> (Inl er, w)
           | (Inr x, w) \<Rightarrow>
               (let (copied, w) = copy_chunks u ro name (unat (ze_size e) + 1) chunks fin w;
                    (moded, w) = ro_set_mode ro name mode w;
                    (closed, w) = ro_close ro name w
                in case copied of
                     Inl er \<Rightarrow> (Inl er, w)
                   | Inr x \<Rightarrow> (case moded of Inl er \<Rightarrow> (Inl er, w) | Inr x \<Rightarrow> (closed, w)))))"

section \<open>Extraction\<close>

definition entry_name :: "zip_entry \<Rightarrow> string" where
  "entry_name e = (if ze_name e \<noteq> [] \<and> last (ze_name e) = slash then butlast (ze_name e) else ze_name e)"

definition archive_error :: "string \<Rightarrow> zip_entry \<Rightarrow> err" where
  "archive_error what e = ErrMsg (what @ [CHR 0x22] @ ze_name e @ [CHR 0x22])"

definition archive_limit :: "64 word" where
  "archive_limit = push_bit 30 8"

definition extract_entry :: "'w unzip \<Rightarrow> 'w root \<Rightarrow> string \<Rightarrow> zip_entry \<Rightarrow> ('w, unit) io" where
  "extract_entry u ro name e w =
     (if ze_dir e then make_directories ro name w
      else if \<not> ze_regular e then (Inl (archive_error ''unsupported archive file '' e), w)
      else (case make_directories ro (path_dir name) w of
              (Inl er, w) \<Rightarrow> (Inl er, w)
            | (Inr x, w) \<Rightarrow> write_entry u ro name e w))"

fun extract_entries :: "'w unzip \<Rightarrow> 'w root \<Rightarrow> 64 word \<Rightarrow> zip_entry list \<Rightarrow> ('w, unit) io" where
  "extract_entries u ro sum_size [] w = (Inr (), w)"
| "extract_entries u ro sum_size (e # es) w =
     (case uz_canceled u w of
        (Some er, w) \<Rightarrow> (Inl er, w)
      | (None, w) \<Rightarrow>
          if \<not> is_local (entry_name e) \<or> ze_symlink e
          then (Inl (archive_error ''unsafe asset archive path '' e), w)
          else if archive_limit - sum_size < ze_size e then (Inl (ErrMsg ''asset archive exceeds 8 GiB''), w)
          else (case extract_entry u ro (entry_name e) e w of
                  (Inl er, w) \<Rightarrow> (Inl er, w)
                | (Inr x, w) \<Rightarrow> extract_entries u ro (sum_size + ze_size e) es w))"

definition extract_zip :: "'w unzip \<Rightarrow> string \<Rightarrow> string \<Rightarrow> ('w, unit) io" where
  "extract_zip u path destination w =
     (case uz_open u path w of
        (Inl e, w) \<Rightarrow> (Inl e, w)
      | (Inr es, w) \<Rightarrow>
          (case uz_mkdir_all u destination dir_mode w of
             (Inl e, w) \<Rightarrow> (Inl e, w)
           | (Inr x, w) \<Rightarrow>
               (case uz_root u destination w of
                  (Inl e, w) \<Rightarrow> (Inl e, w)
                | (Inr ro, w) \<Rightarrow> extract_entries u ro 0 es w)))"

section \<open>What an extraction may change\<close>

text \<open>The size check leaves room, without a wrap-around.\<close>

lemma room_word:
  fixes sum_size s limit :: "64 word"
  assumes "sum_size \<le> limit" "\<not> limit - sum_size < s"
  shows "sum_size + s \<le> limit" "unat s + unat (limit - (sum_size + s)) = unat (limit - sum_size)"
proof -
  have a: "unat (limit - sum_size) = unat limit - unat sum_size" "unat sum_size \<le> unat limit"
    using assms(1) by (simp_all add: unat_sub word_le_nat_alt)
  have b: "unat s \<le> unat limit - unat sum_size" using assms(2) a(1) by (simp add: word_less_nat_alt)
  have "unat limit < 2 ^ 64" by (rule order_less_le_trans [OF unsigned_less]) simp
  then have "unat sum_size + unat s < 2 ^ 64" using a(2) b by simp
  then have c: "unat (sum_size + s) = unat sum_size + unat s" by (simp add: unat_word_ariths)
  then show d: "sum_size + s \<le> limit" using a(2) b by (simp add: word_le_nat_alt)
  show "unat s + unat (limit - (sum_size + s)) = unat (limit - sum_size)"
    using a b c d by (simp add: unat_sub)
qed

text \<open>
  \<open>keeps n w w'\<close>: from one world to the other nothing outside the destination changes, and at most
  \<open>n\<close> bytes are written. A directory handle promises it for paths that stay inside.
\<close>

locale zip_world =
  fixes u :: "'w unzip" and destination :: string and keeps :: "nat \<Rightarrow> 'w \<Rightarrow> 'w \<Rightarrow> bool"
  assumes keep_refl: "keeps 0 w w"
    and keep_trans: "keeps m a b \<Longrightarrow> keeps n b c \<Longrightarrow> keeps (m + n) a c"
    and keep_mono: "keeps m a b \<Longrightarrow> m \<le> n \<Longrightarrow> keeps n a b"
    and opened: "uz_open u path w = (r, w') \<Longrightarrow> keeps 0 w w'"
    and made: "uz_mkdir_all u destination md w = (x, w') \<Longrightarrow> keeps 0 w w'"
    and rooted: "uz_root u destination w = (rr, w') \<Longrightarrow> keeps 0 w w'"
    and canceled: "uz_canceled u w = (cn, w') \<Longrightarrow> keeps 0 w w'"
    and mkdir: "uz_root u destination v = (Inr ro, v') \<Longrightarrow> inside p \<Longrightarrow> ro_mkdir_all ro p md w = (x, w') \<Longrightarrow> keeps 0 w w'"
    and chmod: "uz_root u destination v = (Inr ro, v') \<Longrightarrow> inside p \<Longrightarrow> ro_chmod ro p md w = (x, w') \<Longrightarrow> keeps 0 w w'"
    and create: "uz_root u destination v = (Inr ro, v') \<Longrightarrow> inside p \<Longrightarrow> ro_create ro p md w = (x, w') \<Longrightarrow> keeps 0 w w'"
    and append: "uz_root u destination v = (Inr ro, v') \<Longrightarrow> inside p \<Longrightarrow> ro_append ro p d w = (x, w') \<Longrightarrow> keeps (length d) w w'"
    and set_mode: "uz_root u destination v = (Inr ro, v') \<Longrightarrow> inside p \<Longrightarrow> ro_set_mode ro p md w = (x, w') \<Longrightarrow> keeps 0 w w'"
    and closed: "uz_root u destination v = (Inr ro, v') \<Longrightarrow> inside p \<Longrightarrow> ro_close ro p w = (x, w') \<Longrightarrow> keeps 0 w w'"
begin

lemma keep_trans0: "keeps 0 a b \<Longrightarrow> keeps n b c \<Longrightarrow> keeps n a c"
  using keep_trans [of 0 a b n c] by simp

lemma more: "keeps 0 a b \<Longrightarrow> keeps n a b"
  using keep_mono by blast

lemma chmod_parts_keeps:
  assumes "uz_root u destination v = (Inr ro, v')"
  shows "\<forall>e\<in>set parts. plain_name e \<Longrightarrow> inside current \<Longrightarrow> chmod_parts ro current parts w = (x, w') \<Longrightarrow> keeps 0 w w'"
proof (induction parts arbitrary: current w)
  case Nil
  then show ?case using keep_refl by simp
next
  case (Cons part parts)
  have i: "inside (path_join [current, part])" using inside_join Cons.prems by simp
  obtain y w1 where y: "ro_chmod ro (path_join [current, part]) dir_mode w = (y, w1)" by fastforce
  have k: "keeps 0 w w1" using chmod [OF assms i y] .
  show ?case
  proof (cases y)
    case (Inl e)
    then show ?thesis using Cons.prems(3) y k by simp
  next
    case (Inr z)
    then have "chmod_parts ro (path_join [current, part]) parts w1 = (x, w')" using Cons.prems(3) y by simp
    then show ?thesis using Cons.IH Cons.prems(1) i k keep_trans0 by auto
  qed
qed

lemma make_directories_keeps:
  assumes ro: "uz_root u destination v = (Inr ro, v')" and p: "inside path"
    and call: "make_directories ro path w = (x, w')"
  shows "keeps 0 w w'"
proof -
  obtain y w1 where y: "ro_mkdir_all ro path dir_mode w = (y, w1)" by fastforce
  have k: "keeps 0 w w1" using mkdir [OF ro p y] .
  show ?thesis
  proof (cases y)
    case (Inl e)
    then show ?thesis using call y k by (simp add: make_directories_def)
  next
    case (Inr z)
    obtain e es where es: "elements (clean path) = e # es" by (metis elements_def neq_Nil_conv split_on_not_Nil)
    have parts: "e = ''.'' \<and> es = [] \<or> plain_name e \<and> (\<forall>e\<in>set es. plain_name e)"
      using clean_inside(1) [OF p] es dots_elements by auto
    have c: "chmod_parts ro [] (e # es) w1 = (x, w')"
      using call y Inr es by (simp add: make_directories_def elements_def)
    obtain q w2 where q: "ro_chmod ro (path_join [[], e]) dir_mode w1 = (q, w2)" by fastforce
    have i: "inside (path_join [[], e])" using inside_name(3) parts by blast
    have k2: "keeps 0 w1 w2" using chmod [OF ro i q] .
    show ?thesis
    proof (cases q)
      case (Inl er)
      then show ?thesis using c q k k2 keep_trans0 by simp
    next
      case (Inr t)
      then have "chmod_parts ro (path_join [[], e]) es w2 = (x, w')" using c q by simp
      then have "keeps 0 w2 w'" using chmod_parts_keeps [OF ro _ i] parts by (metis empty_iff empty_set)
      then show ?thesis using k k2 keep_trans0 by blast
    qed
  qed
qed

lemma copy_chunks_keeps:
  assumes ro: "uz_root u destination v = (Inr ro, v')" and p: "inside name"
  shows "copy_chunks u ro name n cs fin w = (x, w') \<Longrightarrow> keeps n w w'"
proof (induction cs arbitrary: n w)
  case Nil
  obtain c w1 where c: "uz_canceled u w = (c, w1)" by fastforce
  then show ?case using Nil more [OF canceled [OF c]] by (cases c) auto
next
  case (Cons d ds)
  obtain c w1 where c: "uz_canceled u w = (c, w1)" by fastforce
  have k: "keeps 0 w w1" using canceled [OF c] .
  show ?case
  proof (cases "c = None \<and> n \<noteq> 0")
    case False
    then show ?thesis using Cons.prems c more [OF k] by (cases c) auto
  next
    case True
    obtain y w2 where y: "ro_append ro name (take n d) w1 = (y, w2)" by fastforce
    have k2: "keeps (min (length d) n) w w2" using keep_trans0 [OF k append [OF ro p y]] by simp
    show ?thesis
    proof (cases y)
      case (Inl e)
      then show ?thesis using Cons.prems c True y k2 keep_mono [of _ w w2 n] by auto
    next
      case (Inr z)
      then have "copy_chunks u ro name (n - length d) ds fin w2 = (x, w')" using Cons.prems c True y by simp
      then have "keeps (n - length d) w2 w'" by (rule Cons.IH)
      moreover have "min (length d) n + (n - length d) = n" by simp
      ultimately show ?thesis using keep_trans [OF k2] by metis
    qed
  qed
qed

lemma write_entry_keeps:
  assumes ro: "uz_root u destination v = (Inr ro, v')" and p: "inside name"
    and call: "write_entry u ro name e w = (x, w')"
  shows "keeps (unat (ze_size e) + 1) w w'"
proof (cases "ze_open e")
  case (Inl er)
  then show ?thesis using call more [OF keep_refl] by (simp add: write_entry_def)
next
  case (Inr b)
  obtain chunks fin where b: "b = (chunks, fin)" by fastforce
  let ?mode = "or (ze_perm e) 0x124"
  obtain y w1 where y: "ro_create ro name ?mode w = (y, w1)" by fastforce
  have k: "keeps 0 w w1" using create [OF ro p y] .
  show ?thesis
  proof (cases y)
    case (Inl er)
    then show ?thesis using call Inr b y more [OF k] by (simp add: write_entry_def)
  next
    case y': (Inr z)
    obtain c w2 where c: "copy_chunks u ro name (unat (ze_size e) + 1) chunks fin w1 = (c, w2)" by fastforce
    obtain m w3 where m: "ro_set_mode ro name ?mode w2 = (m, w3)" by fastforce
    obtain l w4 where l: "ro_close ro name w3 = (l, w4)" by fastforce
    have "w' = w4" using call Inr b y y' c m l by (auto simp: write_entry_def split: sum.splits)
    moreover have "keeps 0 w2 w4" using keep_trans0 [OF set_mode [OF ro p m] closed [OF ro p l]] .
    ultimately show ?thesis
      using keep_trans [OF keep_trans0 [OF k copy_chunks_keeps [OF ro p c]]] by (metis add_0_right)
  qed
qed

lemma extract_entry_keeps:
  assumes ro: "uz_root u destination v = (Inr ro, v')" and p: "inside name"
    and call: "extract_entry u ro name e w = (x, w')"
  shows "keeps (unat (ze_size e) + 1) w w'"
proof -
  consider "ze_dir e" | "\<not> ze_dir e" "\<not> ze_regular e" | "\<not> ze_dir e" "ze_regular e" by blast
  then show ?thesis
  proof cases
    case 1
    then show ?thesis using call make_directories_keeps [OF ro p] more by (simp add: extract_entry_def)
  next
    case 2
    then show ?thesis using call more [OF keep_refl] by (simp add: extract_entry_def)
  next
    case 3
    obtain y w1 where y: "make_directories ro (path_dir name) w = (y, w1)" by fastforce
    have k: "keeps 0 w w1" using make_directories_keeps [OF ro inside_dir [OF p] y] .
    show ?thesis
    proof (cases y)
      case (Inl er)
      then show ?thesis using call 3 y more [OF k] by (simp add: extract_entry_def)
    next
      case (Inr z)
      then have "write_entry u ro name e w1 = (x, w')" using call 3 y by (simp add: extract_entry_def)
      then show ?thesis using keep_trans0 [OF k write_entry_keeps [OF ro p]] by blast
    qed
  qed
qed

lemma extract_entries_keeps:
  assumes ro: "uz_root u destination v = (Inr ro, v')"
  shows "sum_size \<le> archive_limit \<Longrightarrow> extract_entries u ro sum_size es w = (x, w') \<Longrightarrow>
    keeps (unat (archive_limit - sum_size) + length es) w w'"
proof (induction es arbitrary: sum_size w)
  case Nil
  then show ?case using more [OF keep_refl] by simp
next
  case (Cons e es)
  obtain c w1 where c: "uz_canceled u w = (c, w1)" by fastforce
  have k: "keeps 0 w w1" using canceled [OF c] .
  show ?case
  proof (cases "c = None \<and> is_local (entry_name e) \<and> \<not> ze_symlink e \<and> \<not> archive_limit - sum_size < ze_size e")
    case False
    then have "w' = w1" using Cons.prems c by (cases c) (auto split: if_splits)
    then show ?thesis using more [OF k] by simp
  next
    case True
    then have p: "inside (entry_name e)" using is_local_inside by blast
    have room: "sum_size + ze_size e \<le> archive_limit"
      "unat (ze_size e) + unat (archive_limit - (sum_size + ze_size e)) = unat (archive_limit - sum_size)"
      using room_word [OF Cons.prems(1)] True by blast+
    obtain y w2 where y: "extract_entry u ro (entry_name e) e w1 = (y, w2)" by fastforce
    have k2: "keeps (unat (ze_size e) + 1) w w2" using keep_trans0 [OF k extract_entry_keeps [OF ro p y]] .
    show ?thesis
    proof (cases y)
      case (Inl er)
      then have "w' = w2" using Cons.prems(2) c True y by simp
      then show ?thesis using keep_mono [OF k2] room(2) by simp
    next
      case (Inr z)
      then have "extract_entries u ro (sum_size + ze_size e) es w2 = (x, w')" using Cons.prems(2) c True y by simp
      then have "keeps (unat (archive_limit - (sum_size + ze_size e)) + length es) w2 w'" using Cons.IH room(1) by blast
      moreover have "unat (ze_size e) + 1 + (unat (archive_limit - (sum_size + ze_size e)) + length es) =
          unat (archive_limit - sum_size) + length (e # es)" using room(2) by simp
      ultimately show ?thesis using keep_trans [OF k2] by metis
    qed
  qed
qed

lemma extract_zip_keeps:
  assumes "uz_open u path w = (r, w0)" "extract_zip u path destination w = (x, w')"
  shows "keeps (unat archive_limit + (case r of Inl e \<Rightarrow> 0 | Inr es \<Rightarrow> length es)) w w'"
proof (cases r)
  case (Inl e)
  then show ?thesis using assms more [OF opened] by (simp add: extract_zip_def)
next
  case (Inr es)
  obtain y w1 where y: "uz_mkdir_all u destination dir_mode w0 = (y, w1)" by fastforce
  have k: "keeps 0 w w1" using keep_trans0 [OF opened [OF assms(1)] made [OF y]] .
  obtain q w2 where q: "uz_root u destination w1 = (q, w2)" by fastforce
  have k2: "keeps 0 w w2" using keep_trans0 [OF k rooted [OF q]] .
  consider e where "y = Inl e" | e z where "y = Inr z" "q = Inl e" | z ro where "y = Inr z" "q = Inr ro"
    by (cases y; cases q) auto
  then show ?thesis
  proof cases
    case 1
    then show ?thesis using assms Inr y more [OF k] by (simp add: extract_zip_def)
  next
    case 2
    then show ?thesis using assms Inr y q more [OF k2] by (simp add: extract_zip_def)
  next
    case 3
    then have "extract_entries u ro 0 es w2 = (x, w')" using assms Inr y q by (simp add: extract_zip_def)
    then have "keeps (unat (archive_limit - 0) + length es) w2 w'"
      using extract_entries_keeps [of w1 ro w2 0 es] q 3 by simp
    then show ?thesis using keep_trans0 [OF k2] Inr by simp
  qed
qed

end

section \<open>A file tree in memory\<close>

text \<open>Here an element \<open>..\<close> really climbs, out of the destination too.\<close>

datatype node = Folder | File string

record tree =
  tr_nodes :: "string list \<Rightarrow> node option"
  tr_written :: nat

fun walk :: "string list \<Rightarrow> string list \<Rightarrow> string list" where
  "walk at [] = at"
| "walk at (e # es) =
     (if e = [] \<or> e = ''.'' then walk at es
      else if e = ''..'' then walk (butlast at) es else walk (at @ [e]) es)"

lemma walk_stays: "stays (length below) es \<Longrightarrow> prefix base (walk (base @ below) es)"
proof (induction es arbitrary: below)
  case (Cons e es)
  consider "e = [] \<or> e = ''.''" | "e = ''..''" | "e \<noteq> []" "e \<noteq> ''.''" "e \<noteq> ''..''" by blast
  then show ?case
  proof cases
    case 1
    then show ?thesis using Cons by auto
  next
    case 2
    then have "below \<noteq> []" "stays (length (butlast below)) es" using Cons.prems by auto
    then show ?thesis using Cons.IH [of "butlast below"] 2 by (simp add: butlast_append)
  next
    case 3
    then show ?thesis using Cons.IH [of "below @ [e]"] Cons.prems by simp
  qed
qed simp

definition tree_at :: "string list \<Rightarrow> string \<Rightarrow> string list" where
  "tree_at base p = walk base (elements p)"

lemma tree_at_inside: "inside p \<Longrightarrow> prefix base (tree_at base p)"
  using walk_stays [of "[]"] by (simp add: tree_at_def inside_def)

definition add_folders :: "string list \<Rightarrow> string list \<Rightarrow> tree \<Rightarrow> tree" where
  "add_folders base k t = t\<lparr>tr_nodes := (\<lambda>j. if prefix base j \<and> prefix j k \<and> tr_nodes t j = None then Some Folder
     else tr_nodes t j)\<rparr>"

definition tree_root :: "string list \<Rightarrow> tree root" where
  "tree_root base =
     \<lparr>ro_mkdir_all = (\<lambda>p md t. (Inr (), add_folders base (tree_at base p) t)),
      ro_chmod = (\<lambda>p md t. (Inr (), t)),
      ro_create = (\<lambda>p md t. if tr_nodes t (tree_at base p) = Some Folder then (Inl (ErrMsg ''is a directory''), t)
        else (Inr (), t\<lparr>tr_nodes := (tr_nodes t)(tree_at base p \<mapsto> File [])\<rparr>)),
      ro_append = (\<lambda>p d t. (Inr (), t\<lparr>tr_nodes := (tr_nodes t)(tree_at base p \<mapsto>
          File ((case tr_nodes t (tree_at base p) of Some (File s) \<Rightarrow> s | _ \<Rightarrow> []) @ d)),
        tr_written := tr_written t + length d\<rparr>)),
      ro_set_mode = (\<lambda>p md t. (Inr (), t)),
      ro_close = (\<lambda>p t. (Inr (), t))\<rparr>"

definition tree_unzip :: "zip_entry list \<Rightarrow> tree unzip" where
  "tree_unzip es =
     \<lparr>uz_open = (\<lambda>p t. (Inr es, t)),
      uz_mkdir_all = (\<lambda>p md t. (Inr (), add_folders [] (tree_at [] p) t)),
      uz_root = (\<lambda>p t. (Inr (tree_root (tree_at [] p)), t)),
      uz_canceled = (\<lambda>t. (None, t))\<rparr>"

text \<open>Only the destination's own directories and what is below it may differ.\<close>

definition tree_keeps :: "string \<Rightarrow> nat \<Rightarrow> tree \<Rightarrow> tree \<Rightarrow> bool" where
  "tree_keeps destination n t u \<longleftrightarrow>
     (\<forall>k. \<not> prefix (tree_at [] destination) k \<longrightarrow> \<not> prefix k (tree_at [] destination) \<longrightarrow>
        tr_nodes u k = tr_nodes t k) \<and> tr_written u \<le> tr_written t + n"

interpretation tree: zip_world "tree_unzip es" destination "tree_keeps destination" for es destination
proof
  show "tree_keeps destination (m + n) a c" if "tree_keeps destination m a b" "tree_keeps destination n b c" for m n a b c
    using that by (auto simp: tree_keeps_def)
  show "tree_keeps destination 0 w w'" if "uz_mkdir_all (tree_unzip es) destination md w = (x, w')" for md w x w'
    using that by (auto simp: tree_keeps_def tree_unzip_def add_folders_def)
  fix p :: string assume "inside p"
  then have p: "prefix (tree_at [] destination) (tree_at (tree_at [] destination) p)" by (rule tree_at_inside)
  fix ro v v' x and w w' :: tree
  assume "uz_root (tree_unzip es) destination v = (Inr ro, v')"
  then have ro: "ro = tree_root (tree_at [] destination)" by (simp add: tree_unzip_def)
  show "tree_keeps destination 0 w w'" if "ro_mkdir_all ro p md w = (x, w')" for md
    using that p by (auto simp: ro tree_root_def tree_keeps_def add_folders_def)
  show "tree_keeps destination 0 w w'" if "ro_create ro p md w = (x, w')" for md
    using that p by (auto simp: ro tree_root_def tree_keeps_def split: if_splits)
  show "tree_keeps destination (length d) w w'" if "ro_append ro p d w = (x, w')" for d
    using that p by (auto simp: ro tree_root_def tree_keeps_def)
qed (auto simp: tree_keeps_def tree_unzip_def tree_root_def)

section \<open>Properties\<close>

text \<open>C27. Extracting an archive, whatever its entries say, changes nothing outside the destination and
  writes at most 8 GiB and one byte for each entry, also when it fails half-way: every path handed to the
  directory handle stays inside it, and the size check cannot wrap around.\<close>

theorem extraction_is_confined:
  assumes "zip_world u destination keeps"
    and "uz_open u path w = (opened, w0)" and "extract_zip u path destination w = (r, w')"
  shows "keeps (8 * 2 ^ 30 + (case opened of Inl e \<Rightarrow> 0 | Inr es \<Rightarrow> length es)) w w'"
  using zip_world.extract_zip_keeps [OF assms] by (simp add: archive_limit_def push_bit_eq_mult)

definition hostile_archive :: "zip_entry list" where
  "hostile_archive =
     [\<lparr>ze_name = ''maps/e1'', ze_symlink = False, ze_dir = False, ze_regular = True, ze_perm = 0, ze_size = 2,
       ze_open = Inr ([''ab''], Inr ())\<rparr>,
      \<lparr>ze_name = ''maps/../../passwd'', ze_symlink = False, ze_dir = False, ze_regular = True, ze_perm = 0, ze_size = 2,
       ze_open = Inr ([''ab''], Inr ())\<rparr>]"

definition empty_tree :: tree where
  "empty_tree = \<lparr>tr_nodes = (\<lambda>k. None), tr_written = 0\<rparr>"

theorem extraction_is_confined_witness:
  "\<exists>t. extract_zip (tree_unzip hostile_archive) [] ''/opt'' empty_tree =
       (Inl (archive_error ''unsafe asset archive path '' (hostile_archive ! 1)), t) \<and>
     tree_keeps ''/opt'' (8 * 2 ^ 30 + 2) empty_tree t \<and> tr_nodes t [''opt'', ''maps'', ''e1''] = Some (File ''ab'')"
proof -
  obtain r t where rt: "extract_zip (tree_unzip hostile_archive) [] ''/opt'' empty_tree = (r, t)" by fastforce
  have "fst (extract_zip (tree_unzip hostile_archive) [] ''/opt'' empty_tree) =
      Inl (archive_error ''unsafe asset archive path '' (hostile_archive ! 1)) \<and>
    tr_nodes (snd (extract_zip (tree_unzip hostile_archive) [] ''/opt'' empty_tree)) [''opt'', ''maps'', ''e1''] = Some (File ''ab'')"
    by code_simp
  moreover have "tree_keeps ''/opt'' (8 * 2 ^ 30 + 2) empty_tree t"
    using extraction_is_confined [OF tree.zip_world_axioms _ rt, of "Inr hostile_archive"]
    by (simp add: tree_unzip_def hostile_archive_def)
  ultimately show ?thesis using rt by auto
qed

end
