(* ===== verification/AgentDownload.thy ===== *)
theory AgentDownload
  imports AgentFiles GameFiles
begin

text \<open>
  The agent's downloads (internal/agent/download.go): the list of sources, the fetch with its retries, and
  what is done with a fetched file. The web client, SHA-256 and the files are parameters; progress is only
  logged and left out. The lemmas say what a fetched file and a finished download rest on.
\<close>

section \<open>The list of sources\<close>

record data_entry =
  de_url :: string
  de_path :: string

definition parse_part :: "string \<Rightarrow> data_entry list" where
  "parse_part part =
     (let part = trim_space part in
      if part = [] then []
      else (let (url, path, found) = cut (CHR ''='') part in [\<lparr>de_url = trim_space url, de_path = trim_space path\<rparr>]))"

definition parse_data_url :: "string \<Rightarrow> data_entry list" where
  "parse_data_url raw = concat (map parse_part (split_on (CHR '';'') raw))"

definition hex_bytes :: "nat list \<Rightarrow> string" where
  "hex_bytes bs = concat (map (\<lambda>b. [hex_char (b div 16), hex_char (b mod 16)]) bs)"

definition sentinel_path :: "(string \<Rightarrow> nat list) \<Rightarrow> string \<Rightarrow> string \<Rightarrow> string" where
  "sentinel_path sha256 dir url = path_join [dir, ''.cache-'' @ hex_bytes (take 8 (sha256 url))]"

section \<open>Fetching\<close>

text \<open>A response's body: what its reads give, and how they end.\<close>

record web_response =
  wr_status :: int
  wr_body :: "string list"
  wr_end :: "err + unit"

record 'w web =
  we_request :: "string \<Rightarrow> err + unit"
  we_get :: "string \<Rightarrow> string \<Rightarrow> ('w, web_response) io"
  we_sleep :: "int \<Rightarrow> 'w \<Rightarrow> 'w"

fun copy_body :: "'w files \<Rightarrow> string \<Rightarrow> string list \<Rightarrow> err + unit \<Rightarrow> ('w, unit) io" where
  "copy_body fs tmp [] fin w = (fin, w)"
| "copy_body fs tmp (c # cs) fin w =
     (case fi_append fs tmp c w of
        (Inl e, w) \<Rightarrow> (Inl e, w)
      | (Inr u, w) \<Rightarrow> copy_body fs tmp cs fin w)"

definition stream_to_file :: "'w files \<Rightarrow> web_response \<Rightarrow> ('w, string) io" where
  "stream_to_file fs resp w =
     (case fi_temp fs [] ''insta-game-download-'' w of
        (Inl e, w) \<Rightarrow> (Inl (ErrWrap ''create temp file: '' e), w)
      | (Inr tmp, w) \<Rightarrow>
          (let (copied, w) = copy_body fs tmp (wr_body resp) (wr_end resp) w;
               (c, w) = fi_close fs tmp w
           in case copied of
                Inl e \<Rightarrow> (let (u, w) = fi_remove fs tmp w in (Inl e, w))
              | Inr u \<Rightarrow> (Inr tmp, w)))"

definition http_error :: "int \<Rightarrow> err" where
  "http_error status = ErrMsg (''HTTP '' @ show_int status)"

definition backoff :: "int list" where
  "backoff = map (\<lambda>s. s * second) [1, 2, 4, 8, 16]"

text \<open>One attempt: \<open>Inl e\<close> asks for another, \<open>Inr\<close> is the result.\<close>

definition fetch_attempt ::
  "'w files \<Rightarrow> 'w web \<Rightarrow> string \<Rightarrow> string \<Rightarrow> 'w \<Rightarrow> (err + (err + string)) \<times> 'w" where
  "fetch_attempt fs we url agent w =
     (case we_request we url of
        Inl e \<Rightarrow> (Inr (Inl e), w)
      | Inr u \<Rightarrow>
          (case we_get we url agent w of
             (Inl e, w) \<Rightarrow> (Inl e, w)
           | (Inr resp, w) \<Rightarrow>
               if wr_status resp = 429 \<or> 500 \<le> wr_status resp then (Inl (http_error (wr_status resp)), w)
               else if wr_status resp \<noteq> 200 then (Inr (Inl (http_error (wr_status resp))), w)
               else (let (r, w) = stream_to_file fs resp w in (Inr r, w))))"

text \<open>Each delay comes before its attempt; after the last one the last error is the result.\<close>

fun fetch_attempts ::
  "'w files \<Rightarrow> 'w web \<Rightarrow> string \<Rightarrow> string \<Rightarrow> err \<Rightarrow> int list \<Rightarrow> ('w, string) io" where
  "fetch_attempts fs we url agent e [] w = (Inl e, w)"
| "fetch_attempts fs we url agent e (d # ds) w =
     (case fetch_attempt fs we url agent (we_sleep we d w) of
        (Inl e, w) \<Rightarrow> fetch_attempts fs we url agent e ds w
      | (Inr r, w) \<Rightarrow> (r, w))"

definition fetch_with_retry :: "'w files \<Rightarrow> 'w web \<Rightarrow> string \<Rightarrow> string \<Rightarrow> ('w, string) io" where
  "fetch_with_retry fs we url agent w =
     (let agent = (if agent = [] then ''fogo-sh/insta-game'' else agent) in
      case fetch_attempt fs we url agent w of
        (Inl e, w) \<Rightarrow> fetch_attempts fs we url agent e backoff w
      | (Inr r, w) \<Rightarrow> (r, w))"

definition is_zip :: "'w files \<Rightarrow> string \<Rightarrow> ('w, bool) io" where
  "is_zip fs path w =
     (case fi_head fs 4 path w of
        (Inl e, w) \<Rightarrow> (Inl e, w)
      | (Inr magic, w) \<Rightarrow> (Inr (4 \<le> length magic \<and> magic = [CHR ''P'', CHR ''K'', CHR 0x03, CHR 0x04]), w))"

section \<open>Putting a file in place\<close>

definition place_file :: "'w files \<Rightarrow> string \<Rightarrow> string \<Rightarrow> ('w, unit) io" where
  "place_file fs tmp path w =
     (case fi_rename fs tmp path w of
        (Inr u, w) \<Rightarrow> (Inr (), w)
      | (Inl e, w) \<Rightarrow>
          (case copy_file fs tmp path w of
             (Inl e, w) \<Rightarrow> (Inl (ErrWrap (''write '' @ path @ '': '') e), w)
           | (Inr u, w) \<Rightarrow> (Inr (), w)))"

definition install_file :: "'w files \<Rightarrow> 'w unzip \<Rightarrow> data_entry \<Rightarrow> string \<Rightarrow> ('w, unit) io" where
  "install_file fs uz entry tmp w =
     (case is_zip fs tmp w of
        (Inl e, w) \<Rightarrow> (Inl (ErrWrap (''check zip '' @ de_url entry @ '': '') e), w)
      | (Inr archive, w) \<Rightarrow>
          if archive
          then (case extract_zip uz tmp (if de_path entry = [] then ''/opt/'' else de_path entry) w of
                  (Inl e, w) \<Rightarrow> (Inl (ErrWrap (''extract '' @ de_url entry @ '': '') e), w)
                | (Inr u, w) \<Rightarrow> (Inr (), w))
          else place_file fs tmp (de_path entry) w)"

definition download_entry :: "'w files \<Rightarrow> 'w web \<Rightarrow> 'w unzip \<Rightarrow> string \<Rightarrow> data_entry \<Rightarrow> ('w, unit) io" where
  "download_entry fs we uz agent entry w =
     (case fetch_with_retry fs we (de_url entry) agent w of
        (Inl e, w) \<Rightarrow> (Inl (ErrWrap (''download '' @ de_url entry @ '': '') e), w)
      | (Inr tmp, w) \<Rightarrow>
          (let (r, w) = install_file fs uz entry tmp w; (u, w) = fi_remove fs tmp w in (r, w)))"

fun download_entries ::
  "'w files \<Rightarrow> 'w web \<Rightarrow> 'w unzip \<Rightarrow> (string \<Rightarrow> string) \<Rightarrow> string \<Rightarrow> data_entry list \<Rightarrow> ('w, unit) io" where
  "download_entries fs we uz sentinel agent [] w = (Inr (), w)"
| "download_entries fs we uz sentinel agent (e # es) w =
     (case fi_stat fs (sentinel (de_url e)) w of
        (Inr u, w) \<Rightarrow> download_entries fs we uz sentinel agent es w
      | (Inl er, w) \<Rightarrow>
          (case download_entry fs we uz agent e w of
             (Inl er, w) \<Rightarrow> (Inl er, w)
           | (Inr u, w) \<Rightarrow>
               (let (x, w) = fi_write fs (sentinel (de_url e)) 0x1A4 (de_url e) w in
                download_entries fs we uz sentinel agent es w)))"

definition download_data ::
  "'w files \<Rightarrow> 'w web \<Rightarrow> 'w unzip \<Rightarrow> (string \<Rightarrow> nat list) \<Rightarrow> string \<Rightarrow> string \<Rightarrow> string \<Rightarrow> string \<Rightarrow> ('w, unit) io" where
  "download_data fs we uz sha256 data_url default_config config_path agent w =
     (let entries = parse_data_url data_url in
      if entries = [] then copy_file fs default_config config_path w
      else (case download_entries fs we uz (sentinel_path sha256 (path_dir config_path)) agent entries w of
              (Inl e, w) \<Rightarrow> (Inl e, w)
            | (Inr u, w) \<Rightarrow>
                (case fi_stat fs config_path w of
                   (Inr u, w) \<Rightarrow> (Inr (), w)
                 | (Inl e, w) \<Rightarrow>
                     if \<not> fi_missing fs e then (Inl e, w) else copy_file fs default_config config_path w)))"

section \<open>What a result rests on\<close>

text \<open>A fetched file is the complete body of a response with status 200.\<close>

lemma fetch_attempt_ok:
  assumes "fetch_attempt fs we url agent w = (Inr (Inr tmp), w')"
  shows "\<exists>w1 w2 resp. we_get we url agent w1 = (Inr resp, w2) \<and> wr_status resp = 200 \<and> wr_end resp = Inr () \<and>
    stream_to_file fs resp w2 = (Inr tmp, w')"
proof -
  obtain r w2 where r: "we_get we url agent w = (r, w2)" by fastforce
  obtain resp where resp: "r = Inr resp" "wr_status resp = 200"
    using assms r by (auto simp: fetch_attempt_def split: sum.splits if_splits)
  then have s: "stream_to_file fs resp w2 = (Inr tmp, w')"
    using assms r by (auto simp: fetch_attempt_def split: sum.splits prod.splits)
  have copied: "copy_body fs p cs fin v = (Inr (), v') \<Longrightarrow> fin = Inr ()" for p cs fin v v'
    by (induction fs p cs fin v rule: copy_body.induct) (auto split: sum.splits prod.splits)
  have "wr_end resp = Inr ()"
    using s by (auto simp: stream_to_file_def Let_def split: sum.splits prod.splits dest!: copied)
  then show ?thesis using r resp s by blast
qed

lemma fetch_ok:
  assumes "fetch_with_retry fs we url agent w = (Inr tmp, w')"
  shows "\<exists>a w1 w2 w3 resp. we_get we url a w1 = (Inr resp, w2) \<and> wr_status resp = 200 \<and> wr_end resp = Inr () \<and>
    stream_to_file fs resp w2 = (Inr tmp, w3)"
proof -
  have *: "fetch_attempts fs we url a e ds w = (Inr tmp, w') \<Longrightarrow>
      \<exists>v. fetch_attempt fs we url a v = (Inr (Inr tmp), w')" for a e ds w
    by (induction fs we url a e ds w rule: fetch_attempts.induct) (auto split: sum.splits prod.splits)
  define a where "a = (if agent = [] then ''fogo-sh/insta-game'' else agent)"
  obtain r w1 where r: "fetch_attempt fs we url a w = (r, w1)" by fastforce
  have "\<exists>v. fetch_attempt fs we url a v = (Inr (Inr tmp), w')"
  proof (cases r)
    case (Inl e)
    then have "fetch_attempts fs we url a e backoff w1 = (Inr tmp, w')"
      using assms r by (simp add: fetch_with_retry_def a_def)
    then show ?thesis by (rule *)
  next
    case (Inr x)
    then show ?thesis using assms r by (intro exI [of _ w]) (simp add: fetch_with_retry_def a_def)
  qed
  then obtain v where "fetch_attempt fs we url a v = (Inr (Inr tmp), w')" by blast
  from fetch_attempt_ok [OF this] show ?thesis by blast
qed

text \<open>The retries end after six attempts and 31 seconds of waiting.\<close>

lemma backoff_ends: "length backoff = 5 \<and> sum_list backoff = 31 * second"
  by (simp add: backoff_def second_def)

text \<open>After a success every source was cached, or fetched and put in place.\<close>

lemma download_entries_done:
  "download_entries fs we uz sentinel agent es w = (Inr u, w') \<Longrightarrow> e \<in> set es \<Longrightarrow>
   (\<exists>v v'. fi_stat fs (sentinel (de_url e)) v = (Inr (), v')) \<or>
   (\<exists>v v'. download_entry fs we uz agent e v = (Inr (), v'))"
proof (induction es arbitrary: w)
  case (Cons x es)
  obtain s w1 where s: "fi_stat fs (sentinel (de_url x)) w = (s, w1)" by fastforce
  show ?case
  proof (cases s)
    case (Inr y)
    then have "download_entries fs we uz sentinel agent es w1 = (Inr u, w')" using Cons.prems(1) s by simp
    then show ?thesis using Cons.IH Cons.prems(2) s Inr by auto
  next
    case (Inl er)
    obtain d w2 where d: "download_entry fs we uz agent x w1 = (d, w2)" by fastforce
    then have ok: "d = Inr ()" using Cons.prems(1) s Inl by (cases d) auto
    obtain y w3 where y: "fi_write fs (sentinel (de_url x)) 0x1A4 (de_url x) w2 = (y, w3)" by fastforce
    have "download_entries fs we uz sentinel agent es w3 = (Inr u, w')" using Cons.prems(1) s Inl d ok y by simp
    then show ?thesis using Cons.IH Cons.prems(2) d ok by auto
  qed
qed simp

end
