(* ===== verification/AgentProcess.thy ===== *)
theory AgentProcess
  imports GoStrings
begin

text \<open>
  The agent's game process (internal/agent/process.go). Every section under the mutex is one function;
  goroutines, the children and the operating system interleave as steps: a child exits by itself or is
  killed, the goroutine that waits for it records it, and a stop waits for that. A child is named by the
  number of its start; its pipe and its channel go by the same number.
\<close>

section \<open>State\<close>

record game_process =
  gp_child :: nat
  gp_running :: bool
  gp_failure :: string

record agent =
  ag_process :: game_process
  ag_started :: nat
  ag_alive :: "nat list"
  ag_exited :: "(nat \<times> string option) list"
  ag_done :: "nat list"
  ag_pipes :: "nat list"
  ag_input :: "(nat \<times> string) list"
  ag_stops :: "nat list"

definition new_agent :: agent where
  "new_agent = \<lparr>ag_process = \<lparr>gp_child = 0, gp_running = False, gp_failure = []\<rparr>, ag_started = 0, ag_alive = [],
     ag_exited = [], ag_done = [], ag_pipes = [], ag_input = [], ag_stops = []\<rparr>"

section \<open>Operations\<close>

text \<open>Opening the pipe and starting the command fail or give a child.\<close>

definition start_game :: "err + unit \<Rightarrow> agent \<Rightarrow> (err + unit) \<times> agent" where
  "start_game spawned a =
     (if gp_running (ag_process a) then (Inl (ErrMsg ''game is already running''), a)
      else (case spawned of
              Inl e \<Rightarrow> (Inl e, a)
            | Inr u \<Rightarrow>
                (let c = Suc (ag_started a) in
                 (Inr (), a\<lparr>ag_process := \<lparr>gp_child = c, gp_running = True, gp_failure = []\<rparr>, ag_started := c,
                    ag_alive := c # ag_alive a, ag_pipes := c # ag_pipes a\<rparr>))))"

text \<open>What the goroutine that waited for the child does.\<close>

definition reap :: "nat \<Rightarrow> string option \<Rightarrow> agent \<Rightarrow> agent" where
  "reap c failure a =
     (let p = ag_process a; p = p\<lparr>gp_running := False\<rparr>;
          p = (case failure of None \<Rightarrow> p | Some e \<Rightarrow> p\<lparr>gp_failure := e\<rparr>)
      in a\<lparr>ag_process := p, ag_pipes := removeAll c (ag_pipes a), ag_done := c # ag_done a\<rparr>)"

definition write_line :: "nat \<Rightarrow> string \<Rightarrow> agent \<Rightarrow> (err + unit) \<times> agent" where
  "write_line c line a =
     (if c \<in> set (ag_pipes a) then (Inr (), a\<lparr>ag_input := ag_input a @ [(c, line @ [CHR 0x0A])]\<rparr>)
      else (Inl (ErrMsg ''file already closed''), a))"

text \<open>The part of \<open>Stop\<close> under the mutex, and the child it then waits for.\<close>

definition stop_begin :: "string \<Rightarrow> agent \<Rightarrow> agent" where
  "stop_begin quit a =
     (if \<not> gp_running (ag_process a) then a
      else (let c = gp_child (ag_process a); (r, a) = write_line c quit a in
        a\<lparr>ag_pipes := removeAll c (ag_pipes a), ag_stops := c # ag_stops a\<rparr>))"

definition stop_timeout :: "int \<Rightarrow> int" where
  "stop_timeout configured = (if configured \<le> 0 then 15 * second else configured)"

definition command :: "string \<Rightarrow> agent \<Rightarrow> (err + unit) \<times> agent" where
  "command line a =
     (if contains_any line [CHR 0x0D, CHR 0x0A] \<or> 4096 < length line \<or> trim_space line = []
      then (Inl (ErrMsg ''expected one console command''), a)
      else if \<not> gp_running (ag_process a) then (Inl (ErrMsg ''game is not running''), a)
      else write_line (gp_child (ag_process a)) line a)"

definition process_state :: "agent \<Rightarrow> bool \<times> string" where
  "process_state a = (gp_running (ag_process a), gp_failure (ag_process a))"

text \<open>A child ends: by itself, or because a stop ran out of patience.\<close>

definition child_exits :: "nat \<Rightarrow> string option \<Rightarrow> agent \<Rightarrow> agent" where
  "child_exits c failure a = a\<lparr>ag_alive := removeAll c (ag_alive a), ag_exited := (c, failure) # ag_exited a\<rparr>"

section \<open>Steps\<close>

inductive ag_step :: "agent \<Rightarrow> agent \<Rightarrow> bool" where
  Start: "ag_step a (snd (start_game spawned a))"
| Stop: "ag_step a (stop_begin quit a)"
| Command: "ag_step a (snd (command line a))"
| Exit: "c \<in> set (ag_alive a) \<Longrightarrow> ag_step a (child_exits c failure a)"
| Kill: "c \<in> set (ag_stops a) \<Longrightarrow> c \<in> set (ag_alive a) \<Longrightarrow> ag_step a (child_exits c (Some ''signal: killed'') a)"
| Reap: "ag_exited a = xs @ (c, failure) # ys \<Longrightarrow> ag_step a (reap c failure (a\<lparr>ag_exited := xs @ ys\<rparr>))"
| Stopped: "c \<in> set (ag_stops a) \<Longrightarrow> c \<in> set (ag_done a) \<Longrightarrow> ag_step a (a\<lparr>ag_stops := remove1 c (ag_stops a)\<rparr>)"

inductive_cases ag_stepE: "ag_step a b"

section \<open>The invariant\<close>

text \<open>
  The running flag says that the current child is alive or exited and not recorded yet; nothing else is.
  A stop waits for that child, or for one that is recorded.
\<close>

definition agent_ok :: "agent \<Rightarrow> bool" where
  "agent_ok a \<longleftrightarrow>
     (let c = gp_child (ag_process a) in
      ag_alive a @ map fst (ag_exited a) = (if gp_running (ag_process a) then [c] else []) \<and>
      c = ag_started a \<and> (gp_running (ag_process a) \<longrightarrow> c \<notin> set (ag_done a)) \<and>
      (\<forall>d\<in>set (ag_done a). d \<le> ag_started a) \<and>
      set (ag_pipes a) \<subseteq> (if gp_running (ag_process a) then {c} else {}) \<and>
      (\<forall>d\<in>set (ag_stops a). d \<in> set (ag_done a) \<or> gp_running (ag_process a) \<and> d = c))"

lemma new_agent_ok: "agent_ok new_agent"
  by (simp add: agent_ok_def new_agent_def)

lemma start_game_ok: "agent_ok a \<Longrightarrow> agent_ok (snd (start_game s a))"
  by (cases "gp_running (ag_process a)"; cases s) (auto simp: agent_ok_def start_game_def Let_def)

lemma write_line_fields:
  "ag_process (snd (write_line c l a)) = ag_process a" "ag_stops (snd (write_line c l a)) = ag_stops a"
  "ag_pipes (snd (write_line c l a)) = ag_pipes a" "ag_alive (snd (write_line c l a)) = ag_alive a"
  "ag_exited (snd (write_line c l a)) = ag_exited a" "ag_done (snd (write_line c l a)) = ag_done a"
  "ag_started (snd (write_line c l a)) = ag_started a"
  by (simp_all add: write_line_def)

lemma write_line_ok: "agent_ok a \<Longrightarrow> agent_ok (snd (write_line c l a))"
  unfolding agent_ok_def write_line_fields by assumption

lemma stop_begin_ok: "agent_ok a \<Longrightarrow> agent_ok (stop_begin q a)"
  by (auto simp: agent_ok_def stop_begin_def Let_def case_prod_unfold write_line_fields)

lemma command_ok: "agent_ok a \<Longrightarrow> agent_ok (snd (command l a))"
  by (simp add: command_def write_line_ok)

lemma child_exits_ok:
  assumes "agent_ok a" "c \<in> set (ag_alive a)"
  shows "agent_ok (child_exits c f a)"
proof -
  have "ag_alive a @ map fst (ag_exited a) = [gp_child (ag_process a)]" "gp_running (ag_process a)"
    using assms by (auto simp: agent_ok_def Let_def split: if_splits)
  then have "ag_alive a = [c]" "ag_exited a = []" "gp_child (ag_process a) = c" "gp_running (ag_process a)"
    using assms(2) by (auto simp: append_eq_Cons_conv)
  then show ?thesis using assms by (auto simp: agent_ok_def child_exits_def Let_def)
qed

lemma reap_ok:
  assumes "agent_ok a" "ag_exited a = xs @ (c, f) # ys"
  shows "agent_ok (reap c f (a\<lparr>ag_exited := xs @ ys\<rparr>))"
proof -
  have all: "ag_alive a @ map fst (ag_exited a) = [gp_child (ag_process a)]" "gp_running (ag_process a)"
    using assms by (auto simp: agent_ok_def Let_def split: if_splits)
  have "ag_alive a = []" "xs = []" "ys = []" "gp_child (ag_process a) = c" "gp_running (ag_process a)"
    using all unfolding assms(2) by (auto simp: append_eq_Cons_conv)
  then show ?thesis
    using assms by (auto simp: agent_ok_def reap_def Let_def split: option.splits)
qed

lemma ag_step_ok: "ag_step a b \<Longrightarrow> agent_ok a \<Longrightarrow> agent_ok b"
proof (induction rule: ag_step.induct)
  case (Stopped c a)
  then show ?case by (auto simp: agent_ok_def Let_def dest: notin_set_remove1 set_remove1_subset [THEN subsetD])
qed (simp_all add: start_game_ok stop_begin_ok command_ok child_exits_ok reap_ok)

lemma reachable_ok: "ag_step\<^sup>*\<^sup>* new_agent a \<Longrightarrow> agent_ok a"
  by (induction rule: rtranclp_induct) (use new_agent_ok ag_step_ok in auto)

section \<open>A stop in one go\<close>

text \<open>What \<open>Stop\<close> does when nobody interferes: \<open>failure\<close> is how the child ends.\<close>

definition stop_game :: "string \<Rightarrow> string option \<Rightarrow> agent \<Rightarrow> agent" where
  "stop_game quit failure a =
     (if \<not> gp_running (ag_process a) then stop_begin quit a
      else (let c = gp_child (ag_process a); b = stop_begin quit a;
                b = (if c \<in> set (ag_alive b) then child_exits c failure b else b);
                f = (case map_of (ag_exited b) c of None \<Rightarrow> None | Some f \<Rightarrow> f);
                b = reap c f (b\<lparr>ag_exited := []\<rparr>)
            in b\<lparr>ag_stops := remove1 c (ag_stops b)\<rparr>))"

text \<open>The current child can always be recorded: it exits if it has not, and the waiting goroutine runs.\<close>

lemma child_ends:
  fixes failure :: "string option"
  assumes ok: "agent_ok a" and run: "gp_running (ag_process a)" "c = gp_child (ag_process a)"
  defines "b \<equiv> if c \<in> set (ag_alive a) then child_exits c failure a else a"
  defines "f \<equiv> case map_of (ag_exited b) c of None \<Rightarrow> None | Some f \<Rightarrow> f"
  shows "ag_step\<^sup>*\<^sup>* a (reap c f (b\<lparr>ag_exited := []\<rparr>))"
proof -
  have one: "ag_alive a @ map fst (ag_exited a) = [c]"
    using ok run by (simp add: agent_ok_def Let_def)
  have ab: "ag_step\<^sup>*\<^sup>* a b" using ag_step.Exit [of c a failure] by (auto simp: b_def)
  have "ag_exited b = [(c, f)]"
  proof (cases "c \<in> set (ag_alive a)")
    case True
    then have "ag_exited a = []" using one by (auto simp: append_eq_Cons_conv)
    then show ?thesis using True by (simp add: b_def f_def child_exits_def)
  next
    case False
    then obtain g where "ag_exited a = [(c, g)]" using one by (auto simp: append_eq_Cons_conv)
    then show ?thesis using False by (simp add: b_def f_def)
  qed
  then have "ag_step b (reap c f (b\<lparr>ag_exited := []\<rparr>))" using ag_step.Reap [of b "[]" c f "[]"] by simp
  then show ?thesis using ab by simp
qed

lemma stop_game_steps:
  assumes "agent_ok a"
  shows "ag_step\<^sup>*\<^sup>* a (stop_game quit failure a)"
proof (cases "gp_running (ag_process a)")
  case False
  then show ?thesis using ag_step.Stop [of a quit] by (simp add: stop_game_def)
next
  case True
  let ?c = "gp_child (ag_process a)" and ?s = "stop_begin quit a"
  have s: "agent_ok ?s" "ag_process ?s = ag_process a" "?c \<in> set (ag_stops ?s)"
    using stop_begin_ok [OF assms] True by (simp_all add: stop_begin_def Let_def case_prod_unfold write_line_fields)
  let ?b = "if ?c \<in> set (ag_alive ?s) then child_exits ?c failure ?s else ?s"
  let ?r = "reap ?c (case map_of (ag_exited ?b) ?c of None \<Rightarrow> None | Some f \<Rightarrow> f) (?b\<lparr>ag_exited := []\<rparr>)"
  have 1: "ag_step\<^sup>*\<^sup>* ?s ?r" using child_ends [OF s(1), of ?c failure] True s(2) by simp
  have "?c \<in> set (ag_stops ?r)" "?c \<in> set (ag_done ?r)"
    using s(3) by (simp_all add: reap_def Let_def child_exits_def)
  then have 2: "ag_step ?r (?r\<lparr>ag_stops := remove1 ?c (ag_stops ?r)\<rparr>)" by (rule ag_step.Stopped)
  have "stop_game quit failure a = ?r\<lparr>ag_stops := remove1 ?c (ag_stops ?r)\<rparr>"
    using True by (simp add: stop_game_def Let_def)
  then show ?thesis using ag_step.Stop [of a quit] 1 2 by (metis converse_rtranclp_into_rtranclp rtranclp.rtrancl_into_rtrancl)
qed

section \<open>Properties\<close>



end
