(* ===== verification/AgentRun.thy ===== *)
theory AgentRun
  imports AgentDownload AgentProcess AgentRcon AgentLog Query
begin

text \<open>
  The agent beside a game server (internal/agent/run.go, config.go, http_helpers.go, log_http.go, file.go):
  its configuration from the environment, the order in which it starts, and its HTTP interface. Paths are
  those Go's multiplexer hands out; a decoded request body is a parameter, as are the sockets of the
  server and of the query. Durations are 64-bit and wrap.
\<close>

section \<open>Configuration\<close>

record agent_config =
  ac_seed_path :: string
  ac_asset_seed :: string
  ac_data_root :: string
  ac_tls :: bool
  ac_protocol :: string
  ac_game_dir :: string
  ac_game_cmd :: string
  ac_game_args :: "string list"
  ac_quit_cmd :: string
  ac_quit_timeout :: int
  ac_game_port :: int
  ac_data_url :: string
  ac_default_config :: string
  ac_config_path :: string
  ac_rcon_password :: string
  ac_user_agent :: string
  ac_token :: string
  ac_config_text :: "string option"
  ac_host :: string
  ac_port :: int

type_synonym environment = "string \<Rightarrow> string option"

definition env_or :: "environment \<Rightarrow> string \<Rightarrow> string \<Rightarrow> string" where
  "env_or env key def = (case env key of None \<Rightarrow> def | Some v \<Rightarrow> if v \<noteq> [] then v else def)"

text \<open>\<open>time.Duration(n) * time.Second\<close>.\<close>

definition seconds_duration :: "int \<Rightarrow> int" where
  "seconds_duration n = sint (word_of_int (n * second) :: 64 word)"

definition from_env :: "environment \<Rightarrow> agent_config" where
  "from_env env =
     \<lparr>ac_seed_path = env_or env ''DATA_SEED'' [], ac_asset_seed = env_or env ''ASSET_SEED'' [],
      ac_data_root = env_or env ''DATA_ROOT'' ''/opt'', ac_tls = (env_or env ''AGENT_TLS'' ''false'' = ''true''),
      ac_protocol = env_or env ''PROTOCOL'' [], ac_game_dir = [], ac_game_cmd = env_or env ''GAME_CMD'' [],
      ac_game_args = (let v = env_or env ''GAME_ARGS'' [] in if v \<noteq> [] then GoStrings.fields v else []),
      ac_quit_cmd = env_or env ''GAME_QUIT_CMD'' ''quit'',
      ac_quit_timeout = seconds_duration (atoi_value (env_or env ''GAME_QUIT_TIMEOUT'' ''15'')),
      ac_game_port = atoi_value (env_or env ''GAME_PORT'' ''26000''), ac_data_url = env_or env ''DATA_URL'' [],
      ac_default_config = env_or env ''DEFAULT_CONFIG_PATH'' ''/opt/default-server.cfg'',
      ac_config_path = env_or env ''CONFIG_PATH'' ''/opt/data/server.cfg'',
      ac_rcon_password = env_or env ''RCON_PASSWORD'' [], ac_user_agent = env_or env ''DOWNLOAD_USER_AGENT'' [],
      ac_token = env_or env ''TOKEN'' [], ac_config_text = env ''CONFIG_TEXT'',
      ac_host = env_or env ''HOST'' ''0.0.0.0'', ac_port = atoi_value (env_or env ''PORT'' ''5001'')\<rparr>"

section \<open>The agent's surroundings\<close>

text \<open>
  \<open>av_start\<close> and the next three are the game process; \<open>av_serve\<close> is the HTTP server until it
  ends or the context does; \<open>av_logs\<close> subscribes and streams until the client is gone.
\<close>

record 'w surroundings =
  av_files :: "'w files"
  av_web :: "'w web"
  av_unzip :: "'w unzip"
  av_sha256 :: "string \<Rightarrow> nat list"
  av_canceled :: "'w \<Rightarrow> err option \<times> 'w"
  av_walk :: "'w walker"
  av_start :: "agent_config \<Rightarrow> ('w, unit) io"
  av_stop :: "agent_config \<Rightarrow> 'w \<Rightarrow> 'w"
  av_command :: "string \<Rightarrow> ('w, unit) io"
  av_state :: "'w \<Rightarrow> (bool \<times> string) \<times> 'w"
  av_query :: "agent_config \<Rightarrow> 'w \<Rightarrow> status_info option \<times> 'w"
  av_logs :: "'w \<Rightarrow> (string list \<times> string list) \<times> 'w"
  av_shutdown :: "'w \<Rightarrow> 'w"
  av_server_tls :: "string \<Rightarrow> ('w, unit) io"
  av_serve :: "agent_config \<Rightarrow> ('w, unit) io"
  av_open_lock :: "string \<Rightarrow> ('w, unit) io"
  av_flock :: "string \<Rightarrow> ('w, unit) io"
  av_unlock :: "string \<Rightarrow> 'w \<Rightarrow> 'w"
  av_config_json :: "string \<Rightarrow> err + agent_config"
  av_restart_body :: "string \<Rightarrow> err + string option"
  av_console_body :: "string \<Rightarrow> err + string"

definition server_closed :: err where
  "server_closed = ErrMsg ''http: Server closed''"

section \<open>Starting up\<close>

definition rcon_of :: "'w surroundings \<Rightarrow> agent_config \<Rightarrow> ('w, unit) io" where
  "rcon_of s c w =
     configure_rcon (fi_read (av_files s) (ac_config_path c)) (fi_write (av_files s) (ac_config_path c) 0x1A4)
       (ac_protocol c) (ac_rcon_password c) w"

definition check_config :: "agent_config \<Rightarrow> err + agent_config" where
  "check_config c =
     (if ac_game_cmd c = [] then Inl (ErrMsg ''GAME_CMD is required'')
      else if ac_token c = [] then Inl (ErrMsg ''TOKEN is required'')
      else (let c = (if ac_quit_timeout c \<le> 0 then c\<lparr>ac_quit_timeout := 15 * second\<rparr> else c) in
        if ac_protocol c = [] then Inl (ErrMsg ''PROTOCOL is required'') else Inr c))"

text \<open>Everything before the game is started: seeds, downloads, the configuration and its password.\<close>

definition prepare_game :: "'w surroundings \<Rightarrow> agent_config \<Rightarrow> ('w, unit) io" where
  "prepare_game s c w =
     (let fs = av_files s; root = (if ac_data_root c = [] then path_dir (ac_config_path c) else ac_data_root c) in
      case seed_data fs (av_canceled s) (av_walk s) (ac_seed_path c) root w of
        (Inl e, w) \<Rightarrow> (Inl e, w)
      | (Inr u, w) \<Rightarrow>
          (case seed_files fs (av_canceled s) (av_walk s) (ac_asset_seed c) root ''.insta-game-assets-seeded'' w of
             (Inl e, w) \<Rightarrow> (Inl e, w)
           | (Inr u, w) \<Rightarrow>
               (case download_data fs (av_web s) (av_unzip s) (av_sha256 s) (ac_data_url c) (ac_default_config c)
                       (ac_config_path c) (ac_user_agent c) w of
                  (Inl e, w) \<Rightarrow> (Inl e, w)
                | (Inr u, w) \<Rightarrow>
                    (case (case ac_config_text c of None \<Rightarrow> (Inr (), w)
                           | Some t \<Rightarrow> fi_write fs (ac_config_path c) 0x180 t w) of
                       (Inl e, w) \<Rightarrow> (Inl e, w)
                     | (Inr u, w) \<Rightarrow> rcon_of s c w))))"

text \<open>The server, with TLS if wanted; a regular close is no error.\<close>

definition serve_until :: "'w surroundings \<Rightarrow> agent_config \<Rightarrow> ('w, unit) io" where
  "serve_until s c w =
     (case (if ac_tls c then av_server_tls s (ac_token c) w else (Inr (), w)) of
        (Inl e, w) \<Rightarrow> (Inl e, w)
      | (Inr u, w) \<Rightarrow>
          (case av_serve s c w of
             (Inl e, w) \<Rightarrow> (if err_is e server_closed then Inr () else Inl e, w)
           | (Inr u, w) \<Rightarrow> (Inr (), w)))"

definition run :: "'w surroundings \<Rightarrow> agent_config \<Rightarrow> ('w, unit) io" where
  "run s c w =
     (case check_config c of
        Inl e \<Rightarrow> (Inl e, w)
      | Inr c \<Rightarrow>
          (case prepare_game s c w of
             (Inl e, w) \<Rightarrow> (Inl e, w)
           | (Inr u, w) \<Rightarrow>
               (case av_start s c w of
                  (Inl e, w) \<Rightarrow> (Inl e, w)
                | (Inr u, w) \<Rightarrow> (let (r, w) = serve_until s c w in (r, av_stop s c w)))))"

text \<open>\<open>RunFile\<close>: the lock beside the file is held for the lifetime of the agent.\<close>

definition run_file :: "'w surroundings \<Rightarrow> string \<Rightarrow> ('w, unit) io" where
  "run_file s path w =
     (let lock = path_join [path_dir path, ''run.lock''] in
      case av_open_lock s lock w of
        (Inl e, w) \<Rightarrow> (Inl e, w)
      | (Inr u, w) \<Rightarrow>
          (case av_flock s lock w of
             (Inl e, w) \<Rightarrow> (Inl (ErrWrap ''agent already owns this instance: '' e), w)
           | (Inr u, w) \<Rightarrow>
               (let (r, w) = (case fi_read (av_files s) path w of
                      (Inl e, w) \<Rightarrow> (Inl e, w)
                    | (Inr data, w) \<Rightarrow> (case av_config_json s data of Inl e \<Rightarrow> (Inl e, w) | Inr c \<Rightarrow> run s c w))
                in (r, av_unlock s lock w))))"

section \<open>A new configuration\<close>

fun unix_newlines :: "string \<Rightarrow> string" where
  "unix_newlines (c # d # cs) =
     (if c = cr \<and> d = lf then lf # unix_newlines cs else c # unix_newlines (d # cs))"
| "unix_newlines s = s"

definition restart_content :: "string \<Rightarrow> string" where
  "restart_content t = (let t = unix_newlines t in if t = [] \<or> last t \<noteq> lf then t @ [lf] else t)"

definition apply_restart_config :: "'w surroundings \<Rightarrow> agent_config \<Rightarrow> string option \<Rightarrow> ('w, unit) io" where
  "apply_restart_config s c text w =
     (case text of
        None \<Rightarrow> (Inr (), w)
      | Some t \<Rightarrow>
          (case fi_write (av_files s) (ac_config_path c) 0x180 (restart_content t) w of
             (Inl e, w) \<Rightarrow> (Inl (ErrWrap ''write config: '' e), w)
           | (Inr u, w) \<Rightarrow>
               (case rcon_of s c w of
                  (Inl e, w) \<Rightarrow> (Inl (ErrWrap ''configure rcon: '' e), w)
                | (Inr u, w) \<Rightarrow> (Inr (), w))))"

section \<open>Requests\<close>

datatype agent_body =
    Failed err
  | Notice string
  | Phase string
  | Status bool bool int string string string
  | Text string
  | Events string

record agent_call =
  aq_method :: string
  aq_path :: string
  aq_authorization :: string
  aq_empty :: bool
  aq_body :: string

definition token_ok :: "string \<Rightarrow> agent_call \<Rightarrow> bool" where
  "token_ok token q \<longleftrightarrow> token \<noteq> [] \<and> trim_prefix (aq_authorization q) ''Bearer '' = token"

text \<open>One event of the log stream.\<close>

definition sse :: "string \<Rightarrow> string" where
  "sse line = ''data: '' @ line @ [lf, lf]"

definition agent_status_body :: "bool \<Rightarrow> string \<Rightarrow> status_info option \<Rightarrow> agent_body" where
  "agent_status_body running failure info =
     (case info of
        Some i \<Rightarrow> Status running True (si_players i) (si_hostname i) (si_map i) failure
      | None \<Rightarrow> Status running False 0 [] [] failure)"

definition status_handler :: "'w surroundings \<Rightarrow> agent_config \<Rightarrow> 'w \<Rightarrow> (int \<times> agent_body) \<times> 'w" where
  "status_handler s c w =
     (let ((running, failure), w) = av_state s w;
          (info, w) = (if running then av_query s c w else (None, w))
      in ((200, agent_status_body running failure info), w))"

definition restart_handler :: "'w surroundings \<Rightarrow> agent_config \<Rightarrow> agent_call \<Rightarrow> 'w \<Rightarrow> (int \<times> agent_body) \<times> 'w" where
  "restart_handler s c q w =
     (case (if aq_empty q then Inr None else av_restart_body s (aq_body q)) of
        Inl e \<Rightarrow> ((400, Failed e), w)
      | Inr text \<Rightarrow>
          (case apply_restart_config s c text (av_stop s c w) of
             (Inl e, w) \<Rightarrow> ((500, Failed e), w)
           | (Inr u, w) \<Rightarrow>
               (case av_start s c w of
                  (Inl e, w) \<Rightarrow> ((500, Failed e), w)
                | (Inr u, w) \<Rightarrow> ((200, Phase ''restarted''), w))))"

definition console_handler :: "'w surroundings \<Rightarrow> agent_call \<Rightarrow> 'w \<Rightarrow> (int \<times> agent_body) \<times> 'w" where
  "console_handler s q w =
     (case av_console_body s (aq_body q) of
        Inl e \<Rightarrow> ((400, Failed e), w)
      | Inr line \<Rightarrow>
          (case av_command s line w of
             (Inl e, w) \<Rightarrow> ((409, Failed e), w)
           | (Inr u, w) \<Rightarrow> ((200, Phase ''sent''), w)))"

definition config_handler :: "'w surroundings \<Rightarrow> agent_config \<Rightarrow> 'w \<Rightarrow> (int \<times> agent_body) \<times> 'w" where
  "config_handler s c w =
     (case fi_read (av_files s) (ac_config_path c) w of
        (Inl e, w) \<Rightarrow> ((500, Failed e), w)
      | (Inr data, w) \<Rightarrow> ((200, Text data), w))"

definition logs_handler :: "'w surroundings \<Rightarrow> 'w \<Rightarrow> (int \<times> agent_body) \<times> 'w" where
  "logs_handler s w =
     (let ((past, updates), w) = av_logs s w in ((200, Events (concat (map sse (past @ updates)))), w))"

definition index_page :: "string \<Rightarrow> int \<times> agent_body" where
  "index_page path =
     (if path \<noteq> ''/'' then (404, Notice ''404 page not found'')
      else (200, Notice (''insta-game agent'' @ [lf] @ ''/status'' @ [lf] @ ''/logs'')))"

text \<open>The routes that need the token; \<open>None\<close> is every other request.\<close>

definition guarded :: "'w surroundings \<Rightarrow> agent_config \<Rightarrow> agent_call \<Rightarrow> ('w \<Rightarrow> (int \<times> agent_body) \<times> 'w) option" where
  "guarded s c q =
     (let post = (aq_method q = ''POST''); get = (aq_method q = ''GET'' \<or> aq_method q = ''HEAD''); p = aq_path q in
      if post \<and> p = ''/shutdown'' then Some (\<lambda>w. ((200, Phase ''shutting down''), av_shutdown s w))
      else if get \<and> p = ''/status'' then Some (status_handler s c)
      else if post \<and> p = ''/restart'' then Some (restart_handler s c q)
      else if post \<and> p = ''/stop'' then Some (\<lambda>w. ((200, Phase ''stopped''), av_stop s c w))
      else if post \<and> p = ''/console'' then Some (console_handler s q)
      else if get \<and> p = ''/config'' then Some (config_handler s c)
      else if get \<and> p = ''/logs'' then Some (logs_handler s)
      else None)"

definition serve_agent :: "'w surroundings \<Rightarrow> agent_config \<Rightarrow> agent_call \<Rightarrow> 'w \<Rightarrow> (int \<times> agent_body) \<times> 'w" where
  "serve_agent s c q w =
     (case guarded s c q of
        Some h \<Rightarrow> if token_ok (ac_token c) q then h w else ((401, Notice ''unauthorized''), w)
      | None \<Rightarrow>
          if aq_method q = ''GET'' \<or> aq_method q = ''HEAD'' then (index_page (aq_path q), w)
          else ((405, Notice ''Method Not Allowed''), w))"

section \<open>Lemmas\<close>

text \<open>Once the game is started, whatever ends the agent stops it.\<close>

lemma run_stops_game:
  assumes "run s c w = (r, w')"
  obtains (refused) e where "r = Inl e" "check_config c = Inl e" "w' = w"
  | (unprepared) e c' where "r = Inl e" "check_config c = Inr c'" "prepare_game s c' w = (Inl e, w')"
  | (unstarted) e c' v where "r = Inl e" "prepare_game s c' w = (Inr (), v)" "av_start s c' v = (Inl e, w')"
  | (stopped) c' v where "w' = av_stop s c' v"
  using assms by (auto simp: run_def split: sum.splits prod.splits)

text \<open>A restart answers 200 only with the game started again, on the configuration that was sent.\<close>

lemma restart_ok:
  assumes "restart_handler s c q w = ((200, b), w')"
  shows "\<exists>text v. (if aq_empty q then text = None else av_restart_body s (aq_body q) = Inr text) \<and>
    apply_restart_config s c text (av_stop s c w) = (Inr (), v) \<and> av_start s c v = (Inr (), w')"
  using assms by (auto simp: restart_handler_def split: sum.splits prod.splits if_splits)

lemma guarded_only: "guarded s c q = Some h \<Longrightarrow> aq_path q \<noteq> ''/''"
  by (auto simp: guarded_def Let_def split: if_splits)

section \<open>Properties\<close>

text \<open>Without the agent's token, which is not empty, a request changes nothing and learns nothing: it is
  refused, or it gets the index page or an error, the same for every state of the agent.\<close>

theorem agent_needs_token:
  assumes "\<not> (ac_token c \<noteq> [] \<and> trim_prefix (aq_authorization q) ''Bearer '' = ac_token c)"
    and "serve_agent s c q w = ((code, b), w')"
  shows "w' = w \<and> (code = 401 \<or> code = 404 \<or> code = 405 \<or> code = 200 \<and> aq_path q = ''/'') \<and>
    (\<forall>v. serve_agent s c q v = ((code, b), v))"
proof -
  have "\<not> token_ok (ac_token c) q" using assms(1) by (simp add: token_ok_def)
  then show ?thesis
    using assms(2) by (auto simp: serve_agent_def index_page_def split: option.splits if_splits)
qed

definition agent_call_of :: "string \<Rightarrow> string \<Rightarrow> string \<Rightarrow> agent_call" where
  "agent_call_of meth path auth =
     \<lparr>aq_method = meth, aq_path = path, aq_authorization = auth, aq_empty = True, aq_body = []\<rparr>"

theorem agent_needs_token_witness:
  "\<exists>s :: agent surroundings. \<exists>b. av_stop s (from_env Map.empty) = stop_game ''quit'' None \<and>
     serve_agent s (from_env Map.empty) (agent_call_of ''POST'' ''/stop'' ''Bearer '') new_agent = ((401, b), new_agent)"
proof -
  let ?c = "from_env Map.empty" and ?q = "agent_call_of ''POST'' ''/stop'' ''Bearer ''"
  obtain s :: "agent surroundings" where s: "av_stop s ?c = stop_game ''quit'' None"
    by (metis surroundings.select_convs(8))
  have p: "\<not> (ac_token ?c \<noteq> [] \<and> trim_prefix (aq_authorization ?q) ''Bearer '' = ac_token ?c)"
    by (simp add: from_env_def env_or_def)
  obtain code b w' where r: "serve_agent s ?c ?q new_agent = ((code, b), w')" by (metis prod.collapse)
  have "code = 401"
    using r p by (auto simp: serve_agent_def guarded_def agent_call_of_def token_ok_def split: if_splits)
  then show ?thesis using agent_needs_token [OF p r] r s by blast
qed

end
