(* ===== verification/Native.thy ===== *)
theory Native
  imports AgentRun Docker
begin

text \<open>
  The native provider of a game host (internal/control/native.go): an instance is a directory with its
  state, its configuration and a copy of the game's assets, and a detached agent that holds a lock. The
  operating system, the agent's HTTP interface and the JSON codecs are parameters. Maps over ports are
  taken in the order of their keys. Waiting may never end, so starting and deleting are partial functions.
\<close>

section \<open>Data\<close>

record native_game =
  ng_command :: string
  ng_args :: "string list"
  ng_assets :: string
  ng_config_path :: string

record native_state =
  ns_boot_id :: string
  ns_token :: string
  ns_port :: int
  ns_endpoints :: "endpoint list"
  ns_started :: bool

definition zero_state :: native_state where
  "zero_state = \<lparr>ns_boot_id = [], ns_token = [], ns_port = 0, ns_endpoints = [], ns_started = False\<rparr>"

datatype wake_up = Exited string | Canceled err | Tick

record 'w native =
  na_root :: string
  na_binary :: string
  na_public_host :: string
  na_games :: "string \<Rightarrow> native_game option"
  na_files :: "'w files"
  na_walk :: "'w walker"
  na_canceled :: "'w \<Rightarrow> err option \<times> 'w"
  na_create_new :: "string \<Rightarrow> ('w, unit) io"
  na_exists :: "err \<Rightarrow> bool"
  na_create_mode :: "string \<Rightarrow> 32 word \<Rightarrow> ('w, unit) io"
  na_open_lock :: "string \<Rightarrow> ('w, unit) io"
  na_flock :: "string \<Rightarrow> ('w, bool) io"
  na_unlock :: "string \<Rightarrow> ('w, unit) io"
  na_http :: "int \<Rightarrow> http_request \<Rightarrow> ('w, http_response) io"
  na_listen :: "string \<Rightarrow> int \<Rightarrow> ('w, int) io"
  na_close :: "string \<times> int \<Rightarrow> 'w \<Rightarrow> 'w"
  na_open_log :: "string \<Rightarrow> ('w, unit) io"
  na_spawn :: "string list \<Rightarrow> string list \<Rightarrow> ('w, unit) io"
  na_wait :: "'w \<Rightarrow> wake_up \<times> 'w"
  na_remove_all :: "string \<Rightarrow> ('w, unit) io"
  na_boot_file :: "('w, string) io"
  na_getenv :: "string \<Rightarrow> string"
  na_parse_state :: "string \<Rightarrow> err + native_state"
  na_state_json :: "native_state \<Rightarrow> err + string"
  na_agent_json :: "agent_config \<Rightarrow> err + string"
  na_status :: "string \<Rightarrow> err + agent_status"
  na_restart :: "string \<Rightarrow> string"

section \<open>The directory of an instance\<close>

definition native_dir :: "'w native \<Rightarrow> inst \<Rightarrow> string" where
  "native_dir n i = path_join [na_root n, in_id i]"

definition in_dir :: "'w native \<Rightarrow> inst \<Rightarrow> string \<Rightarrow> string" where
  "in_dir n i name = path_join [native_dir n i, name]"

definition ownership_mismatch :: err where
  "ownership_mismatch = ErrMsg ''native instance ownership mismatch''"

definition read_state :: "'w native \<Rightarrow> inst \<Rightarrow> ('w, native_state) io" where
  "read_state n i w =
     (case fi_read (na_files n) (in_dir n i ''state.json'') w of
        (Inl e, w) \<Rightarrow> (Inl e, w)
      | (Inr data, w) \<Rightarrow>
          (case na_parse_state n data of
             Inl e \<Rightarrow> (Inl e, w)
           | Inr st \<Rightarrow> (if ns_token st \<noteq> in_agent_token i then Inl ownership_mismatch else Inr st, w)))"

definition write_private_json :: "'w native \<Rightarrow> string \<Rightarrow> err + string \<Rightarrow> ('w, unit) io" where
  "write_private_json n path json w =
     (case json of
        Inl e \<Rightarrow> (Inl e, w)
      | Inr data \<Rightarrow>
          (case fi_write (na_files n) (path @ ''.tmp'') 0x180 data w of
             (Inl e, w) \<Rightarrow> (Inl e, w)
           | (Inr u, w) \<Rightarrow> fi_rename (na_files n) (path @ ''.tmp'') path w))"

text \<open>The agent is alive exactly while somebody else holds its lock.\<close>

definition native_alive :: "'w native \<Rightarrow> inst \<Rightarrow> ('w, bool) io" where
  "native_alive n i w =
     (let lock = in_dir n i ''run.lock'' in
      case na_open_lock n lock w of
        (Inl e, w) \<Rightarrow> (Inl e, w)
      | (Inr u, w) \<Rightarrow>
          (case na_flock n lock w of
             (Inl e, w) \<Rightarrow> (Inl e, w)
           | (Inr taken, w) \<Rightarrow>
               if \<not> taken then (Inr True, w)
               else (case na_unlock n lock w of (Inl e, w) \<Rightarrow> (Inl e, w) | (Inr u, w) \<Rightarrow> (Inr False, w))))"

definition loopback_url :: "int \<Rightarrow> string" where
  "loopback_url port = ''http://127.0.0.1:'' @ show_int port"

definition native_request :: "'w native \<Rightarrow> inst \<Rightarrow> native_state \<Rightarrow> string \<Rightarrow> string \<Rightarrow> string \<Rightarrow> ('w, string) io" where
  "native_request n i st meth path body w =
     (case na_http n (seconds_duration (gm_quit_timeout (in_game i) + 5))
             \<lparr>rq_method = meth, rq_url = loopback_url (ns_port st) @ path, rq_bearer = in_agent_token i,
              rq_pinned = False, rq_body = body\<rparr> w of
        (Inl e, w) \<Rightarrow> (Inl e, w)
      | (Inr r, w) \<Rightarrow>
          if rs_status r \<noteq> 200 then (Inl (ErrMsg (''native agent HTTP '' @ show_int (rs_status r))), w)
          else (Inr (rs_body r), w))"

definition native_boot_id :: "'w native \<Rightarrow> 'w \<Rightarrow> string \<times> 'w" where
  "native_boot_id n w = (case na_boot_file n w of (Inl e, w) \<Rightarrow> ([], w) | (Inr data, w) \<Rightarrow> (trim_space data, w))"

section \<open>Inspect\<close>

text \<open>The stored addresses under the host's present public name.\<close>

fun public_endpoints :: "string \<Rightarrow> endpoint list \<Rightarrow> err + endpoint list" where
  "public_endpoints host [] = Inr []"
| "public_endpoints host (e # es) =
     (case split_host_port (ep_address e) of
        None \<Rightarrow> Inl (ErrMsg (''address '' @ ep_address e))
      | Some (h, port) \<Rightarrow>
          (case public_endpoints host es of
             Inl er \<Rightarrow> Inl er
           | Inr es \<Rightarrow> Inr (e\<lparr>ep_address := join_host_port host port\<rparr> # es)))"

definition rebooted :: "native_state \<Rightarrow> string \<Rightarrow> bool" where
  "rebooted st boot \<longleftrightarrow> boot \<noteq> [] \<and> ns_boot_id st \<noteq> [] \<and> ns_boot_id st \<noteq> boot"

text \<open>The observation is returned beside an error too; the controller does not look at it then.\<close>

definition observe_agent :: "'w native \<Rightarrow> inst \<Rightarrow> native_state \<Rightarrow> observation \<Rightarrow> ('w, observation) io" where
  "observe_agent n i st ob w =
     (case native_alive n i w of
        (Inl e, w) \<Rightarrow> (let (boot, w) = native_boot_id n w in (Inl e, w))
      | (Inr alive, w) \<Rightarrow>
          if \<not> alive
          then (let (boot, w) = native_boot_id n w in
                (Inr (if rebooted st boot then ob\<lparr>ob_started := False\<rparr> else ob), w))
          else (case native_request n i st ''GET'' ''/status'' [] w of
                  (Inl e, w) \<Rightarrow> (Inl e, w)
                | (Inr body, w) \<Rightarrow>
                    (case na_status n body of
                       Inl e \<Rightarrow> (Inl e, w)
                     | Inr s \<Rightarrow> (Inr (ob\<lparr>ob_running := as_running s, ob_failure := as_error s,
                                  ob_agent_url := loopback_url (ns_port st)\<rparr>), w))))"

definition native_inspect :: "'w native \<Rightarrow> inst \<Rightarrow> ('w, observation) io" where
  "native_inspect n i w =
     (case read_state n i w of
        (Inl e, w) \<Rightarrow> (if fi_missing (na_files n) e then Inr zero_observation else Inl e, w)
      | (Inr st, w) \<Rightarrow>
          (case public_endpoints (na_public_host n) (ns_endpoints st) of
             Inl e \<Rightarrow> (Inl e, w)
           | Inr es \<Rightarrow>
               observe_agent n i st (zero_observation\<lparr>ob_exists := True, ob_started := ns_started st, ob_endpoints := es\<rparr>) w))"

section \<open>Ports\<close>

type_synonym sockets = "(string \<times> int) list"

definition close_all :: "'w native \<Rightarrow> sockets \<Rightarrow> 'w \<Rightarrow> 'w" where
  "close_all n socks w = fold (na_close n) socks w"

definition reserve_port :: "'w native \<Rightarrow> ('w, int \<times> sockets) io" where
  "reserve_port n w =
     (case na_listen n ''tcp'' 0 w of
        (Inl e, w) \<Rightarrow> (Inl e, w)
      | (Inr port, w) \<Rightarrow>
          (case na_listen n ''udp'' port w of
             (Inl e, w) \<Rightarrow> (Inl e, na_close n (''tcp'', port) w)
           | (Inr p, w) \<Rightarrow> (Inr (port, [(''tcp'', port), (''udp'', port)]), w)))"

definition player_ports :: "game \<Rightarrow> int list" where
  "player_ports g =
     sort (remdups (filter (\<lambda>p. p \<noteq> gm_agent_port g) (map (\<lambda>key. atoi_value (fst (cut (CHR ''/'') key))) (gm_ports g))))"

text \<open>The further ports at the same distances as the first one: those reserved, and the sockets held.\<close>

fun reserve_offsets :: "'w native \<Rightarrow> int \<Rightarrow> int list \<Rightarrow> 'w \<Rightarrow> ((int \<times> int) list \<times> sockets) \<times> 'w" where
  "reserve_offsets n shift [] w = (([], []), w)"
| "reserve_offsets n shift (p # ps) w =
     (let assigned = p + shift in
      if 65535 < assigned then (([], []), w)
      else (case na_listen n ''tcp'' assigned w of
              (Inl e, w) \<Rightarrow> (([], []), w)
            | (Inr x, w) \<Rightarrow>
                (case na_listen n ''udp'' assigned w of
                   (Inl e, w) \<Rightarrow> (([], [(''tcp'', assigned)]), w)
                 | (Inr y, w) \<Rightarrow>
                     (let ((ports, socks), w) = reserve_offsets n shift ps w in
                      (((p, assigned) # ports, (''tcp'', assigned) # (''udp'', assigned) # socks), w)))))"

fun reserve_tries :: "'w native \<Rightarrow> int \<Rightarrow> int list \<Rightarrow> nat \<Rightarrow> ('w, (int \<times> int) list \<times> sockets) io" where
  "reserve_tries n first rest 0 w = (Inl (ErrMsg ''could not reserve game port offsets''), w)"
| "reserve_tries n first rest (Suc k) w =
     (case reserve_port n w of
        (Inl e, w) \<Rightarrow> (Inl e, w)
      | (Inr (base, socks), w) \<Rightarrow>
          (let ((ports, held), w) = reserve_offsets n (base - first) rest w in
           if length ports = length rest then (Inr ((first, base) # ports, socks @ held), w)
           else reserve_tries n first rest k (close_all n (socks @ held) w)))"

definition reserve_game_ports :: "'w native \<Rightarrow> game \<Rightarrow> ('w, (int \<times> int) list \<times> sockets) io" where
  "reserve_game_ports n g w =
     (case player_ports g of
        [] \<Rightarrow> (Inl (ErrMsg ''game has no player ports''), w)
      | first # rest \<Rightarrow> reserve_tries n first rest 32 w)"

section \<open>Ensure\<close>

text \<open>\<open>strings.Replacer\<close> with old texts that are not empty: the first pair that matches at a place.\<close>

function replacer :: "(string \<times> string) list \<Rightarrow> string \<Rightarrow> string" where
  "replacer rs [] = []"
| "replacer rs (c # cs) =
     (case List.find (\<lambda>(old, new). old \<noteq> [] \<and> has_prefix (c # cs) old) rs of
        None \<Rightarrow> c # replacer rs cs
      | Some (old, new) \<Rightarrow> new @ replacer rs (drop (length old) (c # cs)))"
  by pat_completeness auto
termination by (relation "measure (\<lambda>(rs, s). length s)") (auto dest: find_SomeD)

definition braced :: "string \<Rightarrow> string" where
  "braced s = CHR 0x7B # s @ [CHR 0x7D]"

definition port_replacements :: "game \<Rightarrow> (int \<times> int) list \<Rightarrow> (string \<times> string) list" where
  "port_replacements g reserved =
     concat (map (\<lambda>(original, assigned).
         (braced (''port:'' @ show_int original), show_int assigned) #
         (if original = gm_game_port g then [(braced ''port'', show_int assigned)] else [])) reserved)"

definition assigned_port :: "(int \<times> int) list \<Rightarrow> int \<Rightarrow> int" where
  "assigned_port reserved p = (case map_of reserved p of None \<Rightarrow> 0 | Some a \<Rightarrow> a)"

definition native_endpoints :: "string \<Rightarrow> game \<Rightarrow> (int \<times> int) list \<Rightarrow> endpoint list" where
  "native_endpoints host g reserved =
     concat (map (\<lambda>key.
       (let (number, transport, found) = cut (CHR ''/'') key; original = atoi_value number in
        if original = gm_agent_port g then []
        else [\<lparr>ep_port = original, ep_protocol = transport,
               ep_address = join_host_port host (show_int (assigned_port reserved original))\<rparr>])) (gm_ports g))"

definition copy_asset :: "'w native \<Rightarrow> walk_item \<Rightarrow> string \<Rightarrow> ('w, unit) io" where
  "copy_asset n item target w =
     (let fs = na_files n in
      if wi_dir item then fi_mkdir_all fs target 0x1C0 w
      else if \<not> wi_regular item then (Inl (ErrMsg (''native assets must be regular files: '' @ wi_path item)), w)
      else (case fi_open fs (wi_path item) w of
              (Inl e, w) \<Rightarrow> (Inl e, w)
            | (Inr u, w) \<Rightarrow>
                (case wi_info item of
                   Inl e \<Rightarrow> (Inl e, w)
                 | Inr mode \<Rightarrow>
                     (case na_create_mode n target mode w of
                        (Inl e, w) \<Rightarrow> (Inl e, w)
                      | (Inr u, w) \<Rightarrow>
                          (let (copied, w) = fi_copy fs (wi_path item) target w; (closed, w) = fi_close fs target w
                           in (case copied of Inl e \<Rightarrow> Inl e | Inr u \<Rightarrow> closed, w))))))"

fun copy_items :: "'w native \<Rightarrow> string \<Rightarrow> string \<Rightarrow> walk_item list \<Rightarrow> ('w, unit) io" where
  "copy_items n source destination [] w = (Inr (), w)"
| "copy_items n source destination (item # items) w =
     (case wi_error item of
        Some e \<Rightarrow> (Inl e, w)
      | None \<Rightarrow>
          (case na_canceled n w of
             (Some e, w) \<Rightarrow> (Inl e, w)
           | (None, w) \<Rightarrow>
               (case path_rel source (wi_path item) of
                  Inl e \<Rightarrow> (Inl e, w)
                | Inr relative \<Rightarrow>
                    (case copy_asset n item (path_join [destination, relative]) w of
                       (Inl e, w) \<Rightarrow> (Inl e, w)
                     | (Inr u, w) \<Rightarrow> copy_items n source destination items w))))"

definition copy_assets :: "'w native \<Rightarrow> string \<Rightarrow> string \<Rightarrow> ('w, unit) io" where
  "copy_assets n source destination w =
     (let (items, w) = na_walk n source w in copy_items n source destination items w)"

text \<open>The owner file is created for this instance, or it is this instance's already.\<close>

definition claim_directory :: "'w native \<Rightarrow> inst \<Rightarrow> ('w, unit) io" where
  "claim_directory n i w =
     (let fs = na_files n; own = in_dir n i ''owner'' in
      case na_create_new n own w of
        (Inr u, w) \<Rightarrow>
          (let (written, w) = fi_append fs own (in_agent_token i) w; (closed, w) = fi_close fs own w
           in (case written of Inl e \<Rightarrow> Inl e | Inr u \<Rightarrow> closed, w))
      | (Inl e, w) \<Rightarrow>
          if \<not> na_exists n e then (Inl e, w)
          else (case fi_read fs own w of
                  (Inl e, w) \<Rightarrow> (Inl e, w)
                | (Inr data, w) \<Rightarrow>
                    (if data \<noteq> in_agent_token i then Inl (ErrMsg ''native directory is owned by another instance'')
                     else Inr (), w)))"

definition native_agent_config ::
  "'w native \<Rightarrow> inst \<Rightarrow> native_game \<Rightarrow> string \<Rightarrow> string \<Rightarrow> (int \<times> int) list \<Rightarrow> int \<Rightarrow> agent_config" where
  "native_agent_config n i ng work config reserved port =
     (let g = in_game i;
          rs = [(braced ''config'', config), (braced ''data'', work)] @ port_replacements g reserved
      in \<lparr>ac_seed_path = [], ac_asset_seed = [], ac_data_root = [], ac_tls = False, ac_protocol = gm_protocol g,
          ac_game_dir = work, ac_game_cmd = ng_command ng, ac_game_args = map (replacer rs) (ng_args ng),
          ac_quit_cmd = gm_quit_cmd g, ac_quit_timeout = seconds_duration (gm_quit_timeout g),
          ac_game_port = assigned_port reserved (gm_game_port g), ac_data_url = [],
          ac_default_config = in_dir n i ''default.cfg'', ac_config_path = config, ac_rcon_password = in_rcon_password i,
          ac_user_agent = [], ac_token = in_agent_token i, ac_config_text = None, ac_host = ''127.0.0.1'', ac_port = port\<rparr>)"

text \<open>The two records of an instance, the state last.\<close>

definition write_records ::
  "'w native \<Rightarrow> inst \<Rightarrow> native_game \<Rightarrow> string \<Rightarrow> string \<Rightarrow> (int \<times> int) list \<Rightarrow> int \<Rightarrow> ('w, observation) io" where
  "write_records n i ng work config reserved port w =
     (let es = native_endpoints (na_public_host n) (in_game i) reserved;
          st = zero_state\<lparr>ns_token := in_agent_token i, ns_port := port, ns_endpoints := es\<rparr>
      in case fi_write (na_files n) (in_dir n i ''default.cfg'') 0x180 (in_config i) w of
           (Inl e, w) \<Rightarrow> (Inl e, w)
         | (Inr u, w) \<Rightarrow>
             (case write_private_json n (in_dir n i ''agent.json'')
                     (na_agent_json n (native_agent_config n i ng work config reserved port)) w of
                (Inl e, w) \<Rightarrow> (Inl e, w)
              | (Inr u, w) \<Rightarrow>
                  (case write_private_json n (in_dir n i ''state.json'') (na_state_json n st) w of
                     (Inl e, w) \<Rightarrow> (Inl e, w)
                   | (Inr u, w) \<Rightarrow> (Inr (zero_observation\<lparr>ob_exists := True, ob_endpoints := es\<rparr>), w))))"

text \<open>The ports are held until the records are written.\<close>

definition reserve_and_write ::
  "'w native \<Rightarrow> inst \<Rightarrow> native_game \<Rightarrow> string \<Rightarrow> string \<Rightarrow> ('w, observation) io" where
  "reserve_and_write n i ng work config w =
     (case reserve_port n w of
        (Inl e, w) \<Rightarrow> (Inl e, w)
      | (Inr (port, socks), w) \<Rightarrow>
          (case reserve_game_ports n (in_game i) w of
             (Inl e, w) \<Rightarrow> (Inl e, close_all n socks w)
           | (Inr (reserved, held), w) \<Rightarrow>
               (let (r, w) = write_records n i ng work config reserved port w
                in (r, close_all n socks (close_all n held w)))))"

definition prepare_directory :: "'w native \<Rightarrow> inst \<Rightarrow> native_game \<Rightarrow> ('w, observation) io" where
  "prepare_directory n i ng w =
     (let fs = na_files n; work = in_dir n i ''work''; config = path_join [work, ng_config_path ng] in
      case copy_assets n (ng_assets ng) work w of
        (Inl e, w) \<Rightarrow> (Inl e, w)
      | (Inr u, w) \<Rightarrow>
          (case fi_mkdir_all fs (path_dir config) 0x1C0 w of
             (Inl e, w) \<Rightarrow> (Inl e, w)
           | (Inr u, w) \<Rightarrow>
               (case fi_write fs config 0x180 (in_config i) w of
                  (Inl e, w) \<Rightarrow> (Inl e, w)
                | (Inr u, w) \<Rightarrow> reserve_and_write n i ng work config w)))"

definition native_create :: "'w native \<Rightarrow> inst \<Rightarrow> ('w, observation) io" where
  "native_create n i w =
     (case na_games n (gm_id (in_game i)) of
        None \<Rightarrow> (Inl (ErrMsg (''native engine '' @ quoted (gm_id (in_game i)) @ '' is not configured'')), w)
      | Some ng \<Rightarrow>
          if \<not> is_abs (ng_command ng) \<or> \<not> is_abs (ng_assets ng) \<or> \<not> is_local (ng_config_path ng)
          then (Inl (ErrMsg ''native command/assets must be absolute and configPath must be relative''), w)
          else (case fi_stat (na_files n) (ng_command ng) w of
                  (Inl e, w) \<Rightarrow> (Inl e, w)
                | (Inr u, w) \<Rightarrow>
                    (case fi_mkdir_all (na_files n) (native_dir n i) 0x1C0 w of
                       (Inl e, w) \<Rightarrow> (Inl e, w)
                     | (Inr u, w) \<Rightarrow>
                         (case claim_directory n i w of
                            (Inl e, w) \<Rightarrow> (Inl e, w)
                          | (Inr u, w) \<Rightarrow> prepare_directory n i ng w))))"

definition native_ensure :: "'w native \<Rightarrow> inst \<Rightarrow> ('w, observation) io" where
  "native_ensure n i w =
     (case read_state n i w of
        (Inr st, w) \<Rightarrow> native_inspect n i w
      | (Inl e, w) \<Rightarrow> if \<not> fi_missing (na_files n) e then (Inl e, w) else native_create n i w)"

section \<open>Start, stop, delete\<close>

text \<open>Until the spawned agent has its lock, or it exits or the context ends.\<close>

partial_function (option) wait_alive :: "'w native \<Rightarrow> inst \<Rightarrow> 'w \<Rightarrow> ((err + unit) \<times> 'w) option" where
  "wait_alive n i w =
     (case na_wait n w of (ev, w) \<Rightarrow>
      (case ev of
         Exited e \<Rightarrow> Some (Inl (ErrMsg (''native agent exited during startup ('' @ e @ ''); see agent.log'')), w)
       | Canceled e \<Rightarrow> Some (Inl e, w)
       | Tick \<Rightarrow>
           (case native_alive n i w of (r, w) \<Rightarrow>
            (case r of
               Inl e \<Rightarrow> Some (Inl e, w)
             | Inr alive \<Rightarrow> if alive then Some (Inr (), w) else wait_alive n i w))))"

definition native_launch :: "'w native \<Rightarrow> inst \<Rightarrow> 'w \<Rightarrow> ((err + unit) \<times> 'w) option" where
  "native_launch n i w =
     (case na_open_log n (in_dir n i ''agent.log'') w of
        (Inl e, w) \<Rightarrow> Some (Inl e, w)
      | (Inr u, w) \<Rightarrow>
          (case na_spawn n [na_binary n, ''agent'', ''--config'', in_dir n i ''agent.json'']
                  [''PATH='' @ na_getenv n ''PATH'', ''HOME='' @ in_dir n i ''work'', ''LANG=C.UTF-8''] w of
             (Inl e, w) \<Rightarrow> Some (Inl e, w)
           | (Inr u, w) \<Rightarrow> wait_alive n i w))"

definition native_start :: "'w native \<Rightarrow> inst \<Rightarrow> 'w \<Rightarrow> ((err + unit) \<times> 'w) option" where
  "native_start n i w =
     (case read_state n i w of
        (Inl e, w) \<Rightarrow> Some (Inl e, w)
      | (Inr st, w) \<Rightarrow>
          (case native_alive n i w of
             (Inl e, w) \<Rightarrow> Some (Inl e, w)
           | (Inr alive, w) \<Rightarrow>
               if alive
               then (case native_request n i st ''POST'' ''/restart'' (na_restart n (in_config i)) w of
                       (Inl e, w) \<Rightarrow> Some (Inl e, w)
                     | (Inr b, w) \<Rightarrow> Some (Inr (), w))
               else (let (boot, w) = native_boot_id n w in
                 case write_private_json n (in_dir n i ''state.json'')
                        (na_state_json n (st\<lparr>ns_started := True, ns_boot_id := boot\<rparr>)) w of
                   (Inl e, w) \<Rightarrow> Some (Inl e, w)
                 | (Inr u, w) \<Rightarrow> native_launch n i w)))"

definition native_stop :: "'w native \<Rightarrow> inst \<Rightarrow> ('w, unit) io" where
  "native_stop n i w =
     (case read_state n i w of
        (Inl e, w) \<Rightarrow> (Inl e, w)
      | (Inr st, w) \<Rightarrow>
          (case native_alive n i w of
             (Inl e, w) \<Rightarrow> (Inl e, w)
           | (Inr alive, w) \<Rightarrow>
               if \<not> alive then (Inr (), w)
               else (case native_request n i st ''POST'' ''/stop'' [] w of
                       (Inl e, w) \<Rightarrow> (Inl e, w) | (Inr b, w) \<Rightarrow> (Inr (), w))))"

partial_function (option) wait_gone :: "'w native \<Rightarrow> inst \<Rightarrow> 'w \<Rightarrow> ((err + unit) \<times> 'w) option" where
  "wait_gone n i w =
     (case na_wait n w of (ev, w) \<Rightarrow>
      (case ev of
         Canceled e \<Rightarrow> Some (Inl e, w)
       | _ \<Rightarrow>
           (case native_alive n i w of (r, w) \<Rightarrow>
            (case r of
               Inl e \<Rightarrow> Some (Inl e, w)
             | Inr alive \<Rightarrow> if alive then wait_gone n i w else Some (Inr (), w)))))"

text \<open>The owner file decides where there is no state.\<close>

definition owned_leftover :: "'w native \<Rightarrow> inst \<Rightarrow> ('w, bool) io" where
  "owned_leftover n i w =
     (case fi_read (na_files n) (in_dir n i ''owner'') w of
        (Inl e, w) \<Rightarrow> (if fi_missing (na_files n) e then Inr False else Inl e, w)
      | (Inr own, w) \<Rightarrow>
          (if own \<noteq> in_agent_token i then Inl (ErrMsg ''native directory ownership mismatch'') else Inr True, w))"

definition shut_down :: "'w native \<Rightarrow> inst \<Rightarrow> native_state \<Rightarrow> 'w \<Rightarrow> ((err + unit) \<times> 'w) option" where
  "shut_down n i st w =
     (case native_alive n i w of
        (Inl e, w) \<Rightarrow> Some (Inl e, w)
      | (Inr alive, w) \<Rightarrow>
          if \<not> alive then Some (Inr (), w)
          else (case native_request n i st ''POST'' ''/shutdown'' [] w of
                  (Inl e, w) \<Rightarrow> Some (Inl e, w)
                | (Inr b, w) \<Rightarrow> wait_gone n i w))"

definition native_delete :: "'w native \<Rightarrow> inst \<Rightarrow> 'w \<Rightarrow> ((err + unit) \<times> 'w) option" where
  "native_delete n i w =
     (case read_state n i w of
        (Inl e, w) \<Rightarrow>
          if \<not> fi_missing (na_files n) e then Some (Inl e, w)
          else (case owned_leftover n i w of
                  (Inl e, w) \<Rightarrow> Some (Inl e, w)
                | (Inr left, w) \<Rightarrow> if left then Some (na_remove_all n (native_dir n i) w) else Some (Inr (), w))
      | (Inr st, w) \<Rightarrow>
          (case shut_down n i st w of
             None \<Rightarrow> None
           | Some (Inl e, w) \<Rightarrow> Some (Inl e, w)
           | Some (Inr u, w) \<Rightarrow> Some (na_remove_all n (native_dir n i) w)))"

end
