(* ===== verification/NativeSafety.thy ===== *)
theory NativeSafety
  imports Native ControlProperties ControlCatalog
begin

text \<open>
  The contracts of the native provider's operating system and its properties: the ports it reserves (locale
  socket_world, interpreted on a set of open sockets) and the directories it changes (locale
  shared_root, interpreted on files in memory).
\<close>

section \<open>Sockets\<close>

text \<open>\<open>sockets\<close> are the listening sockets of the host; port 0 asks for any free port.\<close>

locale socket_world =
  fixes n :: "'w native" and sockets :: "'w \<Rightarrow> (string \<times> int) set"
  assumes listened: "na_listen n proto p w = (Inr q, w') \<Longrightarrow>
      (p \<noteq> 0 \<longrightarrow> q = p) \<and> 0 < q \<and> q \<le> 65535 \<and> (proto, q) \<notin> sockets w \<and> sockets w' = insert (proto, q) (sockets w)"
    and not_listened: "na_listen n proto p w = (Inl e, w') \<Longrightarrow> sockets w' = sockets w"
    and closed: "sockets (na_close n s w) = sockets w - {s}"
begin

lemma close_all_sockets: "sockets (close_all n ss w) = sockets w - set ss"
  unfolding close_all_def by (induction ss arbitrary: w) (auto simp: closed)

lemma reserve_port_sockets:
  assumes "reserve_port n w = (r, w')"
  shows "case r of Inl e \<Rightarrow> sockets w' = sockets w
    | Inr (p, ss) \<Rightarrow> 0 < p \<and> p \<le> 65535 \<and> ss = [(''tcp'', p), (''udp'', p)] \<and> set ss \<inter> sockets w = {} \<and>
        sockets w' = sockets w \<union> set ss"
proof -
  obtain a w1 where a: "na_listen n ''tcp'' 0 w = (a, w1)" by fastforce
  show ?thesis
  proof (cases a)
    case (Inl e)
    then show ?thesis using assms a not_listened [of "''tcp''" 0 w e w1] by (auto simp: reserve_port_def)
  next
    case (Inr p)
    then have p: "0 < p" "p \<le> 65535" "(''tcp'', p) \<notin> sockets w" "sockets w1 = insert (''tcp'', p) (sockets w)"
      using listened [of "''tcp''" 0 w p w1] a by auto
    obtain b w2 where b: "na_listen n ''udp'' p w1 = (b, w2)" by fastforce
    show ?thesis
    proof (cases b)
      case (Inl e)
      then have "sockets w2 = sockets w1" using not_listened b by blast
      then show ?thesis using assms a Inr b Inl p by (auto simp: reserve_port_def closed)
    next
      case (Inr q)
      then have "q = p" "(''udp'', q) \<notin> sockets w1" "sockets w2 = insert (''udp'', q) (sockets w1)"
        using listened [of "''udp''" p w1 q w2] b p(1) by auto
      then show ?thesis using assms a \<open>a = Inr p\<close> b Inr p by (auto simp: reserve_port_def)
    qed
  qed
qed

lemma reserve_offsets_sockets:
  "reserve_offsets n shift ps w = ((ports, ss), w') \<Longrightarrow> \<forall>p\<in>set ps. 0 < p + shift \<Longrightarrow>
   ports = map (\<lambda>p. (p, p + shift)) (take (length ports) ps) \<and>
   (\<forall>(p, a)\<in>set ports. a \<le> 65535 \<and> {(''tcp'', a), (''udp'', a)} \<subseteq> set ss) \<and>
   set ss \<inter> sockets w = {} \<and> sockets w' = sockets w \<union> set ss"
proof (induction ps arbitrary: w ports ss)
  case Nil
  then show ?case by auto
next
  case (Cons p ps)
  let ?a = "p + shift"
  show ?case
  proof (cases "65535 < ?a")
    case True
    then show ?thesis using Cons.prems(1) by (auto simp: Let_def)
  next
    case small: False
    obtain x w1 where x: "na_listen n ''tcp'' ?a w = (x, w1)" by fastforce
    show ?thesis
    proof (cases x)
      case (Inl e)
      then show ?thesis using Cons.prems(1) small x not_listened [of "''tcp''" ?a w e w1] by (auto simp: Let_def)
    next
      case (Inr q)
      have "?a \<noteq> 0" using Cons.prems(2) by force
      then have t: "(''tcp'', ?a) \<notin> sockets w" "sockets w1 = insert (''tcp'', ?a) (sockets w)"
        using listened [of "''tcp''" ?a w q w1] x Inr by auto
      obtain y w2 where y: "na_listen n ''udp'' ?a w1 = (y, w2)" by fastforce
      show ?thesis
      proof (cases y)
        case (Inl e)
        then have "sockets w2 = sockets w1" using not_listened y by blast
        then show ?thesis using Cons.prems(1) small x Inr y Inl t by (auto simp: Let_def)
      next
        case y': (Inr r)
        have u: "(''udp'', ?a) \<notin> sockets w1" "sockets w2 = insert (''udp'', ?a) (sockets w1)"
          using listened [of "''udp''" ?a w1 r w2] y y' \<open>?a \<noteq> 0\<close> by auto
        obtain ports' ss' where rest: "reserve_offsets n shift ps w2 = ((ports', ss'), w')"
          "ports = (p, ?a) # ports'" "ss = (''tcp'', ?a) # (''udp'', ?a) # ss'"
          using Cons.prems(1) small x Inr y y' by (auto simp: Let_def split: prod.splits)
        have "ports' = map (\<lambda>p. (p, p + shift)) (take (length ports') ps) \<and>
            (\<forall>(p, a)\<in>set ports'. a \<le> 65535 \<and> {(''tcp'', a), (''udp'', a)} \<subseteq> set ss') \<and>
            set ss' \<inter> sockets w2 = {} \<and> sockets w' = sockets w2 \<union> set ss'"
          using Cons.IH [OF rest(1)] Cons.prems(2) by simp
        then show ?thesis using small t u rest(2,3) by auto
      qed
    qed
  qed
qed

lemma reserve_tries_sockets:
  assumes "\<forall>p\<in>set rest. first \<le> p"
  shows "reserve_tries n first rest k w = (r, w') \<Longrightarrow>
    (case r of Inl e \<Rightarrow> sockets w' = sockets w
     | Inr (ports, ss) \<Rightarrow> (\<exists>shift. ports = map (\<lambda>p. (p, p + shift)) (first # rest) \<and>
         (\<forall>(p, a)\<in>set ports. 0 < a \<and> a \<le> 65535 \<and> {(''tcp'', a), (''udp'', a)} \<subseteq> set ss) \<and>
         set ss \<inter> sockets w = {} \<and> sockets w' = sockets w \<union> set ss))"
proof (induction k arbitrary: w)
  case 0
  then show ?case by auto
next
  case (Suc k)
  obtain x w1 where x: "reserve_port n w = (x, w1)" by fastforce
  note base = reserve_port_sockets [OF x]
  show ?case
  proof (cases x)
    case (Inl e)
    then show ?thesis using Suc.prems x base by auto
  next
    case (Inr y)
    then obtain base socks where y: "x = Inr (base, socks)" by (cases y) auto
    have b: "0 < base" "base \<le> 65535" "socks = [(''tcp'', base), (''udp'', base)]" "set socks \<inter> sockets w = {}"
      "sockets w1 = sockets w \<union> set socks" using base y by auto
    obtain ports held w2 where o: "reserve_offsets n (base - first) rest w1 = ((ports, held), w2)" by (metis prod.collapse)
    have off: "ports = map (\<lambda>p. (p, p + (base - first))) (take (length ports) rest)"
      "\<forall>(p, a)\<in>set ports. a \<le> 65535 \<and> {(''tcp'', a), (''udp'', a)} \<subseteq> set held"
      "set held \<inter> sockets w1 = {}" "sockets w2 = sockets w1 \<union> set held"
      using reserve_offsets_sockets [OF o] assms b(1) by force+
    show ?thesis
    proof (cases "length ports = length rest")
      case True
      then have p: "ports = map (\<lambda>p. (p, p + (base - first))) rest" using off(1) by simp
      then have "0 < a" if "(p, a) \<in> set ports" for p a using that assms b(1) by force
      moreover have "r = Inr ((first, base) # ports, socks @ held)" "w' = w2"
        using Suc.prems x y o True by simp_all
      moreover have "(first, base) # ports = map (\<lambda>p. (p, p + (base - first))) (first # rest)"
        unfolding p by simp
      moreover have "\<forall>(p, a)\<in>set ((first, base) # ports). 0 < a \<and> a \<le> 65535 \<and>
          {(''tcp'', a), (''udp'', a)} \<subseteq> set (socks @ held)"
        using calculation(1) b(1-3) off(2) by (auto simp: split_beta)
      moreover have "set (socks @ held) \<inter> sockets w = {}" "sockets w2 = sockets w \<union> set (socks @ held)"
        using b(4,5) off(3,4) by auto
      ultimately show ?thesis by (simp only: sum.case prod.case) blast
    next
      case False
      then have "reserve_tries n first rest k (close_all n (socks @ held) w2) = (r, w')"
        using Suc.prems x y o by simp
      from Suc.IH [OF this] have step: "case r of Inl e \<Rightarrow> sockets w' = sockets w2 - set (socks @ held)
        | Inr (ports, ss) \<Rightarrow> \<exists>shift. ports = map (\<lambda>p. (p, p + shift)) (first # rest) \<and>
            (\<forall>(p, a)\<in>set ports. 0 < a \<and> a \<le> 65535 \<and> {(''tcp'', a), (''udp'', a)} \<subseteq> set ss) \<and>
            set ss \<inter> (sockets w2 - set (socks @ held)) = {} \<and>
            sockets w' = (sockets w2 - set (socks @ held)) \<union> set ss"
        by (simp only: close_all_sockets)
      have same: "sockets w2 - set (socks @ held) = sockets w" using b(4,5) off(3,4) by auto
      show ?thesis using step unfolding same .
    qed
  qed
qed

end

lemma player_ports_sorted: "player_ports g = p # ps \<Longrightarrow> \<forall>q\<in>set ps. p \<le> q"
  by (metis player_ports_def sorted_sort sorted_simps(2))

section \<open>Whose directory\<close>

text \<open>
  \<open>kept w w'\<close>: the contents of the instances' directories are the same. Looking, locking, asking
  the agent, and creating what is there already keep them.
\<close>

locale shared_root =
  fixes n :: "'w native" and kept :: "'w \<Rightarrow> 'w \<Rightarrow> bool"
  assumes kept_refl: "kept w w"
    and kept_trans: "kept a b \<Longrightarrow> kept b c \<Longrightarrow> kept a c"
    and read_kept: "fi_read (na_files n) p w = (s, w') \<Longrightarrow> kept w w'"
    and stat_kept: "fi_stat (na_files n) p w = (u, w') \<Longrightarrow> kept w w'"
    and mkdir_kept: "fi_mkdir_all (na_files n) p md w = (u, w') \<Longrightarrow> kept w w'"
    and refused_kept: "na_create_new n p w = (Inl e, w') \<Longrightarrow> kept w w'"
    and lock_kept: "na_open_lock n p w = (u, w') \<Longrightarrow> kept w w'"
    and flock_kept: "na_flock n p w = (fl, w') \<Longrightarrow> kept w w'"
    and unlock_kept: "na_unlock n p w = (u, w') \<Longrightarrow> kept w w'"
    and http_kept: "na_http n t q w = (h, w') \<Longrightarrow> kept w w'"
    and boot_kept: "na_boot_file n w = (s, w') \<Longrightarrow> kept w w'"
begin

text \<open>The directory was seen to belong to the instance, while nothing had changed yet.\<close>

definition own_seen :: "inst \<Rightarrow> 'w \<Rightarrow> bool" where
  "own_seen i w \<longleftrightarrow>
     (\<exists>v v' data st. kept w v \<and> fi_read (na_files n) (in_dir n i ''state.json'') v = (Inr data, v') \<and>
        na_parse_state n data = Inr st \<and> ns_token st = in_agent_token i) \<or>
     (\<exists>v v'. kept w v \<and> (na_create_new n (in_dir n i ''owner'') v = (Inr (), v') \<or>
        fi_read (na_files n) (in_dir n i ''owner'') v = (Inr (in_agent_token i), v')))"

lemma own_seen_kept: "own_seen i v \<Longrightarrow> kept w v \<Longrightarrow> own_seen i w"
  unfolding own_seen_def using kept_trans by blast

lemma read_state_kept: "read_state n i w = (r, w') \<Longrightarrow> kept w w'"
  using read_kept by (auto simp: read_state_def split: sum.splits prod.splits if_splits)

lemma read_state_own: "read_state n i w = (Inr st, w') \<Longrightarrow> own_seen i w"
  unfolding own_seen_def using kept_refl
  by (auto simp: read_state_def split: sum.splits prod.splits if_splits)

lemma native_alive_kept: "native_alive n i w = (r, w') \<Longrightarrow> kept w w'"
  by (auto simp: native_alive_def Let_def split: sum.splits prod.splits if_splits
      dest!: lock_kept flock_kept unlock_kept intro: kept_trans)

lemma native_request_kept: "native_request n i st m p b w = (r, w') \<Longrightarrow> kept w w'"
  by (auto simp: native_request_def split: sum.splits prod.splits if_splits dest!: http_kept)

lemma native_boot_id_kept: "native_boot_id n w = (s, w') \<Longrightarrow> kept w w'"
  by (auto simp: native_boot_id_def split: sum.splits prod.splits dest!: boot_kept)

lemma native_inspect_kept: "native_inspect n i w = (r, w') \<Longrightarrow> kept w w'"
  by (auto simp: native_inspect_def observe_agent_def Let_def split: sum.splits prod.splits if_splits
      dest!: read_state_kept native_alive_kept native_request_kept native_boot_id_kept intro: kept_trans kept_refl)

lemma claim_directory_own:
  "claim_directory n i w = (Inr u, w') \<Longrightarrow> own_seen i w"
  "claim_directory n i w = (Inl e, w') \<Longrightarrow> kept w w' \<or> own_seen i w"
proof -
  obtain c w1 where c: "na_create_new n (in_dir n i ''owner'') w = (c, w1)" by fastforce
  have "own_seen i w \<or> (\<exists>e. claim_directory n i w = (Inl e, w'')) \<and> kept w w''" if "claim_directory n i w = (r, w'')" for r w''
  proof (cases c)
    case (Inr u)
    then show ?thesis using c kept_refl [of w] unfolding own_seen_def by (metis (full_types) old.unit.exhaust)
  next
    case (Inl e)
    have k: "kept w w1" using refused_kept c Inl by blast
    obtain s w2 where s: "fi_read (na_files n) (in_dir n i ''owner'') w1 = (s, w2)" by fastforce
    have k2: "kept w w2" using k read_kept [OF s] kept_trans by blast
    show ?thesis
    proof (cases "na_exists n e \<and> s = Inr (in_agent_token i)")
      case True
      then show ?thesis using k s unfolding own_seen_def by blast
    next
      case False
      then show ?thesis using that c Inl s k k2 by (auto simp: claim_directory_def Let_def split: sum.splits if_splits)
    qed
  qed
  then show "claim_directory n i w = (Inr u, w') \<Longrightarrow> own_seen i w"
    "claim_directory n i w = (Inl e, w') \<Longrightarrow> kept w w' \<or> own_seen i w"
    by fastforce+
qed

lemma native_create_own: "native_create n i w = (r, w') \<Longrightarrow> kept w w' \<or> own_seen i w"
proof (cases "na_games n (gm_id (in_game i))")
  case None
  then show "native_create n i w = (r, w') \<Longrightarrow> ?thesis" using kept_refl by (simp add: native_create_def)
next
  case (Some ng)
  assume call: "native_create n i w = (r, w')"
  obtain a w1 where a: "fi_stat (na_files n) (ng_command ng) w = (a, w1)" by fastforce
  obtain b w2 where b: "fi_mkdir_all (na_files n) (native_dir n i) 0x1C0 w1 = (b, w2)" by fastforce
  obtain c w3 where c: "claim_directory n i w2 = (c, w3)" by fastforce
  have k: "kept w w1" "kept w w2" using stat_kept [OF a] mkdir_kept [OF b] kept_trans by blast+
  consider "w' = w" | "w' = w1" | "w' = w2" | e where "c = Inl e" "w' = w3" | u where "c = Inr u"
    using call Some a b c by (auto simp: native_create_def split: sum.splits if_splits)
  then show ?thesis
  proof cases
    case 4
    then show ?thesis using claim_directory_own(2) c k(2) own_seen_kept kept_trans by metis
  next
    case 5
    then show ?thesis using claim_directory_own(1) c k(2) own_seen_kept by blast
  qed (use k kept_refl in auto)
qed

lemma native_ensure_own: "native_ensure n i w = (r, w') \<Longrightarrow> kept w w' \<or> own_seen i w"
proof -
  assume call: "native_ensure n i w = (r, w')"
  obtain s w1 where s: "read_state n i w = (s, w1)" by fastforce
  have k: "kept w w1" using read_state_kept [OF s] .
  show ?thesis
  proof (cases s)
    case (Inr st)
    then show ?thesis using read_state_own s by blast
  next
    case (Inl e)
    show ?thesis
    proof (cases "fi_missing (na_files n) e")
      case True
      then have "native_create n i w1 = (r, w')" using call s Inl by (simp add: native_ensure_def)
      then show ?thesis using native_create_own k own_seen_kept kept_trans by metis
    next
      case False
      then show ?thesis using call s Inl k by (simp add: native_ensure_def)
    qed
  qed
qed

lemma native_start_own: "native_start n i w = Some (r, w') \<Longrightarrow> kept w w' \<or> own_seen i w"
proof -
  obtain s w1 where s: "read_state n i w = (s, w1)" by fastforce
  assume "native_start n i w = Some (r, w')"
  then show ?thesis using read_state_kept [OF s] read_state_own s by (cases s) (auto simp: native_start_def)
qed

lemma native_stop_own: "native_stop n i w = (r, w') \<Longrightarrow> kept w w' \<or> own_seen i w"
proof -
  obtain s w1 where s: "read_state n i w = (s, w1)" by fastforce
  assume "native_stop n i w = (r, w')"
  then show ?thesis using read_state_kept [OF s] read_state_own s by (cases s) (auto simp: native_stop_def)
qed

lemma native_delete_own: "native_delete n i w = Some (r, w') \<Longrightarrow> kept w w' \<or> own_seen i w"
proof -
  assume call: "native_delete n i w = Some (r, w')"
  obtain s w1 where s: "read_state n i w = (s, w1)" by fastforce
  have k: "kept w w1" using read_state_kept [OF s] .
  show ?thesis
  proof (cases s)
    case (Inr st)
    then show ?thesis using read_state_own s by blast
  next
    case (Inl e)
    obtain o1 w2 where o: "fi_read (na_files n) (in_dir n i ''owner'') w1 = (o1, w2)" by fastforce
    have k2: "kept w w2" using k read_kept [OF o] kept_trans by blast
    show ?thesis
    proof (cases "o1 = Inr (in_agent_token i)")
      case True
      then show ?thesis using k o unfolding own_seen_def by blast
    next
      case False
      then show ?thesis using call s Inl o k k2
        by (auto simp: native_delete_def owned_leftover_def split: sum.splits if_splits)
    qed
  qed
qed

end

section \<open>A host in memory\<close>

record box =
  bx_disk :: disk
  bx_sockets :: "(string \<times> int) list"

definition on_disk :: "(disk, 'a) io \<Rightarrow> (box, 'a) io" where
  "on_disk f b = (let (r, d) = f (bx_disk b) in (r, b\<lparr>bx_disk := d\<rparr>))"

definition box_files :: "box files" where
  "box_files =
     \<lparr>fi_stat = (\<lambda>p. on_disk (fi_stat disk_files p)), fi_lstat = (\<lambda>p. on_disk (fi_lstat disk_files p)),
      fi_missing = fi_missing disk_files, fi_read = (\<lambda>p. on_disk (fi_read disk_files p)),
      fi_write = (\<lambda>p md s. on_disk (fi_write disk_files p md s)), fi_open = (\<lambda>p. on_disk (fi_open disk_files p)),
      fi_create = (\<lambda>p. on_disk (fi_create disk_files p)), fi_copy = (\<lambda>p q. on_disk (fi_copy disk_files p q)),
      fi_append = (\<lambda>p s. on_disk (fi_append disk_files p s)), fi_head = (\<lambda>k p. on_disk (fi_head disk_files k p)),
      fi_temp = (\<lambda>p s. on_disk (fi_temp disk_files p s)), fi_chmod = (\<lambda>p md. on_disk (fi_chmod disk_files p md)),
      fi_close = (\<lambda>p. on_disk (fi_close disk_files p)), fi_rename = (\<lambda>p q. on_disk (fi_rename disk_files p q)),
      fi_remove = (\<lambda>p. on_disk (fi_remove disk_files p)), fi_mkdir_all = (\<lambda>p md. on_disk (fi_mkdir_all disk_files p md)),
      fi_readlink = (\<lambda>p. on_disk (fi_readlink disk_files p)), fi_symlink = (\<lambda>l q. on_disk (fi_symlink disk_files l q))\<rparr>"

definition box_listen :: "string \<Rightarrow> int \<Rightarrow> (box, int) io" where
  "box_listen proto p b =
     (let q = (if p = 0 then Max (insert 1023 (set (map snd (bx_sockets b)))) + 1 else p) in
      if q \<le> 0 \<or> 65535 < q \<or> (proto, q) \<in> set (bx_sockets b) then (Inl ErrBusy, b)
      else (Inr q, b\<lparr>bx_sockets := (proto, q) # bx_sockets b\<rparr>))"

definition box_native :: "box native" where
  "box_native =
     \<lparr>na_root = ''/srv'', na_binary = ''/bin/insta-game'', na_public_host = ''host'',
      na_games = (\<lambda>g. Some \<lparr>ng_command = ''/bin/quake'', ng_args = [''-port'', ''{port}''], ng_assets = ''/assets'',
                          ng_config_path = ''server.cfg''\<rparr>),
      na_files = box_files, na_walk = (\<lambda>s b. ([], b)), na_canceled = (\<lambda>b. (None, b)),
      na_create_new = (\<lambda>p b. if ds_files (bx_disk b) p \<noteq> None then (Inl ErrBusy, b)
                            else (Inr (), b\<lparr>bx_disk := disk_set p [] (bx_disk b)\<rparr>)),
      na_exists = (\<lambda>e. e = ErrBusy), na_create_mode = (\<lambda>p md. fi_create box_files p),
      na_open_lock = (\<lambda>p b. (Inr (), b)), na_flock = (\<lambda>p b. (Inr True, b)), na_unlock = (\<lambda>p b. (Inr (), b)),
      na_http = (\<lambda>t q b. (Inr \<lparr>rs_status = 200, rs_body = []\<rparr>, b)), na_listen = box_listen,
      na_close = (\<lambda>k b. b\<lparr>bx_sockets := removeAll k (bx_sockets b)\<rparr>), na_open_log = (\<lambda>p b. (Inr (), b)),
      na_spawn = (\<lambda>args env b. (Inr (), b)), na_wait = (\<lambda>b. (Tick, b)),
      na_remove_all = (\<lambda>p b. (Inr (), b\<lparr>bx_disk := (bx_disk b)\<lparr>ds_files :=
          (\<lambda>q. if has_prefix q (p @ ''/'') then None else ds_files (bx_disk b) q)\<rparr>\<rparr>)),
      na_boot_file = (\<lambda>b. (Inr ''boot'', b)), na_getenv = (\<lambda>k. []),
      na_parse_state = (\<lambda>s. Inr (zero_state\<lparr>ns_token := s\<rparr>)), na_state_json = (\<lambda>st. Inr (ns_token st)),
      na_agent_json = (\<lambda>c. Inr []), na_status = (\<lambda>s. Inl ErrBusy), na_restart = id\<rparr>"

interpretation box: socket_world box_native "\<lambda>b. set (bx_sockets b)"
proof
  fix proto p and w w' :: box and q
  assume l: "na_listen box_native proto p w = (Inr q, w')"
  then show "(p \<noteq> 0 \<longrightarrow> q = p) \<and> 0 < q \<and> q \<le> 65535 \<and> (proto, q) \<notin> set (bx_sockets w) \<and>
      set (bx_sockets w') = insert (proto, q) (set (bx_sockets w))"
    by (auto simp: box_native_def box_listen_def Let_def split: if_splits)
qed (auto simp: box_native_def box_listen_def Let_def split: if_splits)

interpretation box: shared_root box_native "\<lambda>b c. ds_files (bx_disk c) = ds_files (bx_disk b)"
  by unfold_locales
    (auto simp: box_native_def box_files_def on_disk_def disk_files_def disk_need_def split: option.splits if_splits)

section \<open>Properties\<close>

text \<open>A native game's ports keep their distances: every port of the catalog except the agent's is moved by
  the same amount, stays within 1 and 65535, and is held on TCP and on UDP; if that cannot be had, after at most
  32 tries, no socket is left open.\<close>

theorem native_ports_keep_offsets:
  assumes "socket_world n sockets" and "reserve_game_ports n g w = (r, w')"
  shows "case r of Inl e \<Rightarrow> sockets w' = sockets w
    | Inr (ports, held) \<Rightarrow> (\<exists>shift. ports = map (\<lambda>p. (p, p + shift)) (player_ports g)) \<and>
        (\<forall>(p, a)\<in>set ports. 0 < a \<and> a \<le> 65535 \<and> {(''tcp'', a), (''udp'', a)} \<subseteq> set held) \<and>
        set held \<inter> sockets w = {} \<and> sockets w' = sockets w \<union> set held"
proof (cases "player_ports g")
  case Nil
  then show ?thesis using assms(2) by (auto simp: reserve_game_ports_def)
next
  case (Cons first rest)
  then have "reserve_tries n first rest 32 w = (r, w')" using assms(2) by (simp add: reserve_game_ports_def)
  from socket_world.reserve_tries_sockets [OF assms(1) player_ports_sorted [OF Cons] this]
  show ?thesis unfolding Cons by (cases r) auto
qed

definition ut99_game :: game where
  "ut99_game = desk_game\<lparr>gm_agent_port := 9, gm_ports := [''9/tcp'', ''8/udp'', ''7/udp''], gm_game_port := 7\<rparr>"

definition idle_box :: box where
  "idle_box = \<lparr>bx_disk = \<lparr>ds_files = [''/bin/quake'' \<mapsto> [], ''/srv/q1/state.json'' \<mapsto> ''somebody''], ds_count = 0\<rparr>,
     bx_sockets = [(''tcp'', 2000)]\<rparr>"

theorem native_ports_keep_offsets_witness:
  "\<exists>held b. reserve_game_ports box_native ut99_game idle_box = (Inr ([(7, 2001), (8, 2002)], held), b) \<and>
     {(''tcp'', 2002), (''udp'', 2002)} \<subseteq> set held \<and> set (bx_sockets b) = set (bx_sockets idle_box) \<union> set held"
proof -
  let ?run = "reserve_game_ports box_native ut99_game idle_box"
  have v: "fst ?run = Inr ([(7, 2001), (8, 2002)], [(''tcp'', 2001), (''udp'', 2001), (''tcp'', 2002), (''udp'', 2002)])"
    by code_simp
  then obtain held b where r: "?run = (Inr ([(7, 2001), (8, 2002)], held), b)" by (metis prod.collapse)
  show ?thesis using native_ports_keep_offsets [OF box.socket_world_axioms r] r by auto
qed



lemma cut_of_split: "split_on c s = [a, b] \<Longrightarrow> fst (cut c s) = a"
  using join_split_on [of c s] split_on_parts [of a c s] by auto

lemma port_number_read: "port_number k = Some p \<Longrightarrow> atoi_value (fst (cut (CHR ''/'') k)) = p"
  by (auto simp: port_number_def atoi_value_def cut_of_split split: list.splits option.splits if_splits)

text \<open>C31. A catalog that loads is not empty, in order of the display names, with distinct IDs; and each game has
  all the fields the providers rely on: an ID that is a path element, a command, an image and paths, a game
  and an agent port within 1 and 65535 that differ, only valid port keys, and its game port among those a
  native host reserves.\<close>

theorem loaded_games_are_well_formed:
  assumes "load_catalog fs root = Inr gs"
  shows "gs \<noteq> [] \<and> distinct (map gm_id gs) \<and> sorted (map gm_display_name gs) \<and>
    (\<forall>g\<in>set gs. valid_id (gm_id g) \<and> gm_cmd g \<noteq> [] \<and> gm_image g \<noteq> [] \<and> gm_data_root g \<noteq> [] \<and> gm_config_path g \<noteq> [] \<and>
      gm_game_port g \<in> {1..65535} \<and> gm_agent_port g \<in> {1..65535} \<and> gm_game_port g \<noteq> gm_agent_port g \<and>
      (\<forall>k\<in>set (gm_ports g). port_number k \<noteq> None) \<and> gm_game_port g \<in> set (player_ports g))"
proof -
  note ok = load_catalog_ok [OF assms]
  have "gm_game_port g \<in> set (player_ports g)" if "g \<in> set gs" for g
  proof -
    have g: "game_ok g" using ok that by blast
    then obtain k where k: "k \<in> set (gm_ports g)" "port_number k = Some (gm_game_port g)" "gm_game_port g \<noteq> gm_agent_port g"
      unfolding game_ok_def by (elim conjE bexE)
    then have "gm_game_port g \<in> (\<lambda>key. atoi_value (fst (cut (CHR ''/'') key))) ` set (gm_ports g)"
      using port_number_read [OF k(2)] by (metis image_eqI)
    then show ?thesis using k(3) by (simp add: player_ports_def)
  qed
  then show ?thesis using ok by (auto simp: game_ok_def)
qed

definition one_game_files :: catalog_files where
  "one_game_files = \<lparr>cf_glob = (\<lambda>root. Inr [root @ ''/quake/game.json'']),
     cf_read = (\<lambda>p. if p = ''c/quake/game.json'' then Inr [] else Inl (True, ErrNotFound)), cf_parse = (\<lambda>s. Inr ut99_game)\<rparr>"

theorem loaded_games_are_well_formed_witness:
  "\<exists>gs. load_catalog one_game_files ''c'' = Inr gs \<and> (\<forall>g\<in>set gs. gm_game_port g \<in> set (player_ports g)) \<and> length gs = 1"
proof -
  have "case load_catalog one_game_files ''c'' of Inl e \<Rightarrow> False | Inr gs \<Rightarrow> length gs = 1" by code_simp
  then obtain g where g: "load_catalog one_game_files ''c'' = Inr [g]" by (auto simp: length_Suc_conv split: sum.splits)
  show ?thesis using loaded_games_are_well_formed [OF g] g by auto
qed

end
