(* ===== verification/Cidr.thy ===== *)
theory Cidr
  imports FleetPage
begin

text \<open>
  Go's \<open>net.ParseCIDR\<close> (through \<open>netip.ParseAddr\<close>) as internal/cloud/environment.go and
  fleet.go use it: an address of 4 or 16 bytes, whether \<open>To4\<close> gives an IPv4 address, and the length
  of the prefix. A byte of an address is a natural number below 256.
\<close>

section \<open>Addresses\<close>

text \<open>The dotted form: four decimal fields of at most 255, without leading zeros.\<close>

definition ipv4_field :: "string \<Rightarrow> nat option" where
  "ipv4_field f =
     (if f = [] \<or> \<not> list_all is_digit f \<or> (1 < length f \<and> hd f = CHR ''0'') \<or> 3 < length f \<or> 255 < read_digits f
      then None else Some (read_digits f))"

definition parse_ipv4 :: "string \<Rightarrow> nat list option" where
  "parse_ipv4 s =
     (case split_on (CHR ''.'') s of
        [a, b, c, d] \<Rightarrow>
          (case (ipv4_field a, ipv4_field b, ipv4_field c, ipv4_field d) of
             (Some w, Some x, Some y, Some z) \<Rightarrow> Some [w, x, y, z]
           | _ \<Rightarrow> None)
      | _ \<Rightarrow> None)"

definition hex_number :: "string \<Rightarrow> nat" where
  "hex_number s = foldl (\<lambda>n c. 16 * n + the (hex_value c)) 0 s"

text \<open>The loop of \<open>parseIPv6\<close>: the bytes so far and the position of the ellipsis. The result is the bytes
  and the ellipsis when the whole text was used. At most eight groups fit.\<close>

primrec ipv6_groups :: "nat \<Rightarrow> nat list \<Rightarrow> nat option \<Rightarrow> string \<Rightarrow> (nat list \<times> nat option) option" where
  "ipv6_groups 0 = (\<lambda>bs el s. None)"
| "ipv6_groups (Suc k) = (\<lambda>bs el s.
     (let g = takeWhile (\<lambda>c. hex_value c \<noteq> None) s; rest = drop (length g) s in
      if g = [] \<or> 4 < length g then None
      else if rest \<noteq> [] \<and> hd rest = CHR ''.''
      then (if (el = None \<and> length bs \<noteq> 12) \<or> 12 < length bs then None
            else map_option (\<lambda>v. (bs @ v, el)) (parse_ipv4 s))
      else (let bs = bs @ [hex_number g div 256, hex_number g mod 256] in
        case rest of
          [] \<Rightarrow> Some (bs, el)
        | c # s \<Rightarrow>
            if c \<noteq> CHR '':'' \<or> s = [] then None
            else if hd s = CHR '':''
            then (if el \<noteq> None then None
                  else if tl s = [] then Some (bs, Some (length bs))
                  else ipv6_groups k bs (Some (length bs)) (tl s))
            else ipv6_groups k bs el s)))"

definition ipv6_expand :: "nat list \<times> nat option \<Rightarrow> nat list option" where
  "ipv6_expand r =
     (case r of (bs, el) \<Rightarrow>
        if length bs < 16
        then (case el of None \<Rightarrow> None | Some n \<Rightarrow> Some (take n bs @ replicate (16 - length bs) 0 @ drop n bs))
        else if el \<noteq> None then None else Some bs)"

text \<open>\<open>ParseCIDR\<close> refuses a zone, so an address with \<open>%\<close> is none.\<close>

definition parse_ipv6 :: "string \<Rightarrow> nat list option" where
  "parse_ipv6 s =
     (if CHR ''%'' \<in> set s then None
      else if has_prefix s ''::''
      then (if length s = 2 then Some (replicate 16 0)
            else Option.bind (ipv6_groups 8 [] (Some 0) (drop 2 s)) ipv6_expand)
      else Option.bind (ipv6_groups 8 [] None s) ipv6_expand)"

text \<open>The first of \<open>.\<close>, \<open>:\<close> and \<open>%\<close> decides the form.\<close>

definition parse_addr :: "string \<Rightarrow> nat list option" where
  "parse_addr s =
     (case dropWhile (\<lambda>c. c \<noteq> CHR ''.'' \<and> c \<noteq> CHR '':'' \<and> c \<noteq> CHR ''%'') s of
        [] \<Rightarrow> None
      | c # cs \<Rightarrow> if c = CHR ''.'' then parse_ipv4 s else if c = CHR '':'' then parse_ipv6 s else None)"

section \<open>Networks\<close>

text \<open>The address and the length of its prefix, at most the bits of the address.\<close>

definition parse_cidr :: "string \<Rightarrow> (nat list \<times> nat) option" where
  "parse_cidr s =
     (let (a, m, found) = cut (CHR ''/'') s in
      if \<not> found then None
      else (case parse_addr a of
              None \<Rightarrow> None
            | Some bs \<Rightarrow>
                if m = [] \<or> \<not> list_all is_digit m \<or> 8 * length bs < read_digits m then None
                else Some (bs, read_digits m)))"

text \<open>\<open>To4\<close>: an IPv4 address, or one mapped into IPv6.\<close>

definition to4 :: "nat list \<Rightarrow> nat list option" where
  "to4 bs =
     (if length bs = 4 then Some bs
      else if length bs = 16 \<and> take 10 bs = replicate 10 0 \<and> bs ! 10 = 255 \<and> bs ! 11 = 255 then Some (drop 12 bs)
      else None)"

definition ipv4_cidr :: "string \<Rightarrow> bool" where
  "ipv4_cidr s = (case parse_cidr s of None \<Rightarrow> False | Some (bs, n) \<Rightarrow> to4 bs \<noteq> None)"

section \<open>What is accepted\<close>

lemma parse_ipv4_bytes: "parse_ipv4 s = Some bs \<Longrightarrow> length bs = 4 \<and> (\<forall>b\<in>set bs. b < 256)"
  by (auto simp: parse_ipv4_def ipv4_field_def split: list.splits option.splits if_splits)

lemma cut_no_sep: "cut c s = (a, b, True) \<Longrightarrow> c \<notin> set a \<and> s = a @ c # b"
  by (induction c s arbitrary: a rule: cut.induct) (auto split: if_splits prod.splits)

lemma parse_cidr_prefix: "parse_cidr s = Some (bs, n) \<Longrightarrow> n \<le> 8 * length bs"
  by (auto simp: parse_cidr_def Let_def split: prod.splits option.splits if_splits)

lemma parse_plain_ipv4: "parse_cidr ''203.0.113.7/32'' = Some ([203, 0, 113, 7], 32)"
  by (simp add: parse_cidr_def parse_addr_def parse_ipv4_def ipv4_field_def is_digit_def read_digits_def digit_val_def)

text \<open>A mapped address counts its prefix in 128 bits, and still passes for IPv4.\<close>

lemma read_ffff: "hex_number ''ffff'' = 65535"
  by (simp add: hex_number_def)

lemma read_quad: "parse_ipv4 ''8.8.8.8'' = Some [8, 8, 8, 8]"
  by (simp add: parse_ipv4_def ipv4_field_def is_digit_def read_digits_def digit_val_def)

lemma mapped_tail: "ipv6_groups (Suc k) [255, 255] (Some 0) ''8.8.8.8'' = Some ([255, 255, 8, 8, 8, 8], Some 0)"
  by (subst ipv6_groups.simps) (simp add: read_quad)

lemma mapped_groups: "ipv6_groups (Suc (Suc k)) [] (Some 0) ''ffff:8.8.8.8'' = Some ([255, 255, 8, 8, 8, 8], Some 0)"
  by (subst ipv6_groups.simps) (simp add: read_ffff mapped_tail Let_def del: ipv6_groups.simps)

lemma mapped_address: "parse_addr ''::ffff:8.8.8.8'' = Some (replicate 10 0 @ [255, 255, 8, 8, 8, 8])"
  using mapped_groups [of 6]
  by (simp add: parse_addr_def parse_ipv6_def has_prefix_def ipv6_expand_def del: ipv6_groups.simps replicate.simps)

lemma parse_mapped_ipv4:
  "parse_cidr ''::ffff:8.8.8.8/24'' = Some (replicate 10 0 @ [255, 255, 8, 8, 8, 8], 24)"
  by (simp add: parse_cidr_def mapped_address is_digit_def read_digits_def digit_val_def del: replicate.simps)

lemma mapped_passes: "ipv4_cidr ''::ffff:8.8.8.8/24''"
  by (simp add: ipv4_cidr_def parse_mapped_ipv4 to4_def nth_append)

end
