(* ===== verification/Cloud.thy ===== *)
theory Cloud
  imports Cidr Docker LobbyPage FleetWorld Paths
begin

text \<open>
  The CloudFormation side of a deployment (internal/cloud/config.go, parameters.go, image.go, environment.go,
  fleet.go, lobby.go and artifact.go): reading an owned stack, planning and applying changes to it, and
  destroying it. CloudFormation, S3, SSM, the embedded templates and the ELF and zip libraries are
  parameters; a nil string of the SDK reads as the empty one, as in the source. Loops over pages and the
  wait for the last host have no bound in the source; not returning is \<open>None\<close>.
\<close>

section \<open>Stacks\<close>

record stack_parameter =
  sp_key :: string
  sp_value :: string
  sp_resolved :: string

record stack =
  sk_id :: string
  sk_name :: string
  sk_status :: string
  sk_tags :: "(string \<times> string) list"
  sk_parameters :: "stack_parameter list"
  sk_outputs :: "(string \<times> string) list"

text \<open>A parameter of a change set: a value, or the one the stack has.\<close>

datatype param = NewValue string string | PreviousValue string

record resource_change =
  rc_id :: string
  rc_replacement :: string

record change_set =
  cs_id :: string
  cs_stack :: string
  cs_status :: string
  cs_reason :: string
  cs_tags :: "(string \<times> string) list"
  cs_changes :: "resource_change option list"

record change_request =
  cr_stack :: string
  cr_name :: string
  cr_kind :: string
  cr_template :: string
  cr_parameters :: "param list"
  cr_tags :: "(string \<times> string) list"

text \<open>An error of an AWS call carries a code and a message; \<open>errors.As\<close> finds them.\<close>

datatype aws_err = ApiError string string err | AwsErr err

fun aws_error :: "aws_err \<Rightarrow> err" where
  "aws_error (ApiError c m e) = e"
| "aws_error (AwsErr e) = e"

fun missing_stack :: "aws_err \<Rightarrow> bool" where
  "missing_stack (ApiError c m e) = (c = ''ValidationError'' \<and> has_substring ''does not exist'' m)"
| "missing_stack (AwsErr e) = False"

fun no_such_bucket :: "aws_err \<Rightarrow> bool" where
  "no_such_bucket (ApiError c m e) = (c = ''NoSuchBucket'')"
| "no_such_bucket (AwsErr e) = False"

section \<open>The services\<close>

text \<open>
  \<open>aw_change_sets\<close> and \<open>aw_objects\<close> give a page and the token of the next one, empty for
  none. \<open>aw_pause\<close> is the wait of five seconds, which gives the error of the context if that
  ended. \<open>aw_template_keys\<close> decodes the keys below \<open>Parameters\<close> of a template.
\<close>

record ('w, 't) aws =
  aw_stacks :: "string \<Rightarrow> 'w \<Rightarrow> (aws_err + stack list) \<times> 'w"
  aw_change_sets :: "string \<Rightarrow> string \<Rightarrow> 'w \<Rightarrow> (aws_err + string list \<times> string) \<times> 'w"
  aw_change_set :: "string \<Rightarrow> string \<Rightarrow> 'w \<Rightarrow> (aws_err + change_set) \<times> 'w"
  aw_create_change_set :: "change_request \<Rightarrow> ('w, string) io"
  aw_execute :: "string \<Rightarrow> string \<Rightarrow> ('w, unit) io"
  aw_delete_stack :: "string \<Rightarrow> ('w, unit) io"
  aw_wait :: "string \<Rightarrow> string \<Rightarrow> ('w, unit) io"
  aw_image :: "string \<Rightarrow> ('w, string) io"
  aw_objects :: "string \<Rightarrow> string \<Rightarrow> 'w \<Rightarrow> (aws_err + string list \<times> string) \<times> 'w"
  aw_put :: "string \<Rightarrow> string \<Rightarrow> string \<Rightarrow> ('w, unit) io"
  aw_get :: "string \<Rightarrow> string \<Rightarrow> ('w, string \<times> err option) io"
  aw_delete_object :: "string \<Rightarrow> string \<Rightarrow> ('w, unit) io"
  aw_clock :: "'w \<Rightarrow> time \<times> 'w"
  aw_pause :: "('w, unit) io"
  aw_table :: "string \<Rightarrow> ('w, 't) table"
  aw_ec2 :: "string \<Rightarrow> 'w ec2"
  aw_runtime :: "'w runtime"
  aw_environment :: string
  aw_fleet :: string
  aw_template_keys :: "string \<Rightarrow> err + string list"
  aw_region :: string

section \<open>Ownership and outputs\<close>

definition kind_tag :: "string \<times> string" where
  "kind_tag = (''insta-game:kind'', ''shared-host'')"

definition require_stack_ownership :: "stack \<Rightarrow> err + unit" where
  "require_stack_ownership sk =
     (if kind_tag \<in> set (sk_tags sk) then Inr ()
      else Inl (ErrMsg (''refusing unmanaged CloudFormation stack '' @ sk_name sk)))"

text \<open>A later output or parameter replaces an earlier one of the same key; a missing one reads empty.\<close>

definition stack_output :: "stack \<Rightarrow> string \<Rightarrow> string" where
  "stack_output sk k = (case map_of (rev (sk_outputs sk)) k of None \<Rightarrow> [] | Some v \<Rightarrow> v)"

definition stack_parameter_of :: "stack \<Rightarrow> string \<Rightarrow> stack_parameter option" where
  "stack_parameter_of sk k = List.find (\<lambda>p. sp_key p = k) (rev (sk_parameters sk))"

definition parameter_value :: "stack \<Rightarrow> string \<Rightarrow> string" where
  "parameter_value sk k = (case stack_parameter_of sk k of None \<Rightarrow> [] | Some p \<Rightarrow> sp_value p)"

definition describe_stack :: "('w, 't) aws \<Rightarrow> string \<Rightarrow> ('w, stack) io" where
  "describe_stack a name w =
     (case aw_stacks a name w of
        (Inl e, w) \<Rightarrow> (Inl (aws_error e), w)
      | (Inr [sk], w) \<Rightarrow> (case require_stack_ownership sk of Inl e \<Rightarrow> Inl e | Inr u \<Rightarrow> Inr sk, w)
      | (Inr _, w) \<Rightarrow> (Inl (ErrMsg (''expected one stack for '' @ name)), w))"

text \<open>The status of a stack of which only a plan exists.\<close>

definition in_review :: "stack \<Rightarrow> bool" where
  "in_review sk \<longleftrightarrow> sk_status sk = ''REVIEW_IN_PROGRESS''"

text \<open>One page of change sets: whether one of them is a tagged one of this stack.\<close>

fun scan_change_sets :: "('w, 't) aws \<Rightarrow> stack \<Rightarrow> string list \<Rightarrow> 'w \<Rightarrow> (aws_err + bool) \<times> 'w" where
  "scan_change_sets a sk [] w = (Inr False, w)"
| "scan_change_sets a sk (i # is) w =
     (case aw_change_set a i (sk_id sk) w of
        (Inl e, w) \<Rightarrow> (Inl e, w)
      | (Inr cs, w) \<Rightarrow>
          if cs_stack cs = sk_id sk \<and> kind_tag \<in> set (cs_tags cs) then (Inr True, w)
          else scan_change_sets a sk is w)"

partial_function (option) review_pages ::
  "('w, 't) aws \<Rightarrow> stack \<Rightarrow> string \<Rightarrow> 'w \<Rightarrow> ((aws_err + bool) \<times> 'w) option" where
  "review_pages a sk tok w =
     (case aw_change_sets a (sk_id sk) tok w of (p, w) \<Rightarrow>
      (case p of
         Inl e \<Rightarrow> Some (Inl e, w)
       | Inr q \<Rightarrow>
           (case q of (is, next) \<Rightarrow>
            (case scan_change_sets a sk is w of (r, w) \<Rightarrow>
             (case r of
                Inl e \<Rightarrow> Some (Inl e, w)
              | Inr found \<Rightarrow> if found \<or> next = [] then Some (Inr found, w) else review_pages a sk next w)))))"

definition describe_environment ::
  "('w, 't) aws \<Rightarrow> string \<Rightarrow> 'w \<Rightarrow> ((aws_err + stack) \<times> 'w) option" where
  "describe_environment a name w =
     (case aw_stacks a name w of
        (Inl e, w) \<Rightarrow> Some (Inl e, w)
      | (Inr [sk], w) \<Rightarrow>
          if \<not> in_review sk
          then Some (case require_stack_ownership sk of Inl e \<Rightarrow> Inl (AwsErr e) | Inr u \<Rightarrow> Inr sk, w)
          else (case review_pages a sk [] w of
                  None \<Rightarrow> None
                | Some (Inl e, w) \<Rightarrow> Some (Inl e, w)
                | Some (Inr found, w) \<Rightarrow>
                    Some (if found then Inr sk else Inl (AwsErr (ErrMsg (''refusing unmanaged review stack '' @ name))), w))
      | (Inr _, w) \<Rightarrow> Some (Inl (AwsErr (ErrMsg ''expected one environment stack'')), w))"

section \<open>Parameters and the image\<close>

definition preserve_parameter :: "stack option \<Rightarrow> string \<Rightarrow> string \<Rightarrow> param" where
  "preserve_parameter prev k v =
     (case prev of
        Some sk \<Rightarrow> if \<not> in_review sk \<and> k \<in> sp_key ` set (sk_parameters sk) then PreviousValue k else NewValue k v
      | None \<Rightarrow> NewValue k v)"

text \<open>\<open>updates\<close> lists the entries of a map with distinct keys; which unknown key an error names is open
  in the source, and here the first.\<close>

definition update_parameters ::
  "err + string list \<Rightarrow> stack_parameter list \<Rightarrow> (string \<times> string) list \<Rightarrow> err + param list" where
  "update_parameters keys prev updates =
     (case keys of
        Inl e \<Rightarrow> Inl e
      | Inr ks \<Rightarrow>
          (case List.find (\<lambda>u. fst u \<notin> set ks) updates of
             Some u \<Rightarrow> Inl (ErrMsg (''unknown template parameter '' @ fst u))
           | None \<Rightarrow>
               Inr (concat (map (\<lambda>k. case map_of updates k of
                                       Some v \<Rightarrow> [NewValue k v]
                                     | None \<Rightarrow> if k \<in> sp_key ` set prev then [PreviousValue k] else [])
                             (sort ks)))))"

text \<open>A stack that was deployed keeps the image it was pinned to, and its architecture.\<close>

definition pinned_image :: "stack \<Rightarrow> string \<Rightarrow> err + string" where
  "pinned_image sk arch =
     (let img = (case stack_parameter_of sk ''UbuntuImage'' of
                     None \<Rightarrow> [] | Some p \<Rightarrow> if sp_resolved p = [] then sp_value p else sp_resolved p)
      in if has_prefix (parameter_value sk ''InstanceType'') ''t4g.'' \<noteq> (arch = ''arm64'')
         then Inl (ErrMsg ''changing host architecture requires a separate stack'')
         else if \<not> has_prefix img ''ami-'' then Inl (ErrMsg ''existing stack has no pinned host image'')
         else Inr img)"

definition image_parameter :: "string \<Rightarrow> string" where
  "image_parameter arch =
     ''/aws/service/canonical/ubuntu/server/24.04/stable/current/'' @ arch @ ''/hvm/ebs-gp3/ami-id''"

definition latest_image :: "('w, 't) aws \<Rightarrow> string \<Rightarrow> ('w, string) io" where
  "latest_image a arch w =
     (case aw_image a (image_parameter arch) w of
        (Inl e, w) \<Rightarrow> (Inl e, w)
      | (Inr v, w) \<Rightarrow> (if has_prefix v ''ami-'' then Inr v else Inl (ErrMsg ''Ubuntu image parameter contains no AMI''), w))"

definition host_image :: "('w, 't) aws \<Rightarrow> stack option \<Rightarrow> string \<Rightarrow> ('w, string) io" where
  "host_image a prev arch w =
     (case prev of
        Some sk \<Rightarrow> if \<not> in_review sk then (pinned_image sk arch, w) else latest_image a arch w
      | None \<Rightarrow> latest_image a arch w)"

section \<open>Plans\<close>

record plan_options =
  po_operator_cidr :: string
  po_game_cidr :: string
  po_public_key :: string
  po_instance_type :: string
  po_disk :: int
  po_max_hosts :: int
  po_udp_from :: int
  po_udp_to :: int
  po_lobby_instances :: string
  po_lobby_hash :: string

text \<open>The expression \<open>^insta-game-[a-zA-Z0-9-]{1,60}$\<close>.\<close>

definition stack_char :: "char \<Rightarrow> bool" where
  "stack_char c \<longleftrightarrow> is_lower_alnum (lower_char c) \<or> c = CHR ''-''"

definition stack_name :: "string \<Rightarrow> bool" where
  "stack_name s \<longleftrightarrow>
     (case cut_prefix s ''insta-game-'' of
        None \<Rightarrow> False | Some r \<Rightarrow> r \<noteq> [] \<and> length r \<le> 60 \<and> list_all stack_char r)"

text \<open>An IPv4 operator network, by the length of the prefix as it was written.\<close>

definition check_operator :: "string \<Rightarrow> string \<Rightarrow> err + unit" where
  "check_operator refusal s =
     (case parse_cidr s of
        None \<Rightarrow> Inl (ErrMsg refusal)
      | Some (bs, n) \<Rightarrow>
          if to4 bs = None then Inl (ErrMsg refusal)
          else if n < 24 then Inl (ErrMsg ''operator-cidr must be /24 or narrower'') else Inr ())"

definition check_plan :: "string \<Rightarrow> plan_options \<Rightarrow> err + unit" where
  "check_plan name o1 =
     (if \<not> stack_name name
      then Inl (ErrMsg ''stack name must start with insta-game- and contain letters, numbers or hyphens'')
      else (case check_operator ''operator-cidr must be an IPv4 CIDR'' (po_operator_cidr o1) of
        Inl e \<Rightarrow> Inl e
      | Inr u \<Rightarrow>
          if \<not> ipv4_cidr (po_game_cidr o1) then Inl (ErrMsg ''game-cidr must be an IPv4 CIDR'')
          else if po_public_key o1 = [] \<or> po_instance_type o1 = [] \<or> po_disk o1 < 8 \<or> po_udp_from o1 < 1 \<or>
                  po_udp_to o1 < po_udp_from o1 \<or> 65535 < po_udp_to o1
          then Inl (ErrMsg ''public key, instance type, disk >= 8 GiB, and valid UDP range are required'')
          else if po_lobby_instances o1 = [] then Inr ()
          else (case parse_ids (po_lobby_instances o1) of
                  Inl e \<Rightarrow> Inl e | Inr is \<Rightarrow> validate_hash (po_lobby_hash o1))))"

definition architecture_of :: "string \<Rightarrow> string" where
  "architecture_of instance_type = (if has_prefix instance_type ''t4g.'' then ''arm64'' else ''amd64'')"

text \<open>The stack there is, and the kind of change set; \<open>refuse\<close> says why this stack cannot be planned.\<close>

definition planned_stack ::
  "('w, 't) aws \<Rightarrow> string \<Rightarrow> (stack \<Rightarrow> err option) \<Rightarrow> 'w \<Rightarrow> ((err + stack option \<times> string) \<times> 'w) option" where
  "planned_stack a name refuse w =
     (case describe_environment a name w of
        None \<Rightarrow> None
      | Some (Inl e, w) \<Rightarrow> Some (if missing_stack e then Inr (None, ''CREATE'') else Inl (aws_error e), w)
      | Some (Inr sk, w) \<Rightarrow>
          Some (case refuse sk of
                  Some e \<Rightarrow> Inl e
                | None \<Rightarrow> Inr (Some sk, if in_review sk then ''CREATE'' else ''UPDATE''), w))"

definition refuse_plan :: "plan_options \<Rightarrow> stack \<Rightarrow> err option" where
  "refuse_plan o1 sk =
     (if stack_output sk ''Fleet'' = ''true''
      then Some (ErrMsg ''this is a fleet; use --config and preserve its host limit'')
      else if stack_output sk ''LobbyTable'' \<noteq> [] \<and> po_lobby_instances o1 = []
      then Some (ErrMsg ''lobby is already enabled; preserve --lobby-instances or destroy the deployment'')
      else None)"

definition change_set_name :: "string \<Rightarrow> ('w, 't) aws \<Rightarrow> 'w \<Rightarrow> string \<times> 'w" where
  "change_set_name lead a w = (case aw_clock a w of (t, w) \<Rightarrow> (lead @ show_int t, w))"

text \<open>Creating a change set and waiting until CloudFormation has worked it out.\<close>

definition create_and_wait :: "('w, 't) aws \<Rightarrow> change_request \<Rightarrow> ('w, string) io" where
  "create_and_wait a q w =
     (case aw_create_change_set a q w of
        (Inl e, w) \<Rightarrow> (Inl e, w)
      | (Inr i, w) \<Rightarrow>
          (case aw_wait a ''ChangeSetCreateComplete'' i w of
             (Inl e, w) \<Rightarrow> (Inl e, w)
           | (Inr u, w) \<Rightarrow> (Inr i, w)))"

text \<open>\<open>Plan\<close> says why a change set failed.\<close>

definition create_or_explain :: "('w, 't) aws \<Rightarrow> change_request \<Rightarrow> ('w, string) io" where
  "create_or_explain a q w =
     (case aw_create_change_set a q w of
        (Inl e, w) \<Rightarrow> (Inl e, w)
      | (Inr i, w) \<Rightarrow>
          (case aw_wait a ''ChangeSetCreateComplete'' i w of
             (Inr u, w) \<Rightarrow> (Inr i, w)
           | (Inl e, w) \<Rightarrow>
               (case aw_change_set a i [] w of
                  (Inl f, w) \<Rightarrow> (Inl (ErrWrap (''change set '' @ i @ '': '') e), w)
                | (Inr cs, w) \<Rightarrow>
                    (Inl (if cs_status cs = ''FAILED'' then ErrMsg (''change set '' @ i @ '': '' @ cs_reason cs)
                          else ErrWrap (''change set '' @ i @ '': '') e), w))))"

definition plan_parameters :: "plan_options \<Rightarrow> stack option \<Rightarrow> string \<Rightarrow> param list" where
  "plan_parameters o1 prev img =
     [NewValue ''LobbyInstances'' (po_lobby_instances o1),
      NewValue ''LobbyTokenHash'' (po_lobby_hash o1),
      preserve_parameter prev ''LobbyCodeKey'' [],
      preserve_parameter prev ''LobbyArchitecture'' ''arm64'',
      NewValue ''UbuntuImage'' img,
      NewValue ''GameCIDR'' (po_game_cidr o1),
      NewValue ''OperatorCIDR'' (po_operator_cidr o1),
      NewValue ''PublicKey'' (po_public_key o1),
      NewValue ''InstanceType'' (po_instance_type o1),
      NewValue ''DiskGiB'' (show_int (po_disk o1)),
      NewValue ''UDPFrom'' (show_int (po_udp_from o1)),
      NewValue ''UDPTo'' (show_int (po_udp_to o1))]"

definition plan :: "('w, 't) aws \<Rightarrow> string \<Rightarrow> plan_options \<Rightarrow> 'w \<Rightarrow> ((err + string) \<times> 'w) option" where
  "plan a name o1 w =
     (case check_plan name o1 of
        Inl e \<Rightarrow> Some (Inl e, w)
      | Inr u \<Rightarrow>
          (case planned_stack a name (refuse_plan o1) w of
             None \<Rightarrow> None
           | Some (Inl e, w) \<Rightarrow> Some (Inl e, w)
           | Some (Inr (prev, kind), w) \<Rightarrow>
               Some (case host_image a prev (architecture_of (po_instance_type o1)) w of
                       (Inl e, w) \<Rightarrow> (Inl e, w)
                     | (Inr img, w) \<Rightarrow>
                         (case change_set_name ''insta-game-'' a w of (n, w) \<Rightarrow>
                            create_or_explain a
                              \<lparr>cr_stack = name, cr_name = n, cr_kind = kind, cr_template = aw_environment a,
                               cr_parameters = plan_parameters o1 prev img, cr_tags = [kind_tag]\<rparr> w))))"

section \<open>Plans of a fleet\<close>

definition fleet_sizes :: "string list" where
  "fleet_sizes = [''t4g.micro'', ''t4g.small'', ''t4g.medium'', ''t3a.micro'', ''t3a.small'', ''t3a.medium'',
     ''t3.micro'', ''t3.small'', ''t3.medium'']"

definition check_plan_fleet :: "string \<Rightarrow> plan_options \<Rightarrow> err + unit" where
  "check_plan_fleet name o1 =
     (if \<not> stack_name name \<or> po_public_key o1 = [] \<or> po_operator_cidr o1 = [] \<or> po_disk o1 < 24
      then Inl (ErrMsg ''fleet requires a valid stack, operator CIDR, SSH public key, and disk >=24 GiB'')
      else if po_lobby_hash o1 = [] then Inl (ErrMsg ''fleet requires an invitation key'')
      else if po_max_hosts o1 < 1 \<or> 16 < po_max_hosts o1
      then Inl (ErrMsg (''max-hosts must be 1'' @ en_dash @ ''16''))
      else (case check_operator ''operator-cidr must be IPv4'' (po_operator_cidr o1) of
        Inl e \<Rightarrow> Inl e
      | Inr u \<Rightarrow>
          if \<not> ipv4_cidr (po_game_cidr o1) then Inl (ErrMsg ''game-cidr must be IPv4'')
          else if 256 < po_disk o1 \<or> po_udp_from o1 < 1 \<or> po_udp_to o1 < po_udp_from o1 \<or> 65535 < po_udp_to o1
          then Inl (ErrMsg ''invalid disk or game port range'')
          else if po_instance_type o1 \<notin> set fleet_sizes
          then Inl (ErrMsg ''fleet supports micro, small, or medium hosts'')
          else Inr ()))"

definition refuse_plan_fleet :: "plan_options \<Rightarrow> stack \<Rightarrow> err option" where
  "refuse_plan_fleet o1 sk =
     (if parameter_value sk ''Release'' \<noteq> [] \<and>
         (parameter_value sk ''InstanceType'' \<noteq> po_instance_type o1 \<or>
          parameter_value sk ''DiskGiB'' \<noteq> show_int (po_disk o1))
      then Some (ErrMsg ''hardware changes require a separate fleet; existing capacities and saved data remain pinned'')
      else if stack_output sk ''Fleet'' \<noteq> ''true'' \<and> \<not> in_review sk
      then Some (ErrMsg ''use a new stack for the fleet; existing saved hosts will not be replaced'')
      else None)"

text \<open>The source lists the values of a map in any order; CloudFormation does not depend on it.\<close>

definition fleet_parameters :: "plan_options \<Rightarrow> stack option \<Rightarrow> string \<Rightarrow> param list" where
  "fleet_parameters o1 prev img =
     [NewValue ''UbuntuImage'' img,
      NewValue ''OperatorCIDR'' (po_operator_cidr o1),
      NewValue ''GameCIDR'' (po_game_cidr o1),
      NewValue ''PublicKey'' (po_public_key o1),
      NewValue ''InstanceType'' (po_instance_type o1),
      NewValue ''DiskGiB'' (show_int (po_disk o1)),
      NewValue ''UDPFrom'' (show_int (po_udp_from o1)),
      NewValue ''UDPTo'' (show_int (po_udp_to o1)),
      NewValue ''LobbyTokenHash'' (po_lobby_hash o1),
      NewValue ''MaxHosts'' (show_int (po_max_hosts o1)),
      preserve_parameter prev ''LobbyCodeKey'' [],
      preserve_parameter prev ''Release'' [],
      preserve_parameter prev ''LobbyArchitecture'' ''arm64'']"

definition plan_fleet :: "('w, 't) aws \<Rightarrow> string \<Rightarrow> plan_options \<Rightarrow> 'w \<Rightarrow> ((err + string) \<times> 'w) option" where
  "plan_fleet a name o1 w =
     (case check_plan_fleet name o1 of
        Inl e \<Rightarrow> Some (Inl e, w)
      | Inr u \<Rightarrow>
          (case planned_stack a name (refuse_plan_fleet o1) w of
             None \<Rightarrow> None
           | Some (Inl e, w) \<Rightarrow> Some (Inl e, w)
           | Some (Inr (prev, kind), w) \<Rightarrow>
               Some (case host_image a prev (architecture_of (po_instance_type o1)) w of
                       (Inl e, w) \<Rightarrow> (Inl e, w)
                     | (Inr img, w) \<Rightarrow>
                         (case change_set_name ''insta-game-'' a w of (n, w) \<Rightarrow>
                            create_and_wait a
                              \<lparr>cr_stack = name, cr_name = n, cr_kind = kind, cr_template = aw_fleet a,
                               cr_parameters = fleet_parameters o1 prev img, cr_tags = [kind_tag]\<rparr> w))))"

section \<open>Applying a plan\<close>

text \<open>A change that could replace the machine with the saved games.\<close>

definition replaces_host :: "resource_change option \<Rightarrow> bool" where
  "replaces_host c \<longleftrightarrow>
     (case c of
        None \<Rightarrow> False
      | Some r \<Rightarrow> rc_id r = ''Host'' \<and> (rc_replacement r = ''True'' \<or> rc_replacement r = ''Conditional''))"

definition check_apply :: "change_set \<Rightarrow> stack \<Rightarrow> err + unit" where
  "check_apply cs sk =
     (case (if in_review sk then Inr () else require_stack_ownership sk) of
        Inl e \<Rightarrow> Inl e
      | Inr u \<Rightarrow>
          if cs_stack cs \<noteq> sk_id sk then Inl (ErrMsg ''change set belongs to a different environment'') else Inr ())"

definition apply_plan :: "('w, 't) aws \<Rightarrow> string \<Rightarrow> string \<Rightarrow> ('w, unit) io" where
  "apply_plan a name change w =
     (case aw_change_set a change name w of
        (Inl e, w) \<Rightarrow> (Inl (aws_error e), w)
      | (Inr cs, w) \<Rightarrow>
          if list_ex replaces_host (cs_changes cs)
          then (Inl (ErrMsg ''refusing a host replacement that could delete saved game data; create a separate stack''), w)
          else if kind_tag \<notin> set (cs_tags cs) then (Inl (ErrMsg ''refusing unmanaged change set''), w)
          else (case aw_stacks a name w of
                  (Inl e, w) \<Rightarrow> (Inl (aws_error e), w)
                | (Inr [sk], w) \<Rightarrow>
                    (case check_apply cs sk of
                       Inl e \<Rightarrow> (Inl e, w)
                     | Inr u \<Rightarrow>
                         (case aw_execute a (cs_id cs) (sk_id sk) w of
                            (Inl e, w) \<Rightarrow> (Inl e, w)
                          | (Inr u, w) \<Rightarrow>
                              aw_wait a (if in_review sk then ''StackCreateComplete'' else ''StackUpdateComplete'') (sk_id sk) w))
                | (Inr _, w) \<Rightarrow> (Inl (ErrMsg ''expected one environment stack''), w)))"

section \<open>The host's configuration\<close>

record cloud_config =
  cc_fleet :: bool
  cc_fleet_bucket :: string
  cc_region :: string
  cc_stack :: string
  cc_instance_id :: string
  cc_key_path :: string
  cc_token_path :: string
  cc_lobby_table :: string
  cc_lobby_instances :: string
  cc_lobby_url :: string

definition read_config :: "('w, 't) aws \<Rightarrow> string \<Rightarrow> ('w, cloud_config) io" where
  "read_config a name w =
     (case describe_stack a name w of
        (Inl e, w) \<Rightarrow> (Inl e, w)
      | (Inr sk, w) \<Rightarrow>
          (if sk_status sk \<noteq> ''CREATE_COMPLETE'' \<and> sk_status sk \<noteq> ''UPDATE_COMPLETE''
           then Inl (ErrMsg (''environment is '' @ sk_status sk))
           else Inr \<lparr>cc_fleet = (stack_output sk ''Fleet'' = ''true''), cc_fleet_bucket = stack_output sk ''FleetBucket'',
                     cc_region = aw_region a, cc_stack = sk_id sk, cc_instance_id = stack_output sk ''InstanceID'',
                     cc_key_path = [], cc_token_path = [], cc_lobby_table = stack_output sk ''LobbyTable'',
                     cc_lobby_instances = stack_output sk ''LobbyInstances'', cc_lobby_url = stack_output sk ''LobbyURL''\<rparr>, w))"

text \<open>A saved configuration; its paths are relative to its own directory.\<close>

definition beside_config :: "string \<Rightarrow> string \<Rightarrow> string" where
  "beside_config path p = (if p \<noteq> [] \<and> \<not> is_abs p then path_join [path_dir path, p] else p)"

definition load_config ::
  "(string \<Rightarrow> ('w, string) io) \<Rightarrow> (string \<Rightarrow> err + cloud_config) \<Rightarrow> string \<Rightarrow> ('w, cloud_config) io" where
  "load_config read parse path w =
     (case read path w of
        (Inl e, w) \<Rightarrow> (Inl e, w)
      | (Inr data, w) \<Rightarrow>
          (case parse data of
             Inl e \<Rightarrow> Inl e
           | Inr c \<Rightarrow>
               if cc_region c = [] \<or> cc_stack c = [] \<or> (cc_instance_id c = [] \<and> \<not> cc_fleet c)
               then Inl (ErrMsg ''incomplete shared EC2 host config'')
               else Inr (c\<lparr>cc_key_path := beside_config path (cc_key_path c),
                           cc_token_path := beside_config path (cc_token_path c)\<rparr>), w))"

section \<open>Destroying a deployment\<close>

text \<open>The configuration of the scheduler that only cleans up is Go's zero value.\<close>

definition zero_config :: fleet_config where
  "zero_config = \<lparr>fc_release = [], fc_workload = [], fc_games = [], fc_capacity = zero_resources, fc_max_hosts = 0,
     fc_max_servers = 0, fc_launch_template = [], fc_launch_version = [], fc_idle_minutes = 0, fc_max_minutes = 0,
     fc_deadline = 0\<rparr>"

definition cleanup_scheduler :: "('w, 't) aws \<Rightarrow> stack \<Rightarrow> 'w scheduler" where
  "cleanup_scheduler a sk =
     fleet_scheduler (aw_table a (stack_output sk ''LobbyTable'')) (aw_ec2 a (sk_id sk)) zero_config (aw_runtime a)"

text \<open>An error of a pass is logged, and the next pass tries again.\<close>

partial_function (option) drain_hosts ::
  "('w, 't) aws \<Rightarrow> ('w, 't) table \<Rightarrow> 'w scheduler \<Rightarrow> 'w \<Rightarrow> ((err + unit) \<times> 'w) option" where
  "drain_hosts a t sc w =
     (case load t w of (l, w) \<Rightarrow>
      (case l of
         Inl e \<Rightarrow> Some (Inl e, w)
       | Inr s \<Rightarrow>
           if st_hosts s = [] then Some (Inr (), w)
           else (case reconcile sc w of
                   None \<Rightarrow> None
                 | Some rw \<Rightarrow>
                     (case rw of (r, w) \<Rightarrow>
                      (case aw_pause a w of (p, w) \<Rightarrow>
                       (case p of Inl e \<Rightarrow> Some (Inl e, w) | Inr u \<Rightarrow> drain_hosts a t sc w))))))"

definition destroy_fleet_hosts :: "('w, 't) aws \<Rightarrow> stack \<Rightarrow> 'w \<Rightarrow> ((err + unit) \<times> 'w) option" where
  "destroy_fleet_hosts a sk w =
     (let t = aw_table a (stack_output sk ''LobbyTable'') in
      case load t w of
        (Inl e, w) \<Rightarrow> Some (Inl e, w)
      | (Inr s, w) \<Rightarrow>
          (case save t (s\<lparr>st_deleting := True\<rparr>) (st_revision s) w of
             (Inl e, w) \<Rightarrow> Some (Inl e, w)
           | (Inr u, w) \<Rightarrow> drain_hosts a t (cleanup_scheduler a sk) w))"

fun delete_objects :: "('w, 't) aws \<Rightarrow> string \<Rightarrow> string list \<Rightarrow> ('w, unit) io" where
  "delete_objects a b [] w = (Inr (), w)"
| "delete_objects a b (k # ks) w =
     (case aw_delete_object a b k w of (Inl e, w) \<Rightarrow> (Inl e, w) | (Inr u, w) \<Rightarrow> delete_objects a b ks w)"

partial_function (option) empty_pages ::
  "('w, 't) aws \<Rightarrow> string \<Rightarrow> string \<Rightarrow> 'w \<Rightarrow> ((err + unit) \<times> 'w) option" where
  "empty_pages a b tok w =
     (case aw_objects a b tok w of (p, w) \<Rightarrow>
      (case p of
         Inl e \<Rightarrow> Some (if no_such_bucket e then Inr () else Inl (aws_error e), w)
       | Inr q \<Rightarrow>
           (case q of (ks, next) \<Rightarrow>
            (case delete_objects a b ks w of (r, w) \<Rightarrow>
             (case r of
                Inl e \<Rightarrow> Some (Inl e, w)
              | Inr u \<Rightarrow> if next = [] then Some (Inr (), w) else empty_pages a b next w)))))"

definition empty_lobby_code :: "('w, 't) aws \<Rightarrow> stack \<Rightarrow> 'w \<Rightarrow> ((err + unit) \<times> 'w) option" where
  "empty_lobby_code a sk w =
     (let b = stack_output sk ''LobbyCodeBucket'' in if b = [] then Some (Inr (), w) else empty_pages a b [] w)"

definition destroy :: "('w, 't) aws \<Rightarrow> string \<Rightarrow> 'w \<Rightarrow> ((err + unit) \<times> 'w) option" where
  "destroy a name w =
     (case describe_environment a name w of
        None \<Rightarrow> None
      | Some (Inl e, w) \<Rightarrow> Some (if missing_stack e then Inr () else Inl (aws_error e), w)
      | Some (Inr sk, w) \<Rightarrow>
          (case (if stack_output sk ''Fleet'' = ''true'' then destroy_fleet_hosts a sk w else Some (Inr (), w)) of
             None \<Rightarrow> None
           | Some (Inl e, w) \<Rightarrow> Some (Inl e, w)
           | Some (Inr u, w) \<Rightarrow>
               (case empty_lobby_code a sk w of
                  None \<Rightarrow> None
                | Some (Inl e, w) \<Rightarrow> Some (Inl e, w)
                | Some (Inr u, w) \<Rightarrow>
                    Some (case aw_delete_stack a (sk_id sk) w of
                            (Inl e, w) \<Rightarrow> (Inl e, w)
                          | (Inr u, w) \<Rightarrow> aw_wait a ''StackDeleteComplete'' (sk_id sk) w))))"

section \<open>The launch page\<close>

text \<open>An executable: the types of its segments and its machine, in the numbers of ELF.\<close>

record elf =
  el_segments :: "int list"
  el_machine :: int

text \<open>Local files and the libraries a release is built with: \<open>bd_read\<close> copies all of an opened file,
  \<open>bd_dir\<close> lists a directory with the regular files marked, and \<open>bd_zip\<close> is the archive of one entry with a name, a mode and a content.\<close>

record 'w build =
  bd_elf :: "string \<Rightarrow> ('w, elf) io"
  bd_open :: "string \<Rightarrow> ('w, unit) io"
  bd_seek :: "string \<Rightarrow> ('w, unit) io"
  bd_read :: "string \<Rightarrow> ('w, string) io"
  bd_dir :: "string \<Rightarrow> ('w, (string \<times> bool) list) io"
  bd_zip :: "string \<Rightarrow> int \<Rightarrow> string \<Rightarrow> err + string"
  bd_sha256 :: "string \<Rightarrow> nat list"

definition hex_encode :: "nat list \<Rightarrow> string" where
  "hex_encode bs = concat (map (\<lambda>b. [hex_char (b div 16), hex_char (b mod 16)]) bs)"

text \<open>A static Linux binary for ARM64 or AMD64; anything else has no architecture. A segment of type 3
  names an interpreter.\<close>

definition prepared_architecture :: "'w build \<Rightarrow> string \<Rightarrow> 'w \<Rightarrow> string \<times> 'w" where
  "prepared_architecture b path w =
     (case bd_elf b path w of
        (Inl e, w) \<Rightarrow> ([], w)
      | (Inr x, w) \<Rightarrow>
          (if 3 \<in> set (el_segments x) then []
           else if el_machine x = 183 then ''arm64''
           else if el_machine x = 62 then ''x86_64'' else [], w))"

definition lambda_archive :: "'w build \<Rightarrow> string \<Rightarrow> ('w, string) io" where
  "lambda_archive b path w =
     (case bd_seek b path w of
        (Inl e, w) \<Rightarrow> (Inl e, w)
      | (Inr u, w) \<Rightarrow>
          (case bd_read b path w of
             (Inl e, w) \<Rightarrow> (Inl e, w)
           | (Inr data, w) \<Rightarrow> (bd_zip b ''bootstrap'' 493 data, w)))"

text \<open>\<open>ErrLobbyCurrent\<close> is told apart from other errors.\<close>

definition lobby_current :: err where
  "lobby_current = ErrMsg ''launch page already uses this binary''"

definition page_key :: "'w build \<Rightarrow> string \<Rightarrow> string" where
  "page_key b packed = ''bootstrap-'' @ hex_encode (bd_sha256 b packed) @ ''.zip''"

text \<open>Uploading the binary of the page; the parameters that then name it.\<close>

definition upload_page ::
  "('w, 't) aws \<Rightarrow> 'w build \<Rightarrow> stack \<Rightarrow> string \<Rightarrow> ('w, (string \<times> string) list) io" where
  "upload_page a b sk path w =
     (case prepared_architecture b path w of (arch, w) \<Rightarrow>
        if arch = []
        then (Inl (ErrMsg ''Lambda requires a static Linux ARM64 or AMD64 binary; build with CGO_ENABLED=0''), w)
        else (case bd_open b path w of
           (Inl e, w) \<Rightarrow> (Inl e, w)
         | (Inr u, w) \<Rightarrow>
             (case lambda_archive b path w of
                (Inl e, w) \<Rightarrow> (Inl e, w)
              | (Inr packed, w) \<Rightarrow>
                  (let key = page_key b packed in
                   if parameter_value sk ''LobbyCodeKey'' = key \<and> parameter_value sk ''LobbyArchitecture'' = arch
                   then (Inl lobby_current, w)
                   else (case aw_put a (stack_output sk ''LobbyCodeBucket'') key packed w of
                           (Inl e, w) \<Rightarrow> (Inl e, w)
                         | (Inr u, w) \<Rightarrow> (Inr [(''LobbyCodeKey'', key), (''LobbyArchitecture'', arch)], w))))))"

definition validate_lobby_changes :: "resource_change option list \<Rightarrow> err + unit" where
  "validate_lobby_changes cs =
     (case List.find (\<lambda>c. case c of None \<Rightarrow> False | Some r \<Rightarrow> \<not> has_prefix (rc_id r) ''Lobby'') cs of
        Some (Some r) \<Rightarrow>
          Inl (ErrMsg (''refusing a lobby code update that changes '' @ rc_id r @
                 ''; review infrastructure separately with aws plan''))
      | _ \<Rightarrow> Inr ())"

definition lobby_updates ::
  "('w, 't) aws \<Rightarrow> 'w build \<Rightarrow> stack \<Rightarrow> string \<Rightarrow> bool \<Rightarrow> ('w, (string \<times> string) list) io" where
  "lobby_updates a b sk path disable w =
     (if disable
      then (if path \<noteq> [] then Inl (ErrMsg ''disable cannot be combined with binary or host configuration'')
            else Inr [(''LobbyCodeKey'', [])], w)
      else upload_page a b sk path w)"

definition plan_lobby ::
  "('w, 't) aws \<Rightarrow> 'w build \<Rightarrow> string \<Rightarrow> string \<Rightarrow> bool \<Rightarrow> ('w, string) io" where
  "plan_lobby a b name path disable w =
     (case describe_stack a name w of
        (Inl e, w) \<Rightarrow> (Inl e, w)
      | (Inr sk, w) \<Rightarrow>
          if stack_output sk ''LobbyCodeBucket'' = [] then (Inl (ErrMsg ''provision --lobby-instances first''), w)
          else (case lobby_updates a b sk path disable w of
                  (Inl e, w) \<Rightarrow> (Inl e, w)
                | (Inr updates, w) \<Rightarrow>
                    (case update_parameters (aw_template_keys a (aw_environment a)) (sk_parameters sk) updates of
                       Inl e \<Rightarrow> (Inl e, w)
                     | Inr params \<Rightarrow>
                         (case change_set_name ''insta-game-lobby-'' a w of (n, w) \<Rightarrow>
                            (case create_and_wait a
                                    \<lparr>cr_stack = sk_id sk, cr_name = n, cr_kind = ''UPDATE'', cr_template = aw_environment a,
                                     cr_parameters = params, cr_tags = sk_tags sk\<rparr> w of
                               (Inl e, w) \<Rightarrow> (Inl e, w)
                             | (Inr i, w) \<Rightarrow>
                                 (case aw_change_set a i [] w of
                                    (Inl e, w) \<Rightarrow> (Inl (aws_error e), w)
                                  | (Inr cs, w) \<Rightarrow>
                                      (case validate_lobby_changes (cs_changes cs) of
                                         Inl e \<Rightarrow> Inl e | Inr u \<Rightarrow> Inr i, w)))))))"

end
