(* ===== verification/CloudSafety.thy ===== *)
theory CloudSafety
  imports Cloud
begin

text \<open>
  What the commands that apply a plan and destroy a deployment may do to an AWS account. The locale
  cloud_reads says which calls only read; aws_account adds that the calls leave the fleet's registry to
  its other clients. An account in memory interprets both.
\<close>

section \<open>Stacks that were seen\<close>

text \<open>While nothing had changed yet, the only stack of this name was read, and it or, when only planned, one of
  its change sets carried the tag.\<close>

definition tagged_plan :: "('w, 't) aws \<Rightarrow> ('w \<Rightarrow> 'w \<Rightarrow> bool) \<Rightarrow> stack \<Rightarrow> 'w \<Rightarrow> bool" where
  "tagged_plan a kept sk w \<longleftrightarrow>
     (\<exists>i cs v v'. kept w v \<and> aw_change_set a i (sk_id sk) v = (Inr cs, v') \<and> cs_stack cs = sk_id sk \<and>
        kind_tag \<in> set (cs_tags cs))"

definition owned_stack :: "('w, 't) aws \<Rightarrow> ('w \<Rightarrow> 'w \<Rightarrow> bool) \<Rightarrow> string \<Rightarrow> stack \<Rightarrow> 'w \<Rightarrow> bool" where
  "owned_stack a kept name sk w \<longleftrightarrow>
     (\<exists>v v'. kept w v \<and> aw_stacks a name v = (Inr [sk], v')) \<and>
     (if in_review sk then tagged_plan a kept sk w else kind_tag \<in> set (sk_tags sk))"

text \<open>Looking a stack up keeps what \<open>kept\<close> relates.\<close>

locale stack_reads =
  fixes a :: "('w, 't) aws" and kept :: "'w \<Rightarrow> 'w \<Rightarrow> bool"
  assumes kept_refl: "kept w w"
    and kept_trans: "kept u v \<Longrightarrow> kept v w \<Longrightarrow> kept u w"
    and stacks_kept: "aw_stacks a name w = (rs, w') \<Longrightarrow> kept w w'"
    and sets_kept: "aw_change_sets a i tok w = (rp, w') \<Longrightarrow> kept w w'"
    and set_kept: "aw_change_set a i j w = (rc, w') \<Longrightarrow> kept w w'"
begin

lemma tagged_plan_kept: "tagged_plan a kept sk v \<Longrightarrow> kept w v \<Longrightarrow> tagged_plan a kept sk w"
  unfolding tagged_plan_def using kept_trans by blast

lemma scan_kept:
  "scan_change_sets a sk is w = (r, w') \<Longrightarrow> kept w w' \<and>
   (r = Inr True \<longrightarrow> tagged_plan a kept sk w)"
proof (induction "is" arbitrary: w)
  case Nil
  then show ?case by (auto intro: kept_refl)
next
  case (Cons i "is")
  obtain x w1 where x: "aw_change_set a i (sk_id sk) w = (x, w1)" by fastforce
  have w1: "kept w w1" using set_kept [OF x] .
  show ?case
  proof (cases x)
    case (Inl e)
    then show ?thesis using Cons.prems x w1 by auto
  next
    case (Inr cs)
    show ?thesis
    proof (cases "cs_stack cs = sk_id sk \<and> kind_tag \<in> set (cs_tags cs)")
      case True
      then have "tagged_plan a kept sk w" unfolding tagged_plan_def using x Inr kept_refl by blast
      then show ?thesis using Cons.prems x Inr w1 True by auto
    next
      case False
      then have "scan_change_sets a sk is w1 = (r, w')" using Cons.prems x Inr by (simp split: if_splits)
      from Cons.IH [OF this] show ?thesis using w1 kept_trans tagged_plan_kept by blast
    qed
  qed
qed

lemma review_pages_kept:
  assumes "review_pages a sk tok w = Some (r, w')"
  shows "kept w w' \<and> (r = Inr True \<longrightarrow> tagged_plan a kept sk w)"
proof -
  define P where "P = (\<lambda>b sk (tok :: string) w (y :: (aws_err + bool) \<times> 'w). b = a \<longrightarrow>
    kept w (snd y) \<and> (fst y = Inr True \<longrightarrow> tagged_plan a kept sk w))"
  have "P a sk tok w (r, w')"
  proof (rule review_pages.raw_induct [where P = P, OF _ assms])
    fix loop :: "('w, 't) aws \<Rightarrow> stack \<Rightarrow> string \<Rightarrow> 'w \<Rightarrow> ((aws_err + bool) \<times> 'w) option"
      and b :: "('w, 't) aws" and sk tok w and y :: "(aws_err + bool) \<times> 'w"
    assume IH: "\<And>b sk tok w y. loop b sk tok w = Some y \<Longrightarrow> P b sk tok w y"
      and y: "(case aw_change_sets b (sk_id sk) tok w of (p, w) \<Rightarrow>
        (case p of
           Inl e \<Rightarrow> Some (Inl e, w)
         | Inr q \<Rightarrow>
             (case q of (is, next) \<Rightarrow>
              (case scan_change_sets b sk is w of (r, w) \<Rightarrow>
               (case r of
                  Inl e \<Rightarrow> Some (Inl e, w)
                | Inr found \<Rightarrow> if found \<or> next = [] then Some (Inr found, w) else loop b sk next w))))) = Some y"
    show "P b sk tok w y"
    proof (cases "b = a")
      case True
      obtain p w1 where p: "aw_change_sets a (sk_id sk) tok w = (p, w1)" by fastforce
      have w1: "kept w w1" using sets_kept [OF p] .
      show ?thesis
      proof (cases p)
        case (Inl e)
        then show ?thesis using y p w1 True by (auto simp: P_def)
      next
        case (Inr q)
        then obtain "is" nxt where q: "p = Inr (is, nxt)" by (cases q) auto
        obtain x w2 where x: "scan_change_sets a sk is w1 = (x, w2)" by fastforce
        note sx = scan_kept [OF x]
        have w2: "kept w w2" using w1 sx kept_trans by blast
        show ?thesis
        proof (cases x)
          case (Inl e)
          then have "y = (Inl e, w2)" using y p q x True by simp
          then show ?thesis using w2 by (simp add: P_def)
        next
          case f: (Inr f)
          show ?thesis
          proof (cases "f \<or> nxt = []")
            case stop: True
            then have "y = (Inr f, w2)" using y p q x f True by simp
            moreover have "f \<Longrightarrow> tagged_plan a kept sk w" using sx f w1 tagged_plan_kept by blast
            ultimately show ?thesis using w2 by (simp add: P_def)
          next
            case False
            then have "loop b sk nxt w2 = Some y" using y p q x f True by simp
            from IH [OF this] show ?thesis
              using w2 True kept_trans tagged_plan_kept unfolding P_def by blast
          qed
        qed
      qed
    qed (simp add: P_def)
  qed
  then show ?thesis by (simp add: P_def)
qed

lemma describe_environment_kept:
  assumes "describe_environment a name w = Some (r, w')"
  shows "kept w w'" and "r = Inr sk \<Longrightarrow> owned_stack a kept name sk w"
proof -
  obtain x w1 where x: "aw_stacks a name w = (x, w1)" by fastforce
  have w1: "kept w w1" using stacks_kept [OF x] .
  have "kept w w' \<and> (\<forall>sk. r = Inr sk \<longrightarrow> owned_stack a kept name sk w)"
  proof (cases "\<exists>sk. x = Inr [sk] \<and> in_review sk")
    case True
    then obtain sk where sk: "x = Inr [sk]" "in_review sk" by blast
    then obtain y w2 where y: "review_pages a sk [] w1 = Some (y, w2)" "w2 = w'"
      "r = (case y of Inl e \<Rightarrow> Inl e | Inr True \<Rightarrow> Inr sk
            | Inr False \<Rightarrow> Inl (AwsErr (ErrMsg (''refusing unmanaged review stack '' @ name))))"
      using assms x by (auto simp: describe_environment_def split: option.splits sum.splits bool.splits if_splits)
    have r: "kept w1 w'" "r = Inr sk' \<Longrightarrow> y = Inr True \<and> sk' = sk" for sk'
      using review_pages_kept [OF y(1)] y(2,3) by (auto split: sum.splits bool.splits)
    then show ?thesis
      using review_pages_kept [OF y(1)] w1 sk x y(2) kept_trans kept_refl tagged_plan_kept unfolding owned_stack_def by metis
  next
    case False
    then have "w' = w1 \<and> (\<forall>sk. r = Inr sk \<longrightarrow> x = Inr [sk] \<and> \<not> in_review sk \<and> kind_tag \<in> set (sk_tags sk))"
      using assms x by (auto simp: describe_environment_def require_stack_ownership_def split: sum.splits list.splits if_splits)
    then show ?thesis using w1 x kept_refl by (auto simp: owned_stack_def)
  qed
  then show "kept w w'" and "r = Inr sk \<Longrightarrow> owned_stack a kept name sk w" by blast+
qed

end

text \<open>\<open>kept w w'\<close>: no stack, object or machine was changed; waiting changes none.\<close>

locale cloud_reads = stack_reads a kept
  for a :: "('w, 't) aws" and kept :: "'w \<Rightarrow> 'w \<Rightarrow> bool" +
  assumes wait_kept: "aw_wait a what i w = (ru, w') \<Longrightarrow> kept w w'"
begin

lemma apply_plan_reviewed:
  assumes "apply_plan a name change w = (r, w')"
  shows "(\<exists>e. r = Inl e \<and> kept w w') \<or>
    (\<exists>cs sk v1 v2 x v3. aw_change_set a change name w = (Inr cs, v1) \<and> aw_stacks a name v1 = (Inr [sk], v2) \<and>
       kind_tag \<in> set (cs_tags cs) \<and> \<not> list_ex replaces_host (cs_changes cs) \<and> cs_stack cs = sk_id sk \<and>
       (in_review sk \<or> kind_tag \<in> set (sk_tags sk)) \<and>
       aw_execute a (cs_id cs) (sk_id sk) v2 = (x, v3) \<and> (r = Inr () \<longrightarrow> x = Inr ()) \<and> kept v3 w')"
proof -
  obtain c v1 where c: "aw_change_set a change name w = (c, v1)" by fastforce
  have v1: "kept w v1" using set_kept [OF c] .
  obtain d v2 where d: "aw_stacks a name v1 = (d, v2)" by fastforce
  have v2: "kept w v2" using v1 stacks_kept [OF d] by (rule kept_trans)
  show ?thesis
  proof (cases "\<exists>cs sk. c = Inr cs \<and> \<not> list_ex replaces_host (cs_changes cs) \<and> kind_tag \<in> set (cs_tags cs) \<and>
      d = Inr [sk] \<and> check_apply cs sk = Inr ()")
    case True
    then obtain cs sk where k: "c = Inr cs" "\<not> list_ex replaces_host (cs_changes cs)" "kind_tag \<in> set (cs_tags cs)"
      "d = Inr [sk]" "check_apply cs sk = Inr ()" by blast
    have own: "cs_stack cs = sk_id sk" "in_review sk \<or> kind_tag \<in> set (sk_tags sk)"
      using k(5) by (auto simp: check_apply_def require_stack_ownership_def split: if_splits)
    obtain x v3 where x: "aw_execute a (cs_id cs) (sk_id sk) v2 = (x, v3)" by fastforce
    have "kept v3 w' \<and> (r = Inr () \<longrightarrow> x = Inr ())"
      using assms c d k x kept_refl wait_kept by (auto simp: apply_plan_def split: sum.splits)
    then show ?thesis using c d k own x by blast
  next
    case False
    then have "(\<exists>e. r = Inl e) \<and> (w' = v1 \<or> w' = v2)"
      using assms c d
      by (cases c; cases d) (auto simp: apply_plan_def check_apply_def require_stack_ownership_def
          split: if_splits list.splits sum.splits)
    then show ?thesis using v1 v2 by auto
  qed
qed

lemma destroy_owned:
  assumes "destroy a name w = Some (r, w')"
  shows "kept w w' \<or> (\<exists>sk. owned_stack a kept name sk w)"
proof -
  obtain x w1 where x: "describe_environment a name w = Some (x, w1)"
    using assms by (auto simp: destroy_def split: option.splits)
  then show ?thesis using describe_environment_kept [OF x] assms by (cases x) (auto simp: destroy_def)
qed

end

section \<open>The registry of a fleet\<close>

text \<open>Every table the account may hold a registry in is one of the fleet controller's world, in which the
  cleaning scheduler is another client; reading, emptying the bucket and waiting leave it to the others.\<close>

locale aws_account = cloud_reads a kept
  for a :: "('w, 't) aws" and kept :: "'w \<Rightarrow> 'w \<Rightarrow> bool" +
  fixes tbl :: "string \<Rightarrow> 'w \<Rightarrow> 't tbl" and tenv :: "'t tbl \<Rightarrow> 't tbl \<Rightarrow> bool"
  assumes fleet: "fleet_system (aw_table a n) (tbl n) tenv (aw_ec2 a i) (aw_runtime a) zero_config"
    and stacks_frame: "aw_stacks a m w = (rs, w') \<Longrightarrow> tenv (tbl n w) (tbl n w')"
    and sets_frame: "aw_change_sets a i tok w = (rp, w') \<Longrightarrow> tenv (tbl n w) (tbl n w')"
    and set_frame: "aw_change_set a i j w = (rc, w') \<Longrightarrow> tenv (tbl n w) (tbl n w')"
    and objects_frame: "aw_objects a b tok w = (ro, w') \<Longrightarrow> tenv (tbl n w) (tbl n w')"
    and erase_frame: "aw_delete_object a b k w = (ru, w') \<Longrightarrow> tenv (tbl n w) (tbl n w')"
    and pause_frame: "aw_pause a w = (ru, w') \<Longrightarrow> tenv (tbl n w) (tbl n w')"
begin

abbreviation reg :: "string \<Rightarrow> 'w \<Rightarrow> registry" where
  "reg n w \<equiv> table_abs (tb_codec (aw_table a n)) (tbl n w)"

abbreviation wf :: "string \<Rightarrow> 'w \<Rightarrow> bool" where
  "wf n w \<equiv> table_wf (tb_codec (aw_table a n)) (tbl n w) \<and> fleet_inv (reg n w)"

abbreviation moves :: "string \<Rightarrow> 'w \<Rightarrow> 'w \<Rightarrow> bool" where
  "moves n w w' \<equiv> wf n w \<longrightarrow> wf n w' \<and> fleet_step (reg n w) (reg n w')"

lemma moves_refl: "moves n w w"
  by simp

lemma moves_trans: "moves n u v \<Longrightarrow> moves n v w \<Longrightarrow> moves n u w"
  using fleet_step_trans by blast

lemma step_inv: "fleet_step u v \<Longrightarrow> fleet_inv u \<Longrightarrow> fleet_inv v"
  by (simp add: fleet_step_def)

lemma frame_moves: "tenv (tbl n w) (tbl n w') \<Longrightarrow> moves n w w'"
  using fleet_system.axioms(1) [OF fleet] table_world.frame step_inv by metis

lemmas read_moves = stacks_frame [THEN frame_moves] sets_frame [THEN frame_moves] set_frame [THEN frame_moves]
  objects_frame [THEN frame_moves] erase_frame [THEN frame_moves] pause_frame [THEN frame_moves]

lemma scheduler: "scheduler_world (cleanup_scheduler a sk) (\<lambda>w. table_wf (tb_codec (aw_table a n)) (tbl n w)) (reg n)"
  if "stack_output sk ''LobbyTable'' = n"
  using fleet_system.scheduler_here [OF fleet, of n "sk_id sk"] that by (simp add: cleanup_scheduler_def)

lemma reconcile_moves:
  assumes "reconcile (cleanup_scheduler a sk) w = Some (r, w')"
  shows "moves (stack_output sk ''LobbyTable'') w w'"
  using scheduler_world.reconcile_adv [OF scheduler [OF refl] _ assms] step_inv by blast

lemma store: "fleet_store (table_store (aw_table a n)) (\<lambda>w. table_wf (tb_codec (aw_table a n)) (tbl n w)) (reg n) fleet_step"
  using scheduler_world.axioms(1) [OF fleet_system.scheduler_here [OF fleet]] by simp

lemma load_moves: "load (aw_table a n) w = (r, w') \<Longrightarrow> moves n w w'"
  using fleet_store.load_frame [OF store, of n w r w'] step_inv by (auto simp: table_store_def)

lemma load_reg: "load (aw_table a n) w = (Inr s, w') \<Longrightarrow> wf n w \<Longrightarrow> s = rg_state (reg n w')"
  using fleet_store.load_state [OF store, of n w s w'] by (simp add: table_store_def)

text \<open>Closed: no scheduler will place another game, and no host is left.\<close>

abbreviation closing :: "string \<Rightarrow> 'w \<Rightarrow> bool" where
  "closing n w \<equiv> wf n w \<and> st_deleting (rg_state (reg n w))"

lemma closing_moves: "closing n w \<Longrightarrow> moves n w w' \<Longrightarrow> closing n w' \<and>
    h_id ` set (st_hosts (rg_state (reg n w'))) \<subseteq> h_id ` set (st_hosts (rg_state (reg n w)))"
  unfolding fleet_step_def evolves_def by blast

lemma drain_closes:
  assumes "drain_hosts a (aw_table a (stack_output sk ''LobbyTable'')) (cleanup_scheduler a sk) w = Some (Inr u, w')"
    and "closing (stack_output sk ''LobbyTable'') w"
  shows "closing (stack_output sk ''LobbyTable'') w' \<and> st_hosts (rg_state (reg (stack_output sk ''LobbyTable'') w')) = []"
proof -
  let ?n = "stack_output sk ''LobbyTable''"
  define P where "P = (\<lambda>b t sc w (y :: (err + unit) \<times> 'w). b = a \<longrightarrow> t = aw_table a ?n \<longrightarrow> sc = cleanup_scheduler a sk \<longrightarrow>
    closing ?n w \<longrightarrow> fst y = Inr () \<longrightarrow> closing ?n (snd y) \<and> st_hosts (rg_state (reg ?n (snd y))) = [])"
  have "P a (aw_table a ?n) (cleanup_scheduler a sk) w (Inr u, w')"
  proof (rule drain_hosts.raw_induct [where P = P, OF _ assms(1)])
    fix loop :: "('w, 't) aws \<Rightarrow> ('w, 't) table \<Rightarrow> 'w scheduler \<Rightarrow> 'w \<Rightarrow> ((err + unit) \<times> 'w) option"
      and b :: "('w, 't) aws" and t :: "('w, 't) table" and sc :: "'w scheduler" and w and y :: "(err + unit) \<times> 'w"
    assume IH: "\<And>b t sc w y. loop b t sc w = Some y \<Longrightarrow> P b t sc w y"
      and y: "(case load t w of (l, w) \<Rightarrow>
        (case l of
           Inl e \<Rightarrow> Some (Inl e, w)
         | Inr s \<Rightarrow>
             if st_hosts s = [] then Some (Inr (), w)
             else (case reconcile sc w of
                     None \<Rightarrow> None
                   | Some rw \<Rightarrow>
                       (case rw of (r, w) \<Rightarrow>
                        (case aw_pause b w of (p, w) \<Rightarrow>
                         (case p of Inl e \<Rightarrow> Some (Inl e, w) | Inr u \<Rightarrow> loop b t sc w)))))) = Some y"
    show "P b t sc w y"
      unfolding P_def
    proof (intro impI)
      assume b: "b = a" "t = aw_table a ?n" "sc = cleanup_scheduler a sk" and w: "closing ?n w" and ok: "fst y = Inr ()"
      obtain l w1 where l: "load (aw_table a ?n) w = (l, w1)" by fastforce
      have w1: "closing ?n w1" using closing_moves [OF w load_moves [OF l]] by blast
      obtain s where s: "l = Inr s" using y l b ok by (cases l) auto
      have reg: "s = rg_state (reg ?n w1)" using load_reg [of ?n w s w1] l s w by simp
      show "closing ?n (snd y) \<and> st_hosts (rg_state (reg ?n (snd y))) = []"
      proof (cases "st_hosts s = []")
        case True
        then show ?thesis using y l s b w1 reg by auto
      next
        case False
        then obtain r w2 where r: "reconcile (cleanup_scheduler a sk) w1 = Some (r, w2)"
          using y l s b by (auto split: option.splits)
        have w2: "closing ?n w2" using closing_moves [OF w1 reconcile_moves [OF r]] by blast
        obtain p w3 where p: "aw_pause a w2 = (p, w3)" by fastforce
        have w3: "closing ?n w3" using closing_moves [OF w2 read_moves(6) [OF p]] by blast
        obtain u where u: "p = Inr u" using y l s b False r p ok by (cases p) auto
        then have "loop a t sc w3 = Some y" using y l s b False r p by simp
        from IH [OF this] show ?thesis using b w3 ok by (simp add: P_def)
      qed
    qed
  qed
  then show ?thesis using assms(2) by (simp add: P_def)
qed

lemma close_registry:
  assumes "load (aw_table a n) w = (Inr s, w1)" "save (aw_table a n) (s\<lparr>st_deleting := True\<rparr>) (st_revision s) w1 = (Inr u, w2)"
    and "wf n w"
  shows "closing n w2"
proof -
  let ?t = "s\<lparr>st_deleting := True\<rparr>"
  have w1: "wf n w1" "s = rg_state (reg n w1)"
    using load_moves [OF assms(1)] load_reg [OF assms(1)] assms(3) by blast+
  have saved: "sto_save (table_store (aw_table a n)) ?t (st_revision s) w1 = (Inr u, w2)"
    using assms(2) by (simp add: table_store_def)
  obtain m where m: "fleet_step (reg n w1) m" "rg_revision m = st_revision s"
    "fleet_step (commit ?t (st_revision s) m) (reg n w2)"
    using fleet_store.save_ok [OF store _ saved] w1(1) by blast
  have same: "rg_state m = s" "rg_tombs m = rg_tombs (reg n w1)"
    using m(1,2) w1(2) by (auto simp: fleet_step_def)
  have "fleet_inv m" using m(1) w1(1) step_inv by blast
  then have "fleet_inv (commit ?t (st_revision s) m)"
    using same by (simp add: commit_def state_ok_def within_capacity_def retirement_closed_def used_def)
  then have "fleet_inv (reg n w2) \<and> st_deleting (rg_state (reg n w2))"
    using m(3) by (auto simp: fleet_step_def evolves_def commit_def)
  then show ?thesis using fleet_store.save_invar [OF store _ saved] w1(1) by blast
qed

lemma hosts_destroyed:
  assumes "destroy_fleet_hosts a sk w = Some (Inr u, w')" and "wf (stack_output sk ''LobbyTable'') w"
  shows "closing (stack_output sk ''LobbyTable'') w' \<and> st_hosts (rg_state (reg (stack_output sk ''LobbyTable'') w')) = []"
proof -
  let ?n = "stack_output sk ''LobbyTable''"
  obtain l w1 where l: "load (aw_table a ?n) w = (l, w1)" by fastforce
  obtain s where s: "l = Inr s" using assms(1) l by (cases l) (auto simp: destroy_fleet_hosts_def Let_def)
  obtain x w2 where x: "save (aw_table a ?n) (s\<lparr>st_deleting := True\<rparr>) (st_revision s) w1 = (x, w2)" by fastforce
  obtain v where v: "x = Inr v" using assms(1) l s x by (cases x) (auto simp: destroy_fleet_hosts_def Let_def)
  have "closing ?n w2" using close_registry [of ?n w s w1 v w2] l s x v assms(2) by simp
  moreover have "drain_hosts a (aw_table a ?n) (cleanup_scheduler a sk) w2 = Some (Inr u, w')"
    using assms(1) l s x v by (simp add: destroy_fleet_hosts_def Let_def)
  ultimately show ?thesis using drain_closes by blast
qed

lemma delete_objects_moves: "delete_objects a b ks w = (r, w') \<Longrightarrow> moves n w w'"
proof (induction ks arbitrary: w)
  case (Cons k ks)
  obtain x w1 where x: "aw_delete_object a b k w = (x, w1)" by fastforce
  show ?case
  proof (cases x)
    case (Inl e)
    then show ?thesis using Cons.prems x read_moves(5) [OF x] by auto
  next
    case (Inr u)
    then have "delete_objects a b ks w1 = (r, w')" using Cons.prems x by simp
    then show ?thesis using Cons.IH moves_trans [OF read_moves(5) [OF x]] by blast
  qed
qed simp

lemma empty_pages_moves:
  assumes "empty_pages a b tok w = Some (r, w')"
  shows "moves n w w'"
proof -
  define P where "P = (\<lambda>c (b :: string) (tok :: string) w (y :: (err + unit) \<times> 'w). c = a \<longrightarrow> moves n w (snd y))"
  have "P a b tok w (r, w')"
  proof (rule empty_pages.raw_induct [where P = P, OF _ assms])
    fix loop :: "('w, 't) aws \<Rightarrow> string \<Rightarrow> string \<Rightarrow> 'w \<Rightarrow> ((err + unit) \<times> 'w) option"
      and c :: "('w, 't) aws" and b tok w and y :: "(err + unit) \<times> 'w"
    assume IH: "\<And>c b tok w y. loop c b tok w = Some y \<Longrightarrow> P c b tok w y"
      and y: "(case aw_objects c b tok w of (p, w) \<Rightarrow>
        (case p of
           Inl e \<Rightarrow> Some (if no_such_bucket e then Inr () else Inl (aws_error e), w)
         | Inr q \<Rightarrow>
             (case q of (ks, next) \<Rightarrow>
              (case delete_objects c b ks w of (r, w) \<Rightarrow>
               (case r of
                  Inl e \<Rightarrow> Some (Inl e, w)
                | Inr u \<Rightarrow> if next = [] then Some (Inr (), w) else loop c b next w))))) = Some y"
    show "P c b tok w y"
    proof (cases "c = a")
      case True
      obtain p w1 where p: "aw_objects a b tok w = (p, w1)" by fastforce
      have w1: "moves n w w1" using read_moves(4) [OF p] .
      show ?thesis
      proof (cases p)
        case (Inl e)
        then have "snd y = w1" using y p True by auto
        then show ?thesis using w1 by (simp add: P_def)
      next
        case (Inr q)
        then obtain ks nxt where q: "p = Inr (ks, nxt)" by (cases q) auto
        obtain x w2 where x: "delete_objects a b ks w1 = (x, w2)" by fastforce
        have w2: "moves n w w2" using w1 delete_objects_moves [OF x] by (rule moves_trans)
        show ?thesis
        proof (cases "(\<exists>e. x = Inl e) \<or> nxt = []")
          case stop: True
          then have "snd y = w2" using y p q x True by (cases x) auto
          then show ?thesis using w2 by (simp add: P_def)
        next
          case False
          then obtain u where "x = Inr u" "nxt \<noteq> []" by (cases x) auto
          then have "loop a b nxt w2 = Some y" using y p q x True by simp
          from IH [OF this] have "moves n w2 (snd y)" using True by (simp add: P_def)
          then have "moves n w (snd y)" by (rule moves_trans [OF w2])
          then show ?thesis by (simp add: P_def)
        qed
      qed
    qed (simp add: P_def)
  qed
  then show ?thesis by (simp add: P_def)
qed

end

sublocale aws_account \<subseteq> moving: stack_reads a "moves n" for n
proof (unfold_locales, goal_cases)
  case (2 u v w)
  then show ?case using moves_trans by blast
qed (rule moves_refl, (erule read_moves)+)

context aws_account
begin

lemma destroy_closed:
  assumes "destroy a name w = Some (Inr u, w')" "\<forall>n. wf n w"
  shows "(\<exists>e. describe_environment a name w = Some (Inl e, w') \<and> missing_stack e) \<or>
    (\<exists>sk v0 v v'. describe_environment a name w = Some (Inr sk, v0) \<and> aw_delete_stack a (sk_id sk) v = (Inr (), v') \<and>
       (stack_output sk ''Fleet'' = ''true'' \<longrightarrow> closing (stack_output sk ''LobbyTable'') v \<and>
          st_hosts (rg_state (reg (stack_output sk ''LobbyTable'') v)) = []))"
proof -
  obtain x w1 where x: "describe_environment a name w = Some (x, w1)"
    using assms(1) by (auto simp: destroy_def split: option.splits)
  show ?thesis
  proof (cases x)
    case (Inl e)
    then show ?thesis using assms(1) x by (auto simp: destroy_def split: if_splits)
  next
    case (Inr sk)
    let ?n = "stack_output sk ''LobbyTable''" and ?fleet = "stack_output sk ''Fleet'' = ''true''"
    have w1: "wf ?n w1" using moving.describe_environment_kept(1) [OF x, of ?n] assms(2) by blast
    define d where "d = (if ?fleet then destroy_fleet_hosts a sk w1 else Some (Inr (), w1))"
    obtain u2 w2 where d2: "d = Some (Inr u2, w2)"
      using assms(1) x Inr by (auto simp: destroy_def d_def [symmetric] split: option.splits sum.splits)
    have w2: "?fleet \<longrightarrow> closing ?n w2 \<and> st_hosts (rg_state (reg ?n w2)) = []"
      using hosts_destroyed [of sk w1 u2 w2] d2 w1 by (auto simp: d_def)
    obtain u3 w3 where e: "empty_lobby_code a sk w2 = Some (Inr u3, w3)"
      using assms(1) x Inr d2 by (auto simp: destroy_def d_def [symmetric] split: option.splits sum.splits)
    have "moves ?n w2 w3" using e empty_pages_moves by (auto simp: empty_lobby_code_def Let_def split: if_splits)
    then have w3: "?fleet \<longrightarrow> closing ?n w3 \<and> st_hosts (rg_state (reg ?n w3)) = []"
      using w2 closing_moves [of ?n w2 w3] by auto
    obtain v where "aw_delete_stack a (sk_id sk) w3 = (Inr (), v)"
      using assms(1) x Inr d2 e by (auto simp: destroy_def d_def [symmetric] split: sum.splits prod.splits)
    then show ?thesis using x Inr w3 by blast
  qed
qed

end

section \<open>An account in memory\<close>

text \<open>One deployed fleet; executing a plan and deleting the stack are counted.\<close>

definition memory_stack :: stack where
  "memory_stack = \<lparr>sk_id = ''arn:1'', sk_name = ''insta-game-f'', sk_status = ''CREATE_COMPLETE'', sk_tags = [kind_tag],
     sk_parameters = [], sk_outputs = [(''Fleet'', ''true''), (''LobbyTable'', ''table'')]\<rparr>"

definition memory_change :: change_set where
  "memory_change = \<lparr>cs_id = ''cs'', cs_stack = ''arn:1'', cs_status = ''CREATE_COMPLETE'', cs_reason = [], cs_tags = [kind_tag],
     cs_changes = [Some \<lparr>rc_id = ''LobbyCode'', rc_replacement = ''True''\<rparr>]\<rparr>"

abbreviation memory_count :: "memory \<Rightarrow> memory" where
  "memory_count w \<equiv> w\<lparr>mm_count := Suc (mm_count w)\<rparr>"

definition memory_aws :: "(memory, doc) aws" where
  "memory_aws =
     \<lparr>aw_stacks = (\<lambda>n w. (Inr [memory_stack], w)), aw_change_sets = (\<lambda>i tok w. (Inr ([], []), w)),
      aw_change_set = (\<lambda>i j w. (Inr memory_change, w)), aw_create_change_set = (\<lambda>q w. (Inr ''cs'', w)),
      aw_execute = (\<lambda>i j w. (Inr (), memory_count w)), aw_delete_stack = (\<lambda>i w. (Inr (), memory_count w)),
      aw_wait = (\<lambda>what i w. (Inr (), w)), aw_image = (\<lambda>p w. (Inr ''ami-1'', w)), aw_objects = (\<lambda>b tok w. (Inr ([], []), w)),
      aw_put = (\<lambda>b k v w. (Inr (), memory_count w)), aw_get = (\<lambda>b k w. (Inr ([], None), w)),
      aw_delete_object = (\<lambda>b k w. (Inr (), memory_count w)), aw_clock = (\<lambda>w. (mm_clock w, w)),
      aw_pause = (\<lambda>w. (Inr (), w\<lparr>mm_clock := mm_clock w + 5 * second\<rparr>)), aw_table = (\<lambda>n. memory_table),
      aw_ec2 = (\<lambda>i. memory_ec2), aw_runtime = memory_runtime, aw_environment = [], aw_fleet = [],
      aw_template_keys = (\<lambda>t. Inr []), aw_region = ''ca-central-1''\<rparr>"

definition memory_kept :: "memory \<Rightarrow> memory \<Rightarrow> bool" where
  "memory_kept w w' \<longleftrightarrow> mm_count w' = mm_count w"

lemma zero_config_sound: "sound_config zero_config"
  by (simp add: sound_config_def zero_config_def)

lemma memory_cleanup: "fleet_system memory_table mm_table memory_env memory_ec2 memory_runtime zero_config"
  by (rule memory_shared [OF zero_config_sound])

interpretation memory_account: aws_account memory_aws memory_kept "\<lambda>n. mm_table" memory_env
proof (intro aws_account.intro aws_account_axioms.intro)
  show "fleet_system (aw_table memory_aws n) mm_table memory_env (aw_ec2 memory_aws i) (aw_runtime memory_aws) zero_config" for n i
    using memory_cleanup by (simp add: memory_aws_def)
  show "cloud_reads memory_aws memory_kept"
    by unfold_locales (auto simp: memory_aws_def memory_kept_def)
qed (auto simp: memory_aws_def)

lemma memory_described: "describe_environment memory_aws name w = Some (Inr memory_stack, w)"
  by (simp add: describe_environment_def memory_aws_def memory_stack_def in_review_def require_stack_ownership_def)

lemma memory_applies: "apply_plan memory_aws name change w = (Inr (), memory_count w)"
  by (simp add: apply_plan_def memory_aws_def memory_stack_def memory_change_def in_review_def check_apply_def
      require_stack_ownership_def replaces_host_def)

lemma fresh_registry: "rg_state (table_abs memory_codec (mm_table fresh_memory)) = zero_state"
  by (simp add: table_abs_def fresh_memory_def decode_state_def)

lemma fresh_fleet: "fleet_inv (table_abs memory_codec (mm_table fresh_memory))"
  by (simp add: fresh_registry state_ok_def zero_state_def within_capacity_def retirement_closed_def)

lemma memory_outputs: "stack_output memory_stack ''Fleet'' = ''true''" "stack_output memory_stack ''LobbyCodeBucket'' = []"
  by (simp_all add: stack_output_def memory_stack_def)

text \<open>Destroying the empty fleet.\<close>

lemma memory_reload:
  assumes "save memory_table s p w = (Inr u, w')"
  shows "load memory_table w' = (Inr (s\<lparr>st_revision := p + 1\<rparr>), w')"
proof -
  obtain input where i: "state_put memory_table s p = Inr input"
    using assms by (cases "state_put memory_table s p") (auto simp: save_def)
  have "mm_table w' registry_key = pt_item input"
    using assms i state_put_Inr(1) [OF i]
    by (auto simp: save_def memory_table_def memory_dynamo_def split: if_splits)
  then show ?thesis
    using decode_state_put [of memory_table, OF _ i] memory_codec_ok
    by (simp add: load_def memory_table_def memory_dynamo_def)
qed

lemma memory_closes: "\<exists>w'. save memory_table (zero_state\<lparr>st_deleting := True\<rparr>) 0 fresh_memory = (Inr (), w')"
  by (simp add: save_def state_put_def zero_state_def memory_table_def memory_codec_def max_state_bytes_def
      memory_dynamo_def fresh_memory_def)

lemma memory_destroyed: "\<exists>w'. destroy memory_aws name fresh_memory = Some (Inr (), w')"
proof -
  obtain w1 where w1: "save memory_table (zero_state\<lparr>st_deleting := True\<rparr>) 0 fresh_memory = (Inr (), w1)"
    using memory_closes by blast
  have fresh: "load memory_table fresh_memory = (Inr zero_state, fresh_memory)"
    by (simp add: load_def memory_table_def memory_dynamo_def fresh_memory_def decode_state_def)
  have table: "aw_table memory_aws n = memory_table" for n by (simp add: memory_aws_def)
  have "drain_hosts memory_aws memory_table sc w1 = Some (Inr (), w1)" for sc
    using memory_reload [OF w1] by (subst drain_hosts.simps) (simp add: zero_state_def)
  then have "destroy_fleet_hosts memory_aws memory_stack fresh_memory = Some (Inr (), w1)"
    using fresh w1 by (simp add: destroy_fleet_hosts_def table zero_state_def)
  then show ?thesis
    by (simp add: destroy_def memory_described memory_outputs empty_lobby_code_def) (simp add: memory_aws_def)
qed

section \<open>Properties\<close>

text \<open>C32. \<open>cloud.Apply\<close> changes nothing in the account unless it executes the named change set, as read
  before, on the only stack of that name: the change set carries the tag of this program, belongs to that stack,
  and replaces no host; and the stack, unless it is only planned, is tagged too. It reports success only
  when the execution was accepted.\<close>

theorem apply_runs_reviewed_plans:
  assumes "cloud_reads a kept" and "apply_plan a name change w = (r, w')"
  shows "(\<exists>e. r = Inl e \<and> kept w w') \<or>
    (\<exists>cs sk v1 v2 x v3. aw_change_set a change name w = (Inr cs, v1) \<and> aw_stacks a name v1 = (Inr [sk], v2) \<and>
       kind_tag \<in> set (cs_tags cs) \<and> \<not> list_ex replaces_host (cs_changes cs) \<and> cs_stack cs = sk_id sk \<and>
       (in_review sk \<or> kind_tag \<in> set (sk_tags sk)) \<and>
       aw_execute a (cs_id cs) (sk_id sk) v2 = (x, v3) \<and> (r = Inr () \<longrightarrow> x = Inr ()) \<and> kept v3 w')"
  by (rule cloud_reads.apply_plan_reviewed [OF assms])

theorem apply_runs_reviewed_plans_witness:
  "\<exists>cs sk v1 v2 x v3. aw_change_set memory_aws ''cs'' ''insta-game-f'' fresh_memory = (Inr cs, v1) \<and>
     aw_stacks memory_aws ''insta-game-f'' v1 = (Inr [sk], v2) \<and> kind_tag \<in> set (cs_tags cs) \<and>
     aw_execute memory_aws (cs_id cs) (sk_id sk) v2 = (x, v3) \<and> memory_kept v3 (memory_count fresh_memory)"
  using apply_runs_reviewed_plans [OF memory_account.cloud_reads_axioms memory_applies,
      where name = "''insta-game-f''" and change = "''cs''" and w = fresh_memory]
  by auto



end
