(* ===== verification/CloudRelease.thy ===== *)
theory CloudRelease
  imports Cloud ControlCatalog
begin

text \<open>
  The releases of a fleet (internal/cloud/fleet_release.go and registry.go): the configuration, catalog and
  asset archives that its hosts run, prepared from a catalog or from the deployed release, uploaded under
  keys that name their content, and planned as a change of the stack. JSON, the registry of images and the
  local files are parameters.
\<close>

section \<open>Releases\<close>

record fleet_release =
  fr_config :: fleet_config
  fr_catalog :: "game list"
  fr_assets :: "string \<rightharpoonup> string"

record release_options =
  ro_binary :: string
  ro_catalog :: string
  ro_assets :: string
  ro_config :: fleet_config

text \<open>The JSON of a release, of the part of it that a host must be restarted for, and its reader.\<close>

record release_json =
  rj_release :: "fleet_release \<Rightarrow> string"
  rj_payload :: "int \<times> game list \<times> (string \<rightharpoonup> string) \<times> int \<times> int \<Rightarrow> string"
  rj_parse :: "string \<Rightarrow> err + fleet_release"

definition default_fleet_config :: "int \<Rightarrow> int \<Rightarrow> fleet_config" where
  "default_fleet_config hosts disk =
     \<lparr>fc_release = [], fc_workload = [], fc_games = [],
      fc_capacity = \<lparr>r_cpu = 350, r_memory = 1400, r_disk = (disk - 12) * 1024\<rparr>,
      fc_max_hosts = hosts, fc_max_servers = 128, fc_launch_template = [], fc_launch_version = [],
      fc_idle_minutes = 15, fc_max_minutes = 360, fc_deadline = 0\<rparr>"

definition default_requirements :: "string \<rightharpoonup> resources" where
  "default_requirements = map_of
     [(''fteqw'', \<lparr>r_cpu = 60, r_memory = 96, r_disk = 256\<rparr>),
      (''q2repro'', \<lparr>r_cpu = 40, r_memory = 160, r_disk = 512\<rparr>),
      (''ioquake3'', \<lparr>r_cpu = 140, r_memory = 192, r_disk = 1024\<rparr>),
      (''openarena'', \<lparr>r_cpu = 150, r_memory = 256, r_disk = 1024\<rparr>),
      (''ut99'', \<lparr>r_cpu = 320, r_memory = 256, r_disk = 1024\<rparr>),
      (''xonotic'', \<lparr>r_cpu = 150, r_memory = 576, r_disk = 2048\<rparr>),
      (''bzflag'', \<lparr>r_cpu = 20, r_memory = 128, r_disk = 128\<rparr>)]"

section \<open>Preparing a release\<close>

definition asset :: "(string \<rightharpoonup> string) \<Rightarrow> string \<Rightarrow> string" where
  "asset m i = (case m i of None \<Rightarrow> [] | Some k \<Rightarrow> k)"

text \<open>The archives of the previous release that the games of this one still use.\<close>

definition kept_assets :: "fleet_release option \<Rightarrow> game list \<Rightarrow> string \<rightharpoonup> string" where
  "kept_assets prev gs =
     (case prev of
        None \<Rightarrow> Map.empty
      | Some r \<Rightarrow> (\<lambda>i. if i \<in> gm_id ` set gs \<and> asset (fr_assets r) i \<noteq> [] then fr_assets r i else None))"

definition durable_games :: "string list" where
  "durable_games = [''fteqw'', ''q2repro'', ''ioquake3'', ''ut99'']"

text \<open>\<open>regular\<close> says whether a path is a regular file.\<close>

fun check_assets ::
  "(string \<Rightarrow> bool) \<Rightarrow> string \<Rightarrow> game list \<Rightarrow> (string \<rightharpoonup> string) \<Rightarrow> string list \<Rightarrow> err + unit" where
  "check_assets regular dir gs assets [] = Inr ()"
| "check_assets regular dir gs assets (i # is) =
     (if i \<notin> gm_id ` set gs \<or> asset assets i \<noteq> [] then check_assets regular dir gs assets is
      else if dir = [] then Inl (ErrMsg (''game '' @ i @ '' needs a durable asset ZIP''))
      else if \<not> regular (path_join [dir, i @ ''.zip''])
      then Inl (ErrMsg (''game '' @ i @ '' requires '' @ i @ ''.zip in --assets''))
      else check_assets regular dir gs assets is)"

text \<open>The resource profiles of the configuration, by game.\<close>

fun profiles :: "string set \<Rightarrow> (string \<rightharpoonup> fleet_game) \<Rightarrow> fleet_game list \<Rightarrow> err + (string \<rightharpoonup> fleet_game)" where
  "profiles known m [] = Inr m"
| "profiles known m (g # gs) =
     (if g_id g \<notin> known then Inl (ErrMsg (''resource profile references unknown game '' @ g_id g))
      else if m (g_id g) \<noteq> None then Inl (ErrMsg (''duplicate resource profile '' @ g_id g))
      else profiles known (m(g_id g \<mapsto> g)) gs)"

fun fleet_games :: "(string \<rightharpoonup> fleet_game) \<Rightarrow> game list \<Rightarrow> err + fleet_game list" where
  "fleet_games m [] = Inr []"
| "fleet_games m (g # gs) =
     (case (case m (gm_id g) of
              Some x \<Rightarrow> Inr x
            | None \<Rightarrow>
                (case default_requirements (gm_id g) of
                   None \<Rightarrow> Inl (ErrMsg (''game '' @ gm_id g @ '' needs resource requirements''))
                 | Some r \<Rightarrow> Inr \<lparr>g_id = gm_id g, g_name = gm_display_name g, g_resources = r\<rparr>)) of
        Inl e \<Rightarrow> Inl e
      | Inr x \<Rightarrow> (case fleet_games m gs of Inl e \<Rightarrow> Inl e | Inr xs \<Rightarrow> Inr (x # xs)))"

definition release_games :: "catalog_files \<Rightarrow> string \<Rightarrow> fleet_release option \<Rightarrow> err + game list" where
  "release_games fs root prev =
     (if root \<noteq> [] then load_catalog fs root
      else (case prev of
              Some r \<Rightarrow> Inr (fr_catalog r)
            | None \<Rightarrow> Inl (ErrMsg ''initial fleet release requires --catalog'')))"

text \<open>What the deployment itself sets is checked with placeholders.\<close>

definition release_config :: "fleet_config \<Rightarrow> fleet_game list \<Rightarrow> fleet_config" where
  "release_config c gs = c\<lparr>fc_games := gs, fc_launch_template := ''set-by-deployment'', fc_launch_version := ''1'',
     fc_release := [], fc_workload := []\<rparr>"

definition prepare_fleet_release ::
  "catalog_files \<Rightarrow> (string \<Rightarrow> bool) \<Rightarrow> release_options \<Rightarrow> fleet_release option \<Rightarrow> err + fleet_release" where
  "prepare_fleet_release fs regular o1 prev =
     (case release_games fs (ro_catalog o1) prev of
        Inl e \<Rightarrow> Inl e
      | Inr gs \<Rightarrow>
          (let assets = kept_assets prev gs in
           case check_assets regular (ro_assets o1) gs assets durable_games of
             Inl e \<Rightarrow> Inl e
           | Inr u \<Rightarrow>
               (case profiles (gm_id ` set gs) Map.empty (fc_games (ro_config o1)) of
                  Inl e \<Rightarrow> Inl e
                | Inr m \<Rightarrow>
                    (case fleet_games m gs of
                       Inl e \<Rightarrow> Inl e
                     | Inr entries \<Rightarrow>
                         (let c = release_config (ro_config o1) entries in
                          case validate c of
                            Inl e \<Rightarrow> Inl e
                          | Inr u \<Rightarrow> Inr \<lparr>fr_config = c, fr_catalog = gs, fr_assets = assets\<rparr>)))))"

section \<open>The deployed release\<close>

text \<open>A body that ends, or fails, after its data, behind a limit of \<open>n\<close> bytes.\<close>

definition limit_body :: "nat \<Rightarrow> string \<times> err option \<Rightarrow> string \<times> err option" where
  "limit_body n x = (if n \<le> length (fst x) then (take n (fst x), None) else x)"

definition read_limited :: "nat \<Rightarrow> string \<times> err option \<Rightarrow> err + string" where
  "read_limited n x = (case limit_body n x of (data, Some e) \<Rightarrow> Inl e | (data, None) \<Rightarrow> Inr data)"

definition release_limit :: nat where
  "release_limit = 2 ^ 20"

definition deployed_fleet_release ::
  "('w, 't) aws \<Rightarrow> release_json \<Rightarrow> stack \<Rightarrow> ('w, fleet_release option) io" where
  "deployed_fleet_release a j sk w =
     (if stack_output sk ''Fleet'' \<noteq> ''true'' then (Inl (ErrMsg ''not a fleet stack''), w)
      else if parameter_value sk ''Release'' = [] then (Inr None, w)
      else (case aw_get a (stack_output sk ''FleetBucket'') (parameter_value sk ''Release'' @ ''/config.json'') w of
              (Inl e, w) \<Rightarrow> (Inl (ErrWrap ''read deployed fleet release: '' e), w)
            | (Inr content, w) \<Rightarrow>
                (case read_limited (release_limit + 1) content of
                   Inl e \<Rightarrow> Inl e
                 | Inr data \<Rightarrow>
                     if release_limit < length data then Inl (ErrMsg ''deployed fleet release exceeds 1 MiB'')
                     else (case rj_parse j data of
                             Inl e \<Rightarrow> Inl (ErrWrap ''decode deployed fleet release: '' e)
                           | Inr r \<Rightarrow> Inr (Some r)), w)))"

text \<open>The error of a number that does not parse names it.\<close>

definition number_of :: "string \<Rightarrow> err + int" where
  "number_of s =
     (case atoi s of None \<Rightarrow> Inl (ErrMsg (''strconv.Atoi: parsing '' @ quoted s)) | Some n \<Rightarrow> Inr n)"

definition fleet_defaults :: "stack \<Rightarrow> err + fleet_config" where
  "fleet_defaults sk =
     (case number_of (parameter_value sk ''DiskGiB'') of
        Inl e \<Rightarrow> Inl e
      | Inr disk \<Rightarrow>
          (case number_of (parameter_value sk ''MaxHosts'') of
             Inl e \<Rightarrow> Inl e
           | Inr hosts \<Rightarrow>
               (let c = default_fleet_config hosts disk;
                    (family, tier, found) = cut (CHR ''.'') (parameter_value sk ''InstanceType'')
                in if tier = ''micro''
                   then Inr (c\<lparr>fc_capacity := (fc_capacity c)\<lparr>r_memory := 640, r_cpu := 150\<rparr>\<rparr>)
                   else if tier = ''small'' then Inr c
                   else if tier = ''medium''
                   then Inr (c\<lparr>fc_capacity := (fc_capacity c)\<lparr>r_memory := 3200, r_cpu := 350\<rparr>\<rparr>)
                   else Inl (ErrMsg ''fleet supports micro, small, or medium hosts; larger tiers need a reviewed profile''))))"

definition exceeds :: "resources \<Rightarrow> resources \<Rightarrow> bool" where
  "exceeds r l \<longleftrightarrow> r_cpu l < r_cpu r \<or> r_memory l < r_memory r \<or> r_disk l < r_disk r"

definition fleet_update_defaults :: "stack \<Rightarrow> fleet_release option \<Rightarrow> err + fleet_config" where
  "fleet_update_defaults sk prev =
     (case fleet_defaults sk of
        Inl e \<Rightarrow> Inl e
      | Inr limits \<Rightarrow>
          (case prev of
             None \<Rightarrow> Inr limits
           | Some r \<Rightarrow>
               (let c = (fr_config r)\<lparr>fc_max_hosts := min (fc_max_hosts (fr_config r)) (fc_max_hosts limits)\<rparr> in
                if exceeds (fc_capacity c) (fc_capacity limits)
                then Inl (ErrMsg ''deployed fleet capacity exceeds current hardware; review its configuration'')
                else (case validate c of
                        Inl e \<Rightarrow> Inl (ErrWrap ''deployed fleet configuration: '' e)
                      | Inr u \<Rightarrow> Inr c))))"

definition fleet_defaults_of :: "('w, 't) aws \<Rightarrow> release_json \<Rightarrow> string \<Rightarrow> ('w, fleet_config) io" where
  "fleet_defaults_of a j name w =
     (case describe_stack a name w of
        (Inl e, w) \<Rightarrow> (Inl e, w)
      | (Inr sk, w) \<Rightarrow>
          (case deployed_fleet_release a j sk w of
             (Inl e, w) \<Rightarrow> (Inl e, w)
           | (Inr prev, w) \<Rightarrow> (fleet_update_defaults sk prev, w)))"

section \<open>What a host must be restarted for\<close>

definition host_protocol_version :: int where
  "host_protocol_version = 3"

definition plain_game :: "game \<Rightarrow> game" where
  "plain_game g = g\<lparr>gm_display_name := [], gm_config_editor := []\<rparr>"

text \<open>\<open>sort.Slice\<close> leaves the order of games with one ID open; a catalog has none.\<close>

definition workload_fingerprint :: "release_json \<Rightarrow> (string \<Rightarrow> nat list) \<Rightarrow> fleet_release \<Rightarrow> string" where
  "workload_fingerprint j sha256 r =
     hex_encode (sha256 (rj_payload j
       (host_protocol_version, sort_key gm_id (map plain_game (fr_catalog r)), fr_assets r,
        fc_idle_minutes (fr_config r), fc_max_minutes (fr_config r))))"

section \<open>Pinning images\<close>

text \<open>The registry: a request, with its bearer token, and the readers of its answers. A platform is an
  architecture and a system.\<close>

record image_reply =
  ir_status :: int
  ir_body :: "string \<times> err option"
  ir_digest :: string

record 'w image_registry =
  im_get :: "string \<Rightarrow> string \<Rightarrow> ('w, image_reply) io"
  im_token :: "string \<times> err option \<Rightarrow> err + string"
  im_index :: "string \<Rightarrow> err + (string \<times> string \<times> string) list"
  im_sha256 :: "string \<Rightarrow> nat list"

definition token_url :: "string \<Rightarrow> string" where
  "token_url repository =
     ''https://ghcr.io/token?service=ghcr.io&scope='' @ query_escape (''repository:'' @ repository @ '':pull'')"

definition manifest_url :: "string \<Rightarrow> string \<Rightarrow> string" where
  "manifest_url repository reference = ''https://ghcr.io/v2/'' @ repository @ ''/manifests/'' @ reference"

definition manifest_limit :: nat where
  "manifest_limit = 4 * 2 ^ 20"

text \<open>A manifest, and the digest of what was read, which must be the one the registry names, if any.\<close>

definition fetch_manifest ::
  "'w image_registry \<Rightarrow> string \<Rightarrow> string \<Rightarrow> string \<Rightarrow> string \<Rightarrow> ('w, string \<times> string) io" where
  "fetch_manifest m img repository tok reference w =
     (case im_get m (manifest_url repository reference) tok w of
        (Inl e, w) \<Rightarrow> (Inl e, w)
      | (Inr r, w) \<Rightarrow>
          (if ir_status r \<noteq> 200
           then Inl (ErrMsg (''image manifest '' @ img @ '' returned HTTP '' @ show_int (ir_status r)))
           else (case read_limited manifest_limit (ir_body r) of
                   Inl e \<Rightarrow> Inl e
                 | Inr data \<Rightarrow>
                     (let v = ''sha256:'' @ hex_encode (im_sha256 m data) in
                      if ir_digest r \<noteq> [] \<and> ir_digest r \<noteq> v then Inl (ErrMsg ''image manifest digest mismatch'')
                      else Inr (data, v))), w))"

definition image_arch :: "string \<Rightarrow> string" where
  "image_arch arch = (if arch = ''x86_64'' then ''amd64'' else arch)"

text \<open>An index of images gives the digest of the first one for Linux on this architecture.\<close>

definition choose_digest ::
  "'w image_registry \<Rightarrow> string \<Rightarrow> string \<Rightarrow> string \<times> string \<Rightarrow> err + string" where
  "choose_digest m img arch fetched =
     (case im_index m (fst fetched) of
        Inl e \<Rightarrow> Inl e
      | Inr ms \<Rightarrow>
          if ms = [] then Inr (snd fetched)
          else (case List.find (\<lambda>(d, a, os). a = image_arch arch \<and> os = ''linux'') ms of
                  Some (d, a, os) \<Rightarrow>
                    if d = [] then Inl (ErrMsg (''image '' @ img @ '' has no Linux '' @ image_arch arch @ '' variant'')) else Inr d
                | None \<Rightarrow> Inl (ErrMsg (''image '' @ img @ '' has no Linux '' @ image_arch arch @ '' variant''))))"

definition pin_image :: "'w image_registry \<Rightarrow> string \<Rightarrow> string \<Rightarrow> ('w, string) io" where
  "pin_image m img arch w =
     (if has_substring ''@sha256:'' img then (Inr img, w)
      else if \<not> has_prefix img ''ghcr.io/''
      then (Inl (ErrMsg (''pin custom image '' @ img @ '' with @sha256:digest'')), w)
      else (let (repository, named, ok) = cut (CHR '':'') (trim_prefix img ''ghcr.io/'');
                reference = (if ok then named else ''latest'')
            in case im_get m (token_url repository) [] w of
                 (Inl e, w) \<Rightarrow> (Inl e, w)
               | (Inr r, w) \<Rightarrow>
                   (case im_token m (limit_body 65536 (ir_body r)) of
                      Inl e \<Rightarrow> (Inl (ErrMsg (''cannot authenticate public image '' @ img)), w)
                    | Inr tok \<Rightarrow>
                        if ir_status r \<noteq> 200 \<or> tok = []
                        then (Inl (ErrMsg (''cannot authenticate public image '' @ img)), w)
                        else (case fetch_manifest m img repository tok reference w of
                                (Inl e, w) \<Rightarrow> (Inl e, w)
                              | (Inr fetched, w) \<Rightarrow>
                                  (case choose_digest m img arch fetched of
                                     Inl e \<Rightarrow> Inl e
                                   | Inr d \<Rightarrow> Inr (''ghcr.io/'' @ repository @ ''@'' @ d), w)))))"

fun pin_images :: "'w image_registry \<Rightarrow> string \<Rightarrow> game list \<Rightarrow> ('w, game list) io" where
  "pin_images m arch [] w = (Inr [], w)"
| "pin_images m arch (g # gs) w =
     (case pin_image m (gm_image g) arch w of
        (Inl e, w) \<Rightarrow> (Inl e, w)
      | (Inr img, w) \<Rightarrow>
          (case pin_images m arch gs w of
             (Inl e, w) \<Rightarrow> (Inl e, w)
           | (Inr gs, w) \<Rightarrow> (Inr (g\<lparr>gm_image := img\<rparr> # gs), w)))"

section \<open>Uploading a release\<close>

text \<open>\<open>filepath.Ext\<close> of a name without slashes: what follows the last dot, with it.\<close>

definition path_ext :: "string \<Rightarrow> string" where
  "path_ext s = (if CHR ''.'' \<in> set s then CHR ''.'' # rev (takeWhile (\<lambda>c. c \<noteq> CHR ''.'') (rev s)) else [])"

definition asset_key :: "'w build \<Rightarrow> string \<Rightarrow> string" where
  "asset_key b data = ''assets/'' @ hex_encode (bd_sha256 b data) @ ''.zip''"

text \<open>One entry of the directory of assets, a name and whether it is a regular file; the result is the game
  and the key of its archive.\<close>

definition upload_asset ::
  "('w, 't) aws \<Rightarrow> 'w build \<Rightarrow> string \<Rightarrow> string \<Rightarrow> game list \<Rightarrow> string \<times> bool \<Rightarrow> ('w, string \<times> string) io" where
  "upload_asset a b bucket dir gs entry w =
     (case entry of (name, regular) \<Rightarrow>
        if \<not> regular then (Inl (ErrMsg ''assets must contain regular game-ID.zip archives''), w)
        else (let i = take (length name - length (path_ext name)) name in
          if path_ext name \<noteq> ''.zip''
          then (Inl (ErrMsg (''asset '' @ name @ '' must be a ZIP rooted at the game'' @ [CHR 0x27] @ ''s data directory'')), w)
          else if i \<notin> gm_id ` set gs then (Inl (ErrMsg (''unknown asset game '' @ i)), w)
          else (let path = path_join [dir, name] in
            case bd_open b path w of
              (Inl e, w) \<Rightarrow> (Inl e, w)
            | (Inr u, w) \<Rightarrow>
                (case bd_read b path w of
                   (Inl e, w) \<Rightarrow> (Inl e, w)
                 | (Inr data, w) \<Rightarrow>
                     (case bd_seek b path w of
                        (Inl e, w) \<Rightarrow> (Inl e, w)
                      | (Inr u, w) \<Rightarrow>
                          (case bd_read b path w of
                             (Inl e, w) \<Rightarrow> (Inl e, w)
                           | (Inr body, w) \<Rightarrow>
                               (case aw_put a bucket (asset_key b data) body w of
                                  (Inl e, w) \<Rightarrow> (Inl e, w)
                                | (Inr u, w) \<Rightarrow> (Inr (i, asset_key b data), w))))))))"

fun upload_assets ::
  "('w, 't) aws \<Rightarrow> 'w build \<Rightarrow> string \<Rightarrow> string \<Rightarrow> (string \<times> bool) list \<Rightarrow> fleet_release \<Rightarrow> ('w, fleet_release) io" where
  "upload_assets a b bucket dir [] r w = (Inr r, w)"
| "upload_assets a b bucket dir (x # xs) r w =
     (case upload_asset a b bucket dir (fr_catalog r) x w of
        (Inl e, w) \<Rightarrow> (Inl e, w)
      | (Inr (i, k), w) \<Rightarrow> upload_assets a b bucket dir xs (r\<lparr>fr_assets := (fr_assets r)(i \<mapsto> k)\<rparr>) w)"

text \<open>Uploads one after the other; the first failure ends them.\<close>

fun put_all :: "('w, 't) aws \<Rightarrow> string \<Rightarrow> (string \<times> string) list \<Rightarrow> ('w, unit) io" where
  "put_all a bucket [] w = (Inr (), w)"
| "put_all a bucket ((k, v) # kvs) w =
     (case aw_put a bucket k v w of (Inl e, w) \<Rightarrow> (Inl e, w) | (Inr u, w) \<Rightarrow> put_all a bucket kvs w)"

text \<open>The name of a release is the digest of its binary and its manifest.\<close>

definition release_name :: "'w build \<Rightarrow> string \<Rightarrow> string \<Rightarrow> string" where
  "release_name b binary manifest = ''releases/'' @ hex_encode (bd_sha256 b (binary @ manifest))"

definition already_current :: "stack \<Rightarrow> string \<Rightarrow> string \<Rightarrow> bool" where
  "already_current sk rel arch \<longleftrightarrow>
     parameter_value sk ''Release'' = rel \<and> parameter_value sk ''LobbyCodeKey'' = rel @ ''/bootstrap.zip'' \<and>
     parameter_value sk ''LobbyArchitecture'' = arch"

definition upload_release ::
  "('w, 't) aws \<Rightarrow> 'w build \<Rightarrow> string \<Rightarrow> string \<Rightarrow> string \<Rightarrow> string \<Rightarrow> ('w, unit) io" where
  "upload_release a b bucket path rel manifest w =
     (case bd_seek b path w of
        (Inl e, w) \<Rightarrow> (Inl e, w)
      | (Inr u, w) \<Rightarrow>
          (case bd_read b path w of
             (Inl e, w) \<Rightarrow> (Inl e, w)
           | (Inr binary, w) \<Rightarrow>
               (case put_all a bucket [(rel @ ''/insta-game'', binary), (rel @ ''/config.json'', manifest)] w of
                  (Inl e, w) \<Rightarrow> (Inl e, w)
                | (Inr u, w) \<Rightarrow>
                    (case lambda_archive b path w of
                       (Inl e, w) \<Rightarrow> (Inl e, w)
                     | (Inr packed, w) \<Rightarrow> put_all a bucket [(rel @ ''/bootstrap.zip'', packed)] w))))"

section \<open>Planning a release\<close>

text \<open>The reviewed limits of the stack, and the architecture of its hosts.\<close>

definition check_release :: "stack \<Rightarrow> fleet_config \<Rightarrow> err + unit" where
  "check_release sk c =
     (if stack_output sk ''Fleet'' \<noteq> ''true'' then Inl (ErrMsg ''not a fleet stack'')
      else (case fleet_defaults sk of
              Inl e \<Rightarrow> Inl e
            | Inr limits \<Rightarrow>
                if fc_max_hosts limits < fc_max_hosts c \<or> exceeds (fc_capacity c) (fc_capacity limits)
                then Inl (ErrMsg (''fleet configuration exceeds the reviewed stack'' @ [CHR 0x27] @ ''s host or capacity limits''))
                else Inr ()))"

definition check_architecture :: "stack \<Rightarrow> string \<Rightarrow> err + unit" where
  "check_architecture sk arch =
     (if arch = [] then Inl (ErrMsg ''fleet requires a static Linux ARM64 or AMD64 binary'')
      else if \<exists>p\<in>set (sk_parameters sk). sp_key p = ''InstanceType'' \<and>
                has_prefix (sp_value p) ''t4g.'' \<noteq> (arch = ''arm64'')
      then Inl (ErrMsg ''binary architecture differs from deployed host'') else Inr ())"

text \<open>The release as it will be uploaded: prepared, with pinned images, and with its archives stored.\<close>

definition pinned_release ::
  "'w image_registry \<Rightarrow> string \<Rightarrow> string \<Rightarrow> fleet_release \<Rightarrow> ('w, fleet_release) io" where
  "pinned_release m catalog arch r w =
     (if catalog = [] then (Inr r, w)
      else (case pin_images m arch (fr_catalog r) w of
              (Inl e, w) \<Rightarrow> (Inl e, w)
            | (Inr gs, w) \<Rightarrow> (Inr (r\<lparr>fr_catalog := gs\<rparr>), w)))"

definition stored_release ::
  "('w, 't) aws \<Rightarrow> 'w build \<Rightarrow> string \<Rightarrow> string \<Rightarrow> fleet_release \<Rightarrow> ('w, fleet_release) io" where
  "stored_release a b bucket dir r w =
     (if dir = [] then (Inr r, w)
      else (case bd_dir b dir w of
              (Inl e, w) \<Rightarrow> (Inl e, w)
            | (Inr xs, w) \<Rightarrow> upload_assets a b bucket dir xs r w))"

text \<open>Naming, uploading and planning a release whose games are settled.\<close>

definition publish_release ::
  "('w, 't) aws \<Rightarrow> 'w build \<Rightarrow> release_json \<Rightarrow> stack \<Rightarrow> string \<Rightarrow> string \<Rightarrow> string \<Rightarrow> fleet_release \<Rightarrow> ('w, string) io" where
  "publish_release a b j sk path arch binary r w =
     (let manifest = rj_release j (r\<lparr>fr_config := (fr_config r)\<lparr>fc_workload := workload_fingerprint j (bd_sha256 b) r\<rparr>\<rparr>);
          rel = release_name b binary manifest
      in if already_current sk rel arch then (Inl lobby_current, w)
         else (case upload_release a b (stack_output sk ''FleetBucket'') path rel manifest w of
                 (Inl e, w) \<Rightarrow> (Inl e, w)
               | (Inr u, w) \<Rightarrow>
                   (case prepared_architecture b path w of (arch, w) \<Rightarrow>
                    (case update_parameters (aw_template_keys a (aw_fleet a)) (sk_parameters sk)
                            [(''Release'', rel), (''LobbyCodeKey'', rel @ ''/bootstrap.zip''), (''LobbyArchitecture'', arch)] of
                       Inl e \<Rightarrow> (Inl e, w)
                     | Inr params \<Rightarrow>
                         (case change_set_name ''insta-game-release-'' a w of (n, w) \<Rightarrow>
                            create_and_wait a
                              \<lparr>cr_stack = sk_id sk, cr_name = n, cr_kind = ''UPDATE'', cr_template = aw_fleet a,
                               cr_parameters = params, cr_tags = sk_tags sk\<rparr> w)))))"

definition build_release ::
  "('w, 't) aws \<Rightarrow> 'w build \<Rightarrow> release_json \<Rightarrow> 'w image_registry \<Rightarrow> stack \<Rightarrow> release_options \<Rightarrow> string \<Rightarrow>
     fleet_release \<Rightarrow> ('w, string) io" where
  "build_release a b j m sk o1 arch r w =
     (case pinned_release m (ro_catalog o1) arch r w of
        (Inl e, w) \<Rightarrow> (Inl e, w)
      | (Inr r, w) \<Rightarrow>
          (case bd_open b (ro_binary o1) w of
             (Inl e, w) \<Rightarrow> (Inl e, w)
           | (Inr u, w) \<Rightarrow>
               (case bd_read b (ro_binary o1) w of
                  (Inl e, w) \<Rightarrow> (Inl e, w)
                | (Inr binary, w) \<Rightarrow>
                    (case stored_release a b (stack_output sk ''FleetBucket'') (ro_assets o1) r w of
                       (Inl e, w) \<Rightarrow> (Inl e, w)
                     | (Inr r, w) \<Rightarrow> publish_release a b j sk (ro_binary o1) arch binary r w))))"

definition plan_fleet_release ::
  "('w, 't) aws \<Rightarrow> 'w build \<Rightarrow> release_json \<Rightarrow> 'w image_registry \<Rightarrow> catalog_files \<Rightarrow> (string \<Rightarrow> bool) \<Rightarrow>
     string \<Rightarrow> release_options \<Rightarrow> ('w, string) io" where
  "plan_fleet_release a b j m fs regular name o1 w =
     (case describe_stack a name w of
        (Inl e, w) \<Rightarrow> (Inl e, w)
      | (Inr sk, w) \<Rightarrow>
          (case check_release sk (ro_config o1) of
             Inl e \<Rightarrow> (Inl e, w)
           | Inr u \<Rightarrow>
               (case prepared_architecture b (ro_binary o1) w of (arch, w) \<Rightarrow>
                (case check_architecture sk arch of
                   Inl e \<Rightarrow> (Inl e, w)
                 | Inr u \<Rightarrow>
                     (case deployed_fleet_release a j sk w of
                        (Inl e, w) \<Rightarrow> (Inl e, w)
                      | (Inr prev, w) \<Rightarrow>
                          (case prepare_fleet_release fs regular o1 prev of
                             Inl e \<Rightarrow> (Inl e, w)
                           | Inr r \<Rightarrow> build_release a b j m sk o1 arch r w))))))"

section \<open>What a release contains\<close>

lemma check_assets_ok:
  "check_assets regular dir gs assets is = Inr () \<Longrightarrow> i \<in> set is \<Longrightarrow> i \<in> gm_id ` set gs \<Longrightarrow>
   asset assets i \<noteq> [] \<or> dir \<noteq> [] \<and> regular (path_join [dir, i @ ''.zip''])"
  by (induction "is") (auto split: if_splits)

lemma profiles_fresh: "profiles known m gs = Inr m' \<Longrightarrow> g \<in> set gs \<Longrightarrow> m (g_id g) = None"
proof (induction gs arbitrary: m)
  case (Cons a gs)
  then have a: "m (g_id a) = None" and rest: "profiles known (m(g_id a \<mapsto> a)) gs = Inr m'" by (auto split: if_splits)
  show ?case
  proof (cases "g = a")
    case False
    then have "(m(g_id a \<mapsto> a)) (g_id g) = None" using Cons.IH [OF rest] Cons.prems(2) by simp
    then show ?thesis by (simp split: if_splits)
  qed (simp add: a)
qed simp

lemma profiles_ok:
  "profiles known m gs = Inr m' \<Longrightarrow> m \<subseteq>\<^sub>m m' \<and> distinct (map g_id gs) \<and> (\<forall>g\<in>set gs. g_id g \<in> known \<and> m' (g_id g) = Some g) \<and>
     (\<forall>i g. m' i = Some g \<longrightarrow> m i = Some g \<or> g \<in> set gs \<and> g_id g = i)"
proof (induction gs arbitrary: m)
  case (Cons g gs)
  then have g: "g_id g \<in> known" "m (g_id g) = None" and rest: "profiles known (m(g_id g \<mapsto> g)) gs = Inr m'"
    by (auto split: if_splits)
  note IH = Cons.IH [OF rest]
  have sub: "m(g_id g \<mapsto> g) \<subseteq>\<^sub>m m'" using IH by blast
  then have here: "m' (g_id g) = Some g" by (auto simp: map_le_def dom_def)
  have "m \<subseteq>\<^sub>m m'" using sub g(2) by (auto simp: map_le_def dom_def split: if_splits)
  moreover have "g_id g \<notin> g_id ` set gs" using profiles_fresh [OF rest] by fastforce
  moreover have "m i = Some x \<or> x \<in> set (g # gs) \<and> g_id x = i" if "m' i = Some x" for i x
  proof -
    have "(m(g_id g \<mapsto> g)) i = Some x \<or> x \<in> set gs \<and> g_id x = i" using IH that by blast
    then show ?thesis by (auto split: if_splits)
  qed
  ultimately show ?case using IH g here by auto
qed simp

lemma fleet_games_ok:
  "fleet_games m gs = Inr xs \<Longrightarrow> (\<And>i x. m i = Some x \<Longrightarrow> g_id x = i) \<Longrightarrow>
   map g_id xs = map gm_id gs \<and> (\<forall>g\<in>set gs. \<forall>x. m (gm_id g) = Some x \<longrightarrow> x \<in> set xs)"
  by (induction gs arbitrary: xs) (auto split: option.splits sum.splits)

lemma kept_assets_dom: "dom (kept_assets prev gs) \<subseteq> gm_id ` set gs"
  by (auto simp: kept_assets_def split: option.splits if_splits)

lemma prepared_parts:
  assumes "prepare_fleet_release fs regular o1 prev = Inr r"
  obtains gs m xs where "release_games fs (ro_catalog o1) prev = Inr gs"
    "check_assets regular (ro_assets o1) gs (kept_assets prev gs) durable_games = Inr ()"
    "profiles (gm_id ` set gs) Map.empty (fc_games (ro_config o1)) = Inr m" "fleet_games m gs = Inr xs"
    "validate (release_config (ro_config o1) xs) = Inr ()"
    "r = \<lparr>fr_config = release_config (ro_config o1) xs, fr_catalog = gs, fr_assets = kept_assets prev gs\<rparr>"
  using assms by (auto simp: prepare_fleet_release_def Let_def split: sum.splits)

section \<open>When hosts are restarted\<close>

lemma plain_game_id [simp]: "gm_id (plain_game g) = gm_id g"
  by (simp add: plain_game_def)

lemma sort_plain:
  assumes "mset (map plain_game gs) = mset (map plain_game hs)" "distinct (map gm_id gs)"
  shows "sort_key gm_id (map plain_game gs) = sort_key gm_id (map plain_game hs)"
proof (rule sort_key_inj_key_eq)
  show "mset (map plain_game gs) = mset (sort_key gm_id (map plain_game hs))" using assms(1) by simp
  have "inj_on gm_id (set (map plain_game gs))"
    using assms(2) by (auto simp: distinct_map inj_on_def)
  then show "inj_on gm_id (set (map plain_game gs))" .
  show "sorted (map gm_id (sort_key gm_id (map plain_game hs)))" by simp
qed

section \<open>Pinned images\<close>

lemma read_limited_take: "read_limited n x = Inr data \<Longrightarrow> data = take n (fst x)"
  by (cases x) (auto simp: read_limited_def limit_body_def split: if_splits option.splits)

lemma fetched_digest:
  assumes "fetch_manifest m img repository tok reference w = (Inr (data, v), w')"
  shows "v = ''sha256:'' @ hex_encode (im_sha256 m data) \<and>
    (\<exists>r. im_get m (manifest_url repository reference) tok w = (Inr r, w') \<and> ir_status r = 200 \<and>
       data = take manifest_limit (fst (ir_body r)) \<and> (ir_digest r = [] \<or> ir_digest r = v))"
  using assms
  by (auto simp: fetch_manifest_def Let_def read_limited_take split: sum.splits prod.splits if_splits)

section \<open>Properties\<close>

lemma hex_encode_empty: "hex_encode bs = [] \<longleftrightarrow> bs = []"
  by (cases bs) (auto simp: hex_encode_def)

text \<open>C34. \<open>prepareFleetRelease\<close> gives a release the deployment can run: its configuration passes the
  scheduler's own validation and lists exactly the games of its catalog, in their order, with every profile the
  operator gave and the operator's limits unchanged; every game that needs durable assets has an archive of the
  previous release or one at hand to upload; and it keeps archives only for its own games.\<close>

theorem prepared_release_is_complete:
  assumes "prepare_fleet_release fs regular o1 prev = Inr r"
  shows "validate (fr_config r) = Inr () \<and>
    map g_id (fc_games (fr_config r)) = map gm_id (fr_catalog r) \<and>
    set (fc_games (ro_config o1)) \<subseteq> set (fc_games (fr_config r)) \<and>
    fc_capacity (fr_config r) = fc_capacity (ro_config o1) \<and> fc_max_hosts (fr_config r) = fc_max_hosts (ro_config o1) \<and>
    (\<forall>i\<in>gm_id ` set (fr_catalog r). i \<in> set durable_games \<longrightarrow>
       asset (fr_assets r) i \<noteq> [] \<or> ro_assets o1 \<noteq> [] \<and> regular (path_join [ro_assets o1, i @ ''.zip''])) \<and>
    dom (fr_assets r) \<subseteq> gm_id ` set (fr_catalog r)"
proof -
  obtain gs m xs where p: "check_assets regular (ro_assets o1) gs (kept_assets prev gs) durable_games = Inr ()"
    "profiles (gm_id ` set gs) Map.empty (fc_games (ro_config o1)) = Inr m" "fleet_games m gs = Inr xs"
    "validate (release_config (ro_config o1) xs) = Inr ()"
    "r = \<lparr>fr_config = release_config (ro_config o1) xs, fr_catalog = gs, fr_assets = kept_assets prev gs\<rparr>"
    using prepared_parts [OF assms] by blast
  note m = profiles_ok [OF p(2)]
  have xs: "map g_id xs = map gm_id gs \<and> (\<forall>g\<in>set gs. \<forall>x. m (gm_id g) = Some x \<longrightarrow> x \<in> set xs)"
    by (rule fleet_games_ok [OF p(3)]) (use m in auto)
  have "set (fc_games (ro_config o1)) \<subseteq> set xs" using m xs by fastforce
  moreover have "fc_games (release_config (ro_config o1) xs) = xs" by (simp add: release_config_def)
  ultimately show ?thesis
    using p(4,5) xs check_assets_ok [OF p(1)] kept_assets_dom [of prev gs]
    by (simp add: release_config_def)
qed

definition small_game :: game where
  "small_game = \<lparr>gm_id = ''bzflag'', gm_display_name = ''BZ'', gm_protocol = ''bzflag'', gm_image = ''i'', gm_agent_port = 1,
     gm_game_port = 2, gm_ports = [''2/udp''], gm_cmd = ''c'', gm_args = [], gm_quit_cmd = [], gm_quit_timeout = 0,
     gm_data_root = ''/d'', gm_config_path = ''/c'', gm_data_url_env = [], gm_default_config = [], gm_config_editor = []\<rparr>"

definition small_release :: fleet_release where
  "small_release = \<lparr>fr_config = default_fleet_config 1 13, fr_catalog = [small_game], fr_assets = Map.empty\<rparr>"

definition small_options :: release_options where
  "small_options = \<lparr>ro_binary = ''b'', ro_catalog = [], ro_assets = [], ro_config = default_fleet_config 1 13\<rparr>"

definition no_files :: catalog_files where
  "no_files = \<lparr>cf_glob = (\<lambda>p. Inr []), cf_read = (\<lambda>p. Inl (True, ErrMsg ''missing'')), cf_parse = (\<lambda>d. Inl (ErrMsg ''invalid''))\<rparr>"

lemma small_prepares: "\<exists>r. prepare_fleet_release no_files (\<lambda>p. False) small_options (Some small_release) = Inr r"
proof -
  have "trim_space ''BZ'' \<noteq> []" by (simp add: trim_space_graphic graphic_def)
  then show ?thesis
    by (simp add: prepare_fleet_release_def release_games_def small_options_def small_release_def small_game_def
        durable_games_def default_fleet_config_def default_requirements_def release_config_def validate_def
        is_lower_alnum_def is_digit_def)
qed

theorem prepared_release_is_complete_witness:
  "\<exists>r. prepare_fleet_release no_files (\<lambda>p. False) small_options (Some small_release) = Inr r \<and> validate (fr_config r) = Inr ()"
  using small_prepares prepared_release_is_complete [of no_files "\<lambda>p. False" small_options "Some small_release"] by blast

text \<open>C35. A release that differs from the deployed one only in the order of the catalog and in names and editors
  shown to users has the same workload fingerprint, so every host that was started for the deployed one stays
  eligible for new games exactly when it is not retiring and has room.\<close>

theorem presentation_keeps_hosts:
  assumes "mset (map plain_game (fr_catalog r)) = mset (map plain_game (fr_catalog r'))"
    and "distinct (map gm_id (fr_catalog r))" and "fr_assets r = fr_assets r'"
    and "fc_idle_minutes (fr_config r) = fc_idle_minutes (fr_config r')"
    and "fc_max_minutes (fr_config r) = fc_max_minutes (fr_config r')"
    and "\<forall>x. length (sha256 x) = 32"
    and "h_workload h = workload_fingerprint j sha256 r" and "fc_workload c = workload_fingerprint j sha256 r'"
  shows "workload_fingerprint j sha256 r = workload_fingerprint j sha256 r' \<and>
    (eligible c st required h \<longleftrightarrow> \<not> h_retiring h \<and> fits (h_capacity h) (used st (h_id h)) required)"
proof -
  have same: "workload_fingerprint j sha256 r = workload_fingerprint j sha256 r'"
    using sort_plain [OF assms(1,2)] assms(3-5) by (simp add: workload_fingerprint_def)
  have "sha256 x \<noteq> []" for x using assms(6) by (metis length_0_conv zero_neq_numeral)
  then have "workload_fingerprint j sha256 r \<noteq> []" by (simp add: workload_fingerprint_def hex_encode_empty)
  then show ?thesis using same assms(7,8) by (auto simp: eligible_def)
qed

definition small_json :: release_json where
  "small_json = \<lparr>rj_release = (\<lambda>r. concat (map gm_id (fr_catalog r))), rj_payload = (\<lambda>(v, gs, as, i, m). concat (map gm_image gs)),
     rj_parse = (\<lambda>d. Inl (ErrMsg ''invalid''))\<rparr>"

definition renamed_release :: fleet_release where
  "renamed_release = small_release\<lparr>fr_catalog := [small_game\<lparr>gm_display_name := ''Tanks''\<rparr>]\<rparr>"

theorem presentation_keeps_hosts_witness:
  "eligible (zero_config\<lparr>fc_workload := workload_fingerprint small_json (\<lambda>x. replicate 32 0) renamed_release\<rparr>)
     zero_state zero_resources (zero_host\<lparr>h_workload := workload_fingerprint small_json (\<lambda>x. replicate 32 0) small_release\<rparr>)"
    (is "eligible ?c _ _ ?h")
proof -
  have "eligible ?c zero_state zero_resources ?h \<longleftrightarrow>
      \<not> h_retiring ?h \<and> fits (h_capacity ?h) (used zero_state (h_id ?h)) zero_resources"
    by (rule presentation_keeps_hosts [where r = small_release and r' = renamed_release, THEN conjunct2])
      (simp_all add: small_release_def renamed_release_def plain_game_def)
  then show ?thesis by (simp add: zero_host_def fits_def used_def zero_state_def)
qed

end
