(* ===== verification/SecureHTTP.thy ===== *)
theory SecureHTTP
  imports GoStrings
begin

text \<open>
  The TLS identity of agents and controllers (internal/securehttp/tls.go): a key derived from the shared
  token, the certificate a server makes of it, and the check a client makes instead of asking an authority.
  SHA-256, Ed25519, the random serial, X.509 and the clock are parameters.
\<close>

section \<open>Keys and certificates\<close>

text \<open>\<open>tl_public\<close> is the encoded public key of the private key made from a seed; \<open>tl_year\<close> the same
  time of the next year, by the calendar.\<close>

record 'w tls_lib =
  tl_sha256 :: "string \<Rightarrow> nat list"
  tl_public :: "nat list \<Rightarrow> string"
  tl_serial :: "('w, int) io"
  tl_now :: "'w \<Rightarrow> time \<times> 'w"
  tl_year :: "time \<Rightarrow> time"
  tl_sign :: "int \<Rightarrow> ('w, unit) io"

record certificate =
  ce_key :: string
  ce_serial :: int
  ce_not_before :: time
  ce_not_after :: time

definition token_key :: "'w tls_lib \<Rightarrow> string \<Rightarrow> nat list" where
  "token_key l tok = tl_sha256 l (''insta-game agent TLS'' @ CHR 0x00 # tok)"

text \<open>A certificate holds whole seconds.\<close>

definition whole_seconds :: "time \<Rightarrow> time" where
  "whole_seconds t = t div second * second"

definition server_tls :: "'w tls_lib \<Rightarrow> string \<Rightarrow> ('w, certificate) io" where
  "server_tls l tok w =
     (if tok = [] then (Inl (ErrMsg ''TLS requires a token''), w)
      else (case tl_serial l w of
         (Inl e, w) \<Rightarrow> (Inl e, w)
       | (Inr n, w) \<Rightarrow>
           (let (a, w) = tl_now l w; (b, w) = tl_now l w in
            case tl_sign l n w of
              (Inl e, w) \<Rightarrow> (Inl e, w)
            | (Inr u, w) \<Rightarrow>
                (Inr \<lparr>ce_key = tl_public l (token_key l tok), ce_serial = n,
                      ce_not_before = whole_seconds (a - 60 * minute), ce_not_after = whole_seconds (tl_year l b)\<rparr>, w))))"

text \<open>The callback \<open>VerifyConnection\<close> of \<open>ClientTLS\<close>, with the certificates of the peer.\<close>

definition verify_connection :: "'w tls_lib \<Rightarrow> string \<Rightarrow> certificate list \<Rightarrow> ('w, unit) io" where
  "verify_connection l tok peers w =
     (case peers of
        [] \<Rightarrow> (Inl (ErrMsg ''missing TLS identity''), w)
      | c # cs \<Rightarrow>
          if tok = [] then (Inl (ErrMsg ''missing TLS identity''), w)
          else if ce_key c \<noteq> tl_public l (token_key l tok)
          then (Inl (ErrMsg ''TLS identity does not match the token''), w)
          else (let (t, w) = tl_now l w in
                (if t < ce_not_before c \<or> ce_not_after c < t
                 then Inl (ErrMsg ''TLS certificate is outside its validity period'') else Inr (), w)))"

section \<open>Properties\<close>

lemma second_pos: "0 < second"
  by (simp add: second_def)

lemma whole_seconds_mod: "whole_seconds t = t - t mod second"
  unfolding whole_seconds_def by (rule minus_mod_eq_div_mult [symmetric])

lemma whole_seconds_le: "whole_seconds t \<le> t"
  using pos_mod_sign [OF second_pos, of t] unfolding whole_seconds_mod by linarith

lemma whole_seconds_gap: "t - second < whole_seconds t"
  using pos_mod_bound [OF second_pos, of t] unfolding whole_seconds_mod by linarith

lemma server_tls_fields:
  assumes "server_tls l tok w = (Inr c, w')"
  shows "tok \<noteq> [] \<and> ce_key c = tl_public l (token_key l tok) \<and>
    (\<exists>n v a b u v' x. tl_serial l w = (Inr n, v) \<and> tl_now l v = (a, u) \<and> tl_now l u = (b, v') \<and> tl_sign l n v' = (x, w') \<and>
       ce_not_before c = whole_seconds (a - 60 * minute) \<and> ce_not_after c = whole_seconds (tl_year l b))"
  using assms by (auto simp: server_tls_def Let_def split: if_splits sum.splits prod.splits)

lemma verify_connection_clock:
  assumes "\<forall>v. fst (tl_now l v) = clock v"
  shows "fst (verify_connection l tok (c # cs) v) = Inr () \<longleftrightarrow>
    tok \<noteq> [] \<and> ce_key c = tl_public l (token_key l tok) \<and> ce_not_before c \<le> clock v \<and> clock v \<le> ce_not_after c"
proof -
  obtain t u where t: "tl_now l v = (t, u)" by fastforce
  then have "t = clock v" using assms by (metis fst_conv)
  then show ?thesis using t by (auto simp: verify_connection_def)
qed


text \<open>A clock that advances a second at each reading, and keys that spell the token.\<close>

definition spelled_tls :: "time tls_lib" where
  "spelled_tls = \<lparr>tl_sha256 = map of_char, tl_public = map char_of, tl_serial = (\<lambda>w. (Inr 1, w)),
     tl_now = (\<lambda>w. (w, w + second)), tl_year = (\<lambda>t. t + 365 * 24 * 60 * minute), tl_sign = (\<lambda>n w. (Inr (), w))\<rparr>"

definition spelled_certificate :: certificate where
  "spelled_certificate = \<lparr>ce_key = ''insta-game agent TLS'' @ CHR 0x00 # ''t'', ce_serial = 1,
     ce_not_before = whole_seconds (0 - 60 * minute), ce_not_after = whole_seconds (second + 365 * 24 * 60 * minute)\<rparr>"

lemma spelled_key: "tl_public spelled_tls (token_key spelled_tls t) = ''insta-game agent TLS'' @ CHR 0x00 # t"
proof -
  have "map char_of (map of_char s) = s" for s :: string by (simp add: comp_def)
  then show ?thesis by (simp only: spelled_tls_def tls_lib.select_convs token_key_def)
qed

lemma spelled_server: "server_tls spelled_tls ''t'' 0 = (Inr spelled_certificate, 2 * second)"
  using spelled_key [of "''t''"] by (simp add: server_tls_def spelled_certificate_def) (simp add: spelled_tls_def)


end
