(* ===== verification/TokenFile.thy ===== *)
theory TokenFile
  imports AgentFiles
begin

text \<open>
  The files that hold a controller's token (\<open>tokenAt\<close> of internal/command/command.go and
  \<open>ensureHostToken\<close> of aws.go): read if there is one, else created with a new token and never over an
  existing file. The locale token_world says what the calls may do to the contents of paths while other
  processes keep \<open>keep\<close>; files in memory interpret it.
\<close>

section \<open>Operations\<close>

text \<open>\<open>INSTA_GAME_TOKEN\<close>, \<open>control.NewToken\<close>, and opening a file that must not exist.\<close>

record 'w token_calls =
  tk_env :: string
  tk_new :: "'w \<Rightarrow> string \<times> 'w"
  tk_create_new :: "string \<Rightarrow> 32 word \<Rightarrow> ('w, unit) io"

text \<open>The first of the two errors, of writing and of closing; both are done.\<close>

definition write_token :: "'w files \<Rightarrow> 'w token_calls \<Rightarrow> string \<Rightarrow> string \<Rightarrow> ('w, string) io" where
  "write_token fs tk path token w =
     (case tk_create_new tk path 0x180 w of
        (Inl e, w) \<Rightarrow> (Inl e, w)
      | (Inr u, w) \<Rightarrow>
          (let (written, w) = fi_append fs path (token @ [CHR 0x0A]) w;
               (closed, w) = fi_close fs path w
           in (case written of
                 Inl e \<Rightarrow> Inl e
               | Inr u \<Rightarrow> (case closed of Inl e \<Rightarrow> Inl e | Inr u \<Rightarrow> Inr token), w)))"

definition token_at :: "'w files \<Rightarrow> 'w token_calls \<Rightarrow> string \<Rightarrow> bool \<Rightarrow> ('w, string) io" where
  "token_at fs tk path create w =
     (if tk_env tk \<noteq> [] then (Inr (tk_env tk), w)
      else (case fi_read fs path w of
              (Inr data, w) \<Rightarrow>
                (let token = trim_space data in
                 (if token = [] then Inl (ErrMsg (''empty token file '' @ path)) else Inr token, w))
            | (Inl e, w) \<Rightarrow>
                if \<not> fi_missing fs e \<or> \<not> create then (Inl e, w)
                else (case fi_mkdir_all fs (path_dir path) 0x1C0 w of
                        (Inl e, w) \<Rightarrow> (Inl e, w)
                      | (Inr u, w) \<Rightarrow> (let (token, w) = tk_new tk w in write_token fs tk path token w))))"

definition ensure_host_token :: "'w files \<Rightarrow> 'w token_calls \<Rightarrow> string \<Rightarrow> ('w, unit) io" where
  "ensure_host_token fs tk path w =
     (case fi_read fs path w of
        (Inr data, w) \<Rightarrow>
          (if trim_space data = [] then Inl (ErrMsg (''empty host token file '' @ path)) else Inr (), w)
      | (Inl e, w) \<Rightarrow>
          if \<not> fi_missing fs e then (Inl e, w)
          else (case fi_mkdir_all fs (path_dir path) 0x1C0 w of
                  (Inl e, w) \<Rightarrow> (Inl e, w)
                | (Inr u, w) \<Rightarrow>
                    (case tk_create_new tk path 0x180 w of
                       (Inl e, w) \<Rightarrow> (Inl e, w)
                     | (Inr u, w) \<Rightarrow>
                         (let (token, w) = tk_new tk w;
                              (written, w) = fi_append fs path (token @ [CHR 0x0A]) w;
                              (closed, w) = fi_close fs path w
                          in (case written of Inl e \<Rightarrow> Inl e | Inr u \<Rightarrow> closed, w)))))"

section \<open>The contract of the calls\<close>

text \<open>
  Between any two calls other processes may act, but they leave the contents of existing files alone. A file
  just opened for writing is the process's own. A new token is text without space at its ends.
\<close>

definition kept :: "(string \<Rightarrow> string option) \<Rightarrow> (string \<Rightarrow> string option) \<Rightarrow> bool" where
  "kept a b \<longleftrightarrow> (\<forall>p s. a p = Some s \<longrightarrow> b p = Some s)"

lemma kept_refl [simp]: "kept a a"
  by (simp add: kept_def)

lemma kept_trans: "kept a b \<Longrightarrow> kept b c \<Longrightarrow> kept a c"
  by (simp add: kept_def)

lemma keptD: "kept a b \<Longrightarrow> a p = Some s \<Longrightarrow> b p = Some s"
  by (simp add: kept_def)

locale token_world =
  fixes fs :: "'w files" and tk :: "'w token_calls" and content :: "'w \<Rightarrow> string \<Rightarrow> string option"
  assumes read_keeps: "fi_read fs p w = (r, w') \<Longrightarrow> kept (content w) (content w')"
    and read_content: "fi_read fs p w = (Inr s, w') \<Longrightarrow> content w' p = Some s"
    and mkdir_keeps: "fi_mkdir_all fs p md w = (u, w') \<Longrightarrow> kept (content w) (content w')"
    and new_keeps: "tk_new tk w = (t, w') \<Longrightarrow> kept (content w) (content w')"
    and new_token: "tk_new tk w = (t, w') \<Longrightarrow> t \<noteq> [] \<and> trim_space (t @ [CHR 0x0A]) = t"
    and create_keeps: "tk_create_new tk p md w = (u, w') \<Longrightarrow> kept (content w) (content w')"
    and create_new: "tk_create_new tk p md w = (Inr v, w') \<Longrightarrow> content w p = None \<and> content w' p = Some []"
    and append_keeps: "fi_append fs p d w = (u, w') \<Longrightarrow> kept ((content w)(p := None)) (content w')"
    and append_content: "fi_append fs p d w = (Inr v, w') \<Longrightarrow> content w p = Some s \<Longrightarrow> content w' p = Some (s @ d)"
    and close_keeps: "fi_close fs p w = (u, w') \<Longrightarrow> kept (content w) (content w')"
begin

text \<open>Creating, writing and closing a new file.\<close>

lemma fresh_file:
  assumes c: "tk_create_new tk p md w = (Inr v, w1)" and k: "kept (content w1) (content w2)"
    and a: "fi_append fs p d w2 = (x, w3)" and l: "fi_close fs p w3 = (y, w4)"
  shows "kept (content w) (content w4)" "x = Inr u \<Longrightarrow> content w4 p = Some d"
proof -
  have n: "content w p = None" "content w1 p = Some []" using create_new [OF c] by blast+
  have "kept (content w) ((content w2)(p := None))"
    using kept_trans [OF create_keeps [OF c] k] n(1) by (auto simp: kept_def)
  then show "kept (content w) (content w4)"
    using kept_trans [OF append_keeps [OF a] close_keeps [OF l]] kept_trans by blast
  assume "x = Inr u"
  then have "content w3 p = Some ([] @ d)" using append_content a keptD [OF k n(2)] by blast
  then show "content w4 p = Some d" using keptD [OF close_keeps [OF l]] by simp
qed

lemma write_token_keeps:
  assumes call: "write_token fs tk p t w = (r, w')"
  shows "kept (content w) (content w')" "r = Inr x \<Longrightarrow> x = t \<and> content w' p = Some (t @ [CHR 0x0A])"
proof -
  obtain c w1 where c: "tk_create_new tk p 0x180 w = (c, w1)" by fastforce
  obtain a w2 where a: "fi_append fs p (t @ [CHR 0x0A]) w1 = (a, w2)" by fastforce
  obtain l w3 where l: "fi_close fs p w2 = (l, w3)" by fastforce
  have "kept (content w) (content w') \<and> (r = Inr x \<longrightarrow> x = t \<and> content w' p = Some (t @ [CHR 0x0A]))"
  proof (cases c)
    case (Inl e)
    then show ?thesis using call c create_keeps [OF c] by (auto simp: write_token_def)
  next
    case (Inr v)
    note f = fresh_file [OF c [unfolded Inr] kept_refl a l]
    show ?thesis using call c Inr a l f by (auto simp: write_token_def split: sum.splits)
  qed
  then show "kept (content w) (content w')" "r = Inr x \<Longrightarrow> x = t \<and> content w' p = Some (t @ [CHR 0x0A])" by blast+
qed

lemma token_at_keeps:
  assumes call: "token_at fs tk p create w = (r, w')"
  shows "kept (content w) (content w')"
    "tk_env tk = [] \<Longrightarrow> r = Inr t \<Longrightarrow> t \<noteq> [] \<and> (\<exists>s. content w' p = Some s \<and> trim_space s = t)"
proof -
  obtain d w1 where d: "fi_read fs p w = (d, w1)" by fastforce
  obtain m w2 where m: "fi_mkdir_all fs (path_dir p) 0x1C0 w1 = (m, w2)" by fastforce
  obtain n w3 where n: "tk_new tk w2 = (n, w3)" by fastforce
  obtain x w4 where x: "write_token fs tk p n w3 = (x, w4)" by fastforce
  have k1: "kept (content w) (content w1)" using read_keeps [OF d] .
  have k2: "kept (content w) (content w2)" using kept_trans [OF k1 mkdir_keeps [OF m]] .
  have k4: "kept (content w) (content w4)"
    using kept_trans [OF kept_trans [OF k2 new_keeps [OF n]] write_token_keeps(1) [OF x]] .
  have made: "x = Inr t \<Longrightarrow> t \<noteq> [] \<and> (\<exists>s. content w4 p = Some s \<and> trim_space s = t)" for t
    using write_token_keeps(2) [OF x] new_token [OF n] by blast
  have "kept (content w) (content w') \<and>
    (tk_env tk = [] \<longrightarrow> r = Inr t \<longrightarrow> t \<noteq> [] \<and> (\<exists>s. content w' p = Some s \<and> trim_space s = t))"
  proof (cases "tk_env tk = []")
    case False
    then show ?thesis using call by (simp add: token_at_def)
  next
    case env: True
    show ?thesis
    proof (cases d)
      case (Inr s)
      then have "content w1 p = Some s" using read_content d by blast
      then show ?thesis using call env d Inr k1 by (auto simp: token_at_def Let_def split: if_splits)
    next
      case (Inl e)
      show ?thesis
      proof (cases "fi_missing fs e \<and> create \<and> (\<exists>u. m = Inr u)")
        case False
        then show ?thesis using call env d Inl k1 k2 m by (auto simp: token_at_def split: sum.splits if_splits)
      next
        case True
        then have "(r, w') = (x, w4)" using call env d Inl m n x by (auto simp: token_at_def)
        then show ?thesis using k4 made by blast
      qed
    qed
  qed
  then show "kept (content w) (content w')"
    "tk_env tk = [] \<Longrightarrow> r = Inr t \<Longrightarrow> t \<noteq> [] \<and> (\<exists>s. content w' p = Some s \<and> trim_space s = t)" by blast+
qed

lemma ensure_host_token_keeps:
  assumes call: "ensure_host_token fs tk p w = (r, w')"
  shows "kept (content w) (content w')" "r = Inr u \<Longrightarrow> \<exists>s. content w' p = Some s \<and> trim_space s \<noteq> []"
proof -
  obtain d w1 where d: "fi_read fs p w = (d, w1)" by fastforce
  obtain m w2 where m: "fi_mkdir_all fs (path_dir p) 0x1C0 w1 = (m, w2)" by fastforce
  obtain c w3 where c: "tk_create_new tk p 0x180 w2 = (c, w3)" by fastforce
  obtain n w4 where n: "tk_new tk w3 = (n, w4)" by fastforce
  obtain a w5 where a: "fi_append fs p (n @ [CHR 0x0A]) w4 = (a, w5)" by fastforce
  obtain l w6 where l: "fi_close fs p w5 = (l, w6)" by fastforce
  have k1: "kept (content w) (content w1)" using read_keeps [OF d] .
  have k2: "kept (content w) (content w2)" using kept_trans [OF k1 mkdir_keeps [OF m]] .
  have k3: "kept (content w) (content w3)" using kept_trans [OF k2 create_keeps [OF c]] .
  have "kept (content w) (content w') \<and> (r = Inr u \<longrightarrow> (\<exists>s. content w' p = Some s \<and> trim_space s \<noteq> []))"
  proof (cases d)
    case (Inr s)
    then have "content w1 p = Some s" using read_content d by blast
    then show ?thesis using call d Inr k1 by (auto simp: ensure_host_token_def)
  next
    case (Inl e)
    show ?thesis
    proof (cases "fi_missing fs e \<and> (\<exists>u. m = Inr u) \<and> (\<exists>v. c = Inr v)")
      case False
      then show ?thesis
        using call d Inl k1 k2 k3 m c by (auto simp: ensure_host_token_def split: sum.splits if_splits)
    next
      case True
      then obtain v where v: "c = Inr v" by blast
      note f = fresh_file [OF c [unfolded v] new_keeps [OF n] a l]
      have k: "kept (content w) (content w6)" using kept_trans [OF k2 f(1)] .
      have "w' = w6" "r = Inr u \<Longrightarrow> \<exists>u. a = Inr u"
        using call d Inl m c n a l True by (auto simp: ensure_host_token_def split: sum.splits)
      then show ?thesis using k f(2) new_token [OF n] by metis
    qed
  qed
  then show "kept (content w) (content w')" "r = Inr u \<Longrightarrow> \<exists>s. content w' p = Some s \<and> trim_space s \<noteq> []" by blast+
qed

end

section \<open>Files in memory\<close>

definition disk_tokens :: "string \<Rightarrow> disk token_calls" where
  "disk_tokens env = \<lparr>tk_env = env, tk_new = (\<lambda>d. (''t'' @ show_nat (ds_count d), d\<lparr>ds_count := Suc (ds_count d)\<rparr>)),
     tk_create_new = (\<lambda>p md d. if ds_files d p = None then (Inr (), disk_set p [] d) else (Inl ErrBusy, d))\<rparr>"

lemma show_nat_graphic: "graphic (last (show_nat n)) \<and> show_nat n \<noteq> []"
proof -
  have "graphic (digit_char d)" if "d < 10" for d
    using that by (simp add: graphic_def digit_char_def)
  then show ?thesis by (subst (1 2) show_nat.simps) auto
qed

lemma spaces_newline: "list_all (\<lambda>x. last x = CHR 0x0A \<longrightarrow> x = [CHR 0x0A]) spaces" "[CHR 0x0A] \<in> set spaces"
  by code_simp+

lemma only_newline:
  assumes "x \<in> set (map rev spaces)" "has_prefix (CHR 0x0A # t) x" "x \<noteq> []"
  shows "x = [CHR 0x0A]"
proof -
  obtain y where y: "y \<in> set spaces" "x = rev y" using assms(1) by auto
  have "hd x = CHR 0x0A" using assms(2,3) by (cases x) (auto simp: has_prefix_def)
  then have "last y = CHR 0x0A" using y(2) assms(3) by (simp add: hd_rev)
  then show ?thesis using spaces_newline(1) y by (auto simp: list_all_iff)
qed

lemma found_in: "List.find P xs = Some x \<Longrightarrow> x \<in> set xs \<and> P x"
  by (auto simp: find_Some_iff)

lemma trim_line:
  assumes "s \<noteq> []" "graphic (hd s)" "graphic (last s)"
  shows "trim_space (s @ [CHR 0x0A]) = s"
proof -
  have l: "trim_left spaces (s @ [CHR 0x0A]) = s @ [CHR 0x0A]"
    using assms spaces_not_graphic by (auto intro!: trim_left_graphic)
  let ?P = "\<lambda>x. x \<noteq> [] \<and> has_prefix (CHR 0x0A # rev s) x"
  have "[CHR 0x0A] \<in> set (map rev spaces)" "?P [CHR 0x0A]"
    using spaces_newline(2) by (force, simp add: has_prefix_def)
  then have "List.find ?P (map rev spaces) \<noteq> None"
    using find_None_iff [of ?P "map rev spaces"] by blast
  then obtain x where x: "List.find ?P (map rev spaces) = Some x" by blast
  then have "x \<in> set (map rev spaces)" "?P x" using found_in [OF x] by simp_all
  then have f: "List.find ?P (map rev spaces) = Some [CHR 0x0A]" using only_newline x by blast
  have "trim_left (map rev spaces) (CHR 0x0A # rev s) = trim_left (map rev spaces) (rev s)"
    by (subst trim_left.simps) (simp add: f)
  also have "\<dots> = rev s"
    using assms spaces_not_graphic by (intro trim_left_graphic) (auto simp: hd_rev)
  finally show ?thesis using l by (simp add: trim_space_def)
qed

lemma disk_token_trims: "trim_space (CHR ''t'' # show_nat n @ [CHR 0x0A]) = CHR ''t'' # show_nat n"
  using trim_line [of "CHR ''t'' # show_nat n"] show_nat_graphic [of n] by (simp add: graphic_def)

interpretation disk_token: token_world disk_files "disk_tokens env" ds_files for env
  by unfold_locales
    (auto simp: disk_files_def disk_tokens_def disk_set_def disk_need_def kept_def Let_def disk_token_trims
      split: option.splits if_splits)

text \<open>Files of which no call succeeds.\<close>

definition refusing_files :: "'w files" where
  "refusing_files = \<lparr>fi_stat = (\<lambda>p w. (Inl ErrBusy, w)), fi_lstat = (\<lambda>p w. (Inl ErrBusy, w)), fi_missing = (\<lambda>e. False),
     fi_read = (\<lambda>p w. (Inl ErrBusy, w)), fi_write = (\<lambda>p md d w. (Inl ErrBusy, w)), fi_open = (\<lambda>p w. (Inl ErrBusy, w)),
     fi_create = (\<lambda>p w. (Inl ErrBusy, w)), fi_copy = (\<lambda>p q w. (Inl ErrBusy, w)), fi_append = (\<lambda>p d w. (Inl ErrBusy, w)),
     fi_head = (\<lambda>n p w. (Inl ErrBusy, w)), fi_temp = (\<lambda>d n w. (Inl ErrBusy, w)), fi_chmod = (\<lambda>p md w. (Inl ErrBusy, w)),
     fi_close = (\<lambda>p w. (Inl ErrBusy, w)), fi_rename = (\<lambda>p q w. (Inl ErrBusy, w)), fi_remove = (\<lambda>p w. (Inl ErrBusy, w)),
     fi_mkdir_all = (\<lambda>p md w. (Inl ErrBusy, w)), fi_readlink = (\<lambda>p w. (Inl ErrBusy, w)),
     fi_symlink = (\<lambda>p q w. (Inl ErrBusy, w))\<rparr>"

section \<open>Properties\<close>

text \<open>C38. Without \<open>INSTA_GAME_TOKEN\<close>, the token a controller or client got is text, stands in its file, and is what
  every later reading of the file gives, also by a host's setup, as long as other processes leave existing files
  alone; and none of these calls, failing ones included, changes a file that was there before.\<close>

theorem token_file_names_one_token:
  assumes "token_world fs tk content" and "tk_env tk = []"
    and "token_at fs tk path create w = (Inr token, w1)"
    and "kept (content w1) (content v)" and "token_at fs tk path again v = (r, v1)"
    and "ensure_host_token fs tk path v = (x, v2)"
  shows "token \<noteq> [] \<and> kept (content w) (content w1) \<and> kept (content v) (content v1) \<and> kept (content v) (content v2) \<and>
    (\<forall>t. r = Inr t \<longrightarrow> t = token) \<and>
    (\<exists>s. trim_space s = token \<and> content w1 path = Some s \<and> content v1 path = Some s \<and> content v2 path = Some s)"
proof -
  note at = token_world.token_at_keeps [OF assms(1)] and host = token_world.ensure_host_token_keeps [OF assms(1)]
  obtain s where s: "token \<noteq> []" "content w1 path = Some s" "trim_space s = token"
    using at(2) [OF assms(3,2)] by blast
  have k: "kept (content w) (content w1)" "kept (content v) (content v1)" "kept (content v) (content v2)"
    using at(1) assms(3,5) host(1) assms(6) by blast+
  have c: "content v1 path = Some s" "content v2 path = Some s"
    using keptD [OF k(2)] keptD [OF k(3)] keptD [OF assms(4) s(2)] by simp_all
  have "t = token" if "r = Inr t" for t
    using at(2) [OF assms(5,2) that] c(1) s(3) by auto
  then show ?thesis using s k c by blast
qed

definition token_disk :: disk where
  "token_disk = \<lparr>ds_files = Map.empty, ds_count = 0\<rparr>"

definition made_disk :: disk where
  "made_disk = \<lparr>ds_files = [''d/token'' \<mapsto> ''t0'' @ [CHR 0x0A]], ds_count = 1\<rparr>"

lemma token_made: "token_at disk_files (disk_tokens []) ''d/token'' True token_disk = (Inr ''t0'', made_disk)"
proof -
  have "show_nat 0 = ''0''" by code_simp
  then show ?thesis
    by (simp add: token_at_def token_disk_def disk_tokens_def disk_files_def disk_need_def write_token_def disk_set_def
        made_disk_def Let_def)
qed

lemma token_read: "token_at disk_files (disk_tokens []) ''d/token'' False made_disk = (Inr ''t0'', made_disk)"
  using trim_line [of "''t0''"]
  by (simp add: token_at_def disk_tokens_def disk_files_def disk_need_def made_disk_def Let_def graphic_def)

theorem token_file_names_one_token_witness:
  "\<exists>v. token_at disk_files (disk_tokens []) ''d/token'' False made_disk = (Inr ''t0'', v) \<and>
     ds_files v ''d/token'' = ds_files made_disk ''d/token''"
proof -
  have "tk_env (disk_tokens []) = []" by (simp add: disk_tokens_def)
  from token_file_names_one_token [OF disk_token.token_world_axioms this token_made kept_refl token_read prod.collapse [symmetric]]
  show ?thesis using token_read by blast
qed

end
