(* ===== verification/Flags.thy ===== *)
theory Flags
  imports GoStrings
begin

text \<open>
  Go's flag package as the commands use it (internal/command): a flag set says of each name whether it is
  boolean and which values it takes; parsing assigns values in order and stops at the first argument that
  is no flag. Numbers are read by \<open>strconv.ParseInt\<close> with base 0 and 64 bits.
\<close>

section \<open>Values\<close>

definition bool_texts :: "string list" where
  "bool_texts = [''1'', ''t'', ''T'', ''TRUE'', ''true'', ''True'', ''0'', ''f'', ''F'', ''FALSE'', ''false'', ''False'']"

definition true_texts :: "string list" where
  "true_texts = [''1'', ''t'', ''T'', ''TRUE'', ''true'', ''True'']"

definition digit_of :: "char \<Rightarrow> int option" where
  "digit_of c =
     (let n = int (of_char c); l = int (of_char (lower_char c)) in
      if is_digit c then Some (n - 48) else if 97 \<le> l \<and> l \<le> 122 then Some (l - 87) else None)"

fun read_base :: "int \<Rightarrow> int \<Rightarrow> string \<Rightarrow> int option" where
  "read_base b n [] = Some n"
| "read_base b n (c # cs) =
     (if c = CHR 0x5F then read_base b n cs
      else (case digit_of c of
              None \<Rightarrow> None
            | Some d \<Rightarrow> if b \<le> d then None else read_base b (n * b + d) cs))"

text \<open>Underscores only between digits or after a base prefix (\<open>underscoreOK\<close>); the last class seen is
  a digit, an underscore or neither.\<close>

datatype seen = SawDigit | SawUnderscore | SawOther

fun underscores_ok :: "bool \<Rightarrow> seen \<Rightarrow> string \<Rightarrow> bool" where
  "underscores_ok hex s [] = (s \<noteq> SawUnderscore)"
| "underscores_ok hex s (c # cs) =
     (let l = of_char (lower_char c) :: nat in
      if is_digit c \<or> hex \<and> 97 \<le> l \<and> l \<le> 102 then underscores_ok hex SawDigit cs
      else if c = CHR 0x5F then s = SawDigit \<and> underscores_ok hex SawUnderscore cs
      else s \<noteq> SawUnderscore \<and> underscores_ok hex SawOther cs)"

definition base_of :: "string \<Rightarrow> int \<times> string" where
  "base_of s =
     (case s of
        CHR ''0'' # c # d # cs \<Rightarrow>
          if lower_char c = CHR ''b'' then (2, d # cs) else if lower_char c = CHR ''o'' then (8, d # cs)
          else if lower_char c = CHR ''x'' then (16, d # cs) else (8, c # d # cs)
      | CHR ''0'' # cs \<Rightarrow> (8, cs)
      | _ \<Rightarrow> (10, s))"

definition prefixed :: "string \<Rightarrow> bool" where
  "prefixed s \<longleftrightarrow> 2 \<le> length s \<and> s ! 0 = CHR ''0'' \<and> lower_char (s ! 1) \<in> set ''box''"

definition parse_int0 :: "string \<Rightarrow> int option" where
  "parse_int0 s =
     (let (neg, u) = (case s of
            [] \<Rightarrow> (False, [])
          | c # cs \<Rightarrow> if c = CHR ''-'' then (True, cs) else if c = CHR ''+'' then (False, cs) else (False, s));
          (b, ds) = base_of u in
      if u = [] then None
      else (case read_base b 0 ds of
              None \<Rightarrow> None
            | Some n \<Rightarrow>
                if CHR 0x5F \<in> set ds \<and>
                   \<not> (if prefixed u then underscores_ok (lower_char (u ! 1) = CHR ''x'') SawDigit (drop 2 u)
                      else underscores_ok False SawOther u) then None
                else if (if neg then 2 ^ 63 < n else 2 ^ 63 - 1 < n) then None
                else Some (if neg then - n else n)))"

section \<open>Parsing\<close>

record flag_kind =
  fk_bool :: bool
  fk_accepts :: "string \<Rightarrow> bool"

definition text_flag :: flag_kind where
  "text_flag = \<lparr>fk_bool = False, fk_accepts = (\<lambda>s. True)\<rparr>"

definition int_flag :: flag_kind where
  "int_flag = \<lparr>fk_bool = False, fk_accepts = (\<lambda>s. parse_int0 s \<noteq> None)\<rparr>"

definition bool_flag :: flag_kind where
  "bool_flag = \<lparr>fk_bool = True, fk_accepts = (\<lambda>s. s \<in> set bool_texts)\<rparr>"

type_synonym flag_set = "string \<Rightarrow> flag_kind option"
type_synonym assignments = "(string \<times> string) list"

datatype flag_error = FlagHelp | FlagBad string

text \<open>One argument: its flag, what it assigns, and the arguments left.\<close>

datatype one_flag = NoFlag "string list" | Assign string string "string list" | Wrong flag_error

definition flag_name :: "string \<Rightarrow> string option" where
  "flag_name s =
     (case s of
        CHR ''-'' # CHR ''-'' # n \<Rightarrow> Some n
      | CHR ''-'' # n \<Rightarrow> Some n
      | _ \<Rightarrow> None)"

text \<open>A name that starts with the equals sign is an error, so the value starts at a later one.\<close>

definition assign_flag :: "flag_set \<Rightarrow> string \<Rightarrow> string list \<Rightarrow> one_flag" where
  "assign_flag fs text rest =
     (let (name, value, has_value) = cut (CHR ''='') text in
      case fs name of
        None \<Rightarrow>
          if name = ''help'' \<or> name = ''h'' then Wrong FlagHelp
          else Wrong (FlagBad (''flag provided but not defined: -'' @ name))
      | Some k \<Rightarrow>
          if fk_bool k
          then (if has_value \<and> \<not> fk_accepts k value
                then Wrong (FlagBad (''invalid boolean value for -'' @ name))
                else Assign name (if has_value then value else ''true'') rest)
          else (case (if has_value then Some (value, rest)
                      else case rest of [] \<Rightarrow> None | v # vs \<Rightarrow> Some (v, vs)) of
                  None \<Rightarrow> Wrong (FlagBad (''flag needs an argument: -'' @ name))
                | Some (v, vs) \<Rightarrow>
                    if fk_accepts k v then Assign name v vs
                    else Wrong (FlagBad (''invalid value for flag -'' @ name))))"

definition parse_one :: "flag_set \<Rightarrow> string \<Rightarrow> string list \<Rightarrow> one_flag" where
  "parse_one fs s rest =
     (if length s < 2 then NoFlag (s # rest)
      else (case flag_name s of
              None \<Rightarrow> NoFlag (s # rest)
            | Some n \<Rightarrow>
                if s = ''--'' then NoFlag rest
                else if n = [] \<or> hd n = CHR ''-'' \<or> hd n = CHR ''='' then Wrong (FlagBad (''bad flag syntax: '' @ s))
                else assign_flag fs n rest))"

lemma assign_flag_shorter: "assign_flag fs n rest = Assign x v left \<Longrightarrow> length left \<le> length rest"
  by (auto simp: assign_flag_def split: prod.splits option.splits if_splits list.splits)

lemma parse_one_shorter: "parse_one fs s rest = Assign x v left \<Longrightarrow> length left \<le> length rest"
  by (auto simp: parse_one_def assign_flag_shorter split: if_splits option.splits)

function (sequential) parse_flags :: "flag_set \<Rightarrow> string list \<Rightarrow> flag_error + assignments \<times> string list" where
  "parse_flags fs [] = Inr ([], [])"
| "parse_flags fs (s # rest) =
     (case parse_one fs s rest of
        NoFlag left \<Rightarrow> Inr ([], left)
      | Wrong e \<Rightarrow> Inl e
      | Assign n v left \<Rightarrow>
          (case parse_flags fs left of Inl e \<Rightarrow> Inl e | Inr (as, left) \<Rightarrow> Inr ((n, v) # as, left)))"
  by pat_completeness auto
termination
  by (relation "measure (\<lambda>(fs, args). length args)") (auto simp: less_Suc_eq_le dest: parse_one_shorter)

text \<open>The last assignment counts; \<open>Visit\<close> sees what was assigned.\<close>

definition flag_text :: "assignments \<Rightarrow> string \<Rightarrow> string \<Rightarrow> string" where
  "flag_text as name dflt = (case map_of (rev as) name of None \<Rightarrow> dflt | Some v \<Rightarrow> v)"

definition flag_int :: "assignments \<Rightarrow> string \<Rightarrow> int \<Rightarrow> int" where
  "flag_int as name dflt =
     (case map_of (rev as) name of None \<Rightarrow> dflt | Some v \<Rightarrow> (case parse_int0 v of None \<Rightarrow> dflt | Some n \<Rightarrow> n))"

definition flag_bool :: "assignments \<Rightarrow> string \<Rightarrow> bool \<Rightarrow> bool" where
  "flag_bool as name dflt = (case map_of (rev as) name of None \<Rightarrow> dflt | Some v \<Rightarrow> v \<in> set true_texts)"

definition specified :: "assignments \<Rightarrow> string \<Rightarrow> bool" where
  "specified as name \<longleftrightarrow> name \<in> fst ` set as"

text \<open>\<open>flagError\<close>: asking for help is no failure.\<close>

fun flag_failure :: "flag_error \<Rightarrow> err + unit" where
  "flag_failure FlagHelp = Inr ()"
| "flag_failure (FlagBad m) = Inl (ErrMsg m)"

section \<open>What parsing yields\<close>

lemma assign_flag_known:
  "assign_flag fs n rest = Assign x v left \<Longrightarrow>
     \<exists>k. fs x = Some k \<and> (fk_accepts k v \<or> fk_bool k \<and> v = ''true'')"
  by (auto simp: assign_flag_def split: prod.splits option.splits if_splits list.splits)

lemma parse_flags_known:
  "parse_flags fs args = Inr (as, left) \<Longrightarrow> (n, v) \<in> set as \<Longrightarrow>
     \<exists>k. fs n = Some k \<and> (fk_accepts k v \<or> fk_bool k \<and> v = ''true'')"
proof (induction fs args arbitrary: as left rule: parse_flags.induct)
  case (2 fs s rest)
  show ?case
  proof (cases "parse_one fs s rest")
    case (Assign m x rem)
    then obtain bs where bs: "parse_flags fs rem = Inr (bs, left)" "as = (m, x) # bs"
      using 2(2) by (auto split: sum.splits)
    have "\<exists>n. assign_flag fs n rest = Assign m x rem"
      using Assign by (auto simp: parse_one_def split: if_splits option.splits)
    then show ?thesis using bs 2(3) 2(1) [OF Assign bs(1)] assign_flag_known by (metis prod.inject set_ConsD)
  qed (use 2 in auto)
qed simp

text \<open>A value that a flag set accepts for a number is one.\<close>

lemma parsed_int:
  assumes "parse_flags fs args = Inr (as, left)" "fs n = Some int_flag" "map_of (rev as) n = Some v"
  shows "parse_int0 v \<noteq> None"
proof -
  have "(n, v) \<in> set as" using map_of_SomeD [OF assms(3)] by simp
  then show ?thesis using parse_flags_known [OF assms(1)] assms(2) by (fastforce simp: int_flag_def)
qed

end
