(* ===== verification/Command.thy ===== *)
theory Command
  imports Flags TokenFile ControlHTTP ControlCatalog LobbyWorker SecureHTTP Native FleetPage
begin

text \<open>
  The command line (cmd/insta-game/main.go, internal/command/command.go and discord.go): choosing a command,
  the client of a controller, setting a controller up, its power-off callback and the registration of Discord
  commands. HTTP, JSON and durations are parameters; usage texts are left out. The lemmas join the client with the
  controller's routes of ControlHTTP.
\<close>

section \<open>Choosing a command\<close>

datatype command_call =
    Help | AgentHelp | RunFleetHost | RunLambda | RunDiscord "string list" | RunAws "string list"
  | RunWake "string list" | RunServe "string list" | RunAgentFile string | RunAgent
  | RunClient string "string list" | Refused err

definition agent_call :: "string list \<Rightarrow> command_call" where
  "agent_call args =
     (case args of
        [] \<Rightarrow> RunAgent
      | [a, path] \<Rightarrow> if a = ''--config'' then RunAgentFile path
          else Refused (ErrMsg ''agent accepts no flags; configure GAME_CMD, TOKEN and GAME_* variables'')
      | [a] \<Rightarrow> if a = ''-h'' \<or> a = ''--help'' then AgentHelp
          else Refused (ErrMsg ''agent accepts no flags; configure GAME_CMD, TOKEN and GAME_* variables'')
      | _ \<Rightarrow> Refused (ErrMsg ''agent accepts no flags; configure GAME_CMD, TOKEN and GAME_* variables''))"

definition run_command :: "string list \<Rightarrow> command_call" where
  "run_command args =
     (case args of
        [] \<Rightarrow> Help
      | c # rest \<Rightarrow>
          if c = ''help'' \<or> c = ''--help'' then Help
          else if c = ''fleet-host'' then RunFleetHost
          else if c = ''lambda'' then RunLambda
          else if c = ''discord'' then RunDiscord rest
          else if c = ''aws'' then RunAws rest
          else if c = ''wake'' then RunWake rest
          else if c = ''serve'' then RunServe rest
          else if c = ''agent'' then agent_call rest
          else RunClient c rest)"

definition main_args :: "(string \<Rightarrow> string) \<Rightarrow> string list \<Rightarrow> string list" where
  "main_args env args = (if env ''AWS_LAMBDA_RUNTIME_API'' \<noteq> [] then [''lambda''] else args)"

text \<open>The exit code: being canceled is no failure.\<close>

definition exit_code :: "err option \<Rightarrow> int" where
  "exit_code r = (case r of None \<Rightarrow> 0 | Some e \<Rightarrow> if err_is e ErrCanceled then 0 else 1)"

section \<open>The client\<close>

definition client_path :: "string \<Rightarrow> string option" where
  "client_path = map_of
     [(''games'', ''/catalog''), (''list'', ''/instances''), (''create'', ''/instances''), (''show'', []), (''start'', []),
      (''stop'', []), (''delete'', []), (''logs'', []), (''console'', [])]"

definition client_flags :: "string \<Rightarrow> flag_set" where
  "client_flags cmd n =
     (if n = ''url'' \<or> n = ''token-file'' then Some text_flag
      else if cmd \<noteq> ''create'' then None
      else if n \<in> set [''id'', ''provider'', ''game'', ''name'', ''config''] then Some text_flag
      else if n = ''idle'' \<or> n = ''max-runtime'' then Some int_flag else None)"

record client_json =
  cj_create :: "create_request \<Rightarrow> err + string"
  cj_command :: "string \<Rightarrow> string"
  cj_indent :: "string \<Rightarrow> err + string"

definition client_create :: "assignments \<Rightarrow> string option \<Rightarrow> create_request" where
  "client_create as config =
     \<lparr>cq_provider = flag_text as ''provider'' [], cq_id = flag_text as ''id'' [], cq_game = flag_text as ''game'' [],
      cq_name = flag_text as ''name'' [], cq_config = config, cq_idle_minutes = flag_int as ''idle'' 10,
      cq_max_minutes = flag_int as ''max-runtime'' 120\<rparr>"

record target =
  tg_method :: string
  tg_path :: string
  tg_body :: string

definition create_target :: "'w files \<Rightarrow> client_json \<Rightarrow> assignments \<Rightarrow> ('w, target) io" where
  "create_target fs cj as w =
     (let config = flag_text as ''config'' [];
          build = (\<lambda>config. case cj_create cj (client_create as config) of
              Inl e \<Rightarrow> Inl e
            | Inr data \<Rightarrow> Inr \<lparr>tg_method = ''POST'', tg_path = ''/instances'', tg_body = data\<rparr>)
      in if config = [] then (build None, w)
         else (case fi_read fs config w of
                 (Inl e, w) \<Rightarrow> (Inl e, w)
               | (Inr value, w) \<Rightarrow> (build (Some value), w)))"

definition server_target :: "client_json \<Rightarrow> string \<Rightarrow> string list \<Rightarrow> err + target" where
  "server_target cj cmd args =
     (case args of
        [] \<Rightarrow> Inl (ErrMsg (cmd @ '' requires a server ID''))
      | i # rest \<Rightarrow>
          if contains_any i ''/?#'' then Inl (ErrMsg ''invalid server ID'')
          else (let path = ''/instances/'' @ i; get = \<lparr>tg_method = ''GET'', tg_path = path, tg_body = []\<rparr> in
            if cmd = ''start'' \<or> cmd = ''stop''
            then Inr (get\<lparr>tg_method := ''POST'', tg_path := path @ ''/'' @ cmd\<rparr>)
            else if cmd = ''delete'' then Inr (get\<lparr>tg_method := ''DELETE''\<rparr>)
            else if cmd = ''logs'' then Inr (get\<lparr>tg_path := path @ ''/logs''\<rparr>)
            else if cmd = ''console''
            then (if rest = [] then Inl (ErrMsg ''console requires a server ID and command'')
                  else Inr \<lparr>tg_method = ''POST'', tg_path = path @ ''/console'',
                            tg_body = cj_command cj (join_with '' '' rest)\<rparr>)
            else Inr get))"

definition client_target ::
  "'w files \<Rightarrow> client_json \<Rightarrow> string \<Rightarrow> string \<Rightarrow> assignments \<Rightarrow> string list \<Rightarrow> ('w, target) io" where
  "client_target fs cj cmd path as args w =
     (if cmd = ''create'' then create_target fs cj as w
      else if path = [] then (server_target cj cmd args, w)
      else (Inr \<lparr>tg_method = ''GET'', tg_path = path, tg_body = []\<rparr>, w))"

text \<open>A request that \<open>net/http\<close> accepts, and its answer: a body that ends, or fails, after its data.\<close>

record 'w client_calls =
  cl_url :: "string \<Rightarrow> err option"
  cl_do :: "http_request \<Rightarrow> ('w, int \<times> string \<times> err option) io"

definition trim_right :: "char \<Rightarrow> string \<Rightarrow> string" where
  "trim_right c s = rev (dropWhile (\<lambda>x. x = c) (rev s))"

text \<open>What is printed, and the error.\<close>

definition client_answer :: "client_json \<Rightarrow> string \<Rightarrow> int \<times> string \<times> err option \<Rightarrow> string \<times> err option" where
  "client_answer cj cmd res =
     (case res of (status, data, broken) \<Rightarrow>
        if 300 \<le> status then ([], Some (ErrMsg (''HTTP '' @ show_int status @ '': '' @ take 8192 data)))
        else if cmd = ''logs'' then (data, broken)
        else (case broken of
                Some e \<Rightarrow> ([], Some e)
              | None \<Rightarrow> (case cj_indent cj data of Inl e \<Rightarrow> ([], Some e) | Inr s \<Rightarrow> (s @ [CHR 0x0A], None))))"

definition client_send ::
  "'w files \<Rightarrow> 'w token_calls \<Rightarrow> client_json \<Rightarrow> 'w client_calls \<Rightarrow> string \<Rightarrow> assignments \<Rightarrow> target \<Rightarrow>
     'w \<Rightarrow> (string \<times> err option) \<times> 'w" where
  "client_send fs tk cj cl cmd as t w =
     (case token_at fs tk (flag_text as ''token-file'' ''.insta-game/token'') False w of
        (Inl e, w) \<Rightarrow> (([], Some e), w)
      | (Inr token, w) \<Rightarrow>
          (let url = trim_right CHR ''/'' (flag_text as ''url'' ''http://127.0.0.1:3000'') @ ''/api'' @ tg_path t in
           case cl_url cl url of
             Some e \<Rightarrow> (([], Some e), w)
           | None \<Rightarrow>
               (case cl_do cl \<lparr>rq_method = tg_method t, rq_url = url, rq_bearer = token, rq_pinned = True, rq_body = tg_body t\<rparr> w of
                  (Inl e, w) \<Rightarrow> (([], Some e), w)
                | (Inr res, w) \<Rightarrow> (client_answer cj cmd res, w))))"

definition client ::
  "'w files \<Rightarrow> 'w token_calls \<Rightarrow> client_json \<Rightarrow> 'w client_calls \<Rightarrow> string \<Rightarrow> string list \<Rightarrow>
     'w \<Rightarrow> (string \<times> err option) \<times> 'w" where
  "client fs tk cj cl cmd args w =
     (case client_path cmd of
        None \<Rightarrow> (([], Some (ErrMsg (''unknown command '' @ quoted cmd @ ''; run insta-game help''))), w)
      | Some path \<Rightarrow>
          (case parse_flags (client_flags cmd) args of
             Inl e \<Rightarrow> (([], case flag_failure e of Inl m \<Rightarrow> Some m | Inr u \<Rightarrow> None), w)
           | Inr (as, rest) \<Rightarrow>
               (case client_target fs cj cmd path as rest w of
                  (Inl e, w) \<Rightarrow> (([], Some e), w)
                | (Inr t, w) \<Rightarrow> client_send fs tk cj cl cmd as t w)))"

section \<open>What a command means to the controller\<close>

definition command_route :: "string \<Rightarrow> string \<Rightarrow> route" where
  "command_route cmd i =
     (if cmd = ''games'' then RCatalog else if cmd = ''list'' then RList
      else if cmd = ''create'' then RCreate else if cmd = ''show'' then RGet i
      else if cmd = ''delete'' then RDelete i else if cmd = ''logs'' then RLogs i
      else if cmd = ''console'' then RConsole i else RAction i cmd)"

lemma valid_id_plain: "valid_id i \<Longrightarrow> i \<noteq> [] \<and> (\<forall>c\<in>set i. is_lower_alnum c \<or> c = CHR ''-'')"
  by (cases i) (auto simp: list_all_iff)

lemma valid_id_no_slash: "valid_id i \<Longrightarrow> CHR ''/'' \<notin> set i"
  using valid_id_plain [of i] by (auto simp: is_lower_alnum_def is_digit_def)

lemma plain_segment: "CHR ''/'' \<notin> set i \<Longrightarrow> split_on CHR ''/'' (''instances/'' @ i) = [''instances'', i]"
  using split_on_append [of "CHR ''/''" "''instances''" i] split_on_plain [of "CHR ''/''" i] by simp

lemma two_segments:
  "CHR ''/'' \<notin> set i \<Longrightarrow> CHR ''/'' \<notin> set a \<Longrightarrow>
     split_on CHR ''/'' (''instances/'' @ i @ ''/'' @ a) = [''instances'', i, a]"
  using split_on_append [of "CHR ''/''" "''instances''" "i @ CHR ''/'' # a"] split_on_append [of "CHR ''/''" i a]
    split_on_plain [of "CHR ''/''" a] by simp

lemma api_instances:
  assumes p: "p = ''/api/'' @ s" and s: "split_on CHR ''/'' s = ''instances'' # segs" "segs \<noteq> []"
  shows "route_of st m p =
    (case instance_route m segs of Some r \<Rightarrow> r | None \<Rightarrow> if m = ''GET'' \<or> m = ''HEAD'' then RStatic else RNone)"
proof -
  have "has_prefix p ''/api/''" "drop 5 p = s" unfolding p by (simp_all add: has_prefix_def)
  moreover have "api_route m (''instances'' # segs) = instance_route m segs"
    using s(2) by (simp add: api_route_def Let_def)
  ultimately show ?thesis using s(1) by (simp add: route_of_def)
qed

lemma route_one:
  "CHR ''/'' \<notin> set i \<Longrightarrow> p = ''/api'' @ ''/instances/'' @ i \<Longrightarrow> route_of st m p =
    (case instance_route m [i] of Some r \<Rightarrow> r | None \<Rightarrow> if m = ''GET'' \<or> m = ''HEAD'' then RStatic else RNone)"
  by (rule api_instances [OF _ plain_segment]) simp_all

lemma route_two:
  "CHR ''/'' \<notin> set i \<Longrightarrow> CHR ''/'' \<notin> set x \<Longrightarrow> p = ''/api'' @ ''/instances/'' @ i @ ''/'' @ x \<Longrightarrow>
   route_of st m p =
    (case instance_route m [i, x] of Some r \<Rightarrow> r | None \<Rightarrow> if m = ''GET'' \<or> m = ''HEAD'' then RStatic else RNone)"
  by (rule api_instances [OF _ two_segments]) simp_all

text \<open>The requests to one server, by the command that makes them.\<close>

lemma server_target_parts:
  "server_target cj ''show'' (i # rest) = Inr t \<Longrightarrow> tg_path t = ''/instances/'' @ i \<and> tg_method t = ''GET''"
  "server_target cj ''delete'' (i # rest) = Inr t \<Longrightarrow> tg_path t = ''/instances/'' @ i \<and> tg_method t = ''DELETE''"
  "server_target cj ''logs'' (i # rest) = Inr t \<Longrightarrow> tg_path t = ''/instances/'' @ i @ ''/'' @ ''logs'' \<and> tg_method t = ''GET''"
  "server_target cj ''console'' (i # rest) = Inr t \<Longrightarrow>
     tg_path t = ''/instances/'' @ i @ ''/'' @ ''console'' \<and> tg_method t = ''POST''"
  "server_target cj ''start'' (i # rest) = Inr t \<Longrightarrow> tg_path t = ''/instances/'' @ i @ ''/'' @ ''start'' \<and> tg_method t = ''POST''"
  "server_target cj ''stop'' (i # rest) = Inr t \<Longrightarrow> tg_path t = ''/instances/'' @ i @ ''/'' @ ''stop'' \<and> tg_method t = ''POST''"
  by (simp_all add: server_target_def Let_def split: if_splits) force+

lemma server_routes:
  assumes "valid_id i"
  shows "server_target cj ''show'' (i # rest) = Inr t \<Longrightarrow> route_of st (tg_method t) (''/api'' @ tg_path t) = RGet i"
    "server_target cj ''delete'' (i # rest) = Inr t \<Longrightarrow> route_of st (tg_method t) (''/api'' @ tg_path t) = RDelete i"
    "server_target cj ''logs'' (i # rest) = Inr t \<Longrightarrow> route_of st (tg_method t) (''/api'' @ tg_path t) = RLogs i"
    "server_target cj ''console'' (i # rest) = Inr t \<Longrightarrow> route_of st (tg_method t) (''/api'' @ tg_path t) = RConsole i"
    "server_target cj ''start'' (i # rest) = Inr t \<Longrightarrow> route_of st (tg_method t) (''/api'' @ tg_path t) = RAction i ''start''"
    "server_target cj ''stop'' (i # rest) = Inr t \<Longrightarrow> route_of st (tg_method t) (''/api'' @ tg_path t) = RAction i ''stop''"
proof -
  have i: "i \<noteq> []" "CHR ''/'' \<notin> set i" using assms valid_id_plain valid_id_no_slash by auto
  note one = route_one [OF i(2) refl] and two = route_two [OF i(2) _ refl]
  show "server_target cj ''show'' (i # rest) = Inr t \<Longrightarrow> route_of st (tg_method t) (''/api'' @ tg_path t) = RGet i"
    by (simp only: server_target_parts(1) one) (simp add: instance_route_def i)
  show "server_target cj ''delete'' (i # rest) = Inr t \<Longrightarrow> route_of st (tg_method t) (''/api'' @ tg_path t) = RDelete i"
    by (simp only: server_target_parts(2) one) (simp add: instance_route_def i)
  show "server_target cj ''logs'' (i # rest) = Inr t \<Longrightarrow> route_of st (tg_method t) (''/api'' @ tg_path t) = RLogs i"
    by (simp only: server_target_parts(3)) (subst two, simp, simp add: instance_route_def i)
  show "server_target cj ''console'' (i # rest) = Inr t \<Longrightarrow> route_of st (tg_method t) (''/api'' @ tg_path t) = RConsole i"
    by (simp only: server_target_parts(4)) (subst two, simp, simp add: instance_route_def i)
  show "server_target cj ''start'' (i # rest) = Inr t \<Longrightarrow> route_of st (tg_method t) (''/api'' @ tg_path t) = RAction i ''start''"
    by (simp only: server_target_parts(5)) (subst two, simp, simp add: instance_route_def i)
  show "server_target cj ''stop'' (i # rest) = Inr t \<Longrightarrow> route_of st (tg_method t) (''/api'' @ tg_path t) = RAction i ''stop''"
    by (simp only: server_target_parts(6)) (subst two, simp, simp add: instance_route_def i)
qed

lemma listing_routes:
  "route_of st ''GET'' (''/api'' @ ''/catalog'') = RCatalog" "route_of st ''GET'' (''/api'' @ ''/instances'') = RList"
  "route_of st ''POST'' (''/api'' @ ''/instances'') = RCreate"
  by (simp_all add: route_of_def api_route_def has_prefix_def)

lemma client_paths:
  "client_path cmd = Some path \<Longrightarrow>
     cmd = ''games'' \<and> path = ''/catalog'' \<or> (cmd = ''list'' \<or> cmd = ''create'') \<and> path = ''/instances'' \<or>
     path = [] \<and> (cmd = ''show'' \<or> cmd = ''start'' \<or> cmd = ''stop'' \<or> cmd = ''delete'' \<or> cmd = ''logs'' \<or> cmd = ''console'')"
  by (auto simp: client_path_def split: if_splits)

lemma create_target_parts:
  "create_target fs cj as w = (Inr t, w1) \<Longrightarrow> tg_method t = ''POST'' \<and> tg_path t = ''/instances''"
  by (auto simp: create_target_def Let_def split: sum.splits prod.splits if_splits)

lemma route_commands:
  "command_route ''games'' i = RCatalog" "command_route ''list'' i = RList" "command_route ''create'' i = RCreate"
  "command_route ''show'' i = RGet i" "command_route ''delete'' i = RDelete i" "command_route ''logs'' i = RLogs i"
  "command_route ''console'' i = RConsole i" "command_route ''start'' i = RAction i ''start''"
  "command_route ''stop'' i = RAction i ''stop''"
  by (simp_all add: command_route_def)

lemma client_target_route:
  assumes path: "client_path cmd = Some path" and t: "client_target fs cj cmd path as rest w = (Inr t, w1)"
    and i: "path = [] \<longrightarrow> valid_id (hd rest)"
  shows "route_of st (tg_method t) (''/api'' @ tg_path t) = command_route cmd (hd rest)"
proof (cases "path = []")
  case True
  then have not_create: "cmd \<noteq> ''create''" using path by (auto simp: client_path_def)
  then have s: "server_target cj cmd rest = Inr t" using t True by (simp add: client_target_def)
  then obtain k more where k: "rest = k # more" by (cases rest) (auto simp: server_target_def)
  have v: "valid_id k" using i True k by simp
  have one: "cmd = ''show'' \<or> cmd = ''start'' \<or> cmd = ''stop'' \<or> cmd = ''delete'' \<or> cmd = ''logs'' \<or> cmd = ''console''"
    using client_paths [OF path] True by auto
  note routes = server_routes [OF v, where rest = more and st = st and cj = cj and t = t]
  show ?thesis using one
    by (elim disjE) (use s routes in \<open>simp_all only: k list.sel route_commands\<close>)
next
  case False
  then have cases: "cmd = ''games'' \<and> path = ''/catalog'' \<or> cmd = ''list'' \<and> path = ''/instances'' \<or> cmd = ''create''"
    using client_paths [OF path] by blast
  show ?thesis
  proof (cases "cmd = ''create''")
    case True
    then have "create_target fs cj as w = (Inr t, w1)" using t by (simp add: client_target_def)
    then have "tg_method t = ''POST''" "tg_path t = ''/instances''" using create_target_parts by metis+
    then show ?thesis using True by (simp only: listing_routes route_commands)
  next
    case other: False
    then have "tg_method t = ''GET''" "tg_path t = path" using t False by (auto simp: client_target_def)
    then show ?thesis using cases other by (elim disjE) (simp_all only: listing_routes route_commands simp_thms)
  qed
qed

section \<open>The controller's power-off\<close>

text \<open>The callback of \<open>serve\<close>: a lobby's requests first, then the database.\<close>

definition serve_poweroff ::
  "('w, 't) lobby_worker option \<Rightarrow> ('w, 't) controller \<Rightarrow> ('w \<Rightarrow> err option \<times> 'w) \<Rightarrow> bool \<Rightarrow>
     'w \<Rightarrow> ((bool \<times> err option) \<times> bool) \<times> 'w" where
  "serve_poweroff lobby ct systemctl down w =
     (let (r, w) = (case lobby of
              None \<Rightarrow> (Inr False, w)
            | Some k \<Rightarrow> (let (t, w) = ct_clock ct w in lobby_pending k t w))
      in case r of
           Inl e \<Rightarrow> (((False, Some e), down), w)
         | Inr pending \<Rightarrow>
             if pending then (((False, None), down), w)
             else (case begin_idle_shutdown ct down w of
                     ((Inl e, down), w) \<Rightarrow> (((False, Some e), down), w)
                   | ((Inr committed, down), w) \<Rightarrow>
                       if \<not> committed then (((False, None), down), w)
                       else (let (e, w) = systemctl w in (((True, e), down), w))))"

section \<open>Setting a controller up\<close>

text \<open>The flags of \<open>serve\<close>; \<open>dur\<close> reads a duration.\<close>

definition serve_flags :: "(string \<Rightarrow> int option) \<Rightarrow> flag_set" where
  "serve_flags dur n =
     (if n = ''tls'' then Some bool_flag
      else if n = ''poweroff-idle'' then Some \<lparr>fk_bool = False, fk_accepts = (\<lambda>s. dur s \<noteq> None)\<rparr>
      else if n \<in> set [''listen'', ''data'', ''discord-key'', ''discord-guild'', ''native-config'', ''default-provider'',
                       ''catalog'', ''docker-socket'', ''public-host'', ''game-bind''] then Some text_flag else None)"

record served =
  sv_listen :: string
  sv_idle :: int
  sv_games :: "game list"
  sv_token :: string
  sv_engines :: "(string \<Rightarrow> native_game option) option"
  sv_native_root :: string
  sv_native_binary :: string
  sv_default :: string
  sv_discord_key :: string
  sv_discord_guild :: string
  sv_lobby :: "string list option"
  sv_certificate :: "certificate option"

record 'w serve_calls =
  so_dur :: "string \<Rightarrow> int option"
  so_env :: "string \<Rightarrow> string"
  so_catalog :: catalog_files
  so_open_store :: "string \<Rightarrow> ('w, unit) io"
  so_linux :: bool
  so_engines :: "string \<Rightarrow> err + (string \<Rightarrow> native_game option)"
  so_abs :: "string \<Rightarrow> err + string"
  so_executable :: "err + string"
  so_sdk :: "string \<Rightarrow> ('w, unit) io"

definition serve_idle :: "'w serve_calls \<Rightarrow> assignments \<Rightarrow> int" where
  "serve_idle so as =
     (case map_of (rev as) ''poweroff-idle'' of None \<Rightarrow> 0 | Some v \<Rightarrow> (case so_dur so v of None \<Rightarrow> 0 | Some d \<Rightarrow> d))"

text \<open>The native engines, with the directory of their instances and the agent's executable.\<close>

definition serve_engines ::
  "'w files \<Rightarrow> 'w serve_calls \<Rightarrow> string \<Rightarrow> string \<Rightarrow>
     ('w, ((string \<Rightarrow> native_game option) \<times> string \<times> string) option) io" where
  "serve_engines fs so config data_dir w =
     (if config = [] then (Inr None, w)
      else if \<not> so_linux so then (Inl (ErrMsg ''native process supervision currently requires Linux''), w)
      else (case fi_read fs config w of
              (Inl e, w) \<Rightarrow> (Inl e, w)
            | (Inr data, w) \<Rightarrow>
                (case so_engines so data of
                   Inl e \<Rightarrow> Inl e
                 | Inr engines \<Rightarrow>
                     (case so_abs so (path_join [data_dir, ''native'']) of
                        Inl e \<Rightarrow> Inl e
                      | Inr root \<Rightarrow>
                          (case so_executable so of Inl e \<Rightarrow> Inl e | Inr binary \<Rightarrow> Inr (Some (engines, root, binary)))), w)))"

definition serve_discord :: "string \<Rightarrow> string \<Rightarrow> err + string \<times> string" where
  "serve_discord key guild =
     (if key = [] then Inr ([], [])
      else (case hex_decode key of
              None \<Rightarrow> Inl (ErrMsg ''Discord requires a 32-byte public key and an allowed guild ID'')
            | Some bytes \<Rightarrow>
                if length bytes \<noteq> 32 \<or> guild = []
                then Inl (ErrMsg ''Discord requires a 32-byte public key and an allowed guild ID'')
                else Inr (map char_of bytes, guild)))"

definition serve_lobby :: "'w serve_calls \<Rightarrow> ('w, string list option) io" where
  "serve_lobby so w =
     (if so_env so ''INSTA_GAME_LOBBY_TABLE'' = [] then (Inr None, w)
      else (case parse_ids (so_env so ''INSTA_GAME_LOBBY_INSTANCES'') of
              Inl e \<Rightarrow> (Inl e, w)
            | Inr is \<Rightarrow>
                (case so_sdk so (so_env so ''AWS_REGION'') w of (Inl e, w) \<Rightarrow> (Inl e, w) | (Inr u, w) \<Rightarrow> (Inr (Some is), w))))"

definition serve_certificate :: "'w tls_lib \<Rightarrow> bool \<Rightarrow> string \<Rightarrow> ('w, certificate option) io" where
  "serve_certificate l tls token w =
     (if \<not> tls then (Inr None, w)
      else (case server_tls l token w of (Inl e, w) \<Rightarrow> (Inl e, w) | (Inr c, w) \<Rightarrow> (Inr (Some c), w)))"

text \<open>From the opened store to the listener.\<close>

definition serve_with ::
  "'w files \<Rightarrow> 'w token_calls \<Rightarrow> 'w serve_calls \<Rightarrow> 'w tls_lib \<Rightarrow> assignments \<Rightarrow> game list \<Rightarrow> ('w, served) io" where
  "serve_with fs tk so l as games w =
     (let data_dir = flag_text as ''data'' ''.insta-game''; provider = flag_text as ''default-provider'' ''docker'' in
      case token_at fs tk (path_join [data_dir, ''token'']) True w of
        (Inl e, w) \<Rightarrow> (Inl e, w)
      | (Inr token, w) \<Rightarrow>
          (case serve_engines fs so (flag_text as ''native-config'' []) data_dir w of
             (Inl e, w) \<Rightarrow> (Inl e, w)
           | (Inr engines, w) \<Rightarrow>
               if provider \<noteq> ''docker'' \<and> (provider \<noteq> ''local'' \<or> engines = None)
               then (Inl (ErrMsg (''default provider '' @ quoted provider @ '' is not configured'')), w)
               else (case serve_discord (flag_text as ''discord-key'' (so_env so ''DISCORD_PUBLIC_KEY''))
                            (flag_text as ''discord-guild'' (so_env so ''DISCORD_GUILD_ID'')) of
                       Inl e \<Rightarrow> (Inl e, w)
                     | Inr (key, guild) \<Rightarrow>
                         (case serve_lobby so w of
                            (Inl e, w) \<Rightarrow> (Inl e, w)
                          | (Inr lobby, w) \<Rightarrow>
                              (case serve_certificate l (flag_bool as ''tls'' False) token w of
                                 (Inl e, w) \<Rightarrow> (Inl e, w)
                               | (Inr c, w) \<Rightarrow>
                                   (Inr \<lparr>sv_listen = flag_text as ''listen'' ''127.0.0.1:3000'', sv_idle = serve_idle so as,
                                      sv_games = games, sv_token = token, sv_engines = map_option fst engines,
                                      sv_native_root = (case engines of None \<Rightarrow> [] | Some x \<Rightarrow> fst (snd x)),
                                      sv_native_binary = (case engines of None \<Rightarrow> [] | Some x \<Rightarrow> snd (snd x)),
                                      sv_default = provider, sv_discord_key = key, sv_discord_guild = guild,
                                      sv_lobby = lobby, sv_certificate = c\<rparr>, w))))))"

definition serve_setup ::
  "'w files \<Rightarrow> 'w token_calls \<Rightarrow> 'w serve_calls \<Rightarrow> 'w tls_lib \<Rightarrow> assignments \<Rightarrow> ('w, served) io" where
  "serve_setup fs tk so l as w =
     (if serve_idle so as < 0 then (Inl (ErrMsg ''poweroff-idle must not be negative''), w)
      else (case load_catalog (so_catalog so) (flag_text as ''catalog'' ''docker-containers'') of
              Inl e \<Rightarrow> (Inl e, w)
            | Inr games \<Rightarrow>
                (case so_open_store so (path_join [flag_text as ''data'' ''.insta-game'', ''instances.db'']) w of
                   (Inl e, w) \<Rightarrow> (Inl e, w)
                 | (Inr u, w) \<Rightarrow> serve_with fs tk so l as games w)))"

definition serve_providers :: "served \<Rightarrow> string list" where
  "serve_providers sv = ''docker'' # (if sv_engines sv = None then [] else [''local''])"

text \<open>What the handler of ControlHTTP gets, and the controller its providers.\<close>

definition served_site :: "site \<Rightarrow> served \<Rightarrow> site" where
  "served_site st sv = st\<lparr>si_token := sv_token sv, si_discord_key := sv_discord_key sv,
     si_discord_guild := sv_discord_guild sv, si_providers := serve_providers sv\<rparr>"

section \<open>Discord commands\<close>

definition numeric :: "string \<Rightarrow> bool" where
  "numeric s \<longleftrightarrow> s \<noteq> [] \<and> list_all is_digit s"

definition discord_flags :: flag_set where
  "discord_flags n = (if n \<in> set [''catalog'', ''application'', ''guild''] then Some text_flag else None)"

record 'w discord_calls =
  dq_commands :: "(string \<times> string \<times> command_option list) list \<Rightarrow> err + string"
  dq_put :: "string \<Rightarrow> string \<Rightarrow> string \<Rightarrow> ('w, int \<times> string) io"

definition discord_register ::
  "(string \<Rightarrow> string) \<Rightarrow> 'w discord_calls \<Rightarrow> assignments \<Rightarrow> string \<Rightarrow> ('w, string) io" where
  "discord_register env dq as body w =
     (let application = flag_text as ''application'' (env ''DISCORD_APP_ID'');
          guild = flag_text as ''guild'' (env ''DISCORD_GUILD_ID'')
      in if \<not> numeric application \<or> \<not> numeric guild \<or> env ''DISCORD_BOT_TOKEN'' = []
         then (Inl (ErrMsg ''registration requires numeric application/guild IDs and DISCORD_BOT_TOKEN''), w)
         else (case dq_put dq (''https://discord.com/api/v10/applications/'' @ application @ ''/guilds/'' @ guild @ ''/commands'')
                           (''Bot '' @ env ''DISCORD_BOT_TOKEN'') body w of
                 (Inl e, w) \<Rightarrow> (Inl e, w)
               | (Inr (status, data), w) \<Rightarrow>
                   (if 300 \<le> status
                    then Inl (ErrMsg (''Discord HTTP '' @ show_int status @ '': '' @ take 4096 data))
                    else Inr (''Registered create, start, stop and status commands for guild '' @ guild @ [CHR 0x0A]), w)))"

definition register_command ::
  "catalog_files \<Rightarrow> (string \<Rightarrow> string) \<Rightarrow> 'w discord_calls \<Rightarrow> string list \<Rightarrow> ('w, string) io" where
  "register_command cf env dq args w =
     (case args of
        [] \<Rightarrow> (Inl (ErrMsg ''use discord commands or register''), w)
      | act # rest \<Rightarrow>
          if act \<noteq> ''commands'' \<and> act \<noteq> ''register'' then (Inl (ErrMsg ''use discord commands or register''), w)
          else (case parse_flags discord_flags rest of
                  Inl e \<Rightarrow> (case flag_failure e of Inl m \<Rightarrow> Inl m | Inr u \<Rightarrow> Inr [], w)
                | Inr (as, left) \<Rightarrow>
                    if left \<noteq> [] then (Inl (ErrMsg ''unexpected Discord command arguments''), w)
                    else (case load_catalog cf (flag_text as ''catalog'' ''docker-containers'') of
                            Inl e \<Rightarrow> (Inl e, w)
                          | Inr games \<Rightarrow>
                              (case dq_commands dq (discord_commands games) of
                                 Inl e \<Rightarrow> (Inl e, w)
                               | Inr body \<Rightarrow>
                                   if act = ''commands'' then (Inr (body @ [CHR 0x0A]), w)
                                   else discord_register env dq as body w))))"

section \<open>A client and its controller\<close>

text \<open>Requests that arrive at the controller's handler as they were sent, under the client's base URL.\<close>

definition sent_request :: "string \<Rightarrow> string \<Rightarrow> string \<Rightarrow> string \<Rightarrow> api_request" where
  "sent_request meth path token body =
     \<lparr>ar_method = meth, ar_path = path, ar_authorization = ''Bearer '' @ token, ar_timestamp = [], ar_signature = [],
      ar_body = Inr body\<rparr>"

definition to_controller ::
  "site \<Rightarrow> ('w, 't) controller \<Rightarrow> bool \<Rightarrow> string \<Rightarrow> (api_reply \<Rightarrow> int \<times> string \<times> err option) \<Rightarrow> 'w client_calls" where
  "to_controller st ct down base_url render =
     \<lparr>cl_url = (\<lambda>u. None),
      cl_do = (\<lambda>q w. case serve st ct down
          (sent_request (rq_method q) (drop (length base_url) (rq_url q)) (rq_bearer q) (rq_body q)) w of
            (rep, w) \<Rightarrow> (Inr (render rep), w))\<rparr>"

text \<open>C37. A client that holds the controller's token gets exactly what the command's own handler does and answers -
  start and stop record the intent for the named server, delete and console concern that server, list and games only
  read - and is never turned away by the token check or the router, for every command, its flags and every server
  ID the controller can have made.\<close>

theorem client_requests_are_served:
  assumes "client_path cmd = Some path" and "parse_flags (client_flags cmd) args = Inr (as, rest)"
    and "client_target fs cj cmd path as rest w = (Inr t, w1)" and "path = [] \<longrightarrow> valid_id (hd rest)"
    and "token_at fs tk (flag_text as ''token-file'' ''.insta-game/token'') False w1 = (Inr (si_token st), w2)"
    and "si_token st \<noteq> []"
  shows "client fs tk cj (to_controller st ct down (trim_right CHR ''/'' (flag_text as ''url'' ''http://127.0.0.1:3000'')) render)
      cmd args w =
    (case dispatch st ct down (sent_request (tg_method t) (''/api'' @ tg_path t) (si_token st) (tg_body t))
            (command_route cmd (hd rest)) w2 of
       (rep, w3) \<Rightarrow> (client_answer cj cmd (render rep), w3))"
proof -
  let ?q = "sent_request (tg_method t) (''/api'' @ tg_path t) (si_token st) (tg_body t)"
  have q: "ar_method ?q = tg_method t" "ar_path ?q = ''/api'' @ tg_path t" by (simp_all add: sent_request_def)
  have "bearer_ok st ?q" using assms(6) by (simp add: bearer_ok_def sent_request_def trim_prefix_def has_prefix_def)
  then have "serve st ct down ?q w2 = dispatch st ct down ?q (command_route cmd (hd rest)) w2"
    unfolding serve_def q client_target_route [OF assms(1,3,4)] by simp
  then show ?thesis
    using assms(1-3,5) by (simp add: client_def client_send_def to_controller_def Let_def split: prod.splits)
qed

text \<open>Stopping a server whose token is in the environment.\<close>

definition desk_tokens :: "'w token_calls" where
  "desk_tokens = \<lparr>tk_env = ''secret'', tk_new = (\<lambda>w. (''t'', w)), tk_create_new = (\<lambda>p md w. (Inl ErrBusy, w))\<rparr>"

definition plain_json :: client_json where
  "plain_json = \<lparr>cj_create = (\<lambda>q. Inl ErrBusy), cj_command = id, cj_indent = Inr\<rparr>"

definition show_reply :: "api_reply \<Rightarrow> int \<times> string \<times> err option" where
  "show_reply rep = (fst rep, ''ok'', None)"

theorem client_requests_are_served_witness:
  "\<exists>u. client refusing_files desk_tokens plain_json (to_controller desk_site desk_controller False ''http://h'' show_reply)
     ''stop'' [''--url'', ''http://h/'', ''q1''] busy_desk = ((''ok'' @ [CHR 0x0A], None), u) \<and> u = stopped_desk"
proof -
  have p: "client_path ''stop'' = Some []" by (simp add: client_path_def)
  have f: "parse_flags (client_flags ''stop'') [''--url'', ''http://h/'', ''q1''] = Inr ([(''url'', ''http://h/'')], [''q1''])"
    by (simp add: parse_one_def flag_name_def assign_flag_def client_flags_def text_flag_def)
  have t: "client_target refusing_files plain_json ''stop'' [] [(''url'', ''http://h/'')] [''q1''] busy_desk =
      (Inr \<lparr>tg_method = ''POST'', tg_path = ''/instances/q1/stop'', tg_body = []\<rparr>, busy_desk)"
    by (simp add: client_target_def server_target_def contains_any_def Let_def)
  have i: "[] = [] \<longrightarrow> valid_id (hd [''q1''])" by (simp add: is_lower_alnum_def is_digit_def)
  have k: "token_at refusing_files desk_tokens (flag_text [(''url'', ''http://h/'')] ''token-file'' ''.insta-game/token'') False busy_desk =
      (Inr (si_token desk_site), busy_desk)"
    by (simp add: token_at_def desk_tokens_def desk_site_def)
  have n: "si_token desk_site \<noteq> []" by (simp add: desk_site_def)
  have u: "trim_right CHR ''/'' (flag_text [(''url'', ''http://h/'')] ''url'' ''http://127.0.0.1:3000'') = ''http://h''"
    by (simp add: trim_right_def flag_text_def)
  have q: "sent_request ''POST'' (''/api'' @ ''/instances/q1/stop'') (si_token desk_site) [] = stop_request"
    by (simp add: sent_request_def stop_request_def desk_site_def)
  have d: "dispatch desk_site desk_controller False stop_request (command_route ''stop'' ''q1'') busy_desk =
      ((202, Desired ''stopped''), stopped_desk)"
    using desk_serves by (simp add: serve_def desk_route command_route_def bearer_ok_def split: if_splits)
  show ?thesis
    using client_requests_are_served [OF p f t i k n, of desk_controller False show_reply, unfolded u target.select_convs q list.sel d]
    by (simp add: show_reply_def client_answer_def plain_json_def)
qed

end
