(* ===== verification/FleetJoin.thy ===== *)
theory FleetJoin
  imports FleetHost CloudRelease CloudSafety DockerPrepare GameFiles AgentFiles AgentRcon
begin

text \<open>
  The start of a fleet host (internal/command/fleet_host.go): reading its release, finding the host of the
  registry that this machine is, fetching a game's assets, and the parts that then run, whose operations
  are in FleetHost, Controller and DockerPrepare. The metadata service, S3, EC2 and JSON are parameters,
  \<open>env\<close> is the environment. The lemmas show that a machine takes itself for a host exactly when the
  scheduler takes it for that host.
\<close>

section \<open>The release\<close>

text \<open>The JSON decoder reads one value from a body that ends, or fails, after its data.\<close>

definition load_fleet_release ::
  "('w, 't) aws \<Rightarrow> (string \<times> err option \<Rightarrow> err + fleet_release) \<Rightarrow> (string \<Rightarrow> string) \<Rightarrow> ('w, fleet_release) io" where
  "load_fleet_release a parse env w =
     (case aw_get a (env ''INSTA_GAME_FLEET_BUCKET'') (env ''INSTA_GAME_FLEET_RELEASE'' @ ''/config.json'') w of
        (Inl e, w) \<Rightarrow> (Inl e, w)
      | (Inr body, w) \<Rightarrow> (parse (limit_body (1024 * 1024) body), w))"

section \<open>The host of this machine\<close>

definition own_host :: "host list \<Rightarrow> string \<Rightarrow> ec2_instance \<Rightarrow> host option" where
  "own_host hs machine_id v =
     List.find (\<lambda>c. h_id c = tag (i_tags v) ''insta-game:host'' \<and> h_launch_token c = i_token v \<and>
                    (h_instance_id c = [] \<or> h_instance_id c = machine_id)) hs"

definition fleet_member :: "string \<Rightarrow> fleet_state \<Rightarrow> string \<Rightarrow> ec2_instance \<Rightarrow> err + host" where
  "fleet_member stack s machine_id v =
     (if tag (i_tags v) ''insta-game:fleet'' \<noteq> stack then Inl (ErrMsg ''machine belongs to another fleet'')
      else (case own_host (st_hosts s) machine_id v of
              None \<Rightarrow> Inl (ErrMsg ''machine is not an active fleet member'')
            | Some h \<Rightarrow>
                if h_id h = [] \<or> h_retiring h \<or> st_deleting s
                then Inl (ErrMsg ''machine is not an active fleet member'') else Inr h))"

record 'w metadata =
  md_instance_id :: "('w, string) io"
  md_public_ipv4 :: "('w, string \<times> err option) io"

record joined =
  jn_release :: fleet_release
  jn_host :: host
  jn_address :: string

definition own_instance :: "ec2_instance list list \<Rightarrow> err + ec2_instance" where
  "own_instance rs = (case rs of [[v]] \<Rightarrow> Inr v | _ \<Rightarrow> Inl (ErrMsg ''expected own EC2 identity''))"

definition public_address :: "'w metadata \<Rightarrow> ('w, string) io" where
  "public_address md w =
     (case md_public_ipv4 md w of
        (Inl e, w) \<Rightarrow> (Inl e, w)
      | (Inr (ip, Some e), w) \<Rightarrow> (Inl e, w)
      | (Inr (ip, None), w) \<Rightarrow> (Inr (trim_space ip), w))"

definition fleet_join ::
  "('w, 't) aws \<Rightarrow> (string \<times> err option \<Rightarrow> err + fleet_release) \<Rightarrow> (string \<Rightarrow> string) \<Rightarrow> 'w metadata \<Rightarrow> ('w, joined) io" where
  "fleet_join a parse env md w =
     (case load_fleet_release a parse env w of
        (Inl e, w) \<Rightarrow> (Inl e, w)
      | (Inr release, w) \<Rightarrow>
          (case md_instance_id md w of
             (Inl e, w) \<Rightarrow> (Inl e, w)
           | (Inr machine_id, w) \<Rightarrow>
               (case load (aw_table a (env ''INSTA_GAME_FLEET_TABLE'')) w of
                  (Inl e, w) \<Rightarrow> (Inl e, w)
                | (Inr s, w) \<Rightarrow>
                    (let stack = env ''INSTA_GAME_FLEET_STACK'' in
                     case ec_describe (e_client (aw_ec2 a stack)) (ById machine_id) w of
                       (Inl (code, e), w) \<Rightarrow> (Inl e, w)
                     | (Inr rs, w) \<Rightarrow>
                         (case own_instance rs of
                            Inl e \<Rightarrow> (Inl e, w)
                          | Inr v \<Rightarrow>
                              (case fleet_member stack s machine_id v of
                                 Inl e \<Rightarrow> (Inl e, w)
                               | Inr h \<Rightarrow>
                                   (case public_address md w of
                                      (Inl e, w) \<Rightarrow> (Inl e, w)
                                    | (Inr ip, w) \<Rightarrow>
                                        (Inr \<lparr>jn_release = release, jn_host = h, jn_address = ip\<rparr>, w))))))))"

section \<open>The parts that run\<close>

definition host_root :: string where
  "host_root = ''/var/lib/insta-game''"

definition trim_suffix :: "string \<Rightarrow> string \<Rightarrow> string" where
  "trim_suffix s x = (if has_suffix s x then take (length s - length x) s else s)"

text \<open>The calls of \<open>os\<close> and S3 that only asset archives need: a new directory, the removal of a tree, and
  an object with what its body gives.\<close>

record 'w asset_calls =
  as_mkdir_temp :: "string \<Rightarrow> string \<Rightarrow> ('w, string) io"
  as_remove_all :: "string \<Rightarrow> ('w, unit) io"
  as_object :: "string \<Rightarrow> string \<Rightarrow> ('w, string \<times> err option) io"

text \<open>From the object to the directory under its final name.\<close>

definition fill_directory ::
  "'w files \<Rightarrow> 'w unzip \<Rightarrow> 'w asset_calls \<Rightarrow> string \<Rightarrow> string \<Rightarrow> string \<Rightarrow> string \<Rightarrow> string \<Rightarrow> ('w, string) io" where
  "fill_directory fs uz ac bucket key archive temporary destination w =
     (case as_object ac bucket key w of
        (Inl e, w) \<Rightarrow> (Inl e, w)
      | (Inr (data, broken), w) \<Rightarrow>
          (case fi_append fs archive data w of
             (Inl e, w) \<Rightarrow> (Inl e, w)
           | (Inr u, w) \<Rightarrow>
               (case broken of
                  Some e \<Rightarrow> (Inl e, w)
                | None \<Rightarrow>
                    (let mark = path_join [temporary, ''.ready''] in
                     case extract_zip uz archive temporary w of
                       (Inl e, w) \<Rightarrow> (Inl e, w)
                     | (Inr u, w) \<Rightarrow>
                         (case fi_write fs mark 0x1A4 [] w of
                            (Inl e, w) \<Rightarrow> (Inl e, w)
                          | (Inr u, w) \<Rightarrow>
                              (case fi_chmod fs mark 0x1A4 w of
                                 (Inl e, w) \<Rightarrow> (Inl e, w)
                               | (Inr u, w) \<Rightarrow>
                                   (case fi_chmod fs temporary 0x1ED w of
                                      (Inl e, w) \<Rightarrow> (Inl e, w)
                                    | (Inr u, w) \<Rightarrow>
                                        (case fi_rename fs temporary destination w of
                                           (Inl e, w) \<Rightarrow> (Inl e, w)
                                         | (Inr u, w) \<Rightarrow> (Inr destination, w)))))))))"

text \<open>The callback \<open>PrepareAssets\<close>, whose deferred calls come last registered first.\<close>

definition asset_destination :: "string \<Rightarrow> string" where
  "asset_destination key = path_join [host_root, ''assets'', trim_suffix (path_base key) ''.zip'']"

definition prepare_assets ::
  "'w files \<Rightarrow> 'w unzip \<Rightarrow> 'w asset_calls \<Rightarrow> string \<Rightarrow> fleet_release \<Rightarrow> game \<Rightarrow> ('w, string) io" where
  "prepare_assets fs uz ac bucket release g w =
     (let key = asset (fr_assets release) (gm_id g); destination = asset_destination key in
      if key = [] then (Inr [], w)
      else (case fi_stat fs (path_join [destination, ''.ready'']) w of
              (Inr u, w) \<Rightarrow> (Inr destination, w)
            | (Inl e, w) \<Rightarrow>
                (case fi_mkdir_all fs (path_dir destination) 0x1C0 w of
                   (Inl e, w) \<Rightarrow> (Inl e, w)
                 | (Inr u, w) \<Rightarrow>
                     (case as_mkdir_temp ac (path_dir destination) ''.download-'' w of
                        (Inl e, w) \<Rightarrow> (Inl e, w)
                      | (Inr temporary, w) \<Rightarrow>
                          (let (r, w) = (case fi_temp fs host_root ''.asset-*.zip'' w of
                                  (Inl e, w) \<Rightarrow> (Inl e, w)
                                | (Inr archive, w) \<Rightarrow>
                                    (let (r, w) = fill_directory fs uz ac bucket key archive temporary destination w;
                                         (u, w) = fi_close fs archive w;
                                         (u, w) = fi_remove fs archive w
                                     in (r, w)));
                               (u, w) = as_remove_all ac temporary w
                           in (r, w))))))"

definition host_docker :: "'w docker \<Rightarrow> (string \<Rightarrow> string) \<Rightarrow> joined \<Rightarrow> (game \<Rightarrow> ('w, string) io) \<Rightarrow> 'w docker" where
  "host_docker d env j assets =
     d\<lparr>dc_public_host := jn_address j, dc_bind_ip := ''0.0.0.0'', dc_binary := ''/usr/local/bin/insta-game'',
       dc_asset_version := env ''INSTA_GAME_FLEET_RELEASE'', dc_prepare_assets := Some assets\<rparr>"

definition host_controller ::
  "('w \<times> jobs, 't) controller \<Rightarrow> ('w \<times> jobs, 't) db \<Rightarrow> joined \<Rightarrow> 'w docker \<Rightarrow> ('w \<times> jobs, 't) controller" where
  "host_controller ct db j d =
     ct\<lparr>ct_db := db, ct_games := fr_catalog (jn_release j), ct_providers := [''docker'' \<mapsto> docker_provider d],
        ct_default := ''docker''\<rparr>"

definition host_worker :: "'w store \<Rightarrow> joined \<Rightarrow> ('w, 't) controller \<Rightarrow> time \<Rightarrow> ('w, 't) worker" where
  "host_worker st j ct started =
     \<lparr>wk_store = st, wk_host = h_id (jn_host j), wk_config = fr_config (jn_release j), wk_controller = ct,
      wk_started_at = started\<rparr>"

section \<open>One view of a machine\<close>

lemma own_hostD:
  assumes "own_host hs machine_id v = Some h"
  shows "h \<in> set hs \<and> h_id h = tag (i_tags v) ''insta-game:host'' \<and> h_launch_token h = i_token v \<and>
    (h_instance_id h = [] \<or> h_instance_id h = machine_id)"
  using assms by (auto simp: own_host_def find_Some_iff)

lemma own_hostI:
  assumes "distinct (map h_id hs)" "h \<in> set hs" "h_id h = tag (i_tags v) ''insta-game:host''"
    "h_launch_token h = i_token v" "h_instance_id h = [] \<or> h_instance_id h = machine_id"
  shows "own_host hs machine_id v = Some h"
proof -
  have "own_host hs machine_id v \<noteq> None" using assms(2-5) by (auto simp: own_host_def find_None_iff)
  then obtain k where k: "own_host hs machine_id v = Some k" by blast
  then have "k = h" using own_hostD [OF k] assms(1-3) by (metis distinct_map inj_onD)
  then show ?thesis using k by simp
qed

lemma fleet_member_iff:
  assumes "distinct (map h_id (st_hosts s))" "\<forall>h\<in>set (st_hosts s). h_id h \<noteq> []"
  shows "fleet_member stack s machine_id v = Inr h \<longleftrightarrow>
    h \<in> set (st_hosts s) \<and> managed stack h v \<and> (h_instance_id h = [] \<or> h_instance_id h = machine_id) \<and>
    \<not> h_retiring h \<and> \<not> st_deleting s"
proof
  assume "fleet_member stack s machine_id v = Inr h"
  then show "h \<in> set (st_hosts s) \<and> managed stack h v \<and> (h_instance_id h = [] \<or> h_instance_id h = machine_id) \<and>
    \<not> h_retiring h \<and> \<not> st_deleting s"
    using own_hostD by (fastforce simp: fleet_member_def managed_def split: if_splits option.splits)
next
  assume r: "h \<in> set (st_hosts s) \<and> managed stack h v \<and> (h_instance_id h = [] \<or> h_instance_id h = machine_id) \<and>
    \<not> h_retiring h \<and> \<not> st_deleting s"
  then have "own_host (st_hosts s) machine_id v = Some h"
    using own_hostI [OF assms(1)] by (auto simp: managed_def)
  then show "fleet_member stack s machine_id v = Inr h" using r assms(2) by (auto simp: fleet_member_def managed_def)
qed

section \<open>Properties\<close>

text \<open>C39. A starting machine takes itself for a host of the registry it loaded exactly when the scheduler
  takes that machine for that host - its stack's and the host's tag, the host's launch token - and the host
  names no other machine, is not retiring, and the fleet is not being deleted. With distinct IDs in the
  registry there is then no other host it could act for.\<close>

theorem machine_joins_as_its_host:
  assumes "load_fleet_release a parse env w = (Inr release, w1)"
    and "md_instance_id md w1 = (Inr machine_id, w2)"
    and "load (aw_table a (env ''INSTA_GAME_FLEET_TABLE'')) w2 = (Inr s, w3)"
    and "ec_describe (e_client (aw_ec2 a (env ''INSTA_GAME_FLEET_STACK''))) (ById machine_id) w3 = (Inr [[v]], w4)"
    and "public_address md w4 = (Inr ip, w5)"
    and "state_ok tombs s"
  shows "(\<exists>j. fleet_join a parse env md w = (Inr j, w5) \<and> jn_host j = h) \<longleftrightarrow>
    h \<in> set (st_hosts s) \<and> managed (env ''INSTA_GAME_FLEET_STACK'') h v \<and>
    (h_instance_id h = [] \<or> h_instance_id h = machine_id) \<and> \<not> h_retiring h \<and> \<not> st_deleting s"
proof -
  have ids: "distinct (map h_id (st_hosts s))" "\<forall>h\<in>set (st_hosts s). h_id h \<noteq> []"
    using assms(6) unfolding state_ok_def by (metis, metis imageI)
  have "(\<exists>j. fleet_join a parse env md w = (Inr j, w5) \<and> jn_host j = h) \<longleftrightarrow>
    fleet_member (env ''INSTA_GAME_FLEET_STACK'') s machine_id v = Inr h"
    using assms(1-5) by (auto simp: fleet_join_def own_instance_def Let_def split: sum.splits)
  then show ?thesis using fleet_member_iff [OF ids] by simp
qed

text \<open>The scheduler wakes a host, and the machine it launched joins.\<close>

definition waking_host :: host where
  "waking_host = \<lparr>h_release = ''r1'', h_workload = ''w1'', h_capacity = zero_resources, h_id = ''host-1'', h_instance_id = [],
     h_launch_template = ''lt-1'', h_launch_version = ''1'', h_launch_token = ''tok'', h_created_at = 0,
     h_retiring = False, h_error = []\<rparr>"

definition waking_state :: fleet_state where
  "waking_state = \<lparr>st_revision = 1, st_hosts = [waking_host], st_servers = [], st_deleting = False\<rparr>"

definition waking_memory :: memory where
  "waking_memory = fresh_memory\<lparr>mm_table := (\<lambda>_. [])(registry_key :=
     [(''id'', AttrS registry_key), (''revision'', AttrN ''1''), (''state'', AttrDoc (StateText waking_state))])\<rparr>"

definition woken_memory :: memory where
  "woken_memory = snd (wake_machine memory_ec2 waking_host waking_memory)"

definition waking_env :: "string \<Rightarrow> string" where
  "waking_env k = (if k = ''INSTA_GAME_FLEET_STACK'' then ''stack'' else [])"

definition waking_metadata :: "memory metadata" where
  "waking_metadata = \<lparr>md_instance_id = (\<lambda>w. (Inr ''i-0'', w)), md_public_ipv4 = (\<lambda>w. (Inr (''10.0.0.1'', None), w))\<rparr>"

definition waking_release :: fleet_release where
  "waking_release = \<lparr>fr_config = memory_config, fr_catalog = [], fr_assets = Map.empty\<rparr>"

definition woken_instance :: ec2_instance where
  "woken_instance = \<lparr>i_id = ''i-0'', i_token = ''tok'', i_state = Some ''pending'',
     i_tags = [(''insta-game:fleet'', ''stack''), (''insta-game:host'', ''host-1'')]\<rparr>"

lemma waking_launchable: "launchable waking_host"
  by (simp add: launchable_def waking_host_def has_prefix_def is_lower_alnum_def is_digit_def)

lemma waking_digits: "show_nat 0 = ''0''" "show_int 1 = ''1''"
  by code_simp+

lemma woken_memory_is: "woken_memory = waking_memory\<lparr>mm_machines := [woken_instance]\<rparr>"
proof -
  have f: "find_machine memory_ec2 waking_host waking_memory = (Inr None, waking_memory)"
    by (simp add: find_machine_def find_query_def waking_host_def memory_ec2_def waking_memory_def fresh_memory_def)
  have "ec_run (e_client memory_ec2) (launch_of (e_stack memory_ec2) waking_host) waking_memory =
      (Inr [''i-0''], waking_memory\<lparr>mm_machines := [woken_instance]\<rparr>)"
    by (simp add: memory_ec2_def waking_memory_def fresh_memory_def waking_digits)
      (simp add: Let_def launch_of_def waking_host_def woken_instance_def)
  then show ?thesis using f waking_launchable by (simp add: woken_memory_def wake_machine_def) (simp add: waking_host_def)
qed

lemma waking_state_ok: "state_ok {} waking_state"
  by (simp add: state_ok_def waking_state_def waking_host_def within_capacity_def retirement_closed_def used_def
      zero_resources_def)

theorem machine_joins_as_its_host_witness:
  "\<exists>j w'. fleet_join memory_aws (\<lambda>b. Inr waking_release) waking_env waking_metadata woken_memory = (Inr j, w') \<and>
     jn_host j = waking_host"
proof -
  have r: "load_fleet_release memory_aws (\<lambda>b. Inr waking_release) waking_env w = (Inr waking_release, w)" for w
    by (simp add: load_fleet_release_def memory_aws_def)
  have i: "md_instance_id waking_metadata w = (Inr ''i-0'', w)" for w by (simp add: waking_metadata_def)
  have l: "load (aw_table memory_aws (waking_env ''INSTA_GAME_FLEET_TABLE'')) woken_memory = (Inr waking_state, woken_memory)"
    by (simp add: load_def memory_aws_def memory_dynamo_def woken_memory_is waking_memory_def decode_state_def
        memory_codec_def) (simp add: waking_state_def waking_digits)
  have d: "ec_describe (e_client (aw_ec2 memory_aws (waking_env ''INSTA_GAME_FLEET_STACK''))) (ById ''i-0'') woken_memory =
      (Inr [[woken_instance]], woken_memory)"
    by (simp add: memory_aws_def memory_ec2_def woken_memory_is Let_def) (simp add: woken_instance_def)
  have p: "public_address waking_metadata w = (Inr (trim_space ''10.0.0.1''), w)" for w
    by (simp add: public_address_def waking_metadata_def)
  have "\<exists>j. fleet_join memory_aws (\<lambda>b. Inr waking_release) waking_env waking_metadata woken_memory = (Inr j, woken_memory) \<and>
      jn_host j = waking_host"
    by (rule machine_joins_as_its_host [OF r i l d p waking_state_ok, THEN iffD2])
      (simp add: waking_state_def managed_def waking_env_def woken_instance_def waking_host_def tag_def)
  then show ?thesis by blast
qed

end
