(* ===== verification/Install.thy ===== *)
theory Install
  imports AgentFiles ControlCatalog NativeSafety WakeCommand Cloud LobbyStore TokenFile
begin

text \<open>
  Installing a shared host (internal/command/aws_install.go): checking what is to be installed, packing it into
  an archive, and the scripts run over SSH. The archive writer, SSH, the walk of a directory tree and JSON
  are parameters. The two long scripts without parts that vary are named, not spelled out. The lemmas show
  where the archive's entries go and that what varies in a script is read by the shell as the one word it is.
\<close>

section \<open>What is installed\<close>

record install_options =
  io_binary :: string
  io_engines :: string
  io_assets :: string
  io_native_config :: string
  io_catalog :: string
  io_env_file :: string
  io_pull_images :: bool
  io_max_runtime :: int

record packed_file =
  if_source :: string
  if_destination :: string
  if_mode :: "32 word"

record prepared_install =
  pi_files :: "packed_file list"
  pi_architecture :: string
  pi_games :: "game list"

text \<open>\<open>ic_lstat\<close> and \<open>ic_stat\<close> say whether a path is a regular file and whether it is a directory;
  \<open>ic_engines\<close> decodes the native engines, in the order the map gives them.\<close>

record 'w install_calls =
  ic_build :: "'w build"
  ic_catalog :: catalog_files
  ic_files :: "'w files"
  ic_engines :: "string \<Rightarrow> err + (string \<times> native_game) list"
  ic_lstat :: "string \<Rightarrow> ('w, bool) io"
  ic_stat :: "string \<Rightarrow> ('w, bool) io"
  ic_walk :: "'w walker"

definition binary_architecture :: "int \<Rightarrow> err + string" where
  "binary_architecture machine =
     (if machine = 62 then Inr ''x86_64'' else if machine = 183 then Inr ''arm64''
      else Inl (ErrMsg ''unsupported controller architecture''))"

definition engine_ok :: "string set \<Rightarrow> string \<times> native_game \<Rightarrow> bool" where
  "engine_ok known e =
     (case e of (i, g) \<Rightarrow> i \<in> known \<and> is_abs (ng_command g) \<and> is_abs (ng_assets g) \<and> is_local (ng_config_path g))"

definition check_engines :: "'w install_calls \<Rightarrow> install_options \<Rightarrow> game list \<Rightarrow> ('w, unit) io" where
  "check_engines ic o1 games w =
     (if io_native_config o1 = [] then (Inr (), w)
      else (case fi_read (ic_files ic) (io_native_config o1) w of
              (Inl e, w) \<Rightarrow> (Inl e, w)
            | (Inr data, w) \<Rightarrow>
                (case ic_engines ic data of
                   Inl e \<Rightarrow> Inl (ErrWrap ''native config: '' e)
                 | Inr engines \<Rightarrow>
                     if engines = [] then Inl (ErrMsg ''native config contains no engines'')
                     else (case List.find (\<lambda>e. \<not> engine_ok (gm_id ` set games) e) engines of
                             None \<Rightarrow> Inr ()
                           | Some (i, g) \<Rightarrow>
                               Inl (ErrMsg (''invalid native profile '' @ quoted i @
                                 '': require a catalog game, absolute command/assets, and relative configPath''))), w)))"

text \<open>The configuration files beside a game's metadata, those that exist.\<close>

fun sibling_files :: "'w install_calls \<Rightarrow> string \<Rightarrow> string \<Rightarrow> string list \<Rightarrow> ('w, packed_file list) io" where
  "sibling_files ic dir dest [] w = (Inr [], w)"
| "sibling_files ic dir dest (n # ns) w =
     (let source = path_join [dir, n] in
      case ic_lstat ic source w of
        (Inr u, w) \<Rightarrow>
          (case sibling_files ic dir dest ns w of
             (Inl e, w) \<Rightarrow> (Inl e, w)
           | (Inr fs, w) \<Rightarrow> (Inr (\<lparr>if_source = source, if_destination = dest @ n, if_mode = 0x1A4\<rparr> # fs), w))
      | (Inl e, w) \<Rightarrow>
          if fi_missing (ic_files ic) e then sibling_files ic dir dest ns w else (Inl e, w))"

definition game_destination :: "string \<Rightarrow> string" where
  "game_destination path = ''opt/insta-game/docker-containers/'' @ path_base (path_dir path) @ ''/''"

fun metadata_files :: "'w install_calls \<Rightarrow> string list \<Rightarrow> ('w, packed_file list) io" where
  "metadata_files ic [] w = (Inr [], w)"
| "metadata_files ic (p # ps) w =
     (let dest = game_destination p in
      case sibling_files ic (path_dir p) dest [''server.cfg'', ''UnrealTournament.ini''] w of
        (Inl e, w) \<Rightarrow> (Inl e, w)
      | (Inr more1, w) \<Rightarrow>
          (case metadata_files ic ps w of
             (Inl e, w) \<Rightarrow> (Inl e, w)
           | (Inr fs, w) \<Rightarrow>
               (Inr (\<lparr>if_source = p, if_destination = dest @ ''game.json'', if_mode = 0x1A4\<rparr> # more1 @ fs), w)))"

definition catalog_metadata :: "'w install_calls \<Rightarrow> install_options \<Rightarrow> string list" where
  "catalog_metadata ic o1 = (case cf_glob (ic_catalog ic) (io_catalog o1) of Inl e \<Rightarrow> [] | Inr ps \<Rightarrow> ps)"

definition install_files :: "'w install_calls \<Rightarrow> install_options \<Rightarrow> string \<Rightarrow> ('w, packed_file list) io" where
  "install_files ic o1 token_path w =
     (let start = [\<lparr>if_source = io_binary o1, if_destination = ''usr/local/bin/insta-game.new'', if_mode = 0x1ED\<rparr>,
                   \<lparr>if_source = token_path, if_destination = ''var/lib/insta-game/token'', if_mode = 0x180\<rparr>];
          env = (if io_env_file o1 = [] then []
                 else [\<lparr>if_source = io_env_file o1, if_destination = ''etc/insta-game.env'', if_mode = 0x180\<rparr>]);
          native = (if io_native_config o1 = [] then []
                    else [\<lparr>if_source = io_native_config o1, if_destination = ''opt/insta-game/native.json'', if_mode = 0x180\<rparr>])
      in case metadata_files ic (catalog_metadata ic o1) w of
           (Inl e, w) \<Rightarrow> (Inl e, w)
         | (Inr metadata, w) \<Rightarrow> (Inr (start @ env @ metadata @ native), w))"

fun check_files :: "'w install_calls \<Rightarrow> packed_file list \<Rightarrow> ('w, unit) io" where
  "check_files ic [] w = (Inr (), w)"
| "check_files ic (f # fs) w =
     (case ic_lstat ic (if_source f) w of
        (Inl e, w) \<Rightarrow> (Inl (ErrWrap (''install file '' @ quoted (if_source f) @ '': '') e), w)
      | (Inr regular, w) \<Rightarrow>
          if \<not> regular then (Inl (ErrMsg (''install file '' @ quoted (if_source f) @ '' is not regular'')), w)
          else check_files ic fs w)"

fun check_tree :: "walk_item list \<Rightarrow> err + unit" where
  "check_tree [] = Inr ()"
| "check_tree (x # xs) =
     (case wi_error x of
        Some e \<Rightarrow> Inl e
      | None \<Rightarrow>
          if \<not> wi_dir x \<and> \<not> wi_regular x
          then Inl (ErrMsg (''install tree contains nonregular file: '' @ wi_path x)) else check_tree xs)"

fun check_trees :: "'w install_calls \<Rightarrow> string list \<Rightarrow> ('w, unit) io" where
  "check_trees ic [] w = (Inr (), w)"
| "check_trees ic (p # ps) w =
     (if p = [] then check_trees ic ps w
      else (case ic_stat ic p w of
              (Inl e, w) \<Rightarrow> (Inl e, w)
            | (Inr dir, w) \<Rightarrow>
                if \<not> dir then (Inl (ErrMsg (p @ '' must be a directory'')), w)
                else (let (items, w) = ic_walk ic p w in
                      case check_tree items of Inl e \<Rightarrow> (Inl e, w) | Inr u \<Rightarrow> check_trees ic ps w)))"

definition prepare_install :: "'w install_calls \<Rightarrow> install_options \<Rightarrow> string \<Rightarrow> ('w, prepared_install) io" where
  "prepare_install ic o1 token_path w =
     (if io_max_runtime o1 < 0 \<or> 0 < io_max_runtime o1 \<and> io_max_runtime o1 < minute
      then (Inl (ErrMsg ''host-max-runtime must be zero or at least one minute''), w)
      else (case load_catalog (ic_catalog ic) (io_catalog o1) of
        Inl e \<Rightarrow> (Inl e, w)
      | Inr games \<Rightarrow>
          (case bd_elf (ic_build ic) (io_binary o1) w of
             (Inl e, w) \<Rightarrow> (Inl (ErrWrap ''Linux ELF binary required: '' e), w)
           | (Inr x, w) \<Rightarrow>
               (case binary_architecture (el_machine x) of
                  Inl e \<Rightarrow> (Inl e, w)
                | Inr arch \<Rightarrow>
                    (case check_engines ic o1 games w of
                       (Inl e, w) \<Rightarrow> (Inl e, w)
                     | (Inr u, w) \<Rightarrow>
                         (case install_files ic o1 token_path w of
                            (Inl e, w) \<Rightarrow> (Inl e, w)
                          | (Inr files, w) \<Rightarrow>
                              (case check_files ic files w of
                                 (Inl e, w) \<Rightarrow> (Inl e, w)
                               | (Inr u, w) \<Rightarrow>
                                   (case check_trees ic [io_engines o1, io_assets o1] w of
                                      (Inl e, w) \<Rightarrow> (Inl e, w)
                                    | (Inr u, w) \<Rightarrow>
                                        (Inr \<lparr>pi_files = files, pi_architecture = arch, pi_games = games\<rparr>, w)))))))))"

section \<open>The archive\<close>

record tar_header =
  th_name :: string
  th_mode :: "32 word"
  th_size :: int
  th_dir :: bool

text \<open>The writer, and an opened file: whether it is regular, its size, and copying it into the archive.\<close>

record 'w archive =
  ta_header :: "tar_header \<Rightarrow> ('w, unit) io"
  ta_open :: "string \<Rightarrow> ('w, unit) io"
  ta_stat :: "string \<Rightarrow> ('w, bool \<times> int) io"
  ta_copy :: "string \<Rightarrow> ('w, unit) io"
  ta_close :: "('w, unit) io"

definition write_install_file :: "'w archive \<Rightarrow> packed_file \<Rightarrow> ('w, unit) io" where
  "write_install_file ta f w =
     (case ta_open ta (if_source f) w of
        (Inl e, w) \<Rightarrow> (Inl e, w)
      | (Inr u, w) \<Rightarrow>
          (case ta_stat ta (if_source f) w of
             (Inl e, w) \<Rightarrow> (Inl e, w)
           | (Inr (regular, n), w) \<Rightarrow>
               if \<not> regular then (Inl (ErrMsg (''not a regular install file: '' @ if_source f)), w)
               else (case ta_header ta \<lparr>th_name = if_destination f, th_mode = if_mode f, th_size = n, th_dir = False\<rparr> w of
                       (Inl e, w) \<Rightarrow> (Inl e, w)
                     | (Inr u, w) \<Rightarrow> ta_copy ta (if_source f) w)))"

fun write_install_files :: "'w archive \<Rightarrow> packed_file list \<Rightarrow> ('w, unit) io" where
  "write_install_files ta [] w = (Inr (), w)"
| "write_install_files ta (f # fs) w =
     (case write_install_file ta f w of (Inl e, w) \<Rightarrow> (Inl e, w) | (Inr u, w) \<Rightarrow> write_install_files ta fs w)"

definition write_install_item :: "'w archive \<Rightarrow> string \<Rightarrow> string \<Rightarrow> walk_item \<Rightarrow> ('w, unit) io" where
  "write_install_item ta source destination x w =
     (case wi_error x of
        Some e \<Rightarrow> (Inl e, w)
      | None \<Rightarrow>
          if wi_symlink x then (Inl (ErrMsg (''install tree contains symlink: '' @ wi_path x)), w)
          else (case path_rel source (wi_path x) of
                  Inl e \<Rightarrow> (Inl e, w)
                | Inr relative \<Rightarrow>
                    (let name = path_join [destination, relative] in
                     if wi_dir x
                     then ta_header ta \<lparr>th_name = name @ ''/'', th_mode = 0x1ED, th_size = 0, th_dir = True\<rparr> w
                     else (case wi_info x of
                             Inl e \<Rightarrow> (Inl e, w)
                           | Inr mode \<Rightarrow>
                               write_install_file ta \<lparr>if_source = wi_path x, if_destination = name,
                                 if_mode = and mode 0x1ED\<rparr> w))))"

fun write_install_items :: "'w archive \<Rightarrow> string \<Rightarrow> string \<Rightarrow> walk_item list \<Rightarrow> ('w, unit) io" where
  "write_install_items ta source destination [] w = (Inr (), w)"
| "write_install_items ta source destination (x # xs) w =
     (case write_install_item ta source destination x w of
        (Inl e, w) \<Rightarrow> (Inl e, w)
      | (Inr u, w) \<Rightarrow> write_install_items ta source destination xs w)"

definition write_install_tree :: "'w archive \<Rightarrow> 'w walker \<Rightarrow> string \<Rightarrow> string \<Rightarrow> ('w, unit) io" where
  "write_install_tree ta wkr source destination w =
     (let (items, w) = wkr source w in write_install_items ta source destination items w)"

text \<open>What the sender writes; the archive is closed in any case.\<close>

definition optional_tree :: "'w archive \<Rightarrow> 'w walker \<Rightarrow> string \<Rightarrow> string \<Rightarrow> err + unit \<Rightarrow> ('w, unit) io" where
  "optional_tree ta wkr source destination r w =
     (case r of
        Inl e \<Rightarrow> (Inl e, w)
      | Inr u \<Rightarrow> if source = [] then (Inr (), w) else write_install_tree ta wkr source destination w)"

definition write_archive ::
  "'w archive \<Rightarrow> 'w walker \<Rightarrow> install_options \<Rightarrow> prepared_install \<Rightarrow> ('w, unit) io" where
  "write_archive ta wkr o1 p w =
     (let (r, w) = write_install_files ta (pi_files p) w;
          (r, w) = optional_tree ta wkr (io_engines o1) ''opt/insta-game/engine'' r w;
          (r, w) = optional_tree ta wkr (io_assets o1) ''opt/insta-game/assets'' r w;
          (closed, w) = ta_close ta w
      in (case r of Inl e \<Rightarrow> Inl e | Inr u \<Rightarrow> closed, w))"

section \<open>The scripts\<close>

text \<open>\<open>strings.ReplaceAll\<close> of the apostrophe, which the shell's quotes cannot hold.\<close>

definition apostrophe :: char where
  "apostrophe = CHR 0x27"

fun quote_chars :: "string \<Rightarrow> string" where
  "quote_chars [] = []"
| "quote_chars (c # cs) =
     (if c = apostrophe then [apostrophe, CHR 0x22, apostrophe, CHR 0x22, apostrophe] else [c]) @ quote_chars cs"

definition shell_quote :: "string \<Rightarrow> string" where
  "shell_quote s = apostrophe # quote_chars s @ [apostrophe]"

datatype script = SetUpHost | InstallService | Script string

definition pull_script :: "string \<Rightarrow> script" where
  "pull_script img = Script (''sudo docker pull -- '' @ shell_quote img)"

definition lines_of :: "string list \<Rightarrow> string" where
  "lines_of ls = join_with [CHR 0x0A] ls"

text \<open>\<open>Milliseconds\<close> of a duration, towards zero; the runtime is not negative.\<close>

definition lifetime_script :: "int \<Rightarrow> script" where
  "lifetime_script runtime =
     (if 0 < runtime
      then Script (lines_of
        [''sudo install -d /etc/systemd/system/insta-game-deadline.timer.d'',
         ''sudo tee /etc/systemd/system/insta-game-deadline.timer.d/lifetime.conf >/dev/null <<'' @ [apostrophe] @ ''LIFETIME'' @ [apostrophe],
         ''[Unit]'', ''Description=Game host maximum boot lifetime'', ''[Timer]'', ''OnBootSec='',
         ''OnBootSec='' @ show_int (runtime div 1000000) @ ''ms'', ''LIFETIME'', ''sudo systemctl daemon-reload'',
         ''sudo systemctl enable insta-game-deadline.timer'', ''sudo systemctl restart insta-game-deadline.timer''])
      else Script ''sudo systemctl disable --now insta-game-deadline.timer'')"

text \<open>The expressions \<open>^[A-Za-z0-9_.-]+$\<close> and \<open>^[a-z0-9-]+$\<close>.\<close>

definition table_char :: "char \<Rightarrow> bool" where
  "table_char c \<longleftrightarrow> is_lower_alnum (lower_char c) \<or> c = CHR 0x5F \<or> c = CHR ''.'' \<or> c = CHR ''-''"

definition table_name :: "string \<Rightarrow> bool" where
  "table_name s \<longleftrightarrow> s \<noteq> [] \<and> list_all table_char s"

definition region_name :: "string \<Rightarrow> bool" where
  "region_name s \<longleftrightarrow> s \<noteq> [] \<and> list_all (\<lambda>c. is_lower_alnum c \<or> c = CHR ''-'') s"

definition lobby_lines :: "cloud_config \<Rightarrow> string list" where
  "lobby_lines c =
     [''AWS_REGION='' @ cc_region c, ''INSTA_GAME_LOBBY_TABLE='' @ cc_lobby_table c,
      ''INSTA_GAME_LOBBY_INSTANCES='' @ cc_lobby_instances c]"

definition lobby_script :: "cloud_config \<Rightarrow> err + script" where
  "lobby_script c =
     (if cc_lobby_table c = [] then Inr (Script ''sudo rm -f /etc/insta-game-lobby.env'')
      else (case parse_ids (cc_lobby_instances c) of
              Inl e \<Rightarrow> Inl e
            | Inr is \<Rightarrow>
                if \<not> table_name (cc_lobby_table c) \<or> \<not> region_name (cc_region c)
                then Inl (ErrMsg ''invalid lobby table or region'')
                else Inr (Script (lines_of
                  ([''sudo tee /etc/insta-game-lobby.env >/dev/null <<'' @ [apostrophe] @ ''LOBBY'' @ [apostrophe]] @
                   lobby_lines c @ [''LOBBY'', ''sudo chmod 0600 /etc/insta-game-lobby.env''])))))"

section \<open>Installing\<close>

text \<open>The SSH library and the network: a key, dialing, a connection with one fixed host key, a session, a script
  run in it, \<open>Script\<close> text after \<open>set -eu\<close>.\<close>

record 'w ssh =
  sh_key :: "string \<Rightarrow> err + string"
  sh_dial :: "string \<Rightarrow> ('w, unit) io"
  sh_handshake :: "string \<Rightarrow> string \<Rightarrow> string \<Rightarrow> ('w, unit) io"
  sh_wait :: "'w \<Rightarrow> err option \<times> 'w"
  sh_session :: "('w, unit) io"
  sh_run :: "script \<Rightarrow> ('w, unit) io"

definition run_ssh :: "'w ssh \<Rightarrow> script \<Rightarrow> ('w, unit) io" where
  "run_ssh sh s w = (case sh_session sh w of (Inl e, w) \<Rightarrow> (Inl e, w) | (Inr u, w) \<Rightarrow> sh_run sh s w)"

text \<open>Dialing again until the wait ends with the context's error; a refused handshake ends it.\<close>

partial_function (option) dial_host ::
  "'w ssh \<Rightarrow> string \<Rightarrow> string \<Rightarrow> string \<Rightarrow> 'w \<Rightarrow> ((err + unit) \<times> 'w) option" where
  "dial_host sh address signer key w =
     (case sh_dial sh address w of (d, w) \<Rightarrow>
      (case d of
         Inr u \<Rightarrow> (case sh_handshake sh address signer key w of (r, w) \<Rightarrow>
           (case r of Inl e \<Rightarrow> Some (Inl (ErrWrap ''SSH authentication: '' e), w) | Inr u \<Rightarrow> Some (Inr (), w)))
       | Inl e \<Rightarrow>
           (case sh_wait sh w of (t, w) \<Rightarrow>
            (case t of
               Some er \<Rightarrow> Some (Inl (ErrWrap ''connect to SSH: '' er), w)
             | None \<Rightarrow> dial_host sh address signer key w))))"

fun pull_images :: "'w ssh \<Rightarrow> game list \<Rightarrow> ('w, unit) io" where
  "pull_images sh [] w = (Inr (), w)"
| "pull_images sh (g # gs) w =
     (case run_ssh sh (pull_script (gm_image g)) w of
        (Inl e, w) \<Rightarrow> (Inl (ErrWrap (''pull '' @ gm_image g @ '': '') e), w)
      | (Inr u, w) \<Rightarrow> pull_images sh gs w)"

text \<open>The sender and the remote tar run side by side over a pipe; here the one after the other, and an error
  that the pipe passes on is one of the calls'. The sender's own comes first.\<close>

definition upload :: "'w ssh \<Rightarrow> 'w archive \<Rightarrow> 'w walker \<Rightarrow> install_options \<Rightarrow> prepared_install \<Rightarrow> ('w, unit) io" where
  "upload sh ta wkr o1 p w =
     (let (sent, w) = write_archive ta wkr o1 p w; (unpacked, w) = run_ssh sh (Script ''sudo tar -xf - -C /'') w
      in (case sent of Inl e \<Rightarrow> Inl e | Inr u \<Rightarrow> unpacked, w))"

definition install_over :: "'w ssh \<Rightarrow> 'w archive \<Rightarrow> 'w walker \<Rightarrow> cloud_config \<Rightarrow> install_options \<Rightarrow> prepared_install \<Rightarrow> ('w, unit) io" where
  "install_over sh ta wkr c o1 p w =
     (case run_ssh sh SetUpHost w of
        (Inl e, w) \<Rightarrow> (Inl e, w)
      | (Inr u, w) \<Rightarrow>
          (case (if io_pull_images o1 then pull_images sh (pi_games p) w else (Inr (), w)) of
             (Inl e, w) \<Rightarrow> (Inl e, w)
           | (Inr u, w) \<Rightarrow>
               (case upload sh ta wkr o1 p w of
                  (Inl e, w) \<Rightarrow> (Inl e, w)
                | (Inr u, w) \<Rightarrow>
                    (case run_ssh sh (lifetime_script (io_max_runtime o1)) w of
                       (Inl e, w) \<Rightarrow> (Inl e, w)
                     | (Inr u, w) \<Rightarrow>
                         (case lobby_script c of
                            Inl e \<Rightarrow> (Inl e, w)
                          | Inr s \<Rightarrow>
                              (case run_ssh sh s w of
                                 (Inl e, w) \<Rightarrow> (Inl e, w)
                               | (Inr u, w) \<Rightarrow> run_ssh sh InstallService w))))))"

definition install_host ::
  "'w install_calls \<Rightarrow> 'w ssh \<Rightarrow> 'w archive \<Rightarrow> 'w cloud_host \<Rightarrow> cloud_config \<Rightarrow> install_options \<Rightarrow>
     'w \<Rightarrow> ((err + string) \<times> 'w) option" where
  "install_host ic sh ta h c o1 w =
     (case prepare_install ic o1 (cc_token_path c) w of
        (Inl e, w) \<Rightarrow> Some (Inl e, w)
      | (Inr p, w) \<Rightarrow>
          (case fi_read (ic_files ic) (cc_key_path c) w of
             (Inl e, w) \<Rightarrow> Some (Inl (ErrWrap ''read SSH private key: '' e), w)
           | (Inr private, w) \<Rightarrow>
               (case sh_key sh private of
                  Inl e \<Rightarrow> Some (Inl e, w)
                | Inr signer \<Rightarrow>
                    (case host_inspect h w of
                       (Inl e, w) \<Rightarrow> Some (Inl e, w)
                     | (Inr s, w) \<Rightarrow>
                         if hs_architecture s \<noteq> pi_architecture p
                         then Some (Inl (ErrMsg (''controller binary is '' @ pi_architecture p @ ''; host is '' @ hs_architecture s)), w)
                         else (case cloud_wake h w of
                                 None \<Rightarrow> None
                               | Some (Inl e, w) \<Rightarrow> Some (Inl e, w)
                               | Some (Inr ip, w) \<Rightarrow>
                                   (case console_key_loop h w of
                                      None \<Rightarrow> None
                                    | Some (Inl e, w) \<Rightarrow> Some (Inl e, w)
                                    | Some (Inr key, w) \<Rightarrow>
                                        (case dial_host sh (join_host_port ip ''22'') signer key w of
                                           None \<Rightarrow> None
                                         | Some (Inl e, w) \<Rightarrow> Some (Inl e, w)
                                         | Some (Inr u, w) \<Rightarrow>
                                             Some (case install_over sh ta (ic_walk ic) c o1 p w of
                                                     (Inl e, w) \<Rightarrow> (Inl e, w)
                                                   | (Inr u, w) \<Rightarrow> (Inr ip, w)))))))))"

section \<open>Where the entries go\<close>

lemma clean_plain:
  "\<forall>e\<in>set ds. plain_name e \<Longrightarrow> clean_elements b acc (ds @ es) = clean_elements b (rev ds @ acc) es"
  by (induction ds arbitrary: acc) (auto simp: plain_name_def)

lemma clean_elements_under:
  "stays (length bs) es \<Longrightarrow> ''..'' \<notin> set bs \<Longrightarrow> clean_elements r (bs @ acc) es = rev acc @ clean_elements r bs es"
proof (induction es arbitrary: bs)
  case (Cons e es)
  consider "e = [] \<or> e = ''.''" | a as where "e = ''..''" "bs = a # as" | "e = ''..''" "bs = []"
    | "e \<noteq> []" "e \<noteq> ''.''" "e \<noteq> ''..''" by (cases bs) auto
  then show ?case
  proof cases
    case 1
    then show ?thesis using Cons by auto
  next
    case 2
    then show ?thesis using Cons.IH [of as] Cons.prems by auto
  next
    case 3
    then show ?thesis using Cons.prems by simp
  next
    case 4
    then show ?thesis using Cons.IH [of "e # bs"] Cons.prems by simp
  qed
qed simp

text \<open>Joining a path that stays to a directory gives that directory or something below it.\<close>

lemma join_under:
  assumes ds: "ds \<noteq> []" "\<forall>e\<in>set ds. plain_name e" and r: "inside r"
  shows "\<exists>es. path_join [join_with [slash] ds, r] = join_with [slash] (ds @ es) \<and> (\<forall>e\<in>set es. plain_name e)"
proof -
  let ?d = "join_with [slash] ds" and ?es = "clean_elements False [] (elements r)"
  obtain a as where a: "ds = a # as" using ds(1) by (cases ds) auto
  have start: "?d \<noteq> []" "\<not> is_abs ?d" using join_plain_start [of a as] ds(2) a by auto
  have rr: "r \<noteq> []" "stays 0 (elements r)" using r by (auto simp: inside_def)
  have els: "elements (?d @ slash # r) = ds @ elements r"
    using elements_join [OF ds(1)] ds(2) by (simp add: elements_append plain_name_def)
  have "clean_elements False [] (ds @ elements r) = ds @ ?es"
    using clean_plain [OF ds(2), of False "[]"] clean_elements_under [of "[]" "elements r" False "rev ds"] rr(2) by simp
  moreover have "\<not> is_abs (?d @ slash # r)" using start by (cases ?d) (auto simp: is_abs_def has_prefix_def)
  ultimately have "clean (?d @ slash # r) = join_with [slash] (ds @ ?es)"
    using els ds(1) by (simp add: clean_def Let_def)
  moreover have "path_join [?d, r] = clean (?d @ slash # r)" using start rr by (simp add: path_join_def)
  moreover have "\<forall>e\<in>set ?es. plain_name e"
    using clean_elements_parts [of "elements r" "[]" False] elements_parts clean_elements_stays(1) [of "elements r"] rr(2) by auto
  ultimately show ?thesis by metis
qed

definition under_opt :: "string \<Rightarrow> bool" where
  "under_opt n \<longleftrightarrow> (\<exists>es. (\<forall>e\<in>set es. plain_name e) \<and>
     (n = join_with [slash] ([''opt'', ''insta-game''] @ es) \<or> n = join_with [slash] ([''opt'', ''insta-game''] @ es) @ ''/''))"

definition installed_name :: "string \<Rightarrow> bool" where
  "installed_name n \<longleftrightarrow>
     n \<in> {''usr/local/bin/insta-game.new'', ''var/lib/insta-game/token'', ''etc/insta-game.env''} \<or> under_opt n"

lemma join_append: "xs \<noteq> [] \<Longrightarrow> ys \<noteq> [] \<Longrightarrow> join_with sep (xs @ ys) = join_with sep xs @ sep @ join_with sep ys"
  by (induction xs rule: induct_list012) (cases ys; simp)+

lemma tree_name:
  assumes "plain_name x" "inside r"
  shows "under_opt (path_join [''opt/insta-game/'' @ x, r])" "under_opt (path_join [''opt/insta-game/'' @ x, r] @ ''/'')"
proof -
  let ?ds = "[''opt'', ''insta-game'', x]"
  have d: "join_with [slash] ?ds = ''opt/insta-game/'' @ x" by (simp add: slash_def)
  have "\<forall>e\<in>set ?ds. plain_name e" using assms(1) by (auto simp: plain_name_def slash_def)
  then obtain es where "path_join [''opt/insta-game/'' @ x, r] = join_with [slash] (?ds @ es)" "\<forall>e\<in>set es. plain_name e"
    using join_under [of ?ds r] assms(2) unfolding d by auto
  then show "under_opt (path_join [''opt/insta-game/'' @ x, r])" "under_opt (path_join [''opt/insta-game/'' @ x, r] @ ''/'')"
    unfolding under_opt_def using assms(1) by (intro exI [of _ "x # es"]; simp)+
qed

lemma game_file_name:
  assumes "plain_name (path_base (path_dir p))" "plain_name n"
  shows "under_opt (game_destination p @ n)"
  unfolding under_opt_def game_destination_def using assms
  by (intro exI [of _ "[''docker-containers'', path_base (path_dir p), n]"]) (auto simp: plain_name_def slash_def)

lemma sibling_files_names:
  "sibling_files ic dir dest ns w = (Inr fs, w') \<Longrightarrow> f \<in> set fs \<Longrightarrow> \<exists>n\<in>set ns. if_destination f = dest @ n"
proof (induction ns arbitrary: fs w w')
  case (Cons n ns)
  then show ?case by (fastforce simp: Let_def split: sum.splits prod.splits if_splits)
qed simp

lemma metadata_files_names:
  "metadata_files ic ps w = (Inr fs, w') \<Longrightarrow> f \<in> set fs \<Longrightarrow>
     \<exists>p\<in>set ps. \<exists>n\<in>set [''game.json'', ''server.cfg'', ''UnrealTournament.ini'']. if_destination f = game_destination p @ n"
proof (induction ps arbitrary: fs w w')
  case (Cons p ps)
  obtain x w1 where x: "sibling_files ic (path_dir p) (game_destination p) [''server.cfg'', ''UnrealTournament.ini''] w = (x, w1)"
    by fastforce
  then obtain more1 where more1: "x = Inr more1" using Cons.prems(1) by (cases x) (auto simp: Let_def)
  obtain y w2 where y: "metadata_files ic ps w1 = (y, w2)" by fastforce
  then obtain gs where gs: "y = Inr gs" using Cons.prems(1) x more1 by (cases y) (auto simp: Let_def)
  have fs: "fs = \<lparr>if_source = p, if_destination = game_destination p @ ''game.json'', if_mode = 0x1A4\<rparr> # more1 @ gs"
    using Cons.prems(1) x more1 y gs by (simp add: Let_def)
  then consider "if_destination f = game_destination p @ ''game.json''" | "f \<in> set more1" | "f \<in> set gs"
    using Cons.prems(2) by auto
  then show ?case
  proof cases
    case 1
    then show ?thesis by auto
  next
    case 2
    then show ?thesis using sibling_files_names [OF x [unfolded more1]] by auto
  next
    case 3
    then show ?thesis using Cons.IH [OF y [unfolded gs]] by auto
  qed
qed simp

lemma file_names: "plain_name ''game.json''" "plain_name ''server.cfg''" "plain_name ''UnrealTournament.ini''"
  "plain_name ''native.json''" "plain_name ''engine''" "plain_name ''assets''"
  by (simp_all add: plain_name_def slash_def)

text \<open>The directories that the catalog's pattern matches have names of their own.\<close>

lemma install_files_names:
  assumes files: "install_files ic o1 tok w = (Inr fs, w')" and f: "f \<in> set fs"
    and names: "\<forall>p\<in>set (catalog_metadata ic o1). plain_name (path_base (path_dir p))"
  shows "installed_name (if_destination f)"
proof -
  obtain x w1 where x: "metadata_files ic (catalog_metadata ic o1) w = (x, w1)" by fastforce
  then obtain ms where ms: "x = Inr ms" using files by (cases x) (auto simp: install_files_def Let_def)
  have meta: "under_opt (if_destination g)" if g: "g \<in> set ms" for g
  proof -
    obtain p n where "p \<in> set (catalog_metadata ic o1)" "if_destination g = game_destination p @ n"
      "n \<in> set [''game.json'', ''server.cfg'', ''UnrealTournament.ini'']"
      using metadata_files_names [OF x [unfolded ms] g] by blast
    then show ?thesis using game_file_name [of p n] names file_names by auto
  qed
  have native: "under_opt ''opt/insta-game/native.json''"
    unfolding under_opt_def using file_names(4) by (intro exI [of _ "[''native.json'']"]) (simp add: slash_def)
  show ?thesis using files f x ms meta native by (auto simp: install_files_def Let_def installed_name_def split: if_splits)
qed

section \<open>The archive's entries\<close>

text \<open>\<open>wrote\<close> is what the archive holds: a header is added to it, or not when the call fails, and nothing else adds
  one. A walk gives only paths under its root.\<close>

locale tar_world =
  fixes ta :: "'w archive" and wkr :: "'w walker" and wrote :: "'w \<Rightarrow> tar_header list"
  assumes header: "ta_header ta h w = (r, w') \<Longrightarrow> wrote w' = wrote w \<or> wrote w' = wrote w @ [h]"
    and opened: "ta_open ta p w = (r, w') \<Longrightarrow> wrote w' = wrote w"
    and statted: "ta_stat ta p w = (x, w') \<Longrightarrow> wrote w' = wrote w"
    and copied: "ta_copy ta p w = (r, w') \<Longrightarrow> wrote w' = wrote w"
    and closed: "ta_close ta w = (r, w') \<Longrightarrow> wrote w' = wrote w"
    and walked: "wkr root w = (items, w') \<Longrightarrow> wrote w' = wrote w"
    and walked_under: "wkr root w = (items, w') \<Longrightarrow> item \<in> set items \<Longrightarrow> path_rel root (wi_path item) = Inr rel \<Longrightarrow> inside rel"
begin

definition adds :: "(string \<Rightarrow> bool) \<Rightarrow> 'w \<Rightarrow> 'w \<Rightarrow> bool" where
  "adds ok w w' \<longleftrightarrow> (\<exists>hs. wrote w' = wrote w @ hs \<and> (\<forall>h\<in>set hs. ok (th_name h)))"

lemma adds_refl: "wrote w' = wrote w \<Longrightarrow> adds ok w w'"
  by (simp add: adds_def)

lemma adds_trans: "adds ok a b \<Longrightarrow> adds ok b c \<Longrightarrow> adds ok a c"
  unfolding adds_def by (metis UnE append.assoc set_append)

lemma header_adds: "ta_header ta h w = (r, w') \<Longrightarrow> ok (th_name h) \<Longrightarrow> adds ok w w'"
  using header [of h w r w'] by (auto simp: adds_def)

lemma file_adds:
  assumes call: "write_install_file ta f w = (r, w')" and ok: "ok (if_destination f)"
  shows "adds ok w w'"
proof -
  obtain o1 w1 where o1: "ta_open ta (if_source f) w = (o1, w1)" by fastforce
  obtain x w2 where x: "ta_stat ta (if_source f) w1 = (x, w2)" by fastforce
  have k1: "adds ok w w1" using adds_refl [OF opened [OF o1]] .
  have k2: "adds ok w w2" using adds_trans [OF k1 adds_refl [OF statted [OF x]]] .
  show ?thesis
  proof (cases "\<exists>u n. o1 = Inr u \<and> x = Inr (True, n)")
    case False
    then show ?thesis
      using call o1 x k1 k2 by (auto simp: write_install_file_def split: sum.splits if_splits)
  next
    case True
    then obtain u n where un: "o1 = Inr u" "x = Inr (True, n)" by blast
    let ?h = "\<lparr>th_name = if_destination f, th_mode = if_mode f, th_size = n, th_dir = False\<rparr>"
    obtain y w3 where y: "ta_header ta ?h w2 = (y, w3)" by fastforce
    have k3: "adds ok w w3" using adds_trans [OF k2 header_adds [OF y]] ok by simp
    show ?thesis
    proof (cases y)
      case (Inl e)
      then show ?thesis using call o1 x un y k3 by (simp add: write_install_file_def)
    next
      case (Inr v)
      then have "ta_copy ta (if_source f) w3 = (r, w')" using call o1 x un y by (simp add: write_install_file_def)
      then show ?thesis using adds_trans [OF k3 adds_refl [OF copied]] by blast
    qed
  qed
qed

lemma files_add:
  "write_install_files ta fs w = (r, w') \<Longrightarrow> \<forall>f\<in>set fs. ok (if_destination f) \<Longrightarrow> adds ok w w'"
proof (induction fs arbitrary: w)
  case Nil
  then show ?case by (simp add: adds_refl)
next
  case (Cons f fs)
  obtain x w1 where x: "write_install_file ta f w = (x, w1)" by fastforce
  have k: "adds ok w w1" using file_adds [OF x] Cons.prems(2) by simp
  show ?case
  proof (cases x)
    case (Inl e)
    then show ?thesis using Cons.prems x k by simp
  next
    case (Inr u)
    then have "adds ok w1 w'" using Cons x by simp
    then show ?thesis using k adds_trans by blast
  qed
qed

lemma item_adds:
  assumes call: "write_install_item ta source (''opt/insta-game/'' @ d) x w = (r, w')" and d: "plain_name d"
    and rel: "\<And>rel. path_rel source (wi_path x) = Inr rel \<Longrightarrow> inside rel"
  shows "adds under_opt w w'"
proof (cases "wi_error x = None \<and> \<not> wi_symlink x \<and> (\<exists>rel. path_rel source (wi_path x) = Inr rel)")
  case False
  then have "w' = w" using call by (auto simp: write_install_item_def split: option.splits sum.splits if_splits)
  then show ?thesis by (simp add: adds_refl)
next
  case True
  then obtain rel where rl: "path_rel source (wi_path x) = Inr rel" by blast
  let ?n = "path_join [''opt/insta-game/'' @ d, rel]"
  have n: "under_opt ?n" "under_opt (?n @ ''/'')" using tree_name [OF d] rel [OF rl] by blast+
  show ?thesis
  proof (cases "wi_dir x")
    case dir: True
    then have "ta_header ta \<lparr>th_name = ?n @ ''/'', th_mode = 0x1ED, th_size = 0, th_dir = True\<rparr> w = (r, w')"
      using call True rl by (simp add: write_install_item_def Let_def)
    then show ?thesis using header_adds n(2) by fastforce
  next
    case nodir: False
    show ?thesis
    proof (cases "wi_info x")
      case (Inl e)
      then show ?thesis using call True rl nodir by (simp add: write_install_item_def Let_def adds_refl)
    next
      case (Inr m)
      then have "write_install_file ta \<lparr>if_source = wi_path x, if_destination = ?n, if_mode = and m 0x1ED\<rparr> w = (r, w')"
        using call True rl nodir by (simp add: write_install_item_def Let_def)
      then show ?thesis using file_adds n(1) by fastforce
    qed
  qed
qed

lemma items_add:
  "write_install_items ta source (''opt/insta-game/'' @ d) xs w = (r, w') \<Longrightarrow> plain_name d \<Longrightarrow>
   (\<And>x rel. x \<in> set xs \<Longrightarrow> path_rel source (wi_path x) = Inr rel \<Longrightarrow> inside rel) \<Longrightarrow> adds under_opt w w'"
proof (induction xs arbitrary: w)
  case Nil
  then show ?case by (simp add: adds_refl)
next
  case (Cons x xs)
  obtain y w1 where y: "write_install_item ta source (''opt/insta-game/'' @ d) x w = (y, w1)" by fastforce
  have k: "adds under_opt w w1" using item_adds [OF y Cons.prems(2)] Cons.prems(3) by auto
  show ?case
  proof (cases y)
    case (Inl e)
    then show ?thesis using Cons.prems(1) y k by simp
  next
    case (Inr u)
    then have "write_install_items ta source (''opt/insta-game/'' @ d) xs w1 = (r, w')" using Cons.prems(1) y by simp
    then have "adds under_opt w1 w'" using Cons.IH Cons.prems(2,3) by (meson list.set_intros(2))
    then show ?thesis using k adds_trans by blast
  qed
qed

lemma tree_adds:
  assumes "optional_tree ta wkr source (''opt/insta-game/'' @ d) x w = (r, w')" "plain_name d"
  shows "adds under_opt w w'"
proof (cases "source \<noteq> [] \<and> (\<exists>u. x = Inr u)")
  case False
  then have "w' = w" using assms(1) by (auto simp: optional_tree_def split: sum.splits if_splits)
  then show ?thesis by (simp add: adds_refl)
next
  case True
  obtain items w1 where i: "wkr source w = (items, w1)" by fastforce
  then have "write_install_items ta source (''opt/insta-game/'' @ d) items w1 = (r, w')"
    using assms(1) True by (auto simp: optional_tree_def write_install_tree_def)
  then have "adds under_opt w1 w'" using items_add assms(2) walked_under [OF i] by blast
  then show ?thesis using adds_trans [OF adds_refl [OF walked [OF i]]] by blast
qed

lemma adds_mono: "adds p w w' \<Longrightarrow> (\<And>n. p n \<Longrightarrow> q n) \<Longrightarrow> adds q w w'"
  unfolding adds_def by blast

lemma archive_adds:
  assumes call: "write_archive ta wkr o1 p w = (r, w')" and files: "\<forall>f\<in>set (pi_files p). installed_name (if_destination f)"
  shows "adds installed_name w w'"
proof -
  obtain r1 w1 where 1: "write_install_files ta (pi_files p) w = (r1, w1)" by fastforce
  obtain r2 w2 where 2: "optional_tree ta wkr (io_engines o1) ''opt/insta-game/engine'' r1 w1 = (r2, w2)" by fastforce
  obtain r3 w3 where 3: "optional_tree ta wkr (io_assets o1) ''opt/insta-game/assets'' r2 w2 = (r3, w3)" by fastforce
  obtain r4 w4 where 4: "ta_close ta w3 = (r4, w4)" by fastforce
  have w': "w' = w4" using call 1 2 3 4 by (auto simp: write_archive_def)
  have a: "adds installed_name w w1" using files_add [OF 1 files] .
  have "adds under_opt w1 w2" "adds under_opt w2 w3"
    using tree_adds [of "io_engines o1" "''engine''" r1 w1 r2 w2] tree_adds [of "io_assets o1" "''assets''" r2 w2 r3 w3]
      2 3 file_names by simp_all
  then have "adds installed_name w1 w2" "adds installed_name w2 w3"
    by (auto intro: adds_mono simp: installed_name_def)
  then show ?thesis using a adds_trans adds_refl [OF closed [OF 4]] w' by blast
qed

end

section \<open>Text in a script\<close>

text \<open>How a POSIX shell reads one word that consists of quoted parts only: the quote it is in, if any. Inside double
  quotes it also looks for expansions, which this reader refuses.\<close>

fun shell_word :: "char option \<Rightarrow> string \<Rightarrow> string option" where
  "shell_word q [] = (if q = None then Some [] else None)"
| "shell_word None (c # cs) = (if c = apostrophe \<or> c = CHR 0x22 then shell_word (Some c) cs else None)"
| "shell_word (Some q) (c # cs) =
     (if c = q then shell_word None cs
      else if q = CHR 0x22 \<and> c \<in> {CHR ''$'', CHR 0x60, CHR 0x5C} then None
      else map_option ((#) c) (shell_word (Some q) cs))"

lemma shell_word_quoted: "shell_word (Some apostrophe) (quote_chars s @ [apostrophe]) = Some s"
proof (induction s)
  case (Cons c cs)
  then show ?case by (cases "c = apostrophe") (simp_all add: apostrophe_def)
qed simp

definition newline :: char where
  "newline = CHR 0x0A"

lemma not_newline: "is_lower_alnum c \<Longrightarrow> c \<noteq> newline" "table_char c \<Longrightarrow> c \<noteq> newline"
  by (auto simp: newline_def table_char_def is_lower_alnum_def is_digit_def lower_char_def split: if_splits)

lemma check_ids_valid: "check_ids is seen \<Longrightarrow> i \<in> set is \<Longrightarrow> valid_id i"
  by (induction "is" arbitrary: seen) auto

lemma valid_id_line: "valid_id i \<Longrightarrow> newline \<notin> set i"
  by (cases i) (auto simp: list_all_iff newline_def is_lower_alnum_def is_digit_def)

lemma set_join_with: "set (join_with sep xs) \<subseteq> set sep \<union> (\<Union>x\<in>set xs. set x)"
  by (induction sep xs rule: join_with.induct) auto

lemma parsed_ids_line: "parse_ids s = Inr is \<Longrightarrow> newline \<notin> set s"
proof -
  assume p: "parse_ids s = Inr is"
  then have i: "check_ids (split_on CHR 0x2C s) {}" by (auto simp: parse_ids_def Let_def split: if_splits)
  have "newline \<notin> set i" if "i \<in> set (split_on CHR 0x2C s)" for i
    using valid_id_line check_ids_valid [OF i that] by blast
  moreover have "s = join_with [CHR 0x2C] (split_on CHR 0x2C s)" by (simp add: join_split_on)
  ultimately show "newline \<notin> set s"
    using set_join_with [of "[CHR 0x2C]" "split_on CHR 0x2C s"] by (auto simp: newline_def)
qed

section \<open>Properties\<close>

text \<open>C40. Unpacking the archive of a prepared installation writes nothing but the new binary, the token, the
  environment file and what is below /opt/insta-game: every entry it gets, whether or not packing succeeds, has
  such a name, without climbing elements, whatever the engine and asset trees hold.\<close>

theorem installed_entries_stay_in_place:
  assumes "tar_world ta wkr wrote" and "prepare_install ic o1 tok v = (Inr p, v')"
    and "\<forall>q\<in>set (catalog_metadata ic o1). plain_name (path_base (path_dir q))"
    and "write_archive ta wkr o1 p w = (r, w')"
  shows "\<exists>hs. wrote w' = wrote w @ hs \<and> (\<forall>h\<in>set hs. installed_name (th_name h))"
proof -
  obtain v1 v2 where "install_files ic o1 tok v1 = (Inr (pi_files p), v2)"
    using assms(2) by (auto simp: prepare_install_def split: if_splits sum.splits prod.splits)
  then have "\<forall>f\<in>set (pi_files p). installed_name (if_destination f)"
    using install_files_names [OF _ _ assms(3)] by simp
  then show ?thesis
    using tar_world.archive_adds [OF assms(1,4)] tar_world.adds_def [OF assms(1)] by simp
qed

text \<open>Files in memory: a tree of one directory with a file, and a catalog of one game.\<close>

definition memory_archive :: "tar_header list archive" where
  "memory_archive = \<lparr>ta_header = (\<lambda>h w. (Inr (), w @ [h])), ta_open = (\<lambda>p w. (Inr (), w)),
     ta_stat = (\<lambda>p w. (Inr (True, 3), w)), ta_copy = (\<lambda>p w. (Inr (), w)), ta_close = (\<lambda>w. (Inr (), w))\<rparr>"

definition engine_tree :: "walk_item list" where
  "engine_tree =
     [\<lparr>wi_path = ''/e'', wi_error = None, wi_dir = True, wi_symlink = False, wi_regular = False, wi_info = Inr 0x1ED\<rparr>,
      \<lparr>wi_path = ''/e/ut'', wi_error = None, wi_dir = False, wi_symlink = False, wi_regular = True, wi_info = Inr 0x1FF\<rparr>]"

definition memory_walker :: "tar_header list walker" where
  "memory_walker root w = (if root = ''/e'' then engine_tree else [], w)"

lemma engine_tree_rel: "list_all (\<lambda>x. case path_rel ''/e'' (wi_path x) of Inl e \<Rightarrow> True | Inr rel \<Rightarrow> inside rel) engine_tree"
  by code_simp

interpretation memory_tar: tar_world memory_archive memory_walker "\<lambda>w. w"
proof unfold_locales
  fix root w items w' item rel
  assume "memory_walker root w = (items, w')" "item \<in> set items" "path_rel root (wi_path item) = Inr rel"
  then show "inside rel" using engine_tree_rel by (auto simp: memory_walker_def list_all_iff split: if_splits sum.splits)
qed (auto simp: memory_archive_def memory_walker_def)

definition memory_install :: "unit install_calls" where
  "memory_install =
     \<lparr>ic_build = \<lparr>bd_elf = (\<lambda>p w. (Inr \<lparr>el_segments = [], el_machine = 183\<rparr>, w)), bd_open = (\<lambda>p w. (Inr (), w)),
        bd_seek = (\<lambda>p w. (Inr (), w)), bd_read = (\<lambda>p w. (Inr [], w)), bd_dir = (\<lambda>p w. (Inr [], w)),
        bd_zip = (\<lambda>n m d. Inr []), bd_sha256 = (\<lambda>s. [])\<rparr>,
      ic_catalog = one_game_files, ic_files = refusing_files, ic_engines = (\<lambda>s. Inl ErrBusy),
      ic_lstat = (\<lambda>p w. (Inr True, w)), ic_stat = (\<lambda>p w. (Inr True, w)), ic_walk = (\<lambda>p w. ([], w))\<rparr>"

definition memory_options :: install_options where
  "memory_options = \<lparr>io_binary = ''/b'', io_engines = ''/e'', io_assets = [], io_native_config = [], io_catalog = ''c'',
     io_env_file = [], io_pull_images = False, io_max_runtime = 0\<rparr>"

definition memory_prepared :: "err + prepared_install" where
  "memory_prepared = fst (prepare_install memory_install memory_options ''/t'' ())"

lemma memory_prepares:
  "case memory_prepared of Inl e \<Rightarrow> False | Inr p \<Rightarrow>
     map th_name (snd (write_archive memory_archive memory_walker memory_options p [])) =
       [''usr/local/bin/insta-game.new'', ''var/lib/insta-game/token'', ''opt/insta-game/docker-containers/quake/game.json'',
        ''opt/insta-game/docker-containers/quake/server.cfg'', ''opt/insta-game/docker-containers/quake/UnrealTournament.ini'',
        ''opt/insta-game/engine/'', ''opt/insta-game/engine/ut'']"
  by code_simp

theorem installed_entries_stay_in_place_witness:
  "\<exists>p hs. memory_prepared = Inr p \<and> snd (write_archive memory_archive memory_walker memory_options p []) = hs \<and>
     length hs = 7 \<and> (\<forall>h\<in>set hs. installed_name (th_name h))"
proof -
  obtain p where p: "memory_prepared = Inr p" using memory_prepares by (auto split: sum.splits)
  have "prepare_install memory_install memory_options ''/t'' () = (Inr p, ())"
    using p by (simp add: memory_prepared_def prod_eq_iff)
  moreover have "\<forall>q\<in>set (catalog_metadata memory_install memory_options). plain_name (path_base (path_dir q))"
    by code_simp
  moreover have "length (snd (write_archive memory_archive memory_walker memory_options p [])) = 7"
    using arg_cong [OF memory_prepares [unfolded p sum.case], of length] by simp
  ultimately show ?thesis
    using installed_entries_stay_in_place [OF memory_tar.tar_world_axioms _ _ prod.collapse [symmetric]] p by fastforce
qed

text \<open>An image name stands in its pull command as one shell word that reads as exactly that name, whatever
  characters it has; and the lobby's configuration, when it is accepted, stands in its here-document as three lines,
  none of which ends it, so that it adds no command.\<close>

theorem install_scripts_carry_words:
  assumes "lobby_script c = Inr (Script text1)" and "cc_lobby_table c \<noteq> []"
  shows "shell_word None (shell_quote img) = Some img \<and> ''LOBBY'' \<notin> set (lobby_lines c) \<and>
    (\<exists>start end1. split_on newline text1 = start # lobby_lines c @ [''LOBBY'', end1])"
proof -
  let ?start = "''sudo tee /etc/insta-game-lobby.env >/dev/null <<'' @ [apostrophe] @ ''LOBBY'' @ [apostrophe]"
  let ?finish = "''sudo chmod 0600 /etc/insta-game-lobby.env''"
  obtain "is" where ids: "parse_ids (cc_lobby_instances c) = Inr is" "table_name (cc_lobby_table c)" "region_name (cc_region c)"
    and t: "text1 = lines_of ([?start] @ lobby_lines c @ [''LOBBY'', ?finish])"
    using assms by (auto simp: lobby_script_def split: sum.splits if_splits)
  have "newline \<notin> set (cc_region c)"
    using ids(3) not_newline(1) [of newline] by (auto simp: region_name_def list_all_iff newline_def)
  moreover have "newline \<notin> set (cc_lobby_table c)"
    using ids(2) not_newline(2) [of newline] by (auto simp: table_name_def list_all_iff)
  ultimately have l: "\<forall>x\<in>set (lobby_lines c). newline \<notin> set x"
    using parsed_ids_line [OF ids(1)] by (auto simp: lobby_lines_def newline_def)
  have "newline \<notin> set ?start" "newline \<notin> set ?finish" "newline \<notin> set ''LOBBY''" by (simp_all add: newline_def apostrophe_def)
  then have "split_on newline (join_with [newline] ([?start] @ lobby_lines c @ [''LOBBY'', ?finish])) =
      [?start] @ lobby_lines c @ [''LOBBY'', ?finish]"
    using l by (intro split_join_on) auto
  then have "split_on newline text1 = ?start # lobby_lines c @ [''LOBBY'', ?finish]"
    using t by (simp add: lines_of_def newline_def)
  moreover have "''LOBBY'' \<notin> set (lobby_lines c)" by (simp add: lobby_lines_def)
  moreover have "shell_word None (shell_quote img) = Some img"
    using shell_word_quoted by (simp add: shell_quote_def)
  ultimately show ?thesis by blast
qed

definition lobby_config :: cloud_config where
  "lobby_config = \<lparr>cc_fleet = False, cc_fleet_bucket = [], cc_region = ''ca-central-1'', cc_stack = ''s'', cc_instance_id = ''i-1'',
     cc_key_path = [], cc_token_path = [], cc_lobby_table = ''lobby_1.x'', cc_lobby_instances = ''a,b'', cc_lobby_url = []\<rparr>"

theorem install_scripts_carry_words_witness:
  "\<exists>text1 start end1. lobby_script lobby_config = Inr (Script text1) \<and>
     split_on newline text1 = start # lobby_lines lobby_config @ [''LOBBY'', end1]"
proof -
  have "case lobby_script lobby_config of Inr (Script t) \<Rightarrow> True | _ \<Rightarrow> False" by code_simp
  then obtain t where t: "lobby_script lobby_config = Inr (Script t)" by (auto split: sum.splits script.splits)
  have "cc_lobby_table lobby_config \<noteq> []" by (simp add: lobby_config_def)
  from install_scripts_carry_words [OF t this, of "[apostrophe]"] show ?thesis using t by blast
qed

end
