(* ===== verification/AwsCommand.thy ===== *)
theory AwsCommand
  imports FleetJoin Install Flags TokenFile LobbyPage
begin

text \<open>
  The commands for AWS (internal/command/aws.go, fleet_status.go), the Lambda function (lambda.go) and the flags
  of the wake command (wake.go), over the operations of Cloud, CloudRelease, Install, FleetScheduler and
  WakeCommand. Flags are parsed by Flags; the SDK, JSON, SSH keys and files are parameters. What is printed is
  a value of aws_output.
\<close>

section \<open>Stacks and change sets\<close>

definition stack_short_name :: "string \<Rightarrow> string" where
  "stack_short_name name =
     (let parts = split_on CHR ''/'' name in
      if has_prefix name ''arn:'' \<and> length parts = 3 then parts ! 1 else name)"

record fleet_view =
  fv_url :: string
  fv_hosts :: "(string \<times> string \<times> string \<times> resources \<times> string) list"
  fv_servers :: "(string \<times> string \<times> string \<times> string \<times> string) list"
  fv_deleting :: bool

datatype aws_output =
    Silent | Printed string | Review string "resource_change list" | HostShown cloud_state | FleetShown fleet_view

definition print_change_set :: "('w, 't) aws \<Rightarrow> string \<Rightarrow> ('w, aws_output) io" where
  "print_change_set a i w =
     (case aw_change_set a i [] w of
        (Inl e, w) \<Rightarrow> (Inl (aws_error e), w)
      | (Inr cs, w) \<Rightarrow> (Inr (Review i (List.map_filter id (cs_changes cs))), w))"

section \<open>Fleet status and stop\<close>

fun inspect_hosts ::
  "'w ec2 \<Rightarrow> host list \<Rightarrow> ('w, (string \<times> string \<times> string \<times> resources \<times> string) list) io" where
  "inspect_hosts e [] w = (Inr [], w)"
| "inspect_hosts e (h # hs) w =
     (case inspect_machine e h w of
        (Inl er, w) \<Rightarrow> (Inl er, w)
      | (Inr m, w) \<Rightarrow>
          (case inspect_hosts e hs w of
             (Inl er, w) \<Rightarrow> (Inl er, w)
           | (Inr xs, w) \<Rightarrow> (Inr ((h_id h, m_id m, m_state m, h_capacity h, h_error h) # xs), w)))"

definition fleet_status :: "('w, 't) aws \<Rightarrow> cloud_config \<Rightarrow> ('w, fleet_view) io" where
  "fleet_status a c w =
     (case load (aw_table a (cc_lobby_table c)) w of
        (Inl e, w) \<Rightarrow> (Inl e, w)
      | (Inr s, w) \<Rightarrow>
          (case inspect_hosts (aw_ec2 a (cc_stack c)) (st_hosts s) w of
             (Inl e, w) \<Rightarrow> (Inl e, w)
           | (Inr hosts, w) \<Rightarrow>
               (Inr \<lparr>fv_url = cc_lobby_url c, fv_hosts = hosts,
                  fv_servers = map (\<lambda>v. (v_id v, v_game v, v_name v, v_host v, v_desired v)) (st_servers s),
                  fv_deleting = st_deleting s\<rparr>, w)))"

fun stop_servers :: "'w scheduler \<Rightarrow> server list \<Rightarrow> ('w, unit) io" where
  "stop_servers sc [] w = (Inr (), w)"
| "stop_servers sc (v # vs) w =
     (if v_desired v = ''deleted'' then stop_servers sc vs w
      else (case action sc (v_id v) ''stop'' w of
              (Inl e, w) \<Rightarrow> (Inl (ErrWrap (''stop '' @ v_id v @ '': '') e), w)
            | (Inr u, w) \<Rightarrow> stop_servers sc vs w))"

definition stop_scheduler :: "('w, 't) aws \<Rightarrow> cloud_config \<Rightarrow> 'w scheduler" where
  "stop_scheduler a c =
     fleet_scheduler (aw_table a (cc_lobby_table c)) (aw_ec2 a (cc_stack c)) zero_config (aw_runtime a)"

definition fleet_stop :: "('w, 't) aws \<Rightarrow> cloud_config \<Rightarrow> 'w \<Rightarrow> ((err + unit) \<times> 'w) option" where
  "fleet_stop a c w =
     (case load (aw_table a (cc_lobby_table c)) w of
        (Inl e, w) \<Rightarrow> Some (Inl e, w)
      | (Inr s, w) \<Rightarrow>
          (case stop_servers (stop_scheduler a c) (st_servers s) w of
             (Inl e, w) \<Rightarrow> Some (Inl e, w)
           | (Inr u, w) \<Rightarrow> reconcile (stop_scheduler a c) w))"

section \<open>The Lambda function\<close>

definition lambda_config :: "(string \<Rightarrow> string) \<Rightarrow> fleet_release \<Rightarrow> err + fleet_config" where
  "lambda_config env r =
     (case atoi (env ''INSTA_GAME_FLEET_MAX_HOSTS'') of
        None \<Rightarrow> Inl (ErrMsg ''invalid fleet host limit'')
      | Some limit \<Rightarrow>
          if limit < 1 \<or> 16 < limit then Inl (ErrMsg ''invalid fleet host limit'')
          else (let c = (fr_config r)\<lparr>fc_max_hosts := min (fc_max_hosts (fr_config r)) limit,
                        fc_release := env ''INSTA_GAME_FLEET_RELEASE'',
                        fc_launch_template := env ''INSTA_GAME_FLEET_TEMPLATE'',
                        fc_launch_version := env ''INSTA_GAME_FLEET_VERSION''\<rparr>
                in case validate c of Inl e \<Rightarrow> Inl e | Inr u \<Rightarrow> Inr c))"

datatype 'w lambda_service =
    FleetService "'w scheduler" string
  | LobbyService "string list" string string string string

definition lambda_fleet ::
  "('w, 't) aws \<Rightarrow> (string \<times> err option \<Rightarrow> err + fleet_release) \<Rightarrow> (string \<Rightarrow> string) \<Rightarrow> ('w, 'w lambda_service) io" where
  "lambda_fleet a parse env w =
     (case load_fleet_release a parse env w of
        (Inl e, w) \<Rightarrow> (Inl e, w)
      | (Inr r, w) \<Rightarrow>
          (case lambda_config env r of
             Inl e \<Rightarrow> Inl e
           | Inr c \<Rightarrow>
               (case validate_hash (env ''INSTA_GAME_LOBBY_TOKEN_HASH'') of
                  Inl e \<Rightarrow> Inl e
                | Inr u \<Rightarrow>
                    Inr (FleetService
                      (fleet_scheduler (aw_table a (env ''INSTA_GAME_FLEET_TABLE'')) (aw_ec2 a (env ''INSTA_GAME_FLEET_STACK''))
                        c (aw_runtime a))
                      (env ''INSTA_GAME_LOBBY_TOKEN_HASH''))), w))"

text \<open>\<open>sdk\<close> is \<open>LoadSDK\<close>. A lobby's service keeps its presets, key, table, host and stack.\<close>

definition lambda_command ::
  "(string \<Rightarrow> ('w, ('w, 't) aws) io) \<Rightarrow> (string \<times> err option \<Rightarrow> err + fleet_release) \<Rightarrow> (string \<Rightarrow> string) \<Rightarrow>
     ('w, 'w lambda_service) io" where
  "lambda_command sdk parse env w =
     (if env ''INSTA_GAME_FLEET_TABLE'' \<noteq> []
      then (case sdk (env ''AWS_REGION'') w of (Inl e, w) \<Rightarrow> (Inl e, w) | (Inr a, w) \<Rightarrow> lambda_fleet a parse env w)
      else (case parse_ids (env ''INSTA_GAME_LOBBY_INSTANCES'') of
              Inl e \<Rightarrow> (Inl e, w)
            | Inr is \<Rightarrow>
                (case validate_hash (env ''INSTA_GAME_LOBBY_TOKEN_HASH'') of
                   Inl e \<Rightarrow> (Inl e, w)
                 | Inr u \<Rightarrow>
                     (case sdk (env ''AWS_REGION'') w of
                        (Inl e, w) \<Rightarrow> (Inl e, w)
                      | (Inr a, w) \<Rightarrow>
                          (Inr (LobbyService is (env ''INSTA_GAME_LOBBY_TOKEN_HASH'') (env ''INSTA_GAME_LOBBY_TABLE'')
                             (env ''INSTA_GAME_HOST_ID'') (env ''INSTA_GAME_STACK_ID'')), w)))))"

text \<open>An event of the schedule reconciles, any other is a request of the page.\<close>

datatype 'q lambda_event = Scheduled | PageRequest 'q

definition lambda_event_of :: "(string \<Rightarrow> err + string) \<Rightarrow> (string \<Rightarrow> err + 'q) \<Rightarrow> string \<Rightarrow> err + 'q lambda_event" where
  "lambda_event_of source request raw =
     (case source raw of
        Inl e \<Rightarrow> Inl e
      | Inr s \<Rightarrow>
          if s = ''aws.events'' then Inr Scheduled
          else (case request raw of Inl e \<Rightarrow> Inl e | Inr q \<Rightarrow> Inr (PageRequest q)))"

text \<open>The configuration of the function's scheduler is one under which the scheduler's properties hold.\<close>

lemma lambda_config_sound:
  assumes "lambda_config env r = Inr c"
  shows "sound_config c \<and> validate c = Inr () \<and> fc_max_hosts c \<le> 16 \<and> fc_release c = env ''INSTA_GAME_FLEET_RELEASE''"
proof -
  have v: "validate c = Inr ()" and m: "fc_max_hosts c \<le> 16" and r: "fc_release c = env ''INSTA_GAME_FLEET_RELEASE''"
    using assms by (auto simp: lambda_config_def Let_def split: option.splits if_splits sum.splits)
  show ?thesis using validate_sound_config [OF v] v m r by blast
qed

section \<open>The flags of aws\<close>

definition aws_text_flags :: "string list" where
  "aws_text_flags = [''region'', ''stack'', ''game-cidr'', ''operator-cidr'', ''public-key'', ''instance-type'', ''change-set'',
     ''config'', ''out'', ''key'', ''token-file'', ''binary'', ''engines'', ''assets'', ''env-file'', ''native-config'',
     ''lobby-instances'', ''lobby-token-file'', ''fleet-config'', ''catalog'']"

definition aws_flags :: "(string \<Rightarrow> int option) \<Rightarrow> flag_set" where
  "aws_flags dur n =
     (if n \<in> set aws_text_flags then Some text_flag
      else if n \<in> set [''disk-gib'', ''udp-from'', ''udp-to'', ''max-hosts''] then Some int_flag
      else if n = ''disable'' \<or> n = ''pull-images'' then Some bool_flag
      else if n = ''host-max-runtime'' \<or> n = ''expires-after''
      then Some \<lparr>fk_bool = False, fk_accepts = (\<lambda>s. dur s \<noteq> None)\<rparr> else None)"

definition flag_duration :: "(string \<Rightarrow> int option) \<Rightarrow> assignments \<Rightarrow> string \<Rightarrow> int \<Rightarrow> int" where
  "flag_duration dur as n dflt =
     (case map_of (rev as) n of None \<Rightarrow> dflt | Some v \<Rightarrow> (case dur v of None \<Rightarrow> dflt | Some d \<Rightarrow> d))"

record ('w, 't) aws_calls =
  ao_sdk :: "string \<Rightarrow> ('w, ('w, 't) aws) io"
  ao_dur :: "string \<Rightarrow> int option"
  ao_parse_config :: "string \<Rightarrow> err + cloud_config"
  ao_config_json :: "cloud_config \<Rightarrow> err + string"
  ao_fleet_json :: "string \<Rightarrow> fleet_config \<Rightarrow> err + fleet_config"
  ao_authorized_key :: "string \<Rightarrow> err + (string \<times> string)"
  ao_abs :: "string \<Rightarrow> err + string"
  ao_host :: "cloud_config \<Rightarrow> 'w cloud_host"
  ao_install :: "'w install_calls"
  ao_ssh :: "'w ssh"
  ao_archive :: "'w archive"
  ao_release :: release_json
  ao_images :: "'w image_registry"
  ao_regular :: "string \<Rightarrow> bool"
  ao_tokens :: "'w token_calls"

abbreviation ao_files :: "('w, 't) aws_calls \<Rightarrow> 'w files" where
  "ao_files ao \<equiv> ic_files (ao_install ao)"

abbreviation ao_build :: "('w, 't) aws_calls \<Rightarrow> 'w build" where
  "ao_build ao \<equiv> ic_build (ao_install ao)"

definition zero_cloud_config :: cloud_config where
  "zero_cloud_config = \<lparr>cc_fleet = False, cc_fleet_bucket = [], cc_region = [], cc_stack = [], cc_instance_id = [],
     cc_key_path = [], cc_token_path = [], cc_lobby_table = [], cc_lobby_instances = [], cc_lobby_url = []\<rparr>"

definition config_conflict :: "assignments \<Rightarrow> cloud_config \<Rightarrow> bool" where
  "config_conflict as c \<longleftrightarrow>
     specified as ''region'' \<and> flag_text as ''region'' [] \<noteq> cc_region c \<or>
     specified as ''stack'' \<and> flag_text as ''stack'' [] \<noteq> cc_stack c \<and>
       flag_text as ''stack'' [] \<noteq> stack_short_name (cc_stack c)"

text \<open>The saved configuration, if one is given, with the region and the stack.\<close>

definition aws_saved :: "('w, 't) aws_calls \<Rightarrow> assignments \<Rightarrow> ('w, cloud_config \<times> string \<times> string) io" where
  "aws_saved ao as w =
     (let path = flag_text as ''config'' [] in
      if path = []
      then (Inr (zero_cloud_config, flag_text as ''region'' ''ca-central-1'', flag_text as ''stack'' ''insta-game-host''), w)
      else (case load_config (fi_read (ao_files ao)) (ao_parse_config ao) path w of
              (Inl e, w) \<Rightarrow> (Inl e, w)
            | (Inr c, w) \<Rightarrow>
                (if config_conflict as c then Inl (ErrMsg ''--region or --stack conflicts with host config'')
                 else Inr (c, cc_region c, cc_stack c), w)))"

text \<open>The SDK of the region, and the configuration of the stack where an action needs one.\<close>

definition aws_context ::
  "('w, 't) aws_calls \<Rightarrow> string \<Rightarrow> assignments \<Rightarrow> ('w, ('w, 't) aws \<times> cloud_config \<times> string) io" where
  "aws_context ao act as w =
     (case aws_saved ao as w of
        (Inl e, w) \<Rightarrow> (Inl e, w)
      | (Inr (c, region, name), w) \<Rightarrow>
          (case ao_sdk ao region w of
             (Inl e, w) \<Rightarrow> (Inl e, w)
           | (Inr a, w) \<Rightarrow>
               if flag_text as ''config'' [] = [] \<and> act \<in> set [''lobby'', ''status'', ''wake'', ''stop'']
               then (case read_config a name w of (Inl e, w) \<Rightarrow> (Inl e, w) | (Inr c, w) \<Rightarrow> (Inr (a, c, name), w))
               else (Inr (a, c, name), w)))"

section \<open>Planning\<close>

record plan_sizes =
  ps_instance_type :: string
  ps_disk :: int
  ps_max_hosts :: int

definition flag_sizes :: "assignments \<Rightarrow> plan_sizes" where
  "flag_sizes as =
     (let hosts = flag_int as ''max-hosts'' 0;
          kind = (if 0 < hosts \<and> \<not> specified as ''instance-type'' then ''t4g.small''
                  else flag_text as ''instance-type'' ''t3a.micro'')
      in \<lparr>ps_instance_type = kind, ps_disk = flag_int as ''disk-gib'' 8, ps_max_hosts = hosts\<rparr>)"

text \<open>A fleet's deployed sizes, for those that no flag gives.\<close>

fun deployed_sizes :: "assignments \<Rightarrow> stack_parameter list \<Rightarrow> plan_sizes \<Rightarrow> err + plan_sizes" where
  "deployed_sizes as [] z = Inr z"
| "deployed_sizes as (p # ps) z =
     (case (if sp_key p = ''InstanceType'' \<and> \<not> specified as ''instance-type''
            then Inr (z\<lparr>ps_instance_type := sp_value p\<rparr>)
            else if sp_key p = ''DiskGiB'' \<and> \<not> specified as ''disk-gib''
            then (case number_of (sp_value p) of Inl e \<Rightarrow> Inl e | Inr n \<Rightarrow> Inr (z\<lparr>ps_disk := n\<rparr>))
            else if sp_key p = ''MaxHosts'' \<and> \<not> specified as ''max-hosts''
            then (case number_of (sp_value p) of Inl e \<Rightarrow> Inl e | Inr n \<Rightarrow> Inr (z\<lparr>ps_max_hosts := n\<rparr>))
            else Inr z) of
        Inl e \<Rightarrow> Inl e
      | Inr z \<Rightarrow> deployed_sizes as ps z)"

definition aws_sizes ::
  "('w, 't) aws \<Rightarrow> cloud_config \<Rightarrow> string \<Rightarrow> string \<Rightarrow> assignments \<Rightarrow> ('w, plan_sizes) io" where
  "aws_sizes a c act name as w =
     (if cc_fleet c \<and> act = ''plan''
      then (case describe_stack a name w of
              (Inl e, w) \<Rightarrow> (Inl e, w)
            | (Inr sk, w) \<Rightarrow> (deployed_sizes as (sk_parameters sk) (flag_sizes as), w))
      else (Inr (flag_sizes as), w))"

text \<open>The hash of the page's key, whose file is made if there is none.\<close>

definition lobby_hash :: "('w, 't) aws_calls \<Rightarrow> string \<Rightarrow> ('w, string) io" where
  "lobby_hash ao path w =
     (if path = [] then (Inl (ErrMsg ''launch page requires --lobby-token-file''), w)
      else (case ensure_host_token (ao_files ao) (ao_tokens ao) path w of
              (Inl e, w) \<Rightarrow> (Inl e, w)
            | (Inr u, w) \<Rightarrow>
                (case fi_read (ao_files ao) path w of
                   (Inl e, w) \<Rightarrow> (Inl e, w)
                 | (Inr data, w) \<Rightarrow> (Inr (hex_encode (bd_sha256 (ao_build ao) (trim_space data))), w))))"

definition public_key :: "('w, 't) aws_calls \<Rightarrow> string \<Rightarrow> ('w, string) io" where
  "public_key ao path w =
     (case fi_read (ao_files ao) path w of
        (Inl e, w) \<Rightarrow> (Inl (ErrWrap ''read --public-key: '' e), w)
      | (Inr material, w) \<Rightarrow>
          (case ao_authorized_key ao material of
             Inl e \<Rightarrow> Inl (ErrWrap ''parse SSH public key: '' e)
           | Inr (kind, text) \<Rightarrow>
               if kind \<noteq> ''ssh-ed25519'' \<and> kind \<noteq> ''ssh-rsa'' then Inl (ErrMsg ''EC2 requires an ED25519 or RSA SSH key'')
               else Inr (trim_space text), w))"

definition print_plan :: "('w, 't) aws \<Rightarrow> ((err + string) \<times> 'w) option \<Rightarrow> ((err + aws_output) \<times> 'w) option" where
  "print_plan a r =
     (case r of
        None \<Rightarrow> None
      | Some (Inl e, w) \<Rightarrow> Some (Inl e, w)
      | Some (Inr i, w) \<Rightarrow> Some (print_change_set a i w))"

definition aws_plan ::
  "('w, 't) aws_calls \<Rightarrow> ('w, 't) aws \<Rightarrow> cloud_config \<Rightarrow> string \<Rightarrow> plan_sizes \<Rightarrow> assignments \<Rightarrow>
     'w \<Rightarrow> ((err + aws_output) \<times> 'w) option" where
  "aws_plan ao a c name z as w =
     (let ids = (if flag_text as ''lobby-instances'' [] = [] then cc_lobby_instances c else flag_text as ''lobby-instances'' []) in
      case public_key ao (flag_text as ''public-key'' []) w of
        (Inl e, w) \<Rightarrow> Some (Inl e, w)
      | (Inr key, w) \<Rightarrow>
          (case (if ids \<noteq> [] \<or> 0 < ps_max_hosts z then lobby_hash ao (flag_text as ''lobby-token-file'' []) w else (Inr [], w)) of
             (Inl e, w) \<Rightarrow> Some (Inl e, w)
           | (Inr hash, w) \<Rightarrow>
               (let o1 = \<lparr>po_operator_cidr = flag_text as ''operator-cidr'' [], po_game_cidr = flag_text as ''game-cidr'' ''0.0.0.0/0'',
                       po_public_key = key, po_instance_type = ps_instance_type z, po_disk = ps_disk z,
                       po_max_hosts = ps_max_hosts z, po_udp_from = flag_int as ''udp-from'' 32768,
                       po_udp_to = flag_int as ''udp-to'' 60999, po_lobby_instances = ids, po_lobby_hash = hash\<rparr>
                in print_plan a
                     (if 0 < ps_max_hosts z
                      then plan_fleet a (stack_short_name name) (if ps_disk z < 24 then o1\<lparr>po_disk := 32\<rparr> else o1) w
                      else plan a (stack_short_name name) o1 w))))"

section \<open>The launch page\<close>

definition current_or_plan :: "('w, 't) aws \<Rightarrow> string \<Rightarrow> (err + string) \<times> 'w \<Rightarrow> (err + aws_output) \<times> 'w" where
  "current_or_plan a message r =
     (case r of
        (Inl e, w) \<Rightarrow> (if err_is e lobby_current then (Inr (Printed message), w) else (Inl e, w))
      | (Inr i, w) \<Rightarrow> print_change_set a i w)"

text \<open>The configuration of a fleet release: the deployed one, changed by a file and by flags.\<close>

definition release_flags ::
  "('w, 't) aws_calls \<Rightarrow> ('w, 't) aws \<Rightarrow> assignments \<Rightarrow> fleet_config \<Rightarrow> ('w, fleet_config) io" where
  "release_flags ao a as cfg w =
     (let hosts = flag_int as ''max-hosts'' 0; cfg = (if 0 < hosts then cfg\<lparr>fc_max_hosts := hosts\<rparr> else cfg);
          path = flag_text as ''fleet-config'' []; expires = flag_duration (ao_dur ao) as ''expires-after'' 0
      in case (if path = [] then (Inr cfg, w)
               else (case fi_read (ao_files ao) path w of
                       (Inl e, w) \<Rightarrow> (Inl e, w)
                     | (Inr data, w) \<Rightarrow> (ao_fleet_json ao data cfg, w))) of
           (Inl e, w) \<Rightarrow> (Inl e, w)
         | (Inr cfg, w) \<Rightarrow>
             if \<not> specified as ''expires-after'' then (Inr cfg, w)
             else if expires < 0 then (Inl (ErrMsg ''expires-after must not be negative''), w)
             else if expires = 0 then (Inr (cfg\<lparr>fc_deadline := 0\<rparr>), w)
             else (let (t, w) = aw_clock a w in (Inr (cfg\<lparr>fc_deadline := unix (t + expires)\<rparr>), w)))"

definition aws_fleet_release ::
  "('w, 't) aws_calls \<Rightarrow> ('w, 't) aws \<Rightarrow> string \<Rightarrow> assignments \<Rightarrow> ('w, aws_output) io" where
  "aws_fleet_release ao a name as w =
     (if flag_bool as ''disable'' False then (Inl (ErrMsg ''use aws destroy to remove a fleet deployment''), w)
      else (case fleet_defaults_of a (ao_release ao) name w of
              (Inl e, w) \<Rightarrow> (Inl e, w)
            | (Inr cfg, w) \<Rightarrow>
                (case release_flags ao a as cfg w of
                   (Inl e, w) \<Rightarrow> (Inl e, w)
                 | (Inr cfg, w) \<Rightarrow>
                     current_or_plan a ''Fleet release is already current.''
                       (plan_fleet_release a (ao_build ao) (ao_release ao) (ao_images ao) (ic_catalog (ao_install ao))
                         (ao_regular ao) name
                         \<lparr>ro_binary = flag_text as ''binary'' [], ro_catalog = flag_text as ''catalog'' [],
                          ro_assets = flag_text as ''assets'' [], ro_config = cfg\<rparr> w))))"

definition aws_lobby ::
  "('w, 't) aws_calls \<Rightarrow> ('w, 't) aws \<Rightarrow> cloud_config \<Rightarrow> string \<Rightarrow> assignments \<Rightarrow> ('w, aws_output) io" where
  "aws_lobby ao a c name as w =
     (if cc_fleet c then aws_fleet_release ao a name as w
      else current_or_plan a ''Launch page already uses this binary.''
             (plan_lobby a (ao_build ao) name (flag_text as ''binary'' []) (flag_bool as ''disable'' False) w))"

section \<open>The configuration file\<close>

definition config_paths :: "('w, 't) aws_calls \<Rightarrow> assignments \<Rightarrow> cloud_config \<Rightarrow> ('w, cloud_config) io" where
  "config_paths ao as c w =
     (case (if flag_text as ''key'' [] = [] then Inr (cc_key_path c) else ao_abs ao (flag_text as ''key'' [])) of
        Inl e \<Rightarrow> (Inl e, w)
      | Inr key \<Rightarrow>
          if flag_text as ''token-file'' [] = [] then (Inr (c\<lparr>cc_key_path := key\<rparr>), w)
          else (case ao_abs ao (flag_text as ''token-file'' []) of
                  Inl e \<Rightarrow> (Inl e, w)
                | Inr token \<Rightarrow>
                    (case ensure_host_token (ao_files ao) (ao_tokens ao) token w of
                       (Inl e, w) \<Rightarrow> (Inl e, w)
                     | (Inr u, w) \<Rightarrow> (Inr (c\<lparr>cc_key_path := key, cc_token_path := token\<rparr>), w))))"

definition aws_config ::
  "('w, 't) aws_calls \<Rightarrow> ('w, 't) aws \<Rightarrow> cloud_config \<Rightarrow> string \<Rightarrow> assignments \<Rightarrow> ('w, aws_output) io" where
  "aws_config ao a c name as w =
     (case read_config a name w of
        (Inl e, w) \<Rightarrow> (Inl e, w)
      | (Inr fresh, w) \<Rightarrow>
          (case config_paths ao as (fresh\<lparr>cc_key_path := cc_key_path c, cc_token_path := cc_token_path c\<rparr>) w of
             (Inl e, w) \<Rightarrow> (Inl e, w)
           | (Inr fresh, w) \<Rightarrow>
               (case ao_config_json ao fresh of
                  Inl e \<Rightarrow> (Inl e, w)
                | Inr data \<Rightarrow>
                    if flag_text as ''out'' [] = [] then (Inr (Printed data), w)
                    else (case fi_write (ao_files ao) (flag_text as ''out'' []) 0x180 (data @ [CHR 0x0A]) w of
                            (Inl e, w) \<Rightarrow> (Inl e, w)
                          | (Inr u, w) \<Rightarrow> (Inr Silent, w)))))"

definition aws_apply ::
  "('w, 't) aws_calls \<Rightarrow> ('w, 't) aws \<Rightarrow> cloud_config \<Rightarrow> string \<Rightarrow> assignments \<Rightarrow> ('w, aws_output) io" where
  "aws_apply ao a c name as w =
     (if flag_text as ''change-set'' [] = [] then (Inl (ErrMsg ''apply requires --change-set from aws plan''), w)
      else (case apply_plan a name (flag_text as ''change-set'' []) w of
              (Inl e, w) \<Rightarrow> (Inl e, w)
            | (Inr u, w) \<Rightarrow> aws_config ao a c name as w))"

section \<open>The host\<close>

definition aws_fleet_host ::
  "('w, 't) aws \<Rightarrow> cloud_config \<Rightarrow> string \<Rightarrow> 'w \<Rightarrow> ((err + aws_output) \<times> 'w) option" where
  "aws_fleet_host a c act w =
     (case read_config a (cc_stack c) w of
        (Inl e, w) \<Rightarrow> Some (Inl e, w)
      | (Inr fresh, w) \<Rightarrow>
          if \<not> cc_fleet fresh \<or> cc_lobby_table fresh \<noteq> cc_lobby_table c
          then Some (Inl (ErrMsg ''fleet config does not match the owned stack''), w)
          else if act = ''status''
          then Some (case fleet_status a fresh w of (Inl e, w) \<Rightarrow> (Inl e, w) | (Inr v, w) \<Rightarrow> (Inr (FleetShown v), w))
          else if act = ''stop''
          then (case fleet_stop a fresh w of
                  None \<Rightarrow> None
                | Some (Inl e, w) \<Rightarrow> Some (Inl e, w)
                | Some (Inr u, w) \<Rightarrow> Some (Inr Silent, w))
          else Some (Inl (ErrMsg ''fleet hosts install and wake automatically; create or start a server in the launch page''), w))"

definition flag_install :: "('w, 't) aws_calls \<Rightarrow> assignments \<Rightarrow> install_options" where
  "flag_install ao as =
     \<lparr>io_binary = flag_text as ''binary'' [], io_engines = flag_text as ''engines'' [], io_assets = flag_text as ''assets'' [],
      io_native_config = flag_text as ''native-config'' [], io_catalog = flag_text as ''catalog'' [],
      io_env_file = flag_text as ''env-file'' [], io_pull_images = flag_bool as ''pull-images'' False,
      io_max_runtime = flag_duration (ao_dur ao) as ''host-max-runtime'' (360 * minute)\<rparr>"

text \<open>\<open>NewHost\<close>.\<close>

definition open_host :: "('w, 't) aws_calls \<Rightarrow> cloud_config \<Rightarrow> ('w, unit) io" where
  "open_host ao c w =
     (case ao_sdk ao (cc_region c) w of (Inl e, w) \<Rightarrow> (Inl e, w) | (Inr a, w) \<Rightarrow> verify_ownership (ao_host ao c) w)"

definition aws_host ::
  "('w, 't) aws_calls \<Rightarrow> cloud_config \<Rightarrow> string \<Rightarrow> assignments \<Rightarrow> 'w \<Rightarrow> ((err + aws_output) \<times> 'w) option" where
  "aws_host ao c act as w =
     (let h = ao_host ao c;
          print = (\<lambda>r. case r of None \<Rightarrow> None | Some (Inl e, w) \<Rightarrow> Some (Inl e, w) | Some (Inr s, w) \<Rightarrow> Some (Inr (Printed s), w))
      in if cc_instance_id c = [] then Some (Inl (ErrMsg (act @ '' requires --config'')), w)
         else (case open_host ao c w of
                 (Inl e, w) \<Rightarrow> Some (Inl e, w)
               | (Inr u, w) \<Rightarrow>
                   if act = ''install''
                   then print (install_host (ao_install ao) (ao_ssh ao) (ao_archive ao) h c (flag_install ao as) w)
                   else if act = ''wake'' then print (cloud_wake h w)
                   else if act = ''stop''
                   then Some (case cloud_stop h w of (Inl e, w) \<Rightarrow> (Inl e, w) | (Inr u, w) \<Rightarrow> (Inr Silent, w))
                   else Some (case host_inspect h w of (Inl e, w) \<Rightarrow> (Inl e, w) | (Inr s, w) \<Rightarrow> (Inr (HostShown s), w))))"

section \<open>The command\<close>

definition aws_action ::
  "('w, 't) aws_calls \<Rightarrow> ('w, 't) aws \<Rightarrow> cloud_config \<Rightarrow> string \<Rightarrow> string \<Rightarrow> assignments \<Rightarrow>
     'w \<Rightarrow> ((err + aws_output) \<times> 'w) option" where
  "aws_action ao a c act name as w =
     (case aws_sizes a c act name as w of
        (Inl e, w) \<Rightarrow> Some (Inl e, w)
      | (Inr z, w) \<Rightarrow>
          if act = ''lobby'' then Some (aws_lobby ao a c name as w)
          else if act = ''plan'' then aws_plan ao a c name z as w
          else if act = ''apply'' then Some (aws_apply ao a c name as w)
          else if act = ''config'' then Some (aws_config ao a c name as w)
          else if act = ''destroy''
          then (case destroy a name w of
                  None \<Rightarrow> None
                | Some (Inl e, w) \<Rightarrow> Some (Inl e, w)
                | Some (Inr u, w) \<Rightarrow> Some (Inr Silent, w))
          else if act \<in> set [''install'', ''status'', ''wake'', ''stop'']
          then (if cc_fleet c then aws_fleet_host a c act w else aws_host ao c act as w)
          else Some (Inl (ErrMsg (''unknown aws command '' @ quoted act)), w))"

definition aws_command ::
  "('w, 't) aws_calls \<Rightarrow> string list \<Rightarrow> 'w \<Rightarrow> ((err + aws_output) \<times> 'w) option" where
  "aws_command ao args w =
     (case args of
        [] \<Rightarrow> Some (Inl (ErrMsg ''aws requires plan, apply, config, install, lobby, status, wake, stop, or destroy''), w)
      | act # rest \<Rightarrow>
          (case parse_flags (aws_flags (ao_dur ao)) rest of
             Inl e \<Rightarrow> Some (case flag_failure e of Inl m \<Rightarrow> Inl m | Inr u \<Rightarrow> Inr Silent, w)
           | Inr (as, left) \<Rightarrow>
               if left \<noteq> [] then Some (Inl (ErrMsg ''unexpected arguments''), w)
               else (case aws_context ao act as w of
                       (Inl e, w) \<Rightarrow> Some (Inl e, w)
                     | (Inr (a, c, name), w) \<Rightarrow> aws_action ao a c act name as w)))"

section \<open>The flags of wake\<close>

text \<open>A route's flag assigns its target; a later route of one name replaces it. \<open>url_ok\<close> is the check of the
  controller's address.\<close>

definition wake_flags :: flag_set where
  "wake_flags n =
     (if n = ''config'' \<or> n = ''url'' \<or> n = ''token-file'' then Some text_flag
      else if n = ''route'' then Some \<lparr>fk_bool = False, fk_accepts = (\<lambda>s. case parse_route s of Inl e \<Rightarrow> False | Inr r \<Rightarrow> True)\<rparr>
      else None)"

definition wake_routes :: "assignments \<Rightarrow> (string \<times> wake_target \<times> mapping) list" where
  "wake_routes as = List.map_filter (\<lambda>(n, v). if n = ''route'' then (case parse_route v of Inl e \<Rightarrow> None | Inr r \<Rightarrow> Some r) else None) as"

record wake_setup =
  wu_targets :: "string \<Rightarrow> wake_target option"
  wu_mappings :: "mapping list"
  wu_token :: string
  wu_host :: "cloud_config option"

definition wake_host :: "('w, 't) aws_calls \<Rightarrow> assignments \<Rightarrow> ('w, cloud_config option) io" where
  "wake_host ao as w =
     (if flag_text as ''config'' [] = [] then (Inr None, w)
      else if specified as ''url'' \<or> specified as ''token-file''
      then (Inl (ErrMsg ''--config cannot be combined with --url or --token-file''), w)
      else (case load_config (fi_read (ao_files ao)) (ao_parse_config ao) (flag_text as ''config'' []) w of
              (Inl e, w) \<Rightarrow> (Inl e, w)
            | (Inr c, w) \<Rightarrow>
                (case open_host ao c w of (Inl e, w) \<Rightarrow> (Inl e, w) | (Inr u, w) \<Rightarrow> (Inr (Some c), w))))"

definition wake_command ::
  "('w, 't) aws_calls \<Rightarrow> (string \<Rightarrow> bool) \<Rightarrow> (string \<Rightarrow> err option) \<Rightarrow> string list \<Rightarrow> ('w, wake_setup option) io" where
  "wake_command ao url_ok resolve_udp args w =
     (case parse_flags wake_flags args of
        Inl e \<Rightarrow> (case flag_failure e of Inl m \<Rightarrow> Inl m | Inr u \<Rightarrow> Inr None, w)
      | Inr (as, left) \<Rightarrow>
          if left \<noteq> [] then (Inl (ErrMsg ''unexpected arguments''), w)
          else if \<not> url_ok (flag_text as ''url'' ''http://127.0.0.1:3000'')
          then (Inl (ErrMsg ''url must be an HTTP(S) controller address''), w)
          else if wake_routes as = [] then (Inl (ErrMsg ''at least one --route is required''), w)
          else (case wake_host ao as w of
                  (Inl e, w) \<Rightarrow> (Inl e, w)
                | (Inr h, w) \<Rightarrow>
                    (let path = (case h of None \<Rightarrow> flag_text as ''token-file'' ''.insta-game/token'' | Some c \<Rightarrow> cc_token_path c) in
                     case token_at (ao_files ao) (ao_tokens ao) path False w of
                       (Inl e, w) \<Rightarrow> (Inl e, w)
                     | (Inr token, w) \<Rightarrow>
                         (case new_gateway resolve_udp True (map (\<lambda>r. snd (snd r)) (wake_routes as)) of
                            Inl e \<Rightarrow> (Inl e, w)
                          | Inr ms \<Rightarrow>
                              (Inr (Some \<lparr>wu_targets = map_of (rev (map (\<lambda>r. (fst r, fst (snd r))) (wake_routes as))),
                                 wu_mappings = ms, wu_token = token, wu_host = h\<rparr>), w)))))"

end
