(* ===== verification/Spec2Isabelle.thy ===== *)
theory Spec2Isabelle
  imports FleetProperties ControlProperties ControlCatalog WakeProperties GatewayProperties AgentLog Query FleetHost
    PageProperties DockerPrepare AgentRcon WakeCommand ControlHTTP AgentRun NativeSafety CloudSafety CloudRelease SecureHTTP
    TokenFile Command FleetJoin Install AwsCommand
begin

text \<open>
  A verification library for insta-game, a controller of on-demand game servers (Go, src/).

  The program. A fleet scheduler keeps a registry of hosts and servers in one DynamoDB item, starts EC2
  machines for them and removes what is no longer wanted. A host runs a controller: a database of
  instances, user intents, and a reconciler that drives Docker and the agent inside each container
  towards the intent. The host's worker takes over the registry's requests and publishes reports.
  A wake gateway holds the game ports of sleeping games, starts a game at the first connection, keeps
  the client waiting in the game's own protocol and then relays, rewriting sequence numbers or player
  IDs. The agent queries its game server and keeps its log. Two pages show and request games: the
  fleet's, over the registry, and the lobby's, over a second table and a single host. A deployment is a
  CloudFormation stack that the aws command plans, changes and destroys; the wake, serve and client
  commands set the parts up and talk to them.

  Conventions (Prelude, GoStrings, Bytes). Every call of an interface is a function on an explicit world
  'w that returns a result and the next world, Inl an error, Inr a value; other clients may act
  between two calls, which the locales state as a relation on worlds. Errors are values of err, compared
  by err_is as errors.Is does. Times are nanoseconds, strings are byte strings, packets are
  lists of 8-bit words, sequence numbers 32-bit words that wrap.

  Theories and code.
  \<^item> FleetState, FleetTable, FleetScheduler, FleetEC2: internal/fleet/state.go, table.go, scheduler.go,
    ec2.go. FleetRegistry has the contract of a store (locale fleet_store) and of DynamoDB (dynamo_service);
    a sublocale proves that the table implements the contract. FleetSafety and FleetReconcile prove every
    operation of the scheduler against any environment that keeps fleet_step; FleetWorld and FleetAlone
    interpret all of it on an in-memory table, machines and clock. FleetProperties holds the properties.
  \<^item> ControlStore, Controller, ControlCatalog: internal/control/model.go, store.go, controller.go, catalog.go.
    ControlSafety has the locales of the database and the controller; ControlProperties interprets them and
    holds the properties.
  \<^item> FleetHost: internal/fleet/worker.go, internal/command/idle.go and the power-off callback of
    fleet_host.go, over the two former groups.
  \<^item> WakeWire, BZWire, WakeSession (properties in WakeProperties): internal/wake/wire.go, ut99.go,
    bzflag_wire.go and the translation of session.go. WakeGateway, WakeAdmission, WakeResolve, WakeRelay
    (properties in GatewayProperties): gateway.go, relay.go, darkplaces.go, bzflag.go and the handshake of
    session.go. Goroutines and sockets are events: gw_step is the step relation of the gateway.
  \<^item> AgentLog, Query: internal/agent/logs.go, query.go and internal/protocol.
  \<^item> Docker, DockerPrepare, Native, NativeSafety: the two providers of internal/control (docker.go,
    docker_prepare.go, native.go). ControlHTTP: internal/control/http.go and discord.go.
  \<^item> Paths (Go's path/filepath), GameFiles, AgentFiles, AgentDownload, AgentProcess, AgentRcon, AgentRun:
    internal/gamefiles and internal/agent. A child process, its pipe and the goroutine that waits for it
    are events: ag_step is the step relation of the process. WakeCommand: internal/command/wake.go and
    internal/cloud/host.go.
  \<^item> Cidr (net.ParseCIDR), Cloud, CloudRelease (properties in CloudSafety and CloudRelease): internal/cloud but for
    host.go - reading, planning, changing and destroying a stack, and a fleet's releases. The locales
    cloud_reads and aws_account say what the calls of an account may change; draining a fleet rests on
    the registry's promise that no host is added once deletion has started.
  \<^item> SecureHTTP: internal/securehttp. TokenFile: the token files of command.go and aws.go, with the locale
    token_world for files that other processes may also create. Flags: Go's flag package and strconv.ParseInt.
  \<^item> Command: cmd/insta-game and internal/command/command.go and discord.go; its property runs the client
    against the routes and handlers of ControlHTTP. AwsCommand: aws.go, fleet_status.go, lambda.go and the
    flags of wake.go. FleetJoin: fleet_host.go, from the machine's identity to the worker of FleetHost.
    Install: aws_install.go, with the locale tar_world for what an archive holds.
  \<^item> FleetPage: internal/fleet/http.go. LobbyStore, LobbyWorker, LobbyPage: internal/lobby. PageProperties
    holds their properties.

  What the lemmas show. The registry keeps its invariant under any interleaving, no server is lost or
  resurrected, capacity is never exceeded, and reconciliation ends. Stored intents are never withdrawn
  by a reconciler that works on outdated snapshots. A host reports a game as running, and a page shows
  it, only on evidence no older than it says; a host switches off only when idle and with nothing
  pending. The gateway counts its clients exactly, never mixes them up, paces starts, and its
  translations are undone by translating back. Logs and queries read back what was written. A pending
  lobby request is not overwritten. Each provider touches only what carries the instance's secret; a
  native game's ports keep their distances and none is left open. Requests without the token or a fresh
  signature change nothing, and the others are answered by what was recorded. Archives cannot write
  outside their destination, seeds keep existing files, and one game process runs at a time. Only
  reviewed, tagged change sets are applied, a fleet's stack is deleted only when its registry is closed and
  names no host, and a release is complete for its catalog. A machine acts for a host exactly when the
  scheduler takes it for that host. A token file names one token, a client pins the key made of it, and
  its requests reach the handlers they are meant for.

  Bounds and fuel. The retry loops of the scheduler run on the source's own bound of eight attempts, the
  batch read on three. The reconciliation loop is a partial function with a proof that it returns.
  The handshake loops run over the list of outcomes their sockets give. Loops that the source does not
  bound are partial functions whose None is not returning: waking a host and reading its console,
  dialing SSH, waiting for a native game, the pages of change sets and objects, and draining a fleet's
  hosts; the properties that rest on them speak of runs that return. Everything else is total.

  Not modelled: JSON, bbolt, DynamoDB, EC2, CloudFormation, S3, HTTP, X.509, Docker, SSH, tar, files, sockets,
  processes and the clock are parameters with their documented behaviour as named hypotheses. The text of %q
  is kept without escapes except in the game's configuration. Left out are usage texts, response headers,
  embedded pages (internal/launchui), the two long shell scripts of the installation, starting listeners
  and goroutines, and the Lambda runtime: they are constants, or calls whose effect lies in those
  libraries. Reconcile workers and a host's passes are taken one after the other where the source runs
  them side by side on disjoint records; so are an installation's sender and its remote tar. Where
  sort.Slice or the iteration over a Go map leaves an order open, the model keeps the input's or takes
  the keys in their order.
\<close>

end
